(* ===== verification/Prelude.thy ===== *)
theory Prelude
  imports Main "HOL-Library.Char_ord" "HOL-Library.List_Lexorder" "HOL-Library.Word"
    "HOL-Library.Multiset" "HOL-Library.Code_Target_Nat"
begin

text \<open>
  Shared vocabulary of the development: the error values of the modelled Go code, the result
  type, the collections of facts the component theories fill, and the generic facts on lists,
  finds and sums that several components use.
\<close>

section \<open>Errors and results\<close>

text \<open>
  Go's \<open>error\<close> values. \<open>ErrNoRows\<close> is \<open>sql.ErrNoRows\<close>; \<open>ErrConstraint\<close> is a constraint
  violation reported by SQLite, with the violated constraint's kind; \<open>Err\<close> is every error made by
  \<open>errors.New\<close> or \<open>fmt.Errorf\<close>, with its text; \<open>Panic\<close> is a run-time panic of a called
  package, which unwinds the goroutine.
\<close>

datatype go_error =
    ErrNoRows
  | ErrConstraint string
  | Err string
  | Panic string

type_synonym 'a res = "go_error + 'a"

text \<open>A Go function \<open>(T, error)\<close> that changes a state \<open>'s\<close>: the result and the state after it.\<close>

type_synonym ('s, 'a) outcome = "'a res \<times> 's"

definition is_ok :: "'a res \<Rightarrow> bool" where
  "is_ok r = (case r of Inl _ \<Rightarrow> False | Inr _ \<Rightarrow> True)"

lemma is_ok_simps [simp]: "is_ok (Inl e) = False" "is_ok (Inr x) = True"
  by (simp_all add: is_ok_def)

lemma is_ok_iff: "is_ok r \<longleftrightarrow> (\<exists>x. r = Inr x)"
  by (cases r) auto

section \<open>Collections of facts\<close>

named_theorems go_string_defs \<open>definitions of the Go string functions, for evaluating closed terms\<close>
named_theorems sql_defs \<open>definitions of the SQL statements and the store's operations\<close>
named_theorems store_inv_intros \<open>one preservation rule of the store invariant per operation\<close>

section \<open>Lists\<close>

lemma find_Some_iff_ex: "(\<exists>x. find P xs = Some x) \<longleftrightarrow> (\<exists>x\<in>set xs. P x)"
  by (metis find_None_iff option.exhaust option.distinct(1))

lemma find_SomeD: "find P xs = Some x \<Longrightarrow> x \<in> set xs \<and> P x"
  by (induction xs) (auto split: if_splits)

lemma find_NoneD: "find P xs = None \<Longrightarrow> x \<in> set xs \<Longrightarrow> \<not> P x"
  by (auto simp: find_None_iff)

lemma find_unique:
  assumes "x \<in> set xs" "P x" "\<And>y. y \<in> set xs \<Longrightarrow> P y \<Longrightarrow> y = x"
  shows "find P xs = Some x"
proof -
  obtain y where "find P xs = Some y"
    using assms(1,2) find_Some_iff_ex[of P xs] by blast
  then show ?thesis using assms(3) find_SomeD[of P xs y] by simp
qed

lemma find_cong_set: "(\<And>x. x \<in> set xs \<Longrightarrow> P x = Q x) \<Longrightarrow> find P xs = find Q xs"
  by (induction xs) auto

lemma inj_on_map_filter: "inj_on f (set xs) \<Longrightarrow> inj_on f (set (filter P xs))"
  by (auto simp: inj_on_def)

lemma distinct_map_filterI: "distinct (map f xs) \<Longrightarrow> distinct (map f (filter P xs))"
  by (induction xs) auto

lemma distinct_map_eqD:
  "distinct (map f xs) \<Longrightarrow> x \<in> set xs \<Longrightarrow> y \<in> set xs \<Longrightarrow> f x = f y \<Longrightarrow> x = y"
  by (auto simp: distinct_map inj_on_def)

lemma map_map_same_key:
  "(\<And>x. x \<in> set xs \<Longrightarrow> f (g x) = f x) \<Longrightarrow> map f (map g xs) = map f xs"
  by simp

text \<open>Updating the rows that satisfy a condition, as SQL's \<open>UPDATE ... WHERE\<close>.\<close>

definition update_where :: "('r \<Rightarrow> bool) \<Rightarrow> ('r \<Rightarrow> 'r) \<Rightarrow> 'r list \<Rightarrow> 'r list" where
  "update_where P f rs = map (\<lambda>r. if P r then f r else r) rs"

lemma update_where_simps [simp]:
  "update_where P f [] = []"
  "update_where P f (r # rs) = (if P r then f r else r) # update_where P f rs"
  by (simp_all add: update_where_def)

lemma set_update_where:
  "set (update_where P f rs) = {r \<in> set rs. \<not> P r} \<union> f ` {r \<in> set rs. P r}"
  by (auto simp: update_where_def)

lemma length_update_where [simp]: "length (update_where P f rs) = length rs"
  by (simp add: update_where_def)

lemma map_update_where_same:
  "(\<And>r. k (f r) = k r) \<Longrightarrow> map k (update_where P f rs) = map k rs"
  by (simp add: update_where_def)

lemma image_update_where:
  "(\<And>r. k (f r) = k r) \<Longrightarrow> k ` set (update_where P f rs) = k ` set rs"
  by (metis list.set_map map_update_where_same)

lemma update_where_none: "(\<And>r. r \<in> set rs \<Longrightarrow> \<not> P r) \<Longrightarrow> update_where P f rs = rs"
  by (simp add: update_where_def map_idI)

text \<open>Joining strings with a separator, Go's \<open>strings.Join\<close>.\<close>

fun join :: "string \<Rightarrow> string list \<Rightarrow> string" where
  "join sep [] = []"
| "join sep [x] = x"
| "join sep (x # y # zs) = x @ sep @ join sep (y # zs)"

end
