(* ===== verification/Go_Strings.thy ===== *)
theory Go_Strings
  imports Prelude Unicode_Tables
begin

text \<open>
  The functions of Go's \<^verbatim>\<open>strings\<close>, \<^verbatim>\<open>strconv\<close> and \<^verbatim>\<open>unicode/utf8\<close> packages that the
  program calls. A Go string is a sequence of bytes, here a \<^typ>\<open>string\<close> (a \<^typ>\<open>char\<close> is one
  byte); the functions that look at code points decode UTF-8 as Go does, an invalid byte being the
  code point U+FFFD of width one.
\<close>

section \<open>Bytes and UTF-8\<close>

abbreviation byte :: "char \<Rightarrow> nat" where
  "byte c \<equiv> of_char c"

abbreviation chr :: "nat \<Rightarrow> char" where
  "chr n \<equiv> char_of n"

definition RuneError :: nat where
  "RuneError = 0xFFFD"

text \<open>Width of the sequence a lead byte starts, and the range its second byte must lie in.\<close>

definition utf8_lead :: "nat \<Rightarrow> (nat \<times> nat \<times> nat) option" where
  "utf8_lead b =
     (if 0xC2 \<le> b \<and> b \<le> 0xDF then Some (2, 0x80, 0xBF)
      else if b = 0xE0 then Some (3, 0xA0, 0xBF)
      else if b = 0xED then Some (3, 0x80, 0x9F)
      else if 0xE1 \<le> b \<and> b \<le> 0xEF then Some (3, 0x80, 0xBF)
      else if b = 0xF0 then Some (4, 0x90, 0xBF)
      else if 0xF1 \<le> b \<and> b \<le> 0xF3 then Some (4, 0x80, 0xBF)
      else if b = 0xF4 then Some (4, 0x80, 0x8F)
      else None)"

definition utf8_cont :: "nat \<Rightarrow> bool" where
  "utf8_cont b \<longleftrightarrow> 0x80 \<le> b \<and> b \<le> 0xBF"

text \<open>\<^verbatim>\<open>utf8.DecodeRune\<close>: the code point at the front of the bytes and its width.\<close>

definition DecodeRune :: "string \<Rightarrow> nat \<times> nat" where
  "DecodeRune s =
     (case map byte s of
        [] \<Rightarrow> (RuneError, 0)
      | b0 # bs \<Rightarrow>
          if b0 < 0x80 then (b0, 1)
          else (case utf8_lead b0 of
              None \<Rightarrow> (RuneError, 1)
            | Some (n, lo, hi) \<Rightarrow>
                (case bs of
                   [] \<Rightarrow> (RuneError, 1)
                 | b1 # bs1 \<Rightarrow>
                     if \<not> (lo \<le> b1 \<and> b1 \<le> hi) then (RuneError, 1)
                     else if n = 2 then (b0 mod 32 * 64 + b1 mod 64, 2)
                     else (case bs1 of
                         [] \<Rightarrow> (RuneError, 1)
                       | b2 # bs2 \<Rightarrow>
                           if \<not> utf8_cont b2 then (RuneError, 1)
                           else if n = 3 then (b0 mod 16 * 4096 + b1 mod 64 * 64 + b2 mod 64, 3)
                           else (case bs2 of
                               [] \<Rightarrow> (RuneError, 1)
                             | b3 # _ \<Rightarrow>
                                 if \<not> utf8_cont b3 then (RuneError, 1)
                                 else (b0 mod 8 * 262144 + b1 mod 64 * 4096 + b2 mod 64 * 64
                                       + b3 mod 64, 4))))))"

text \<open>\<^verbatim>\<open>utf8.FullRune\<close>: whether the bytes begin with a full encoding (or an invalid one).\<close>

definition FullRune :: "string \<Rightarrow> bool" where
  "FullRune s =
     (case map byte s of
        [] \<Rightarrow> False
      | b0 # bs \<Rightarrow>
          (case utf8_lead b0 of
             None \<Rightarrow> True
           | Some (n, lo, hi) \<Rightarrow>
               n \<le> length s
               \<or> (case bs of [] \<Rightarrow> False
                  | b1 # bs1 \<Rightarrow> \<not> (lo \<le> b1 \<and> b1 \<le> hi)
                      \<or> (case bs1 of [] \<Rightarrow> False | b2 # _ \<Rightarrow> \<not> utf8_cont b2))))"

text \<open>\<^verbatim>\<open>utf8.AppendRune\<close>: surrogates and values past U+10FFFF are written as U+FFFD.\<close>

definition EncodeRune :: "nat \<Rightarrow> string" where
  "EncodeRune r0 =
     (let r = (if 0xD800 \<le> r0 \<and> r0 \<le> 0xDFFF \<or> 0x10FFFF < r0 then RuneError else r0) in
      map chr
        (if r < 0x80 then [r]
         else if r < 0x800 then [0xC0 + r div 64, 0x80 + r mod 64]
         else if r < 0x10000 then [0xE0 + r div 4096, 0x80 + r div 64 mod 64, 0x80 + r mod 64]
         else [0xF0 + r div 262144, 0x80 + r div 4096 mod 64, 0x80 + r div 64 mod 64,
               0x80 + r mod 64]))"

text \<open>Ranging over a string: its code points, each with the bytes it was decoded from.\<close>

fun chunks :: "string \<Rightarrow> (nat \<times> string) list" where
  "chunks [] = []"
| "chunks (c # cs) =
     (let (r, n) = DecodeRune (c # cs)
      in (r, c # take (n - 1) cs) # chunks (drop (n - 1) cs))"

definition runes :: "string \<Rightarrow> nat list" where
  "runes s = map fst (chunks s)"

definition of_runes :: "nat list \<Rightarrow> string" where
  "of_runes rs = concat (map EncodeRune rs)"

text \<open>\<^verbatim>\<open>utf8.ValidString\<close>.\<close>

definition ValidString :: "string \<Rightarrow> bool" where
  "ValidString s = list_all (\<lambda>(r, bs). \<not> (r = RuneError \<and> length bs = 1)) (chunks s)"

definition ascii :: "string \<Rightarrow> bool" where
  "ascii s = list_all (\<lambda>c. byte c < 0x80) s"

section \<open>The strings package\<close>

definition ascii_lower :: "char \<Rightarrow> char" where
  "ascii_lower c = (if 65 \<le> byte c \<and> byte c \<le> 90 then chr (byte c + 32) else c)"

definition ToLower :: "string \<Rightarrow> string" where
  "ToLower s =
     (if ascii s then map ascii_lower s
      else concat (map (\<lambda>(r, _). EncodeRune (unicode_ToLower r)) (chunks s)))"

definition TrimFunc :: "(nat \<Rightarrow> bool) \<Rightarrow> string \<Rightarrow> string" where
  "TrimFunc p s =
     (let front = dropWhile (\<lambda>(r, _). p r) (chunks s)
      in concat (map snd (rev (dropWhile (\<lambda>(r, _). p r) (rev front)))))"

definition TrimSpace :: "string \<Rightarrow> string" where
  "TrimSpace s = TrimFunc unicode_IsSpace s"

text \<open>\<^verbatim>\<open>strings.Split\<close> with a one-byte separator (the program uses no other).\<close>

fun Split :: "string \<Rightarrow> char \<Rightarrow> string list" where
  "Split [] sep = [[]]"
| "Split (c # cs) sep =
     (if c = sep then [] # Split cs sep
      else (case Split cs sep of [] \<Rightarrow> [[c]] | p # ps \<Rightarrow> (c # p) # ps))"

text \<open>\<^verbatim>\<open>strings.Fields\<close>: the maximal runs of code points that are not white space.\<close>

fun fields_of :: "(nat \<times> string) list \<Rightarrow> string \<Rightarrow> string list" where
  "fields_of [] acc = (if acc = [] then [] else [acc])"
| "fields_of ((r, bs) # cs) acc =
     (if unicode_IsSpace r then (if acc = [] then fields_of cs [] else acc # fields_of cs [])
      else fields_of cs (acc @ bs))"

definition Fields :: "string \<Rightarrow> string list" where
  "Fields s = fields_of (chunks s) []"

fun HasPrefix :: "string \<Rightarrow> string \<Rightarrow> bool" where
  "HasPrefix s [] = True"
| "HasPrefix [] (p # ps) = False"
| "HasPrefix (c # cs) (p # ps) = (c = p \<and> HasPrefix cs ps)"

definition ContainsAny :: "string \<Rightarrow> string \<Rightarrow> bool" where
  "ContainsAny s cs = list_ex (\<lambda>c. c \<in> set cs) s"

fun Contains :: "string \<Rightarrow> string \<Rightarrow> bool" where
  "Contains [] sub = (sub = [])"
| "Contains (c # cs) sub = (HasPrefix (c # cs) sub \<or> Contains cs sub)"

text \<open>\<^verbatim>\<open>strings.Index\<close>: the first position at which the substring starts.\<close>

fun Index :: "string \<Rightarrow> string \<Rightarrow> nat option" where
  "Index [] sub = (if sub = [] then Some 0 else None)"
| "Index (c # cs) sub =
     (if HasPrefix (c # cs) sub then Some 0 else map_option Suc (Index cs sub))"

section \<open>Decimal numbers\<close>

definition digit :: "nat \<Rightarrow> char" where
  "digit d = chr (48 + d)"

definition is_digit :: "char \<Rightarrow> bool" where
  "is_digit c \<longleftrightarrow> 48 \<le> byte c \<and> byte c \<le> 57"

fun digits :: "nat \<Rightarrow> string" where
  "digits n = (if n < 10 then [digit n] else digits (n div 10) @ [digit (n mod 10)])"

declare digits.simps [simp del]

definition digits_val :: "string \<Rightarrow> nat" where
  "digits_val s = foldl (\<lambda>v c. 10 * v + (byte c - 48)) 0 s"

text \<open>\<^verbatim>\<open>strconv.Itoa\<close> and \<^verbatim>\<open>fmt\<close>'s \<open>%d\<close>.\<close>

definition itoa :: "int \<Rightarrow> string" where
  "itoa i = (if i < 0 then CHR ''-'' # digits (nat (- i)) else digits (nat i))"

text \<open>\<^verbatim>\<open>strconv.Atoi\<close>: an optional sign and at least one digit, in the range of a 64-bit integer.\<close>

definition atoi :: "string \<Rightarrow> int option" where
  "atoi s =
     (let neg = (case s of c # _ \<Rightarrow> c = CHR ''-'' | [] \<Rightarrow> False);
          body = (case s of c # cs \<Rightarrow> if c = CHR ''-'' \<or> c = CHR ''+'' then cs else s | [] \<Rightarrow> [])
      in if body = [] \<or> \<not> list_all is_digit body then None
         else let v = (if neg then - int (digits_val body) else int (digits_val body))
              in if - (2 ^ 63) \<le> v \<and> v < 2 ^ 63 then Some v else None)"

text \<open>\<^verbatim>\<open>fmt\<close>'s \<open>%0wd\<close> for a natural number: padded with zeros to the width.\<close>

definition zero_pad :: "nat \<Rightarrow> nat \<Rightarrow> string" where
  "zero_pad w n = replicate (w - length (digits n)) (CHR ''0'') @ digits n"

lemmas [go_string_defs] =
  RuneError_def utf8_lead_def utf8_cont_def DecodeRune_def FullRune_def EncodeRune_def runes_def
  of_runes_def ValidString_def ascii_def ascii_lower_def ToLower_def TrimFunc_def TrimSpace_def
  Fields_def ContainsAny_def digit_def is_digit_def itoa_def atoi_def digits_val_def zero_pad_def
  unicode_ToLower_def unicode_IsSpace_def unicode_IsControl_def char_of_def

section \<open>Facts on UTF-8\<close>

lemma byte_less_256 [simp]: "byte c < 256"
  using nat_of_char_less_256 by simp

lemma chr_byte [simp]: "chr (byte c) = c"
  by simp

lemma byte_chr: "n < 256 \<Longrightarrow> byte (chr n) = n"
  by simp

lemma concat_chunks [simp]: "concat (map snd (chunks s)) = s"
  by (induction s rule: chunks.induct) (auto simp: Let_def split: prod.splits)

lemma chunks_nonempty: "(r, bs) \<in> set (chunks s) \<Longrightarrow> bs \<noteq> []"
  by (induction s rule: chunks.induct) (auto simp: Let_def split: prod.splits)

lemma chunks_eq_Nil [simp]: "chunks s = [] \<longleftrightarrow> s = []"
  by (cases s) (auto simp: Let_def split: prod.splits)

lemma DecodeRune_ascii [simp]: "byte c < 0x80 \<Longrightarrow> DecodeRune (c # cs) = (byte c, 1)"
  by (simp add: DecodeRune_def)

lemma ascii_simps [simp]:
  "ascii []" "ascii (c # cs) \<longleftrightarrow> byte c < 0x80 \<and> ascii cs" "ascii (s @ t) \<longleftrightarrow> ascii s \<and> ascii t"
  by (auto simp: ascii_def)

lemma ascii_rev [simp]: "ascii (rev s) = ascii s"
  by (simp add: ascii_def)

lemma ascii_dropWhile: "ascii s \<Longrightarrow> ascii (dropWhile p s)"
  by (induction s) auto

lemma chunks_ascii: "ascii s \<Longrightarrow> chunks s = map (\<lambda>c. (byte c, [c])) s"
  by (induction s) auto

lemma chunks_ascii_prefix:
  "ascii s \<Longrightarrow> chunks (s @ t) = map (\<lambda>c. (byte c, [c])) s @ chunks t"
  by (induction s) auto

lemma ValidString_ascii: "ascii s \<Longrightarrow> ValidString s"
  by (auto simp: ValidString_def chunks_ascii ascii_def list_all_iff RuneError_def)

section \<open>Facts on trimming and lower-casing\<close>

lemma dropWhile_map_comp: "dropWhile p (map f xs) = map f (dropWhile (p \<circ> f) xs)"
  by (induction xs) auto

lemma TrimSpace_ascii:
  assumes "ascii s"
  shows "TrimSpace s =
    rev (dropWhile (unicode_IsSpace \<circ> byte) (rev (dropWhile (unicode_IsSpace \<circ> byte) s)))"
proof -
  let ?g = "\<lambda>c. (byte c, [c])"
  have p: "(\<lambda>(r, _). unicode_IsSpace r) \<circ> ?g = unicode_IsSpace \<circ> of_char"
    by (rule ext) simp
  have c: "concat (map (\<lambda>c. [c]) xs) = xs" for xs :: string
    by (induction xs) auto
  show ?thesis
    unfolding TrimSpace_def TrimFunc_def chunks_ascii [OF assms] Let_def dropWhile_map_comp p
      rev_map dropWhile_map_comp [of _ ?g] map_map
    by (simp add: comp_def c)
qed

lemma TrimSpace_no_space:
  assumes "ascii s" "\<And>c. c \<in> set s \<Longrightarrow> \<not> unicode_IsSpace (byte c)"
  shows "TrimSpace s = s"
proof -
  have d: "dropWhile (unicode_IsSpace \<circ> byte) t = t" if "set t \<subseteq> set s" for t
    using that assms(2) by (cases t) auto
  have "dropWhile (unicode_IsSpace \<circ> byte) (rev s) = rev s" by (rule d) simp
  then show ?thesis by (simp add: TrimSpace_ascii assms(1) d)
qed

lemma TrimSpace_Nil [simp]: "TrimSpace [] = []"
  by (simp add: TrimSpace_def TrimFunc_def)

lemma byte_ascii_lower:
  "byte (ascii_lower c) = (if 65 \<le> byte c \<and> byte c \<le> 90 then byte c + 32 else byte c)"
  by (simp add: ascii_lower_def)

lemma ascii_lower_idem [simp]: "ascii_lower (ascii_lower c) = ascii_lower c"
  by (simp add: ascii_lower_def)

lemma ascii_map_lower [simp]: "ascii s \<Longrightarrow> ascii (map ascii_lower s)"
  by (auto simp: ascii_def list_all_iff byte_ascii_lower)

lemma ToLower_ascii: "ascii s \<Longrightarrow> ToLower s = map ascii_lower s"
  by (simp add: ToLower_def)

lemma ToLower_ascii_idem: "ascii s \<Longrightarrow> ToLower (ToLower s) = ToLower s"
  by (simp add: ToLower_ascii comp_def)

lemma ToLower_fixed:
  assumes "ascii s" "\<And>c. c \<in> set s \<Longrightarrow> \<not> (65 \<le> byte c \<and> byte c \<le> 90)"
  shows "ToLower s = s"
  using assms by (auto simp: ToLower_ascii ascii_lower_def intro!: map_idI)

lemma ToLower_Nil [simp]: "ToLower [] = []"
  by (simp add: ToLower_def)

text \<open>No result of \<^const>\<open>ToLower\<close> on ASCII text has an upper-case letter.\<close>

lemma ToLower_ascii_no_upper:
  "ascii s \<Longrightarrow> c \<in> set (ToLower s) \<Longrightarrow> \<not> (65 \<le> byte c \<and> byte c \<le> 90)"
  by (auto simp: ToLower_ascii byte_ascii_lower split: if_splits)

section \<open>Facts on splitting\<close>

lemma Split_nonempty [simp]: "Split s sep \<noteq> []"
  by (induction s) (auto split: list.splits)

lemma Split_no_sep: "sep \<notin> set s \<Longrightarrow> Split s sep = [s]"
  by (induction s) auto

lemma Split_append: "sep \<notin> set s \<Longrightarrow> Split (s @ sep # t) sep = s # Split t sep"
  by (induction s) auto

lemma Split_parts_no_sep: "p \<in> set (Split s sep) \<Longrightarrow> sep \<notin> set p"
  by (induction s arbitrary: p) (auto split: if_splits list.splits)

lemma join_Split: "join [sep] (Split s sep) = s"
proof (induction s)
  case Nil
  show ?case by simp
next
  case (Cons c cs)
  obtain p ps where ps: "Split cs sep = p # ps"
    using Split_nonempty by (cases "Split cs sep") auto
  with Cons show ?case by (cases ps) auto
qed

lemma HasPrefix_iff: "HasPrefix s p \<longleftrightarrow> (\<exists>t. s = p @ t)"
  by (induction s p rule: HasPrefix.induct) auto

lemma HasPrefix_append [simp]: "HasPrefix (p @ s) p"
  by (simp add: HasPrefix_iff)

section \<open>Facts on decimal numbers\<close>

lemma byte_digit [simp]: "d < 10 \<Longrightarrow> byte (digit d) = 48 + d"
  by (simp add: digit_def)

lemma is_digit_digit [simp]: "d < 10 \<Longrightarrow> is_digit (digit d)"
  by (simp add: is_digit_def)

lemma digits_nonempty [simp]: "digits n \<noteq> []"
  by (subst digits.simps) simp

lemma digits_all: "list_all is_digit (digits n)"
proof (induction n rule: digits.induct)
  case (1 n)
  then show ?case by (cases "n < 10") (simp_all add: digits.simps[of n])
qed

lemma digits_val_snoc: "digits_val (s @ [c]) = 10 * digits_val s + (byte c - 48)"
  by (simp add: digits_val_def)

lemma digits_val_digits [simp]: "digits_val (digits n) = n"
proof (induction n rule: digits.induct)
  case (1 n)
  show ?case
  proof (cases "n < 10")
    case True
    then show ?thesis by (simp add: digits.simps[of n] digits_val_def)
  next
    case False
    with 1 show ?thesis by (simp add: digits.simps[of n] digits_val_snoc)
  qed
qed

lemma digits_inj: "digits m = digits n \<longleftrightarrow> m = n"
  by (metis digits_val_digits)

lemma digits_hd_not_minus: "digits n \<noteq> CHR ''-'' # s"
proof
  assume "digits n = CHR ''-'' # s"
  with digits_all[of n] show False by (simp add: is_digit_def)
qed

lemma itoa_inj: "itoa i = itoa j \<longleftrightarrow> i = j"
  using digits_hd_not_minus [of "nat i"] digits_hd_not_minus [of "nat j", symmetric]
  by (auto simp: itoa_def digits_inj split: if_splits)

lemma itoa_chars: "c \<in> set (itoa i) \<Longrightarrow> c = CHR ''-'' \<or> is_digit c"
  using digits_all by (auto simp: itoa_def list_all_iff split: if_splits)

lemma digits_val_bound: "list_all is_digit s \<Longrightarrow> digits_val s < 10 ^ length s"
proof (induction s rule: rev_induct)
  case Nil
  then show ?case by (simp add: digits_val_def)
next
  case (snoc c s)
  then show ?case by (auto simp: digits_val_snoc is_digit_def)
qed

lemma length_digits_le: "n < 10 ^ k \<Longrightarrow> 0 < k \<Longrightarrow> length (digits n) \<le> k"
proof (induction n arbitrary: k rule: digits.induct)
  case (1 n)
  show ?case
  proof (cases "n < 10")
    case True
    with "1.prems" show ?thesis by (simp add: digits.simps[of n])
  next
    case False
    with "1.prems" obtain j where k: "k = Suc j" "0 < j"
      by (cases k) (auto simp: not_less, metis gr0I mult.commute not_less power_0 mult_1)
    with False "1.prems" have "n div 10 < 10 ^ j" by (simp add: div_less_iff_less_mult mult.commute)
    with False "1.IH" k show ?thesis by (simp add: digits.simps[of n])
  qed
qed

lemma length_zero_pad: "n < 10 ^ w \<Longrightarrow> 0 < w \<Longrightarrow> length (zero_pad w n) = w"
  using length_digits_le[of n w] by (simp add: zero_pad_def)

lemma zero_pad_digits: "list_all is_digit (zero_pad w n)"
  using digits_all by (auto simp: zero_pad_def list_all_iff is_digit_def)

lemma digits_val_zeros: "digits_val (replicate k (CHR ''0'') @ s) = digits_val s"
  by (induction k) (auto simp: digits_val_def)

lemma digits_val_zero_pad [simp]: "digits_val (zero_pad w n) = n"
  by (simp add: zero_pad_def digits_val_zeros)

section \<open>UTF-8 is decoded from what was encoded\<close>

lemma mod_shift:
  fixes b k m :: nat
  assumes "k * m \<le> b" "b < k * m + m" shows "b mod m = b - k * m"
proof -
  have "b = (b - k * m) + m * k" using assms by (simp add: mult.commute)
  then show ?thesis using assms by (metis add.commute less_diff_conv2 mod_less mod_mult_self2)
qed

lemma utf8_mods:
  "0x80 \<le> b \<Longrightarrow> b \<le> 0xBF \<Longrightarrow> b mod 64 = b - (0x80::nat)"
  "0xC0 \<le> b \<Longrightarrow> b \<le> 0xDF \<Longrightarrow> b mod 32 = b - (0xC0::nat)"
  "0xE0 \<le> b \<Longrightarrow> b \<le> 0xEF \<Longrightarrow> b mod 16 = b - (0xE0::nat)"
  "0xF0 \<le> b \<Longrightarrow> b \<le> 0xF7 \<Longrightarrow> b mod 8 = b - (0xF0::nat)"
  using mod_shift[of 2 64 b] mod_shift[of 6 32 b] mod_shift[of 14 16 b] mod_shift[of 30 8 b] by simp_all

lemma divmod_add: "(b::nat) < m \<Longrightarrow> (a * m + b) div m = a" "b < m \<Longrightarrow> (a * m + b) mod m = b"
  by simp_all

lemma base64_digits:
  fixes a b c d :: nat
  assumes "b < 64" "c < 64" "d < 64"
  shows "(a * 64 + b) div 64 = a" "(a * 64 + b) mod 64 = b"
    "(a * 4096 + b * 64 + c) div 4096 = a" "(a * 4096 + b * 64 + c) div 64 mod 64 = b"
    "(a * 4096 + b * 64 + c) mod 64 = c"
    "(a * 262144 + b * 4096 + c * 64 + d) div 262144 = a"
    "(a * 262144 + b * 4096 + c * 64 + d) div 4096 mod 64 = b"
    "(a * 262144 + b * 4096 + c * 64 + d) div 64 mod 64 = c"
    "(a * 262144 + b * 4096 + c * 64 + d) mod 64 = d"
proof -
  have e2: "a * 4096 + b * 64 + c = (a * 64 + b) * 64 + c" by simp
  have e3: "a * 262144 + b * 4096 + c * 64 + d = ((a * 64 + b) * 64 + c) * 64 + d" by simp
  have q: "x div 4096 = x div 64 div (64::nat)" "x div 262144 = x div 64 div 64 div (64::nat)" for x
    by (simp_all add: div_mult2_eq[symmetric])
  show "(a * 64 + b) div 64 = a" "(a * 64 + b) mod 64 = b" using assms by simp_all
  show "(a * 4096 + b * 64 + c) div 4096 = a" "(a * 4096 + b * 64 + c) div 64 mod 64 = b"
    "(a * 4096 + b * 64 + c) mod 64 = c"
    unfolding q e2 using assms by (simp_all only: divmod_add)
  show "(a * 262144 + b * 4096 + c * 64 + d) div 262144 = a"
    "(a * 262144 + b * 4096 + c * 64 + d) div 4096 mod 64 = b"
    "(a * 262144 + b * 4096 + c * 64 + d) div 64 mod 64 = c"
    "(a * 262144 + b * 4096 + c * 64 + d) mod 64 = d"
    unfolding q e3 using assms by (simp_all only: divmod_add)
qed

lemma EncodeRune_widths:
  "0x80 \<le> r \<Longrightarrow> r < 0x800 \<Longrightarrow> EncodeRune r = map chr [0xC0 + r div 64, 0x80 + r mod 64]"
  "0x800 \<le> r \<Longrightarrow> r < 0x10000 \<Longrightarrow> r < 0xD800 \<or> 0xDFFF < r \<Longrightarrow>
     EncodeRune r = map chr [0xE0 + r div 4096, 0x80 + r div 64 mod 64, 0x80 + r mod 64]"
  "0x10000 \<le> r \<Longrightarrow> r \<le> 0x10FFFF \<Longrightarrow>
     EncodeRune r = map chr [0xF0 + r div 262144, 0x80 + r div 4096 mod 64, 0x80 + r div 64 mod 64, 0x80 + r mod 64]"
  by (auto simp: EncodeRune_def)

lemma EncodeRune_2:
  assumes "0xC2 \<le> b0" "b0 \<le> 0xDF" "0x80 \<le> b1" "b1 \<le> 0xBF"
  shows "EncodeRune (b0 mod 32 * 64 + b1 mod 64) = [chr b0, chr b1]"
proof -
  define x y where "x = b0 - 0xC0" and "y = b1 - 0x80"
  have b: "b0 = 0xC0 + x" "b1 = 0x80 + y" "2 \<le> x" "x < 32" "y < 64" using assms by (auto simp: x_def y_def)
  have "b0 mod 32 * 64 + b1 mod 64 = x * 64 + y" using assms by (simp add: utf8_mods x_def y_def)
  with b show ?thesis by (simp add: EncodeRune_def Let_def base64_digits)
qed

lemma EncodeRune_3:
  assumes "0xE0 \<le> b0" "b0 \<le> 0xEF" "0x80 \<le> b1" "b1 \<le> 0xBF" "0x80 \<le> b2" "b2 \<le> 0xBF"
    "b0 \<noteq> 0xE0 \<or> 0xA0 \<le> b1" "b0 \<noteq> 0xED \<or> b1 \<le> 0x9F"
  shows "EncodeRune (b0 mod 16 * 4096 + b1 mod 64 * 64 + b2 mod 64) = [chr b0, chr b1, chr b2]"
proof -
  define x y z where "x = b0 - 0xE0" and "y = b1 - 0x80" and "z = b2 - 0x80"
  have b: "b0 = 0xE0 + x" "b1 = 0x80 + y" "b2 = 0x80 + z" "x < 16" "y < 64" "z < 64"
    using assms(1-6) by (auto simp: x_def y_def z_def)
  have lim: "1 \<le> x \<or> 32 \<le> y" "x \<noteq> 13 \<or> y < 32" using assms(7,8) b by auto
  have e: "b0 mod 16 * 4096 + b1 mod 64 * 64 + b2 mod 64 = x * 4096 + y * 64 + z"
    using assms by (simp add: utf8_mods x_def y_def z_def)
  have "x * 4096 + y * 64 + z < 0x10000" using b by simp
  moreover have "0x800 \<le> x * 4096 + y * 64 + z" using b lim by auto
  moreover have "x * 4096 + y * 64 + z < 0xD800 \<or> 0xDFFF < x * 4096 + y * 64 + z"
  proof (cases "x = 13")
    case True
    with b lim show ?thesis by auto
  next
    case False
    then consider "x \<le> 12" | "14 \<le> x" by linarith
    then show ?thesis using b by cases auto
  qed
  ultimately show ?thesis unfolding e using b by (subst EncodeRune_widths(2)) (auto simp: base64_digits)
qed

lemma EncodeRune_4:
  assumes "0xF0 \<le> b0" "b0 \<le> 0xF4" "0x80 \<le> b1" "b1 \<le> 0xBF" "0x80 \<le> b2" "b2 \<le> 0xBF"
    "0x80 \<le> b3" "b3 \<le> 0xBF" "b0 \<noteq> 0xF0 \<or> 0x90 \<le> b1" "b0 \<noteq> 0xF4 \<or> b1 \<le> 0x8F"
  shows "EncodeRune (b0 mod 8 * 262144 + b1 mod 64 * 4096 + b2 mod 64 * 64 + b3 mod 64)
    = [chr b0, chr b1, chr b2, chr b3]"
proof -
  define x y z w where "x = b0 - 0xF0" and "y = b1 - 0x80" and "z = b2 - 0x80" and "w = b3 - 0x80"
  have b: "b0 = 0xF0 + x" "b1 = 0x80 + y" "b2 = 0x80 + z" "b3 = 0x80 + w" "x \<le> 4" "y < 64" "z < 64" "w < 64"
    using assms(1-8) by (auto simp: x_def y_def z_def w_def)
  have lim: "1 \<le> x \<or> 16 \<le> y" "x \<le> 3 \<or> y < 16" using assms(9,10) b by auto
  have e: "b0 mod 8 * 262144 + b1 mod 64 * 4096 + b2 mod 64 * 64 + b3 mod 64
      = x * 262144 + y * 4096 + z * 64 + w"
    using assms(1-8) by (simp add: utf8_mods x_def y_def z_def w_def)
  have "0x10000 \<le> x * 262144 + y * 4096 + z * 64 + w" using b(5-8) lim(1) by auto
  moreover have "x * 262144 + y * 4096 + z * 64 + w \<le> 0x10FFFF" using b(5-8) lim(2) by auto
  ultimately show ?thesis unfolding e using b by (subst EncodeRune_widths(3)) (auto simp: base64_digits)
qed

lemma EncodeRune_chars:
  "0xC2 \<le> byte c0 \<Longrightarrow> byte c0 \<le> 0xDF \<Longrightarrow> 0x80 \<le> byte c1 \<Longrightarrow> byte c1 \<le> 0xBF \<Longrightarrow>
   r = byte c0 mod 32 * 64 + byte c1 mod 64 \<Longrightarrow> EncodeRune r = [c0, c1]"
  "0xE0 \<le> byte c0 \<Longrightarrow> byte c0 \<le> 0xEF \<Longrightarrow> 0x80 \<le> byte c1 \<Longrightarrow> byte c1 \<le> 0xBF \<Longrightarrow>
   0x80 \<le> byte c2 \<Longrightarrow> byte c2 \<le> 0xBF \<Longrightarrow> byte c0 \<noteq> 0xE0 \<or> 0xA0 \<le> byte c1 \<Longrightarrow> byte c0 \<noteq> 0xED \<or> byte c1 \<le> 0x9F \<Longrightarrow>
   r = byte c0 mod 16 * 4096 + byte c1 mod 64 * 64 + byte c2 mod 64 \<Longrightarrow> EncodeRune r = [c0, c1, c2]"
  "0xF0 \<le> byte c0 \<Longrightarrow> byte c0 \<le> 0xF4 \<Longrightarrow> 0x80 \<le> byte c1 \<Longrightarrow> byte c1 \<le> 0xBF \<Longrightarrow>
   0x80 \<le> byte c2 \<Longrightarrow> byte c2 \<le> 0xBF \<Longrightarrow> 0x80 \<le> byte c3 \<Longrightarrow> byte c3 \<le> 0xBF \<Longrightarrow>
   byte c0 \<noteq> 0xF0 \<or> 0x90 \<le> byte c1 \<Longrightarrow> byte c0 \<noteq> 0xF4 \<or> byte c1 \<le> 0x8F \<Longrightarrow>
   r = byte c0 mod 8 * 262144 + byte c1 mod 64 * 4096 + byte c2 mod 64 * 64 + byte c3 mod 64 \<Longrightarrow>
   EncodeRune r = [c0, c1, c2, c3]"
  using EncodeRune_2[of "byte c0" "byte c1"] EncodeRune_3[of "byte c0" "byte c1" "byte c2"]
    EncodeRune_4[of "byte c0" "byte c1" "byte c2" "byte c3"]
  by simp_all

lemma utf8_lead_cases:
  assumes "utf8_lead b = Some (w, lo, hi)"
  obtains "w = 2" "0xC2 \<le> b" "b \<le> 0xDF" "0x80 \<le> lo" "hi \<le> 0xBF"
  | "w = 3" "0xE0 \<le> b" "b \<le> 0xEF" "0x80 \<le> lo" "hi \<le> 0xBF" "b \<noteq> 0xE0 \<or> 0xA0 \<le> lo" "b \<noteq> 0xED \<or> hi \<le> 0x9F"
  | "w = 4" "0xF0 \<le> b" "b \<le> 0xF4" "0x80 \<le> lo" "hi \<le> 0xBF" "b \<noteq> 0xF0 \<or> 0x90 \<le> lo" "b \<noteq> 0xF4 \<or> hi \<le> 0x8F"
  using assms by (auto simp: utf8_lead_def split: if_splits)

lemma DecodeRune_valid:
  assumes "DecodeRune s = (r, n)" "s \<noteq> []" "\<not> (r = RuneError \<and> n = 1)"
  shows "EncodeRune r = take n s \<and> DecodeRune (take n s @ t) = (r, n) \<and> 0 < n \<and> n \<le> length s"
proof -
  obtain c0 s1 where s: "s = c0 # s1" using assms(2) by (cases s) auto
  show ?thesis
  proof (cases "byte c0 < 0x80")
    case True then show ?thesis using assms s by (auto simp: EncodeRune_def)
  next
    case False
    then obtain w lo hi where u: "utf8_lead (byte c0) = Some (w, lo, hi)"
      using assms s by (cases "utf8_lead (byte c0)") (auto simp: DecodeRune_def)
    obtain c1 s2 where s2: "s1 = c1 # s2" "lo \<le> byte c1" "byte c1 \<le> hi"
      using assms(1,3) s False u by (auto simp: DecodeRune_def split: list.splits if_splits)
    from u show ?thesis
    proof (cases rule: utf8_lead_cases)
      case 1
      with assms(1) s s2 u False show ?thesis by (auto simp: DecodeRune_def intro: EncodeRune_chars(1))
    next
      case 2
      with assms(1,3) s s2 u False obtain c2 s3 where c: "s2 = c2 # s3" "utf8_cont (byte c2)" "n = 3"
         "r = byte c0 mod 16 * 4096 + byte c1 mod 64 * 64 + byte c2 mod 64"
        by (auto simp: DecodeRune_def split: list.splits if_splits)
      with 2 s2 have "EncodeRune r = [c0, c1, c2]"
        unfolding utf8_cont_def by (auto intro!: EncodeRune_chars(2))
      with 2 c s s2 u False show ?thesis by (simp add: DecodeRune_def)
    next
      case 3
      with assms(1,3) s s2 u False obtain c2 c3 s4 where c: "s2 = c2 # c3 # s4" "utf8_cont (byte c2)" "n = 4"
        "utf8_cont (byte c3)"
         "r = byte c0 mod 8 * 262144 + byte c1 mod 64 * 4096 + byte c2 mod 64 * 64 + byte c3 mod 64"
        by (auto simp: DecodeRune_def split: list.splits if_splits)
      with 3 s2 have "EncodeRune r = [c0, c1, c2, c3]"
        unfolding utf8_cont_def by (auto intro!: EncodeRune_chars(3))
      with 3 c s s2 u False show ?thesis by (simp add: DecodeRune_def)
    qed
  qed
qed

lemma DecodeRune_pos: "DecodeRune (c # cs) = (r, n) \<Longrightarrow> 0 < n"
  by (auto simp: DecodeRune_def split: list.splits if_splits option.splits)

lemma chunks_valid:
  assumes "(r, bs) \<in> set (chunks s)" "\<not> (r = RuneError \<and> length bs = 1)"
  shows "EncodeRune r = bs \<and> DecodeRune (bs @ t) = (r, length bs) \<and> bs \<noteq> []"
  using assms
proof (induction s rule: chunks.induct)
  case (2 c cs)
  obtain q n where d: "DecodeRune (c # cs) = (q, n)" by (cases "DecodeRune (c # cs)")
  note n = DecodeRune_pos[OF d]
  have tk: "take n (c # cs) = c # take (n - 1) cs" using n by (cases n) auto
  have first: ?case if "r = q" "bs = c # take (n - 1) cs"
  proof -
    have "\<not> (q = RuneError \<and> n = 1)" using "2.prems"(2) that by auto
    from DecodeRune_valid[OF d _ this, of t] that tk n show ?thesis by (auto simp: min_def)
  qed
  have "EncodeRune r = bs \<and> DecodeRune (bs @ t) = (r, length bs) \<and> bs \<noteq> []"
    if "(r, bs) \<in> set (chunks (drop (n - 1) cs))"
    using "2.IH"[OF d[symmetric] refl] "2.prems"(2) that by blast
  with "2.prems"(1) d first show ?case by auto
qed simp

text \<open>The text with every invalid byte replaced by U+FFFD, as \<^verbatim>\<open>encoding/json\<close> writes it.\<close>

definition to_valid :: "string \<Rightarrow> string" where
  "to_valid s = concat (map (\<lambda>(r, _). EncodeRune r) (chunks s))"

lemma length_to_valid_chunk:
  assumes "(r, bs) \<in> set (chunks s)"
  shows "length bs \<le> length (EncodeRune r)"
    and "r = RuneError \<Longrightarrow> length bs = 1 \<Longrightarrow> length bs < length (EncodeRune r)"
proof -
  have e: "length (EncodeRune RuneError) = 3" by code_simp
  then show "length bs \<le> length (EncodeRune r)"
    using chunks_valid[OF assms, of "[]"] by (cases "r = RuneError \<and> length bs = 1") auto
  show "r = RuneError \<Longrightarrow> length bs = 1 \<Longrightarrow> length bs < length (EncodeRune r)" using e by simp
qed

lemma to_valid_id_iff: "to_valid s = s \<longleftrightarrow> ValidString s"
proof
  assume "ValidString s"
  then have "map (\<lambda>(r, _). EncodeRune r) (chunks s) = map snd (chunks s)"
    using chunks_valid[of _ _ s] by (auto simp: ValidString_def list_all_iff)
  then show "to_valid s = s" by (simp only: to_valid_def concat_chunks)
next
  assume eq: "to_valid s = s"
  have len: "length (concat (map snd cs)) \<le> length (concat (map (\<lambda>(r, _). EncodeRune r) cs))
      \<and> ((\<exists>(r, bs)\<in>set cs. r = RuneError \<and> length bs = 1) \<longrightarrow>
         length (concat (map snd cs)) < length (concat (map (\<lambda>(r, _). EncodeRune r) cs)))"
    if "set cs \<subseteq> set (chunks s)" for cs
    using that
  proof (induction cs)
    case (Cons p cs)
    obtain r bs where p: "p = (r, bs)" by (cases p)
    have "length bs \<le> length (EncodeRune r)"
      "r = RuneError \<Longrightarrow> length bs = 1 \<Longrightarrow> length bs < length (EncodeRune r)"
      using length_to_valid_chunk[of r bs s] Cons.prems p by auto
    with Cons p show ?case by fastforce
  qed simp
  have "length (concat (map snd (chunks s))) = length (concat (map (\<lambda>(r, _). EncodeRune r) (chunks s)))"
    using eq by (simp add: to_valid_def)
  with len[of "chunks s"] show "ValidString s" by (auto simp: ValidString_def list_all_iff)
qed

end
