(* ===== verification/Go_Net.thy ===== *)
theory Go_Net
  imports Go_Strings
begin

text \<open>
  The functions of Go's \<^verbatim>\<open>net\<close>, \<^verbatim>\<open>path/filepath\<close>, \<^verbatim>\<open>time\<close> and \<^verbatim>\<open>strconv\<close> packages that the
  configuration and the device login use: host and port, IP addresses, cleaned paths, durations in
  nanoseconds and booleans.
\<close>

section \<open>Hosts and ports\<close>

definition last_index :: "char \<Rightarrow> string \<Rightarrow> nat option" where
  "last_index c s = (if c \<in> set s then Some (length s - 1 - length (takeWhile (\<lambda>x. x \<noteq> c) (rev s))) else None)"

definition addr_error :: "string \<Rightarrow> string \<Rightarrow> go_error" where
  "addr_error addr why = Err (''address '' @ addr @ '': '' @ why)"

text \<open>\<open>net.SplitHostPort\<close>.\<close>

definition SplitHostPort :: "string \<Rightarrow> (string \<times> string) res" where
  "SplitHostPort hostport =
     (case last_index (CHR '':'') hostport of
        None \<Rightarrow> Inl (addr_error hostport ''missing port in address'')
      | Some i \<Rightarrow>
          let finish = (\<lambda>host j k.
                if CHR ''['' \<in> set (drop j hostport) then Inl (addr_error hostport (''unexpected '' @ [chr 39] @ ''['' @ [chr 39] @ '' in address''))
                else if CHR '']'' \<in> set (drop k hostport) then Inl (addr_error hostport (''unexpected '' @ [chr 39] @ '']'' @ [chr 39] @ '' in address''))
                else Inr (host, drop (i + 1) hostport))
          in if hd hostport = CHR ''['' then
               (if CHR '']'' \<notin> set hostport then Inl (addr_error hostport (''missing '' @ [chr 39] @ '']'' @ [chr 39] @ '' in address''))
                else let fin = length (takeWhile (\<lambda>c. c \<noteq> CHR '']'') hostport) in
                     if fin + 1 = length hostport then Inl (addr_error hostport ''missing port in address'')
                     else if fin + 1 = i then finish (take (fin - 1) (drop 1 hostport)) 1 (fin + 1)
                     else if hostport ! (fin + 1) = CHR '':'' then Inl (addr_error hostport ''too many colons in address'')
                     else Inl (addr_error hostport ''missing port in address''))
             else if CHR '':'' \<in> set (take i hostport) then Inl (addr_error hostport ''too many colons in address'')
             else finish (take i hostport) 0 0)"

text \<open>\<open>net.ParseIP\<close>, as far as \<open>IsLoopback\<close> looks at it: the four bytes of an IPv4 address, or the eight groups of an IPv6 one.\<close>

definition v4_field :: "string \<Rightarrow> nat option" where
  "v4_field s = (if s \<noteq> [] \<and> list_all is_digit s \<and> length s \<le> 3 \<and> (length s = 1 \<or> hd s \<noteq> CHR ''0'') \<and> digits_val s < 256
     then Some (digits_val s) else None)"

definition parse_v4 :: "string \<Rightarrow> nat list option" where
  "parse_v4 s = (let fs = Split s (CHR ''.'') in if length fs = 4 then those (map v4_field fs) else None)"

definition hex_group :: "string \<Rightarrow> nat option" where
  "hex_group s =
     (if s = [] \<or> 4 < length s then None
      else map_option (foldl (\<lambda>v d. 16 * v + d) 0) (those (map (\<lambda>c.
        if is_digit c then Some (byte c - 48)
        else if 65 \<le> byte c \<and> byte c \<le> 70 then Some (byte c - 55)
        else if 97 \<le> byte c \<and> byte c \<le> 102 then Some (byte c - 87) else None) s)))"

text \<open>The groups of one side of \<open>::\<close>; the last field of an address may be an IPv4 address, which stands for two groups.\<close>

fun v6_groups :: "bool \<Rightarrow> string list \<Rightarrow> nat list option" where
  "v6_groups tail [] = Some []"
| "v6_groups tail [f] =
     (if tail \<and> CHR ''.'' \<in> set f
      then map_option (\<lambda>v. [256 * v ! 0 + v ! 1, 256 * v ! 2 + v ! 3]) (parse_v4 f)
      else map_option (\<lambda>g. [g]) (hex_group f))"
| "v6_groups tail (f # fs) =
     (case (hex_group f, v6_groups tail fs) of (Some g, Some gs) \<Rightarrow> Some (g # gs) | _ \<Rightarrow> None)"

definition parse_v6 :: "string \<Rightarrow> nat list option" where
  "parse_v6 s =
     (let side = (\<lambda>tail t. if t = [] then Some [] else v6_groups tail (Split t (CHR '':''))) in
      case Index s ''::'' of
        None \<Rightarrow> (case side True s of Some gs \<Rightarrow> if length gs = 8 then Some gs else None | None \<Rightarrow> None)
      | Some i \<Rightarrow>
          (case (side False (take i s), side True (drop (i + 2) s)) of
             (Some l, Some r) \<Rightarrow> if length l + length r < 8 then Some (l @ replicate (8 - length l - length r) 0 @ r) else None
           | _ \<Rightarrow> None))"

definition ip_IsLoopback :: "string \<Rightarrow> bool" where
  "ip_IsLoopback host =
     (if CHR '':'' \<in> set host then
        (case parse_v6 host of
           None \<Rightarrow> False
         | Some gs \<Rightarrow> gs = [0, 0, 0, 0, 0, 0, 0, 1]
             \<or> take 6 gs = [0, 0, 0, 0, 0, 0xFFFF] \<and> gs ! 6 div 256 = 127)
      else (case parse_v4 host of None \<Rightarrow> False | Some v \<Rightarrow> v ! 0 = 127))"

text \<open>\<open>strings.EqualFold\<close> with a text of small ASCII letters: U+017F folds with \<open>s\<close>, U+212A with \<open>k\<close>.\<close>

definition simple_fold :: "nat \<Rightarrow> nat" where
  "simple_fold r = (if 65 \<le> r \<and> r \<le> 90 then r + 32 else if r = 0x17F then 115 else if r = 0x212A then 107 else r)"

definition EqualFold :: "string \<Rightarrow> string \<Rightarrow> bool" where
  "EqualFold s lower \<longleftrightarrow> map simple_fold (runes s) = map byte lower"

section \<open>Paths\<close>

fun clean_parts :: "bool \<Rightarrow> string list \<Rightarrow> string list \<Rightarrow> string list" where
  "clean_parts rooted stack [] = rev stack"
| "clean_parts rooted stack (p # ps) =
     (if p = [] \<or> p = ''.'' then clean_parts rooted stack ps
      else if p = ''..'' then
        (case stack of
           t # rest \<Rightarrow> if t = ''..'' then clean_parts rooted (p # stack) ps else clean_parts rooted rest ps
         | [] \<Rightarrow> if rooted then clean_parts rooted [] ps else clean_parts rooted [p] ps)
      else clean_parts rooted (p # stack) ps)"

definition Clean :: "string \<Rightarrow> string" where
  "Clean path =
     (let rooted = HasPrefix path ''/''; out = join ''/'' (clean_parts rooted [] (Split path (CHR ''/'')))
      in if rooted then CHR ''/'' # out else if out = [] then ''.'' else out)"

definition filepath_Join :: "string \<Rightarrow> string \<Rightarrow> string" where
  "filepath_Join dir name =
     (if dir = [] \<and> name = [] then [] else if dir = [] then Clean name
      else if name = [] then Clean dir else Clean (dir @ ''/'' @ name))"

section \<open>Booleans and durations\<close>

definition ParseBool :: "string \<Rightarrow> bool option" where
  "ParseBool s = (if s \<in> set [''1'', ''t'', ''T'', ''true'', ''TRUE'', ''True''] then Some True
     else if s \<in> set [''0'', ''f'', ''F'', ''false'', ''FALSE'', ''False''] then Some False else None)"

definition Second :: int where "Second = 1000000000"
definition Minute :: int where "Minute = 60 * Second"

definition unit_ns :: "string \<Rightarrow> nat option" where
  "unit_ns u = (if u = ''ns'' then Some 1
     else if u = ''us'' \<or> u = EncodeRune 0xB5 @ ''s'' \<or> u = EncodeRune 0x3BC @ ''s'' then Some 1000
     else if u = ''ms'' then Some 1000000 else if u = ''s'' then Some 1000000000
     else if u = ''m'' then Some 60000000000 else if u = ''h'' then Some 3600000000000 else None)"

text \<open>
  One number with its unit at the front of the text. \<open>frac\<close> is the floating-point product that turns
  the fraction's digits into nanoseconds.
\<close>

definition duration_part :: "(string \<Rightarrow> nat \<Rightarrow> nat) \<Rightarrow> string \<Rightarrow> (nat \<times> string) option" where
  "duration_part frac s =
     (let ip = takeWhile is_digit s; r1 = dropWhile is_digit s;
          point = (r1 \<noteq> [] \<and> hd r1 = CHR ''.'');
          fp = (if point then takeWhile is_digit (tl r1) else []);
          r2 = (if point then dropWhile is_digit (tl r1) else r1);
          u = takeWhile (\<lambda>c. c \<noteq> CHR ''.'' \<and> \<not> is_digit c) r2; r3 = drop (length u) r2;
          v = digits_val ip
      in if ip = [] \<and> fp = [] then None
         else if 2 ^ 63 < v then None
         else (case unit_ns u of
                 None \<Rightarrow> None
               | Some unit \<Rightarrow>
                   let w = v * unit + (if digits_val fp > 0 then frac fp unit else 0)
                   in if 2 ^ 63 < w then None else Some (w, r3)))"

fun duration_parts :: "(string \<Rightarrow> nat \<Rightarrow> nat) \<Rightarrow> nat \<Rightarrow> string \<Rightarrow> nat \<Rightarrow> nat option" where
  "duration_parts frac n [] d = Some d"
| "duration_parts frac 0 (c # cs) d = None"
| "duration_parts frac (Suc n) (c # cs) d =
     (case duration_part frac (c # cs) of
        None \<Rightarrow> None
      | Some (w, rest) \<Rightarrow> if 2 ^ 63 < d + w then None else duration_parts frac n rest (d + w))"

text \<open>\<open>time.ParseDuration\<close>; every part consumes at least its unit, so the text's length bounds the parts.\<close>

definition ParseDuration :: "(string \<Rightarrow> nat \<Rightarrow> nat) \<Rightarrow> string \<Rightarrow> int res" where
  "ParseDuration frac orig =
     (let sgn = (orig \<noteq> [] \<and> (hd orig = CHR ''-'' \<or> hd orig = CHR ''+''));
          neg = (orig \<noteq> [] \<and> hd orig = CHR ''-''); s = (if sgn then tl orig else orig)
      in if s = ''0'' then Inr 0
         else if s = [] then Inl (Err ''time: invalid duration'')
         else (case duration_parts frac (length s) s 0 of
                 None \<Rightarrow> Inl (Err ''time: invalid duration'')
               | Some d \<Rightarrow> if neg then Inr (- int d)
                   else if 2 ^ 63 - 1 < d then Inl (Err ''time: invalid duration'') else Inr (int d)))"

lemma duration_part_shorter: "duration_part frac s = Some (w, rest) \<Longrightarrow> length rest < length s"
proof -
  assume a: "duration_part frac s = Some (w, rest)"
  define r1 where "r1 = dropWhile is_digit s"
  define r2 where "r2 = (if r1 \<noteq> [] \<and> hd r1 = CHR ''.'' then dropWhile is_digit (tl r1) else r1)"
  define u where "u = takeWhile (\<lambda>c. c \<noteq> CHR ''.'' \<and> \<not> is_digit c) r2"
  have "unit_ns u \<noteq> None" "rest = drop (length u) r2"
    using a unfolding duration_part_def Let_def r1_def[symmetric] r2_def[symmetric] u_def[symmetric]
    by (auto split: if_splits option.splits)
  moreover have "length r2 \<le> length s"
    using length_dropWhile_le[of is_digit s] length_dropWhile_le[of is_digit "tl r1"]
    by (auto simp: r2_def r1_def)
  moreover have "unit_ns [] = None" by (simp add: unit_ns_def)
  moreover have "length u \<le> length r2" by (simp add: u_def length_takeWhile_le)
  ultimately show ?thesis by (cases u) auto
qed

text \<open>The bound on the number of parts is never what stops the parser.\<close>

lemma duration_parts_stable:
  "length s \<le> n \<Longrightarrow> length s \<le> m \<Longrightarrow> duration_parts frac n s d = duration_parts frac m s d"
proof (induction n arbitrary: m s d)
  case (Suc n)
  show ?case
  proof (cases s)
    case (Cons c cs)
    with Suc.prems obtain k where m: "m = Suc k" by (cases m) auto
    have "length rest \<le> n \<and> length rest \<le> k" if "duration_part frac s = Some (w, rest)" for w rest
      using duration_part_shorter[OF that] Suc.prems m by simp
    with Suc.IH Cons m show ?thesis by (auto split: option.splits)
  qed simp
qed (simp)

end
