(* ===== verification/Json.thy ===== *)
theory Json
  imports Go_Strings
begin

text \<open>
  The parts of Go's \<^verbatim>\<open>encoding/json\<close> and \<^verbatim>\<open>encoding/base64\<close> the program uses: \<open>Marshal\<close> of
  structs, maps and strings, and \<open>Unmarshal\<close> of a whole text. A number is kept as its literal.
\<close>

section \<open>Values and their text\<close>

datatype json =
    JNull
  | JBool bool
  | JNum string
  | JStr string
  | JArr "json list"
  | JObj "(string \<times> json) list"

definition hex_digit :: "nat \<Rightarrow> char" where
  "hex_digit d = (if d < 10 then chr (48 + d) else chr (87 + d))"

text \<open>One code point inside a JSON string, as \<open>Marshal\<close> writes it (with HTML characters escaped).\<close>

definition quote_chunk :: "nat \<times> string \<Rightarrow> string" where
  "quote_chunk = (\<lambda>(r, bs).
     if r = 0x22 then [chr 0x5C, chr 0x22]
     else if r = 0x5C then [chr 0x5C, chr 0x5C]
     else if r = 8 then [chr 0x5C, CHR ''b'']
     else if r = 12 then [chr 0x5C, CHR ''f'']
     else if r = 10 then [chr 0x5C, CHR ''n'']
     else if r = 13 then [chr 0x5C, CHR ''r'']
     else if r = 9 then [chr 0x5C, CHR ''t'']
     else if r < 0x20 \<or> r = 0x3C \<or> r = 0x3E \<or> r = 0x26
     then chr 0x5C # ''u00'' @ [hex_digit (r div 16), hex_digit (r mod 16)]
     else if r = RuneError \<and> length bs = 1 then chr 0x5C # ''ufffd''
     else if r = 0x2028 \<or> r = 0x2029 then chr 0x5C # ''u202'' @ [hex_digit (r mod 16)]
     else bs)"

definition quote_json :: "string \<Rightarrow> string" where
  "quote_json s = chr 0x22 # concat (map quote_chunk (chunks s)) @ [chr 0x22]"

fun print_json :: "json \<Rightarrow> string" where
  "print_json JNull = ''null''"
| "print_json (JBool b) = (if b then ''true'' else ''false'')"
| "print_json (JNum lit) = lit"
| "print_json (JStr s) = quote_json s"
| "print_json (JArr js) = CHR ''['' # join '','' (map print_json js) @ '']''"
| "print_json (JObj ms) = CHR ''{'' # join '','' (map (\<lambda>(k, v). quote_json k @ '':'' @ print_json v) ms) @ ''}''"

section \<open>Reading\<close>

definition is_ws :: "char \<Rightarrow> bool" where
  "is_ws c \<longleftrightarrow> byte c = 32 \<or> byte c = 9 \<or> byte c = 13 \<or> byte c = 10"

definition skip_ws :: "string \<Rightarrow> string" where
  "skip_ws s = dropWhile is_ws s"

definition hex_val :: "char \<Rightarrow> nat option" where
  "hex_val c =
     (if 48 \<le> byte c \<and> byte c \<le> 57 then Some (byte c - 48)
      else if 97 \<le> byte c \<and> byte c \<le> 102 then Some (byte c - 87)
      else if 65 \<le> byte c \<and> byte c \<le> 70 then Some (byte c - 55)
      else None)"

text \<open>\<open>getu4\<close>: the value of \<open>\uXXXX\<close> at the front of the text, and what follows.\<close>

fun getu4 :: "string \<Rightarrow> (nat \<times> string) option" where
  "getu4 (b # u # c1 # c2 # c3 # c4 # rest) =
     (if byte b = 0x5C \<and> u = CHR ''u'' then
        (case (hex_val c1, hex_val c2, hex_val c3, hex_val c4) of
           (Some h1, Some h2, Some h3, Some h4) \<Rightarrow> Some (4096 * h1 + 256 * h2 + 16 * h3 + h4, rest)
         | _ \<Rightarrow> None)
      else None)"
| "getu4 _ = None"

text \<open>\<open>utf16.DecodeRune\<close>, \<open>None\<close> standing for its U+FFFD.\<close>

definition utf16_pair :: "nat \<Rightarrow> nat \<Rightarrow> nat option" where
  "utf16_pair r1 r2 =
     (if 0xD800 \<le> r1 \<and> r1 < 0xDC00 \<and> 0xDC00 \<le> r2 \<and> r2 < 0xE000
      then Some ((r1 - 0xD800) * 0x400 + (r2 - 0xDC00) + 0x10000) else None)"

text \<open>
  One unit of the inside of a string: the bytes it stands for and the rest of the text. \<open>None\<close> for
  the closing quote, a control character or a bad escape.
\<close>

definition simple_escape :: "char \<Rightarrow> char option" where
  "simple_escape c =
     (if byte c = 0x22 \<or> byte c = 0x5C \<or> c = CHR ''/'' then Some c
      else if c = CHR ''b'' then Some (chr 8)
      else if c = CHR ''f'' then Some (chr 12)
      else if c = CHR ''n'' then Some (chr 10)
      else if c = CHR ''r'' then Some (chr 13)
      else if c = CHR ''t'' then Some (chr 9)
      else None)"

definition unquote_unit :: "string \<Rightarrow> (string \<times> string) option" where
  "unquote_unit s =
     (case s of
        [] \<Rightarrow> None
      | c # cs \<Rightarrow>
          if byte c = 0x5C then
            (case getu4 s of
               Some (r, rest) \<Rightarrow>
                 if 0xD800 \<le> r \<and> r \<le> 0xDFFF then
                   (case getu4 rest of
                      Some (r', rest') \<Rightarrow>
                        (case utf16_pair r r' of
                           Some q \<Rightarrow> Some (EncodeRune q, rest')
                         | None \<Rightarrow> Some (EncodeRune RuneError, rest))
                    | None \<Rightarrow> Some (EncodeRune RuneError, rest))
                 else Some (EncodeRune r, rest)
             | None \<Rightarrow>
                 (case cs of
                    [] \<Rightarrow> None
                  | e # rest \<Rightarrow> map_option (\<lambda>x. ([x], rest)) (simple_escape e)))
          else if byte c = 0x22 \<or> byte c < 0x20 then None
          else if byte c < 0x80 then Some ([c], cs)
          else let (r, n) = DecodeRune s in Some (EncodeRune r, drop n s))"

text \<open>The rest of a string after its opening quote; every unit consumes at least one byte.\<close>

fun unquote :: "nat \<Rightarrow> string \<Rightarrow> (string \<times> string) option" where
  "unquote 0 s = None"
| "unquote (Suc n) s =
     (case s of
        [] \<Rightarrow> None
      | c # cs \<Rightarrow>
          if byte c = 0x22 then Some ([], cs)
          else (case unquote_unit s of
                  None \<Rightarrow> None
                | Some (bs, rest) \<Rightarrow> map_option (\<lambda>(v, r). (bs @ v, r)) (unquote n rest)))"

definition parse_string :: "string \<Rightarrow> (string \<times> string) option" where
  "parse_string s = (case s of c # cs \<Rightarrow> if byte c = 0x22 then unquote (Suc (length cs)) cs else None
     | [] \<Rightarrow> None)"

text \<open>The longest number literal at the front of a text: sign, integer part, fraction, exponent.\<close>

definition take_digits :: "string \<Rightarrow> string \<times> string" where
  "take_digits s = (takeWhile is_digit s, dropWhile is_digit s)"

definition parse_int_part :: "string \<Rightarrow> (string \<times> string) option" where
  "parse_int_part s =
     (case s of
        [] \<Rightarrow> None
      | c # cs \<Rightarrow>
          if c = CHR ''0'' then Some ([c], cs)
          else if is_digit c then Some (take_digits s) else None)"

definition parse_frac :: "string \<Rightarrow> (string \<times> string) option" where
  "parse_frac s =
     (case s of
        c # cs \<Rightarrow>
          if c = CHR ''.'' then
            (let (ds, rest) = take_digits cs in if ds = [] then None else Some (c # ds, rest))
          else Some ([], s)
      | [] \<Rightarrow> Some ([], []))"

definition parse_exp :: "string \<Rightarrow> (string \<times> string) option" where
  "parse_exp s =
     (case s of
        c # cs \<Rightarrow>
          if c = CHR ''e'' \<or> c = CHR ''E'' then
            (let (sg, t) = (case cs of d # ds \<Rightarrow> if d = CHR ''+'' \<or> d = CHR ''-'' then ([d], ds) else ([], cs)
                            | [] \<Rightarrow> ([], []));
                 (ds, rest) = take_digits t
             in if ds = [] then None else Some (c # sg @ ds, rest))
          else Some ([], s)
      | [] \<Rightarrow> Some ([], []))"

definition parse_number :: "string \<Rightarrow> (string \<times> string) option" where
  "parse_number s =
     (let (sg, t) = (case s of c # cs \<Rightarrow> if c = CHR ''-'' then ([c], cs) else ([], s) | [] \<Rightarrow> ([], []))
      in case parse_int_part t of
           None \<Rightarrow> None
         | Some (ip, t1) \<Rightarrow>
             (case parse_frac t1 of
                None \<Rightarrow> None
              | Some (fp, t2) \<Rightarrow>
                  (case parse_exp t2 of
                     None \<Rightarrow> None
                   | Some (ep, t3) \<Rightarrow> Some (sg @ ip @ fp @ ep, t3))))"

definition parse_literal :: "string \<Rightarrow> (json \<times> string) option" where
  "parse_literal s =
     (if HasPrefix s ''null'' then Some (JNull, drop 4 s)
      else if HasPrefix s ''true'' then Some (JBool True, drop 4 s)
      else if HasPrefix s ''false'' then Some (JBool False, drop 5 s)
      else map_option (\<lambda>(l, r). (JNum l, r)) (parse_number s))"

text \<open>
  The parser. \<open>depth\<close> counts the open arrays and objects; the package's limit is 10000. The first
  argument bounds the number of nested calls: every second call consumes a byte.
\<close>

fun parse_value :: "nat \<Rightarrow> nat \<Rightarrow> string \<Rightarrow> (json \<times> string) option"
  and parse_elems :: "nat \<Rightarrow> nat \<Rightarrow> string \<Rightarrow> (json list \<times> string) option"
  and parse_members :: "nat \<Rightarrow> nat \<Rightarrow> string \<Rightarrow> ((string \<times> json) list \<times> string) option"
where
  "parse_value 0 depth s = None"
| "parse_value (Suc n) depth s =
     (case skip_ws s of
        [] \<Rightarrow> None
      | c # cs \<Rightarrow>
          if byte c = 0x22 then map_option (\<lambda>(v, r). (JStr v, r)) (parse_string (c # cs))
          else if c = CHR ''['' then
            (if depth \<ge> 10000 then None
             else case skip_ws cs of
                    d # ds \<Rightarrow> if d = CHR '']'' then Some (JArr [], ds)
                             else map_option (\<lambda>(js, r). (JArr js, r)) (parse_elems n (Suc depth) cs)
                  | [] \<Rightarrow> None)
          else if c = CHR ''{'' then
            (if depth \<ge> 10000 then None
             else case skip_ws cs of
                    d # ds \<Rightarrow> if d = CHR ''}'' then Some (JObj [], ds)
                             else map_option (\<lambda>(ms, r). (JObj ms, r)) (parse_members n (Suc depth) cs)
                  | [] \<Rightarrow> None)
          else parse_literal (c # cs))"
| "parse_elems 0 depth s = None"
| "parse_elems (Suc n) depth s =
     (case parse_value n depth s of
        None \<Rightarrow> None
      | Some (j, r) \<Rightarrow>
          (case skip_ws r of
             [] \<Rightarrow> None
           | c # cs \<Rightarrow>
               if c = CHR '']'' then Some ([j], cs)
               else if c = CHR '','' then map_option (\<lambda>(js, r'). (j # js, r')) (parse_elems n depth cs)
               else None))"
| "parse_members 0 depth s = None"
| "parse_members (Suc n) depth s =
     (case parse_string (skip_ws s) of
        None \<Rightarrow> None
      | Some (k, r) \<Rightarrow>
          (case skip_ws r of
             [] \<Rightarrow> None
           | c # cs \<Rightarrow>
               if c \<noteq> CHR '':'' then None
               else (case parse_value n depth cs of
                 None \<Rightarrow> None
               | Some (j, r1) \<Rightarrow>
                   (case skip_ws r1 of
                      [] \<Rightarrow> None
                    | d # ds \<Rightarrow>
                        if d = CHR ''}'' then Some ([(k, j)], ds)
                        else if d = CHR '','' then
                          map_option (\<lambda>(ms, r'). ((k, j) # ms, r')) (parse_members n depth ds)
                        else None))))"

definition parse_json :: "string \<Rightarrow> json option" where
  "parse_json s =
     (case parse_value (2 * length s + 2) 0 s of
        Some (j, r) \<Rightarrow> if skip_ws r = [] then Some j else None
      | None \<Rightarrow> None)"

section \<open>Unmarshal into a map\<close>

text \<open>
  A number literal decoded into \<open>any\<close> becomes a \<open>float64\<close>; one whose value would round past the
  largest finite number is an error.
\<close>

definition float_overflow :: "string \<Rightarrow> bool" where
  "float_overflow lit =
     (let body = (case lit of c # cs \<Rightarrow> if c = CHR ''-'' then cs else lit | [] \<Rightarrow> []);
          mant = takeWhile (\<lambda>c. c \<noteq> CHR ''e'' \<and> c \<noteq> CHR ''E'') body;
          ip = takeWhile (\<lambda>c. c \<noteq> CHR ''.'') mant;
          fp = drop (Suc (length ip)) mant;
          ex = drop (Suc (length mant)) body;
          exv = (case ex of [] \<Rightarrow> 0
                 | c # cs \<Rightarrow> if c = CHR ''-'' then - int (digits_val cs)
                           else if c = CHR ''+'' then int (digits_val cs) else int (digits_val ex));
          m = digits_val (ip @ fp); e = exv - int (length fp)
      in if e \<ge> 0 then 2 ^ 1024 - 2 ^ 970 \<le> m * 10 ^ nat e
         else (2 ^ 1024 - 2 ^ 970) * 10 ^ nat (- e) \<le> m)"

fun finite_numbers :: "json \<Rightarrow> bool" where
  "finite_numbers (JNum lit) = (\<not> float_overflow lit)"
| "finite_numbers (JArr js) = list_all finite_numbers js"
| "finite_numbers (JObj ms) = list_all (\<lambda>(k, v). finite_numbers v) ms"
| "finite_numbers _ = True"

text \<open>Whether \<open>Unmarshal\<close> into a \<open>map[string]any\<close> succeeds: an object, or \<open>null\<close>.\<close>

definition unmarshal_map :: "string \<Rightarrow> bool" where
  "unmarshal_map s =
     (case parse_json s of
        Some (JObj ms) \<Rightarrow> finite_numbers (JObj ms)
      | Some JNull \<Rightarrow> True
      | _ \<Rightarrow> False)"

text \<open>
  \<open>Marshal\<close> of a map: the keys in ascending order, each once. A value is given as its JSON value.
\<close>

definition marshal_map :: "(string \<times> json) list \<Rightarrow> string" where
  "marshal_map ms = print_json (JObj (sort_key fst ms))"

section \<open>Base 64\<close>

definition b64_char :: "nat \<Rightarrow> char" where
  "b64_char d = (if d < 26 then chr (65 + d) else if d < 52 then chr (71 + d)
     else if d < 62 then chr (d - 4) else if d = 62 then CHR ''+'' else CHR ''/'')"

definition b64_val :: "char \<Rightarrow> nat option" where
  "b64_val c =
     (if 65 \<le> byte c \<and> byte c \<le> 90 then Some (byte c - 65)
      else if 97 \<le> byte c \<and> byte c \<le> 122 then Some (byte c - 71)
      else if 48 \<le> byte c \<and> byte c \<le> 57 then Some (byte c + 4)
      else if c = CHR ''+'' then Some 62 else if c = CHR ''/'' then Some 63 else None)"

fun b64_encode :: "string \<Rightarrow> string" where
  "b64_encode (x # y # z # rest) =
     b64_char (byte x div 4) # b64_char (byte x mod 4 * 16 + byte y div 16)
     # b64_char (byte y mod 16 * 4 + byte z div 64) # b64_char (byte z mod 64) # b64_encode rest"
| "b64_encode [x, y] =
     [b64_char (byte x div 4), b64_char (byte x mod 4 * 16 + byte y div 16),
      b64_char (byte y mod 16 * 4), CHR ''='']"
| "b64_encode [x] = [b64_char (byte x div 4), b64_char (byte x mod 4 * 16), CHR ''='', CHR ''='']"
| "b64_encode [] = []"

text \<open>\<open>StdEncoding.Decode\<close>: line breaks are skipped, padding ends the text, unused bits are ignored.\<close>

fun b64_quanta :: "string \<Rightarrow> string option" where
  "b64_quanta (a # b # c # d # rest) =
     (case (b64_val a, b64_val b) of
        (Some p, Some q) \<Rightarrow>
          if c = CHR ''='' then (if d = CHR ''='' \<and> rest = [] then Some [chr (p * 4 + q div 16)] else None)
          else (case b64_val c of
             None \<Rightarrow> None
           | Some r \<Rightarrow>
               if d = CHR ''='' then
                 (if rest = [] then Some [chr (p * 4 + q div 16), chr (q mod 16 * 16 + r div 4)] else None)
               else (case (b64_val d, b64_quanta rest) of
                  (Some t, Some bs) \<Rightarrow>
                    Some (chr (p * 4 + q div 16) # chr (q mod 16 * 16 + r div 4)
                          # chr (r mod 4 * 64 + t) # bs)
                | _ \<Rightarrow> None))
      | _ \<Rightarrow> None)"
| "b64_quanta [] = Some []"
| "b64_quanta _ = None"

definition b64_decode :: "string \<Rightarrow> string option" where
  "b64_decode s = b64_quanta (filter (\<lambda>c. byte c \<noteq> 10 \<and> byte c \<noteq> 13) s)"

section \<open>Strings survive the round trip\<close>

lemma hex_val_digit [simp]: "d < 16 \<Longrightarrow> hex_val (hex_digit d) = Some d"
  by (auto simp: hex_val_def hex_digit_def)

lemma hex_val_consts [simp]: "hex_val (CHR ''0'') = Some 0" "hex_val (CHR ''2'') = Some 2"
  by (simp_all add: hex_val_def)

lemma getu4_escape:
  "hex_val a = Some h1 \<Longrightarrow> hex_val b = Some h2 \<Longrightarrow> hex_val c = Some h3 \<Longrightarrow> hex_val d = Some h4 \<Longrightarrow>
   getu4 (chr 0x5C # CHR ''u'' # a # b # c # d # t) = Some (4096 * h1 + 256 * h2 + 16 * h3 + h4, t)"
  by simp

lemma EncodeRune_ascii: "r < 0x80 \<Longrightarrow> EncodeRune r = [chr r]"
  by (simp add: EncodeRune_def)

lemma unquote_unit_hex:
  assumes "hex_val a = Some h1" "hex_val b = Some h2" "hex_val c = Some h3" "hex_val d = Some h4"
    "r = 4096 * h1 + 256 * h2 + 16 * h3 + h4" "\<not> (0xD800 \<le> r \<and> r \<le> 0xDFFF)"
  shows "unquote_unit (chr 0x5C # CHR ''u'' # a # b # c # d # t) = Some (EncodeRune r, t)"
  using assms by (auto simp: unquote_unit_def)

lemma getu4_other: "byte c \<noteq> 0x75 \<Longrightarrow> getu4 (b # c # t) = None"
  by (cases "b # c # t" rule: getu4.cases) auto

lemma unquote_unit_simple:
  "simple_escape c = Some x \<Longrightarrow> byte c \<noteq> 0x75 \<Longrightarrow> unquote_unit (chr 0x5C # c # t) = Some ([x], t)"
  by (simp add: unquote_unit_def getu4_other)

lemma quote_ascii_unit:
  assumes "r < 0x80"
  shows "unquote_unit (quote_chunk (r, [chr r]) @ t) = Some ([chr r], t)"
proof -
  have r: "byte (chr r) = r" using assms by simp
  show ?thesis
    using assms r
    by (auto simp: quote_chunk_def simple_escape_def unquote_unit_simple unquote_unit_hex EncodeRune_ascii
        RuneError_def unquote_unit_def[of "chr r # t"])
qed

lemma quote_chunk_unit:
  assumes "(r, bs) \<in> set (chunks s)"
  shows "unquote_unit (quote_chunk (r, bs) @ t) = Some (EncodeRune r, t)"
    and "\<exists>c cs. quote_chunk (r, bs) = c # cs \<and> byte c \<noteq> 0x22"
proof -
  have "unquote_unit (quote_chunk (r, bs) @ t) = Some (EncodeRune r, t)
      \<and> (\<exists>c cs. quote_chunk (r, bs) = c # cs \<and> byte c \<noteq> 0x22)"
  proof (cases "r = RuneError \<and> length bs = 1")
    case True
    have "hex_val (CHR ''f'') = Some 15" "hex_val (CHR ''d'') = Some 13" by code_simp+
    with True show ?thesis by (auto simp: quote_chunk_def RuneError_def unquote_unit_hex)
  next
    case nn: False
    note C = chunks_valid[OF assms nn, of t]
    obtain c0 b1 where bs: "bs = c0 # b1" using C by (cases bs) auto
    have c0: "r < 0x80 \<longleftrightarrow> byte c0 < 0x80"
    proof
      assume "r < 0x80" with C show "byte c0 < 0x80" by (auto simp: EncodeRune_ascii bs)
    next
      assume "byte c0 < 0x80" with C show "r < 0x80" by (auto simp: bs)
    qed
    have "byte c0 = 0x22 \<longrightarrow> r = 0x22" using C by (auto simp: bs)
    then have "\<exists>c cs. quote_chunk (r, bs) = c # cs \<and> byte c \<noteq> 0x22"
      by (auto simp: quote_chunk_def bs)
    moreover have "unquote_unit (quote_chunk (r, bs) @ t) = Some (bs, t)"
    proof (cases "r < 0x80")
      case True
      with C have "bs = [chr r]" by (simp add: EncodeRune_ascii)
      with True show ?thesis by (simp add: quote_ascii_unit)
    next
      case False
      show ?thesis
      proof (cases "r = 0x2028 \<or> r = 0x2029")
        case True
        with C show ?thesis by (auto simp: quote_chunk_def RuneError_def unquote_unit_hex)
      next
        case plain: False
        with False nn have "quote_chunk (r, bs) = bs" by (auto simp: quote_chunk_def)
        with C False c0 show ?thesis by (auto simp: unquote_unit_def bs)
      qed
    qed
    ultimately show ?thesis using C by simp
  qed
  then show "unquote_unit (quote_chunk (r, bs) @ t) = Some (EncodeRune r, t)"
    "\<exists>c cs. quote_chunk (r, bs) = c # cs \<and> byte c \<noteq> 0x22" by auto
qed

lemma unquote_chunks:
  assumes "\<And>r bs. (r, bs) \<in> set cs \<Longrightarrow> (\<forall>t. unquote_unit (quote_chunk (r, bs) @ t) = Some (EncodeRune r, t))
      \<and> (\<exists>c ds. quote_chunk (r, bs) = c # ds \<and> byte c \<noteq> 0x22)"
    "length cs < n"
  shows "unquote n (concat (map quote_chunk cs) @ chr 0x22 # t) = Some (concat (map (\<lambda>(r, _). EncodeRune r) cs), t)"
  using assms
proof (induction cs arbitrary: n)
  case Nil
  then show ?case by (cases n) auto
next
  case (Cons p cs)
  obtain m where n: "n = Suc m" using Cons.prems(2) by (cases n) auto
  obtain r bs where p: "p = (r, bs)" by (cases p)
  obtain c ds where q: "quote_chunk (r, bs) = c # ds" "byte c \<noteq> 0x22"
    and u: "\<And>t. unquote_unit (c # ds @ t) = Some (EncodeRune r, t)"
    using Cons.prems(1)[of r bs] p by auto
  have "unquote m (concat (map quote_chunk cs) @ chr 0x22 # t) = Some (concat (map (\<lambda>(r, _). EncodeRune r) cs), t)"
    using Cons n by auto
  with q u p n show ?case by simp
qed

lemma length_quote_chunks:
  "(\<And>r bs. (r, bs) \<in> set cs \<Longrightarrow> quote_chunk (r, bs) \<noteq> []) \<Longrightarrow> length cs \<le> length (concat (map quote_chunk cs))"
proof (induction cs)
  case (Cons p cs)
  then have "Suc 0 \<le> length (quote_chunk p)" by (cases p) (auto simp: Suc_le_eq)
  moreover have "length cs \<le> length (concat (map quote_chunk cs))" using Cons by auto
  ultimately show ?case by (simp del: One_nat_def length_greater_0_conv)
qed simp

lemma parse_string_quote: "parse_string (quote_json s @ t) = Some (to_valid s, t)"
proof -
  have "length (chunks s) \<le> length (concat (map quote_chunk (chunks s)))"
    using quote_chunk_unit(2)[of _ _ s] by (intro length_quote_chunks) fastforce
  then have "unquote (Suc (length (concat (map quote_chunk (chunks s)) @ chr 0x22 # t)))
      (concat (map quote_chunk (chunks s)) @ chr 0x22 # t) = Some (to_valid s, t)"
    unfolding to_valid_def using quote_chunk_unit[of _ _ s] by (intro unquote_chunks) auto
  then show ?thesis by (simp add: parse_string_def quote_json_def del: unquote.simps length_append)
qed

section \<open>Numbers survive the round trip\<close>

text \<open>What may follow a number for its literal to end there.\<close>

definition ends_number :: "string \<Rightarrow> bool" where
  "ends_number t = (case t of [] \<Rightarrow> True
     | c # _ \<Rightarrow> \<not> is_digit c \<and> c \<noteq> CHR ''.'' \<and> c \<noteq> CHR ''e'' \<and> c \<noteq> CHR ''E'')"

lemma take_digits_append:
  assumes "list_all is_digit ds" "ends_number t"
  shows "take_digits (ds @ t) = (ds, t)"
  using assms by (cases t) (auto simp: take_digits_def list_all_iff ends_number_def takeWhile_append dropWhile_append)

lemma zero_char: "CHR ''0'' = chr 48"
  by code_simp

lemma digits_hd_nonzero: "0 < n \<Longrightarrow> hd (digits n) \<noteq> CHR ''0''"
proof (induction n rule: digits.induct)
  case (1 n)
  show ?case
  proof (cases "n < 10")
    case True
    with 1 show ?thesis by (simp add: digits.simps[of n] digit_def zero_char)
  next
    case False
    with 1 show ?thesis by (simp add: digits.simps[of n])
  qed
qed

lemma parse_digits:
  assumes "ends_number t"
  shows "parse_int_part (digits n @ t) = Some (digits n, t)"
proof (cases "n = 0")
  case True
  then show ?thesis by (simp add: parse_int_part_def digits.simps[of 0] digit_def zero_char)
next
  case False
  obtain c cs where d: "digits n = c # cs" using digits_nonempty[of n] by (cases "digits n") auto
  have "c \<noteq> CHR ''0''"
    using digits_hd_nonzero[of n] False d by simp
  then show ?thesis using d digits_all[of n] take_digits_append[OF digits_all assms, of n]
    by (auto simp: parse_int_part_def)
qed

lemma parse_number_itoa:
  assumes "ends_number t"
  shows "parse_number (itoa i @ t) = Some (itoa i, t)"
proof -
  have "parse_frac t = Some ([], t)" "parse_exp t = Some ([], t)"
    using assms by (auto simp: parse_frac_def parse_exp_def ends_number_def split: list.splits)
  moreover have "(case digits n @ t of c # cs \<Rightarrow> if c = CHR ''-'' then ([c], cs) else ([], digits n @ t)
      | [] \<Rightarrow> ([], [])) = ([], digits n @ t)" for n
    using digits_hd_not_minus[of n] digits_nonempty[of n] by (cases "digits n") auto
  ultimately show ?thesis
    using parse_digits[OF assms] by (auto simp: itoa_def parse_number_def)
qed

section \<open>Every printed value is read back\<close>

fun printable :: "json \<Rightarrow> bool" where
  "printable (JNum lit) = (case atoi lit of Some i \<Rightarrow> itoa i = lit | None \<Rightarrow> False)"
| "printable (JArr js) = list_all printable js"
| "printable (JObj ms) = list_all (\<lambda>(k, v). printable v) ms"
| "printable _ = True"

fun json_depth :: "json \<Rightarrow> nat" where
  "json_depth (JArr js) = Suc (foldr (max \<circ> json_depth) js 0)"
| "json_depth (JObj ms) = Suc (foldr (\<lambda>(k, v). max (json_depth v)) ms 0)"
| "json_depth _ = 0"

text \<open>The value with every string made valid UTF-8, which is what the printed text stands for.\<close>

fun sanitize :: "json \<Rightarrow> json" where
  "sanitize (JStr s) = JStr (to_valid s)"
| "sanitize (JArr js) = JArr (map sanitize js)"
| "sanitize (JObj ms) = JObj (map (\<lambda>(k, v). (to_valid k, sanitize v)) ms)"
| "sanitize j = j"

lemma itoa_first: "\<exists>c cs. itoa i = c # cs \<and> (c = CHR ''-'' \<or> is_digit c)"
  using digits_nonempty[of "nat i"] digits_all[of "nat i"]
  by (cases "digits (nat i)"; cases "i < 0") (auto simp: itoa_def)

lemma digit_not_special:
  "is_digit c \<Longrightarrow> \<not> is_ws c \<and> byte c \<noteq> 0x22 \<and> c \<notin> {CHR ''['', CHR '']'', CHR ''{'', CHR ''}'', CHR ''n'', CHR ''t'', CHR ''f''}"
  by (auto simp: is_digit_def is_ws_def)

lemma print_json_first:
  assumes "printable j"
  obtains c cs where "print_json j = c # cs" "\<not> is_ws c" "c \<noteq> CHR '']''"
proof (cases j)
  case (JNum lit)
  with assms obtain i where "lit = itoa i" by (auto split: option.splits)
  with JNum itoa_first[of i] show thesis by (auto dest: digit_not_special simp: is_ws_def intro: that)
next
  case (JBool b)
  then show thesis by (cases b) (auto simp: is_ws_def intro: that)
qed (auto simp: is_ws_def quote_json_def char_of_def intro: that)

lemma skip_ws_id: "\<not> is_ws c \<Longrightarrow> skip_ws (c # cs) = c # cs"
  by (simp add: skip_ws_def)

lemma seps [simp]: "\<not> is_ws (CHR '','')" "\<not> is_ws (CHR '']'')" "\<not> is_ws (CHR ''}'')" "\<not> is_ws (CHR '':'')"
  "\<not> is_ws (CHR ''['')" "\<not> is_ws (CHR ''{'')" "\<not> is_ws (chr 0x22)"
  by (simp_all add: is_ws_def)

definition reads_back :: "json \<Rightarrow> nat \<Rightarrow> bool" where
  "reads_back j depth \<longleftrightarrow> (\<forall>n t. 2 * length (print_json j) \<le> n \<longrightarrow> ends_number t \<longrightarrow>
     parse_value n depth (print_json j @ t) = Some (sanitize j, t))"

lemma parse_elems_print:
  assumes "js \<noteq> []" "\<And>j. j \<in> set js \<Longrightarrow> reads_back j depth"
    "2 * length (join '','' (map print_json js)) < n"
  shows "parse_elems n depth (join '','' (map print_json js) @ CHR '']'' # t) = Some (map sanitize js, t)"
  using assms
proof (induction js arbitrary: n)
  case (Cons j js)
  obtain m where n: "n = Suc m" using Cons.prems(3) by (cases n) auto
  have rb: "reads_back j depth" using Cons.prems(2) by simp
  show ?case
  proof (cases js)
    case Nil
    have "parse_value m depth (print_json j @ CHR '']'' # t) = Some (sanitize j, CHR '']'' # t)"
      using rb Cons.prems(3) Nil n by (auto simp: reads_back_def ends_number_def is_digit_def)
    with Nil n show ?thesis by (simp add: skip_ws_id)
  next
    case (Cons k ks)
    let ?rest = "join '','' (map print_json js) @ CHR '']'' # t"
    have e: "join '','' (map print_json (j # js)) = print_json j @ CHR '','' # join '','' (map print_json js)"
      using Cons by simp
    have "parse_value m depth (print_json j @ CHR '','' # ?rest) = Some (sanitize j, CHR '','' # ?rest)"
      using rb Cons.prems(3) e n by (auto simp: reads_back_def ends_number_def is_digit_def)
    moreover have "parse_elems m depth ?rest = Some (map sanitize js, t)"
      using Cons.IH[of m] Cons.prems Cons e n by simp
    ultimately show ?thesis unfolding e using n by (simp add: skip_ws_id)
  qed
qed simp

lemma parse_members_print:
  assumes "ms \<noteq> []" "\<And>k v. (k, v) \<in> set ms \<Longrightarrow> reads_back v depth"
    "2 * length (join '','' (map (\<lambda>(k, v). quote_json k @ '':'' @ print_json v) ms)) < n"
  shows "parse_members n depth (join '','' (map (\<lambda>(k, v). quote_json k @ '':'' @ print_json v) ms) @ CHR ''}'' # t)
    = Some (map (\<lambda>(k, v). (to_valid k, sanitize v)) ms, t)"
  using assms
proof (induction ms arbitrary: n)
  case (Cons p ms)
  let ?f = "\<lambda>(k, v). quote_json k @ '':'' @ print_json v"
  obtain k v where p: "p = (k, v)" by (cases p)
  obtain m where n: "n = Suc m" using Cons.prems(3) by (cases n) auto
  have rb: "reads_back v depth" using Cons.prems(2)[of k v] p by simp
  have q: "skip_ws (quote_json k @ x) = quote_json k @ x" for x
    by (simp add: quote_json_def skip_ws_id)
  have ps: "parse_string (quote_json k @ x) = Some (to_valid k, x)" for x
    by (rule parse_string_quote)
  show ?case
  proof (cases ms)
    case Nil
    have "parse_value m depth (print_json v @ CHR ''}'' # t) = Some (sanitize v, CHR ''}'' # t)"
      using rb Cons.prems(3) Nil n p by (auto simp: reads_back_def ends_number_def is_digit_def)
    with Nil n p q ps show ?thesis by (simp add: skip_ws_id)
  next
    case (Cons a as)
    let ?rest = "join '','' (map ?f ms) @ CHR ''}'' # t"
    have e: "join '','' (map ?f (p # ms)) = quote_json k @ CHR '':'' # print_json v @ CHR '','' # join '','' (map ?f ms)"
      using Cons p by simp
    have "parse_value m depth (print_json v @ CHR '','' # ?rest) = Some (sanitize v, CHR '','' # ?rest)"
      using rb Cons.prems(3) e n p by (auto simp: reads_back_def ends_number_def is_digit_def)
    moreover have "parse_members m depth ?rest = Some (map (\<lambda>(k, v). (to_valid k, sanitize v)) ms, t)"
      by (rule Cons.IH) (use Cons.prems Cons e n in auto)
    ultimately show ?thesis unfolding e using n q ps p by (simp add: skip_ws_id)
  qed
qed simp

lemma reads_back_all:
  "printable j \<Longrightarrow> depth + json_depth j \<le> 10000 \<Longrightarrow> reads_back j depth"
proof (induction j arbitrary: depth)
  case (JNum lit)
  then obtain i where lit: "lit = itoa i" by (auto split: option.splits)
  obtain c cs where c: "itoa i = c # cs" "c = CHR ''-'' \<or> is_digit c" using itoa_first by blast
  have "parse_value n depth (itoa i @ t) = Some (JNum (itoa i), t)" if "0 < n" "ends_number t" for n t
  proof -
    have "parse_literal (itoa i @ t) = Some (JNum (itoa i), t)"
      using parse_number_itoa[OF that(2), of i] c
      by (auto simp: parse_literal_def HasPrefix_iff dest: digit_not_special)
    with c that(1) show ?thesis
      by (cases n) (auto simp: skip_ws_id is_ws_def dest!: digit_not_special)
  qed
  with c lit show ?case by (auto simp: reads_back_def)
next
  case (JStr s)
  have "parse_value n depth (quote_json s @ t) = Some (JStr (to_valid s), t)" if "0 < n" for n t
    using that parse_string_quote[of s t]
    by (cases n) (auto simp: quote_json_def skip_ws_id)
  then show ?case by (auto simp: reads_back_def quote_json_def)
next
  case (JArr js)
  have d: "Suc depth + json_depth j \<le> 10000" if "j \<in> set js" for j
    using JArr.prems(2) that by (induction js) auto
  show ?case
  proof (cases js)
    case Nil
    then show ?thesis using JArr.prems(2)
      by (auto simp: reads_back_def skip_ws_id numeral_eq_Suc dest!: Suc_le_D)
  next
    case (Cons a as)
    let ?b = "join '','' (map print_json js)"
    obtain c cs where "print_json a = c # cs" "\<not> is_ws c" "c \<noteq> CHR '']''"
      using JArr.prems(1) Cons by (auto elim: print_json_first)
    then have b: "\<exists>cs. ?b = c # cs \<and> \<not> is_ws c \<and> c \<noteq> CHR '']''" using Cons by (cases as) auto
    have "parse_value n depth (print_json (JArr js) @ t) = Some (JArr (map sanitize js), t)"
      if n: "2 * length (print_json (JArr js)) \<le> n" for n t
    proof -
      obtain m where m: "n = Suc m" using n by (cases n) auto
      have "parse_elems m (Suc depth) (?b @ CHR '']'' # t) = Some (map sanitize js, t)"
        by (rule parse_elems_print) (use Cons JArr d n m in \<open>auto simp: list_all_iff\<close>)
      with b m JArr.prems(2) show ?thesis by (auto simp: skip_ws_id)
    qed
    then show ?thesis by (simp add: reads_back_def)
  qed
next
  case (JObj ms)
  let ?f = "\<lambda>(k, v). quote_json k @ '':'' @ print_json v"
  have d: "Suc depth + json_depth v \<le> 10000" if "(k, v) \<in> set ms" for k v
    using JObj.prems(2) that by (induction ms) auto
  show ?case
  proof (cases ms)
    case Nil
    then show ?thesis using JObj.prems(2)
      by (auto simp: reads_back_def skip_ws_id numeral_eq_Suc dest!: Suc_le_D)
  next
    case (Cons a as)
    let ?b = "join '','' (map ?f ms)"
    have b: "\<exists>cs. ?b = chr 0x22 # cs" using Cons by (cases as; cases a) (auto simp: quote_json_def)
    have "parse_value n depth (print_json (JObj ms) @ t) = Some (JObj (map (\<lambda>(k, v). (to_valid k, sanitize v)) ms), t)"
      if n: "2 * length (print_json (JObj ms)) \<le> n" for n t
    proof -
      obtain m where m: "n = Suc m" using n by (cases n) auto
      have "parse_members m (Suc depth) (?b @ CHR ''}'' # t) = Some (map (\<lambda>(k, v). (to_valid k, sanitize v)) ms, t)"
        by (rule parse_members_print) (use Cons JObj d n m in \<open>force simp: list_all_iff\<close>)+
      moreover have "chr 0x22 \<noteq> CHR ''}''" by code_simp
      ultimately show ?thesis using b m JObj.prems(2) by (auto simp: skip_ws_id)
    qed
    then show ?thesis by (simp add: reads_back_def)
  qed
qed (auto simp: reads_back_def parse_literal_def skip_ws_id is_ws_def numeral_eq_Suc dest!: Suc_le_D)

lemma parse_print_json:
  assumes "printable j" "json_depth j \<le> 10000"
  shows "parse_json (print_json j) = Some (sanitize j)"
proof -
  have "reads_back j 0" using assms by (intro reads_back_all) auto
  then have "parse_value (2 * length (print_json j) + 2) 0 (print_json j @ []) = Some (sanitize j, [])"
    unfolding reads_back_def by (simp add: ends_number_def del: append_Nil2 parse_value.simps)
  then show ?thesis by (simp add: parse_json_def skip_ws_def del: parse_value.simps)
qed

text \<open>What \<open>Marshal\<close> makes of a map with text and integer values, \<open>Unmarshal\<close> into a map accepts.\<close>

lemma digits_no_marks: "c \<in> set (digits n) \<Longrightarrow> c \<noteq> CHR ''e'' \<and> c \<noteq> CHR ''E'' \<and> c \<noteq> CHR ''.''"
  using digits_all[of n] by (auto simp: list_all_iff is_digit_def)

lemma float_overflow_itoa: "\<bar>i\<bar> < 2 ^ 64 \<Longrightarrow> \<not> float_overflow (itoa i)"
proof -
  assume i: "\<bar>i\<bar> < 2 ^ 64"
  have t: "takeWhile (\<lambda>c. c \<noteq> CHR ''e'' \<and> c \<noteq> CHR ''E'') (digits n) = digits n"
    "takeWhile (\<lambda>c. c \<noteq> CHR ''.'') (digits n) = digits n" for n
    by (auto dest: digits_no_marks)
  have body: "(case digits n of c # cs \<Rightarrow> if c = CHR ''-'' then cs else digits n | [] \<Rightarrow> []) = digits n" for n
    using digits_hd_not_minus[of n] digits_nonempty[of n] by (cases "digits n") auto
  have "nat \<bar>i\<bar> < 2 ^ 64" using i by (simp add: nat_less_iff)
  then have "\<not> 2 ^ 1024 - 2 ^ 970 \<le> nat \<bar>i\<bar>" by simp
  then show ?thesis
    by (cases "i < 0") (simp_all add: float_overflow_def itoa_def t body Let_def)
qed

definition plain_value :: "json \<Rightarrow> bool" where
  "plain_value j = (case j of JStr s \<Rightarrow> True
     | JNum lit \<Rightarrow> (case atoi lit of Some i \<Rightarrow> itoa i = lit | None \<Rightarrow> False)
     | JBool _ \<Rightarrow> True | _ \<Rightarrow> False)"

lemma plain_value_facts:
  assumes "plain_value j" shows "printable j" "json_depth j = 0" "finite_numbers (sanitize j)"
proof -
  have "\<bar>i\<bar> < 2 ^ 64" if "atoi lit = Some i" for lit i
    using that by (auto simp: atoi_def Let_def split: if_splits)
  with assms show "printable j" "json_depth j = 0" "finite_numbers (sanitize j)"
    by (cases j; auto simp: plain_value_def float_overflow_itoa split: option.splits dest: float_overflow_itoa)+
qed

lemma marshal_map_accepted:
  assumes "\<And>k v. (k, v) \<in> set ms \<Longrightarrow> plain_value v"
  shows "unmarshal_map (marshal_map ms)"
proof -
  let ?ms = "sort_key fst ms"
  have d: "foldr (\<lambda>(k, v). max (json_depth v)) xs 0 = 0" 
    if "\<forall>(k, v)\<in>set xs. json_depth v = 0" for xs :: "(string \<times> json) list"
    using that by (induction xs) auto
  have z: "foldr (\<lambda>(k, v). max (json_depth v)) ?ms 0 = 0"
    using assms plain_value_facts(2) by (intro d) auto
  have "parse_json (marshal_map ms) = Some (sanitize (JObj ?ms))"
    unfolding marshal_map_def
    by (rule parse_print_json) (use z assms plain_value_facts in \<open>auto simp: list_all_iff\<close>)
  then show ?thesis using assms plain_value_facts(3) by (auto simp: unmarshal_map_def list_all_iff)
qed

section \<open>Base 64 survives the round trip\<close>

lemma b64_val_char: "d < 64 \<Longrightarrow> b64_val (b64_char d) = Some d"
  by (auto simp: b64_val_def b64_char_def)

lemma b64_char_plain:
  assumes "d < 64" shows "b64_char d \<noteq> CHR ''=''" "byte (b64_char d) \<noteq> 10" "byte (b64_char d) \<noteq> 13"
proof -
  have "b64_val (CHR ''='') = None" by code_simp
  moreover have "b64_val (chr 10) = None" "b64_val (chr 13) = None" by code_simp+
  ultimately show "b64_char d \<noteq> CHR ''=''" "byte (b64_char d) \<noteq> 10" "byte (b64_char d) \<noteq> 13"
    using b64_val_char[OF assms] by (metis option.distinct(1) chr_byte)+
qed

lemma b64_bounds:
  "byte x div 4 < 64" "byte x mod 4 * 16 + byte y div 16 < 64" "byte y mod 16 * 4 + byte z div 64 < 64"
  "byte x mod 4 * 16 < 64" "byte y mod 16 * 4 < 64"
proof -
  have "byte x div 4 < 64" "byte y div 16 < 16" "byte z div 64 < 4" "byte x mod 4 < 4" "byte y mod 16 < 16"
    using byte_less_256[of x] byte_less_256[of y] byte_less_256[of z] by (simp_all add: div_less_iff_less_mult)
  then show "byte x div 4 < 64" "byte x mod 4 * 16 + byte y div 16 < 64" "byte y mod 16 * 4 + byte z div 64 < 64"
    "byte x mod 4 * 16 < 64" "byte y mod 16 * 4 < 64" by linarith+
qed

lemma b64_bytes:
  "byte x div 4 * 4 + (byte x mod 4 * 16 + byte y div 16) div 16 = byte x"
  "(byte x mod 4 * 16 + byte y div 16) mod 16 * 16 + (byte y mod 16 * 4 + byte z div 64) div 4 = byte y"
  "(byte y mod 16 * 4 + byte z div 64) mod 4 * 64 + byte z mod 64 = byte z"
proof -
  have b: "byte y div 16 < 16" "byte z div 64 < 4"
    using byte_less_256[of y] byte_less_256[of z] by (simp_all add: div_less_iff_less_mult)
  then show "byte x div 4 * 4 + (byte x mod 4 * 16 + byte y div 16) div 16 = byte x"
    "(byte x mod 4 * 16 + byte y div 16) mod 16 * 16 + (byte y mod 16 * 4 + byte z div 64) div 4 = byte y"
    "(byte y mod 16 * 4 + byte z div 64) mod 4 * 64 + byte z mod 64 = byte z"
    by (simp_all add: divmod_add)
qed

lemma b64_quanta_encode: "b64_quanta (b64_encode s) = Some s"
proof (induction s rule: b64_encode.induct)
  case (1 x y z rest)
  then show ?case
    using b64_bytes(1)[of x y] b64_bytes(2)[of x y z] b64_bytes(3)[of y z]
    by (simp add: b64_val_char b64_char_plain b64_bounds)
next
  case (2 x y)
  show ?case
    using b64_bytes(1)[of x y] b64_bytes(2)[of x y "chr 0"]
    by (simp add: b64_val_char b64_char_plain b64_bounds)
next
  case (3 x)
  show ?case using b64_bytes(1)[of x "chr 0"] by (simp add: b64_val_char b64_char_plain b64_bounds)
qed simp

lemma b64_decode_encode: "b64_decode (b64_encode s) = Some s"
proof -
  have "\<forall>c\<in>set (b64_encode s). byte c \<noteq> 10 \<and> byte c \<noteq> 13"
    by (induction s rule: b64_encode.induct) (simp_all add: b64_char_plain b64_bounds)
  then have "filter (\<lambda>c. byte c \<noteq> 10 \<and> byte c \<noteq> 13) (b64_encode s) = b64_encode s"
    by (simp add: filter_id_conv)
  then show ?thesis by (simp add: b64_decode_def b64_quanta_encode)
qed

lemma b64_ascii: "ascii (b64_encode s)"
proof -
  have "byte (b64_char d) < 0x80" if "d < 64" for d using that by (auto simp: b64_char_def)
  then show ?thesis by (induction s rule: b64_encode.induct) (simp_all add: b64_bounds)
qed

section \<open>The bound on nested calls is never reached\<close>

lemma length_skip_ws: "length (skip_ws s) \<le> length s"
  by (simp add: skip_ws_def length_dropWhile_le)

lemma skip_ws_Cons: "skip_ws s = c # cs \<Longrightarrow> length cs < length s"
  using length_skip_ws[of s] by simp

lemma getu4_length: "getu4 s = Some (r, t) \<Longrightarrow> length t < length s"
  by (cases s rule: getu4.cases) (auto split: if_splits option.splits)

lemma unquote_unit_length: "unquote_unit s = Some (bs, r) \<Longrightarrow> length r < length s"
  using getu4_length[of s]
  by (auto simp: unquote_unit_def Let_def split: list.splits if_splits option.splits prod.splits
      dest!: getu4_length dest: DecodeRune_pos)

lemma unquote_length: "unquote n s = Some (v, r) \<Longrightarrow> length r < length s"
  by (induction n arbitrary: s v) (fastforce split: list.splits if_splits option.splits dest: unquote_unit_length)+

lemma parse_string_length: "parse_string s = Some (v, r) \<Longrightarrow> length r < length s"
  by (auto simp: parse_string_def simp del: unquote.simps split: list.splits if_splits dest: unquote_length)

lemma take_digits_length: "take_digits s = (ds, r) \<Longrightarrow> length r \<le> length s"
  by (auto simp: take_digits_def length_dropWhile_le)

lemma parse_int_part_length: "parse_int_part s = Some (l, r) \<Longrightarrow> length r < length s"
  by (auto simp: parse_int_part_def take_digits_def le_imp_less_Suc length_dropWhile_le split: list.splits if_splits)

lemma parse_frac_length: "parse_frac s = Some (l, r) \<Longrightarrow> length r \<le> length s"
  by (auto simp: parse_frac_def Let_def split: list.splits if_splits prod.splits dest!: take_digits_length)

lemma parse_exp_length: "parse_exp s = Some (l, r) \<Longrightarrow> length r \<le> length s"
  by (auto simp: parse_exp_def Let_def split: list.splits if_splits prod.splits dest!: take_digits_length)

lemma parse_number_length: "parse_number s = Some (l, r) \<Longrightarrow> length r < length s"
  by (auto simp: parse_number_def Let_def split: list.splits if_splits prod.splits option.splits
      dest!: parse_int_part_length parse_frac_length parse_exp_length)

lemma parse_literal_length: "parse_literal s = Some (j, r) \<Longrightarrow> s \<noteq> [] \<Longrightarrow> length r < length s"
  by (auto simp: parse_literal_def split: if_splits dest: parse_number_length)

lemma parse_length:
  shows parse_value_length: "parse_value n d s = Some (j, r) \<Longrightarrow> length r < length s"
    and parse_elems_length: "parse_elems n d s = Some (js, r) \<Longrightarrow> length r < length s"
    and parse_members_length: "parse_members n d s = Some (ms, r) \<Longrightarrow> length r < length s"
proof (induction n arbitrary: d s j js ms r)
  case (Suc n)
  note dests = skip_ws_Cons Suc.IH parse_string_length parse_literal_length
  {
    case 1
    then obtain c cs where c: "skip_ws s = c # cs" by (auto split: list.splits)
    have "length r < length (c # cs)"
      using 1 c by (auto split: if_splits list.splits dest!: dests)
    with c length_skip_ws[of s] show ?case by simp
  next
    case 2
    then obtain j' r' where v: "parse_value n d s = Some (j', r')" by (auto split: option.splits)
    then obtain c cs where c: "skip_ws r' = c # cs" using 2 by (auto split: list.splits)
    have "length r \<le> length cs" using 2 v c by (auto split: if_splits dest!: Suc.IH)
    with Suc.IH(1)[OF v] skip_ws_Cons[OF c] show ?case by simp
  next
    case 3
    then obtain k r' where v: "parse_string (skip_ws s) = Some (k, r')" by (auto split: option.splits)
    then obtain c cs where c: "skip_ws r' = c # cs" using 3 by (auto split: list.splits)
    then obtain j1 r1 where j: "parse_value n d cs = Some (j1, r1)" using 3 v by (auto split: if_splits option.splits)
    then obtain e es where e: "skip_ws r1 = e # es" using 3 v c by (auto split: list.splits if_splits)
    have "length r \<le> length es" using 3 v c j e by (auto split: if_splits dest!: Suc.IH)
    with parse_string_length[OF v] length_skip_ws[of s] skip_ws_Cons[OF c] Suc.IH(1)[OF j] skip_ws_Cons[OF e]
    show ?case by simp
  }
qed simp_all

lemma parse_stable:
  shows parse_value_stable: "2 * length s < n \<Longrightarrow> 2 * length s < m \<Longrightarrow> parse_value n d s = parse_value m d s"
    and parse_elems_stable: "2 * length s + 1 < n \<Longrightarrow> 2 * length s + 1 < m \<Longrightarrow> parse_elems n d s = parse_elems m d s"
    and parse_members_stable: "2 * length s + 1 < n \<Longrightarrow> 2 * length s + 1 < m \<Longrightarrow>
      parse_members n d s = parse_members m d s"
proof (induction n arbitrary: d s m)
  case (Suc n)
  {
    case 1
    obtain m' where m: "m = Suc m'" using 1 by (cases m) auto
    have "parse_elems n (Suc d) cs = parse_elems m' (Suc d) cs"
      "parse_members n (Suc d) cs = parse_members m' (Suc d) cs" if "skip_ws s = c # cs" for c cs
      using 1 m skip_ws_Cons[OF that] by (intro Suc.IH; simp)+
    then show ?case unfolding m by (auto split: list.splits)
  next
    case 2
    obtain m' where m: "m = Suc m'" using 2 by (cases m) auto
    have v: "parse_value n d s = parse_value m' d s" using 2 m by (intro Suc.IH) auto
    have "parse_elems n d cs = parse_elems m' d cs"
      if "parse_value m' d s = Some (j, r)" "skip_ws r = c # cs" for j r c cs
      using 2 m skip_ws_Cons[OF that(2)] parse_value_length[OF that(1)] by (intro Suc.IH; simp)
    then show ?case unfolding m by (auto simp: v split: option.splits list.splits)
  next
    case 3
    obtain m' where m: "m = Suc m'" using 3 by (cases m) auto
    have v: "parse_value n d cs = parse_value m' d cs"
      if "parse_string (skip_ws s) = Some (k, r)" "skip_ws r = c # cs" for k r c cs
      using 3 m skip_ws_Cons[OF that(2)] parse_string_length[OF that(1)] length_skip_ws[of s]
      by (intro Suc.IH; simp)
    have "parse_members n d es = parse_members m' d es"
      if "parse_string (skip_ws s) = Some (k, r)" "skip_ws r = c # cs" "parse_value m' d cs = Some (j, r1)"
        "skip_ws r1 = e # es" for k r c cs j r1 e es
      using 3 m skip_ws_Cons[OF that(2)] parse_string_length[OF that(1)] length_skip_ws[of s]
        parse_value_length[OF that(3)] skip_ws_Cons[OF that(4)]
      by (intro Suc.IH; simp)
    then show ?case unfolding m by (auto simp: v split: option.splits list.splits)
  }
qed simp_all

lemma parse_json_bound:
  assumes "2 * length s < n"
  shows "parse_json s = (case parse_value n 0 s of
      Some (j, r) \<Rightarrow> if skip_ws r = [] then Some j else None | None \<Rightarrow> None)"
  unfolding parse_json_def using parse_value_stable[of s "2 * length s + 2" n 0] assms by simp

end
