(* ===== verification/Secrets.thy ===== *)
theory Secrets
  imports Json
begin

text \<open>
  \<^verbatim>\<open>internal/secrets/secrets.go\<close>: the master key file, the associated data that ties a ciphertext to
  the row it belongs to, and the encrypted JSON payload. XChaCha20-Poly1305 is a third-party
  package: its \<open>Seal\<close> and \<open>Open\<close> are parameters of the operations, and what the code relies on
  (\<^verbatim>\<open>opens\<close>, \<^verbatim>\<open>binds\<close> below) is a hypothesis of the properties that need it.
\<close>

section \<open>Types\<close>

record Cipher =
  Cipher_key :: string

record Payload =
  Version :: int
  Password :: string
  PrivateKey :: string
  PublicKey :: string
  Passphrase :: string
  TOTPSecret :: string

definition empty_payload :: Payload where
  "empty_payload = \<lparr>Version = 0, Password = [], PrivateKey = [], PublicKey = [], Passphrase = [],
     TOTPSecret = []\<rparr>"

text \<open>\<open>Open\<close> reports an authentication failure as an error and a nonce of the wrong size as a panic.\<close>

record aead =
  Seal :: "string \<Rightarrow> string \<Rightarrow> string \<Rightarrow> string \<Rightarrow> string"
  Open :: "string \<Rightarrow> string \<Rightarrow> string \<Rightarrow> string \<Rightarrow> string res"

definition KeySize :: nat where "KeySize = 32"
definition NonceSizeX :: nat where "NonceSizeX = 24"

unbundle bit_operations_syntax

section \<open>The master key file\<close>

text \<open>
  The part of the file system the code looks at: what a path names, with its permission bits and
  contents. A \<open>fault\<close> is a system call that fails for reasons outside the program; a failed write
  leaves the bytes written before it. Octal 0600 is 384, 0077 is 63.
\<close>

record file_info =
  file_regular :: bool
  file_perm :: nat
  file_data :: string

datatype fault = NoFault | MkdirFails go_error | RandFails go_error | OpenFails go_error
  | WriteFails nat go_error | SyncFails go_error | ReadFails go_error

type_synonym fs = "string \<Rightarrow> file_info option"

definition key_file :: "nat \<Rightarrow> string \<Rightarrow> file_info" where
  "key_file umask bs = \<lparr>file_regular = True, file_perm = 384 AND (511 XOR umask), file_data = bs\<rparr>"

definition Generate :: "fault \<Rightarrow> nat \<Rightarrow> string \<Rightarrow> fs \<Rightarrow> string \<Rightarrow> (fs, unit) outcome" where
  "Generate fault umask random fs path =
     (case fault of
        MkdirFails e \<Rightarrow> (Inl e, fs)
      | RandFails e \<Rightarrow> (Inl e, fs)
      | OpenFails e \<Rightarrow> (Inl e, fs)
      | _ \<Rightarrow>
          if fs path \<noteq> None then (Inl (Err ''file exists''), fs)
          else (case fault of
                  WriteFails n e \<Rightarrow> (Inl e, fs(path \<mapsto> key_file umask (take n random)))
                | SyncFails e \<Rightarrow> (Inl e, fs(path \<mapsto> key_file umask random))
                | _ \<Rightarrow> (Inr (), fs(path \<mapsto> key_file umask random))))"

text \<open>\<^verbatim>\<open>fmt\<close>'s \<open>%04o\<close>.\<close>

fun octal :: "nat \<Rightarrow> string" where
  "octal n = (if n < 8 then [digit n] else octal (n div 8) @ [digit (n mod 8)])"

declare octal.simps [simp del]

definition octal4 :: "nat \<Rightarrow> string" where
  "octal4 n = replicate (4 - length (octal n)) (CHR ''0'') @ octal n"

definition Load :: "fault \<Rightarrow> fs \<Rightarrow> string \<Rightarrow> Cipher res" where
  "Load fault fs path =
     (case fs path of
        None \<Rightarrow> Inl (Err (''master key: lstat '' @ path @ '': no such file or directory''))
      | Some info \<Rightarrow>
          if \<not> file_regular info then Inl (Err ''master key must be a regular file'')
          else if file_perm info AND 63 \<noteq> 0
          then Inl (Err (''master key permissions '' @ octal4 (file_perm info) @ '' are too open; require 0600''))
          else (case fault of
                  ReadFails e \<Rightarrow> Inl e
                | _ \<Rightarrow>
                    if length (file_data info) \<noteq> KeySize
                    then Inl (Err (''master key must be exactly '' @ itoa (int KeySize) @ '' bytes''))
                    else Inr \<lparr>Cipher_key = file_data info\<rparr>))"

section \<open>Associated data\<close>

definition aad :: "int \<Rightarrow> string \<Rightarrow> string" where
  "aad targetID kind = ''sshgatew:credential:v1:'' @ itoa targetID @ '':'' @ kind"

definition identityAAD :: "int \<Rightarrow> string" where
  "identityAAD identityID = ''sshgatew:ssh-identity:v1:'' @ itoa identityID"

definition totpAAD :: "int \<Rightarrow> string" where
  "totpAAD userID = ''sshgatew:user-totp:v1:'' @ itoa userID"

section \<open>The payload as JSON\<close>

text \<open>\<open>json.Marshal\<close> of the struct: its fields in order, an empty one with \<open>omitempty\<close> left out.\<close>

definition payload_json :: "Payload \<Rightarrow> json" where
  "payload_json p = JObj (
     (''version'', JNum (itoa (Version p)))
     # (if Password p = [] then [] else [(''password'', JStr (Password p))])
     @ (if PrivateKey p = [] then [] else [(''private_key'', JStr (b64_encode (PrivateKey p)))])
     @ (if PublicKey p = [] then [] else [(''public_key'', JStr (b64_encode (PublicKey p)))])
     @ (if Passphrase p = [] then [] else [(''passphrase'', JStr (Passphrase p))])
     @ (if TOTPSecret p = [] then [] else [(''totp_secret'', JStr (TOTPSecret p))]))"

text \<open>
  \<open>json.Unmarshal\<close> into the struct. A member is matched with a field by its name, case folded
  (U+017F and U+212A fold to \<open>s\<close> and \<open>k\<close>); unknown members are skipped; \<open>null\<close> leaves a number or a
  text as it was and empties bytes; bytes are a base-64 text or an array of numbers below 256 (a
  \<open>null\<close> in it is a zero); a value of another type is an error.
\<close>

definition fold_name :: "string \<Rightarrow> nat list" where
  "fold_name k = map (\<lambda>r. if 65 \<le> r \<and> r \<le> 90 then r + 32 else if r = 0x17F then 115
     else if r = 0x212A then 107 else r) (runes k)"

definition json_int :: "json \<Rightarrow> int \<Rightarrow> int option" where
  "json_int j old = (case j of JNull \<Rightarrow> Some old | JNum lit \<Rightarrow> atoi lit | _ \<Rightarrow> None)"

definition json_text :: "json \<Rightarrow> string \<Rightarrow> string option" where
  "json_text j old = (case j of JNull \<Rightarrow> Some old | JStr t \<Rightarrow> Some t | _ \<Rightarrow> None)"

definition json_byte :: "json \<Rightarrow> char option" where
  "json_byte j = (case j of JNull \<Rightarrow> Some (chr 0)
     | JNum lit \<Rightarrow> (if lit \<noteq> [] \<and> list_all is_digit lit \<and> digits_val lit < 256 then Some (chr (digits_val lit)) else None)
     | _ \<Rightarrow> None)"

definition json_bytes :: "json \<Rightarrow> string option" where
  "json_bytes j = (case j of JNull \<Rightarrow> Some [] | JStr t \<Rightarrow> b64_decode t
     | JArr js \<Rightarrow> those (map json_byte js) | _ \<Rightarrow> None)"

definition set_field :: "string \<Rightarrow> json \<Rightarrow> Payload \<Rightarrow> Payload option" where
  "set_field k j p =
     (let n = fold_name k in
      if n = fold_name ''version'' then map_option (\<lambda>v. p\<lparr>Version := v\<rparr>) (json_int j (Version p))
      else if n = fold_name ''password'' then map_option (\<lambda>v. p\<lparr>Password := v\<rparr>) (json_text j (Password p))
      else if n = fold_name ''private_key'' then map_option (\<lambda>v. p\<lparr>PrivateKey := v\<rparr>) (json_bytes j)
      else if n = fold_name ''public_key'' then map_option (\<lambda>v. p\<lparr>PublicKey := v\<rparr>) (json_bytes j)
      else if n = fold_name ''passphrase'' then map_option (\<lambda>v. p\<lparr>Passphrase := v\<rparr>) (json_text j (Passphrase p))
      else if n = fold_name ''totp_secret'' then map_option (\<lambda>v. p\<lparr>TOTPSecret := v\<rparr>) (json_text j (TOTPSecret p))
      else Some p)"

fun set_fields :: "(string \<times> json) list \<Rightarrow> Payload \<Rightarrow> Payload option" where
  "set_fields [] p = Some p"
| "set_fields ((k, j) # ms) p = Option.bind (set_field k j p) (set_fields ms)"

definition unmarshal_payload :: "string \<Rightarrow> Payload option" where
  "unmarshal_payload s =
     (case parse_json s of
        Some (JObj ms) \<Rightarrow> set_fields ms empty_payload
      | Some JNull \<Rightarrow> Some empty_payload
      | _ \<Rightarrow> None)"

definition marshal_payload :: "Payload \<Rightarrow> string" where
  "marshal_payload p = print_json (payload_json p)"

section \<open>Encryption\<close>

text \<open>\<open>rand.Read\<close> of the nonce is the argument \<open>random\<close>.\<close>

definition encrypt :: "aead \<Rightarrow> string res \<Rightarrow> Cipher \<Rightarrow> Payload \<Rightarrow> string \<Rightarrow> (string \<times> string) res" where
  "encrypt A random c p0 associatedData =
     (let p = p0\<lparr>Version := 1\<rparr>; plain = marshal_payload p
      in if length (Cipher_key c) \<noteq> KeySize then Inl (Err ''chacha20poly1305: bad key length'')
         else (case random of
                 Inl e \<Rightarrow> Inl e
               | Inr nonce \<Rightarrow> Inr (nonce, Seal A (Cipher_key c) nonce plain associatedData)))"

definition decrypt :: "aead \<Rightarrow> Cipher \<Rightarrow> string \<Rightarrow> string \<Rightarrow> string \<Rightarrow> Payload res" where
  "decrypt A c nonce ciphertext associatedData =
     (if length (Cipher_key c) \<noteq> KeySize then Inl (Err ''chacha20poly1305: bad key length'')
      else case Open A (Cipher_key c) nonce ciphertext associatedData of
             Inl (Panic m) \<Rightarrow> Inl (Panic m)
           | Inl _ \<Rightarrow> Inl (Err ''credential authentication failed'')
           | Inr plain \<Rightarrow>
               (case unmarshal_payload plain of
                  None \<Rightarrow> Inl (Err ''credential payload is corrupt'')
                | Some p \<Rightarrow>
                    if Version p \<noteq> 1
                    then Inl (Err (''unsupported credential payload version '' @ itoa (Version p)))
                    else Inr p))"

definition Encrypt :: "aead \<Rightarrow> string res \<Rightarrow> Cipher \<Rightarrow> int \<Rightarrow> string \<Rightarrow> Payload \<Rightarrow> (string \<times> string) res" where
  "Encrypt A random c targetID kind p = encrypt A random c p (aad targetID kind)"

definition Decrypt :: "aead \<Rightarrow> Cipher \<Rightarrow> int \<Rightarrow> string \<Rightarrow> string \<Rightarrow> string \<Rightarrow> Payload res" where
  "Decrypt A c targetID kind nonce ciphertext = decrypt A c nonce ciphertext (aad targetID kind)"

definition EncryptSSHIdentity :: "aead \<Rightarrow> string res \<Rightarrow> Cipher \<Rightarrow> int \<Rightarrow> Payload \<Rightarrow> (string \<times> string) res" where
  "EncryptSSHIdentity A random c identityID p = encrypt A random c p (identityAAD identityID)"

definition DecryptSSHIdentity :: "aead \<Rightarrow> Cipher \<Rightarrow> int \<Rightarrow> string \<Rightarrow> string \<Rightarrow> Payload res" where
  "DecryptSSHIdentity A c identityID nonce ciphertext = decrypt A c nonce ciphertext (identityAAD identityID)"

definition EncryptTOTP :: "aead \<Rightarrow> string res \<Rightarrow> Cipher \<Rightarrow> int \<Rightarrow> string \<Rightarrow> (string \<times> string) res" where
  "EncryptTOTP A random c userID secret = encrypt A random c (empty_payload\<lparr>TOTPSecret := secret\<rparr>) (totpAAD userID)"

definition DecryptTOTP :: "aead \<Rightarrow> Cipher \<Rightarrow> int \<Rightarrow> string \<Rightarrow> string \<Rightarrow> string res" where
  "DecryptTOTP A c userID nonce ciphertext =
     (case decrypt A c nonce ciphertext (totpAAD userID) of
        Inl e \<Rightarrow> Inl e
      | Inr payload \<Rightarrow>
          if TOTPSecret payload = [] then Inl (Err ''TOTP payload is empty'') else Inr (TOTPSecret payload))"

section \<open>What the cipher relies on\<close>

text \<open>
  The documented contract of an AEAD: a nonce of the right size opens what it sealed, and only under
  the associated data it was sealed with.
\<close>

definition opens :: "aead \<Rightarrow> bool" where
  "opens A \<longleftrightarrow> (\<forall>k n p ad. length n = NonceSizeX \<longrightarrow> Open A k n (Seal A k n p ad) ad = Inr p)"

definition binds :: "aead \<Rightarrow> bool" where
  "binds A \<longleftrightarrow> (\<forall>k n p ad ad'. length n = NonceSizeX \<longrightarrow> ad' \<noteq> ad \<longrightarrow>
     (\<exists>m. Open A k n (Seal A k n p ad) ad' = Inl (Err m)))"

text \<open>
  An instance for evaluating the properties on concrete inputs: the ``ciphertext'' is the length of
  the associated data in unary, the associated data and the plain text. It hides nothing.
\<close>

definition clear_aead :: aead where
  "clear_aead = \<lparr>
     Seal = (\<lambda>k n p ad. replicate (length ad) (CHR ''1'') @ CHR ''0'' # ad @ p),
     Open = (\<lambda>k n c ad.
       if length n \<noteq> NonceSizeX then Inl (Panic ''bad nonce length passed to Open'')
       else let pre = replicate (length ad) (CHR ''1'') @ CHR ''0'' # ad
            in if HasPrefix c pre then Inr (drop (length pre) c)
               else Inl (Err ''message authentication failed''))\<rparr>"

section \<open>The payload survives encoding and decoding\<close>

text \<open>What any encoding gives whose decoder inverts it on valid values: two values never share a text.\<close>

locale codec =
  fixes valid :: "'a \<Rightarrow> bool" and enc :: "'a \<Rightarrow> string" and dec :: "string \<Rightarrow> 'a option"
  assumes dec_enc: "valid x \<Longrightarrow> dec (enc x) = Some x"
begin

lemma enc_inj: "valid x \<Longrightarrow> valid y \<Longrightarrow> enc x = enc y \<Longrightarrow> x = y"
  by (metis dec_enc option.inject)

lemma dec_surj: "valid x \<Longrightarrow> \<exists>s. dec s = Some x"
  by (rule exI[of _ "enc x"]) (rule dec_enc)

end

interpretation b64: codec "\<lambda>_. True" b64_encode b64_decode
  by unfold_locales (rule b64_decode_encode)

definition int64 :: "int \<Rightarrow> bool" where
  "int64 i \<longleftrightarrow> - (2 ^ 63) \<le> i \<and> i < 2 ^ 63"

lemma atoi_itoa:
  assumes "int64 i" shows "atoi (itoa i) = Some i"
proof -
  have hd: "c \<noteq> CHR ''-'' \<and> c \<noteq> CHR ''+''" if "is_digit c" for c
    using that by (auto simp: is_digit_def)
  obtain c cs where d: "digits (nat \<bar>i\<bar>) = c # cs" using digits_nonempty by (cases "digits (nat \<bar>i\<bar>)") auto
  then have "is_digit c" "list_all is_digit cs" using digits_all[of "nat \<bar>i\<bar>"] by auto
  moreover have "int (digits_val (c # cs)) = \<bar>i\<bar>" using d digits_val_digits[of "nat \<bar>i\<bar>"] by simp
  ultimately show ?thesis
    using assms d hd[of c] by (auto simp: atoi_def itoa_def int64_def abs_if split: if_splits)
qed

definition clean_payload :: "Payload \<Rightarrow> Payload" where
  "clean_payload p = p\<lparr>Password := to_valid (Password p), Passphrase := to_valid (Passphrase p),
     TOTPSecret := to_valid (TOTPSecret p)\<rparr>"

lemma field_names:
  "fold_name ''version'' = map byte ''version''" "fold_name ''password'' = map byte ''password''"
  "fold_name ''private_key'' = map byte ''private_key''" "fold_name ''public_key'' = map byte ''public_key''"
  "fold_name ''passphrase'' = map byte ''passphrase''" "fold_name ''totp_secret'' = map byte ''totp_secret''"
  by code_simp+

lemma set_field_simps:
  "set_field ''version'' j p = map_option (\<lambda>v. p\<lparr>Version := v\<rparr>) (json_int j (Version p))"
  "set_field ''password'' j p = map_option (\<lambda>v. p\<lparr>Password := v\<rparr>) (json_text j (Password p))"
  "set_field ''private_key'' j p = map_option (\<lambda>v. p\<lparr>PrivateKey := v\<rparr>) (json_bytes j)"
  "set_field ''public_key'' j p = map_option (\<lambda>v. p\<lparr>PublicKey := v\<rparr>) (json_bytes j)"
  "set_field ''passphrase'' j p = map_option (\<lambda>v. p\<lparr>Passphrase := v\<rparr>) (json_text j (Passphrase p))"
  "set_field ''totp_secret'' j p = map_option (\<lambda>v. p\<lparr>TOTPSecret := v\<rparr>) (json_text j (TOTPSecret p))"
  by (simp_all add: set_field_def Let_def field_names)

lemma to_valid_ascii: "ascii s \<Longrightarrow> to_valid s = s"
  using to_valid_id_iff ValidString_ascii by blast

lemma to_valid_Nil [simp]: "to_valid [] = []"
  by (simp add: to_valid_def)

lemma names_plain:
  "to_valid ''version'' = ''version''" "to_valid ''password'' = ''password''"
  "to_valid ''private_key'' = ''private_key''" "to_valid ''public_key'' = ''public_key''"
  "to_valid ''passphrase'' = ''passphrase''" "to_valid ''totp_secret'' = ''totp_secret''"
  by (simp_all add: to_valid_ascii)

lemma payload_json_facts:
  assumes "int64 (Version p)"
  shows "printable (payload_json p)" "json_depth (payload_json p) \<le> 10000"
  using assms by (simp_all add: payload_json_def atoi_itoa)

lemma unmarshal_marshal:
  assumes "int64 (Version p)"
  shows "unmarshal_payload (marshal_payload p) = Some (clean_payload p)"
  using assms
  by (simp add: unmarshal_payload_def marshal_payload_def parse_print_json payload_json_facts)
    (simp add: payload_json_def names_plain set_field_simps json_int_def json_text_def json_bytes_def
      empty_payload_def clean_payload_def b64_ascii to_valid_ascii b64_decode_encode atoi_itoa)

definition utf8_payload :: "Payload \<Rightarrow> bool" where
  "utf8_payload p \<longleftrightarrow> ValidString (Password p) \<and> ValidString (Passphrase p) \<and> ValidString (TOTPSecret p)"

lemma clean_payload_id_iff: "clean_payload p = p \<longleftrightarrow> utf8_payload p"
proof -
  have "clean_payload p = p \<longleftrightarrow> to_valid (Password p) = Password p \<and> to_valid (Passphrase p) = Passphrase p
      \<and> to_valid (TOTPSecret p) = TOTPSecret p"
    by (cases p) (auto simp: clean_payload_def)
  then show ?thesis by (simp add: utf8_payload_def to_valid_id_iff)
qed

interpretation payload: codec "\<lambda>p. int64 (Version p) \<and> utf8_payload p" marshal_payload unmarshal_payload
  by unfold_locales (simp add: unmarshal_marshal clean_payload_id_iff)

interpretation json_string: codec ValidString quote_json "\<lambda>s. map_option fst (parse_string s)"
proof unfold_locales
  fix x assume "ValidString x"
  then show "map_option fst (parse_string (quote_json x)) = Some x"
    using parse_string_quote[of x "[]"] by (simp add: to_valid_id_iff)
qed

lemma int64_1 [simp]: "int64 1"
  by (simp add: int64_def)

lemma encrypt_InrD:
  assumes "encrypt A random c p ad = Inr (n, ct)"
  shows "length (Cipher_key c) = KeySize" "random = Inr n"
    "ct = Seal A (Cipher_key c) n (marshal_payload (p\<lparr>Version := 1\<rparr>)) ad"
  using assms by (auto simp: encrypt_def Let_def split: if_splits sum.splits)

lemma decrypt_encrypt:
  assumes "opens A" "encrypt A random c p ad = Inr (n, ct)" "length n = NonceSizeX"
  shows "decrypt A c n ct ad = Inr (clean_payload (p\<lparr>Version := 1\<rparr>))"
  using encrypt_InrD[OF assms(2)] assms(1,3)
  by (simp add: decrypt_def opens_def unmarshal_marshal) (simp add: clean_payload_def)

lemma decrypt_foreign:
  assumes "binds A" "encrypt A random c p ad = Inr (n, ct)" "length n = NonceSizeX" "ad' \<noteq> ad"
  shows "decrypt A c n ct ad' = Inl (Err ''credential authentication failed'')"
proof -
  note e = encrypt_InrD[OF assms(2)]
  obtain m where "Open A (Cipher_key c) n ct ad' = Inl (Err m)"
    using assms(1,3,4) e(3) unfolding binds_def by blast
  with e(1) show ?thesis by (simp add: decrypt_def)
qed

section \<open>Where a ciphertext may be opened\<close>

text \<open>The rows a ciphertext can belong to, with the pair of methods for each.\<close>

datatype purpose = ForTarget int string | ForIdentity int | ForTOTP int

fun purpose_aad :: "purpose \<Rightarrow> string" where
  "purpose_aad (ForTarget i k) = aad i k"
| "purpose_aad (ForIdentity i) = identityAAD i"
| "purpose_aad (ForTOTP i) = totpAAD i"

fun encrypt_for :: "aead \<Rightarrow> string res \<Rightarrow> Cipher \<Rightarrow> purpose \<Rightarrow> Payload \<Rightarrow> (string \<times> string) res" where
  "encrypt_for A r c (ForTarget i k) p = Encrypt A r c i k p"
| "encrypt_for A r c (ForIdentity i) p = EncryptSSHIdentity A r c i p"
| "encrypt_for A r c (ForTOTP i) p = EncryptTOTP A r c i (TOTPSecret p)"

fun decrypt_for :: "aead \<Rightarrow> Cipher \<Rightarrow> purpose \<Rightarrow> string \<Rightarrow> string \<Rightarrow> Payload res" where
  "decrypt_for A c (ForTarget i k) n ct = Decrypt A c i k n ct"
| "decrypt_for A c (ForIdentity i) n ct = DecryptSSHIdentity A c i n ct"
| "decrypt_for A c (ForTOTP i) n ct =
     (case DecryptTOTP A c i n ct of Inl e \<Rightarrow> Inl e | Inr t \<Rightarrow> Inr (empty_payload\<lparr>Version := 1, TOTPSecret := t\<rparr>))"

lemma itoa_no_colon: "CHR '':'' \<notin> set (itoa i)"
proof
  assume "CHR '':'' \<in> set (itoa i)"
  then have "CHR '':'' = CHR ''-'' \<or> is_digit (CHR '':'')" by (rule itoa_chars)
  then show False by (simp add: is_digit_def)
qed

lemma itoa_colon_inj: "itoa i @ CHR '':'' # k = itoa j @ CHR '':'' # l \<longleftrightarrow> i = j \<and> k = l"
proof
  assume e: "itoa i @ CHR '':'' # k = itoa j @ CHR '':'' # l"
  have "takeWhile ((\<noteq>) (CHR '':'')) (itoa n @ CHR '':'' # t) = itoa n" for n t
    using itoa_no_colon[of n] by (subst takeWhile_append2) auto
  with e have "itoa i = itoa j" by metis
  with e show "i = j \<and> k = l" by (simp add: itoa_inj)
qed simp

lemma purpose_aad_inj: "purpose_aad a = purpose_aad b \<longleftrightarrow> a = b"
  by (cases a; cases b) (simp_all add: aad_def identityAAD_def totpAAD_def itoa_colon_inj itoa_inj)

lemma encrypt_for_encrypt:
  "encrypt_for A r c a p = encrypt A r c
     (case a of ForTOTP _ \<Rightarrow> empty_payload\<lparr>TOTPSecret := TOTPSecret p\<rparr> | _ \<Rightarrow> p) (purpose_aad a)"
  by (cases a) (simp_all add: Encrypt_def EncryptSSHIdentity_def EncryptTOTP_def)

lemma decrypt_for_fails:
  "decrypt A c n ct (purpose_aad a) = Inl e \<Longrightarrow> decrypt_for A c a n ct = Inl e"
  by (cases a) (simp_all add: Decrypt_def DecryptSSHIdentity_def DecryptTOTP_def)

text \<open>
  C11: A ciphertext opens only in the row it was made for. With an AEAD that authenticates its associated
  data, what was encrypted for one target and credential kind, SSH identity or user's TOTP secret is
  refused by the decryption for every other target, kind, identity or user, and by the decryption for a
  row of another table, even with an equal id.
\<close>

theorem ciphertext_bound_to_row:
  assumes "binds A" "encrypt_for A (Inr n) c a p = Inr (n, ct)" "length n = NonceSizeX" "b \<noteq> a"
  shows "decrypt_for A c b n ct = Inl (Err ''credential authentication failed'')"
  using assms by (intro decrypt_for_fails decrypt_foreign[of A "Inr n"])
    (auto simp: encrypt_for_encrypt purpose_aad_inj)

text \<open>
  C12: A credential decrypts to what was encrypted, as version 1, when its password, passphrase and TOTP
  secret are valid UTF-8; a text that is not comes back changed, with U+FFFD for every bad byte. Key
  material is kept exactly.
\<close>

theorem Decrypt_Encrypt:
  assumes "opens A" "Encrypt A random c i k p = Inr (n, ct)" "length n = NonceSizeX"
  shows "Decrypt A c i k n ct = Inr (clean_payload (p\<lparr>Version := 1\<rparr>))
    \<and> (Decrypt A c i k n ct = Inr (p\<lparr>Version := 1\<rparr>) \<longleftrightarrow> utf8_payload p)"
proof -
  have "Decrypt A c i k n ct = Inr (clean_payload (p\<lparr>Version := 1\<rparr>))"
    using assms by (auto simp: Decrypt_def Encrypt_def intro: decrypt_encrypt)
  moreover have "utf8_payload (p\<lparr>Version := 1\<rparr>) = utf8_payload p" by (simp add: utf8_payload_def)
  ultimately show ?thesis by (simp add: clean_payload_id_iff)
qed

text \<open>
  A new master key file is loaded back as the random bytes it was made of, whatever the umask, and
  generating one never replaces or alters a file that exists. A key file that any group or other bit is
  set on is refused.
\<close>

theorem Generate_then_Load:
  assumes "Generate fault umask random fs path = (r, fs')"
  shows "(\<forall>f. fs path = Some f \<longrightarrow> \<not> is_ok r \<and> fs' = fs)
    \<and> (r = Inr () \<longrightarrow> length random = KeySize \<longrightarrow> Load NoFault fs' path = Inr \<lparr>Cipher_key = random\<rparr>)
    \<and> (\<forall>f. fs' path = Some f \<longrightarrow> file_perm f AND 63 \<noteq> 0 \<longrightarrow> \<not> is_ok (Load fault fs' path))"
proof -
  have "(384 AND (511 XOR umask)) AND 63 = (0::nat)"
    by (simp add: and.commute[of 384] and.assoc)
  then show ?thesis
    using assms
    by (auto simp: Generate_def Load_def key_file_def split: fault.splits if_splits)
qed

definition sample_payload :: Payload where
  "sample_payload = empty_payload\<lparr>Password := ''pa'' @ EncodeRune 0xE9 @ ''s'', PrivateKey := [chr 0, chr 255]\<rparr>"

definition sample_cipher :: Cipher where
  "sample_cipher = \<lparr>Cipher_key = replicate 32 (chr 7)\<rparr>"

definition sample_nonce :: string where
  "sample_nonce = replicate 24 (chr 9)"

lemma clear_opens: "opens clear_aead"
  by (simp add: opens_def clear_aead_def Let_def HasPrefix_iff)

lemma clear_binds: "binds clear_aead"
proof -
  have "ad' = ad" if "replicate (length ad) (CHR ''1'') @ CHR ''0'' # ad @ p = (replicate (length ad') (CHR ''1'') @ CHR ''0'' # ad') @ t"
    for ad ad' p t :: string
  proof -
    have tw: "takeWhile ((=) (CHR ''1'')) (replicate m (CHR ''1'') @ CHR ''0'' # u) = replicate m (CHR ''1'')" for m u
      by (subst takeWhile_append2) auto
    from arg_cong[OF that, of "takeWhile ((=) (CHR ''1''))"]
    have "replicate (length ad) (CHR ''1'') = replicate (length ad') (CHR ''1'')"
      unfolding append_assoc append_Cons tw .
    from arg_cong[OF this, of length] have "length ad = length ad'" by simp
    with that show ?thesis by simp
  qed
  then have "\<not> HasPrefix (replicate (length ad) (CHR ''1'') @ CHR ''0'' # ad @ p)
      (replicate (length ad') (CHR ''1'') @ CHR ''0'' # ad')" if "ad' \<noteq> ad" for ad ad' p :: string
    using that unfolding HasPrefix_iff by blast
  then show ?thesis by (simp add: binds_def clear_aead_def Let_def)
qed

lemma sample_sealed: "length sample_nonce = NonceSizeX"
  "encrypt_for clear_aead (Inr sample_nonce) sample_cipher (ForTarget 1 ''password'') sample_payload = Inr (sample_nonce,
     Seal clear_aead (Cipher_key sample_cipher) sample_nonce (marshal_payload (sample_payload\<lparr>Version := 1\<rparr>)) (aad 1 ''password''))"
  by (simp_all add: sample_nonce_def NonceSizeX_def Encrypt_def encrypt_def Let_def sample_cipher_def KeySize_def)

theorem ciphertext_bound_to_row_witness:
  "decrypt_for clear_aead sample_cipher (ForTOTP 1) sample_nonce
     (Seal clear_aead (Cipher_key sample_cipher) sample_nonce (marshal_payload (sample_payload\<lparr>Version := 1\<rparr>)) (aad 1 ''password''))
   = Inl (Err ''credential authentication failed'')"
  using ciphertext_bound_to_row[OF clear_binds sample_sealed(2,1), of "ForTOTP 1"] by simp

theorem Decrypt_Encrypt_witness:
  "Decrypt clear_aead sample_cipher 1 ''password'' sample_nonce
     (Seal clear_aead (Cipher_key sample_cipher) sample_nonce (marshal_payload (sample_payload\<lparr>Version := 1\<rparr>)) (aad 1 ''password''))
   = Inr (sample_payload\<lparr>Version := 1\<rparr>)"
proof -
  have "utf8_payload sample_payload" by code_simp
  then show ?thesis
    using Decrypt_Encrypt[OF clear_opens sample_sealed(2)[unfolded encrypt_for.simps] sample_sealed(1)] by blast
qed

theorem Generate_then_Load_witness:
  "Load NoFault ((\<lambda>_. None)(''k'' \<mapsto> key_file 18 (replicate 32 (chr 7)))) ''k'' = Inr sample_cipher"
proof -
  have "Generate NoFault 18 (replicate 32 (chr 7)) (\<lambda>_. None) ''k''
      = (Inr (), (\<lambda>_. None)(''k'' \<mapsto> key_file 18 (replicate 32 (chr 7))))"
    by (simp add: Generate_def)
  from Generate_then_Load[OF this] show ?thesis by (simp add: KeySize_def sample_cipher_def)
qed

end
