(* ===== verification/Config.thy ===== *)
theory Config
  imports Go_Net Secrets
begin

text \<open>
  \<^verbatim>\<open>internal/config/config.go\<close>: the configuration, its defaults, the environment variables that
  override the OIDC section, and the validation every configuration passes before it is used or
  written. A duration is a number of nanoseconds. The TOML package is a parameter (\<open>decode\<close>,
  \<open>marshal\<close>), as is \<open>url.Parse\<close>, whose grammar changes with the Go release: \<open>url_parts\<close> holds what the
  code reads of its result.
\<close>

section \<open>Types\<close>

record OIDCConfig =
  OIDC_Enabled :: bool
  OIDC_IssuerURL :: string
  OIDC_ClientID :: string
  OIDC_ClientSecret :: string
  OIDC_UsernameClaim :: string
  OIDC_Scopes :: "string list"
  OIDC_LoginTimeout :: int

record Config =
  ListenAddress :: string
  DatabasePath :: string
  MasterKeyPath :: string
  HostKeyPath :: string
  IdleTimeout :: int
  DownstreamTimeout :: int
  MaxSessions :: int
  MaxSessionsPerUser :: int
  LogLevel :: string
  LogFormat :: string
  OIDC :: OIDCConfig

record url_parts =
  url_Scheme :: string
  url_Host :: string
  url_Hostname :: string
  url_User :: bool
  url_RawQuery :: string
  url_Fragment :: string

type_synonym url_parser = "string \<Rightarrow> url_parts option"

section \<open>Defaults\<close>

definition Default :: Config where
  "Default = \<lparr>
     ListenAddress = ''0.0.0.0:2222'', DatabasePath = ''/var/lib/sshgatew/sshgatew.db'',
     MasterKeyPath = ''/var/lib/sshgatew/master.key'', HostKeyPath = ''/var/lib/sshgatew/ssh_host_ed25519_key'',
     IdleTimeout = 30 * Minute, DownstreamTimeout = 10 * Second,
     MaxSessions = 100, MaxSessionsPerUser = 5, LogLevel = ''info'', LogFormat = ''json'',
     OIDC = \<lparr>OIDC_Enabled = False, OIDC_IssuerURL = [], OIDC_ClientID = [], OIDC_ClientSecret = [],
       OIDC_UsernameClaim = ''preferred_username'', OIDC_Scopes = [''openid'', ''profile'', ''email''],
       OIDC_LoginTimeout = 5 * Minute\<rparr>\<rparr>"

definition ForDataDir :: "string \<Rightarrow> Config" where
  "ForDataDir dir = Default\<lparr>
     DatabasePath := filepath_Join dir ''sshgatew.db'',
     MasterKeyPath := filepath_Join dir ''master.key'',
     HostKeyPath := filepath_Join dir ''ssh_host_ed25519_key''\<rparr>"

section \<open>Validation\<close>

definition isLoopbackHost :: "string \<Rightarrow> bool" where
  "isLoopbackHost host \<longleftrightarrow> EqualFold host ''localhost'' \<or> ip_IsLoopback host"

text \<open>The loop over the scopes, with whether \<open>openid\<close> was seen.\<close>

fun scopes_ok :: "string list \<Rightarrow> bool \<Rightarrow> bool res" where
  "scopes_ok [] hasOpenID = Inr hasOpenID"
| "scopes_ok (scope # rest) hasOpenID =
     (if TrimSpace scope = [] \<or> length (Fields scope) \<noteq> 1
      then Inl (Err ''oidc.scopes must contain non-empty values without whitespace'')
      else scopes_ok rest (hasOpenID \<or> scope = ''openid''))"

definition validate :: "url_parser \<Rightarrow> OIDCConfig \<Rightarrow> unit res" where
  "validate parse c =
     (if \<not> OIDC_Enabled c then Inr ()
      else if OIDC_IssuerURL c = [] \<or> OIDC_ClientID c = []
      then Inl (Err ''oidc.issuer_url and oidc.client_id are required when OIDC is enabled'')
      else
        let bad = Inl (Err ''oidc.issuer_url must be an absolute issuer URL without a query or fragment'') in
        case parse (OIDC_IssuerURL c) of
          None \<Rightarrow> bad
        | Some issuer \<Rightarrow>
            if url_Host issuer = [] \<or> url_RawQuery issuer \<noteq> [] \<or> url_Fragment issuer \<noteq> [] then bad
            else if url_Scheme issuer \<noteq> ''https'' \<and> \<not> (url_Scheme issuer = ''http'' \<and> isLoopbackHost (url_Hostname issuer))
            then Inl (Err ''oidc.issuer_url must use HTTPS'')
            else if TrimSpace (OIDC_UsernameClaim c) = [] then Inl (Err ''oidc.username_claim is required'')
            else if OIDC_LoginTimeout c < 30 * Second \<or> OIDC_LoginTimeout c > 15 * Minute
            then Inl (Err ''oidc.login_timeout must be between 30s and 15m'')
            else (case scopes_ok (OIDC_Scopes c) False of
                    Inl e \<Rightarrow> Inl e
                  | Inr hasOpenID \<Rightarrow>
                      if \<not> hasOpenID then Inl (Err ''oidc.scopes must include openid'') else Inr ()))"

definition wrap_error :: "string \<Rightarrow> go_error \<Rightarrow> go_error" where
  "wrap_error prefix e = (case e of Err m \<Rightarrow> Err (prefix @ '': '' @ m) | _ \<Rightarrow> e)"

definition Validate :: "url_parser \<Rightarrow> Config \<Rightarrow> unit res" where
  "Validate parse c =
     (case SplitHostPort (ListenAddress c) of
        Inl e \<Rightarrow> Inl (wrap_error ''invalid listen_address'' e)
      | Inr _ \<Rightarrow>
          if DatabasePath c = [] \<or> MasterKeyPath c = [] \<or> HostKeyPath c = []
          then Inl (Err ''database_path, master_key_path, and host_key_path are required'')
          else if IdleTimeout c \<le> 0 \<or> DownstreamTimeout c \<le> 0 then Inl (Err ''timeouts must be positive'')
          else if MaxSessions c \<le> 0 \<or> MaxSessionsPerUser c \<le> 0 \<or> MaxSessionsPerUser c > MaxSessions c
          then Inl (Err ''invalid session limits'')
          else if LogLevel c \<notin> set [''debug'', ''info'', ''warn'', ''error'']
          then Inl (Err ''log_level must be debug, info, warn, or error'')
          else if LogFormat c \<noteq> ''json'' \<and> LogFormat c \<noteq> ''text''
          then Inl (Err ''log_format must be json or text'')
          else validate parse (OIDC c))"

section \<open>The environment\<close>

type_synonym env = "string \<Rightarrow> string option"

definition nonEmptyEnvironment :: "env \<Rightarrow> string \<Rightarrow> string option" where
  "nonEmptyEnvironment env name = (case env name of
     Some value \<Rightarrow> if TrimSpace value \<noteq> [] then Some value else None | None \<Rightarrow> None)"

definition commas_to_spaces :: "string \<Rightarrow> string" where
  "commas_to_spaces value = map (\<lambda>c. if c = CHR '','' then CHR '' '' else c) value"

definition env_text :: "env \<Rightarrow> string \<Rightarrow> (string \<Rightarrow> OIDCConfig \<Rightarrow> OIDCConfig) \<Rightarrow> OIDCConfig \<Rightarrow> OIDCConfig" where
  "env_text env name upd c = (case nonEmptyEnvironment env name of Some value \<Rightarrow> upd value c | None \<Rightarrow> c)"

definition applyOIDCEnvironment :: "(string \<Rightarrow> nat \<Rightarrow> nat) \<Rightarrow> env \<Rightarrow> Config \<Rightarrow> Config res" where
  "applyOIDCEnvironment frac env c0 =
     (let enabled = (case nonEmptyEnvironment env ''SSHGATEW_OIDC_ENABLED'' of
            None \<Rightarrow> Inr (OIDC_Enabled (OIDC c0))
          | Some value \<Rightarrow> (case ParseBool value of
              None \<Rightarrow> Inl (Err ''SSHGATEW_OIDC_ENABLED must be true or false: invalid syntax'')
            | Some b \<Rightarrow> Inr b))
      in case enabled of
           Inl e \<Rightarrow> Inl e
         | Inr b \<Rightarrow>
             let o1 = (OIDC c0)\<lparr>OIDC_Enabled := b\<rparr>;
                 o2 = env_text env ''SSHGATEW_OIDC_ISSUER'' (\<lambda>v o'. o'\<lparr>OIDC_IssuerURL := TrimSpace v\<rparr>) o1;
                 o3 = env_text env ''SSHGATEW_OIDC_CLIENT_ID'' (\<lambda>v o'. o'\<lparr>OIDC_ClientID := v\<rparr>) o2;
                 o4 = env_text env ''SSHGATEW_OIDC_CLIENT_SECRET'' (\<lambda>v o'. o'\<lparr>OIDC_ClientSecret := v\<rparr>) o3;
                 o5 = env_text env ''SSHGATEW_OIDC_USERNAME_CLAIM'' (\<lambda>v o'. o'\<lparr>OIDC_UsernameClaim := TrimSpace v\<rparr>) o4;
                 o6 = env_text env ''SSHGATEW_OIDC_SCOPES'' (\<lambda>v o'. o'\<lparr>OIDC_Scopes := Fields (commas_to_spaces v)\<rparr>) o5
             in case nonEmptyEnvironment env ''SSHGATEW_OIDC_LOGIN_TIMEOUT'' of
                  None \<Rightarrow> Inr (c0\<lparr>OIDC := o6\<rparr>)
                | Some value \<Rightarrow>
                    (case ParseDuration frac value of
                       Inl e \<Rightarrow> Inl (wrap_error ''invalid SSHGATEW_OIDC_LOGIN_TIMEOUT'' e)
                     | Inr timeout \<Rightarrow> Inr (c0\<lparr>OIDC := o6\<lparr>OIDC_LoginTimeout := timeout\<rparr>\<rparr>)))"

section \<open>Loading and writing\<close>

text \<open>\<open>decode c text\<close> is the strict TOML decoding of a text over the values of \<open>c\<close>.\<close>

definition Load_Config :: "(Config \<Rightarrow> string \<Rightarrow> Config res) \<Rightarrow> url_parser \<Rightarrow> (string \<Rightarrow> nat \<Rightarrow> nat) \<Rightarrow> env
    \<Rightarrow> fs \<Rightarrow> string \<Rightarrow> Config res" where
  "Load_Config decode parse frac env fs path =
     (case fs path of
        None \<Rightarrow> Inl (Err (''read config: open '' @ path @ '': no such file or directory''))
      | Some f \<Rightarrow>
          (case decode Default (file_data f) of
             Inl e \<Rightarrow> Inl (wrap_error ''decode config'' e)
           | Inr c \<Rightarrow>
               (case applyOIDCEnvironment frac env c of
                  Inl e \<Rightarrow> Inl e
                | Inr c' \<Rightarrow> (case Validate parse c' of Inl e \<Rightarrow> Inl e | Inr _ \<Rightarrow> Inr c'))))"

text \<open>Octal 0640 is 416.\<close>

definition Write :: "(Config \<Rightarrow> string res) \<Rightarrow> url_parser \<Rightarrow> fault \<Rightarrow> nat \<Rightarrow> fs \<Rightarrow> string \<Rightarrow> Config \<Rightarrow> (fs, unit) outcome" where
  "Write marshal parse fault umask fs path c =
     (case Validate parse c of
        Inl e \<Rightarrow> (Inl e, fs)
      | Inr _ \<Rightarrow>
          (case marshal c of
             Inl e \<Rightarrow> (Inl e, fs)
           | Inr b \<Rightarrow>
               let f = (\<lambda>bs. \<lparr>file_regular = True, file_perm = 416 AND (511 XOR umask), file_data = bs\<rparr>) in
               (case fault of
                  MkdirFails e \<Rightarrow> (Inl e, fs)
                | OpenFails e \<Rightarrow> (Inl e, fs)
                | _ \<Rightarrow>
                    if fs path \<noteq> None then (Inl (Err ''file exists''), fs)
                    else (case fault of
                            WriteFails n e \<Rightarrow> (Inl e, fs(path \<mapsto> f (take n b)))
                          | SyncFails e \<Rightarrow> (Inl e, fs(path \<mapsto> f b))
                          | _ \<Rightarrow> (Inr (), fs(path \<mapsto> f b))))))"

section \<open>What a valid configuration guarantees\<close>

definition safe_issuer :: "url_parser \<Rightarrow> OIDCConfig \<Rightarrow> bool" where
  "safe_issuer parse c \<longleftrightarrow> (\<exists>u. parse (OIDC_IssuerURL c) = Some u \<and> url_Host u \<noteq> [] \<and> url_RawQuery u = [] \<and> url_Fragment u = []
     \<and> (url_Scheme u = ''https'' \<or> url_Scheme u = ''http'' \<and> isLoopbackHost (url_Hostname u)))"

definition valid_config :: "url_parser \<Rightarrow> Config \<Rightarrow> bool" where
  "valid_config parse c \<longleftrightarrow>
     is_ok (SplitHostPort (ListenAddress c)) \<and> DatabasePath c \<noteq> [] \<and> MasterKeyPath c \<noteq> [] \<and> HostKeyPath c \<noteq> []
     \<and> 0 < IdleTimeout c \<and> 0 < DownstreamTimeout c
     \<and> 1 \<le> MaxSessionsPerUser c \<and> MaxSessionsPerUser c \<le> MaxSessions c
     \<and> LogLevel c \<in> {''debug'', ''info'', ''warn'', ''error''} \<and> LogFormat c \<in> {''json'', ''text''}
     \<and> (OIDC_Enabled (OIDC c) \<longrightarrow>
          safe_issuer parse (OIDC c) \<and> OIDC_ClientID (OIDC c) \<noteq> [] \<and> OIDC_IssuerURL (OIDC c) \<noteq> []
          \<and> TrimSpace (OIDC_UsernameClaim (OIDC c)) \<noteq> []
          \<and> 30 * Second \<le> OIDC_LoginTimeout (OIDC c) \<and> OIDC_LoginTimeout (OIDC c) \<le> 15 * Minute
          \<and> ''openid'' \<in> set (OIDC_Scopes (OIDC c))
          \<and> (\<forall>sc\<in>set (OIDC_Scopes (OIDC c)). TrimSpace sc \<noteq> [] \<and> length (Fields sc) = 1))"

lemma scopes_ok_iff:
  "scopes_ok scs seen = Inr b \<longleftrightarrow> (\<forall>sc\<in>set scs. TrimSpace sc \<noteq> [] \<and> length (Fields sc) = 1)
     \<and> b = (seen \<or> ''openid'' \<in> set scs)"
  by (induction scs seen rule: scopes_ok.induct) auto

lemma validate_iff:
  "validate parse c = Inr () \<longleftrightarrow> (OIDC_Enabled c \<longrightarrow> safe_issuer parse c \<and> OIDC_ClientID c \<noteq> [] \<and> OIDC_IssuerURL c \<noteq> []
     \<and> TrimSpace (OIDC_UsernameClaim c) \<noteq> [] \<and> 30 * Second \<le> OIDC_LoginTimeout c \<and> OIDC_LoginTimeout c \<le> 15 * Minute
     \<and> ''openid'' \<in> set (OIDC_Scopes c) \<and> (\<forall>sc\<in>set (OIDC_Scopes c). TrimSpace sc \<noteq> [] \<and> length (Fields sc) = 1))"
proof (cases "scopes_ok (OIDC_Scopes c) False")
  case (Inl e)
  then have "\<not> (\<forall>sc\<in>set (OIDC_Scopes c). TrimSpace sc \<noteq> [] \<and> length (Fields sc) = 1)"
    using scopes_ok_iff[of "OIDC_Scopes c" False "''openid'' \<in> set (OIDC_Scopes c)"] by auto
  with Inl show ?thesis by (auto simp: validate_def Let_def split: option.splits)
next
  case (Inr b)
  note s = this[unfolded scopes_ok_iff]
  show ?thesis using Inr s by (auto simp: validate_def safe_issuer_def Let_def split: option.splits)
qed

lemma Validate_valid: "Validate parse c = Inr () \<longleftrightarrow> valid_config parse c"
  by (auto simp: Validate_def valid_config_def validate_iff split: sum.splits)

text \<open>
  Validation accepts exactly the configurations that meet the documented ranges: an address with a port,
  three paths, positive timeouts, a per-user session limit between one and the total, a known log level
  and format and, when OIDC is on, an issuer reached over HTTPS (or plain HTTP on the loopback host
  only), a client id, a username claim, a login timeout from 30 seconds to 15 minutes, and scopes without blanks
  that include \<open>openid\<close>.
\<close>

theorem Validate_iff: "Validate parse c = Inr () \<longleftrightarrow> valid_config parse c"
  by (rule Validate_valid)

lemma Load_Config_valid: "Load_Config decode parse frac env fs path = Inr c \<Longrightarrow> valid_config parse c"
proof -
  assume "Load_Config decode parse frac env fs path = Inr c"
  then have "Validate parse c = Inr ()"
    by (auto simp: Load_Config_def split: option.splits sum.splits)
  then show ?thesis by (simp add: Validate_valid)
qed

lemma Default_ok: "valid_config parse Default"
proof -
  have "is_ok (SplitHostPort ''0.0.0.0:2222'')" by code_simp
  then show ?thesis by (simp add: valid_config_def Default_def Second_def Minute_def)
qed

lemma clean_parts_last:
  "p \<noteq> [] \<Longrightarrow> p \<noteq> ''.'' \<Longrightarrow> p \<noteq> ''..'' \<Longrightarrow> \<exists>ps'. clean_parts rooted st (ps @ [p]) = ps' @ [p]"
  by (induction rooted st ps rule: clean_parts.induct) (auto split: list.splits)

text \<open>The environment touches the OIDC section only, and variables that are unset or blank change nothing.\<close>

lemma applyOIDCEnvironment_frame:
  "applyOIDCEnvironment frac env c = Inr c' \<Longrightarrow> c' = c\<lparr>OIDC := OIDC c'\<rparr>"
  by (auto simp: applyOIDCEnvironment_def Let_def split: option.splits sum.splits)

lemma applyOIDCEnvironment_unset:
  assumes "\<And>name. nonEmptyEnvironment env name = None"
  shows "applyOIDCEnvironment frac env c = Inr c"
  by (simp add: applyOIDCEnvironment_def env_text_def assms Let_def)

end
