(* ===== verification/Store_Model.thy ===== *)
theory Store_Model
  imports Go_Strings
begin

text \<open>
  The data model of \<^verbatim>\<open>internal/store\<close>: the Go structs of \<^verbatim>\<open>models.go\<close>, the tables the schema of
  \<^verbatim>\<open>store.go\<close> creates (after its seven migrations), and the constraints the schema declares
  (row ids, \<open>UNIQUE\<close>, \<open>CHECK\<close>, \<open>REFERENCES\<close>) as one invariant. A table is the list of its rows in
  row-id order. SQLite's behaviour is that of its documentation: a new row of a table with an
  \<open>INTEGER PRIMARY KEY\<close> gets the largest id in use plus one, a statement that violates a
  constraint fails and changes nothing, and two \<open>NULL\<close>s are distinct for \<open>UNIQUE\<close>.
\<close>

section \<open>Constants of models.go\<close>

definition RoleAdmin :: string where "RoleAdmin = ''admin''"
definition RoleMember :: string where "RoleMember = ''member''"
definition CredentialPassword :: string where "CredentialPassword = ''password''"
definition CredentialPrivateKey :: string where "CredentialPrivateKey = ''private_key''"
definition CredentialAgent :: string where "CredentialAgent = ''forwarded_agent''"
definition CredentialStoredKey :: string where "CredentialStoredKey = ''stored_key''"
definition CapabilityShell :: string where "CapabilityShell = ''shell''"
definition CapabilitySFTP :: string where "CapabilitySFTP = ''sftp''"
definition CapabilitySCP :: string where "CapabilitySCP = ''scp''"
definition CapabilityForward :: string where "CapabilityForward = ''tcp_forward''"

lemmas const_defs = RoleAdmin_def RoleMember_def CredentialPassword_def CredentialPrivateKey_def
  CredentialAgent_def CredentialStoredKey_def CapabilityShell_def CapabilitySFTP_def
  CapabilitySCP_def CapabilityForward_def

section \<open>Time\<close>

text \<open>
  A moment in UTC at the resolution of a second, with its text as SQLite's \<open>CURRENT_TIMESTAMP\<close>
  writes it and as Go's \<open>time.RFC3339\<close> layout does.
\<close>

record datetime =
  dt_year :: nat
  dt_month :: nat
  dt_day :: nat
  dt_hour :: nat
  dt_minute :: nat
  dt_second :: nat

definition valid_datetime :: "datetime \<Rightarrow> bool" where
  "valid_datetime t \<longleftrightarrow> dt_year t < 10000 \<and> 1 \<le> dt_month t \<and> dt_month t \<le> 12 \<and> 1 \<le> dt_day t
     \<and> dt_day t \<le> 31 \<and> dt_hour t < 24 \<and> dt_minute t < 60 \<and> dt_second t < 60"

definition date_text :: "datetime \<Rightarrow> string" where
  "date_text t = zero_pad 4 (dt_year t) @ ''-'' @ zero_pad 2 (dt_month t) @ ''-'' @ zero_pad 2 (dt_day t)"

definition clock_text :: "datetime \<Rightarrow> string" where
  "clock_text t = zero_pad 2 (dt_hour t) @ '':'' @ zero_pad 2 (dt_minute t) @ '':'' @ zero_pad 2 (dt_second t)"

definition fmt_sqlite :: "datetime \<Rightarrow> string" where
  "fmt_sqlite t = date_text t @ '' '' @ clock_text t"

definition fmt_rfc3339 :: "datetime \<Rightarrow> string" where
  "fmt_rfc3339 t = date_text t @ ''T'' @ clock_text t @ ''Z''"

section \<open>The structs of models.go\<close>

record User =
  User_ID :: int
  User_Username :: string
  User_Role :: string
  User_Enabled :: bool
  User_TOTPEnabled :: bool
  User_CreatedAt :: string

record TOTPConfig =
  TOTP_UserID :: int
  TOTP_Nonce :: string
  TOTP_Ciphertext :: string
  TOTP_LastCounter :: int

record GatewayKey =
  Key_ID :: int
  Key_UserID :: int
  Key_Fingerprint :: string
  Key_PublicKey :: string
  Key_Label :: string
  Key_CreatedAt :: string

record OIDCIdentity =
  OIDC_ID :: int
  OIDC_UserID :: int
  OIDC_Username :: string
  OIDC_Issuer :: string
  OIDC_Subject :: string
  OIDC_ProviderUsername :: string
  OIDC_CreatedAt :: string
  OIDC_UpdatedAt :: string

record Group =
  Group_ID :: int
  Group_Name :: string
  Group_CreatedAt :: string

record Target =
  Target_ID :: int
  Target_Name :: string
  Target_Host :: string
  Target_RemoteUsername :: string
  Target_CredentialKind :: string
  Target_Port :: int
  Target_Enabled :: bool
  Target_HostKeyAlgorithm :: string
  Target_HostPublicKey :: string
  Target_Nonce :: "string option"
  Target_Ciphertext :: "string option"
  Target_IdentityID :: "int option"
  Target_CreatedAt :: string
  Target_UpdatedAt :: string

record SSHIdentity =
  Identity_ID :: int
  Identity_Name :: string
  Identity_PublicKey :: string
  Identity_Fingerprint :: string
  Identity_Nonce :: "string option"
  Identity_Ciphertext :: "string option"
  Identity_CreatedAt :: string

record AuditEvent =
  Audit_ID :: int
  Audit_At :: string
  Audit_ActorUserID :: "int option"
  Audit_ClaimedUsername :: string
  Audit_SourceAddress :: string
  Audit_EventType :: string
  Audit_TargetID :: "int option"
  Audit_Outcome :: string
  Audit_Details :: string

record Grant =
  Grant_Target :: string
  Grant_Kind :: string
  Grant_Principal :: string
  Grant_Shell :: bool
  Grant_SFTP :: bool
  Grant_SCP :: bool
  Grant_TCPForward :: bool

record ForwardRule =
  Rule_ID :: int
  Rule_TargetID :: int
  Rule_Target :: string
  Rule_Host :: string
  Rule_Port :: int

record GroupMember =
  Member_Group :: string
  Member_Username :: string

section \<open>Rows that differ from their struct\<close>

text \<open>
  The rows of \<open>gateway_keys\<close>, \<open>groups_table\<close>, \<open>targets\<close>, \<open>ssh_identities\<close> and \<open>audit_events\<close> have
  the columns of their struct. The others follow; a grant row is the same for both grant tables,
  \<open>grant_principal\<close> being \<open>user_id\<close> in one and \<open>group_id\<close> in the other.
\<close>

record user_row =
  users_id :: int
  users_username :: string
  users_role :: string
  users_enabled :: bool
  users_created_at :: string

record totp_row =
  totp_user_id :: int
  totp_secret_nonce :: string
  totp_secret_ciphertext :: string
  totp_last_counter :: int
  totp_created_at :: string

record oidc_row =
  oidc_id :: int
  oidc_user_id :: int
  oidc_issuer :: string
  oidc_subject :: "string option"
  oidc_provider_username :: string
  oidc_created_at :: string
  oidc_updated_at :: string

record member_row =
  member_group_id :: int
  member_user_id :: int

record grant_row =
  grant_principal :: int
  grant_target_id :: int
  allow_shell :: bool
  allow_sftp :: bool
  allow_scp :: bool
  allow_tcp_forward :: bool

record rule_row =
  rule_id :: int
  rule_target_id :: int
  rule_host :: string
  rule_port :: int

section \<open>The database\<close>

text \<open>
  The state behind \<open>Store.db\<close>: the tables, and the wall clock that \<open>CURRENT_TIMESTAMP\<close> reads.
\<close>

record db =
  users :: "user_row list"
  gateway_keys :: "GatewayKey list"
  groups_table :: "Group list"
  group_members :: "member_row list"
  targets :: "Target list"
  user_target_grants :: "grant_row list"
  group_target_grants :: "grant_row list"
  target_forward_rules :: "rule_row list"
  ssh_identities :: "SSHIdentity list"
  oidc_identities :: "oidc_row list"
  user_totp :: "totp_row list"
  audit_events :: "AuditEvent list"
  db_now :: datetime

definition CURRENT_TIMESTAMP :: "db \<Rightarrow> string" where
  "CURRENT_TIMESTAMP s = fmt_sqlite (db_now s)"

text \<open>The database \<open>migrate\<close> leaves behind on a new file: every table empty.\<close>

definition empty_db :: "datetime \<Rightarrow> db" where
  "empty_db now = \<lparr>users = [], gateway_keys = [], groups_table = [], group_members = [], targets = [],
     user_target_grants = [], group_target_grants = [], target_forward_rules = [],
     ssh_identities = [], oidc_identities = [], user_totp = [], audit_events = [], db_now = now\<rparr>"

text \<open>The id of the next row of a table whose rows have the ids \<open>ids\<close>.\<close>

definition next_rowid :: "int list \<Rightarrow> int" where
  "next_rowid ids = (case ids of [] \<Rightarrow> 1 | i # is \<Rightarrow> 1 + foldr max is i)"

section \<open>Constraints\<close>

text \<open>Row ids are positive and the rows are in strictly increasing order of them.\<close>

definition rowids :: "('r \<Rightarrow> int) \<Rightarrow> 'r list \<Rightarrow> bool" where
  "rowids rid rs \<longleftrightarrow> sorted_wrt (<) (map rid rs) \<and> (\<forall>r\<in>set rs. 1 \<le> rid r)"

definition uniq :: "('r \<Rightarrow> 'k) \<Rightarrow> 'r list \<Rightarrow> bool" where
  "uniq k rs \<longleftrightarrow> distinct (map k rs)"

text \<open>\<open>UNIQUE\<close> over columns that may be \<open>NULL\<close>: rows with a \<open>NULL\<close> are not compared.\<close>

definition uniq_some :: "('r \<Rightarrow> 'k option) \<Rightarrow> 'r list \<Rightarrow> bool" where
  "uniq_some k rs \<longleftrightarrow> distinct (filter (\<lambda>x. x \<noteq> None) (map k rs))"

definition refs :: "('c \<Rightarrow> 'k) \<Rightarrow> 'c list \<Rightarrow> ('p \<Rightarrow> 'k) \<Rightarrow> 'p list \<Rightarrow> bool" where
  "refs f cs g ps \<longleftrightarrow> (\<forall>c\<in>set cs. f c \<in> g ` set ps)"

definition refs_some :: "('c \<Rightarrow> 'k option) \<Rightarrow> 'c list \<Rightarrow> ('p \<Rightarrow> 'k) \<Rightarrow> 'p list \<Rightarrow> bool" where
  "refs_some f cs g ps \<longleftrightarrow> (\<forall>c\<in>set cs. \<forall>k. f c = Some k \<longrightarrow> k \<in> g ` set ps)"

definition valid_port :: "int \<Rightarrow> bool" where
  "valid_port p \<longleftrightarrow> 1 \<le> p \<and> p \<le> 65535"

lemma next_rowid_greater: "i \<in> set ids \<Longrightarrow> i < next_rowid ids"
proof -
  have m: "j \<in> insert i0 (set js) \<Longrightarrow> j \<le> foldr max js i0" for j js and i0 :: int
    by (induction js) auto
  show "i \<in> set ids \<Longrightarrow> i < next_rowid ids"
  proof (cases ids)
    case (Cons a as)
    assume "i \<in> set ids"
    with Cons m[of i a as] show ?thesis by (auto simp: next_rowid_def)
  qed simp
qed

lemma next_rowid_pos: "(\<And>i. i \<in> set ids \<Longrightarrow> 1 \<le> i) \<Longrightarrow> 1 \<le> next_rowid ids"
  using next_rowid_greater[of "hd ids" ids] by (cases ids) (force simp: next_rowid_def)+

lemma rowids_Nil [simp]: "rowids rid []"
  by (simp add: rowids_def)

lemma rowids_snoc:
  assumes "rowids rid rs" "rid r = next_rowid (map rid rs)"
  shows "rowids rid (rs @ [r])"
proof -
  have "rid x < rid r" if "x \<in> set rs" for x
    using that assms(2) next_rowid_greater[of "rid x" "map rid rs"] by simp
  moreover have "1 \<le> rid r"
    using assms by (auto simp: rowids_def intro!: next_rowid_pos)
  ultimately show ?thesis using assms(1) by (auto simp: rowids_def sorted_wrt_append)
qed

lemma rowids_filter: "rowids rid rs \<Longrightarrow> rowids rid (filter P rs)"
  by (auto simp: rowids_def sorted_wrt_map intro: sorted_wrt_filter)

lemma rowids_update: "(\<And>r. rid (f r) = rid r) \<Longrightarrow> rowids rid rs \<Longrightarrow> rowids rid (update_where P f rs)"
  by (auto simp: rowids_def map_update_where_same set_update_where)

lemma rowids_distinct: "rowids rid rs \<Longrightarrow> distinct (map rid rs)"
  by (simp add: rowids_def strict_sorted_iff)

lemma rowids_inj: "rowids rid rs \<Longrightarrow> x \<in> set rs \<Longrightarrow> y \<in> set rs \<Longrightarrow> rid x = rid y \<Longrightarrow> x = y"
  by (rule distinct_map_eqD[OF rowids_distinct])

lemma find_rowids: "rowids rid rs \<Longrightarrow> r \<in> set rs \<Longrightarrow> find (\<lambda>x. rid x = rid r) rs = Some r"
  by (rule find_unique) (auto dest: rowids_inj)

lemma uniq_Nil [simp]: "uniq k []"
  by (simp add: uniq_def)

lemma uniq_snoc: "uniq k rs \<Longrightarrow> k r \<notin> k ` set rs \<Longrightarrow> uniq k (rs @ [r])"
  by (auto simp: uniq_def)

lemma uniq_filter: "uniq k rs \<Longrightarrow> uniq k (filter P rs)"
  by (auto simp: uniq_def intro: distinct_map_filterI)

lemma uniq_update: "(\<And>r. k (f r) = k r) \<Longrightarrow> uniq k rs \<Longrightarrow> uniq k (update_where P f rs)"
  by (simp add: uniq_def map_update_where_same)

lemma uniq_inj: "uniq k rs \<Longrightarrow> x \<in> set rs \<Longrightarrow> y \<in> set rs \<Longrightarrow> k x = k y \<Longrightarrow> x = y"
  by (auto simp: uniq_def dest: distinct_map_eqD)

lemma find_uniq: "uniq k rs \<Longrightarrow> r \<in> set rs \<Longrightarrow> find (\<lambda>x. k x = k r) rs = Some r"
  by (rule find_unique) (auto dest: uniq_inj)

lemma uniq_some_Nil [simp]: "uniq_some k []"
  by (simp add: uniq_some_def)

lemma uniq_some_Cons: "uniq_some k (r # rs) \<longleftrightarrow>
    uniq_some k rs \<and> (k r \<noteq> None \<longrightarrow> k r \<notin> k ` set rs)"
  by (auto simp: uniq_some_def)

lemma uniq_some_filter: "uniq_some k rs \<Longrightarrow> uniq_some k (filter P rs)"
  by (induction rs) (auto simp: uniq_some_Cons)

lemma uniq_some_snoc:
  "uniq_some k rs \<Longrightarrow> (k r \<noteq> None \<Longrightarrow> k r \<notin> k ` set rs) \<Longrightarrow> uniq_some k (rs @ [r])"
  by (induction rs) (auto simp: uniq_some_Cons)

lemma uniq_some_inj:
  "uniq_some k rs \<Longrightarrow> x \<in> set rs \<Longrightarrow> y \<in> set rs \<Longrightarrow> k x = Some v \<Longrightarrow> k y = Some v \<Longrightarrow> x = y"
  by (induction rs) (force simp: uniq_some_Cons)+

lemma refs_Nil [simp]: "refs f [] g ps"
  by (simp add: refs_def)

lemma refs_some_Nil [simp]: "refs_some f [] g ps"
  by (simp add: refs_some_def)

lemma refs_snoc: "refs f cs g ps \<Longrightarrow> f c \<in> g ` set ps \<Longrightarrow> refs f (cs @ [c]) g ps"
  by (auto simp: refs_def)

lemma refs_some_code [code]: "refs_some f cs g ps \<longleftrightarrow>
    (\<forall>c\<in>set cs. case f c of None \<Rightarrow> True | Some k \<Rightarrow> k \<in> g ` set ps)"
  by (auto simp: refs_some_def split: option.splits)

lemma refs_some_snoc:
  "refs_some f cs g ps \<Longrightarrow> (\<And>k. f c = Some k \<Longrightarrow> k \<in> g ` set ps) \<Longrightarrow> refs_some f (cs @ [c]) g ps"
  by (auto simp: refs_some_def)

lemma refs_filter: "refs f cs g ps \<Longrightarrow> refs f (filter P cs) g ps"
  by (auto simp: refs_def)

lemma refs_some_filter: "refs_some f cs g ps \<Longrightarrow> refs_some f (filter P cs) g ps"
  by (auto simp: refs_some_def)

lemma refs_parent_mono:
  "refs f cs g ps \<Longrightarrow> g ` set ps \<subseteq> g' ` set ps' \<Longrightarrow> refs f cs g' ps'"
  by (auto simp: refs_def)

lemma refs_some_parent_mono:
  "refs_some f cs g ps \<Longrightarrow> g ` set ps \<subseteq> g' ` set ps' \<Longrightarrow> refs_some f cs g' ps'"
  by (auto simp: refs_some_def)

lemma refs_update: "(\<And>c. f (h c) = f c) \<Longrightarrow> refs f cs g ps \<Longrightarrow> refs f (update_where P h cs) g ps"
  by (auto simp: refs_def set_update_where)

lemma refs_some_update:
  "(\<And>c. f (h c) = f c) \<Longrightarrow> refs_some f cs g ps \<Longrightarrow> refs_some f (update_where P h cs) g ps"
  by (auto simp: refs_some_def set_update_where)

text \<open>Deleting a parent row together with the child rows that refer to it (\<open>ON DELETE CASCADE\<close>).\<close>

lemma refs_cascade:
  "refs f cs g ps \<Longrightarrow> refs f (filter (\<lambda>c. f c \<notin> K) cs) g (filter (\<lambda>p. g p \<notin> K) ps)"
  by (auto simp: refs_def)

lemma refs_cascade1:
  "refs f cs g ps \<Longrightarrow> refs f (filter (\<lambda>c. f c \<noteq> i) cs) g (filter (\<lambda>p. g p \<noteq> i) ps)"
  by (auto simp: refs_def)

section \<open>Names, roles and credential kinds\<close>

text \<open>The regular expression \<open>nameRE\<close>: a lower-case letter and at most 31 of \<^verbatim>\<open>[a-z0-9_-]\<close>.\<close>

definition is_lower :: "char \<Rightarrow> bool" where
  "is_lower c \<longleftrightarrow> 97 \<le> byte c \<and> byte c \<le> 122"

definition name_char :: "char \<Rightarrow> bool" where
  "name_char c \<longleftrightarrow> is_lower c \<or> is_digit c \<or> c = CHR ''_'' \<or> c = CHR ''-''"

definition nameRE :: "string \<Rightarrow> bool" where
  "nameRE s = (case s of [] \<Rightarrow> False | c # cs \<Rightarrow> is_lower c \<and> length cs \<le> 31 \<and> list_all name_char cs)"

definition validateName :: "string \<Rightarrow> string \<Rightarrow> string res" where
  "validateName v kind =
     (let w = ToLower (TrimSpace v)
      in if \<not> nameRE w then Inl (Err (kind @ '' must match ^[a-z][a-z0-9_-]{0,31}$'')) else Inr w)"

definition ValidateUsername :: "string \<Rightarrow> unit res" where
  "ValidateUsername v = (case validateName v ''username'' of Inl e \<Rightarrow> Inl e | Inr _ \<Rightarrow> Inr ())"

definition validRole :: "string \<Rightarrow> bool" where
  "validRole role \<longleftrightarrow> role = RoleAdmin \<or> role = RoleMember"

definition validCredentialKind :: "string \<Rightarrow> bool" where
  "validCredentialKind kind \<longleftrightarrow> kind = CredentialPassword \<or> kind = CredentialPrivateKey
     \<or> kind = CredentialAgent \<or> kind = CredentialStoredKey"

definition valid_outcome :: "string \<Rightarrow> bool" where
  "valid_outcome outc \<longleftrightarrow> outc = ''success'' \<or> outc = ''failure'' \<or> outc = ''denied''"

lemma name_char_ascii: "name_char c \<Longrightarrow> byte c < 0x80"
  by (auto simp: name_char_def is_lower_def is_digit_def)

lemma name_char_not_upper: "name_char c \<Longrightarrow> \<not> (65 \<le> byte c \<and> byte c \<le> 90)"
  by (auto simp: name_char_def is_lower_def is_digit_def)

lemma name_char_not_space: "name_char c \<Longrightarrow> \<not> unicode_IsSpace (byte c)"
  by (auto simp: name_char_def is_lower_def is_digit_def unicode_IsSpace_def)

lemma name_char_not_plus: "\<not> name_char (CHR ''+'')"
  by (simp add: name_char_def is_lower_def is_digit_def)

lemma nameRE_chars: "nameRE s \<Longrightarrow> c \<in> set s \<Longrightarrow> name_char c"
  by (auto simp: nameRE_def name_char_def list_all_iff split: list.splits)

lemma nameRE_ascii: "nameRE s \<Longrightarrow> ascii s"
  by (auto simp: ascii_def list_all_iff dest: nameRE_chars name_char_ascii)

lemma nameRE_lower [simp]: "nameRE s \<Longrightarrow> ToLower s = s"
  by (rule ToLower_fixed) (auto simp: nameRE_ascii dest: nameRE_chars name_char_not_upper)

lemma nameRE_trim [simp]: "nameRE s \<Longrightarrow> TrimSpace s = s"
  by (rule TrimSpace_no_space) (auto simp: nameRE_ascii dest: nameRE_chars name_char_not_space)

lemma nameRE_length: "nameRE s \<Longrightarrow> 1 \<le> length s \<and> length s \<le> 32"
  by (auto simp: nameRE_def split: list.splits)

lemma validateName_ok: "validateName v kind = Inr w \<Longrightarrow> nameRE w \<and> w = ToLower (TrimSpace v)"
  by (auto simp: validateName_def Let_def split: if_splits)

lemma validateName_valid [simp]: "nameRE w \<Longrightarrow> validateName w kind = Inr w"
  by (simp add: validateName_def)

section \<open>The schema's constraints on a whole database\<close>

definition ok_users :: "user_row list \<Rightarrow> bool" where
  "ok_users us \<longleftrightarrow> rowids users_id us \<and> uniq users_username us
     \<and> (\<forall>u\<in>set us. validRole (users_role u) \<and> nameRE (users_username u))"

definition ok_keys :: "user_row list \<Rightarrow> GatewayKey list \<Rightarrow> bool" where
  "ok_keys us ks \<longleftrightarrow> rowids Key_ID ks \<and> uniq (\<lambda>k. (Key_UserID k, Key_Fingerprint k)) ks
     \<and> refs Key_UserID ks users_id us"

definition ok_groups :: "Group list \<Rightarrow> bool" where
  "ok_groups gs \<longleftrightarrow> rowids Group_ID gs \<and> uniq Group_Name gs \<and> (\<forall>g\<in>set gs. nameRE (Group_Name g))"

definition ok_members :: "user_row list \<Rightarrow> Group list \<Rightarrow> member_row list \<Rightarrow> bool" where
  "ok_members us gs ms \<longleftrightarrow> uniq (\<lambda>m. (member_group_id m, member_user_id m)) ms
     \<and> refs member_group_id ms Group_ID gs \<and> refs member_user_id ms users_id us"

definition ok_identities :: "SSHIdentity list \<Rightarrow> bool" where
  "ok_identities is \<longleftrightarrow> rowids Identity_ID is \<and> uniq Identity_Name is \<and> uniq Identity_Fingerprint is
     \<and> (\<forall>i\<in>set is. nameRE (Identity_Name i))"

definition ok_targets :: "SSHIdentity list \<Rightarrow> Target list \<Rightarrow> bool" where
  "ok_targets is ts \<longleftrightarrow> rowids Target_ID ts \<and> uniq Target_Name ts
     \<and> (\<forall>t\<in>set ts. valid_port (Target_Port t) \<and> validCredentialKind (Target_CredentialKind t))
     \<and> refs_some Target_IdentityID ts Identity_ID is"

definition ok_grants :: "('p \<Rightarrow> int) \<Rightarrow> 'p list \<Rightarrow> Target list \<Rightarrow> grant_row list \<Rightarrow> bool" where
  "ok_grants pid ps ts gs \<longleftrightarrow> uniq (\<lambda>g. (grant_principal g, grant_target_id g)) gs
     \<and> refs grant_principal gs pid ps \<and> refs grant_target_id gs Target_ID ts"

definition ok_rules :: "Target list \<Rightarrow> rule_row list \<Rightarrow> bool" where
  "ok_rules ts rs \<longleftrightarrow> rowids rule_id rs
     \<and> uniq (\<lambda>r. (rule_target_id r, rule_host r, rule_port r)) rs
     \<and> (\<forall>r\<in>set rs. valid_port (rule_port r)) \<and> refs rule_target_id rs Target_ID ts"

definition oidc_subject_key :: "oidc_row \<Rightarrow> (string \<times> string) option" where
  "oidc_subject_key r = map_option (Pair (oidc_issuer r)) (oidc_subject r)"

definition ok_oidc :: "user_row list \<Rightarrow> oidc_row list \<Rightarrow> bool" where
  "ok_oidc us os \<longleftrightarrow> rowids oidc_id os \<and> uniq (\<lambda>r. (oidc_user_id r, oidc_issuer r)) os
     \<and> uniq_some oidc_subject_key os \<and> uniq (\<lambda>r. (oidc_issuer r, oidc_provider_username r)) os
     \<and> refs oidc_user_id os users_id us"

definition ok_totp :: "user_row list \<Rightarrow> totp_row list \<Rightarrow> bool" where
  "ok_totp us ts \<longleftrightarrow> uniq totp_user_id ts \<and> refs totp_user_id ts users_id us"

definition ok_audit :: "user_row list \<Rightarrow> Target list \<Rightarrow> AuditEvent list \<Rightarrow> bool" where
  "ok_audit us ts es \<longleftrightarrow> rowids Audit_ID es \<and> refs_some Audit_ActorUserID es users_id us
     \<and> refs_some Audit_TargetID es Target_ID ts \<and> (\<forall>e\<in>set es. valid_outcome (Audit_Outcome e))"

definition store_ok :: "db \<Rightarrow> bool" where
  "store_ok s \<longleftrightarrow>
     ok_users (users s) \<and> ok_keys (users s) (gateway_keys s) \<and> ok_groups (groups_table s)
     \<and> ok_members (users s) (groups_table s) (group_members s) \<and> ok_identities (ssh_identities s)
     \<and> ok_targets (ssh_identities s) (targets s)
     \<and> ok_grants users_id (users s) (targets s) (user_target_grants s)
     \<and> ok_grants Group_ID (groups_table s) (targets s) (group_target_grants s)
     \<and> ok_rules (targets s) (target_forward_rules s) \<and> ok_oidc (users s) (oidc_identities s)
     \<and> ok_totp (users s) (user_totp s) \<and> ok_audit (users s) (targets s) (audit_events s)"

lemmas ok_defs = ok_users_def ok_keys_def ok_groups_def ok_members_def ok_identities_def
  ok_targets_def ok_grants_def ok_rules_def ok_oidc_def ok_totp_def ok_audit_def

lemma store_ok_empty [simp]: "store_ok (empty_db now)"
  by (simp add: store_ok_def empty_db_def ok_defs)

text \<open>Enlarging a parent table, or updating rows without touching their ids, keeps the child tables.\<close>

lemma ok_keys_mono: "ok_keys us ks \<Longrightarrow> users_id ` set us \<subseteq> users_id ` set us' \<Longrightarrow> ok_keys us' ks"
  by (auto simp: ok_keys_def elim: refs_parent_mono)

lemma ok_members_mono:
  "ok_members us gs ms \<Longrightarrow> users_id ` set us \<subseteq> users_id ` set us' \<Longrightarrow>
   Group_ID ` set gs \<subseteq> Group_ID ` set gs' \<Longrightarrow> ok_members us' gs' ms"
  by (auto simp: ok_members_def elim: refs_parent_mono)

lemma ok_targets_mono:
  "ok_targets is ts \<Longrightarrow> Identity_ID ` set is \<subseteq> Identity_ID ` set is' \<Longrightarrow> ok_targets is' ts"
  by (auto simp: ok_targets_def elim: refs_some_parent_mono)

lemma ok_grants_mono:
  "ok_grants pid ps ts gs \<Longrightarrow> pid ` set ps \<subseteq> pid ` set ps' \<Longrightarrow>
   Target_ID ` set ts \<subseteq> Target_ID ` set ts' \<Longrightarrow> ok_grants pid ps' ts' gs"
  by (auto simp: ok_grants_def elim: refs_parent_mono)

lemma ok_rules_mono:
  "ok_rules ts rs \<Longrightarrow> Target_ID ` set ts \<subseteq> Target_ID ` set ts' \<Longrightarrow> ok_rules ts' rs"
  by (auto simp: ok_rules_def elim: refs_parent_mono)

lemma ok_oidc_mono:
  "ok_oidc us os \<Longrightarrow> users_id ` set us \<subseteq> users_id ` set us' \<Longrightarrow> ok_oidc us' os"
  by (auto simp: ok_oidc_def elim: refs_parent_mono)

lemma ok_totp_mono:
  "ok_totp us ts \<Longrightarrow> users_id ` set us \<subseteq> users_id ` set us' \<Longrightarrow> ok_totp us' ts"
  by (auto simp: ok_totp_def elim: refs_parent_mono)

lemma ok_audit_mono:
  "ok_audit us ts es \<Longrightarrow> users_id ` set us \<subseteq> users_id ` set us' \<Longrightarrow>
   Target_ID ` set ts \<subseteq> Target_ID ` set ts' \<Longrightarrow> ok_audit us' ts' es"
  by (auto simp: ok_audit_def elim: refs_some_parent_mono)

lemmas ok_monos = ok_keys_mono ok_members_mono ok_targets_mono ok_grants_mono ok_rules_mono
  ok_oidc_mono ok_totp_mono ok_audit_mono

text \<open>A change of \<open>users\<close> that keeps every id, one of \<open>targets\<close>, and so on.\<close>

lemma store_ok_set_users:
  assumes "store_ok s" "ok_users us" "users_id ` set (users s) \<subseteq> users_id ` set us"
  shows "store_ok (s\<lparr>users := us\<rparr>)"
  using assms by (auto simp: store_ok_def intro: ok_monos)

lemma store_ok_set_groups:
  assumes "store_ok s" "ok_groups gs" "Group_ID ` set (groups_table s) \<subseteq> Group_ID ` set gs"
  shows "store_ok (s\<lparr>groups_table := gs\<rparr>)"
  using assms by (auto simp: store_ok_def intro: ok_monos)

lemma store_ok_set_targets:
  assumes "store_ok s" "ok_targets (ssh_identities s) ts"
    "Target_ID ` set (targets s) \<subseteq> Target_ID ` set ts"
  shows "store_ok (s\<lparr>targets := ts\<rparr>)"
  using assms by (auto simp: store_ok_def intro: ok_monos)

lemma store_ok_set_identities:
  assumes "store_ok s" "ok_identities is" "ok_targets is (targets s)"
  shows "store_ok (s\<lparr>ssh_identities := is\<rparr>)"
  using assms by (auto simp: store_ok_def)

lemma store_ok_set_leaf:
  assumes "store_ok s"
  shows "ok_keys (users s) ks \<Longrightarrow> store_ok (s\<lparr>gateway_keys := ks\<rparr>)"
    and "ok_members (users s) (groups_table s) ms \<Longrightarrow> store_ok (s\<lparr>group_members := ms\<rparr>)"
    and "ok_grants users_id (users s) (targets s) gs \<Longrightarrow> store_ok (s\<lparr>user_target_grants := gs\<rparr>)"
    and "ok_grants Group_ID (groups_table s) (targets s) gs \<Longrightarrow> store_ok (s\<lparr>group_target_grants := gs\<rparr>)"
    and "ok_rules (targets s) rs \<Longrightarrow> store_ok (s\<lparr>target_forward_rules := rs\<rparr>)"
    and "ok_oidc (users s) os \<Longrightarrow> store_ok (s\<lparr>oidc_identities := os\<rparr>)"
    and "ok_totp (users s) qs \<Longrightarrow> store_ok (s\<lparr>user_totp := qs\<rparr>)"
    and "ok_audit (users s) (targets s) es \<Longrightarrow> store_ok (s\<lparr>audit_events := es\<rparr>)"
  using assms by (auto simp: store_ok_def)

lemma store_okD:
  assumes "store_ok s"
  shows "ok_users (users s)" "ok_keys (users s) (gateway_keys s)" "ok_groups (groups_table s)"
    "ok_members (users s) (groups_table s) (group_members s)" "ok_identities (ssh_identities s)"
    "ok_targets (ssh_identities s) (targets s)"
    "ok_grants users_id (users s) (targets s) (user_target_grants s)"
    "ok_grants Group_ID (groups_table s) (targets s) (group_target_grants s)"
    "ok_rules (targets s) (target_forward_rules s)" "ok_oidc (users s) (oidc_identities s)"
    "ok_totp (users s) (user_totp s)" "ok_audit (users s) (targets s) (audit_events s)"
  using assms by (auto simp: store_ok_def)

end
