(* ===== verification/Sample_Store.thy ===== *)
theory Sample_Store
  imports Store_Model
begin

text \<open>
  One small concrete database that the witnesses of the store's properties evaluate on: an
  administrator \<open>root\<close> and a member \<open>alice\<close> with a key each, alice's group \<open>ops\<close>, a target \<open>web\<close> the
  group may open a shell on, a forward rule, and a pending OIDC mapping of alice.
\<close>

definition sample_now :: datetime where
  "sample_now = \<lparr>dt_year = 2024, dt_month = 5, dt_day = 6, dt_hour = 7, dt_minute = 8, dt_second = 9\<rparr>"

definition sample_target :: Target where
  "sample_target = \<lparr>Target_ID = 1, Target_Name = ''web'', Target_Host = ''10.0.0.5'',
     Target_RemoteUsername = ''deploy'', Target_CredentialKind = ''password'', Target_Port = 22,
     Target_Enabled = True, Target_HostKeyAlgorithm = ''ssh-ed25519'', Target_HostPublicKey = ''hostkey'',
     Target_Nonce = None, Target_Ciphertext = None, Target_IdentityID = None,
     Target_CreatedAt = '''', Target_UpdatedAt = ''''\<rparr>"

definition sample_db :: db where
  "sample_db = \<lparr>
     users = [\<lparr>users_id = 1, users_username = ''root'', users_role = ''admin'', users_enabled = True,
                users_created_at = ''''\<rparr>,
              \<lparr>users_id = 2, users_username = ''alice'', users_role = ''member'', users_enabled = True,
                users_created_at = ''''\<rparr>],
     gateway_keys = [\<lparr>Key_ID = 1, Key_UserID = 1, Key_Fingerprint = ''SHA256:r'', Key_PublicKey = ''kr'',
                       Key_Label = '''', Key_CreatedAt = ''''\<rparr>,
                     \<lparr>Key_ID = 2, Key_UserID = 2, Key_Fingerprint = ''SHA256:a'', Key_PublicKey = ''ka'',
                       Key_Label = '''', Key_CreatedAt = ''''\<rparr>],
     groups_table = [\<lparr>Group_ID = 1, Group_Name = ''ops'', Group_CreatedAt = ''''\<rparr>],
     group_members = [\<lparr>member_group_id = 1, member_user_id = 2\<rparr>],
     targets = [sample_target],
     user_target_grants = [],
     group_target_grants = [\<lparr>grant_principal = 1, grant_target_id = 1, allow_shell = True,
        allow_sftp = False, allow_scp = False, allow_tcp_forward = True\<rparr>],
     target_forward_rules = [\<lparr>rule_id = 1, rule_target_id = 1, rule_host = ''db.local'', rule_port = 5432\<rparr>],
     ssh_identities = [],
     oidc_identities = [\<lparr>oidc_id = 1, oidc_user_id = 2, oidc_issuer = ''https://idp'', oidc_subject = None,
        oidc_provider_username = ''alice'', oidc_created_at = '''', oidc_updated_at = ''''\<rparr>],
     user_totp = [\<lparr>totp_user_id = 2, totp_secret_nonce = ''n'', totp_secret_ciphertext = ''c'',
        totp_last_counter = 57000000, totp_created_at = ''''\<rparr>],
     audit_events = [], db_now = sample_now\<rparr>"

lemma sample_db_ok [simp]: "store_ok sample_db"
  by code_simp

end
