(* ===== verification/Downstream.thy ===== *)
theory Downstream
  imports Sample_Store Secrets
begin

text \<open>
  \<^verbatim>\<open>internal/downstream\<close>: connecting to a target with its pinned host key and stored credential, the
  proxies that run a shell, a subsystem or an SCP command there, and the keep-alive. The SSH library
  and the shell-word splitter are third-party packages: their functions are parameters
  (\<^verbatim>\<open>ssh_lib\<close>, \<open>shlex\<close>), and what the network answers is given by \<^verbatim>\<open>ssh_peer\<close>.
\<close>

section \<open>Keys, signers and the agent\<close>

record pubkey =
  key_Type :: string
  key_Marshal :: string

record signer =
  signer_PublicKey :: pubkey

text \<open>
  Parsing functions of \<^verbatim>\<open>golang.org/x/crypto/ssh\<close>: \<open>ParseAuthorizedKey\<close> gives the key and the rest of
  the text; \<open>ParsePrivateKey\<close> takes the passphrase, if there is one.
\<close>

record ssh_lib =
  ParseAuthorizedKey :: "string \<Rightarrow> (pubkey \<times> string) res"
  ParsePrivateKey :: "string \<Rightarrow> string option \<Rightarrow> signer res"
  FingerprintSHA256 :: "pubkey \<Rightarrow> string"

text \<open>The text of an error, \<open>Error()\<close>.\<close>

definition err_text :: "go_error \<Rightarrow> string" where
  "err_text e = (case e of ErrNoRows \<Rightarrow> ''sql: no rows in result set'' | ErrConstraint m \<Rightarrow> m
     | Err m \<Rightarrow> m | Panic m \<Rightarrow> m)"

text \<open>\<open>fmt.Errorf("...: %w", err)\<close>; a panic is not an error value and is not wrapped.\<close>

definition wrap :: "string \<Rightarrow> go_error \<Rightarrow> go_error" where
  "wrap prefix e = (case e of Panic m \<Rightarrow> Panic m | _ \<Rightarrow> Err (prefix @ '': '' @ err_text e))"

text \<open>
  A forwarded agent: what listing its identities answers (\<open>None\<close> when the connection has no agent),
  whether the connection's \<open>once\<close> has run, and how often the channel was closed.
\<close>

record AgentConnection =
  Agent :: "signer list res option"
  agent_once :: bool
  agent_closes :: nat

definition AgentConnection_Close :: "AgentConnection option \<Rightarrow> AgentConnection option" where
  "AgentConnection_Close a = map_option (\<lambda>a. if agent_once a then a
     else a\<lparr>agent_once := True, agent_closes := agent_closes a + 1\<rparr>) a"

text \<open>What the inbound session offers for agent forwarding.\<close>

datatype agent_offer = NotRequested | NoContext | NoTransport | ChannelFails go_error | AgentAt "signer list res"

definition OpenForwardedAgent :: "agent_offer \<Rightarrow> AgentConnection res" where
  "OpenForwardedAgent inbound = (case inbound of
     NotRequested \<Rightarrow> Inl (Err ''this target requires agent forwarding; reconnect to SSHGateW with ssh -A'')
   | NoContext \<Rightarrow> Inl (Err ''forwarded agent connection is unavailable'')
   | NoTransport \<Rightarrow> Inl (Err ''forwarded agent transport is unavailable'')
   | ChannelFails e \<Rightarrow> Inl (wrap ''open forwarded agent'' e)
   | AgentAt signers \<Rightarrow> Inr \<lparr>Agent = Some signers, agent_once = False, agent_closes = 0\<rparr>)"

definition ParseHostKey :: "ssh_lib \<Rightarrow> string \<Rightarrow> pubkey res" where
  "ParseHostKey L line = (case ParseAuthorizedKey L line of
     Inl e \<Rightarrow> Inl (wrap ''parse host key'' e) | Inr (k, rest) \<Rightarrow> Inr k)"

section \<open>The credential\<close>

datatype AuthMethod = PasswordAuth string | PublicKeysAuth signer

definition same_key :: "pubkey \<Rightarrow> pubkey \<Rightarrow> bool" where
  "same_key k expected \<longleftrightarrow> key_Type k = key_Type expected \<and> key_Marshal k = key_Marshal expected"

definition authMethod :: "ssh_lib \<Rightarrow> string \<Rightarrow> Payload \<Rightarrow> AgentConnection option \<Rightarrow> AuthMethod res" where
  "authMethod L kind p forwarded =
     (if kind = CredentialPassword then
        (if Password p = [] then Inl (Err ''stored password is empty'') else Inr (PasswordAuth (Password p)))
      else if kind = CredentialPrivateKey \<or> kind = CredentialStoredKey then
        (case ParsePrivateKey L (PrivateKey p) (if Passphrase p \<noteq> [] then Some (Passphrase p) else None) of
           Inl e \<Rightarrow> Inl (wrap ''parse stored private key'' e)
         | Inr signer \<Rightarrow> Inr (PublicKeysAuth signer))
      else if kind = CredentialAgent then
        (case Option.bind forwarded Agent of
           None \<Rightarrow> Inl (Err ''this target requires a forwarded SSH agent; reconnect with ssh -A'')
         | Some listing \<Rightarrow>
             (case ParseAuthorizedKey L (PublicKey p) of
                Inl _ \<Rightarrow> Inl (Err ''stored forwarded-agent public key is invalid'')
              | Inr (expected, rest) \<Rightarrow>
                  if TrimSpace rest \<noteq> [] then Inl (Err ''stored forwarded-agent public key is invalid'')
                  else (case listing of
                     Inl e \<Rightarrow> Inl (wrap ''list forwarded-agent identities'' e)
                   | Inr signers \<Rightarrow>
                       (case find (\<lambda>s. same_key (signer_PublicKey s) expected) signers of
                          Some s \<Rightarrow> Inr (PublicKeysAuth s)
                        | None \<Rightarrow> Inl (Err (''forwarded agent does not contain required key '' @ FingerprintSHA256 L expected))))))
      else Inl (Err ''unsupported credential kind''))"

section \<open>Dialing\<close>

record ClientConfig =
  cfg_User :: string
  cfg_Auth :: AuthMethod
  cfg_HostKeyCallback :: "pubkey \<Rightarrow> unit res"

text \<open>
  The network: whether a TCP connection to an address succeeds, and what the SSH handshake over it
  with a configuration gives.
\<close>

record ssh_peer =
  DialContext :: "string \<Rightarrow> unit res"
  NewClientConn :: "string \<Rightarrow> ClientConfig \<Rightarrow> unit res"

text \<open>\<^verbatim>\<open>net.JoinHostPort\<close>: a host with a colon is put in brackets.\<close>

definition JoinHostPort :: "string \<Rightarrow> string \<Rightarrow> string" where
  "JoinHostPort host port =
     (if CHR '':'' \<in> set host then ''['' @ host @ '']:'' @ port else host @ '':'' @ port)"

definition pin_callback :: "ssh_lib \<Rightarrow> pubkey \<Rightarrow> pubkey \<Rightarrow> unit res" where
  "pin_callback L pinned key =
     (if \<not> same_key key pinned
      then Inl (Err (''host key mismatch: expected '' @ FingerprintSHA256 L pinned @ '', received ''
             @ FingerprintSHA256 L key))
      else Inr ())"

text \<open>A client stands for the connection it was made of: the address and the configuration.\<close>

type_synonym ssh_client = "string \<times> ClientConfig"

definition Dial_open :: "ssh_lib \<Rightarrow> ssh_peer \<Rightarrow> Target \<Rightarrow> Payload \<Rightarrow> AgentConnection option \<Rightarrow> ssh_client res" where
  "Dial_open L N t credential forwarded =
     (case ParseHostKey L (Target_HostPublicKey t) of
        Inl e \<Rightarrow> Inl e
      | Inr pinned \<Rightarrow>
          (case authMethod L (Target_CredentialKind t) credential forwarded of
             Inl e \<Rightarrow> Inl e
           | Inr auth \<Rightarrow>
               let addr = JoinHostPort (Target_Host t) (itoa (Target_Port t));
                   cfg = \<lparr>cfg_User = Target_RemoteUsername t, cfg_Auth = auth,
                          cfg_HostKeyCallback = pin_callback L pinned\<rparr>
               in case DialContext N addr of
                    Inl e \<Rightarrow> Inl (wrap ''dial downstream'' e)
                  | Inr _ \<Rightarrow>
                      (case NewClientConn N addr cfg of
                         Inl e \<Rightarrow> Inl (wrap ''downstream handshake'' e)
                       | Inr _ \<Rightarrow> Inr (addr, cfg))))"

text \<open>
  \<open>Dial\<close>: the agent is closed once authentication is over, and by the deferred call in any case.
\<close>

definition Dial :: "ssh_lib \<Rightarrow> ssh_peer \<Rightarrow> Target \<Rightarrow> Payload \<Rightarrow> AgentConnection option
    \<Rightarrow> (AgentConnection option, ssh_client) outcome" where
  "Dial L N t credential forwarded =
     (let r = Dial_open L N t credential forwarded;
          handshaken = (if is_ok r then AgentConnection_Close forwarded else forwarded)
      in (r, AgentConnection_Close handshaken))"

text \<open>\<open>ScanHostKey\<close>: a handshake that refuses the key it is shown, to learn it.\<close>

definition ScanHostKey :: "unit res \<Rightarrow> pubkey option \<Rightarrow> unit res \<Rightarrow> pubkey res" where
  "ScanHostKey dialed observed handshake =
     (case dialed of
        Inl e \<Rightarrow> Inl e
      | Inr _ \<Rightarrow>
          (case observed of
             Some k \<Rightarrow> Inr k
           | None \<Rightarrow> (case handshake of
                Inr _ \<Rightarrow> Inl (Err ''server did not present a host key'')
              | Inl e \<Rightarrow> Inl e)))"

section \<open>Keep-alive\<close>

text \<open>
  The goroutine watching a client: waiting for the next tick, waiting for a reply, or returned, with
  whether it closed the client. Its events: the connection ended, the ticker fired, a reply (with its
  error, if any) arrived, the reply's timer fired.
\<close>

datatype ka_state = KaTicking | KaAsking | KaReturned (ka_closed: bool)
datatype ka_event = KaDone | KaTick | KaReply "go_error option" | KaTimeout

fun keepAlive :: "ka_state \<Rightarrow> ka_event \<Rightarrow> ka_state" where
  "keepAlive KaTicking KaDone = KaReturned False"
| "keepAlive KaTicking KaTick = KaAsking"
| "keepAlive KaAsking KaDone = KaReturned False"
| "keepAlive KaAsking (KaReply None) = KaTicking"
| "keepAlive KaAsking (KaReply (Some _)) = KaReturned True"
| "keepAlive KaAsking KaTimeout = KaReturned True"
| "keepAlive s _ = s"

section \<open>SCP commands\<close>

definition ReplaceQuote :: "string \<Rightarrow> string" where
  "ReplaceQuote v = concat (map (\<lambda>c. if byte c = 39 then map chr [39, 34, 39, 34, 39] else [c]) v)"

text \<open>The characters that make \<open>shellQuote\<close> quote: blank, tab, quotes, backslash and shell operators.\<close>

definition shell_special :: string where
  "shell_special = map chr [32, 9, 39, 34, 92, 36, 96] @ '';&|<>()*?![]{}''"

definition shellQuote :: "string \<Rightarrow> string" where
  "shellQuote value =
     (if value \<noteq> [] \<and> \<not> ContainsAny value shell_special then value
      else chr 39 # ReplaceQuote value @ [chr 39])"

text \<open>The inner loop over the flags of one argument, with the transfer mode seen so far.\<close>

fun scp_flags :: "nat list \<Rightarrow> bool \<Rightarrow> bool res" where
  "scp_flags [] mode = Inr mode"
| "scp_flags (flag # rest) mode =
     (if flag \<notin> set (map byte ''ftrpd'') then Inl (Err (''SCP option -'' @ EncodeRune flag @ '' is not allowed''))
      else if flag = byte (CHR ''f'') \<or> flag = byte (CHR ''t'') then
        (if mode then Inl (Err ''SCP command has multiple transfer modes'') else scp_flags rest True)
      else scp_flags rest mode)"

fun scp_options :: "string list \<Rightarrow> bool \<Rightarrow> bool res" where
  "scp_options [] mode = Inr mode"
| "scp_options (arg # rest) mode =
     (if \<not> HasPrefix arg ''-'' \<or> length arg < 2 then Inl (Err ''invalid SCP option'')
      else case scp_flags (runes (drop 1 arg)) mode of
             Inl e \<Rightarrow> Inl e
           | Inr mode' \<Rightarrow> scp_options rest mode')"

definition SafeSCPCommand :: "(string \<Rightarrow> string list res) \<Rightarrow> string \<Rightarrow> string res" where
  "SafeSCPCommand shlex raw =
     (if ContainsAny raw [chr 0, chr 13, chr 10] then Inl (Err ''invalid SCP command'')
      else case shlex raw of
             Inl _ \<Rightarrow> Inl (Err ''only legacy SCP server commands are allowed'')
           | Inr args \<Rightarrow>
               if length args < 3 \<or> args ! 0 \<noteq> ''scp''
               then Inl (Err ''only legacy SCP server commands are allowed'')
               else (case scp_options (take (length args - 2) (drop 1 args)) False of
                       Inl e \<Rightarrow> Inl e
                     | Inr mode \<Rightarrow>
                         if \<not> mode \<or> last args = [] then Inl (Err ''SCP command requires -f or -t and a path'')
                         else Inr (join '' '' (map shellQuote args))))"

section \<open>Proxies\<close>

text \<open>
  The proxies are sequences of calls into the SSH library. Each gives its result and the calls that
  matter to its callers in the order they are made, deferred ones included; what the library answers
  is in the environment record. \<open>Wait\<close> ends with success, an exit status, or another error.
\<close>

datatype wait_result = WaitOk | WaitExit int string | WaitFailed go_error

datatype proxy_action = OpenSession | RequestPty string int int | StartInput | AttachStdin | StartShell
  | StartCommand string | SignalsOn | SignalsOff | WaitSession | CancelInput | CloseSession | JoinInput
  | OpenChannel | SendSubsystem string | CopyStreams | CloseChannel | ExitInbound int

record shell_env =
  se_NewSession :: "unit res"
  se_Pty :: "(string \<times> int \<times> int) option"
  se_RequestPty :: "unit res"
  se_ReadContext :: bool
  se_StdinPipe :: "unit res"
  se_Shell :: "unit res"
  se_Wait :: wait_result
  se_ctx :: "go_error option"

definition shell_result :: "shell_env \<Rightarrow> unit res" where
  "shell_result E = (case se_Wait E of
     WaitOk \<Rightarrow> Inr ()
   | WaitExit n _ \<Rightarrow> Inl (Err (''downstream exited with status '' @ itoa n))
   | WaitFailed e \<Rightarrow> (case se_ctx E of Some c \<Rightarrow> Inl c | None \<Rightarrow> Inl e))"

definition join_input :: "proxy_action list" where
  "join_input = [CancelInput, CloseSession, JoinInput]"

definition ProxyShell :: "shell_env \<Rightarrow> unit res \<times> proxy_action list" where
  "ProxyShell E =
     (case se_NewSession E of
        Inl e \<Rightarrow> (Inl (wrap ''create downstream session'' e), [OpenSession])
      | Inr _ \<Rightarrow>
          (case se_Pty E of
             None \<Rightarrow> (Inl (Err ''inbound PTY is required''), [OpenSession, CloseSession])
           | Some (term, height, width) \<Rightarrow>
               let opened = [OpenSession, RequestPty term height width] in
               (case se_RequestPty E of
                  Inl e \<Rightarrow> (Inl (wrap ''request downstream PTY'' e), opened @ [CloseSession])
                | Inr _ \<Rightarrow>
                    let shell = (\<lambda>acts deferred.
                          case se_Shell E of
                            Inl e \<Rightarrow> (Inl (wrap ''start downstream shell'' e),
                                      acts @ [StartShell] @ deferred @ [CancelInput, CloseSession])
                          | Inr _ \<Rightarrow> (shell_result E,
                                      acts @ [StartShell, SignalsOn, WaitSession, SignalsOff] @ deferred
                                      @ [CancelInput, CloseSession]))
                    in if se_ReadContext E then
                         (case se_StdinPipe E of
                            Inl e \<Rightarrow> (Inl e, opened @ [CancelInput, CloseSession])
                          | Inr _ \<Rightarrow> shell (opened @ [StartInput]) join_input)
                       else shell (opened @ [AttachStdin]) [])))"

text \<open>
  The input worker of \<open>ProxyShell\<close>: the bytes it writes to the remote shell, given what successive
  reads of the session return and which writes fail (the first write after \<open>k\<close> bytes, if \<open>Some k\<close>).
\<close>

fun pump :: "(string \<times> go_error option) list \<Rightarrow> nat option \<Rightarrow> string list" where
  "pump [] broken = []"
| "pump ((bs, err) # reads) broken =
     (if bs \<noteq> [] then
        (if broken = Some 0 then []
         else bs # (if err \<noteq> None then [] else pump reads (map_option (\<lambda>k. k - 1) broken)))
      else if err \<noteq> None then [] else pump reads broken)"

record subsystem_env =
  sub_OpenChannel :: "unit res"
  sub_SendRequest :: "bool res"
  sub_Copy :: "unit res"
  sub_ctx :: "go_error option"

definition ProxySubsystem :: "(string \<Rightarrow> string) \<Rightarrow> subsystem_env \<Rightarrow> string \<Rightarrow> unit res \<times> proxy_action list" where
  "ProxySubsystem quoted E subsystem =
     (if subsystem \<noteq> ''sftp'' then (Inl (Err (''unsupported subsystem '' @ quoted subsystem)), [])
      else case sub_OpenChannel E of
             Inl e \<Rightarrow> (Inl (wrap ''create downstream subsystem channel'' e), [OpenChannel])
           | Inr _ \<Rightarrow>
               let acts = [OpenChannel, SendSubsystem subsystem] in
               (case sub_SendRequest E of
                  Inl e \<Rightarrow> (Inl (wrap ''start downstream subsystem'' e), acts @ [CloseChannel])
                | Inr ok \<Rightarrow>
                    if \<not> ok then (Inl (wrap ''start downstream subsystem'' (Err ''request rejected'')), acts @ [CloseChannel])
                    else ((case sub_ctx E of Some c \<Rightarrow> Inl c | None \<Rightarrow> sub_Copy E),
                          acts @ [CopyStreams, CloseChannel])))"

record session_env =
  ps_NewSession :: "unit res"
  ps_Start :: "unit res"
  ps_Wait :: wait_result
  ps_ctx :: "go_error option"

definition proxySession :: "session_env \<Rightarrow> string \<Rightarrow> unit res \<times> proxy_action list" where
  "proxySession E command =
     (case ps_NewSession E of
        Inl e \<Rightarrow> (Inl (wrap ''create downstream session'' e), [OpenSession])
      | Inr _ \<Rightarrow>
          let acts = [OpenSession, StartCommand command] in
          (case ps_Start E of
             Inl e \<Rightarrow> (Inl (wrap ''start downstream protocol'' e), acts @ [CloseSession])
           | Inr _ \<Rightarrow>
               (case ps_ctx E of
                  Some c \<Rightarrow> (Inl c, acts @ [CloseSession, CloseSession])
                | None \<Rightarrow>
                    (case ps_Wait E of
                       WaitOk \<Rightarrow> (Inr (), acts @ [WaitSession, CloseSession])
                     | WaitExit n m \<Rightarrow> (Inl (Err m), acts @ [WaitSession, ExitInbound n, CloseSession])
                     | WaitFailed e \<Rightarrow> (Inl e, acts @ [WaitSession, CloseSession])))))"

definition ProxySCP :: "(string \<Rightarrow> string list res) \<Rightarrow> session_env \<Rightarrow> string \<Rightarrow> unit res \<times> proxy_action list" where
  "ProxySCP shlex E raw =
     (case SafeSCPCommand shlex raw of
        Inl e \<Rightarrow> (Inl e, [])
      | Inr command \<Rightarrow> proxySession E command)"

definition Connect :: "ssh_lib \<Rightarrow> ssh_peer \<Rightarrow> (ssh_client \<Rightarrow> shell_env) \<Rightarrow> Target \<Rightarrow> Payload
    \<Rightarrow> AgentConnection option \<Rightarrow> (AgentConnection option, unit) outcome" where
  "Connect L N sessions t credential forwarded =
     (case Dial L N t credential forwarded of
        (Inl e, a) \<Rightarrow> (Inl e, a)
      | (Inr client, a) \<Rightarrow> (fst (ProxyShell (sessions client)), a))"

section \<open>A connection is made only to the pinned host\<close>

text \<open>
  What the code relies on: a handshake succeeds only when the configuration's callback accepted the
  key the server at that address showed.
\<close>

definition checks_host_key :: "ssh_peer \<Rightarrow> (string \<Rightarrow> pubkey) \<Rightarrow> bool" where
  "checks_host_key N server_key \<longleftrightarrow>
     (\<forall>addr cfg. is_ok (NewClientConn N addr cfg) \<longrightarrow> is_ok (cfg_HostKeyCallback cfg (server_key addr)))"

lemma pin_callback_ok [simp]: "is_ok (pin_callback L pinned k) \<longleftrightarrow> same_key k pinned"
  by (simp add: pin_callback_def)

lemma same_key_iff: "same_key (k :: pubkey) k' \<longleftrightarrow> k = k'"
  by (cases k; cases k') (auto simp: same_key_def)

lemma Dial_open_InrD:
  assumes "Dial_open L N t p f = Inr (addr, cfg)"
  obtains pinned auth where "ParseHostKey L (Target_HostPublicKey t) = Inr pinned"
    "authMethod L (Target_CredentialKind t) p f = Inr auth"
    "addr = JoinHostPort (Target_Host t) (itoa (Target_Port t))"
    "cfg = \<lparr>cfg_User = Target_RemoteUsername t, cfg_Auth = auth, cfg_HostKeyCallback = pin_callback L pinned\<rparr>"
    "is_ok (DialContext N addr)" "is_ok (NewClientConn N addr cfg)"
  using assms by (auto simp: Dial_open_def Let_def split: sum.splits)

text \<open>Which secrets a credential of each kind may present.\<close>

definition auth_matches :: "ssh_lib \<Rightarrow> string \<Rightarrow> Payload \<Rightarrow> AuthMethod \<Rightarrow> bool" where
  "auth_matches L kind p a \<longleftrightarrow>
     kind = CredentialPassword \<and> a = PasswordAuth (Password p) \<and> Password p \<noteq> []
     \<or> kind \<in> {CredentialPrivateKey, CredentialStoredKey} \<and> (\<exists>s. a = PublicKeysAuth s
         \<and> ParsePrivateKey L (PrivateKey p) (if Passphrase p \<noteq> [] then Some (Passphrase p) else None) = Inr s)
     \<or> kind = CredentialAgent \<and> (\<exists>s rest. a = PublicKeysAuth s
         \<and> ParseAuthorizedKey L (PublicKey p) = Inr (signer_PublicKey s, rest))"

lemma authMethod_matches: "authMethod L kind p f = Inr a \<Longrightarrow> auth_matches L kind p a"
  by (auto simp: authMethod_def auth_matches_def same_key_iff
      split: if_splits sum.splits option.splits dest!: find_SomeD)

text \<open>
  C13: When \<open>Dial\<close> returns a client, the server at the target's address showed exactly the host key pinned
  for the target, the remote user is the target's, and the only authentication offered is the one the
  target's credential kind stands for: the stored password, the stored key, or the agent identity whose
  public key was pinned, never another identity of the agent.
\<close>

theorem Dial_pinned:
  assumes "checks_host_key N server_key" "fst (Dial L N t p f) = Inr (addr, cfg)"
  shows "addr = JoinHostPort (Target_Host t) (itoa (Target_Port t))
    \<and> (\<exists>rest. ParseAuthorizedKey L (Target_HostPublicKey t) = Inr (server_key addr, rest))
    \<and> cfg_User cfg = Target_RemoteUsername t
    \<and> auth_matches L (Target_CredentialKind t) p (cfg_Auth cfg)"
proof -
  from assms(2) have "Dial_open L N t p f = Inr (addr, cfg)" by (simp add: Dial_def Let_def)
  then obtain pinned auth where d: "ParseHostKey L (Target_HostPublicKey t) = Inr pinned"
    "authMethod L (Target_CredentialKind t) p f = Inr auth"
    "addr = JoinHostPort (Target_Host t) (itoa (Target_Port t))"
    "cfg = \<lparr>cfg_User = Target_RemoteUsername t, cfg_Auth = auth, cfg_HostKeyCallback = pin_callback L pinned\<rparr>"
    "is_ok (NewClientConn N addr cfg)"
    by (elim Dial_open_InrD) blast
  have "server_key addr = pinned"
    using assms(1)[unfolded checks_host_key_def, rule_format, OF d(5)] d(4) by (simp add: same_key_iff)
  moreover obtain rest where "ParseAuthorizedKey L (Target_HostPublicKey t) = Inr (pinned, rest)"
    using d(1) by (auto simp: ParseHostKey_def split: sum.splits)
  ultimately show ?thesis using d authMethod_matches[OF d(2)] by simp
qed

text \<open>A library and a network for evaluating the properties: a key line is its own key, and every server shows \<open>hostkey\<close>.\<close>

definition sample_lib :: ssh_lib where
  "sample_lib = \<lparr>ParseAuthorizedKey = (\<lambda>line. Inr (\<lparr>key_Type = ''ssh-ed25519'', key_Marshal = line\<rparr>, [])),
     ParsePrivateKey = (\<lambda>k p. Inr \<lparr>signer_PublicKey = \<lparr>key_Type = ''ssh-ed25519'', key_Marshal = k\<rparr>\<rparr>),
     FingerprintSHA256 = (\<lambda>k. ''SHA256:'' @ key_Marshal k)\<rparr>"

definition sample_server_key :: "string \<Rightarrow> pubkey" where
  "sample_server_key addr = \<lparr>key_Type = ''ssh-ed25519'', key_Marshal = ''hostkey''\<rparr>"

definition sample_peer :: ssh_peer where
  "sample_peer = \<lparr>DialContext = (\<lambda>_. Inr ()),
     NewClientConn = (\<lambda>addr cfg. cfg_HostKeyCallback cfg (sample_server_key addr))\<rparr>"

lemma sample_peer_checks: "checks_host_key sample_peer sample_server_key"
  by (simp add: checks_host_key_def sample_peer_def)

theorem Dial_pinned_witness:
  "\<exists>cfg. fst (Dial sample_lib sample_peer sample_target sample_payload None) = Inr (''10.0.0.5:22'', cfg)
    \<and> cfg_User cfg = ''deploy'' \<and> auth_matches sample_lib ''password'' sample_payload (cfg_Auth cfg)"
proof -
  let ?cfg = "\<lparr>cfg_User = ''deploy'', cfg_Auth = PasswordAuth (Password sample_payload),
      cfg_HostKeyCallback = pin_callback sample_lib \<lparr>key_Type = ''ssh-ed25519'', key_Marshal = ''hostkey''\<rparr>\<rparr>"
  have "itoa 22 = ''22''" by code_simp
  then have d: "fst (Dial sample_lib sample_peer sample_target sample_payload None) = Inr (''10.0.0.5:22'', ?cfg)"
    by (simp add: Dial_def Dial_open_def ParseHostKey_def authMethod_def sample_lib_def sample_peer_def
        sample_target_def sample_payload_def const_defs JoinHostPort_def pin_callback_def same_key_def
        sample_server_key_def)
  from Dial_pinned[OF sample_peer_checks d] d show ?thesis by (simp add: sample_target_def)
qed

section \<open>The forwarded agent is given up\<close>

text \<open>
  However \<open>Dial\<close> ends, a forwarded agent it was given is closed when it returns, and its channel has
  been closed exactly once, although both the normal path and the deferred call close it.
\<close>

theorem Dial_closes_agent:
  assumes "agent_once a = False" "agent_closes a = 0"
  shows "\<exists>b. snd (Dial L N t p (Some a)) = Some b \<and> agent_once b \<and> agent_closes b = 1"
  using assms by (simp add: Dial_def Let_def AgentConnection_Close_def)

theorem Dial_closes_agent_witness:
  "\<exists>b. snd (Dial sample_lib sample_peer sample_target empty_payload
        (Some \<lparr>Agent = Some (Inr []), agent_once = False, agent_closes = 0\<rparr>)) = Some b \<and> agent_once b \<and> agent_closes b = 1"
  by (rule Dial_closes_agent) simp_all

section \<open>Keep-alive\<close>

lemma keepAlive_returned [simp]: "foldl keepAlive (KaReturned b) es = KaReturned b"
  by (induction es) auto

lemma keepAlive_stable: "foldl keepAlive s (es @ fs) = foldl keepAlive (foldl keepAlive s es) fs"
  by simp

text \<open>The client is closed only because a reply was an error or did not come in time.\<close>

lemma keepAlive_closed:
  "foldl keepAlive s es = KaReturned True \<Longrightarrow> s \<noteq> KaReturned True \<Longrightarrow>
   KaTimeout \<in> set es \<or> (\<exists>e. KaReply (Some e) \<in> set es)"
proof (induction es arbitrary: s)
  case (Cons e es)
  show ?case
  proof (cases "keepAlive s e = KaReturned True")
    case True
    with Cons.prems(2) show ?thesis by (cases "(s, e)" rule: keepAlive.cases) auto
  next
    case False
    with Cons show ?thesis by fastforce
  qed
qed simp

section \<open>The SCP command means what was checked\<close>

text \<open>
  A reference reader of a command line, after POSIX: blanks separate words, single quotes keep
  everything, double quotes keep what they are used for here, an unquoted \<open>#\<close> at the start of a word
  begins a comment. \<open>None\<close> when the shell would do anything but take the words literally: an operator,
  an expansion, a pattern, a tilde, a line break or an open quote. The characters it treats so are listed
  here after the shell's grammar, not after the program's own list.
\<close>

definition sh_meta :: "string" where
  "sh_meta = map chr [9, 32, 34, 36, 39, 92, 96] @ ''!&()*;<>?[]{|}''"

datatype quoting = Bare | Single | Double

fun sh_read :: "quoting \<Rightarrow> string option \<Rightarrow> string \<Rightarrow> string list option" where
  "sh_read q cur [] = (if q = Bare then Some (case cur of None \<Rightarrow> [] | Some w \<Rightarrow> [w]) else None)"
| "sh_read q cur (c # cs) =
     (let w = (case cur of None \<Rightarrow> [] | Some w \<Rightarrow> w) in
      case q of
        Bare \<Rightarrow>
          if byte c = 32 \<or> byte c = 9 then
            (case cur of None \<Rightarrow> sh_read Bare None cs | Some w \<Rightarrow> map_option ((#) w) (sh_read Bare None cs))
          else if byte c = 39 then sh_read Single (Some w) cs
          else if byte c = 34 then sh_read Double (Some w) cs
          else if c \<in> set sh_meta \<or> byte c = 10 then None
          else if cur = None \<and> c = CHR ''#'' then Some []
          else if cur = None \<and> c = CHR ''~'' then None
          else sh_read Bare (Some (w @ [c])) cs
      | Single \<Rightarrow> if byte c = 39 then sh_read Bare (Some w) cs else sh_read Single (Some (w @ [c])) cs
      | Double \<Rightarrow> if byte c = 34 then sh_read Bare (Some w) cs
          else if byte c = 36 \<or> byte c = 96 \<or> byte c = 92 then None
          else sh_read Double (Some (w @ [c])) cs)"

definition sh_words :: "string \<Rightarrow> string list option" where
  "sh_words s = sh_read Bare None s"

lemma sh_meta_quoted: "set shell_special = set sh_meta"
  by (simp add: shell_special_def sh_meta_def) (simp add: insert_commute)

lemma sh_special_bytes: "c \<notin> set shell_special \<Longrightarrow> byte c \<notin> {32, 9, 39, 34}"
proof -
  have "c = chr n" if "byte c = n" for n using that chr_byte[of c] by simp
  then show "c \<notin> set shell_special \<Longrightarrow> ?thesis" unfolding shell_special_def by fastforce
qed

lemma sh_read_plain:
  assumes "set v \<inter> set shell_special = {}" "chr 10 \<notin> set v"
  shows "sh_read Bare (Some w) (v @ t) = sh_read Bare (Some (w @ v)) t"
  using assms
proof (induction v arbitrary: w)
  case (Cons c v)
  then have "byte c \<noteq> 10" by (metis chr_byte list.set_intros(1))
  with Cons sh_special_bytes[of c] show ?case by (auto simp: Let_def sh_meta_quoted[symmetric])
qed simp

lemma sh_read_quoted:
  "sh_read Single (Some w) (ReplaceQuote v @ chr 39 # t) = sh_read Bare (Some (w @ v)) t"
proof (induction v arbitrary: w)
  case (Cons c v)
  have "chr 39 = c" if "byte c = 39" using that chr_byte[of c] by simp
  with Cons show ?case by (auto simp: ReplaceQuote_def Let_def)
qed (simp add: ReplaceQuote_def)

definition plain_start :: "string \<Rightarrow> bool" where
  "plain_start v \<longleftrightarrow> (case v of c # _ \<Rightarrow> c \<noteq> CHR ''#'' \<and> c \<noteq> CHR ''~'' | [] \<Rightarrow> True)"

lemma sh_read_shellQuote:
  assumes "plain_start v \<or> ContainsAny v shell_special" "chr 10 \<notin> set v"
  shows "sh_read Bare None (shellQuote v @ t) = sh_read Bare (Some v) t"
proof (cases "v \<noteq> [] \<and> \<not> ContainsAny v shell_special")
  case True
  then obtain c v' where v: "v = c # v'" "c \<notin> set shell_special" "set v' \<inter> set shell_special = {}"
    by (cases v) (auto simp: ContainsAny_def list_ex_iff)
  moreover have "byte c \<noteq> 10" using assms(2) v(1) by (metis chr_byte list.set_intros(1))
  moreover have "c \<noteq> CHR ''#'' \<and> c \<noteq> CHR ''~''" using assms(1) True v(1) by (simp add: plain_start_def)
  ultimately show ?thesis
    using True assms(2) sh_special_bytes[of c] sh_read_plain[of v' "[c]" t] by (auto simp: shellQuote_def Let_def sh_meta_quoted[symmetric])
next
  case False
  then have "shellQuote v = chr 39 # ReplaceQuote v @ [chr 39]" by (auto simp: shellQuote_def)
  with sh_read_quoted[of "[]" v t] show ?thesis by (simp add: Let_def)
qed

text \<open>A word that, as the program quotes it, is read back as itself.\<close>

definition sh_literal :: "string \<Rightarrow> bool" where
  "sh_literal v \<longleftrightarrow> plain_start v \<or> set v \<inter> set sh_meta \<noteq> {}"

lemma sh_literal_iff: "sh_literal v \<longleftrightarrow> plain_start v \<or> ContainsAny v shell_special"
  by (auto simp: sh_literal_def ContainsAny_def list_ex_iff sh_meta_quoted)

lemma sh_read_words:
  assumes "\<And>v. v \<in> set vs \<Longrightarrow> sh_literal v \<and> chr 10 \<notin> set v"
  shows "sh_read Bare None (concat (map (\<lambda>v. shellQuote v @ '' '') vs) @ t) = map_option ((@) vs) (sh_read Bare None t)"
  using assms
proof (induction vs)
  case (Cons v vs)
  then show ?case
    using sh_read_shellQuote[of v "'' '' @ concat (map (\<lambda>v. shellQuote v @ '' '') vs) @ t"]
    by (simp add: sh_literal_iff option.map_comp comp_def)
qed (simp add: option.map_ident[unfolded id_def] map_option_idI)

lemma join_last: "join '' '' (map f (vs @ [v])) = concat (map (\<lambda>v. f v @ '' '') vs) @ f v"
proof (induction vs)
  case (Cons x vs)
  then show ?case by (cases "map f (vs @ [v])") auto
qed simp

lemma sh_words_last:
  assumes "\<And>v. v \<in> set vs \<Longrightarrow> sh_literal v \<and> chr 10 \<notin> set v" "chr 10 \<notin> set p"
  shows "sh_words (join '' '' (map shellQuote (vs @ [p]))) =
    (if sh_literal p then Some (vs @ [p]) else if hd p = CHR ''#'' then Some vs else None)"
proof -
  have "sh_read Bare None (shellQuote p) = (if sh_literal p then Some [p] else if hd p = CHR ''#'' then Some [] else None)"
  proof (cases "sh_literal p")
    case True
    with sh_read_shellQuote[of p "[]"] assms(2) show ?thesis by (simp add: sh_literal_iff)
  next
    case False
    then obtain c v where p: "p = c # v" "c = CHR ''#'' \<or> c = CHR ''~''" "\<not> ContainsAny p shell_special"
      by (auto simp: sh_literal_iff plain_start_def split: list.splits)
    have "CHR ''#'' \<notin> set sh_meta" "CHR ''~'' \<notin> set sh_meta" by code_simp+
    then have "c \<notin> set sh_meta" "byte c \<notin> {9, 10, 32, 34, 39}" using p(2) by auto
    with p(1,2) have "sh_read Bare None p = (if c = CHR ''#'' then Some [] else None)" by auto
    with False p(1,3) show ?thesis by (simp add: shellQuote_def)
  qed
  then show ?thesis
    unfolding sh_words_def join_last by (subst sh_read_words[OF assms(1)]) simp_all
qed

lemma scp_flags_letters:
  "scp_flags fs mode = Inr mode' \<Longrightarrow> set fs \<subseteq> set (map byte ''ftrpd'') \<and> (mode \<longrightarrow> mode')"
  by (induction fs mode rule: scp_flags.induct) (auto split: if_splits)

text \<open>An option the loop lets pass: a dash and at least one of the letters \<open>ftrpd\<close>.\<close>

definition scp_option :: "string \<Rightarrow> bool" where
  "scp_option v \<longleftrightarrow> (\<exists>fs. fs \<noteq> [] \<and> set fs \<subseteq> set ''ftrpd'' \<and> v = CHR ''-'' # fs)"

lemma runes_ascii_letters:
  assumes "set (runes v) \<subseteq> set (map byte ''ftrpd'')"
  shows "set v \<subseteq> set ''ftrpd''"
  using assms
proof (induction v rule: chunks.induct)
  case (2 c cs)
  obtain r n where d: "DecodeRune (c # cs) = (r, n)" by (cases "DecodeRune (c # cs)")
  have r: "r \<in> set (map byte ''ftrpd'')" "set (runes (drop (n - 1) cs)) \<subseteq> set (map byte ''ftrpd'')"
    using "2.prems" d by (auto simp: runes_def)
  then have "r < 0x80" "r \<noteq> RuneError" by (auto simp: RuneError_def)
  with DecodeRune_valid[OF d, of "[]"] have "EncodeRune r = take n (c # cs)" by simp
  with \<open>r < 0x80\<close> have "[chr r] = take n (c # cs)" by (simp add: EncodeRune_ascii)
  then have "c = chr r" "n = 1 \<or> cs = []" by (cases n; cases cs; cases "n - 1"; auto)+
  then have "c \<in> set ''ftrpd''" "drop (n - 1) cs = cs" using r(1) by (auto simp: char_of_eq_iff)
  with "2.IH"[OF d[symmetric] refl] r(2) show ?case by simp
qed simp

lemma scp_options_ok:
  "scp_options vs mode = Inr mode' \<Longrightarrow> list_all scp_option vs \<and> (mode \<longrightarrow> mode')"
proof (induction vs mode rule: scp_options.induct)
  case (2 v vs mode)
  then obtain m where m: "HasPrefix v ''-''" "2 \<le> length v" "scp_flags (runes (drop 1 v)) mode = Inr m"
    "scp_options vs m = Inr mode'"
    by (auto split: if_splits sum.splits)
  have "set (drop 1 v) \<subseteq> set ''ftrpd''"
    using scp_flags_letters[OF m(3)] by (intro runes_ascii_letters) blast
  then have "scp_option v" using m(1,2) by (cases v) (auto simp: scp_option_def)
  with 2 m scp_flags_letters[OF m(3)] show ?case by auto
qed simp

lemma scp_option_word:
  assumes "scp_option v" shows "plain_start v \<and> chr 10 \<notin> set v"
proof -
  have n: "chr 10 \<notin> set ''ftrpd''" "chr 10 \<noteq> CHR ''-''" by (simp_all add: char_of_eq_iff)
  obtain fs where fs: "set fs \<subseteq> set ''ftrpd''" "v = CHR ''-'' # fs" using assms by (auto simp: scp_option_def)
  with n have "chr 10 \<notin> set v" by (metis in_mono set_ConsD)
  with fs(2) show ?thesis by (simp add: plain_start_def)
qed

lemma SafeSCPCommand_InrD:
  assumes "SafeSCPCommand shlex raw = Inr cmd"
  obtains opts path where "shlex raw = Inr (''scp'' # opts @ [path])" "opts \<noteq> []" "path \<noteq> []"
    "scp_options opts False = Inr True" "cmd = join '' '' (map shellQuote (''scp'' # opts @ [path]))"
    "chr 10 \<notin> set raw"
proof -
  obtain vs where vs: "shlex raw = Inr vs" "3 \<le> length vs" "vs ! 0 = ''scp''" "last vs \<noteq> []"
    "scp_options (take (length vs - 2) (drop 1 vs)) False = Inr True" "cmd = join '' '' (map shellQuote vs)"
    "chr 10 \<notin> set raw"
    using assms by (auto simp: SafeSCPCommand_def ContainsAny_def list_ex_iff split: if_splits sum.splits)
  have v: "vs = ''scp'' # take (length vs - 2) (drop 1 vs) @ [last vs]"
    using vs(2,3) by (cases vs; cases "tl vs" rule: rev_cases) auto
  moreover have "take (length vs - 2) (drop 1 vs) \<noteq> []" using vs(2) by (cases vs) auto
  ultimately show thesis using vs by (intro that[of "take (length vs - 2) (drop 1 vs)" "last vs"]) metis+
qed

text \<open>
  C14: The command an SCP session runs on the target is read by the shell there as exactly the words that
  were checked: \<open>scp\<close>, options made of the letters \<open>ftrpd\<close> with one transfer mode, and the one path the
  splitter saw, whatever blanks, quotes, dollars, operators or patterns the path contains. The one exception
  is a path that begins with \<open>#\<close> or \<open>~\<close> and holds no other special character: the first is read as a
  comment, so the path is lost, and the second is expanded. Of the splitter it is assumed only that it
  gives characters of the text.
\<close>

theorem SafeSCPCommand_literal:
  assumes "SafeSCPCommand shlex raw = Inr cmd"
    and "\<And>vs. shlex raw = Inr vs \<Longrightarrow> set (concat vs) \<subseteq> set raw"
  shows "\<exists>opts path. shlex raw = Inr (''scp'' # opts @ [path]) \<and> list_all scp_option opts \<and> path \<noteq> []
    \<and> sh_words cmd = (if hd path \<notin> {CHR ''#'', CHR ''~''} \<or> set path \<inter> set sh_meta \<noteq> {} then Some (''scp'' # opts @ [path])
        else if hd path = CHR ''#'' then Some (''scp'' # opts) else None)"
proof -
  obtain opts path where c: "shlex raw = Inr (''scp'' # opts @ [path])" "path \<noteq> []"
    "scp_options opts False = Inr True" "cmd = join '' '' (map shellQuote (''scp'' # opts @ [path]))"
    "chr 10 \<notin> set raw"
    using SafeSCPCommand_InrD[OF assms(1)] by metis
  have o: "list_all scp_option opts" using scp_options_ok[OF c(3)] by simp
  have p: "chr 10 \<notin> set path" using assms(2)[OF c(1)] c(5) by auto
  have w: "sh_literal v \<and> chr 10 \<notin> set v" if "v \<in> set (''scp'' # opts)" for v
  proof -
    from that consider "v = ''scp''" | "scp_option v" using o by (auto simp: list_all_iff)
    then show ?thesis using scp_option_word[of v] by cases (auto simp: sh_literal_def plain_start_def char_of_eq_iff)
  qed
  have l: "sh_literal path \<longleftrightarrow> hd path \<notin> {CHR ''#'', CHR ''~''} \<or> set path \<inter> set sh_meta \<noteq> {}"
    using c(2) by (cases path) (auto simp: sh_literal_def plain_start_def)
  have "sh_words cmd = (if sh_literal path then Some (''scp'' # opts @ [path])
        else if hd path = CHR ''#'' then Some (''scp'' # opts) else None)"
    using sh_words_last[of "''scp'' # opts" path, OF w p] unfolding c(4) by simp
  with c(1,2) o show ?thesis unfolding l by blast
qed

text \<open>The splitter of a text without quotes, for evaluating the properties.\<close>

definition plain_shlex :: "string \<Rightarrow> string list res" where
  "plain_shlex raw = Inr (Fields raw)"

theorem SafeSCPCommand_literal_witness:
  "SafeSCPCommand plain_shlex ''scp -r -t /srv/$x'' = Inr (''scp -r -t '' @ [chr 39] @ ''/srv/$x'' @ [chr 39])
   \<and> (\<exists>opts path. plain_shlex ''scp -r -t /srv/$x'' = Inr (''scp'' # opts @ [path]) \<and> list_all scp_option opts \<and> path \<noteq> []
    \<and> sh_words (''scp -r -t '' @ [chr 39] @ ''/srv/$x'' @ [chr 39]) = Some (''scp'' # opts @ [path]))"
proof -
  have e: "SafeSCPCommand plain_shlex ''scp -r -t /srv/$x'' = Inr (''scp -r -t '' @ [chr 39] @ ''/srv/$x'' @ [chr 39])"
    by code_simp
  have s: "plain_shlex ''scp -r -t /srv/$x'' = Inr [''scp'', ''-r'', ''-t'', ''/srv/$x'']" by code_simp
  show ?thesis using SafeSCPCommand_literal[OF e] e s by (simp add: sh_meta_def)
qed

text \<open>
  A path that begins with a number sign is passed on unquoted, and the target's shell takes it for a
  comment: the transfer's path is lost.
\<close>

theorem SafeSCPCommand_comment:
  "SafeSCPCommand plain_shlex ''scp -t #tmp'' = Inr ''scp -t #tmp'' \<and> sh_words ''scp -t #tmp'' = Some [''scp'', ''-t'']"
proof
  show "SafeSCPCommand plain_shlex ''scp -t #tmp'' = Inr ''scp -t #tmp''" by code_simp
  show "sh_words ''scp -t #tmp'' = Some [''scp'', ''-t'']" by code_simp
qed

section \<open>The input worker is joined\<close>

text \<open>
  However a proxied shell ends, once the worker that reads the user's input has been started it is
  cancelled, the remote session is closed and the worker is waited for, in this order, before the proxy
  returns: no worker survives to take a key meant for the menu. The remote session is always closed.
\<close>

theorem ProxyShell_joins_input:
  "(if se_ReadContext E \<and> is_ok (se_NewSession E) \<and> se_Pty E \<noteq> None \<and> is_ok (se_RequestPty E) \<and> is_ok (se_StdinPipe E)
    then \<exists>before while. snd (ProxyShell E) = before @ [StartInput] @ while @ [CancelInput, CloseSession, JoinInput] @ [CancelInput, CloseSession]
        \<and> set (before @ while) \<inter> {StartInput, JoinInput, CloseSession} = {}
    else set (snd (ProxyShell E)) \<inter> {StartInput, JoinInput} = {})
   \<and> last (snd (ProxyShell E)) = (if is_ok (se_NewSession E) then CloseSession else OpenSession)"
proof -
  have f: "\<exists>before while. opened @ [StartInput] @ w @ t = before @ [StartInput] @ while @ t
      \<and> set (before @ while) \<inter> {StartInput, JoinInput, CloseSession} = {}"
    if "set (opened @ w) \<inter> {StartInput, JoinInput, CloseSession} = {}" for opened w t
    using that by blast
  show ?thesis
    by (auto simp: ProxyShell_def Let_def join_input_def split: sum.splits option.splits
        intro: f[of "[OpenSession, RequestPty a b c]" "[StartShell]" "[CancelInput, CloseSession, JoinInput, CancelInput, CloseSession]" for a b c, simplified]
          f[of "[OpenSession, RequestPty a b c]" "[StartShell, SignalsOn, WaitSession, SignalsOff]" "[CancelInput, CloseSession, JoinInput, CancelInput, CloseSession]" for a b c, simplified])
qed

end
