(* ===== verification/Store_Users.thy ===== *)
theory Store_Users
  imports Store_Model
begin

text \<open>
  The operations of \<^verbatim>\<open>internal/store/store.go\<close> on users, gateway keys, TOTP secrets and groups.
  The store \<open>s\<close> is the receiver of the Go methods; an operation returns its Go result and the
  store after it. The read operations do not change the store and return the result alone.
\<close>

section \<open>Shared helpers\<close>

text \<open>\<open>changed\<close>: an \<open>UPDATE\<close> or \<open>DELETE\<close> that touches no row is reported as \<open>sql.ErrNoRows\<close>.\<close>

definition changed :: "nat \<Rightarrow> unit res" where
  "changed n = (if n = 0 then Inl ErrNoRows else Inr ())"

definition count_where :: "('r \<Rightarrow> bool) \<Rightarrow> 'r list \<Rightarrow> nat" where
  "count_where P rs = length (filter P rs)"

section \<open>Users\<close>

text \<open>A user row as the Go struct; the last column of the query says whether a TOTP row exists.\<close>

definition scanUser :: "db \<Rightarrow> user_row \<Rightarrow> User" where
  "scanUser s r = \<lparr>User_ID = users_id r, User_Username = users_username r, User_Role = users_role r,
     User_Enabled = users_enabled r,
     User_TOTPEnabled = list_ex (\<lambda>q. totp_user_id q = users_id r) (user_totp s),
     User_CreatedAt = users_created_at r\<rparr>"

definition UserByID :: "db \<Rightarrow> int \<Rightarrow> User res" where
  "UserByID s i = (case find (\<lambda>r. users_id r = i) (users s) of
     None \<Rightarrow> Inl ErrNoRows | Some r \<Rightarrow> Inr (scanUser s r))"

definition UserByName :: "db \<Rightarrow> string \<Rightarrow> User res" where
  "UserByName s name = (case find (\<lambda>r. users_username r = ToLower name) (users s) of
     None \<Rightarrow> Inl ErrNoRows | Some r \<Rightarrow> Inr (scanUser s r))"

definition ListUsers :: "db \<Rightarrow> User list" where
  "ListUsers s = map (scanUser s) (sort_key users_username (users s))"

definition insert_user :: "db \<Rightarrow> string \<Rightarrow> string \<Rightarrow> (db, int) outcome" where
  "insert_user s username role =
     (if username \<in> users_username ` set (users s) then (Inl (ErrConstraint ''UNIQUE''), s)
      else if \<not> validRole role then (Inl (ErrConstraint ''CHECK''), s)
      else let i = next_rowid (map users_id (users s))
           in (Inr i, s\<lparr>users := users s @ [\<lparr>users_id = i, users_username = username,
                 users_role = role, users_enabled = True, users_created_at = CURRENT_TIMESTAMP s\<rparr>]\<rparr>))"

definition AddUser :: "db \<Rightarrow> string \<Rightarrow> string \<Rightarrow> (db, User) outcome" where
  "AddUser s username role =
     (case validateName username ''username'' of
        Inl e \<Rightarrow> (Inl e, s)
      | Inr name \<Rightarrow>
          if \<not> validRole role then (Inl (Err ''role must be admin or member''), s)
          else (case insert_user s name role of
                  (Inl e, s') \<Rightarrow> (Inl e, s')
                | (Inr i, s') \<Rightarrow> (UserByID s' i, s')))"

text \<open>
  \<open>ensureOtherUsableAdmin\<close>: the ids of enabled administrators with a gateway key, other than the
  excluded one.
\<close>

definition other_usable_admins :: "db \<Rightarrow> int \<Rightarrow> int list" where
  "other_usable_admins s exclude =
     [users_id u. u \<leftarrow> users s, k \<leftarrow> gateway_keys s,
        Key_UserID k = users_id u \<and> users_role u = RoleAdmin \<and> users_enabled u \<and> users_id u \<noteq> exclude]"

definition ensureOtherUsableAdmin :: "db \<Rightarrow> int \<Rightarrow> unit res" where
  "ensureOtherUsableAdmin s exclude =
     (if length (remdups (other_usable_admins s exclude)) = 0
      then Inl (Err ''operation would remove the final usable administrator'') else Inr ())"

definition SetUserEnabled :: "db \<Rightarrow> string \<Rightarrow> bool \<Rightarrow> (db, unit) outcome" where
  "SetUserEnabled s name enabled =
     (case UserByName s name of
        Inl e \<Rightarrow> (Inl e, s)
      | Inr u \<Rightarrow>
          (case (if \<not> enabled \<and> User_Role u = RoleAdmin then ensureOtherUsableAdmin s (User_ID u)
                 else Inr ()) of
             Inl e \<Rightarrow> (Inl e, s)
           | Inr _ \<Rightarrow>
               (changed (count_where (\<lambda>r. users_id r = User_ID u) (users s)),
                s\<lparr>users := update_where (\<lambda>r. users_id r = User_ID u)
                            (\<lambda>r. r\<lparr>users_enabled := enabled\<rparr>) (users s)\<rparr>)))"

definition SetUserRole :: "db \<Rightarrow> string \<Rightarrow> string \<Rightarrow> (db, unit) outcome" where
  "SetUserRole s name role =
     (if \<not> validRole role then (Inl (Err ''role must be admin or member''), s)
      else (case UserByName s name of
        Inl e \<Rightarrow> (Inl e, s)
      | Inr u \<Rightarrow>
          (case (if User_Role u = RoleAdmin \<and> role \<noteq> RoleAdmin
                 then ensureOtherUsableAdmin s (User_ID u) else Inr ()) of
             Inl e \<Rightarrow> (Inl e, s)
           | Inr _ \<Rightarrow>
               (changed (count_where (\<lambda>r. users_id r = User_ID u) (users s)),
                s\<lparr>users := update_where (\<lambda>r. users_id r = User_ID u)
                            (\<lambda>r. r\<lparr>users_role := role\<rparr>) (users s)\<rparr>))))"

text \<open>
  \<open>DELETE FROM users WHERE id=?\<close> with what the schema attaches to it: gateway keys, memberships,
  user grants, OIDC identities and the TOTP row go with the user, audit events keep a \<open>NULL\<close> actor.
\<close>

definition delete_user_row :: "db \<Rightarrow> int \<Rightarrow> db" where
  "delete_user_row s i = s\<lparr>
     users := filter (\<lambda>r. users_id r \<noteq> i) (users s),
     gateway_keys := filter (\<lambda>k. Key_UserID k \<noteq> i) (gateway_keys s),
     group_members := filter (\<lambda>m. member_user_id m \<noteq> i) (group_members s),
     user_target_grants := filter (\<lambda>g. grant_principal g \<noteq> i) (user_target_grants s),
     oidc_identities := filter (\<lambda>r. oidc_user_id r \<noteq> i) (oidc_identities s),
     user_totp := filter (\<lambda>q. totp_user_id q \<noteq> i) (user_totp s),
     audit_events := update_where (\<lambda>e. Audit_ActorUserID e = Some i)
                       (\<lambda>e. e\<lparr>Audit_ActorUserID := None\<rparr>) (audit_events s)\<rparr>"

definition DeleteUser :: "db \<Rightarrow> string \<Rightarrow> (db, unit) outcome" where
  "DeleteUser s name =
     (case UserByName s name of
        Inl e \<Rightarrow> (Inl e, s)
      | Inr u \<Rightarrow>
          (case (if User_Role u = RoleAdmin then ensureOtherUsableAdmin s (User_ID u) else Inr ()) of
             Inl e \<Rightarrow> (Inl e, s)
           | Inr _ \<Rightarrow>
               (changed (count_where (\<lambda>r. users_id r = User_ID u) (users s)),
                delete_user_row s (User_ID u))))"

section \<open>Gateway keys\<close>

definition AddGatewayKey :: "db \<Rightarrow> string \<Rightarrow> string \<Rightarrow> string \<Rightarrow> string \<Rightarrow> (db, unit) outcome" where
  "AddGatewayKey s username fingerprint publicKey label =
     (case UserByName s username of
        Inl e \<Rightarrow> (Inl e, s)
      | Inr u \<Rightarrow>
          if list_ex (\<lambda>k. Key_UserID k = User_ID u \<and> Key_Fingerprint k = fingerprint) (gateway_keys s)
          then (Inl (Err ''that SSH key is already assigned to this user''), s)
          else (Inr (), s\<lparr>gateway_keys := gateway_keys s @
                  [\<lparr>Key_ID = next_rowid (map Key_ID (gateway_keys s)), Key_UserID = User_ID u,
                    Key_Fingerprint = fingerprint, Key_PublicKey = publicKey, Key_Label = label,
                    Key_CreatedAt = CURRENT_TIMESTAMP s\<rparr>]\<rparr>))"

definition ListGatewayKeys :: "db \<Rightarrow> string \<Rightarrow> GatewayKey list res" where
  "ListGatewayKeys s username =
     (case UserByName s username of
        Inl e \<Rightarrow> Inl e
      | Inr u \<Rightarrow> Inr (sort_key Key_ID (filter (\<lambda>k. Key_UserID k = User_ID u) (gateway_keys s))))"

definition RemoveGatewayKey :: "db \<Rightarrow> string \<Rightarrow> string \<Rightarrow> (db, unit) outcome" where
  "RemoveGatewayKey s username fingerprint =
     (case UserByName s username of
        Inl e \<Rightarrow> (Inl e, s)
      | Inr u \<Rightarrow>
          let count = count_where (\<lambda>k. Key_UserID k = User_ID u) (gateway_keys s)
          in (case (if User_Role u = RoleAdmin \<and> User_Enabled u \<and> count \<le> 1
                    then ensureOtherUsableAdmin s (User_ID u) else Inr ()) of
                Inl e \<Rightarrow> (Inl e, s)
              | Inr _ \<Rightarrow>
                  (changed (count_where (\<lambda>k. Key_UserID k = User_ID u \<and> Key_Fingerprint k = fingerprint)
                      (gateway_keys s)),
                   s\<lparr>gateway_keys := filter
                        (\<lambda>k. \<not> (Key_UserID k = User_ID u \<and> Key_Fingerprint k = fingerprint))
                        (gateway_keys s)\<rparr>)))"

text \<open>The rows of the join in \<open>AuthenticateKey\<close>, of which the first is scanned.\<close>

definition auth_rows :: "db \<Rightarrow> string \<Rightarrow> string \<Rightarrow> user_row list" where
  "auth_rows s username fingerprint =
     [u. u \<leftarrow> users s, k \<leftarrow> gateway_keys s,
        Key_UserID k = users_id u \<and> users_username u = ToLower username \<and> users_enabled u
        \<and> Key_Fingerprint k = fingerprint]"

definition AuthenticateKey :: "db \<Rightarrow> string \<Rightarrow> string \<Rightarrow> User res" where
  "AuthenticateKey s username fingerprint =
     (case auth_rows s username fingerprint of
        [] \<Rightarrow> Inl ErrNoRows
      | u # _ \<Rightarrow> Inr (scanUser s u))"

section \<open>TOTP secrets\<close>

definition SetUserTOTP :: "db \<Rightarrow> int \<Rightarrow> string \<Rightarrow> string \<Rightarrow> (db, unit) outcome" where
  "SetUserTOTP s userID nonce ciphertext =
     (if length nonce = 0 \<or> length ciphertext = 0
      then (Inl (Err ''encrypted TOTP secret is required''), s)
      else if list_ex (\<lambda>q. totp_user_id q = userID) (user_totp s)
      then (Inr (), s\<lparr>user_totp := update_where (\<lambda>q. totp_user_id q = userID)
              (\<lambda>q. q\<lparr>totp_secret_nonce := nonce, totp_secret_ciphertext := ciphertext,
                     totp_last_counter := - 1, totp_created_at := CURRENT_TIMESTAMP s\<rparr>) (user_totp s)\<rparr>)
      else if userID \<notin> users_id ` set (users s) then (Inl (ErrConstraint ''FOREIGN KEY''), s)
      else (Inr (), s\<lparr>user_totp := user_totp s @
              [\<lparr>totp_user_id = userID, totp_secret_nonce = nonce, totp_secret_ciphertext = ciphertext,
                totp_last_counter = - 1, totp_created_at = CURRENT_TIMESTAMP s\<rparr>]\<rparr>))"

definition UserTOTP :: "db \<Rightarrow> int \<Rightarrow> TOTPConfig res" where
  "UserTOTP s userID =
     (case find (\<lambda>q. totp_user_id q = userID) (user_totp s) of
        None \<Rightarrow> Inl ErrNoRows
      | Some q \<Rightarrow> Inr \<lparr>TOTP_UserID = totp_user_id q, TOTP_Nonce = totp_secret_nonce q,
                      TOTP_Ciphertext = totp_secret_ciphertext q,
                      TOTP_LastCounter = totp_last_counter q\<rparr>)"

definition RemoveUserTOTP :: "db \<Rightarrow> int \<Rightarrow> (db, unit) outcome" where
  "RemoveUserTOTP s userID =
     (changed (count_where (\<lambda>q. totp_user_id q = userID) (user_totp s)),
      s\<lparr>user_totp := filter (\<lambda>q. totp_user_id q \<noteq> userID) (user_totp s)\<rparr>)"

definition ConsumeTOTPCounter :: "db \<Rightarrow> int \<Rightarrow> int \<Rightarrow> (db, unit) outcome" where
  "ConsumeTOTPCounter s userID counter =
     (let P = (\<lambda>q. totp_user_id q = userID \<and> totp_last_counter q < counter)
      in (if count_where P (user_totp s) \<noteq> 1 then Inl (Err ''TOTP code was already used'') else Inr (),
          s\<lparr>user_totp := update_where P (\<lambda>q. q\<lparr>totp_last_counter := counter\<rparr>) (user_totp s)\<rparr>))"

section \<open>Groups\<close>

definition AddGroup :: "db \<Rightarrow> string \<Rightarrow> (db, unit) outcome" where
  "AddGroup s name0 =
     (case validateName name0 ''group'' of
        Inl e \<Rightarrow> (Inl e, s)
      | Inr name \<Rightarrow>
          if name \<in> Group_Name ` set (groups_table s) then (Inl (ErrConstraint ''UNIQUE''), s)
          else (Inr (), s\<lparr>groups_table := groups_table s @
                  [\<lparr>Group_ID = next_rowid (map Group_ID (groups_table s)), Group_Name = name,
                    Group_CreatedAt = CURRENT_TIMESTAMP s\<rparr>]\<rparr>))"

text \<open>\<open>DELETE FROM groups_table\<close> cascades to the memberships and the group's grants.\<close>

definition delete_group_rows :: "db \<Rightarrow> int set \<Rightarrow> db" where
  "delete_group_rows s K = s\<lparr>
     groups_table := filter (\<lambda>g. Group_ID g \<notin> K) (groups_table s),
     group_members := filter (\<lambda>m. member_group_id m \<notin> K) (group_members s),
     group_target_grants := filter (\<lambda>g. grant_principal g \<notin> K) (group_target_grants s)\<rparr>"

definition DeleteGroup :: "db \<Rightarrow> string \<Rightarrow> (db, unit) outcome" where
  "DeleteGroup s name =
     (let hit = filter (\<lambda>g. Group_Name g = ToLower name) (groups_table s)
      in (changed (length hit), delete_group_rows s (set (map Group_ID hit))))"

definition ListGroups :: "db \<Rightarrow> Group list" where
  "ListGroups s = sort_key Group_Name (groups_table s)"

definition group_id_by_name :: "db \<Rightarrow> string \<Rightarrow> int res" where
  "group_id_by_name s name = (case find (\<lambda>g. Group_Name g = ToLower name) (groups_table s) of
     None \<Rightarrow> Inl ErrNoRows | Some g \<Rightarrow> Inr (Group_ID g))"

definition SetGroupMember :: "db \<Rightarrow> string \<Rightarrow> string \<Rightarrow> bool \<Rightarrow> (db, unit) outcome" where
  "SetGroupMember s grp username add =
     (case UserByName s username of
        Inl e \<Rightarrow> (Inl e, s)
      | Inr u \<Rightarrow>
          (case group_id_by_name s grp of
             Inl e \<Rightarrow> (Inl e, s)
           | Inr gid \<Rightarrow>
               let m = \<lparr>member_group_id = gid, member_user_id = User_ID u\<rparr>
               in if add
                  then (Inr (), if m \<in> set (group_members s) then s
                                else s\<lparr>group_members := group_members s @ [m]\<rparr>)
                  else (Inr (), s\<lparr>group_members := filter (\<lambda>x. x \<noteq> m) (group_members s)\<rparr>)))"

text \<open>The join of \<open>ListGroupMembers\<close>, ordered by group name and user name.\<close>

definition ListGroupMembers :: "db \<Rightarrow> GroupMember list" where
  "ListGroupMembers s =
     sort_key Member_Group (sort_key Member_Username
       [\<lparr>Member_Group = Group_Name g, Member_Username = users_username u\<rparr>.
          m \<leftarrow> group_members s, g \<leftarrow> groups_table s, Group_ID g = member_group_id m,
          u \<leftarrow> users s, users_id u = member_user_id m])"

lemmas [sql_defs] = changed_def count_where_def scanUser_def UserByID_def UserByName_def
  ListUsers_def insert_user_def AddUser_def other_usable_admins_def ensureOtherUsableAdmin_def
  SetUserEnabled_def SetUserRole_def delete_user_row_def DeleteUser_def AddGatewayKey_def
  ListGatewayKeys_def RemoveGatewayKey_def auth_rows_def AuthenticateKey_def SetUserTOTP_def UserTOTP_def
  RemoveUserTOTP_def ConsumeTOTPCounter_def AddGroup_def delete_group_rows_def DeleteGroup_def
  ListGroups_def group_id_by_name_def SetGroupMember_def ListGroupMembers_def

section \<open>Lookups\<close>

lemma scanUser_simps [simp]:
  "User_ID (scanUser s r) = users_id r" "User_Username (scanUser s r) = users_username r"
  "User_Role (scanUser s r) = users_role r" "User_Enabled (scanUser s r) = users_enabled r"
  by (simp_all add: scanUser_def)

lemma UserByID_InrD: "UserByID s i = Inr u \<Longrightarrow>
    \<exists>r\<in>set (users s). users_id r = i \<and> u = scanUser s r"
  by (auto simp: UserByID_def dest: find_SomeD split: option.splits)

lemma UserByName_InrD: "UserByName s name = Inr u \<Longrightarrow>
    \<exists>r\<in>set (users s). users_username r = ToLower name \<and> u = scanUser s r"
  by (auto simp: UserByName_def dest: find_SomeD split: option.splits)

lemma UserByName_Inl: "UserByName s name = Inl e \<longleftrightarrow>
    e = ErrNoRows \<and> (\<forall>r\<in>set (users s). users_username r \<noteq> ToLower name)"
  by (auto simp: UserByName_def find_None_iff dest: find_SomeD split: option.splits)

lemma UserByName_found:
  "store_ok s \<Longrightarrow> r \<in> set (users s) \<Longrightarrow> users_username r = ToLower name \<Longrightarrow>
   UserByName s name = Inr (scanUser s r)"
  using find_uniq[of users_username "users s" r]
  by (simp add: UserByName_def store_ok_def ok_users_def)

lemma UserByID_found:
  "store_ok s \<Longrightarrow> r \<in> set (users s) \<Longrightarrow> UserByID s (users_id r) = Inr (scanUser s r)"
  by (simp add: UserByID_def store_ok_def ok_users_def find_rowids)

text \<open>The join of \<open>AuthenticateKey\<close> holds exactly the enabled row of the name, once per matching key.\<close>

lemma set_auth_rows:
  "set (auth_rows s username fp) =
   {u \<in> set (users s). users_username u = ToLower username \<and> users_enabled u
      \<and> (\<exists>k\<in>set (gateway_keys s). Key_UserID k = users_id u \<and> Key_Fingerprint k = fp)}"
  by (auto simp: auth_rows_def)

lemma AuthenticateKey_iff:
  assumes ok: "store_ok s"
  shows "AuthenticateKey s username fp = Inr u \<longleftrightarrow>
    (\<exists>r\<in>set (users s). users_username r = ToLower username \<and> users_enabled r \<and> u = scanUser s r
       \<and> (\<exists>k\<in>set (gateway_keys s). Key_UserID k = users_id r \<and> Key_Fingerprint k = fp))"
proof -
  have un: "uniq users_username (users s)" using store_okD(1)[OF ok] by (simp add: ok_users_def)
  have same: "r = r'" if "r \<in> set (auth_rows s username fp)" "r' \<in> set (auth_rows s username fp)" for r r'
    using that un by (auto simp: set_auth_rows intro: uniq_inj)
  have "AuthenticateKey s username fp = Inr u \<longleftrightarrow> (\<exists>r\<in>set (auth_rows s username fp). u = scanUser s r)"
    using same by (cases "auth_rows s username fp") (fastforce simp: AuthenticateKey_def)+
  then show ?thesis by (auto simp: set_auth_rows)
qed

section \<open>Every operation keeps the schema's constraints\<close>

lemma ok_users_snoc:
  assumes "ok_users us" "users_username r \<notin> users_username ` set us"
    "users_id r = next_rowid (map users_id us)" "validRole (users_role r)" "nameRE (users_username r)"
  shows "ok_users (us @ [r])"
  using assms by (auto simp: ok_users_def intro: rowids_snoc uniq_snoc)

lemma ok_users_update:
  assumes "ok_users us" "\<And>r. users_id (f r) = users_id r" "\<And>r. users_username (f r) = users_username r"
    "\<And>r. validRole (users_role r) \<Longrightarrow> validRole (users_role (f r))"
  shows "ok_users (update_where P f us)"
  using assms by (auto simp: ok_users_def set_update_where intro: rowids_update uniq_update)

lemma insert_user_ok: "store_ok s \<Longrightarrow> nameRE name \<Longrightarrow> store_ok (snd (insert_user s name role))"
  by (auto simp: insert_user_def Let_def intro!: store_ok_set_users ok_users_snoc dest: store_okD)

lemma AddUser_ok [store_inv_intros]: "store_ok s \<Longrightarrow> store_ok (snd (AddUser s username role))"
  using insert_user_ok[of s _ role]
  by (auto simp: AddUser_def dest!: validateName_ok split: sum.splits prod.splits)
    (metis snd_conv)+

lemma SetUserEnabled_ok [store_inv_intros]: "store_ok s \<Longrightarrow> store_ok (snd (SetUserEnabled s name en))"
  by (auto simp: SetUserEnabled_def image_update_where dest: store_okD
      intro!: store_ok_set_users ok_users_update split: sum.splits)

lemma SetUserRole_ok [store_inv_intros]: "store_ok s \<Longrightarrow> store_ok (snd (SetUserRole s name role))"
  by (auto simp: SetUserRole_def image_update_where dest: store_okD
      intro!: store_ok_set_users ok_users_update split: sum.splits)

lemma ok_audit_clear_actor:
  assumes "ok_audit us ts es"
  shows "ok_audit (filter (\<lambda>r. users_id r \<noteq> i) us) ts
    (update_where (\<lambda>e. Audit_ActorUserID e = Some i) (\<lambda>e. e\<lparr>Audit_ActorUserID := None\<rparr>) es)"
  using assms by (auto simp: ok_audit_def refs_some_def set_update_where intro!: rowids_update)

lemma delete_user_row_ok: "store_ok s \<Longrightarrow> store_ok (delete_user_row s i)"
  by (simp add: store_ok_def delete_user_row_def ok_audit_clear_actor)
    (simp add: ok_defs rowids_filter uniq_filter uniq_some_filter refs_filter refs_cascade1)

lemma DeleteUser_ok [store_inv_intros]: "store_ok s \<Longrightarrow> store_ok (snd (DeleteUser s name))"
  by (auto simp: DeleteUser_def delete_user_row_ok split: sum.splits)

lemma AddGatewayKey_ok [store_inv_intros]:
  "store_ok s \<Longrightarrow> store_ok (snd (AddGatewayKey s username fp pk label))"
  using store_okD(2)[of s]
  by (auto simp: AddGatewayKey_def ok_keys_def list_ex_iff dest!: UserByName_InrD
      intro!: store_ok_set_leaf rowids_snoc uniq_snoc refs_snoc split: sum.splits) blast

lemma RemoveGatewayKey_ok [store_inv_intros]:
  "store_ok s \<Longrightarrow> store_ok (snd (RemoveGatewayKey s username fp))"
  using store_okD(2)[of s]
  by (auto simp: RemoveGatewayKey_def ok_keys_def Let_def
      intro!: store_ok_set_leaf rowids_filter uniq_filter refs_filter split: sum.splits)

lemma SetUserTOTP_ok [store_inv_intros]: "store_ok s \<Longrightarrow> store_ok (snd (SetUserTOTP s uid n c))"
  using store_okD(11)[of s]
  by (auto simp: SetUserTOTP_def ok_totp_def list_ex_iff
      intro!: store_ok_set_leaf uniq_snoc refs_snoc uniq_update refs_update) blast

lemma RemoveUserTOTP_ok [store_inv_intros]: "store_ok s \<Longrightarrow> store_ok (snd (RemoveUserTOTP s uid))"
  using store_okD(11)[of s]
  by (auto simp: RemoveUserTOTP_def ok_totp_def intro!: store_ok_set_leaf uniq_filter refs_filter)

lemma ConsumeTOTPCounter_ok [store_inv_intros]:
  "store_ok s \<Longrightarrow> store_ok (snd (ConsumeTOTPCounter s uid c))"
  using store_okD(11)[of s]
  by (auto simp: ConsumeTOTPCounter_def ok_totp_def Let_def
      intro!: store_ok_set_leaf uniq_update refs_update)

lemma AddGroup_ok [store_inv_intros]: "store_ok s \<Longrightarrow> store_ok (snd (AddGroup s name))"
  using store_okD(3)[of s]
  by (auto simp: AddGroup_def ok_groups_def dest!: validateName_ok
      intro!: store_ok_set_groups rowids_snoc uniq_snoc split: sum.splits)

lemma delete_group_rows_ok: "store_ok s \<Longrightarrow> store_ok (delete_group_rows s K)"
  by (simp add: store_ok_def delete_group_rows_def ok_defs)
    (simp add: rowids_filter uniq_filter refs_filter refs_cascade)

lemma DeleteGroup_ok [store_inv_intros]: "store_ok s \<Longrightarrow> store_ok (snd (DeleteGroup s name))"
  by (simp add: DeleteGroup_def Let_def delete_group_rows_ok)

lemma group_id_by_name_InrD: "group_id_by_name s name = Inr i \<Longrightarrow>
    \<exists>g\<in>set (groups_table s). Group_Name g = ToLower name \<and> i = Group_ID g"
  by (auto simp: group_id_by_name_def dest: find_SomeD split: option.splits)

lemma member_row_eta [simp]:
  "\<lparr>member_group_id = member_group_id m, member_user_id = member_user_id m\<rparr> = m"
  by (cases m) simp

lemma SetGroupMember_ok [store_inv_intros]:
  "store_ok s \<Longrightarrow> store_ok (snd (SetGroupMember s grp username add))"
  using store_okD(4)[of s]
  by (auto simp: SetGroupMember_def Let_def ok_members_def
      dest!: UserByName_InrD group_id_by_name_InrD
      intro!: store_ok_set_leaf uniq_snoc refs_snoc uniq_filter refs_filter split: sum.splits)

end
