(* ===== verification/Store_Targets.thy ===== *)
theory Store_Targets
  imports Store_Users
begin

text \<open>
  The operations of \<^verbatim>\<open>internal/store/store.go\<close> on reusable SSH identities, targets, access grants
  and TCP-forwarding rules, and the authorization queries that decide what a user may reach.
\<close>

section \<open>Reusable SSH identities\<close>

definition SSHIdentityByID :: "db \<Rightarrow> int \<Rightarrow> SSHIdentity res" where
  "SSHIdentityByID s i = (case find (\<lambda>r. Identity_ID r = i) (ssh_identities s) of
     None \<Rightarrow> Inl ErrNoRows | Some r \<Rightarrow> Inr r)"

definition SSHIdentityByName :: "db \<Rightarrow> string \<Rightarrow> SSHIdentity res" where
  "SSHIdentityByName s name = (case find (\<lambda>r. Identity_Name r = ToLower name) (ssh_identities s) of
     None \<Rightarrow> Inl ErrNoRows | Some r \<Rightarrow> Inr r)"

definition ListSSHIdentities :: "db \<Rightarrow> SSHIdentity list" where
  "ListSSHIdentities s = sort_key Identity_Name (ssh_identities s)"

definition AddSSHIdentity :: "db \<Rightarrow> string \<Rightarrow> string \<Rightarrow> string \<Rightarrow> (db, SSHIdentity) outcome" where
  "AddSSHIdentity s name0 publicKey fingerprint =
     (case validateName name0 ''SSH key name'' of
        Inl e \<Rightarrow> (Inl e, s)
      | Inr name \<Rightarrow>
          if TrimSpace publicKey = [] \<or> TrimSpace fingerprint = []
          then (Inl (Err ''SSH identity public key and fingerprint are required''), s)
          else if name \<in> Identity_Name ` set (ssh_identities s)
               \<or> fingerprint \<in> Identity_Fingerprint ` set (ssh_identities s)
          then (Inl (ErrConstraint ''UNIQUE''), s)
          else let i = next_rowid (map Identity_ID (ssh_identities s));
                   s' = s\<lparr>ssh_identities := ssh_identities s @
                     [\<lparr>Identity_ID = i, Identity_Name = name, Identity_PublicKey = publicKey,
                       Identity_Fingerprint = fingerprint, Identity_Nonce = None,
                       Identity_Ciphertext = None, Identity_CreatedAt = CURRENT_TIMESTAMP s\<rparr>]\<rparr>
               in (SSHIdentityByID s' i, s'))"

definition SetSSHIdentitySecret ::
    "db \<Rightarrow> int \<Rightarrow> string option \<Rightarrow> string option \<Rightarrow> (db, unit) outcome" where
  "SetSSHIdentitySecret s i nonce ciphertext =
     (changed (count_where (\<lambda>r. Identity_ID r = i) (ssh_identities s)),
      s\<lparr>ssh_identities := update_where (\<lambda>r. Identity_ID r = i)
          (\<lambda>r. r\<lparr>Identity_Nonce := nonce, Identity_Ciphertext := ciphertext\<rparr>) (ssh_identities s)\<rparr>)"

text \<open>
  \<open>DeleteSSHIdentity\<close> counts the targets that select the identity first; the schema's
  \<open>ON DELETE RESTRICT\<close> would refuse the statement as well.
\<close>

definition identity_uses :: "db \<Rightarrow> string \<Rightarrow> nat" where
  "identity_uses s name =
     (case find (\<lambda>r. Identity_Name r = ToLower name) (ssh_identities s) of
        None \<Rightarrow> 0
      | Some r \<Rightarrow> count_where (\<lambda>t. Target_IdentityID t = Some (Identity_ID r)) (targets s))"

definition DeleteSSHIdentity :: "db \<Rightarrow> string \<Rightarrow> (db, unit) outcome" where
  "DeleteSSHIdentity s name =
     (if identity_uses s name > 0
      then (Inl (Err ''SSH key is still selected by one or more targets''), s)
      else let hit = filter (\<lambda>r. Identity_Name r = ToLower name) (ssh_identities s)
           in if list_ex (\<lambda>t. \<exists>r\<in>set hit. Target_IdentityID t = Some (Identity_ID r)) (targets s)
              then (Inl (ErrConstraint ''FOREIGN KEY''), s)
              else (changed (length hit),
                    s\<lparr>ssh_identities := filter (\<lambda>r. Identity_Name r \<noteq> ToLower name) (ssh_identities s)\<rparr>))"

section \<open>Targets\<close>

record NewTarget =
  New_Name :: string
  New_Host :: string
  New_Port :: int
  New_RemoteUsername :: string
  New_CredentialKind :: string
  New_HostKeyAlgorithm :: string
  New_HostPublicKey :: string
  New_IdentityID :: "int option"

definition TargetByID :: "db \<Rightarrow> int \<Rightarrow> Target res" where
  "TargetByID s i = (case find (\<lambda>t. Target_ID t = i) (targets s) of
     None \<Rightarrow> Inl ErrNoRows | Some t \<Rightarrow> Inr t)"

definition TargetByName :: "db \<Rightarrow> string \<Rightarrow> Target res" where
  "TargetByName s name = (case find (\<lambda>t. Target_Name t = name) (targets s) of
     None \<Rightarrow> Inl ErrNoRows | Some t \<Rightarrow> Inr t)"

definition ListTargets :: "db \<Rightarrow> Target list" where
  "ListTargets s = sort_key Target_Name (targets s)"

definition insert_target :: "db \<Rightarrow> NewTarget \<Rightarrow> (db, int) outcome" where
  "insert_target s n =
     (if New_Name n \<in> Target_Name ` set (targets s) then (Inl (ErrConstraint ''UNIQUE''), s)
      else if \<not> (case New_IdentityID n of None \<Rightarrow> True
                | Some i \<Rightarrow> i \<in> Identity_ID ` set (ssh_identities s))
      then (Inl (ErrConstraint ''FOREIGN KEY''), s)
      else let i = next_rowid (map Target_ID (targets s)); now = CURRENT_TIMESTAMP s
           in (Inr i, s\<lparr>targets := targets s @
                [\<lparr>Target_ID = i, Target_Name = New_Name n, Target_Host = New_Host n,
                  Target_RemoteUsername = New_RemoteUsername n,
                  Target_CredentialKind = New_CredentialKind n, Target_Port = New_Port n,
                  Target_Enabled = True, Target_HostKeyAlgorithm = New_HostKeyAlgorithm n,
                  Target_HostPublicKey = New_HostPublicKey n, Target_Nonce = None,
                  Target_Ciphertext = None, Target_IdentityID = New_IdentityID n,
                  Target_CreatedAt = now, Target_UpdatedAt = now\<rparr>]\<rparr>))"

definition AddTarget :: "db \<Rightarrow> NewTarget \<Rightarrow> (db, Target) outcome" where
  "AddTarget s n =
     (if TrimSpace (New_Name n) = [] \<or> TrimSpace (New_Host n) = []
         \<or> TrimSpace (New_RemoteUsername n) = []
      then (Inl (Err ''target name, host, and remote username are required''), s)
      else if \<not> valid_port (New_Port n)
      then (Inl (Err ''port must be between 1 and 65535''), s)
      else if \<not> validCredentialKind (New_CredentialKind n)
      then (Inl (Err ''invalid credential kind''), s)
      else if New_HostKeyAlgorithm n = [] \<or> New_HostPublicKey n = []
      then (Inl (Err ''pinned host key is required''), s)
      else if New_CredentialKind n = CredentialStoredKey \<and> New_IdentityID n = None
      then (Inl (Err ''stored_key authentication requires an SSH identity''), s)
      else (case insert_target s n of
              (Inl e, s') \<Rightarrow> (Inl e, s')
            | (Inr i, s') \<Rightarrow> (TargetByID s' i, s')))"

text \<open>
  \<open>UPDATE targets SET ..., updated_at=CURRENT_TIMESTAMP WHERE ...\<close>, with the count of rows hit.
\<close>

definition update_targets :: "db \<Rightarrow> (Target \<Rightarrow> bool) \<Rightarrow> (Target \<Rightarrow> Target) \<Rightarrow> (db, unit) outcome" where
  "update_targets s P f =
     (changed (count_where P (targets s)),
      s\<lparr>targets := update_where P (\<lambda>t. (f t)\<lparr>Target_UpdatedAt := CURRENT_TIMESTAMP s\<rparr>) (targets s)\<rparr>)"

definition SetTargetEnabled :: "db \<Rightarrow> string \<Rightarrow> bool \<Rightarrow> (db, unit) outcome" where
  "SetTargetEnabled s name enabled =
     update_targets s (\<lambda>t. Target_Name t = name) (\<lambda>t. t\<lparr>Target_Enabled := enabled\<rparr>)"

text \<open>
  \<open>DELETE FROM targets\<close>: both kinds of grants and the forwarding rules cascade, audit events keep
  a \<open>NULL\<close> target.
\<close>

definition delete_target_rows :: "db \<Rightarrow> int set \<Rightarrow> db" where
  "delete_target_rows s K = s\<lparr>
     targets := filter (\<lambda>t. Target_ID t \<notin> K) (targets s),
     user_target_grants := filter (\<lambda>g. grant_target_id g \<notin> K) (user_target_grants s),
     group_target_grants := filter (\<lambda>g. grant_target_id g \<notin> K) (group_target_grants s),
     target_forward_rules := filter (\<lambda>r. rule_target_id r \<notin> K) (target_forward_rules s),
     audit_events := update_where (\<lambda>e. \<exists>i\<in>K. Audit_TargetID e = Some i)
                       (\<lambda>e. e\<lparr>Audit_TargetID := None\<rparr>) (audit_events s)\<rparr>"

definition DeleteTarget :: "db \<Rightarrow> string \<Rightarrow> (db, unit) outcome" where
  "DeleteTarget s name =
     (let hit = filter (\<lambda>t. Target_Name t = name) (targets s)
      in (changed (length hit), delete_target_rows s (set (map Target_ID hit))))"

definition SetTargetCredential ::
    "db \<Rightarrow> int \<Rightarrow> string option \<Rightarrow> string option \<Rightarrow> (db, unit) outcome" where
  "SetTargetCredential s i nonce ciphertext =
     update_targets s (\<lambda>t. Target_ID t = i)
       (\<lambda>t. t\<lparr>Target_Nonce := nonce, Target_Ciphertext := ciphertext, Target_IdentityID := None\<rparr>)"

definition SetTargetCredentialKind ::
    "db \<Rightarrow> int \<Rightarrow> string \<Rightarrow> string option \<Rightarrow> string option \<Rightarrow> (db, unit) outcome" where
  "SetTargetCredentialKind s i kind nonce ciphertext =
     (if \<not> validCredentialKind kind then (Inl (Err ''invalid credential kind''), s)
      else if kind = CredentialStoredKey
      then (Inl (Err ''use SetTargetIdentity for stored_key authentication''), s)
      else update_targets s (\<lambda>t. Target_ID t = i)
             (\<lambda>t. t\<lparr>Target_CredentialKind := kind, Target_Nonce := nonce,
                    Target_Ciphertext := ciphertext, Target_IdentityID := None\<rparr>))"

definition SetTargetIdentity :: "db \<Rightarrow> int \<Rightarrow> int \<Rightarrow> (db, unit) outcome" where
  "SetTargetIdentity s targetID identityID =
     (if list_ex (\<lambda>t. Target_ID t = targetID) (targets s)
         \<and> identityID \<notin> Identity_ID ` set (ssh_identities s)
      then (Inl (ErrConstraint ''FOREIGN KEY''), s)
      else update_targets s (\<lambda>t. Target_ID t = targetID)
             (\<lambda>t. t\<lparr>Target_CredentialKind := CredentialStoredKey, Target_Nonce := None,
                    Target_Ciphertext := None, Target_IdentityID := Some identityID\<rparr>))"

definition SetTargetHostKey :: "db \<Rightarrow> string \<Rightarrow> string \<Rightarrow> string \<Rightarrow> (db, unit) outcome" where
  "SetTargetHostKey s name algorithm publicKey =
     update_targets s (\<lambda>t. Target_Name t = name)
       (\<lambda>t. t\<lparr>Target_HostKeyAlgorithm := algorithm, Target_HostPublicKey := publicKey\<rparr>)"

definition UpdateTarget :: "db \<Rightarrow> string \<Rightarrow> string \<Rightarrow> int \<Rightarrow> string \<Rightarrow> (db, unit) outcome" where
  "UpdateTarget s name host port remoteUser =
     (if host = [] \<or> remoteUser = [] \<or> \<not> valid_port port
      then (Inl (Err ''invalid target fields''), s)
      else update_targets s (\<lambda>t. Target_Name t = name)
             (\<lambda>t. t\<lparr>Target_Host := host, Target_Port := port, Target_RemoteUsername := remoteUser\<rparr>))"

section \<open>Grants and authorization\<close>

text \<open>\<open>INSERT ... ON CONFLICT(principal,target_id) DO UPDATE\<close> and the \<open>DELETE\<close> of one grant.\<close>

definition upsert_grant :: "grant_row \<Rightarrow> grant_row list \<Rightarrow> grant_row list" where
  "upsert_grant g gs =
     (let P = (\<lambda>x. grant_principal x = grant_principal g \<and> grant_target_id x = grant_target_id g)
      in if list_ex P gs then update_where P (\<lambda>_. g) gs else gs @ [g])"

definition delete_grant :: "int \<Rightarrow> int \<Rightarrow> grant_row list \<Rightarrow> grant_row list" where
  "delete_grant princ target gs =
     filter (\<lambda>x. \<not> (grant_principal x = princ \<and> grant_target_id x = target)) gs"

definition SetGrantCapabilities ::
    "db \<Rightarrow> string \<Rightarrow> string \<Rightarrow> string \<Rightarrow> bool \<Rightarrow> bool \<Rightarrow> bool \<Rightarrow> bool \<Rightarrow> bool \<Rightarrow> (db, unit) outcome" where
  "SetGrantCapabilities s target kind princ add shell sftp scp tcpForward =
     (case TargetByName s target of
        Inl e \<Rightarrow> (Inl e, s)
      | Inr t \<Rightarrow>
          let row = (\<lambda>i. \<lparr>grant_principal = i, grant_target_id = Target_ID t, allow_shell = shell,
                         allow_sftp = sftp, allow_scp = scp, allow_tcp_forward = tcpForward\<rparr>);
              upd = (\<lambda>i gs. if add then upsert_grant (row i) gs else delete_grant i (Target_ID t) gs)
          in if kind = ''user''
             then (case UserByName s princ of
                     Inl e \<Rightarrow> (Inl e, s)
                   | Inr u \<Rightarrow> (Inr (), s\<lparr>user_target_grants := upd (User_ID u) (user_target_grants s)\<rparr>))
             else if kind = ''group''
             then (case group_id_by_name s princ of
                     Inl e \<Rightarrow> (Inl e, s)
                   | Inr i \<Rightarrow> (Inr (), s\<lparr>group_target_grants := upd i (group_target_grants s)\<rparr>))
             else (Inl (Err ''principal kind must be user or group''), s))"

definition SetGrant :: "db \<Rightarrow> string \<Rightarrow> string \<Rightarrow> string \<Rightarrow> bool \<Rightarrow> (db, unit) outcome" where
  "SetGrant s target kind princ add =
     SetGrantCapabilities s target kind princ add True True True False"

definition grant_of_row :: "string \<Rightarrow> string \<Rightarrow> string \<Rightarrow> grant_row \<Rightarrow> Grant" where
  "grant_of_row target kind princ x = \<lparr>Grant_Target = target, Grant_Kind = kind,
     Grant_Principal = princ, Grant_Shell = allow_shell x, Grant_SFTP = allow_sftp x,
     Grant_SCP = allow_scp x, Grant_TCPForward = allow_tcp_forward x\<rparr>"

definition ListGrants :: "db \<Rightarrow> Grant list" where
  "ListGrants s =
     sort_key Grant_Target (sort_key Grant_Kind (sort_key Grant_Principal
       ([grant_of_row (Target_Name t) ''user'' (users_username u) x.
           x \<leftarrow> user_target_grants s, u \<leftarrow> users s, users_id u = grant_principal x,
           t \<leftarrow> targets s, Target_ID t = grant_target_id x]
        @ [grant_of_row (Target_Name t) ''group'' (Group_Name g) x.
           x \<leftarrow> group_target_grants s, g \<leftarrow> groups_table s, Group_ID g = grant_principal x,
           t \<leftarrow> targets s, Target_ID t = grant_target_id x])))"

text \<open>The rows of a \<open>LEFT JOIN\<close>: the matching rows, or one row of \<open>NULL\<close>s.\<close>

definition left_join :: "('r \<Rightarrow> bool) \<Rightarrow> 'r list \<Rightarrow> 'r option list" where
  "left_join P rs = (case filter P rs of [] \<Rightarrow> [None] | r # rs' \<Rightarrow> map Some (r # rs'))"

text \<open>
  The query of \<open>ListAuthorizedTargets\<close> for a member: targets joined with the user's grants, the
  group grants and the user's memberships, as the SQL text has it. \<open>on_group\<close> is the join condition
  \<open>gm.group_id=gg.group_id\<close>, which no row satisfies when \<open>gg\<close> is the row of \<open>NULL\<close>s.
\<close>

definition member_target_rows :: "db \<Rightarrow> int \<Rightarrow> Target list" where
  "member_target_rows s uid =
     [t. t \<leftarrow> targets s,
         ug \<leftarrow> left_join (\<lambda>g. grant_target_id g = Target_ID t \<and> grant_principal g = uid)
                 (user_target_grants s),
         gg \<leftarrow> left_join (\<lambda>g. grant_target_id g = Target_ID t) (group_target_grants s),
         gm \<leftarrow> left_join (\<lambda>m. (case gg of None \<Rightarrow> False
                             | Some g \<Rightarrow> member_group_id m = grant_principal g) \<and> member_user_id m = uid)
                 (group_members s),
         Target_Enabled t \<and> (ug \<noteq> None \<or> gm \<noteq> None)]"

definition ListAuthorizedTargets :: "db \<Rightarrow> User \<Rightarrow> Target list" where
  "ListAuthorizedTargets s u =
     (if User_Role u = RoleAdmin then sort_key Target_Name (filter Target_Enabled (targets s))
      else sort_key Target_Name (remdups (member_target_rows s (User_ID u))))"

text \<open>The map from capability names to grant columns in \<open>CanAccessCapability\<close>.\<close>

definition capability_column :: "string \<Rightarrow> (grant_row \<Rightarrow> bool) option" where
  "capability_column capability =
     (if capability = CapabilityShell then Some allow_shell
      else if capability = CapabilitySFTP then Some allow_sftp
      else if capability = CapabilitySCP then Some allow_scp
      else if capability = CapabilityForward then Some allow_tcp_forward
      else None)"

definition CanAccessCapability :: "db \<Rightarrow> User \<Rightarrow> int \<Rightarrow> string \<Rightarrow> bool" where
  "CanAccessCapability s u targetID capability =
     (if \<not> User_Enabled u then False
      else (case capability_column capability of
        None \<Rightarrow> False
      | Some col \<Rightarrow>
          if User_Role u = RoleAdmin
          then count_where (\<lambda>t. Target_ID t = targetID \<and> Target_Enabled t) (targets s) > 0
          else count_where (\<lambda>t. Target_ID t = targetID \<and> Target_Enabled t
                 \<and> (list_ex (\<lambda>g. grant_principal g = User_ID u \<and> grant_target_id g = Target_ID t \<and> col g)
                       (user_target_grants s)
                    \<or> list_ex (\<lambda>m. member_user_id m = User_ID u
                        \<and> list_ex (\<lambda>g. grant_principal g = member_group_id m
                            \<and> grant_target_id g = Target_ID t \<and> col g) (group_target_grants s))
                       (group_members s))) (targets s) > 0))"

definition CanAccess :: "db \<Rightarrow> User \<Rightarrow> int \<Rightarrow> bool" where
  "CanAccess s u targetID = CanAccessCapability s u targetID CapabilityShell"

section \<open>Forwarding rules\<close>

text \<open>\<open>INSERT OR IGNORE\<close>: a destination already on the list is left as it is.\<close>

definition AddForwardRule :: "db \<Rightarrow> string \<Rightarrow> string \<Rightarrow> int \<Rightarrow> (db, unit) outcome" where
  "AddForwardRule s target host port =
     (if TrimSpace host = [] \<or> \<not> valid_port port
      then (Inl (Err ''invalid forwarding destination''), s)
      else (case TargetByName s target of
        Inl e \<Rightarrow> (Inl e, s)
      | Inr t \<Rightarrow>
          let h = ToLower (TrimSpace host)
          in (Inr (), if list_ex (\<lambda>r. rule_target_id r = Target_ID t \<and> rule_host r = h
                                   \<and> rule_port r = port) (target_forward_rules s)
                      then s
                      else s\<lparr>target_forward_rules := target_forward_rules s @
                         [\<lparr>rule_id = next_rowid (map rule_id (target_forward_rules s)),
                           rule_target_id = Target_ID t, rule_host = h, rule_port = port\<rparr>]\<rparr>)))"

definition DeleteForwardRule :: "db \<Rightarrow> int \<Rightarrow> (db, unit) outcome" where
  "DeleteForwardRule s i =
     (changed (count_where (\<lambda>r. rule_id r = i) (target_forward_rules s)),
      s\<lparr>target_forward_rules := filter (\<lambda>r. rule_id r \<noteq> i) (target_forward_rules s)\<rparr>)"

definition ListForwardRules :: "db \<Rightarrow> ForwardRule list" where
  "ListForwardRules s =
     sort_key Rule_Target (sort_key Rule_Host (sort_key Rule_Port
       [\<lparr>Rule_ID = rule_id r, Rule_TargetID = rule_target_id r, Rule_Target = Target_Name t,
         Rule_Host = rule_host r, Rule_Port = rule_port r\<rparr>.
          r \<leftarrow> target_forward_rules s, t \<leftarrow> targets s, Target_ID t = rule_target_id r]))"

text \<open>\<open>COLLATE NOCASE\<close> compares after folding the 26 upper-case letters of ASCII.\<close>

definition nocase_eq :: "string \<Rightarrow> string \<Rightarrow> bool" where
  "nocase_eq a b \<longleftrightarrow> map ascii_lower a = map ascii_lower b"

definition ForwardAllowed :: "db \<Rightarrow> int \<Rightarrow> string \<Rightarrow> int \<Rightarrow> bool" where
  "ForwardAllowed s targetID host port =
     (count_where (\<lambda>r. rule_target_id r = targetID \<and> nocase_eq (rule_host r) (TrimSpace host)
         \<and> rule_port r = port) (target_forward_rules s) > 0)"

lemmas [sql_defs] = SSHIdentityByID_def SSHIdentityByName_def ListSSHIdentities_def
  AddSSHIdentity_def SetSSHIdentitySecret_def identity_uses_def DeleteSSHIdentity_def TargetByID_def
  TargetByName_def ListTargets_def insert_target_def AddTarget_def update_targets_def
  SetTargetEnabled_def delete_target_rows_def DeleteTarget_def SetTargetCredential_def
  SetTargetCredentialKind_def SetTargetIdentity_def SetTargetHostKey_def UpdateTarget_def
  upsert_grant_def delete_grant_def SetGrantCapabilities_def SetGrant_def grant_of_row_def
  ListGrants_def left_join_def member_target_rows_def ListAuthorizedTargets_def
  capability_column_def CanAccessCapability_def CanAccess_def AddForwardRule_def
  DeleteForwardRule_def ListForwardRules_def nocase_eq_def ForwardAllowed_def

section \<open>Lookups\<close>

lemma TargetByName_InrD: "TargetByName s name = Inr t \<Longrightarrow> t \<in> set (targets s) \<and> Target_Name t = name"
  by (auto simp: TargetByName_def dest: find_SomeD split: option.splits)

lemma TargetByID_InrD: "TargetByID s i = Inr t \<Longrightarrow> t \<in> set (targets s) \<and> Target_ID t = i"
  by (auto simp: TargetByID_def dest: find_SomeD split: option.splits)

lemma TargetByName_found:
  "store_ok s \<Longrightarrow> t \<in> set (targets s) \<Longrightarrow> TargetByName s (Target_Name t) = Inr t"
  by (simp add: TargetByName_def store_ok_def ok_targets_def find_uniq)

lemma TargetByID_found:
  "store_ok s \<Longrightarrow> t \<in> set (targets s) \<Longrightarrow> TargetByID s (Target_ID t) = Inr t"
  by (simp add: TargetByID_def store_ok_def ok_targets_def find_rowids)

lemma TargetByName_Inl: "TargetByName s name = Inl e \<longleftrightarrow>
    e = ErrNoRows \<and> name \<notin> Target_Name ` set (targets s)"
  by (auto simp: TargetByName_def find_None_iff dest: find_SomeD split: option.splits)

lemma SSHIdentityByID_InrD:
  "SSHIdentityByID s i = Inr r \<Longrightarrow> r \<in> set (ssh_identities s) \<and> Identity_ID r = i"
  by (auto simp: SSHIdentityByID_def dest: find_SomeD split: option.splits)

lemma SSHIdentityByID_found:
  "store_ok s \<Longrightarrow> r \<in> set (ssh_identities s) \<Longrightarrow> SSHIdentityByID s (Identity_ID r) = Inr r"
  by (simp add: SSHIdentityByID_def store_ok_def ok_identities_def find_rowids)

section \<open>Every operation keeps the schema's constraints\<close>

lemma AddSSHIdentity_ok [store_inv_intros]: "store_ok s \<Longrightarrow> store_ok (snd (AddSSHIdentity s n pk fp))"
  using store_okD(5)[of s] store_okD(6)[of s]
  by (auto simp: AddSSHIdentity_def Let_def ok_identities_def dest!: validateName_ok
      intro!: store_ok_set_identities rowids_snoc uniq_snoc elim: ok_targets_mono split: sum.splits)

lemma SetSSHIdentitySecret_ok [store_inv_intros]:
  assumes "store_ok s"
  shows "store_ok (snd (SetSSHIdentitySecret s i nonce ct))"
  unfolding SetSSHIdentitySecret_def snd_conv
proof (rule store_ok_set_identities[OF assms])
  let ?is = "update_where (\<lambda>r. Identity_ID r = i)
    (\<lambda>r. r\<lparr>Identity_Nonce := nonce, Identity_Ciphertext := ct\<rparr>) (ssh_identities s)"
  show "ok_identities ?is"
    using store_okD(5)[OF assms]
    by (auto simp: ok_identities_def set_update_where intro!: rowids_update uniq_update)
  show "ok_targets ?is (targets s)"
    using store_okD(6)[OF assms] by (rule ok_targets_mono) (simp add: image_update_where)
qed

lemma refs_some_restrict:
  assumes "refs_some f cs g ps" "\<And>c p. c \<in> set cs \<Longrightarrow> p \<in> set ps \<Longrightarrow> \<not> P p \<Longrightarrow> f c \<noteq> Some (g p)"
  shows "refs_some f cs g (filter P ps)"
  using assms by (fastforce simp: refs_some_def)

lemma DeleteSSHIdentity_ok [store_inv_intros]:
  "store_ok s \<Longrightarrow> store_ok (snd (DeleteSSHIdentity s name))"
  using store_okD(5)[of s] store_okD(6)[of s]
  by (auto simp: DeleteSSHIdentity_def Let_def ok_identities_def ok_targets_def list_ex_iff
      intro!: store_ok_set_identities rowids_filter uniq_filter refs_some_restrict)

lemma insert_target_ok:
  assumes "store_ok s" "valid_port (New_Port n)" "validCredentialKind (New_CredentialKind n)"
  shows "store_ok (snd (insert_target s n))"
  using assms store_okD(6)[OF assms(1)]
  by (auto simp: insert_target_def Let_def ok_targets_def
      intro!: store_ok_set_targets rowids_snoc uniq_snoc refs_some_snoc split: option.splits)

lemma AddTarget_ok [store_inv_intros]: "store_ok s \<Longrightarrow> store_ok (snd (AddTarget s n))"
  using insert_target_ok[of s n] by (auto simp: AddTarget_def split: sum.splits prod.splits)

lemma update_targets_ok:
  assumes "store_ok s" "\<And>t. Target_ID (f t) = Target_ID t" "\<And>t. Target_Name (f t) = Target_Name t"
    "\<And>t. valid_port (Target_Port t) \<Longrightarrow> valid_port (Target_Port (f t))"
    "\<And>t. validCredentialKind (Target_CredentialKind t) \<Longrightarrow> validCredentialKind (Target_CredentialKind (f t))"
    "\<And>t i. t \<in> set (targets s) \<Longrightarrow> P t \<Longrightarrow> Target_IdentityID (f t) = Some i \<Longrightarrow>
       Target_IdentityID t = Some i \<or> i \<in> Identity_ID ` set (ssh_identities s)"
  shows "store_ok (snd (update_targets s P f))"
proof -
  let ?ts = "update_where P (\<lambda>t. (f t)\<lparr>Target_UpdatedAt := CURRENT_TIMESTAMP s\<rparr>) (targets s)"
  have ok: "ok_targets (ssh_identities s) (targets s)" by (rule store_okD[OF assms(1)])
  have "rowids Target_ID ?ts" "uniq Target_Name ?ts"
    using ok assms(2,3) by (auto simp: ok_targets_def intro!: rowids_update uniq_update)
  moreover have "refs_some Target_IdentityID ?ts Identity_ID (ssh_identities s)"
    using ok assms(6) by (fastforce simp: ok_targets_def refs_some_def set_update_where)
  ultimately have "ok_targets (ssh_identities s) ?ts"
    using ok assms(4,5) by (auto simp: ok_targets_def set_update_where)
  moreover have "Target_ID ` set ?ts = Target_ID ` set (targets s)"
    using assms(2) by (simp add: image_update_where)
  ultimately show ?thesis
    using assms(1) by (simp add: update_targets_def store_ok_set_targets)
qed

lemma SetTargetEnabled_ok [store_inv_intros]: "store_ok s \<Longrightarrow> store_ok (snd (SetTargetEnabled s n en))"
  by (auto simp: SetTargetEnabled_def intro!: update_targets_ok)

lemma SetTargetCredential_ok [store_inv_intros]:
  "store_ok s \<Longrightarrow> store_ok (snd (SetTargetCredential s i nonce ct))"
  by (auto simp: SetTargetCredential_def intro!: update_targets_ok)

lemma SetTargetCredentialKind_ok [store_inv_intros]:
  "store_ok s \<Longrightarrow> store_ok (snd (SetTargetCredentialKind s i kind nonce ct))"
  by (auto simp: SetTargetCredentialKind_def intro!: update_targets_ok)

lemma SetTargetIdentity_ok [store_inv_intros]: "store_ok s \<Longrightarrow> store_ok (snd (SetTargetIdentity s i j))"
  by (auto simp: SetTargetIdentity_def list_ex_iff validCredentialKind_def intro!: update_targets_ok)

lemma SetTargetHostKey_ok [store_inv_intros]: "store_ok s \<Longrightarrow> store_ok (snd (SetTargetHostKey s n a k))"
  by (auto simp: SetTargetHostKey_def intro!: update_targets_ok)

lemma UpdateTarget_ok [store_inv_intros]: "store_ok s \<Longrightarrow> store_ok (snd (UpdateTarget s n h p u))"
  by (auto simp: UpdateTarget_def intro!: update_targets_ok)

lemma delete_target_rows_ok: "store_ok s \<Longrightarrow> store_ok (delete_target_rows s K)"
proof -
  assume ok: "store_ok s"
  have "ok_audit (users s) (filter (\<lambda>t. Target_ID t \<notin> K) (targets s))
      (update_where (\<lambda>e. \<exists>i\<in>K. Audit_TargetID e = Some i) (\<lambda>e. e\<lparr>Audit_TargetID := None\<rparr>)
        (audit_events s))"
    using store_okD(12)[OF ok]
    by (fastforce simp: ok_audit_def refs_some_def set_update_where intro!: rowids_update)
  then show ?thesis using ok
    by (simp add: store_ok_def delete_target_rows_def)
      (simp add: ok_defs rowids_filter uniq_filter refs_filter refs_some_filter refs_cascade)
qed

lemma DeleteTarget_ok [store_inv_intros]: "store_ok s \<Longrightarrow> store_ok (snd (DeleteTarget s name))"
  by (simp add: DeleteTarget_def Let_def delete_target_rows_ok)

lemma ok_grants_upsert:
  assumes "ok_grants pid ps ts gs" "grant_principal g \<in> pid ` set ps" "grant_target_id g \<in> Target_ID ` set ts"
  shows "ok_grants pid ps ts (upsert_grant g gs)"
proof -
  have key: "map (\<lambda>g. (grant_principal g, grant_target_id g)) (update_where
      (\<lambda>x. grant_principal x = grant_principal g \<and> grant_target_id x = grant_target_id g) (\<lambda>_. g) gs)
      = map (\<lambda>g. (grant_principal g, grant_target_id g)) gs"
    by (simp add: update_where_def)
  show ?thesis
    using assms key
    by (auto simp: ok_grants_def upsert_grant_def Let_def list_ex_iff uniq_def refs_def set_update_where)
qed

lemma ok_grants_delete: "ok_grants pid ps ts gs \<Longrightarrow> ok_grants pid ps ts (delete_grant p t gs)"
  by (simp add: ok_grants_def delete_grant_def uniq_filter refs_filter)

lemma SetGrantCapabilities_ok [store_inv_intros]:
  "store_ok s \<Longrightarrow> store_ok (snd (SetGrantCapabilities s t k p add a b c d))"
  using store_okD(7,8)[of s]
  by (auto simp: SetGrantCapabilities_def Let_def
      dest!: TargetByName_InrD UserByName_InrD group_id_by_name_InrD
      intro!: store_ok_set_leaf ok_grants_upsert ok_grants_delete split: sum.splits)

lemma SetGrant_ok [store_inv_intros]: "store_ok s \<Longrightarrow> store_ok (snd (SetGrant s t k p add))"
  by (simp add: SetGrant_def SetGrantCapabilities_ok)

lemma AddForwardRule_ok [store_inv_intros]: "store_ok s \<Longrightarrow> store_ok (snd (AddForwardRule s t h p))"
  using store_okD(9)[of s]
  by (auto simp: AddForwardRule_def Let_def ok_rules_def list_ex_iff dest!: TargetByName_InrD
      intro!: store_ok_set_leaf rowids_snoc uniq_snoc refs_snoc split: sum.splits) blast

lemma DeleteForwardRule_ok [store_inv_intros]: "store_ok s \<Longrightarrow> store_ok (snd (DeleteForwardRule s i))"
  using store_okD(9)[of s]
  by (auto simp: DeleteForwardRule_def ok_rules_def intro!: store_ok_set_leaf rowids_filter
      uniq_filter refs_filter)

section \<open>Authorization\<close>

text \<open>
  The access policy in plain terms: some grant of the capability reaches the user directly or
  through a group, for the given target.
\<close>

definition granted :: "db \<Rightarrow> int \<Rightarrow> int \<Rightarrow> (grant_row \<Rightarrow> bool) \<Rightarrow> bool" where
  "granted s uid tid col \<longleftrightarrow>
     (\<exists>g\<in>set (user_target_grants s). grant_principal g = uid \<and> grant_target_id g = tid \<and> col g)
     \<or> (\<exists>m\<in>set (group_members s). \<exists>g\<in>set (group_target_grants s).
          member_user_id m = uid \<and> grant_principal g = member_group_id m \<and> grant_target_id g = tid \<and> col g)"

lemma count_where_pos: "0 < count_where P rs \<longleftrightarrow> (\<exists>r\<in>set rs. P r)"
  by (auto simp: count_where_def filter_empty_conv)

lemma count_where_0: "count_where P rs = 0 \<longleftrightarrow> (\<forall>r\<in>set rs. \<not> P r)"
  by (auto simp: count_where_def filter_empty_conv)

lemma CanAccessCapability_iff:
  "CanAccessCapability s u tid cap \<longleftrightarrow>
     User_Enabled u \<and> (\<exists>t\<in>set (targets s). Target_ID t = tid \<and> Target_Enabled t)
     \<and> (\<exists>col. capability_column cap = Some col
          \<and> (User_Role u = RoleAdmin \<or> granted s (User_ID u) tid col))"
  by (auto simp: CanAccessCapability_def count_where_pos granted_def list_ex_iff split: option.splits)

lemma set_left_join: "x \<in> set (left_join P rs) \<longleftrightarrow>
    (case x of None \<Rightarrow> (\<forall>r\<in>set rs. \<not> P r) | Some r \<Rightarrow> r \<in> set rs \<and> P r)"
proof (cases "filter P rs")
  case Nil
  then show ?thesis by (auto simp: left_join_def filter_empty_conv split: option.splits)
next
  case (Cons r rs')
  then have "set (r # rs') = {x \<in> set rs. P x}" by (metis set_filter)
  with Cons show ?thesis by (auto simp: left_join_def split: option.splits)
qed

lemma left_join_ex: "\<exists>x. x \<in> set (left_join P rs)"
  by (auto simp: left_join_def split: list.splits)

end
