(* ===== verification/Store_Access.thy ===== *)
theory Store_Access
  imports Store_Targets Sample_Store
begin

text \<open>
  What the authorization queries of \<^verbatim>\<open>internal/store/store.go\<close> decide, against a policy stated on
  the grants alone, and what granting, revoking and adding forwarding rules change of those decisions.
\<close>

section \<open>The policy\<close>

text \<open>What a grant confers, capability by capability, written down independently of the query's choice of a column.\<close>

definition confers :: "grant_row \<Rightarrow> string \<Rightarrow> bool" where
  "confers g cap \<longleftrightarrow> cap = ''shell'' \<and> allow_shell g \<or> cap = ''sftp'' \<and> allow_sftp g \<or> cap = ''scp'' \<and> allow_scp g
     \<or> cap = ''tcp_forward'' \<and> allow_tcp_forward g"

definition policy :: "db \<Rightarrow> User \<Rightarrow> int \<Rightarrow> string \<Rightarrow> bool" where
  "policy s u tid cap \<longleftrightarrow>
     User_Enabled u \<and> (\<exists>t\<in>set (targets s). Target_ID t = tid \<and> Target_Enabled t)
     \<and> (User_Role u = ''admin'' \<and> cap \<in> {''shell'', ''sftp'', ''scp'', ''tcp_forward''}
        \<or> (\<exists>g\<in>set (user_target_grants s). grant_principal g = User_ID u \<and> grant_target_id g = tid \<and> confers g cap)
        \<or> (\<exists>m\<in>set (group_members s). \<exists>g\<in>set (group_target_grants s).
             member_user_id m = User_ID u \<and> grant_principal g = member_group_id m \<and> grant_target_id g = tid \<and> confers g cap))"

lemma policy_iff: "policy s u tid cap = CanAccessCapability s u tid cap"
  by (auto simp: policy_def confers_def CanAccessCapability_iff granted_def capability_column_def const_defs split: if_splits)

text \<open>
  C3: A capability is allowed exactly when the user is enabled, the target exists and is enabled, the
  capability is one of the four, and the user is an administrator or has the capability on that very
  target by a grant of their own or of a group they belong to.
\<close>

theorem CanAccessCapability_policy: "CanAccessCapability s u tid cap = policy s u tid cap"
  by (rule policy_iff[symmetric])

section \<open>The list of authorized targets\<close>

lemma in_concat_map: "x \<in> set (concat (map f xs)) \<longleftrightarrow> (\<exists>y\<in>set xs. x \<in> set (f y))"
  by auto

lemma in_guard: "x \<in> set (if b then [t] else []) \<longleftrightarrow> b \<and> x = t"
  by auto

lemma in_member_target_rows:
  "t \<in> set (member_target_rows s uid) \<longleftrightarrow> t \<in> set (targets s) \<and>
    (\<exists>ug\<in>set (left_join (\<lambda>g. grant_target_id g = Target_ID t \<and> grant_principal g = uid) (user_target_grants s)).
     \<exists>gg\<in>set (left_join (\<lambda>g. grant_target_id g = Target_ID t) (group_target_grants s)).
     \<exists>gm\<in>set (left_join (\<lambda>m. (case gg of None \<Rightarrow> False
        | Some g \<Rightarrow> member_group_id m = grant_principal g) \<and> member_user_id m = uid) (group_members s)).
      Target_Enabled t \<and> (ug \<noteq> None \<or> gm \<noteq> None))"
  unfolding member_target_rows_def in_concat_map in_guard by blast

lemma set_member_target_rows:
  "set (member_target_rows s uid) =
   {t \<in> set (targets s). Target_Enabled t \<and> granted s uid (Target_ID t) (\<lambda>_. True)}"
proof (intro set_eqI iffI)
  fix t assume "t \<in> set (member_target_rows s uid)"
  then show "t \<in> {t \<in> set (targets s). Target_Enabled t \<and> granted s uid (Target_ID t) (\<lambda>_. True)}"
    by (auto simp: in_member_target_rows set_left_join granted_def split: option.splits)
next
  fix t assume "t \<in> {t \<in> set (targets s). Target_Enabled t \<and> granted s uid (Target_ID t) (\<lambda>_. True)}"
  then have t: "t \<in> set (targets s)" "Target_Enabled t" and g: "granted s uid (Target_ID t) (\<lambda>_. True)" by auto
  let ?U = "left_join (\<lambda>g. grant_target_id g = Target_ID t \<and> grant_principal g = uid) (user_target_grants s)"
  let ?G = "left_join (\<lambda>g. grant_target_id g = Target_ID t) (group_target_grants s)"
  let ?M = "\<lambda>gg. left_join (\<lambda>m. (case gg of None \<Rightarrow> False
      | Some g \<Rightarrow> member_group_id m = grant_principal g) \<and> member_user_id m = uid) (group_members s)"
  have "\<exists>ug\<in>set ?U. \<exists>gg\<in>set ?G. \<exists>gm\<in>set (?M gg). ug \<noteq> None \<or> gm \<noteq> None"
    using g unfolding granted_def
  proof (elim disjE bexE conjE)
    fix x assume "x \<in> set (user_target_grants s)" "grant_principal x = uid" "grant_target_id x = Target_ID t"
    then have "Some x \<in> set ?U" by (simp add: set_left_join)
    moreover obtain gg where "gg \<in> set ?G" using left_join_ex by blast
    moreover obtain gm where "gm \<in> set (?M gg)" using left_join_ex by blast
    ultimately show ?thesis by blast
  next
    fix m x assume "m \<in> set (group_members s)" "x \<in> set (group_target_grants s)" "member_user_id m = uid"
      "grant_principal x = member_group_id m" "grant_target_id x = Target_ID t"
    then have "Some x \<in> set ?G" "Some m \<in> set (?M (Some x))" by (simp_all add: set_left_join)
    moreover obtain ug where "ug \<in> set ?U" using left_join_ex by blast
    ultimately show ?thesis by blast
  qed
  then obtain ug gg gm where "ug \<in> set ?U" "gg \<in> set ?G" "gm \<in> set (?M gg)" "ug \<noteq> None \<or> gm \<noteq> None" by blast
  with t show "t \<in> set (member_target_rows s uid)"
    unfolding in_member_target_rows by blast
qed

lemma granted_mono: "granted s uid tid col \<Longrightarrow> (\<And>g. col g \<Longrightarrow> col' g) \<Longrightarrow> granted s uid tid col'"
  unfolding granted_def by blast

text \<open>
  C8: The list a user is shown holds, sorted by name and without repetition, exactly the enabled
  targets: all of them for an administrator, and for a member those with any grant to the member or one
  of the member's groups. In particular every target the member may open a shell on is listed.
\<close>

theorem ListAuthorizedTargets_exact:
  assumes "store_ok s"
  shows "set (ListAuthorizedTargets s u) = {t \<in> set (targets s). Target_Enabled t
      \<and> (User_Role u = RoleAdmin \<or> granted s (User_ID u) (Target_ID t) (\<lambda>_. True))}
    \<and> sorted_wrt (<) (map Target_Name (ListAuthorizedTargets s u))
    \<and> (\<forall>t\<in>set (targets s). CanAccess s u (Target_ID t) \<longrightarrow> t \<in> set (ListAuthorizedTargets s u))"
proof -
  let ?L = "ListAuthorizedTargets s u"
  have L: "set ?L = {t \<in> set (targets s). Target_Enabled t
      \<and> (User_Role u = RoleAdmin \<or> granted s (User_ID u) (Target_ID t) (\<lambda>_. True))}"
    by (auto simp: ListAuthorizedTargets_def set_member_target_rows)
  have un: "uniq Target_Name (targets s)" "rowids Target_ID (targets s)"
    using store_okD(6)[OF assms] by (simp_all add: ok_targets_def)
  have "distinct (targets s)" using un by (auto simp: uniq_def distinct_map)
  then have "distinct ?L" by (simp add: ListAuthorizedTargets_def)
  moreover have "inj_on Target_Name (set ?L)" using un(1) by (auto simp: L inj_on_def dest: uniq_inj)
  ultimately have "distinct (map Target_Name ?L)" by (simp add: distinct_map)
  moreover have "sorted (map Target_Name ?L)" by (simp add: ListAuthorizedTargets_def)
  ultimately have "sorted_wrt (<) (map Target_Name ?L)" by (simp add: strict_sorted_iff)
  moreover have "t \<in> set ?L" if t: "t \<in> set (targets s)" "CanAccess s u (Target_ID t)" for t
  proof -
    obtain t' where "t' \<in> set (targets s)" "Target_ID t' = Target_ID t" "Target_Enabled t'"
      "User_Role u = RoleAdmin \<or> granted s (User_ID u) (Target_ID t) (\<lambda>_. True)"
      using t(2) granted_mono by (auto simp: CanAccess_def CanAccessCapability_iff)
    moreover have "t' = t" using un(2) t(1) calculation by (blast dest: rowids_inj)
    ultimately show ?thesis by (simp add: L)
  qed
  ultimately show ?thesis using L by blast
qed

definition sample_alice :: User where
  "sample_alice = \<lparr>User_ID = 2, User_Username = ''alice'', User_Role = ''member'', User_Enabled = True,
     User_TOTPEnabled = True, User_CreatedAt = []\<rparr>"

theorem ListAuthorizedTargets_exact_witness:
  "store_ok sample_db \<and> set (ListAuthorizedTargets sample_db sample_alice) = {sample_target}"
proof -
  have "{t \<in> set (targets sample_db). Target_Enabled t
      \<and> (User_Role sample_alice = RoleAdmin \<or> granted sample_db (User_ID sample_alice) (Target_ID t) (\<lambda>_. True))}
    = {sample_target}"
    by (auto simp: sample_db_def sample_target_def sample_alice_def granted_def)
  with ListAuthorizedTargets_exact[OF sample_db_ok, of sample_alice] show ?thesis by simp
qed

section \<open>Granting and revoking\<close>

lemma set_upsert_grant:
  assumes "uniq (\<lambda>g. (grant_principal g, grant_target_id g)) gs"
  shows "set (upsert_grant g gs) = insert g {x \<in> set gs.
    \<not> (grant_principal x = grant_principal g \<and> grant_target_id x = grant_target_id g)}"
  by (auto simp: upsert_grant_def Let_def list_ex_iff set_update_where)

lemma set_delete_grant: "set (delete_grant p t gs) =
    {x \<in> set gs. \<not> (grant_principal x = p \<and> grant_target_id x = t)}"
  by (auto simp: delete_grant_def)

text \<open>What the groups alone give a user.\<close>

definition group_granted :: "db \<Rightarrow> int \<Rightarrow> int \<Rightarrow> (grant_row \<Rightarrow> bool) \<Rightarrow> bool" where
  "group_granted s uid tid col \<longleftrightarrow> (\<exists>m\<in>set (group_members s). \<exists>g\<in>set (group_target_grants s).
      member_user_id m = uid \<and> grant_principal g = member_group_id m \<and> grant_target_id g = tid \<and> col g)"

lemma granted_user_row:
  assumes "store_ok s"
    "s' = s\<lparr>user_target_grants := (if add then upsert_grant g (user_target_grants s)
       else delete_grant (grant_principal g) (grant_target_id g) (user_target_grants s))\<rparr>"
  shows "granted s' uid tid col =
    (if uid = grant_principal g \<and> tid = grant_target_id g
     then add \<and> col g \<or> group_granted s uid tid col else granted s uid tid col)"
proof -
  have un: "uniq (\<lambda>g. (grant_principal g, grant_target_id g)) (user_target_grants s)"
    using store_okD(7)[OF assms(1)] by (simp add: ok_grants_def)
  show ?thesis unfolding assms(2)
    by (auto simp: granted_def group_granted_def set_upsert_grant[OF un] set_delete_grant)
qed

text \<open>
  Setting a user's grant on a target, or removing it, decides that user's capabilities on that
  target (up to what the user's groups give) and changes nothing else: no other user's access, and no
  other target's.
\<close>

theorem SetGrantCapabilities_user:
  assumes "store_ok s" "SetGrantCapabilities s target ''user'' name add sh sf sc fw = (Inr (), s')"
    "TargetByName s target = Inr t" "UserByName s name = Inr u" "capability_column cap = Some col"
  shows "CanAccessCapability s' v tid cap =
    (if User_ID v = User_ID u \<and> tid = Target_ID t \<and> User_Role v \<noteq> RoleAdmin
     then User_Enabled v \<and> Target_Enabled t
        \<and> (add \<and> col \<lparr>grant_principal = User_ID u, grant_target_id = Target_ID t, allow_shell = sh,
             allow_sftp = sf, allow_scp = sc, allow_tcp_forward = fw\<rparr>
           \<or> group_granted s (User_ID u) (Target_ID t) col)
     else CanAccessCapability s v tid cap)"
proof -
  let ?g = "\<lparr>grant_principal = User_ID u, grant_target_id = Target_ID t, allow_shell = sh,
             allow_sftp = sf, allow_scp = sc, allow_tcp_forward = fw\<rparr>"
  have s': "s' = s\<lparr>user_target_grants := (if add then upsert_grant ?g (user_target_grants s)
       else delete_grant (grant_principal ?g) (grant_target_id ?g) (user_target_grants s))\<rparr>"
    using assms(2-4) by (auto simp: SetGrantCapabilities_def Let_def)
  have t: "(\<exists>x\<in>set (targets s). Target_ID x = Target_ID t \<and> Target_Enabled x) = Target_Enabled t"
    using TargetByName_InrD[OF assms(3)] store_okD(6)[OF assms(1)]
    by (auto simp: ok_targets_def dest: rowids_inj)
  have "targets s' = targets s" using s' by simp
  with t granted_user_row[OF assms(1) s'] assms(5) show ?thesis
    by (auto simp: CanAccessCapability_iff)
qed

theorem SetGrantCapabilities_user_witness:
  "CanAccessCapability (snd (SetGrantCapabilities sample_db ''web'' ''user'' ''alice'' True False True False False))
     sample_alice 1 ''sftp''"
proof -
  let ?c = "SetGrantCapabilities sample_db ''web'' ''user'' ''alice'' True False True False False"
  have c: "?c = (Inr (), snd ?c)"
  proof -
    have "fst ?c = Inr ()" by code_simp
    then show ?thesis by (metis prod.collapse)
  qed
  have t: "TargetByName sample_db ''web'' = Inr sample_target" by code_simp
  have u: "UserByName sample_db ''alice'' = Inr sample_alice" by code_simp
  have col: "capability_column ''sftp'' = Some allow_sftp" by (simp add: capability_column_def const_defs)
  show ?thesis
    using SetGrantCapabilities_user[OF sample_db_ok c t u col, of sample_alice 1]
    by (simp add: sample_alice_def sample_target_def RoleAdmin_def)
qed

section \<open>Forwarding rules\<close>

lemma nocase_eq_refl [simp]: "nocase_eq a a"
  by (simp add: nocase_eq_def)

text \<open>
  Adding a forwarding rule allows that destination on that target and no other: afterwards a
  connection is allowed exactly when it was before, or it names the target, the port and (up to the
  case of ASCII letters) the host of the rule.
\<close>

theorem AddForwardRule_exact:
  assumes "AddForwardRule s target host port = (Inr (), s')" "TargetByName s target = Inr t"
  shows "ForwardAllowed s' tid h p = (ForwardAllowed s tid h p
    \<or> tid = Target_ID t \<and> p = port \<and> nocase_eq (ToLower (TrimSpace host)) (TrimSpace h))"
  using assms
  by (auto simp: AddForwardRule_def ForwardAllowed_def count_where_pos list_ex_iff Let_def split: if_splits)

theorem AddForwardRule_exact_witness:
  "ForwardAllowed (snd (AddForwardRule sample_db ''web'' '' DB2.local'' 80)) 1 ''db2.LOCAL'' 80"
proof -
  let ?c = "AddForwardRule sample_db ''web'' '' DB2.local'' 80"
  have "fst ?c = Inr ()" by code_simp
  then have c: "?c = (Inr (), snd ?c)" by (metis prod.collapse)
  have t: "TargetByName sample_db ''web'' = Inr sample_target" by code_simp
  have "nocase_eq (ToLower (TrimSpace '' DB2.local'')) (TrimSpace ''db2.LOCAL'')" by code_simp
  with AddForwardRule_exact[OF c t, of 1 "''db2.LOCAL''" 80] show ?thesis by (simp add: sample_target_def)
qed

end
