(* ===== verification/Store_OIDC.thy ===== *)
theory Store_OIDC
  imports Store_Users Sample_Store
begin

text \<open>
  The operations of \<^verbatim>\<open>internal/store/store.go\<close> that map OIDC identities to users: administrator
  mappings by provider username, self-service links by signed subject, and the login that resolves
  (and, for a pending mapping, binds) an identity inside one transaction.
\<close>

section \<open>Validation\<close>

definition has_control :: "string \<Rightarrow> bool" where
  "has_control v = list_ex (\<lambda>r. r < 0x20 \<or> r = 0x7F) (runes v)"

definition validateOIDCValue :: "string \<Rightarrow> string \<Rightarrow> nat \<Rightarrow> string res" where
  "validateOIDCValue value kind limit =
     (let v = TrimSpace value
      in if v = [] \<or> length v > limit
         then Inl (Err (kind @ '' must contain between 1 and '' @ digits limit @ '' bytes''))
         else if has_control v then Inl (Err (kind @ '' contains control characters''))
         else Inr v)"

definition normalizeOIDCValues ::
    "string \<Rightarrow> string \<Rightarrow> string \<Rightarrow> (string \<times> string \<times> string) res" where
  "normalizeOIDCValues issuer subject providerUsername =
     (case validateOIDCValue issuer ''OIDC issuer'' 2048 of
        Inl e \<Rightarrow> Inl e
      | Inr i \<Rightarrow>
          (case validateOIDCValue subject ''OIDC subject'' 512 of
             Inl e \<Rightarrow> Inl e
           | Inr sub \<Rightarrow>
               (case validateOIDCValue (ToLower providerUsername) ''OIDC username'' 255 of
                  Inl e \<Rightarrow> Inl e
                | Inr p \<Rightarrow> Inr (i, sub, p))))"

section \<open>Mappings\<close>

text \<open>
  \<open>UNIQUE(issuer,subject)\<close> and \<open>UNIQUE(issuer,provider_username)\<close>: whether a row with these values
  would clash with one of \<open>rs\<close>.
\<close>

definition oidc_clash :: "oidc_row list \<Rightarrow> string \<Rightarrow> string option \<Rightarrow> string \<Rightarrow> bool" where
  "oidc_clash rs issuer subject provider =
     list_ex (\<lambda>r. oidc_issuer r = issuer
        \<and> (subject \<noteq> None \<and> oidc_subject r = subject \<or> oidc_provider_username r = provider)) rs"

text \<open>
  \<open>INSERT ... ON CONFLICT(user_id,issuer) DO UPDATE SET subject=..., provider_username=...\<close>: the row
  of that user and issuer is updated when there is one, else a row is added.
\<close>

definition oidc_upsert ::
    "db \<Rightarrow> int \<Rightarrow> string \<Rightarrow> string option \<Rightarrow> string \<Rightarrow> (db, unit) outcome" where
  "oidc_upsert s userID issuer subject provider =
     (let mine = (\<lambda>r. oidc_user_id r = userID \<and> oidc_issuer r = issuer)
      in if oidc_clash (filter (\<lambda>r. \<not> mine r) (oidc_identities s)) issuer subject provider
         then (Inl (ErrConstraint ''UNIQUE''), s)
         else if list_ex mine (oidc_identities s)
         then (Inr (), s\<lparr>oidc_identities := update_where mine
                 (\<lambda>r. r\<lparr>oidc_subject := subject, oidc_provider_username := provider,
                        oidc_updated_at := CURRENT_TIMESTAMP s\<rparr>) (oidc_identities s)\<rparr>)
         else if userID \<notin> users_id ` set (users s) then (Inl (ErrConstraint ''FOREIGN KEY''), s)
         else (Inr (), s\<lparr>oidc_identities := oidc_identities s @
                 [\<lparr>oidc_id = next_rowid (map oidc_id (oidc_identities s)), oidc_user_id = userID,
                   oidc_issuer = issuer, oidc_subject = subject, oidc_provider_username = provider,
                   oidc_created_at = CURRENT_TIMESTAMP s, oidc_updated_at = CURRENT_TIMESTAMP s\<rparr>]\<rparr>))"

definition SetOIDCUsernameMapping :: "db \<Rightarrow> int \<Rightarrow> string \<Rightarrow> string \<Rightarrow> (db, unit) outcome" where
  "SetOIDCUsernameMapping s userID issuer0 providerUsername0 =
     (case validateOIDCValue issuer0 ''OIDC issuer'' 2048 of
        Inl e \<Rightarrow> (Inl e, s)
      | Inr issuer \<Rightarrow>
          (case validateOIDCValue (ToLower providerUsername0) ''OIDC username'' 255 of
             Inl e \<Rightarrow> (Inl e, s)
           | Inr providerUsername \<Rightarrow>
               (case UserByID s userID of
                  Inl e \<Rightarrow> (Inl e, s)
                | Inr _ \<Rightarrow> oidc_upsert s userID issuer None providerUsername)))"

text \<open>
  \<open>LinkOIDCIdentity\<close> runs in a transaction: the owners of the subject or the provider username are
  read first, and another user among them ends it without a change.
\<close>

definition oidc_owners :: "db \<Rightarrow> string \<Rightarrow> string \<Rightarrow> string \<Rightarrow> int list" where
  "oidc_owners s issuer subject provider = remdups (map oidc_user_id
     (filter (\<lambda>r. oidc_issuer r = issuer
        \<and> (oidc_subject r = Some subject \<or> oidc_provider_username r = provider)) (oidc_identities s)))"

definition LinkOIDCIdentity :: "db \<Rightarrow> int \<Rightarrow> string \<Rightarrow> string \<Rightarrow> string \<Rightarrow> (db, unit) outcome" where
  "LinkOIDCIdentity s userID issuer0 subject0 providerUsername0 =
     (case normalizeOIDCValues issuer0 subject0 providerUsername0 of
        Inl e \<Rightarrow> (Inl e, s)
      | Inr (issuer, subject, provider) \<Rightarrow>
          (case UserByID s userID of
             Inl e \<Rightarrow> (Inl e, s)
           | Inr _ \<Rightarrow>
               if list_ex (\<lambda>own. own \<noteq> userID) (oidc_owners s issuer subject provider)
               then (Inl (Err ''OIDC identity is already mapped to another user''), s)
               else oidc_upsert s userID issuer (Some subject) provider))"

section \<open>Login\<close>

text \<open>
  The first half of \<open>AuthenticateOIDC\<close>: find the row of the subject and record the provider's
  current username, or else bind the pending row of that username to the subject. \<open>None\<close> stands for
  every failure of this half, which the code reports with one message.
\<close>

definition oidc_resolve :: "db \<Rightarrow> string \<Rightarrow> string \<Rightarrow> string \<Rightarrow> (int \<times> db) option" where
  "oidc_resolve s issuer subject provider =
     (case find (\<lambda>r. oidc_issuer r = issuer \<and> oidc_subject r = Some subject) (oidc_identities s) of
        Some r0 \<Rightarrow>
          let mine = (\<lambda>r. oidc_user_id r = oidc_user_id r0 \<and> oidc_issuer r = issuer)
          in if list_ex (\<lambda>r. \<not> mine r \<and> oidc_issuer r = issuer \<and> oidc_provider_username r = provider)
                  (oidc_identities s)
             then None
             else Some (oidc_user_id r0, s\<lparr>oidc_identities := update_where mine
                    (\<lambda>r. r\<lparr>oidc_provider_username := provider, oidc_updated_at := CURRENT_TIMESTAMP s\<rparr>)
                    (oidc_identities s)\<rparr>)
      | None \<Rightarrow>
          (case find (\<lambda>r. oidc_issuer r = issuer \<and> oidc_provider_username r = provider
                        \<and> oidc_subject r = None) (oidc_identities s) of
             None \<Rightarrow> None
           | Some r0 \<Rightarrow>
               Some (oidc_user_id r0, s\<lparr>oidc_identities := update_where
                    (\<lambda>r. oidc_user_id r = oidc_user_id r0 \<and> oidc_issuer r = issuer \<and> oidc_subject r = None)
                    (\<lambda>r. r\<lparr>oidc_subject := Some subject, oidc_updated_at := CURRENT_TIMESTAMP s\<rparr>)
                    (oidc_identities s)\<rparr>)))"

text \<open>
  The whole login. Every error path leaves the transaction uncommitted, so the store is unchanged.
\<close>

definition AuthenticateOIDC ::
    "db \<Rightarrow> string \<Rightarrow> string \<Rightarrow> string \<Rightarrow> string \<Rightarrow> (db, User) outcome" where
  "AuthenticateOIDC s claimedUsername0 issuer0 subject0 providerUsername0 =
     (case normalizeOIDCValues issuer0 subject0 providerUsername0 of
        Inl e \<Rightarrow> (Inl e, s)
      | Inr (issuer, subject, provider) \<Rightarrow>
          let claimedUsername = ToLower (TrimSpace claimedUsername0)
          in (case oidc_resolve s issuer subject provider of
                None \<Rightarrow> (Inl (Err ''OIDC identity is not mapped''), s)
              | Some (userID, s') \<Rightarrow>
                  (case UserByID s' userID of
                     Inl e \<Rightarrow> (Inl (Err ''OIDC identity is not mapped to the claimed SSH user''), s)
                   | Inr u \<Rightarrow>
                       if \<not> User_Enabled u \<or> User_Username u \<noteq> claimedUsername
                       then (Inl (Err ''OIDC identity is not mapped to the claimed SSH user''), s)
                       else (Inr u, s'))))"

definition scanOIDCIdentity :: "oidc_row \<Rightarrow> user_row \<Rightarrow> OIDCIdentity" where
  "scanOIDCIdentity r u = \<lparr>OIDC_ID = oidc_id r, OIDC_UserID = oidc_user_id r,
     OIDC_Username = users_username u, OIDC_Issuer = oidc_issuer r,
     OIDC_Subject = (case oidc_subject r of None \<Rightarrow> [] | Some sub \<Rightarrow> sub),
     OIDC_ProviderUsername = oidc_provider_username r, OIDC_CreatedAt = oidc_created_at r,
     OIDC_UpdatedAt = oidc_updated_at r\<rparr>"

definition OIDCIdentityForUser :: "db \<Rightarrow> int \<Rightarrow> string \<Rightarrow> OIDCIdentity res" where
  "OIDCIdentityForUser s userID issuer =
     (case [scanOIDCIdentity r u. r \<leftarrow> oidc_identities s, u \<leftarrow> users s,
              users_id u = oidc_user_id r \<and> oidc_user_id r = userID \<and> oidc_issuer r = issuer] of
        [] \<Rightarrow> Inl ErrNoRows
      | i # _ \<Rightarrow> Inr i)"

definition ListOIDCIdentities :: "db \<Rightarrow> string \<Rightarrow> OIDCIdentity list" where
  "ListOIDCIdentities s issuer =
     sort_key OIDC_Username [scanOIDCIdentity r u. r \<leftarrow> oidc_identities s, u \<leftarrow> users s,
        users_id u = oidc_user_id r \<and> oidc_issuer r = issuer]"

definition RemoveOIDCIdentity :: "db \<Rightarrow> int \<Rightarrow> string \<Rightarrow> (db, unit) outcome" where
  "RemoveOIDCIdentity s userID issuer =
     (let P = (\<lambda>r. oidc_user_id r = userID \<and> oidc_issuer r = issuer)
      in (if count_where P (oidc_identities s) \<noteq> 1 then Inl ErrNoRows else Inr (),
          s\<lparr>oidc_identities := filter (\<lambda>r. \<not> P r) (oidc_identities s)\<rparr>))"

lemmas [sql_defs] = has_control_def validateOIDCValue_def normalizeOIDCValues_def oidc_clash_def
  oidc_upsert_def SetOIDCUsernameMapping_def oidc_owners_def LinkOIDCIdentity_def oidc_resolve_def
  AuthenticateOIDC_def scanOIDCIdentity_def OIDCIdentityForUser_def ListOIDCIdentities_def
  RemoveOIDCIdentity_def

section \<open>Every operation keeps the schema's constraints\<close>

text \<open>
  Changing the one row that satisfies a condition keeps a \<open>UNIQUE\<close> constraint when its new value
  is not that of another row.
\<close>

lemma uniq_some_update:
  assumes "uniq_some k rs"
    and "\<And>r r'. r \<in> set rs \<Longrightarrow> P r \<Longrightarrow> r' \<in> set rs \<Longrightarrow> \<not> P r' \<Longrightarrow> k (f r) \<noteq> None \<Longrightarrow> k r' \<noteq> k (f r)"
    and "uniq j rs" "\<And>r. P r \<Longrightarrow> j r = c"
  shows "uniq_some k (update_where P f rs)"
  using assms
proof (induction rs)
  case (Cons r rs)
  have IH: "uniq_some k (update_where P f rs)"
    by (rule Cons.IH) (use Cons.prems in \<open>simp_all add: uniq_some_Cons uniq_def\<close>)
  have hd: "k r \<notin> k ` set rs" if "k r \<noteq> None"
    using Cons.prems(1) that by (simp add: uniq_some_Cons)
  show ?case
  proof (cases "P r")
    case True
    have none: "\<not> P r'" if "r' \<in> set rs" for r'
      using Cons.prems(3) Cons.prems(4)[OF True] Cons.prems(4)[of r'] that
      by (metis uniq_def distinct.simps(2) image_eqI list.set_map list.simps(9))
    then have "update_where P f rs = rs" by (rule update_where_none)
    moreover have "k (f r) \<notin> k ` set rs" if "k (f r) \<noteq> None"
      using Cons.prems(2)[of r] True none that by fastforce
    ultimately show ?thesis using True IH by (simp add: uniq_some_Cons)
  next
    case False
    have "k r \<noteq> k (f r')" if "r' \<in> set rs" "P r'" "k r \<noteq> None" for r'
      using Cons.prems(2)[of r' r] False that by fastforce
    with hd False IH show ?thesis by (auto simp: uniq_some_Cons set_update_where)
  qed
qed simp

lemma uniq_as_some: "uniq k rs \<longleftrightarrow> uniq_some (\<lambda>r. Some (k r)) rs"
  by (induction rs) (auto simp: uniq_def uniq_some_def image_iff)

lemma uniq_change:
  assumes "uniq k rs"
    and "\<And>r r'. r \<in> set rs \<Longrightarrow> P r \<Longrightarrow> r' \<in> set rs \<Longrightarrow> \<not> P r' \<Longrightarrow> k r' \<noteq> k (f r)"
    and "uniq j rs" "\<And>r. P r \<Longrightarrow> j r = c"
  shows "uniq k (update_where P f rs)"
  unfolding uniq_as_some by (rule uniq_some_update[where j = j and c = c]) (use assms in \<open>auto simp: uniq_as_some\<close>)

text \<open>The three shapes of change of \<open>oidc_identities\<close>.\<close>

lemma ok_oidc_snoc:
  assumes "ok_oidc us os" "oidc_id r = next_rowid (map oidc_id os)" "oidc_user_id r \<in> users_id ` set us"
    "(oidc_user_id r, oidc_issuer r) \<notin> (\<lambda>r. (oidc_user_id r, oidc_issuer r)) ` set os"
    "\<not> oidc_clash os (oidc_issuer r) (oidc_subject r) (oidc_provider_username r)"
  shows "ok_oidc us (os @ [r])"
  using assms
  by (auto simp: ok_oidc_def oidc_clash_def list_ex_iff oidc_subject_key_def eq_commute[of "Some _"] intro!: rowids_snoc uniq_snoc
      uniq_some_snoc refs_snoc)

lemma ok_oidc_update:
  assumes ok: "ok_oidc us os"
    and f: "\<And>r. oidc_id (f r) = oidc_id r" "\<And>r. oidc_user_id (f r) = oidc_user_id r"
      "\<And>r. oidc_issuer (f r) = oidc_issuer r"
    and P: "\<And>r. P r \<Longrightarrow> oidc_user_id r = uid \<and> oidc_issuer r = issuer"
    and clash: "\<And>r r'. r \<in> set os \<Longrightarrow> P r \<Longrightarrow> r' \<in> set os \<Longrightarrow> \<not> P r' \<Longrightarrow> oidc_issuer r' = issuer \<Longrightarrow>
      oidc_provider_username r' \<noteq> oidc_provider_username (f r)
      \<and> (oidc_subject (f r) \<noteq> None \<longrightarrow> oidc_subject r' \<noteq> oidc_subject (f r))"
  shows "ok_oidc us (update_where P f os)"
proof -
  let ?j = "\<lambda>r. (oidc_user_id r, oidc_issuer r)"
  have "uniq ?j os" using ok by (simp add: ok_oidc_def)
  moreover have "uniq_some oidc_subject_key (update_where P f os)"
    by (rule uniq_some_update[where j = ?j and c = "(uid, issuer)"])
      (use ok f P clash in \<open>fastforce simp: ok_oidc_def oidc_subject_key_def\<close>)+
  moreover have "uniq (\<lambda>r. (oidc_issuer r, oidc_provider_username r)) (update_where P f os)"
    by (rule uniq_change[where j = ?j and c = "(uid, issuer)"]) (use ok f P clash in \<open>fastforce simp: ok_oidc_def\<close>)+
  ultimately show ?thesis
    using ok f by (auto simp: ok_oidc_def intro!: rowids_update uniq_update refs_update)
qed

lemma ok_oidc_subject:
  assumes "ok_oidc us os" "r \<in> set os" "r' \<in> set os" "oidc_issuer r' = oidc_issuer r"
    "oidc_subject r' = oidc_subject r" "oidc_subject r \<noteq> None"
  shows "r' = r"
  using assms uniq_some_inj[of oidc_subject_key os r' r] by (auto simp: ok_oidc_def oidc_subject_key_def)

lemma ok_oidc_filter: "ok_oidc us os \<Longrightarrow> ok_oidc us (filter P os)"
  by (auto simp: ok_oidc_def intro: rowids_filter uniq_filter uniq_some_filter refs_filter)

lemma oidc_upsert_ok:
  assumes "store_ok s" shows "store_ok (snd (oidc_upsert s uid issuer subject provider))"
proof -
  let ?mine = "\<lambda>r. oidc_user_id r = uid \<and> oidc_issuer r = issuer"
  note ok = store_okD(10)[OF assms]
  have "ok_oidc (users s) (update_where ?mine
          (\<lambda>r. r\<lparr>oidc_subject := subject, oidc_provider_username := provider,
                 oidc_updated_at := CURRENT_TIMESTAMP s\<rparr>) (oidc_identities s))"
    if "\<not> oidc_clash (filter (\<lambda>r. \<not> ?mine r) (oidc_identities s)) issuer subject provider"
    by (rule ok_oidc_update[OF ok, of _ _ uid issuer])
      (use that in \<open>auto simp: oidc_clash_def list_ex_iff\<close>)
  moreover have "filter (\<lambda>r. \<not> ?mine r) (oidc_identities s) = oidc_identities s"
    if "\<not> list_ex ?mine (oidc_identities s)"
    using that by (auto simp: list_ex_iff filter_id_conv)
  ultimately show ?thesis
    using assms
    by (auto simp: oidc_upsert_def Let_def list_ex_iff intro!: store_ok_set_leaf ok_oidc_snoc[OF ok])
qed

lemma SetOIDCUsernameMapping_ok [store_inv_intros]:
  "store_ok s \<Longrightarrow> store_ok (snd (SetOIDCUsernameMapping s uid issuer provider))"
  by (auto simp: SetOIDCUsernameMapping_def intro: oidc_upsert_ok split: sum.splits)

lemma LinkOIDCIdentity_ok [store_inv_intros]:
  "store_ok s \<Longrightarrow> store_ok (snd (LinkOIDCIdentity s uid issuer subject provider))"
  by (auto simp: LinkOIDCIdentity_def intro: oidc_upsert_ok split: sum.splits)

lemma oidc_resolve_ok:
  assumes "store_ok s" "oidc_resolve s issuer subject provider = Some (uid, s')"
  shows "store_ok s'"
proof (cases "find (\<lambda>r. oidc_issuer r = issuer \<and> oidc_subject r = Some subject) (oidc_identities s)")
  case (Some r0)
  note ok = store_okD(10)[OF assms(1)]
  let ?mine = "\<lambda>r. oidc_user_id r = oidc_user_id r0 \<and> oidc_issuer r = issuer"
  have "ok_oidc (users s) (update_where ?mine
      (\<lambda>r. r\<lparr>oidc_provider_username := provider, oidc_updated_at := CURRENT_TIMESTAMP s\<rparr>) (oidc_identities s))"
    if free: "\<not> list_ex (\<lambda>r. \<not> ?mine r \<and> oidc_issuer r = issuer \<and> oidc_provider_username r = provider)
          (oidc_identities s)"
  proof (rule ok_oidc_update[OF ok, of _ _ "oidc_user_id r0" issuer])
    fix r r' assume r: "r \<in> set (oidc_identities s)" "?mine r" "r' \<in> set (oidc_identities s)"
      "\<not> ?mine r'" "oidc_issuer r' = issuer"
    have "oidc_subject r \<noteq> None \<longrightarrow> oidc_subject r' \<noteq> oidc_subject r"
      using r ok_oidc_subject[OF ok, of r r'] by metis
    moreover have "oidc_provider_username r' \<noteq> provider"
      using r free by (auto simp: list_ex_iff)
    ultimately show "oidc_provider_username r' \<noteq>
        oidc_provider_username (r\<lparr>oidc_provider_username := provider, oidc_updated_at := CURRENT_TIMESTAMP s\<rparr>) \<and>
        (oidc_subject (r\<lparr>oidc_provider_username := provider, oidc_updated_at := CURRENT_TIMESTAMP s\<rparr>) \<noteq> None \<longrightarrow>
         oidc_subject r' \<noteq>
           oidc_subject (r\<lparr>oidc_provider_username := provider, oidc_updated_at := CURRENT_TIMESTAMP s\<rparr>))"
      by simp
  qed auto
  then show ?thesis
    using assms Some by (auto simp: oidc_resolve_def Let_def intro!: store_ok_set_leaf split: if_splits)
next
  case None
  note ok = store_okD(10)[OF assms(1)]
  have "ok_oidc (users s) (update_where
      (\<lambda>r. oidc_user_id r = u \<and> oidc_issuer r = issuer \<and> oidc_subject r = None)
      (\<lambda>r. r\<lparr>oidc_subject := Some subject, oidc_updated_at := CURRENT_TIMESTAMP s\<rparr>) (oidc_identities s))" for u
    by (rule ok_oidc_update[OF ok, of _ _ u issuer])
      (use None ok in \<open>auto simp: find_None_iff ok_oidc_def dest: uniq_inj\<close>)
  then show ?thesis
    using assms None by (auto simp: oidc_resolve_def intro!: store_ok_set_leaf split: option.splits)
qed

lemma AuthenticateOIDC_ok [store_inv_intros]:
  "store_ok s \<Longrightarrow> store_ok (snd (AuthenticateOIDC s claimed issuer subject provider))"
  by (auto simp: AuthenticateOIDC_def Let_def dest: oidc_resolve_ok split: sum.splits option.splits)

lemma RemoveOIDCIdentity_ok [store_inv_intros]:
  "store_ok s \<Longrightarrow> store_ok (snd (RemoveOIDCIdentity s uid issuer))"
  by (auto simp: RemoveOIDCIdentity_def Let_def intro!: store_ok_set_leaf ok_oidc_filter dest: store_okD(10))

section \<open>What a login does\<close>

text \<open>
  A successful first half: the row found, and the row of the same user and issuer afterwards, which
  carries both the subject and the provider username of the login.
\<close>

lemma oidc_resolve_cases:
  assumes ok: "store_ok s" and res: "oidc_resolve s issuer subject provider = Some (uid, s')"
  obtains r r' where "r \<in> set (oidc_identities s)" "oidc_user_id r = uid" "oidc_issuer r = issuer"
    "oidc_subject r = Some subject \<or> oidc_subject r = None \<and> oidc_provider_username r = provider"
    "r' \<in> set (oidc_identities s')" "oidc_user_id r' = uid" "oidc_issuer r' = issuer"
    "oidc_subject r' = Some subject" "oidc_provider_username r' = provider"
proof (cases "find (\<lambda>r. oidc_issuer r = issuer \<and> oidc_subject r = Some subject) (oidc_identities s)")
  case (Some r0)
  then have "r0 \<in> set (oidc_identities s) \<and> oidc_issuer r0 = issuer \<and> oidc_subject r0 = Some subject"
    using find_SomeD by fastforce
  with Some res show thesis
    by (intro that[of r0 "r0\<lparr>oidc_provider_username := provider, oidc_updated_at := CURRENT_TIMESTAMP s\<rparr>"])
      (auto simp: oidc_resolve_def Let_def set_update_where image_iff split: if_splits)
next
  case None
  with res obtain r0 where "find (\<lambda>r. oidc_issuer r = issuer \<and> oidc_provider_username r = provider
      \<and> oidc_subject r = None) (oidc_identities s) = Some r0"
    by (auto simp: oidc_resolve_def split: option.splits)
  moreover from this have "r0 \<in> set (oidc_identities s) \<and> oidc_issuer r0 = issuer
      \<and> oidc_provider_username r0 = provider \<and> oidc_subject r0 = None"
    using find_SomeD by fastforce
  ultimately show thesis using None res
    by (intro that[of r0 "r0\<lparr>oidc_subject := Some subject, oidc_updated_at := CURRENT_TIMESTAMP s\<rparr>"])
      (auto simp: oidc_resolve_def set_update_where image_iff)
qed

lemma oidc_resolve_frame:
  assumes "oidc_resolve s issuer subject provider = Some (uid, s')"
  shows "users s' = users s" "user_totp s' = user_totp s"
  using assms by (auto simp: oidc_resolve_def Let_def split: option.splits if_splits)

lemma normalizeOIDCValues_ok:
  "normalizeOIDCValues i sub p = Inr (i', sub', p') \<Longrightarrow>
   i' = TrimSpace i \<and> sub' = TrimSpace sub \<and> p' = TrimSpace (ToLower p)"
  by (auto simp: normalizeOIDCValues_def validateOIDCValue_def Let_def split: sum.splits if_splits)

lemma AuthenticateOIDC_SomeD:
  assumes "AuthenticateOIDC s claimed i sub p = (Inr u, s')"
  shows "oidc_resolve s (TrimSpace i) (TrimSpace sub) (TrimSpace (ToLower p)) = Some (User_ID u, s')"
    and "UserByID s (User_ID u) = Inr u" "User_Enabled u" "User_Username u = ToLower (TrimSpace claimed)"
proof -
  obtain n where n: "normalizeOIDCValues i sub p = Inr n"
    using assms by (cases "normalizeOIDCValues i sub p") (auto simp: AuthenticateOIDC_def)
  then obtain uid where r: "oidc_resolve s (TrimSpace i) (TrimSpace sub) (TrimSpace (ToLower p)) = Some (uid, s')"
    and u: "UserByID s' uid = Inr u" "User_Enabled u" "User_Username u = ToLower (TrimSpace claimed)"
    using assms normalizeOIDCValues_ok[of i sub p]
    by (cases n) (auto simp: AuthenticateOIDC_def Let_def split: option.splits sum.splits if_splits)
  have "UserByID s uid = Inr u"
    using u(1) oidc_resolve_frame[OF r] by (auto simp: UserByID_def scanUser_def split: option.splits)
  moreover from this have "User_ID u = uid"
    by (auto simp: UserByID_def scanUser_def split: option.splits dest: find_SomeD)
  ultimately show "oidc_resolve s (TrimSpace i) (TrimSpace sub) (TrimSpace (ToLower p)) = Some (User_ID u, s')"
    "UserByID s (User_ID u) = Inr u" "User_Enabled u" "User_Username u = ToLower (TrimSpace claimed)"
    using r u by auto
qed

text \<open>
  C5: A login by OIDC that succeeds is one of the enabled user whose name the SSH client claimed, and
  that user had a mapping for the issuer which either carries the signed subject or is still pending
  for the signed username; afterwards the user's mapping is bound to the subject.
\<close>

theorem AuthenticateOIDC_sound:
  assumes "store_ok s" "AuthenticateOIDC s claimed i sub p = (Inr u, s')"
  shows "UserByID s (User_ID u) = Inr u \<and> User_Enabled u \<and> User_Username u = ToLower (TrimSpace claimed)
    \<and> (\<exists>r\<in>set (oidc_identities s). oidc_user_id r = User_ID u \<and> oidc_issuer r = TrimSpace i
        \<and> (oidc_subject r = Some (TrimSpace sub)
           \<or> oidc_subject r = None \<and> oidc_provider_username r = TrimSpace (ToLower p)))
    \<and> (\<exists>r\<in>set (oidc_identities s'). oidc_user_id r = User_ID u \<and> oidc_issuer r = TrimSpace i
        \<and> oidc_subject r = Some (TrimSpace sub))"
  using AuthenticateOIDC_SomeD[OF assms(2)] oidc_resolve_cases[OF assms(1) AuthenticateOIDC_SomeD(1)[OF assms(2)]]
  by metis

theorem AuthenticateOIDC_sound_witness:
  "\<exists>u s'. AuthenticateOIDC sample_db ''Alice '' ''https://idp'' ''sub1'' ''ALICE'' = (Inr u, s')
     \<and> User_Enabled u \<and> User_Username u = ''alice''"
proof -
  let ?c = "AuthenticateOIDC sample_db ''Alice '' ''https://idp'' ''sub1'' ''ALICE''"
  have "is_ok (fst ?c)" by code_simp
  then obtain u where "?c = (Inr u, snd ?c)" by (metis is_ok_iff prod.collapse)
  moreover have "ToLower (TrimSpace ''Alice '') = ''alice''" by code_simp
  ultimately show ?thesis
    using AuthenticateOIDC_sound[OF sample_db_ok, of "''Alice ''" "''https://idp''" "''sub1''" "''ALICE''" u "snd ?c"]
    by metis
qed

text \<open>
  A failed OIDC login, for whatever reason, leaves the database exactly as it was: a pending
  mapping is not consumed and no username is recorded (the transaction is rolled back).
\<close>

theorem AuthenticateOIDC_atomic:
  assumes "AuthenticateOIDC s claimed i sub p = (Inl e, s')"
  shows "s' = s"
  using assms by (auto simp: AuthenticateOIDC_def Let_def split: sum.splits option.splits if_splits)

theorem AuthenticateOIDC_atomic_witness:
  "\<exists>e. AuthenticateOIDC sample_db ''root'' ''https://idp'' ''sub1'' ''alice'' = (Inl e, sample_db)"
proof -
  let ?c = "AuthenticateOIDC sample_db ''root'' ''https://idp'' ''sub1'' ''alice''"
  have "\<not> is_ok (fst ?c)" by code_simp
  then obtain e where "?c = (Inl e, snd ?c)" by (cases "fst ?c") (auto simp: prod_eq_iff)
  with AuthenticateOIDC_atomic[OF this] show ?thesis by metis
qed

text \<open>
  Once a login has succeeded with a provider username, that username is worthless to every other
  subject of the issuer: a later login with the same username and another subject is refused, also
  when that subject has a mapping of its own. A pending mapping can thus be claimed only once.
\<close>

theorem AuthenticateOIDC_username_claimed_once:
  assumes ok: "store_ok s" and first: "AuthenticateOIDC s claimed i sub p = (Inr u, s')"
    and other: "TrimSpace sub' \<noteq> TrimSpace sub"
  shows "\<not> is_ok (fst (AuthenticateOIDC s' claimed' i sub' p))"
proof
  assume "is_ok (fst (AuthenticateOIDC s' claimed' i sub' p))"
  then obtain u' s'' where snd': "AuthenticateOIDC s' claimed' i sub' p = (Inr u', s'')"
    by (metis is_ok_iff prod.collapse)
  note res = AuthenticateOIDC_SomeD(1)[OF first] AuthenticateOIDC_SomeD(1)[OF snd']
  obtain r where r: "r \<in> set (oidc_identities s')" "oidc_issuer r = TrimSpace i"
    "oidc_subject r = Some (TrimSpace sub)" "oidc_provider_username r = TrimSpace (ToLower p)"
    using oidc_resolve_cases[OF ok res(1)] by metis
  have ok': "ok_oidc (users s') (oidc_identities s')"
    using oidc_resolve_ok[OF ok res(1)] by (rule store_okD)
  have own: "x = r" if "x \<in> set (oidc_identities s')" "oidc_issuer x = oidc_issuer r"
      "oidc_user_id x = oidc_user_id r \<or> oidc_provider_username x = oidc_provider_username r" for x
    using ok' that r(1) by (auto simp: ok_oidc_def dest: uniq_inj)
  show False
  proof (cases "find (\<lambda>r. oidc_issuer r = TrimSpace i \<and> oidc_subject r = Some (TrimSpace sub')) (oidc_identities s')")
    case (Some r0)
    from find_SomeD[OF this] own[of r0] r other have "oidc_user_id r \<noteq> oidc_user_id r0" by fastforce
    with Some res(2) r show False by (auto simp: oidc_resolve_def list_ex_iff split: if_splits)
  next
    case None
    have "find (\<lambda>x. oidc_issuer x = TrimSpace i \<and> oidc_provider_username x = TrimSpace (ToLower p)
        \<and> oidc_subject x = None) (oidc_identities s') = None"
      unfolding find_None_iff using own r by (metis option.distinct(1))
    with None res(2) show False by (simp add: oidc_resolve_def)
  qed
qed

theorem AuthenticateOIDC_username_claimed_once_witness:
  "\<not> is_ok (fst (AuthenticateOIDC
      (snd (AuthenticateOIDC sample_db ''alice'' ''https://idp'' ''sub1'' ''alice''))
      ''alice'' ''https://idp'' ''sub2'' ''alice''))"
proof -
  let ?c = "AuthenticateOIDC sample_db ''alice'' ''https://idp'' ''sub1'' ''alice''"
  have "is_ok (fst ?c)" by code_simp
  then obtain u where "?c = (Inr u, snd ?c)" by (metis is_ok_iff prod.collapse)
  moreover have "TrimSpace ''sub2'' \<noteq> TrimSpace ''sub1''" by code_simp
  ultimately show ?thesis
    by (rule AuthenticateOIDC_username_claimed_once[OF sample_db_ok])
qed

text \<open>A login changes no mapping that already carries a subject, its provider username apart.\<close>

lemma AuthenticateOIDC_keeps_subjects:
  assumes "r \<in> set (oidc_identities s)" "oidc_subject r = Some x"
  obtains r' where "r' \<in> set (oidc_identities (snd (AuthenticateOIDC s c i sub p)))"
    "oidc_user_id r' = oidc_user_id r" "oidc_issuer r' = oidc_issuer r" "oidc_subject r' = Some x"
proof -
  have upd: "\<exists>r'\<in>set (update_where P f (oidc_identities s)). oidc_user_id r' = oidc_user_id r
      \<and> oidc_issuer r' = oidc_issuer r \<and> oidc_subject r' = Some x"
    if "\<And>r. oidc_user_id (f r) = oidc_user_id r" "\<And>r. oidc_issuer (f r) = oidc_issuer r"
      "P r \<Longrightarrow> oidc_subject (f r) = oidc_subject r" for P f
    using assms that by (intro bexI[of _ "if P r then f r else r"]) (auto simp: update_where_def)
  have "\<exists>r'\<in>set (oidc_identities (snd (AuthenticateOIDC s c i sub p))). oidc_user_id r' = oidc_user_id r
      \<and> oidc_issuer r' = oidc_issuer r \<and> oidc_subject r' = Some x"
    using assms
    by (auto simp: AuthenticateOIDC_def oidc_resolve_def Let_def split: sum.splits option.splits if_splits
        intro!: upd)
  then show thesis using that by blast
qed

definition oidc_logins :: "db \<Rightarrow> (string \<times> string \<times> string \<times> string) list \<Rightarrow> db" where
  "oidc_logins s reqs = foldl (\<lambda>s (c, i, sub, p). snd (AuthenticateOIDC s c i sub p)) s reqs"

lemma oidc_logins_keep:
  assumes "store_ok s" "r \<in> set (oidc_identities s)" "oidc_subject r = Some x"
  shows "store_ok (oidc_logins s reqs) \<and> (\<exists>r'\<in>set (oidc_identities (oidc_logins s reqs)).
    oidc_user_id r' = oidc_user_id r \<and> oidc_issuer r' = oidc_issuer r \<and> oidc_subject r' = Some x)"
  using assms
proof (induction reqs arbitrary: s r)
  case (Cons q reqs)
  obtain c i sub p where q: "q = (c, i, sub, p)" by (cases q)
  obtain r' where "r' \<in> set (oidc_identities (snd (AuthenticateOIDC s c i sub p)))"
    "oidc_user_id r' = oidc_user_id r" "oidc_issuer r' = oidc_issuer r" "oidc_subject r' = Some x"
    using AuthenticateOIDC_keeps_subjects[OF Cons.prems(2,3)] by blast
  with Cons.IH[OF AuthenticateOIDC_ok[OF Cons.prems(1)], of r' c i sub p]
  show ?case by (simp add: oidc_logins_def q)
qed (auto simp: oidc_logins_def)

text \<open>
  A subject that is bound to a user stays bound to that user: after any sequence of OIDC logins,
  by whomever and under whatever usernames, a login with the subject is that user's or fails.
\<close>

theorem oidc_binding_permanent:
  assumes "store_ok s" "r \<in> set (oidc_identities s)" "oidc_subject r = Some (TrimSpace sub)"
    "oidc_issuer r = TrimSpace i"
    "AuthenticateOIDC (oidc_logins s reqs) claimed i sub p = (Inr u, s')"
  shows "User_ID u = oidc_user_id r"
proof -
  let ?s = "oidc_logins s reqs"
  obtain r' where ok: "store_ok ?s" and r': "r' \<in> set (oidc_identities ?s)" "oidc_user_id r' = oidc_user_id r"
    "oidc_issuer r' = TrimSpace i" "oidc_subject r' = Some (TrimSpace sub)"
    using oidc_logins_keep[OF assms(1-3)] assms(4) by metis
  have "\<not> (oidc_issuer x = TrimSpace i \<and> oidc_subject x = Some (TrimSpace sub))"
    if "x \<in> set (oidc_identities ?s)" "x \<noteq> r'" for x
    using ok_oidc_subject[OF store_okD(10)[OF ok] r'(1) that(1)] that(2) r' by auto
  then have "find (\<lambda>x. oidc_issuer x = TrimSpace i \<and> oidc_subject x = Some (TrimSpace sub))
      (oidc_identities ?s) = Some r'"
    using r' by (intro find_unique) auto
  with AuthenticateOIDC_SomeD(1)[OF assms(5)] r'(2) show ?thesis
    by (auto simp: oidc_resolve_def Let_def split: if_splits)
qed

theorem oidc_binding_permanent_witness:
  "\<exists>s r u s'. r \<in> set (oidc_identities s) \<and> oidc_subject r = Some ''sub1''
     \<and> AuthenticateOIDC (oidc_logins s [(''alice'', ''https://idp'', ''sub2'', ''alice'')])
          ''alice'' ''https://idp'' ''sub1'' ''ally'' = (Inr u, s') \<and> User_ID u = oidc_user_id r"
proof -
  let ?s = "snd (AuthenticateOIDC sample_db ''alice'' ''https://idp'' ''sub1'' ''alice'')"
  let ?r = "hd (oidc_identities ?s)"
  let ?c = "AuthenticateOIDC (oidc_logins ?s [(''alice'', ''https://idp'', ''sub2'', ''alice'')])
          ''alice'' ''https://idp'' ''sub1'' ''ally''"
  have r: "?r \<in> set (oidc_identities ?s)" "oidc_subject ?r = Some (TrimSpace ''sub1'')"
    "oidc_issuer ?r = TrimSpace ''https://idp''" and t: "TrimSpace ''sub1'' = ''sub1''" and c: "is_ok (fst ?c)"
    by code_simp+
  from c obtain u where u: "?c = (Inr u, snd ?c)" by (metis is_ok_iff prod.collapse)
  with oidc_binding_permanent[OF AuthenticateOIDC_ok[OF sample_db_ok] r u] r t show ?thesis by metis
qed

end
