(* ===== verification/Store_Audit.thy ===== *)
theory Store_Audit
  imports Store_Users Json Sample_Store
begin

text \<open>
  The audit log of \<^verbatim>\<open>internal/store/store.go\<close>: appending an event, listing the newest ones, and
  pruning by age. A time handed to \<open>PruneAudit\<close> is taken at the resolution of its text, a second.
\<close>

section \<open>Operations\<close>

definition audit_defaults :: "AuditEvent \<Rightarrow> AuditEvent" where
  "audit_defaults e = e\<lparr>
     Audit_Outcome := (if Audit_Outcome e = [] then ''success'' else Audit_Outcome e),
     Audit_Details := (if Audit_Details e = [] then ''{}'' else Audit_Details e)\<rparr>"

definition insert_audit :: "db \<Rightarrow> AuditEvent \<Rightarrow> (db, unit) outcome" where
  "insert_audit s e =
     (if \<not> valid_outcome (Audit_Outcome e) then (Inl (ErrConstraint ''CHECK''), s)
      else if (case Audit_ActorUserID e of None \<Rightarrow> False | Some i \<Rightarrow> i \<notin> users_id ` set (users s))
         \<or> (case Audit_TargetID e of None \<Rightarrow> False | Some i \<Rightarrow> i \<notin> Target_ID ` set (targets s))
      then (Inl (ErrConstraint ''FOREIGN KEY''), s)
      else (Inr (), s\<lparr>audit_events := audit_events s @
             [e\<lparr>Audit_ID := next_rowid (map Audit_ID (audit_events s)),
                Audit_At := CURRENT_TIMESTAMP s\<rparr>]\<rparr>))"

definition Audit :: "db \<Rightarrow> AuditEvent \<Rightarrow> (db, unit) outcome" where
  "Audit s e0 =
     (let e = audit_defaults e0
      in if \<not> unmarshal_map (Audit_Details e) then (Inl (Err ''audit details must be valid JSON''), s)
         else insert_audit s e)"

definition ListAudit :: "db \<Rightarrow> int \<Rightarrow> AuditEvent list" where
  "ListAudit s limit0 =
     (let limit = (if limit0 \<le> 0 \<or> limit0 > 1000 then 100 else limit0)
      in take (nat limit) (rev (sort_key Audit_ID (audit_events s))))"

definition PruneAudit :: "db \<Rightarrow> datetime \<Rightarrow> (db, nat) outcome" where
  "PruneAudit s before =
     (let P = (\<lambda>e. Audit_At e < fmt_rfc3339 before)
      in (Inr (count_where P (audit_events s)),
          s\<lparr>audit_events := filter (\<lambda>e. \<not> P e) (audit_events s)\<rparr>))"

lemmas [sql_defs] = audit_defaults_def insert_audit_def Audit_def ListAudit_def PruneAudit_def

section \<open>The schema's constraints are kept\<close>

lemma Audit_ok [store_inv_intros]:
  assumes "store_ok s" shows "store_ok (snd (Audit s e))"
  using store_okD(12)[OF assms] assms
  by (auto simp: Audit_def Let_def insert_audit_def ok_audit_def split: option.splits
      intro!: store_ok_set_leaf rowids_snoc refs_some_snoc)

lemma PruneAudit_ok [store_inv_intros]:
  assumes "store_ok s" shows "store_ok (snd (PruneAudit s before))"
  using store_okD(12)[OF assms] assms
  by (auto simp: PruneAudit_def Let_def ok_audit_def intro!: store_ok_set_leaf rowids_filter refs_some_filter)

section \<open>Listing\<close>

lemma audit_sorted: "store_ok s \<Longrightarrow> sort_key Audit_ID (audit_events s) = audit_events s"
  using store_okD(12)[of s]
  by (intro sort_key_id_if_sorted) (auto simp: ok_audit_def rowids_def strict_sorted_iff)

text \<open>
  An event that is recorded is the first of the next listing, whatever the limit, stamped with the
  database's clock and otherwise as it was handed in (with the defaults for an empty outcome and empty
  details); the events before it are all still there, in order.
\<close>

theorem Audit_then_ListAudit:
  assumes "store_ok s" "Audit s e = (Inr (), s')"
  shows "\<exists>r rest. ListAudit s' limit = r # rest \<and> Audit_At r = CURRENT_TIMESTAMP s
    \<and> r\<lparr>Audit_ID := Audit_ID e, Audit_At := Audit_At e\<rparr> = audit_defaults e
    \<and> audit_events s' = audit_events s @ [r]"
proof -
  let ?r = "(audit_defaults e)\<lparr>Audit_ID := next_rowid (map Audit_ID (audit_events s)),
      Audit_At := CURRENT_TIMESTAMP s\<rparr>"
  have s': "s' = s\<lparr>audit_events := audit_events s @ [?r]\<rparr>"
    using assms(2) by (auto simp: Audit_def Let_def insert_audit_def split: if_splits)
  have "store_ok s'" using Audit_ok[OF assms(1), of e] assms(2) by simp
  then have "sort_key Audit_ID (audit_events s') = audit_events s @ [?r]" using audit_sorted[of s'] s' by simp
  then have l: "ListAudit s' limit =
      take (nat (if limit \<le> 0 \<or> limit > 1000 then 100 else limit)) (?r # rev (audit_events s))"
    by (simp add: ListAudit_def)
  then obtain rest where "ListAudit s' limit = ?r # rest"
    by (cases "nat (if limit \<le> 0 \<or> limit > 1000 then 100 else limit)") (auto split: if_splits)
  moreover have "Audit_ID (audit_defaults e) = Audit_ID e" "Audit_At (audit_defaults e) = Audit_At e"
    by (simp_all add: audit_defaults_def)
  ultimately show ?thesis using s' by (intro exI[of _ ?r] exI[of _ rest]) simp
qed

section \<open>Pruning\<close>

text \<open>The order of texts is the order of numbers, for digits of one length.\<close>

lemma digits_val_Cons: "digits_val (c # s) = (byte c - 48) * 10 ^ length s + digits_val s"
proof (induction s rule: rev_induct)
  case (snoc d s)
  have "digits_val (c # s @ [d]) = 10 * digits_val (c # s) + (byte d - 48)"
    using digits_val_snoc[of "c # s" d] by simp
  with snoc show ?case by (simp add: digits_val_snoc)
qed (simp add: digits_val_def)

lemma digit_strings_less:
  assumes "list_all is_digit s" "list_all is_digit t" "length s = length t"
  shows "(s < t) = (digits_val s < digits_val t)"
  using assms
proof (induction s arbitrary: t)
  case Nil
  then show ?case by simp
next
  case (Cons a s)
  obtain b t' where t: "t = b # t'" using Cons.prems(3) by (cases t) auto
  have v: "digits_val s < 10 ^ length s" "digits_val t' < 10 ^ length s"
    using Cons.prems t digits_val_bound[of s] digits_val_bound[of t'] by auto
  have c: "(a < b) = (byte a < byte b)" "(a = b) = (byte a = byte b)" by (auto simp: less_char_def)
  have d: "48 \<le> byte a" "48 \<le> byte b" using Cons.prems t by (auto simp: is_digit_def)
  consider "byte a < byte b" | "byte a = byte b" | "byte b < byte a" by linarith
  then show ?case
  proof cases
    case 1
    then have "Suc (byte a - 48) * 10 ^ length s \<le> (byte b - 48) * 10 ^ length s"
      using d by (intro mult_le_mono1) simp
    with 1 v c Cons.prems(3) t show ?thesis by (simp add: digits_val_Cons)
  next
    case 2
    with Cons.IH[of t'] Cons.prems c t show ?thesis by (simp add: digits_val_Cons)
  next
    case 3
    then have "Suc (byte b - 48) * 10 ^ length s \<le> (byte a - 48) * 10 ^ length s"
      using d by (intro mult_le_mono1) simp
    with 3 v c Cons.prems(3) t show ?thesis by (auto simp: digits_val_Cons)
  qed
qed

lemma zero_pad_less:
  assumes "m < 10 ^ w" "n < 10 ^ w" "0 < w"
  shows "(zero_pad w m < zero_pad w n) = (m < n)" "(zero_pad w m = zero_pad w n) = (m = n)"
  using assms digit_strings_less[of "zero_pad w m" "zero_pad w n"]
  by (auto simp: zero_pad_digits length_zero_pad) (metis digits_val_zero_pad)

lemma append_less_same_length:
  fixes s t :: "'a::linorder list"
  assumes "length s = length t"
  shows "(s @ x < t @ y) = (s < t \<or> s = t \<and> x < y)"
  using assms by (induction s t rule: list_induct2) auto

text \<open>The day of \<open>t\<close> is not after the day of \<open>b\<close>.\<close>

definition day_le :: "datetime \<Rightarrow> datetime \<Rightarrow> bool" where
  "day_le t b \<longleftrightarrow> dt_year t < dt_year b \<or> dt_year t = dt_year b \<and>
     (dt_month t < dt_month b \<or> dt_month t = dt_month b \<and> dt_day t \<le> dt_day b)"

lemma date_text_le:
  assumes "valid_datetime t" "valid_datetime b"
  shows "(date_text t < date_text b \<or> date_text t = date_text b) = day_le t b"
    and "length (date_text t) = length (date_text b)"
proof -
  have y: "dt_year t < 10 ^ 4" "dt_year b < 10 ^ 4" and m: "dt_month t < 10 ^ 2" "dt_month b < 10 ^ 2"
    and d: "dt_day t < 10 ^ 2" "dt_day b < 10 ^ 2"
    using assms by (auto simp: valid_datetime_def)
  note len = length_zero_pad[OF y(1)] length_zero_pad[OF y(2)] length_zero_pad[OF m(1)]
    length_zero_pad[OF m(2)] length_zero_pad[OF d(1)] length_zero_pad[OF d(2)]
  show "length (date_text t) = length (date_text b)" by (simp add: date_text_def len)
  show "(date_text t < date_text b \<or> date_text t = date_text b) = day_le t b"
    using zero_pad_less[OF y] zero_pad_less[OF m] zero_pad_less[OF d]
    by (auto simp: date_text_def len append_less_same_length day_le_def)
qed

lemma prune_order:
  assumes "valid_datetime t" "valid_datetime b"
  shows "(fmt_sqlite t < fmt_rfc3339 b) = day_le t b"
proof -
  have "CHR '' '' < CHR ''T''" by code_simp
  then show ?thesis
    using date_text_le[OF assms]
    by (simp add: fmt_sqlite_def fmt_rfc3339_def append_less_same_length)
qed

text \<open>
  C9: \<open>PruneAudit before\<close> deletes exactly the events whose UTC day is not after the day of \<open>before\<close>,
  whatever their time of day: the text SQLite stores has a space where the RFC 3339 text it is
  compared with has a \<open>T\<close>. So an event later than \<open>before\<close> on the same day is deleted too.
\<close>

theorem PruneAudit_exact:
  assumes "\<And>e. e \<in> set (audit_events s) \<Longrightarrow> valid_datetime (at e) \<and> Audit_At e = fmt_sqlite (at e)"
    "valid_datetime before"
  shows "PruneAudit s before =
    (Inr (length (filter (\<lambda>e. day_le (at e) before) (audit_events s))),
     s\<lparr>audit_events := filter (\<lambda>e. \<not> day_le (at e) before) (audit_events s)\<rparr>)"
proof -
  have "filter (\<lambda>e. Audit_At e < fmt_rfc3339 before) (audit_events s) = filter (\<lambda>e. day_le (at e) before) (audit_events s)"
    "filter (\<lambda>e. \<not> Audit_At e < fmt_rfc3339 before) (audit_events s) = filter (\<lambda>e. \<not> day_le (at e) before) (audit_events s)"
    using assms prune_order by (auto intro!: filter_cong)
  then show ?thesis by (simp add: PruneAudit_def count_where_def)
qed

definition sample_event :: AuditEvent where
  "sample_event = \<lparr>Audit_ID = 0, Audit_At = [], Audit_ActorUserID = Some 2, Audit_ClaimedUsername = ''alice'',
     Audit_SourceAddress = ''192.0.2.7:5000'', Audit_EventType = ''connection'', Audit_TargetID = Some 1,
     Audit_Outcome = [], Audit_Details = []\<rparr>"

theorem Audit_then_ListAudit_witness:
  "\<exists>r rest. ListAudit (snd (Audit sample_db sample_event)) 1 = r # rest \<and> Audit_Outcome r = ''success''"
proof -
  have "fst (Audit sample_db sample_event) = Inr ()" by code_simp
  then have "Audit sample_db sample_event = (Inr (), snd (Audit sample_db sample_event))"
    by (metis prod.collapse)
  from Audit_then_ListAudit[OF sample_db_ok this, of 1] obtain r rest where
    l: "ListAudit (snd (Audit sample_db sample_event)) 1 = r # rest"
    and r: "r\<lparr>Audit_ID := Audit_ID sample_event, Audit_At := Audit_At sample_event\<rparr> = audit_defaults sample_event"
    by blast
  have "Audit_Outcome r = Audit_Outcome (r\<lparr>Audit_ID := Audit_ID sample_event, Audit_At := Audit_At sample_event\<rparr>)"
    by simp
  also have "\<dots> = ''success''" unfolding r by (simp add: audit_defaults_def sample_event_def)
  finally show ?thesis using l by blast
qed

theorem PruneAudit_exact_witness:
  "audit_events (snd (PruneAudit (snd (Audit sample_db sample_event)) (sample_now\<lparr>dt_hour := 0\<rparr>))) = []"
proof -
  let ?s = "snd (Audit sample_db sample_event)"
  have v: "e \<in> set (audit_events ?s) \<Longrightarrow> valid_datetime sample_now \<and> Audit_At e = fmt_sqlite sample_now" for e
  proof -
    assume "e \<in> set (audit_events ?s)"
    moreover have "\<forall>e\<in>set (audit_events ?s). valid_datetime sample_now \<and> Audit_At e = fmt_sqlite sample_now"
      by code_simp
    ultimately show ?thesis by blast
  qed
  have "day_le sample_now (sample_now\<lparr>dt_hour := 0\<rparr>)" "valid_datetime (sample_now\<lparr>dt_hour := 0\<rparr>)" by code_simp+
  with PruneAudit_exact[of ?s "\<lambda>_. sample_now" "sample_now\<lparr>dt_hour := 0\<rparr>", OF v] show ?thesis by simp
qed

end
