(* ===== verification/Store.thy ===== *)
theory Store
  imports Store_Access Store_OIDC Store_Audit
begin

text \<open>
  The store as one transition system: every method of \<^verbatim>\<open>internal/store/store.go\<close> that writes, the
  databases it can lead to, and what holds in all of them. The clock may move between operations.
\<close>

section \<open>All operations\<close>

datatype store_op =
    OpAddUser string string
  | OpSetUserEnabled string bool
  | OpSetUserRole string string
  | OpDeleteUser string
  | OpAddGatewayKey string string string string
  | OpRemoveGatewayKey string string
  | OpSetUserTOTP int string string
  | OpRemoveUserTOTP int
  | OpConsumeTOTPCounter int int
  | OpSetOIDCUsernameMapping int string string
  | OpLinkOIDCIdentity int string string string
  | OpAuthenticateOIDC string string string string
  | OpRemoveOIDCIdentity int string
  | OpAddGroup string
  | OpDeleteGroup string
  | OpSetGroupMember string string bool
  | OpAddSSHIdentity string string string
  | OpSetSSHIdentitySecret int "string option" "string option"
  | OpDeleteSSHIdentity string
  | OpAddTarget NewTarget
  | OpSetTargetEnabled string bool
  | OpDeleteTarget string
  | OpSetTargetCredential int "string option" "string option"
  | OpSetTargetCredentialKind int string "string option" "string option"
  | OpSetTargetIdentity int int
  | OpSetTargetHostKey string string string
  | OpUpdateTarget string string int string
  | OpSetGrantCapabilities string string string bool bool bool bool bool
  | OpAddForwardRule string string int
  | OpDeleteForwardRule int
  | OpAudit AuditEvent
  | OpPruneAudit datetime
  | OpClock datetime

fun exec :: "db \<Rightarrow> store_op \<Rightarrow> db" where
  "exec s (OpAddUser n r) = snd (AddUser s n r)"
| "exec s (OpSetUserEnabled n e) = snd (SetUserEnabled s n e)"
| "exec s (OpSetUserRole n r) = snd (SetUserRole s n r)"
| "exec s (OpDeleteUser n) = snd (DeleteUser s n)"
| "exec s (OpAddGatewayKey n f p l) = snd (AddGatewayKey s n f p l)"
| "exec s (OpRemoveGatewayKey n f) = snd (RemoveGatewayKey s n f)"
| "exec s (OpSetUserTOTP i n c) = snd (SetUserTOTP s i n c)"
| "exec s (OpRemoveUserTOTP i) = snd (RemoveUserTOTP s i)"
| "exec s (OpConsumeTOTPCounter i c) = snd (ConsumeTOTPCounter s i c)"
| "exec s (OpSetOIDCUsernameMapping i iss p) = snd (SetOIDCUsernameMapping s i iss p)"
| "exec s (OpLinkOIDCIdentity i iss sub p) = snd (LinkOIDCIdentity s i iss sub p)"
| "exec s (OpAuthenticateOIDC n iss sub p) = snd (AuthenticateOIDC s n iss sub p)"
| "exec s (OpRemoveOIDCIdentity i iss) = snd (RemoveOIDCIdentity s i iss)"
| "exec s (OpAddGroup n) = snd (AddGroup s n)"
| "exec s (OpDeleteGroup n) = snd (DeleteGroup s n)"
| "exec s (OpSetGroupMember g n a) = snd (SetGroupMember s g n a)"
| "exec s (OpAddSSHIdentity n p f) = snd (AddSSHIdentity s n p f)"
| "exec s (OpSetSSHIdentitySecret i n c) = snd (SetSSHIdentitySecret s i n c)"
| "exec s (OpDeleteSSHIdentity n) = snd (DeleteSSHIdentity s n)"
| "exec s (OpAddTarget t) = snd (AddTarget s t)"
| "exec s (OpSetTargetEnabled n e) = snd (SetTargetEnabled s n e)"
| "exec s (OpDeleteTarget n) = snd (DeleteTarget s n)"
| "exec s (OpSetTargetCredential i n c) = snd (SetTargetCredential s i n c)"
| "exec s (OpSetTargetCredentialKind i k n c) = snd (SetTargetCredentialKind s i k n c)"
| "exec s (OpSetTargetIdentity i j) = snd (SetTargetIdentity s i j)"
| "exec s (OpSetTargetHostKey n a k) = snd (SetTargetHostKey s n a k)"
| "exec s (OpUpdateTarget n h p u) = snd (UpdateTarget s n h p u)"
| "exec s (OpSetGrantCapabilities t k p a sh sf sc fw) = snd (SetGrantCapabilities s t k p a sh sf sc fw)"
| "exec s (OpAddForwardRule t h p) = snd (AddForwardRule s t h p)"
| "exec s (OpDeleteForwardRule i) = snd (DeleteForwardRule s i)"
| "exec s (OpAudit e) = snd (Audit s e)"
| "exec s (OpPruneAudit b) = snd (PruneAudit s b)"
| "exec s (OpClock now) = s\<lparr>db_now := now\<rparr>"

inductive reachable :: "db \<Rightarrow> bool" where
  new: "reachable (empty_db now)"
| step: "reachable s \<Longrightarrow> reachable (exec s op)"

section \<open>The schema's constraints hold in every reachable database\<close>

lemma store_ok_clock: "store_ok s \<Longrightarrow> store_ok (s\<lparr>db_now := now\<rparr>)"
  by (simp add: store_ok_def)

lemma exec_ok: "store_ok s \<Longrightarrow> store_ok (exec s op)"
  by (cases op) (simp_all add: store_inv_intros store_ok_clock)

lemma reachable_ok: "reachable s \<Longrightarrow> store_ok s"
  by (induction rule: reachable.induct) (simp_all add: exec_ok)

lemma reachable_foldl: "reachable s \<Longrightarrow> reachable (foldl exec s ops)"
  by (induction ops arbitrary: s) (auto intro: reachable.step)

text \<open>
  C1: In every database the store's operations can lead to from a new file, in any order and with any
  arguments, the constraints of the schema hold: row ids and declared unique values are unique, every
  reference points to a row, roles, ports, kinds and outcomes are in their ranges, and the names of
  users, groups and SSH identities have the form the name pattern asks for.
\<close>

theorem store_ok_always: "store_ok (foldl exec (empty_db now) ops)"
  by (intro reachable_ok reachable_foldl reachable.new)

section \<open>An administrator can always log in\<close>

definition usable :: "db \<Rightarrow> user_row \<Rightarrow> bool" where
  "usable s u \<longleftrightarrow> u \<in> set (users s) \<and> users_role u = RoleAdmin \<and> users_enabled u
     \<and> (\<exists>k\<in>set (gateway_keys s). Key_UserID k = users_id u)"

definition usable_admin :: "db \<Rightarrow> bool" where
  "usable_admin s \<longleftrightarrow> (\<exists>u. usable s u)"

lemma ensureOtherUsableAdmin_iff:
  "ensureOtherUsableAdmin s i = Inr () \<longleftrightarrow> (\<exists>u. usable s u \<and> users_id u \<noteq> i)"
proof -
  have "other_usable_admins s i \<noteq> [] \<longleftrightarrow> (\<exists>x. x \<in> set (other_usable_admins s i))"
    by (cases "other_usable_admins s i") auto
  also have "\<dots> \<longleftrightarrow> (\<exists>u. usable s u \<and> users_id u \<noteq> i)"
    by (auto simp: other_usable_admins_def usable_def)
  finally show ?thesis by (auto simp: ensureOtherUsableAdmin_def)
qed

text \<open>An operation that keeps the rows of users and keys, or only adds to them, keeps a usable administrator.\<close>

lemma usable_admin_mono:
  assumes "usable_admin s" "set (users s) \<subseteq> set (users s')" "set (gateway_keys s) \<subseteq> set (gateway_keys s')"
  shows "usable_admin s'"
  using assms unfolding usable_admin_def usable_def by blast

lemma usable_other_kept:
  assumes "usable s u" "users_id u \<noteq> i"
    "\<And>r. r \<in> set (users s) \<Longrightarrow> users_id r \<noteq> i \<Longrightarrow> r \<in> set (users s')"
    "\<And>k. k \<in> set (gateway_keys s) \<Longrightarrow> Key_UserID k \<noteq> i \<Longrightarrow> k \<in> set (gateway_keys s')"
  shows "usable_admin s'"
  using assms unfolding usable_admin_def usable_def by metis

lemma usable_admin_update:
  assumes ok: "store_ok s" and ad: "usable_admin s" and r: "r \<in> set (users s)"
    and f: "users_id (f r) = users_id r"
    and keep: "ensureOtherUsableAdmin s (users_id r) = Inr () \<or> users_role r \<noteq> RoleAdmin
      \<or> (users_role (f r) = RoleAdmin \<and> (users_enabled r \<longrightarrow> users_enabled (f r)))"
  shows "usable_admin (s\<lparr>users := update_where (\<lambda>x. users_id x = users_id r) f (users s)\<rparr>)" (is "usable_admin ?s'")
proof -
  have other: "usable_admin ?s'" if "usable s v" "users_id v \<noteq> users_id r" for v
    by (rule usable_other_kept[OF that]) (auto simp: set_update_where)
  obtain v where v: "usable s v" using ad by (auto simp: usable_admin_def)
  show ?thesis
  proof (cases "users_id v = users_id r")
    case True
    then have "v = r" using v r store_okD(1)[OF ok] by (auto simp: usable_def ok_users_def dest: rowids_inj)
    then have "usable ?s' (f r)" if "users_role (f r) = RoleAdmin" "users_enabled r \<longrightarrow> users_enabled (f r)"
      using v that f by (auto simp: usable_def set_update_where)
    with keep v other \<open>v = r\<close> show ?thesis
      by (auto simp: ensureOtherUsableAdmin_iff usable_admin_def usable_def)
  qed (rule other[OF v])
qed

lemma SetUserEnabled_admin:
  assumes "store_ok s" "usable_admin s" shows "usable_admin (snd (SetUserEnabled s name en))"
  using assms
  by (auto simp: SetUserEnabled_def dest!: UserByName_InrD split: sum.splits if_splits
      intro!: usable_admin_update)

lemma SetUserRole_admin:
  assumes "store_ok s" "usable_admin s" shows "usable_admin (snd (SetUserRole s name role))"
  using assms
  by (auto simp: SetUserRole_def dest!: UserByName_InrD split: sum.splits if_splits
      intro!: usable_admin_update)

lemma DeleteUser_admin:
  assumes ok: "store_ok s" and ad: "usable_admin s" shows "usable_admin (snd (DeleteUser s name))"
proof (cases "UserByName s name")
  case (Inr u)
  then obtain r where r: "r \<in> set (users s)" "u = scanUser s r" using UserByName_InrD by blast
  have other: "usable_admin (delete_user_row s (users_id r))" if "usable s v" "users_id v \<noteq> users_id r" for v
    by (rule usable_other_kept[OF that]) (auto simp: delete_user_row_def)
  obtain v where v: "usable s v" using ad by (auto simp: usable_admin_def)
  have "users_id v \<noteq> users_id r" if "users_role r \<noteq> RoleAdmin"
    using that v r store_okD(1)[OF ok] by (auto simp: usable_def ok_users_def dest: rowids_inj)
  with other other[OF v] Inr r ad show ?thesis
    by (auto simp: DeleteUser_def ensureOtherUsableAdmin_iff split: sum.splits if_splits)
qed (simp add: DeleteUser_def ad)

text \<open>
  Removing a key: the administrator keeps another key when there are two or more, for a fingerprint
  stands for at most one key of a user.
\<close>

lemma other_key_left:
  assumes ok: "store_ok s" and two: "\<not> count_where (\<lambda>k. Key_UserID k = i) (gateway_keys s) \<le> 1"
  shows "\<exists>k\<in>set (gateway_keys s). Key_UserID k = i \<and> Key_Fingerprint k \<noteq> fp"
proof (rule ccontr)
  assume none: "\<not> ?thesis"
  let ?mine = "filter (\<lambda>k. Key_UserID k = i) (gateway_keys s)"
  have un: "uniq (\<lambda>k. (Key_UserID k, Key_Fingerprint k)) (gateway_keys s)" "rowids Key_ID (gateway_keys s)"
    using store_okD(2)[OF ok] by (simp_all add: ok_keys_def)
  have "distinct ?mine" using un(1) by (auto simp: uniq_def distinct_map)
  moreover have "k = k'" if "k \<in> set ?mine" "k' \<in> set ?mine" for k k'
    using none that by (intro uniq_inj[OF un(1)]) auto
  ultimately have "length ?mine \<le> 1"
    by (metis distinct_card card_le_Suc0_iff_eq List.finite_set One_nat_def)
  with two show False by (simp add: count_where_def)
qed

lemma RemoveGatewayKey_admin:
  assumes ok: "store_ok s" and ad: "usable_admin s" shows "usable_admin (snd (RemoveGatewayKey s name fp))"
proof (cases "UserByName s name")
  case (Inr u)
  then obtain r where r: "r \<in> set (users s)" "u = scanUser s r" using UserByName_InrD by blast
  let ?s' = "s\<lparr>gateway_keys := filter (\<lambda>k. \<not> (Key_UserID k = users_id r \<and> Key_Fingerprint k = fp)) (gateway_keys s)\<rparr>"
  have other: "usable_admin ?s'" if "usable s v" "users_id v \<noteq> users_id r" for v
    by (rule usable_other_kept[OF that]) auto
  obtain v where v: "usable s v" using ad by (auto simp: usable_admin_def)
  have vr: "v = r" if "users_id v = users_id r"
    using that v r store_okD(1)[OF ok] by (auto simp: usable_def ok_users_def dest: rowids_inj)
  have "usable_admin ?s'" if "\<not> count_where (\<lambda>k. Key_UserID k = users_id r) (gateway_keys s) \<le> 1"
  proof (cases "users_id v = users_id r")
    case True
    with vr v other_key_left[OF ok that, of fp] have "usable ?s' v" by (auto simp: usable_def)
    then show ?thesis by (auto simp: usable_admin_def)
  qed (rule other[OF v])
  moreover have "usable_admin ?s'" if "\<not> (users_role r = RoleAdmin \<and> users_enabled r)"
    using other[OF v] vr v that by (auto simp: usable_def)
  ultimately show ?thesis
    using Inr r other ad
    by (auto simp: RemoveGatewayKey_def ensureOtherUsableAdmin_iff Let_def split: sum.splits if_splits)
qed (simp add: RemoveGatewayKey_def ad)

text \<open>The operations that touch neither users nor keys.\<close>

definition touches_users :: "store_op \<Rightarrow> bool" where
  "touches_users op = (case op of OpAddUser _ _ \<Rightarrow> True | OpSetUserEnabled _ _ \<Rightarrow> True
     | OpSetUserRole _ _ \<Rightarrow> True | OpDeleteUser _ \<Rightarrow> True | OpAddGatewayKey _ _ _ _ \<Rightarrow> True
     | OpRemoveGatewayKey _ _ \<Rightarrow> True | _ \<Rightarrow> False)"

definition same_users :: "db \<Rightarrow> db \<Rightarrow> bool" where
  "same_users s s' \<longleftrightarrow> users s' = users s \<and> gateway_keys s' = gateway_keys s"

lemma same_users_refl: "same_users s s"
  by (simp add: same_users_def)

lemma same_users_oidc:
  "same_users s (snd (oidc_upsert s u i sb p))"
  "same_users s (snd (SetOIDCUsernameMapping s u i p))"
  "same_users s (snd (LinkOIDCIdentity s u i sub p))"
  "same_users s (snd (RemoveOIDCIdentity s u i))"
  "same_users s (snd (AuthenticateOIDC s c i sub p))"
proof -
  show "same_users s (snd (oidc_upsert s u i sb p))"
    by (simp add: oidc_upsert_def Let_def same_users_def)
  show "same_users s (snd (SetOIDCUsernameMapping s u i p))" "same_users s (snd (LinkOIDCIdentity s u i sub p))"
    by (auto simp: SetOIDCUsernameMapping_def LinkOIDCIdentity_def oidc_upsert_def Let_def same_users_def
        split: sum.splits)
  show "same_users s (snd (RemoveOIDCIdentity s u i))" by (simp add: RemoveOIDCIdentity_def Let_def same_users_def)
  show "same_users s (snd (AuthenticateOIDC s c i sub p))"
    by (auto simp: AuthenticateOIDC_def oidc_resolve_def Let_def same_users_def
        split: sum.splits option.splits if_splits)
qed

lemma same_users_totp_groups:
  "same_users s (snd (SetUserTOTP s i n c))" "same_users s (snd (RemoveUserTOTP s i))"
  "same_users s (snd (ConsumeTOTPCounter s i k))" "same_users s (snd (AddGroup s g))"
  "same_users s (snd (DeleteGroup s g))" "same_users s (snd (SetGroupMember s g u a))"
  by (auto simp: SetUserTOTP_def RemoveUserTOTP_def ConsumeTOTPCounter_def AddGroup_def DeleteGroup_def
      delete_group_rows_def SetGroupMember_def Let_def same_users_def split: sum.splits)

lemma same_users_identities:
  "same_users s (snd (AddSSHIdentity s a b c))" "same_users s (snd (SetSSHIdentitySecret s i no ci))"
  "same_users s (snd (DeleteSSHIdentity s a))"
  by (auto simp: AddSSHIdentity_def SetSSHIdentitySecret_def DeleteSSHIdentity_def Let_def same_users_def
      split: sum.splits)

lemma same_users_update_targets: "same_users s (snd (update_targets s P f))"
  by (simp add: update_targets_def same_users_def)

lemma same_users_AddTarget: "same_users s (snd (AddTarget s t))"
proof -
  have "same_users s (snd (insert_target s t))" by (simp add: insert_target_def Let_def same_users_def)
  then show ?thesis by (auto simp: AddTarget_def same_users_refl split: sum.splits prod.splits)
qed

lemma same_users_targets:
  "same_users s (snd (SetTargetEnabled s n e))" "same_users s (snd (SetTargetCredential s i no ci))"
  "same_users s (snd (SetTargetCredentialKind s i k no ci))" "same_users s (snd (SetTargetIdentity s i j))"
  "same_users s (snd (SetTargetHostKey s n a k))" "same_users s (snd (UpdateTarget s n h p u))"
  by (simp_all add: SetTargetEnabled_def SetTargetCredential_def SetTargetCredentialKind_def
      SetTargetIdentity_def SetTargetHostKey_def UpdateTarget_def same_users_update_targets same_users_refl)

lemma same_users_rest:
  "same_users s (snd (DeleteTarget s n))" "same_users s (snd (AddForwardRule s t h p))"
  "same_users s (snd (DeleteForwardRule s i))" "same_users s (snd (Audit s e))"
  "same_users s (snd (PruneAudit s b))" "same_users s (snd (SetGrantCapabilities s t k pr a sh sf sc fw))"
  by (auto simp: DeleteTarget_def delete_target_rows_def AddForwardRule_def DeleteForwardRule_def Audit_def
      insert_audit_def PruneAudit_def SetGrantCapabilities_def Let_def same_users_def split: sum.splits)

lemmas same_users_all = same_users_oidc same_users_totp_groups same_users_identities same_users_AddTarget
  same_users_targets same_users_rest

lemma exec_frame_users: "\<not> touches_users op \<Longrightarrow> same_users s (exec s op)"
  by (cases op) (simp_all add: touches_users_def same_users_all, simp add: same_users_def)

lemma AddUser_admin: "usable_admin s \<Longrightarrow> usable_admin (snd (AddUser s n r))"
  by (erule usable_admin_mono) (auto simp: AddUser_def insert_user_def Let_def split: sum.splits prod.splits if_splits)

lemma AddGatewayKey_admin: "usable_admin s \<Longrightarrow> usable_admin (snd (AddGatewayKey s n f p l))"
  by (erule usable_admin_mono) (auto simp: AddGatewayKey_def split: sum.splits)

lemma exec_admin:
  assumes "store_ok s" "usable_admin s"
  shows "usable_admin (exec s op)"
proof (cases "touches_users op")
  case False
  then show ?thesis using assms(2) exec_frame_users[OF False, of s] by (auto simp: same_users_def intro: usable_admin_mono)
next
  case True
  then show ?thesis using assms
    by (cases op) (simp_all add: touches_users_def AddUser_admin AddGatewayKey_admin SetUserEnabled_admin
        SetUserRole_admin DeleteUser_admin RemoveGatewayKey_admin)
qed

text \<open>
  C2: Once an enabled administrator with a gateway key exists, one exists after every sequence of store
  operations, each run to its end before the next: no single call can lock all administrators out.
\<close>

theorem usable_admin_forever:
  assumes "store_ok s" "usable_admin s"
  shows "usable_admin (foldl exec s ops)"
  using assms by (induction ops arbitrary: s) (simp_all add: exec_ok exec_admin)

lemma sample_admin: "usable_admin sample_db"
proof -
  have "usable sample_db (hd (users sample_db))" by code_simp
  then show ?thesis by (auto simp: usable_admin_def)
qed

theorem usable_admin_forever_witness:
  "usable_admin (foldl exec sample_db [OpSetUserEnabled ''root'' False, OpDeleteUser ''root'',
     OpRemoveGatewayKey ''root'' ''SHA256:r'', OpSetUserRole ''root'' ''member''])"
  by (rule usable_admin_forever[OF sample_db_ok sample_admin])

section \<open>The check and the change are two statements\<close>

text \<open>
  \<open>SetUserEnabled\<close> reads the user, counts the other administrators, and only then runs its
  \<open>UPDATE\<close>; there is no transaction around the three. As a small machine, a call to disable a user is
  first at its checks and then, with the user's id, at the statement; a schedule says which of two calls
  moves next.
\<close>

datatype disable_call =
    Checking string
  | Writing int
  | Done "unit res"

fun disable_step :: "db \<Rightarrow> disable_call \<Rightarrow> disable_call \<times> db" where
  "disable_step s (Checking name) =
     (case UserByName s name of
        Inl e \<Rightarrow> (Done (Inl e), s)
      | Inr u \<Rightarrow>
          (case (if User_Role u = RoleAdmin then ensureOtherUsableAdmin s (User_ID u) else Inr ()) of
             Inl e \<Rightarrow> (Done (Inl e), s)
           | Inr _ \<Rightarrow> (Writing (User_ID u), s)))"
| "disable_step s (Writing i) =
     (Done (changed (count_where (\<lambda>r. users_id r = i) (users s))),
      s\<lparr>users := update_where (\<lambda>r. users_id r = i) (\<lambda>r. r\<lparr>users_enabled := False\<rparr>) (users s)\<rparr>)"
| "disable_step s (Done r) = (Done r, s)"

text \<open>Two calls under a schedule; \<open>True\<close> moves the first.\<close>

fun interleave :: "bool list \<Rightarrow> db \<Rightarrow> disable_call \<Rightarrow> disable_call \<Rightarrow> disable_call \<times> disable_call \<times> db" where
  "interleave [] s a b = (a, b, s)"
| "interleave (True # sch) s a b = (let (a', s') = disable_step s a in interleave sch s' a' b)"
| "interleave (False # sch) s a b = (let (b', s') = disable_step s b in interleave sch s' a b')"

text \<open>
  A call that is not interrupted between its check and its statement is the atomic operation
  \<open>SetUserEnabled\<close> of the model, with its result and its database.
\<close>

theorem disable_uninterrupted:
  "(let (a, b, s') = interleave [True, True] s (Checking name) b0 in (a, s'))
   = (Done (fst (SetUserEnabled s name False)), snd (SetUserEnabled s name False))"
  by (auto simp: SetUserEnabled_def Let_def split: sum.splits prod.splits if_splits)

definition two_admins :: db where
  "two_admins = snd (SetUserRole sample_db ''alice'' ''admin'')"

text \<open>
  Interleaved, two calls can do what no single call can: with two usable administrators, each of the
  calls that disable them passes its check before either writes, both report success, and no usable
  administrator is left.
\<close>

theorem disable_race:
  "usable_admin two_admins \<and>
   (let (a, b, s') = interleave [True, False, True, False] two_admins (Checking ''root'') (Checking ''alice'')
    in a = Done (Inr ()) \<and> b = Done (Inr ()) \<and> \<not> usable_admin s')"
proof -
  let ?r = "interleave [True, False, True, False] two_admins (Checking ''root'') (Checking ''alice'')"
  have "usable two_admins (hd (users two_admins))" by code_simp
  moreover have "fst ?r = Done (Inr ())" "fst (snd ?r) = Done (Inr ())" by code_simp+
  moreover have "list_all (\<lambda>u. \<not> users_enabled u) (users (snd (snd ?r)))" by code_simp
  then have "\<not> usable_admin (snd (snd ?r))" by (auto simp: usable_admin_def usable_def list_all_iff)
  ultimately show ?thesis by (auto simp: usable_admin_def split: prod.splits simp del: interleave.simps)
qed

section \<open>A new user inherits nothing\<close>

text \<open>
  SQLite may give a new user the row id of a deleted one. Nevertheless, in every reachable
  database, a user just added has no key, no membership, no grant, no OIDC mapping and no TOTP secret,
  and no audit event names it as its actor: deletion leaves nothing behind under the id.
\<close>

theorem AddUser_clean:
  assumes "reachable s" "AddUser s name role = (Inr u, s')"
  shows "User_Enabled u \<and> User_Role u = role \<and> User_Username u = ToLower (TrimSpace name) \<and> \<not> User_TOTPEnabled u
    \<and> (\<forall>k\<in>set (gateway_keys s'). Key_UserID k \<noteq> User_ID u)
    \<and> (\<forall>m\<in>set (group_members s'). member_user_id m \<noteq> User_ID u)
    \<and> (\<forall>g\<in>set (user_target_grants s'). grant_principal g \<noteq> User_ID u)
    \<and> (\<forall>r\<in>set (oidc_identities s'). oidc_user_id r \<noteq> User_ID u)
    \<and> (\<forall>q\<in>set (user_totp s'). totp_user_id q \<noteq> User_ID u)
    \<and> (\<forall>e\<in>set (audit_events s'). Audit_ActorUserID e \<noteq> Some (User_ID u))"
proof -
  have ok: "store_ok s" by (rule reachable_ok[OF assms(1)])
  let ?i = "next_rowid (map users_id (users s))"
  let ?row = "\<lparr>users_id = ?i, users_username = ToLower (TrimSpace name), users_role = role,
     users_enabled = True, users_created_at = CURRENT_TIMESTAMP s\<rparr>"
  have s': "s' = s\<lparr>users := users s @ [?row]\<rparr>" and u: "UserByID s' ?i = Inr u"
    using assms(2)
    by (auto simp: AddUser_def insert_user_def Let_def split: sum.splits if_splits dest!: validateName_ok)
  have "store_ok s'" using AddUser_ok[OF ok, of name role] assms(2) by simp
  then have "u = scanUser s' ?row" using u s' UserByID_found[of s' ?row] by simp
  moreover have fresh: "?i \<notin> users_id ` set (users s)"
    using next_rowid_greater[of ?i "map users_id (users s)"] by auto
  moreover note c = store_okD[OF ok, unfolded ok_defs refs_def refs_some_def]
  have "\<forall>q\<in>set (user_totp s). totp_user_id q \<noteq> ?i" using c(11) fresh by metis
  moreover have "\<forall>k\<in>set (gateway_keys s). Key_UserID k \<noteq> ?i" using c(2) fresh by metis
  moreover have "\<forall>m\<in>set (group_members s). member_user_id m \<noteq> ?i" using c(4) fresh by metis
  moreover have "\<forall>g\<in>set (user_target_grants s). grant_principal g \<noteq> ?i" using c(7) fresh by metis
  moreover have "\<forall>r\<in>set (oidc_identities s). oidc_user_id r \<noteq> ?i" using c(10) fresh by metis
  moreover have "\<forall>e\<in>set (audit_events s). Audit_ActorUserID e \<noteq> Some ?i" using c(12) fresh by metis
  ultimately show ?thesis unfolding s' by (simp add: scanUser_def list_ex_iff)
qed

definition alice_gone :: db where
  "alice_gone = foldl exec (empty_db sample_now) [OpAddUser ''root'' ''admin'', OpAddUser ''alice'' ''admin'',
     OpAddGatewayKey ''alice'' ''SHA256:a'' ''ka'' [], OpAddGatewayKey ''root'' ''SHA256:r'' ''kr'' [],
     OpDeleteUser ''alice'']"

theorem AddUser_clean_witness:
  "\<exists>u s'. AddUser alice_gone ''Bob'' ''member'' = (Inr u, s') \<and> User_ID u = 2
     \<and> (\<forall>k\<in>set (gateway_keys s'). Key_UserID k \<noteq> 2)"
proof -
  have r: "reachable alice_gone" unfolding alice_gone_def by (intro reachable_foldl reachable.new)
  let ?c = "AddUser alice_gone ''Bob'' ''member''"
  have "map_sum (\<lambda>_. ()) User_ID (fst ?c) = Inr 2" by code_simp
  then obtain u where "fst ?c = Inr u" "User_ID u = 2" by (cases "fst ?c") auto
  then have c: "?c = (Inr u, snd ?c)" by (metis prod.collapse)
  show ?thesis using AddUser_clean[OF r c] c \<open>User_ID u = 2\<close> by metis
qed

section \<open>Logging in with a key\<close>

text \<open>
  C6: A public key logs a user in exactly when a user row has the lower-cased name, is enabled and owns
  a key row with that fingerprint; the user returned is that row's. A fingerprint shared by several
  users admits each only under their own name.
\<close>

theorem AuthenticateKey_exact:
  assumes "reachable s"
  shows "AuthenticateKey s username fp = Inr u \<longleftrightarrow>
    (\<exists>r\<in>set (users s). users_username r = ToLower username \<and> users_enabled r \<and> u = scanUser s r
       \<and> (\<exists>k\<in>set (gateway_keys s). Key_UserID k = users_id r \<and> Key_Fingerprint k = fp))"
  by (rule AuthenticateKey_iff[OF reachable_ok[OF assms]])

theorem AuthenticateKey_exact_witness:
  "AuthenticateKey alice_gone ''Root'' ''SHA256:r'' = Inr (scanUser alice_gone (hd (users alice_gone)))"
proof -
  have "reachable alice_gone" unfolding alice_gone_def by (intro reachable_foldl reachable.new)
  moreover have "hd (users alice_gone) \<in> set (users alice_gone)"
    "users_username (hd (users alice_gone)) = ToLower ''Root''" "users_enabled (hd (users alice_gone))"
    "\<exists>k\<in>set (gateway_keys alice_gone). Key_UserID k = users_id (hd (users alice_gone))
       \<and> Key_Fingerprint k = ''SHA256:r''"
    by code_simp+
  ultimately show ?thesis using AuthenticateKey_exact[of alice_gone "''Root''" "''SHA256:r''"] by blast
qed

text \<open>The three ways to revoke access, as one datatype.\<close>

datatype revocation = RevokeKey string | Disable | Remove

fun revoke :: "db \<Rightarrow> string \<Rightarrow> revocation \<Rightarrow> (db, unit) outcome" where
  "revoke s name (RevokeKey fp) = RemoveGatewayKey s name fp"
| "revoke s name Disable = SetUserEnabled s name False"
| "revoke s name Remove = DeleteUser s name"

lemma AuthenticateKey_InlI:
  assumes "\<And>r k. r \<in> set (users s) \<Longrightarrow> users_username r = ToLower username \<Longrightarrow> users_enabled r \<Longrightarrow>
      k \<in> set (gateway_keys s) \<Longrightarrow> Key_UserID k = users_id r \<Longrightarrow> Key_Fingerprint k = fp \<Longrightarrow> False"
  shows "AuthenticateKey s username fp = Inl ErrNoRows"
proof -
  have "set (auth_rows s username fp) = {}" using assms unfolding set_auth_rows by blast
  then show ?thesis by (simp add: AuthenticateKey_def)
qed

text \<open>
  C7: After a successful revocation the user cannot log in with the revoked key, and after disabling
  or deleting the user with no key at all.
\<close>

theorem revoked_cannot_login:
  assumes "reachable s" "revoke s name rv = (Inr (), s')" "rv = RevokeKey fp \<or> rv = Disable \<or> rv = Remove"
    "ToLower name' = ToLower name"
  shows "AuthenticateKey s' name' fp = Inl ErrNoRows"
proof -
  note ok = reachable_ok[OF assms(1)]
  obtain u where u: "UserByName s name = Inr u"
    using assms(2) by (cases rv; cases "UserByName s name")
      (auto simp: RemoveGatewayKey_def SetUserEnabled_def DeleteUser_def)
  then obtain r where r: "r \<in> set (users s)" "u = scanUser s r" "users_username r = ToLower name"
    using UserByName_InrD by blast
  have only: "x = r" if "x \<in> set (users s)" "users_username x = ToLower name'" for x
    using store_okD(1)[OF ok] that r assms(4) by (auto simp: ok_users_def dest: uniq_inj)
  show ?thesis
  proof (cases rv)
    case (RevokeKey f)
    then have "s' = s\<lparr>gateway_keys := filter (\<lambda>k. \<not> (Key_UserID k = users_id r \<and> Key_Fingerprint k = fp))
        (gateway_keys s)\<rparr>"
      using assms(2,3) u r by (auto simp: RemoveGatewayKey_def Let_def split: sum.splits if_splits)
    then show ?thesis by (intro AuthenticateKey_InlI) (simp, metis only)
  next
    case Disable
    then have "s' = s\<lparr>users := update_where (\<lambda>x. users_id x = users_id r) (\<lambda>x. x\<lparr>users_enabled := False\<rparr>) (users s)\<rparr>"
      using assms(2) u r by (auto simp: SetUserEnabled_def split: sum.splits if_splits)
    then have "x \<in> set (users s) \<and> users_id x \<noteq> users_id r \<or> \<not> users_enabled x" if "x \<in> set (users s')" for x
      using that by (auto simp: set_update_where)
    then show ?thesis by (intro AuthenticateKey_InlI) (metis only)
  next
    case Remove
    then have "s' = delete_user_row s (users_id r)"
      using assms(2) u r by (auto simp: DeleteUser_def split: sum.splits if_splits)
    then show ?thesis by (intro AuthenticateKey_InlI) (simp add: delete_user_row_def, metis only)
  qed
qed

theorem revoked_cannot_login_witness:
  "AuthenticateKey (snd (revoke (exec alice_gone (OpAddUser ''bob'' ''member'')) ''bob'' Disable)) ''BOB'' ''fp''
     = Inl ErrNoRows"
proof -
  let ?s = "exec alice_gone (OpAddUser ''bob'' ''member'')"
  have "reachable ?s" unfolding alice_gone_def by (intro reachable.step reachable_foldl reachable.new)
  moreover have "fst (revoke ?s ''bob'' Disable) = Inr ()" by code_simp
  then have "revoke ?s ''bob'' Disable = (Inr (), snd (revoke ?s ''bob'' Disable))" by (metis prod.collapse)
  moreover have "ToLower ''BOB'' = ToLower ''bob''" by code_simp
  ultimately show ?thesis using revoked_cannot_login[of ?s "''bob''" Disable _ "''fp''" "''BOB''"] by blast
qed

end
