(* ===== verification/Store_Replay.thy ===== *)
theory Store_Replay
  imports Store
begin

text \<open>
  Why a TOTP code works at most once. The interface the gateway relies on is a guard that accepts a
  counter only above the last one accepted; the store's \<open>ConsumeTOTPCounter\<close> provides it, whatever
  other operations run in between.
\<close>

section \<open>Replay guards\<close>

text \<open>
  A history of a guard: attempts to use a counter (\<open>Inl\<close>) and other events (\<open>Inr\<close>); the result is
  the counters accepted, in order.
\<close>

fun accepted :: "('s \<Rightarrow> int \<Rightarrow> bool \<times> 's) \<Rightarrow> ('s \<Rightarrow> 'e \<Rightarrow> 's) \<Rightarrow> 's \<Rightarrow> (int + 'e) list \<Rightarrow> int list" where
  "accepted use other s [] = []"
| "accepted use other s (Inl c # h) =
     (let (ok, s') = use s c in if ok then c # accepted use other s' h else accepted use other s' h)"
| "accepted use other s (Inr e # h) = accepted use other (other s e) h"

locale replay_guard =
  fixes inv :: "'s \<Rightarrow> bool"
    and last_used :: "'s \<Rightarrow> int option"
    and use_counter :: "'s \<Rightarrow> int \<Rightarrow> bool \<times> 's"
    and other :: "'s \<Rightarrow> 'e \<Rightarrow> 's"
    and resets :: "'e \<Rightarrow> bool"
  assumes use_iff: "inv s \<Longrightarrow> fst (use_counter s c) \<longleftrightarrow> (\<exists>l. last_used s = Some l \<and> l < c)"
    and use_last: "inv s \<Longrightarrow> last_used (snd (use_counter s c)) = (if fst (use_counter s c) then Some c else last_used s)"
    and use_inv: "inv s \<Longrightarrow> inv (snd (use_counter s c))"
    and other_last: "inv s \<Longrightarrow> \<not> resets e \<Longrightarrow> last_used (other s e) = last_used s \<or> last_used (other s e) = None"
    and other_inv: "inv s \<Longrightarrow> inv (other s e)"
begin

lemma accepted_above:
  assumes "inv s" "\<forall>e. Inr e \<in> set h \<longrightarrow> \<not> resets e"
  shows "sorted_wrt (<) (accepted use_counter other s h)
    \<and> (\<forall>c\<in>set (accepted use_counter other s h). \<exists>l. last_used s = Some l \<and> l < c)"
  using assms
proof (induction h arbitrary: s)
  case (Cons x h)
  show ?case
  proof (cases x)
    case (Inl c)
    obtain ok s' where u: "use_counter s c = (ok, s')" by (cases "use_counter s c")
    have IH: "sorted_wrt (<) (accepted use_counter other s' h)
      \<and> (\<forall>d\<in>set (accepted use_counter other s' h). \<exists>l. last_used s' = Some l \<and> l < d)"
      using Cons.IH[of s'] Cons.prems use_inv[of s c] u by auto
    have "last_used s' = (if ok then Some c else last_used s)" "ok \<longleftrightarrow> (\<exists>l. last_used s = Some l \<and> l < c)"
      using use_last[OF Cons.prems(1), of c] use_iff[OF Cons.prems(1), of c] u by auto
    with IH Inl u show ?thesis by fastforce
  next
    case (Inr e)
    then have "\<not> resets e" using Cons.prems(2) by auto
    note last = other_last[OF Cons.prems(1) this]
    have "sorted_wrt (<) (accepted use_counter other (other s e) h)
      \<and> (\<forall>d\<in>set (accepted use_counter other (other s e) h). \<exists>l. last_used (other s e) = Some l \<and> l < d)"
      using Cons.IH[of "other s e"] Cons.prems other_inv[of s e] by auto
    with last Inr show ?thesis by auto
  qed
qed simp

lemma accepted_distinct:
  assumes "inv s" "\<forall>e. Inr e \<in> set h \<longrightarrow> \<not> resets e"
  shows "distinct (accepted use_counter other s h)"
  using accepted_above[OF assms] by (auto simp: strict_sorted_iff)

end

section \<open>The store's guard\<close>

definition totp_last :: "int \<Rightarrow> db \<Rightarrow> int option" where
  "totp_last uid s = map_option totp_last_counter (find (\<lambda>q. totp_user_id q = uid) (user_totp s))"

definition consume :: "int \<Rightarrow> db \<Rightarrow> int \<Rightarrow> bool \<times> db" where
  "consume uid s c = (is_ok (fst (ConsumeTOTPCounter s uid c)), snd (ConsumeTOTPCounter s uid c))"

text \<open>Only a new enrolment starts the counter again; other attempts of the same user are attempts.\<close>

definition restarts :: "int \<Rightarrow> store_op \<Rightarrow> bool" where
  "restarts uid op = (case op of OpSetUserTOTP i _ _ \<Rightarrow> i = uid | OpConsumeTOTPCounter i _ \<Rightarrow> i = uid | _ \<Rightarrow> False)"

lemma find_filter_other: "find P (filter Q xs) = find P xs \<or> find P (filter Q xs) = None"
  if "\<And>x y. x \<in> set xs \<Longrightarrow> y \<in> set xs \<Longrightarrow> P x \<Longrightarrow> P y \<Longrightarrow> x = y"
proof (cases "find P (filter Q xs)")
  case (Some x)
  then have "x \<in> set xs" "P x" by (auto dest: find_SomeD)
  then have "find P xs = Some x" using that by (intro find_unique) auto
  with Some show ?thesis by simp
qed simp

lemma find_update_where_other:
  "(\<And>x. P (f x) = P x) \<Longrightarrow> (\<And>x. P x \<Longrightarrow> \<not> Q x) \<Longrightarrow> find P (update_where Q f xs) = find P xs"
  by (induction xs) auto

lemma find_snoc_other: "\<not> P x \<Longrightarrow> find P (xs @ [x]) = find P xs"
  by (induction xs) auto

lemma totp_unique:
  assumes "store_ok s" "q \<in> set (user_totp s)" "q' \<in> set (user_totp s)" "totp_user_id q = uid" "totp_user_id q' = uid"
  shows "q = q'"
  using store_okD(11)[OF assms(1)] assms(2-) by (auto simp: ok_totp_def dest: uniq_inj)

lemma consume_iff:
  assumes "store_ok s"
  shows "fst (consume uid s c) \<longleftrightarrow> (\<exists>l. totp_last uid s = Some l \<and> l < c)"
proof (cases "find (\<lambda>q. totp_user_id q = uid) (user_totp s)")
  case None
  then have "count_where (\<lambda>q. totp_user_id q = uid \<and> totp_last_counter q < c) (user_totp s) = 0"
    by (auto simp: count_where_0 find_None_iff)
  with None show ?thesis by (simp add: consume_def ConsumeTOTPCounter_def totp_last_def)
next
  case (Some q)
  then have q: "q \<in> set (user_totp s)" "totp_user_id q = uid" by (auto dest: find_SomeD)
  have d: "distinct (user_totp s)"
    using store_okD(11)[OF assms] by (auto simp: ok_totp_def uniq_def distinct_map)
  have "set (filter (\<lambda>q. totp_user_id q = uid \<and> totp_last_counter q < c) (user_totp s))
      = (if totp_last_counter q < c then {q} else {})"
    using q totp_unique[OF assms] by auto
  then have "length (filter (\<lambda>q. totp_user_id q = uid \<and> totp_last_counter q < c) (user_totp s))
      = (if totp_last_counter q < c then 1 else 0)"
    using distinct_card[OF distinct_filter[OF d], of "\<lambda>q. totp_user_id q = uid \<and> totp_last_counter q < c"]
    by (cases "totp_last_counter q < c") simp_all
  with Some show ?thesis by (simp add: consume_def ConsumeTOTPCounter_def totp_last_def count_where_def)
qed

lemma consume_last:
  assumes "store_ok s"
  shows "totp_last uid (snd (consume uid s c)) = (if fst (consume uid s c) then Some c else totp_last uid s)"
proof -
  have "map_option totp_last_counter (find (\<lambda>q. totp_user_id q = uid)
      (update_where (\<lambda>q. totp_user_id q = uid \<and> totp_last_counter q < c) (\<lambda>q. q\<lparr>totp_last_counter := c\<rparr>) qs))
    = map_option (\<lambda>l. if l < c then c else l) (map_option totp_last_counter (find (\<lambda>q. totp_user_id q = uid) qs))" for qs
    by (induction qs) auto
  then have "totp_last uid (snd (consume uid s c)) = map_option (\<lambda>l. if l < c then c else l) (totp_last uid s)"
    unfolding totp_last_def consume_def ConsumeTOTPCounter_def Let_def snd_conv by simp
  then show ?thesis using consume_iff[OF assms, of uid c] by (cases "totp_last uid s") auto
qed

definition same_totp :: "db \<Rightarrow> db \<Rightarrow> bool" where
  "same_totp s s' \<longleftrightarrow> user_totp s' = user_totp s"

lemma same_totp_users:
  "same_totp s (snd (AddUser s n r))" "same_totp s (snd (SetUserEnabled s n e))" "same_totp s (snd (SetUserRole s n r))"
  "same_totp s (snd (AddGatewayKey s n f p l))" "same_totp s (snd (RemoveGatewayKey s n f))"
  by (auto simp: AddUser_def insert_user_def SetUserEnabled_def SetUserRole_def AddGatewayKey_def
      RemoveGatewayKey_def Let_def same_totp_def split: sum.splits prod.splits if_splits)

lemma same_totp_oidc:
  "same_totp s (snd (SetOIDCUsernameMapping s u i p))" "same_totp s (snd (LinkOIDCIdentity s u i sub p))"
  "same_totp s (snd (RemoveOIDCIdentity s u i))"
  "same_totp s (snd (AuthenticateOIDC s c i sub p))"
proof -
  show "same_totp s (snd (SetOIDCUsernameMapping s u i p))" "same_totp s (snd (LinkOIDCIdentity s u i sub p))"
    by (auto simp: SetOIDCUsernameMapping_def LinkOIDCIdentity_def oidc_upsert_def Let_def same_totp_def
        split: sum.splits)
  show "same_totp s (snd (RemoveOIDCIdentity s u i))" by (simp add: RemoveOIDCIdentity_def Let_def same_totp_def)
  show "same_totp s (snd (AuthenticateOIDC s c i sub p))"
    by (auto simp: AuthenticateOIDC_def oidc_resolve_def Let_def same_totp_def
        split: sum.splits option.splits if_splits)
qed

lemma same_totp_groups_identities:
  "same_totp s (snd (AddGroup s g))" "same_totp s (snd (DeleteGroup s g))" "same_totp s (snd (SetGroupMember s g u a))"
  "same_totp s (snd (AddSSHIdentity s a1 b1 c1))" "same_totp s (snd (SetSSHIdentitySecret s i no ci))"
  "same_totp s (snd (DeleteSSHIdentity s a1))"
  by (auto simp: AddGroup_def DeleteGroup_def delete_group_rows_def SetGroupMember_def AddSSHIdentity_def
      SetSSHIdentitySecret_def DeleteSSHIdentity_def Let_def same_totp_def split: sum.splits)

lemma same_totp_targets:
  "same_totp s (snd (AddTarget s t))"
  "same_totp s (snd (SetTargetEnabled s n e))" "same_totp s (snd (SetTargetCredential s i no ci))"
  "same_totp s (snd (SetTargetCredentialKind s i k no ci))" "same_totp s (snd (SetTargetIdentity s i j))"
  "same_totp s (snd (SetTargetHostKey s n a ky))" "same_totp s (snd (UpdateTarget s n h p u))"
proof -
  have "same_totp s (snd (insert_target s t))" by (simp add: insert_target_def Let_def same_totp_def)
  then show "same_totp s (snd (AddTarget s t))"
    by (auto simp: AddTarget_def same_totp_def split: sum.splits prod.splits)
qed (simp_all add: SetTargetEnabled_def SetTargetCredential_def SetTargetCredentialKind_def
      SetTargetIdentity_def SetTargetHostKey_def UpdateTarget_def update_targets_def same_totp_def)

lemma same_totp_rest:
  "same_totp s (snd (DeleteTarget s n))" "same_totp s (snd (AddForwardRule s t h p))"
  "same_totp s (snd (DeleteForwardRule s i))" "same_totp s (snd (Audit s e))"
  "same_totp s (snd (PruneAudit s b))" "same_totp s (snd (SetGrantCapabilities s t k pr a sh sf sc fw))"
  by (auto simp: DeleteTarget_def delete_target_rows_def AddForwardRule_def DeleteForwardRule_def Audit_def
      insert_audit_def PruneAudit_def SetGrantCapabilities_def Let_def same_totp_def split: sum.splits)

lemma same_totp_last: "same_totp s s' \<Longrightarrow> totp_last uid s' = totp_last uid s"
  by (simp add: same_totp_def totp_last_def)

lemma totp_last_set_other: "i \<noteq> uid \<Longrightarrow> totp_last uid (snd (SetUserTOTP s i n c)) = totp_last uid s"
  by (auto simp: SetUserTOTP_def totp_last_def find_snoc_other
      intro!: arg_cong[of _ _ "map_option totp_last_counter"] find_update_where_other)

lemma totp_last_consume_other: "i \<noteq> uid \<Longrightarrow> totp_last uid (snd (ConsumeTOTPCounter s i c)) = totp_last uid s"
  unfolding ConsumeTOTPCounter_def totp_last_def Let_def snd_conv
  by (simp, subst find_update_where_other) auto

lemma totp_last_removed:
  assumes "store_ok s"
  shows "totp_last uid (snd (RemoveUserTOTP s i)) = totp_last uid s \<or> totp_last uid (snd (RemoveUserTOTP s i)) = None"
    and "totp_last uid (snd (DeleteUser s name)) = totp_last uid s \<or> totp_last uid (snd (DeleteUser s name)) = None"
proof -
  have f: "find (\<lambda>q. totp_user_id q = uid) (filter Q (user_totp s)) = find (\<lambda>q. totp_user_id q = uid) (user_totp s)
      \<or> find (\<lambda>q. totp_user_id q = uid) (filter Q (user_totp s)) = None" for Q
    by (rule find_filter_other) (rule totp_unique[OF assms])
  show "totp_last uid (snd (RemoveUserTOTP s i)) = totp_last uid s \<or> totp_last uid (snd (RemoveUserTOTP s i)) = None"
    using f[of "\<lambda>q. totp_user_id q \<noteq> i"] unfolding RemoveUserTOTP_def totp_last_def snd_conv by auto
  show "totp_last uid (snd (DeleteUser s name)) = totp_last uid s \<or> totp_last uid (snd (DeleteUser s name)) = None"
  proof (cases "user_totp (snd (DeleteUser s name)) = user_totp s")
    case False
    then obtain i where "user_totp (snd (DeleteUser s name)) = filter (\<lambda>q. totp_user_id q \<noteq> i) (user_totp s)"
      by (auto simp: DeleteUser_def delete_user_row_def split: sum.splits)
    with f[of "\<lambda>q. totp_user_id q \<noteq> i"] show ?thesis by (auto simp: totp_last_def)
  qed (simp add: totp_last_def)
qed

lemma exec_totp_last:
  assumes "store_ok s" "\<not> restarts uid op"
  shows "totp_last uid (exec s op) = totp_last uid s \<or> totp_last uid (exec s op) = None"
proof (cases op)
  case (OpClock now)
  then show ?thesis by (simp add: totp_last_def)
qed (use assms in \<open>simp_all add: restarts_def totp_last_removed totp_last_set_other totp_last_consume_other
     same_totp_last[OF same_totp_users(1)] same_totp_last[OF same_totp_users(2)] same_totp_last[OF same_totp_users(3)]
     same_totp_last[OF same_totp_users(4)] same_totp_last[OF same_totp_users(5)]
     same_totp_last[OF same_totp_oidc(1)] same_totp_last[OF same_totp_oidc(2)] same_totp_last[OF same_totp_oidc(3)]
     same_totp_last[OF same_totp_oidc(4)] same_totp_groups_identities[THEN same_totp_last]
     same_totp_targets[THEN same_totp_last] same_totp_rest[THEN same_totp_last]\<close>)

interpretation totp_guard: replay_guard store_ok "totp_last uid" "consume uid" exec "restarts uid" for uid :: int
  by unfold_locales (simp_all add: consume_iff consume_last exec_totp_last exec_ok, simp add: consume_def ConsumeTOTPCounter_ok)

text \<open>
  C4: A TOTP counter is accepted at most once per enrolment. Over any history of a reachable database,
  attempts for a user interleaved with any store operations but a new enrolment of that user, the
  accepted counters are strictly increasing, so none is accepted twice, and nothing is accepted at or
  below the counter stored at the start.
\<close>

theorem totp_counter_once:
  assumes "reachable s" "\<forall>op. Inr op \<in> set h \<longrightarrow> \<not> restarts uid op"
  shows "sorted_wrt (<) (accepted (consume uid) exec s h)
    \<and> (\<forall>c\<in>set (accepted (consume uid) exec s h). \<exists>l. totp_last uid s = Some l \<and> l < c)"
  by (rule totp_guard.accepted_above[OF reachable_ok[OF assms(1)] assms(2)])

definition enrolled :: db where
  "enrolled = foldl exec (empty_db sample_now) [OpAddUser ''root'' ''admin'', OpSetUserTOTP 1 ''n'' ''c'']"

theorem totp_counter_once_witness:
  "accepted (consume 1) exec enrolled
     [Inl 100, Inl 100, Inr (OpAddUser ''bob'' ''member''), Inl 99, Inl 101] = [100, 101]
   \<and> sorted_wrt (<) [100, 101 :: int]"
proof -
  let ?h = "[Inl 100, Inl 100, Inr (OpAddUser ''bob'' ''member''), Inl 99, Inl 101]"
  have "reachable enrolled" unfolding enrolled_def by (intro reachable_foldl reachable.new)
  moreover have "\<forall>op. Inr op \<in> set ?h \<longrightarrow> \<not> restarts 1 op" by (simp add: restarts_def)
  moreover have a: "accepted (consume 1) exec enrolled ?h = [100, 101]" by code_simp
  ultimately show ?thesis using totp_counter_once[of enrolled ?h 1] unfolding a by blast
qed

end
