(* ===== verification/Store_Steps.thy ===== *)
theory Store_Steps
  imports Store
begin

text \<open>
  The statements of concurrent sessions. The four operations of \<^verbatim>\<open>internal/store/store.go\<close> that guard the last administrator read,
  check and then write, in statements of their own. Here their writing statements are steps that may come any
  time after the check, between other sessions' steps: what they keep without the check, and what it takes for the guard to hold.
\<close>

section \<open>Steps\<close>

text \<open>
  A step of the store: an operation run to its end, or the last statement alone of \<open>SetUserEnabled\<close>, \<open>SetUserRole\<close>,
  \<open>DeleteUser\<close> or \<open>RemoveGatewayKey\<close>, for the user id that its earlier statements found.
\<close>

datatype store_step =
    Whole store_op
  | EnabledStatement int bool
  | RoleStatement int string
  | DeleteStatement int
  | KeyStatement int string

fun exec_step :: "db \<Rightarrow> store_step \<Rightarrow> db" where
  "exec_step s (Whole op) = exec s op"
| "exec_step s (EnabledStatement i en) =
     s\<lparr>users := update_where (\<lambda>r. users_id r = i) (\<lambda>r. r\<lparr>users_enabled := en\<rparr>) (users s)\<rparr>"
| "exec_step s (RoleStatement i role) = (if validRole role
     then s\<lparr>users := update_where (\<lambda>r. users_id r = i) (\<lambda>r. r\<lparr>users_role := role\<rparr>) (users s)\<rparr> else s)"
| "exec_step s (DeleteStatement i) = delete_user_row s i"
| "exec_step s (KeyStatement i fp) =
     s\<lparr>gateway_keys := filter (\<lambda>k. \<not> (Key_UserID k = i \<and> Key_Fingerprint k = fp)) (gateway_keys s)\<rparr>"

text \<open>What the operation's check asked for, as the database is when its statement runs.\<close>

fun check_holds :: "db \<Rightarrow> store_step \<Rightarrow> bool" where
  "check_holds s (Whole op) \<longleftrightarrow> True"
| "check_holds s (EnabledStatement i en) \<longleftrightarrow> (case UserByID s i of Inl _ \<Rightarrow> True
     | Inr u \<Rightarrow> \<not> en \<and> User_Role u = RoleAdmin \<longrightarrow> is_ok (ensureOtherUsableAdmin s i))"
| "check_holds s (RoleStatement i role) \<longleftrightarrow> (case UserByID s i of Inl _ \<Rightarrow> True
     | Inr u \<Rightarrow> User_Role u = RoleAdmin \<and> role \<noteq> RoleAdmin \<longrightarrow> is_ok (ensureOtherUsableAdmin s i))"
| "check_holds s (DeleteStatement i) \<longleftrightarrow> (case UserByID s i of Inl _ \<Rightarrow> True
     | Inr u \<Rightarrow> User_Role u = RoleAdmin \<longrightarrow> is_ok (ensureOtherUsableAdmin s i))"
| "check_holds s (KeyStatement i fp) \<longleftrightarrow> (case UserByID s i of Inl _ \<Rightarrow> True
     | Inr u \<Rightarrow> User_Role u = RoleAdmin \<and> User_Enabled u \<and> count_where (\<lambda>k. Key_UserID k = i) (gateway_keys s) \<le> 1
         \<longrightarrow> is_ok (ensureOtherUsableAdmin s i))"

text \<open>No check has become stale in a sequence of steps.\<close>

fun checks_hold :: "db \<Rightarrow> store_step list \<Rightarrow> bool" where
  "checks_hold s [] \<longleftrightarrow> True"
| "checks_hold s (x # xs) \<longleftrightarrow> check_holds s x \<and> checks_hold (exec_step s x) xs"

section \<open>An operation is its check and its statement\<close>

text \<open>An operation that ends in success was a step whose check held, and one that ends in an error changed nothing.\<close>

lemma UserByName_ID: "store_ok s \<Longrightarrow> UserByName s name = Inr u \<Longrightarrow> UserByID s (User_ID u) = Inr u"
  using UserByID_found[of s] by (fastforce dest!: UserByName_InrD)

lemma guarded_operations:
  assumes "store_ok s"
  shows "snd (SetUserEnabled s name en) = s \<or> (\<exists>i. check_holds s (EnabledStatement i en)
      \<and> snd (SetUserEnabled s name en) = exec_step s (EnabledStatement i en))"
    "snd (SetUserRole s name role) = s \<or> (\<exists>i. check_holds s (RoleStatement i role)
      \<and> snd (SetUserRole s name role) = exec_step s (RoleStatement i role))"
    "snd (DeleteUser s name) = s \<or> (\<exists>i. check_holds s (DeleteStatement i) \<and> snd (DeleteUser s name) = exec_step s (DeleteStatement i))"
    "snd (RemoveGatewayKey s name fp) = s \<or> (\<exists>i. check_holds s (KeyStatement i fp)
      \<and> snd (RemoveGatewayKey s name fp) = exec_step s (KeyStatement i fp))"
  using UserByName_ID[OF assms, of name]
  by (auto simp: SetUserEnabled_def SetUserRole_def DeleteUser_def RemoveGatewayKey_def Let_def is_ok_iff
      split: sum.splits if_splits intro!: exI[of _ "User_ID (case UserByName s name of Inr u \<Rightarrow> u)"])

section \<open>What the steps keep\<close>

lemma exec_step_ok: "store_ok s \<Longrightarrow> store_ok (exec_step s x)"
proof (cases x)
  case (KeyStatement i fp)
  assume "store_ok s"
  with store_okD(2)[OF this] KeyStatement show ?thesis
    by (auto simp: ok_keys_def intro!: store_ok_set_leaf rowids_filter uniq_filter refs_filter)
qed (auto simp: exec_ok delete_user_row_ok image_update_where dest: store_okD intro!: store_ok_set_users ok_users_update)

lemma exec_steps_ok: "store_ok s \<Longrightarrow> store_ok (foldl exec_step s xs)"
  by (induction xs arbitrary: s) (simp_all add: exec_step_ok)

text \<open>A statement whose check still holds keeps an administrator who can log in.\<close>

lemma ensure_ok_iff: "is_ok (ensureOtherUsableAdmin s i) \<longleftrightarrow> (\<exists>u. usable s u \<and> users_id u \<noteq> i)"
  using ensureOtherUsableAdmin_iff[of s i] by (auto simp: is_ok_iff)

lemma UserByID_row: "store_ok s \<Longrightarrow> r \<in> set (users s) \<Longrightarrow> users_id r = i \<Longrightarrow> UserByID s i = Inr (scanUser s r)"
  using UserByID_found by blast

lemma update_users_admin:
  assumes ok: "store_ok s" and ad: "usable_admin s" and f: "\<And>r. users_id (f r) = users_id r"
    and keep: "\<And>r. r \<in> set (users s) \<Longrightarrow> users_id r = i \<Longrightarrow> is_ok (ensureOtherUsableAdmin s i) \<or> users_role r \<noteq> RoleAdmin
      \<or> (users_role (f r) = RoleAdmin \<and> (users_enabled r \<longrightarrow> users_enabled (f r)))"
  shows "usable_admin (s\<lparr>users := update_where (\<lambda>x. users_id x = i) f (users s)\<rparr>)"
proof (cases "\<exists>r\<in>set (users s). users_id r = i")
  case True
  then obtain r where r: "r \<in> set (users s)" "users_id r = i" by blast
  from keep[OF this] have "ensureOtherUsableAdmin s (users_id r) = Inr () \<or> users_role r \<noteq> RoleAdmin
      \<or> (users_role (f r) = RoleAdmin \<and> (users_enabled r \<longrightarrow> users_enabled (f r)))"
    using r(2) by (auto simp: is_ok_iff)
  from usable_admin_update[OF ok ad r(1), of f, OF f this] show ?thesis by (simp add: r(2))
next
  case False
  then have "update_where (\<lambda>x. users_id x = i) f (users s) = users s" by (auto simp: update_where_def intro: map_idI)
  with ad show ?thesis by simp
qed

lemma delete_statement_admin:
  assumes ok: "store_ok s" and ad: "usable_admin s"
    and keep: "\<And>r. r \<in> set (users s) \<Longrightarrow> users_id r = i \<Longrightarrow> is_ok (ensureOtherUsableAdmin s i) \<or> users_role r \<noteq> RoleAdmin"
  shows "usable_admin (delete_user_row s i)"
proof -
  obtain v where v: "usable s v" using ad by (auto simp: usable_admin_def)
  then obtain w where "usable s w" "users_id w \<noteq> i" using keep[of v] by (auto simp: usable_def ensure_ok_iff)
  then show ?thesis by (rule usable_other_kept) (auto simp: delete_user_row_def)
qed

lemma key_statement_admin:
  assumes ok: "store_ok s" and ad: "usable_admin s"
    and keep: "\<And>r. r \<in> set (users s) \<Longrightarrow> users_id r = i \<Longrightarrow> is_ok (ensureOtherUsableAdmin s i)
      \<or> \<not> (users_role r = RoleAdmin \<and> users_enabled r \<and> count_where (\<lambda>k. Key_UserID k = i) (gateway_keys s) \<le> 1)"
  shows "usable_admin (s\<lparr>gateway_keys := filter (\<lambda>k. \<not> (Key_UserID k = i \<and> Key_Fingerprint k = fp)) (gateway_keys s)\<rparr>)"
    (is "usable_admin ?s'")
proof -
  have other: "usable_admin ?s'" if "usable s w" "users_id w \<noteq> i" for w
    by (rule usable_other_kept[OF that]) auto
  obtain v where v: "usable s v" using ad by (auto simp: usable_admin_def)
  show ?thesis
  proof (cases "users_id v = i \<and> \<not> is_ok (ensureOtherUsableAdmin s i)")
    case True
    then have "\<not> count_where (\<lambda>k. Key_UserID k = i) (gateway_keys s) \<le> 1" using keep[of v] v by (auto simp: usable_def)
    from other_key_left[OF ok this, of fp] v True have "usable ?s' v" by (auto simp: usable_def)
    then show ?thesis by (auto simp: usable_admin_def)
  qed (use other v in \<open>auto simp: ensure_ok_iff\<close>)
qed

lemma exec_step_admin:
  assumes ok: "store_ok s" and ad: "usable_admin s" and c: "check_holds s x"
  shows "usable_admin (exec_step s x)"
proof (cases x)
  case (EnabledStatement i en)
  with c UserByID_row[OF ok] show ?thesis by (auto intro!: update_users_admin[OF ok ad])
next
  case (RoleStatement i role)
  with c ad UserByID_row[OF ok] show ?thesis by (auto intro!: update_users_admin[OF ok ad])
next
  case (DeleteStatement i)
  with c UserByID_row[OF ok] show ?thesis by (auto intro!: delete_statement_admin[OF ok ad])
next
  case (KeyStatement i fp)
  with c UserByID_row[OF ok] show ?thesis unfolding KeyStatement exec_step.simps
    by (intro key_statement_admin[OF ok ad]) fastforce
qed (simp add: exec_admin[OF ok ad])

lemma exec_steps_admin:
  "store_ok s \<Longrightarrow> usable_admin s \<Longrightarrow> checks_hold s xs \<Longrightarrow> usable_admin (foldl exec_step s xs)"
  by (induction xs arbitrary: s) (simp_all add: exec_step_ok exec_step_admin)

lemma checks_hold_whole: "checks_hold s (map Whole ops)"
  by (induction ops arbitrary: s) simp_all

text \<open>
  Without it they need not: of two calls that passed their checks, the second to write finds that its check no longer holds,
  and takes the last administrator away.
\<close>

lemma stale_check_race:
  "\<not> checks_hold two_admins [EnabledStatement 1 False, EnabledStatement 2 False]
   \<and> \<not> usable_admin (foldl exec_step two_admins [EnabledStatement 1 False, EnabledStatement 2 False])"
proof
  show "\<not> checks_hold two_admins [EnabledStatement 1 False, EnabledStatement 2 False]" by code_simp
  have "list_all (\<lambda>u. \<not> users_enabled u) (users (foldl exec_step two_admins [EnabledStatement 1 False, EnabledStatement 2 False]))"
    by code_simp
  then show "\<not> usable_admin (foldl exec_step two_admins [EnabledStatement 1 False, EnabledStatement 2 False])"
    by (auto simp: usable_admin_def usable_def list_all_iff)
qed

end
