(* ===== verification/Totp.thy ===== *)
theory Totp
  imports Go_Strings
begin

unbundle bit_operations_syntax

text \<open>
  \<^verbatim>\<open>internal/totp/totp.go\<close>: time-based one-time passwords over HMAC-SHA-1, the base 32 form of their
  secrets, the \<open>otpauth\<close> URI and the drawing of its QR code. SHA-1, HMAC, base 32 and URL escaping are
  Go's standard library; the QR encoder is a package outside the repository and its bitmap an argument.
\<close>

section \<open>SHA-1 and HMAC\<close>

text \<open>A 32-bit word is a natural number below \<open>2 ^ 32\<close>, the wrap-around of addition written out.\<close>

type_synonym w32 = nat

definition rotl32 :: "nat \<Rightarrow> w32 \<Rightarrow> w32" where
  "rotl32 n x = x * 2 ^ n mod 4294967296 + x div 2 ^ (32 - n)"

definition be32 :: "string \<Rightarrow> w32" where
  "be32 bs = foldl (\<lambda>v c. 256 * v + byte c) 0 bs"

definition bytes_of_w32 :: "w32 \<Rightarrow> string" where
  "bytes_of_w32 w = [chr (w div 16777216 mod 256), chr (w div 65536 mod 256), chr (w div 256 mod 256), chr (w mod 256)]"

fun words_of :: "string \<Rightarrow> w32 list" where
  "words_of (a # b # c # d # rest) = be32 [a, b, c, d] # words_of rest"
| "words_of _ = []"

text \<open>The next word of the message schedule, from the words so far, newest first.\<close>

fun sha1_expand :: "nat \<Rightarrow> w32 list \<Rightarrow> w32 list" where
  "sha1_expand 0 ws = ws"
| "sha1_expand (Suc n) ws =
     sha1_expand n (rotl32 1 (ws ! 2 XOR ws ! 7 XOR ws ! 13 XOR ws ! 15) # ws)"

type_synonym sha1_state = "w32 \<times> w32 \<times> w32 \<times> w32 \<times> w32"

text \<open>The function and the constant of a round.\<close>

definition sha1_fk :: "nat \<Rightarrow> w32 \<Rightarrow> w32 \<Rightarrow> w32 \<Rightarrow> w32" where
  "sha1_fk t b c d =
     (if t < 20 then ((b AND c) OR ((4294967295 - b) AND d)) + 0x5A827999
      else if t < 40 then (b XOR c XOR d) + 0x6ED9EBA1
      else if t < 60 then ((b AND c) OR (b AND d) OR (c AND d)) + 0x8F1BBCDC
      else (b XOR c XOR d) + 0xCA62C1D6)"

fun sha1_rounds :: "nat \<Rightarrow> w32 list \<Rightarrow> sha1_state \<Rightarrow> sha1_state" where
  "sha1_rounds t [] st = st"
| "sha1_rounds t (w # ws) (a, b, c, d, e) =
     sha1_rounds (Suc t) ws
       ((rotl32 5 a + sha1_fk t b c d + e + w) mod 4294967296, a, rotl32 30 b, c, d)"

definition sha1_block :: "sha1_state \<Rightarrow> string \<Rightarrow> sha1_state" where
  "sha1_block h block =
     (case sha1_rounds 0 (rev (sha1_expand 64 (rev (words_of block)))) h of
        (a, b, c, d, e) \<Rightarrow> (case h of (h0, h1, h2, h3, h4) \<Rightarrow>
          ((h0 + a) mod 4294967296, (h1 + b) mod 4294967296, (h2 + c) mod 4294967296,
           (h3 + d) mod 4294967296, (h4 + e) mod 4294967296)))"

definition be64 :: "nat \<Rightarrow> string" where
  "be64 n = map (\<lambda>k. chr (n div 2 ^ k mod 256)) [56, 48, 40, 32, 24, 16, 8, 0]"

definition sha1_pad :: "string \<Rightarrow> string" where
  "sha1_pad m = m @ chr 0x80 # replicate ((119 - length m mod 64) mod 64) (chr 0) @ be64 (8 * length m mod 2 ^ 64)"

fun sha1_blocks :: "nat \<Rightarrow> sha1_state \<Rightarrow> string \<Rightarrow> sha1_state" where
  "sha1_blocks 0 h m = h"
| "sha1_blocks (Suc n) h m = sha1_blocks n (sha1_block h (take 64 m)) (drop 64 m)"

definition sha1 :: "string \<Rightarrow> string" where
  "sha1 m =
     (let p = sha1_pad m
      in case sha1_blocks (length p div 64) (0x67452301, 0xEFCDAB89, 0x98BADCFE, 0x10325476, 0xC3D2E1F0) p of
           (a, b, c, d, e) \<Rightarrow> concat (map bytes_of_w32 [a, b, c, d, e]))"

definition xor_byte :: "nat \<Rightarrow> char \<Rightarrow> char" where
  "xor_byte k c = chr (k XOR byte c)"

definition hmac_sha1 :: "string \<Rightarrow> string \<Rightarrow> string" where
  "hmac_sha1 key msg =
     (let k0 = (if length key > 64 then sha1 key else key);
          k = k0 @ replicate (64 - length k0) (chr 0)
      in sha1 (map (xor_byte 0x5C) k @ sha1 (map (xor_byte 0x36) k @ msg)))"

section \<open>Base 32\<close>

definition b32_char :: "nat \<Rightarrow> char" where
  "b32_char d = (if d < 26 then chr (65 + d) else chr (24 + d))"

definition b32_val :: "char \<Rightarrow> nat option" where
  "b32_val c = (if 65 \<le> byte c \<and> byte c \<le> 90 then Some (byte c - 65)
     else if 50 \<le> byte c \<and> byte c \<le> 55 then Some (byte c - 24) else None)"

text \<open>\<open>EncodeToString\<close> without padding: five bytes give eight characters, a shorter rest fewer.\<close>

fun b32_encode :: "string \<Rightarrow> string" where
  "b32_encode (a # b # c # d # e # rest) =
     b32_char (byte a div 8) # b32_char (byte a mod 8 * 4 + byte b div 64) # b32_char (byte b div 2 mod 32)
     # b32_char (byte b mod 2 * 16 + byte c div 16) # b32_char (byte c mod 16 * 2 + byte d div 128)
     # b32_char (byte d div 4 mod 32) # b32_char (byte d mod 4 * 8 + byte e div 32)
     # b32_char (byte e mod 32) # b32_encode rest"
| "b32_encode [] = []"
| "b32_encode [a] = [b32_char (byte a div 8), b32_char (byte a mod 8 * 4)]"
| "b32_encode [a, b] =
     [b32_char (byte a div 8), b32_char (byte a mod 8 * 4 + byte b div 64), b32_char (byte b div 2 mod 32),
      b32_char (byte b mod 2 * 16)]"
| "b32_encode [a, b, c] =
     [b32_char (byte a div 8), b32_char (byte a mod 8 * 4 + byte b div 64), b32_char (byte b div 2 mod 32),
      b32_char (byte b mod 2 * 16 + byte c div 16), b32_char (byte c mod 16 * 2)]"
| "b32_encode [a, b, c, d] =
     [b32_char (byte a div 8), b32_char (byte a mod 8 * 4 + byte b div 64), b32_char (byte b div 2 mod 32),
      b32_char (byte b mod 2 * 16 + byte c div 16), b32_char (byte c mod 16 * 2 + byte d div 128),
      b32_char (byte d div 4 mod 32), b32_char (byte d mod 4 * 8)]"

text \<open>
  One group of up to eight values as bytes. A group of one, three or six values, which no encoder
  makes, yields no byte at all and no error, as in Go.
\<close>

definition b32_byte :: "nat list \<Rightarrow> nat \<Rightarrow> char" where
  "b32_byte v i = chr ((case i of
       0 \<Rightarrow> v ! 0 * 8 + v ! 1 div 4
     | Suc 0 \<Rightarrow> v ! 1 * 64 + v ! 2 * 2 + v ! 3 div 16
     | Suc (Suc 0) \<Rightarrow> v ! 3 * 16 + v ! 4 div 2
     | Suc (Suc (Suc 0)) \<Rightarrow> v ! 4 * 128 + v ! 5 * 4 + v ! 6 div 8
     | _ \<Rightarrow> v ! 6 * 32 + v ! 7) mod 256)"

definition b32_group :: "nat list \<Rightarrow> string" where
  "b32_group v =
     (let n = (if length v = 8 then 5 else if length v = 7 then 4 else if length v = 5 then 3
               else if length v = 4 then 2 else if length v = 2 then 1 else 0)
      in map (b32_byte v) [0..<n])"

fun b32_groups :: "nat list \<Rightarrow> string" where
  "b32_groups (a # b # c # d # e # f # g # h # rest) = b32_group [a, b, c, d, e, f, g, h] @ b32_groups rest"
| "b32_groups v = b32_group v"

fun all_some :: "'a option list \<Rightarrow> 'a list option" where
  "all_some [] = Some []"
| "all_some (None # xs) = None"
| "all_some (Some x # xs) = map_option (Cons x) (all_some xs)"

definition b32_decode :: "string \<Rightarrow> string option" where
  "b32_decode s =
     map_option b32_groups (all_some (map b32_val (filter (\<lambda>c. byte c \<noteq> 10 \<and> byte c \<noteq> 13) s)))"

text \<open>
  \<open>strings.ToUpper\<close> as far as it can produce a character of the alphabet: besides the ASCII letters,
  U+0131 and U+017F have the ASCII upper cases I and S. Every other code point outside ASCII stays
  outside it and is left as it is here; base 32 has no such character.
\<close>

definition upper_rune :: "nat \<Rightarrow> nat" where
  "upper_rune r = (if 97 \<le> r \<and> r \<le> 122 then r - 32 else if r = 0x131 then 0x49
     else if r = 0x17F then 0x53 else r)"

definition ToUpper :: "string \<Rightarrow> string" where
  "ToUpper s = concat (map (\<lambda>(r, _). EncodeRune (upper_rune r)) (chunks s))"

section \<open>Codes\<close>

definition Period :: int where "Period = 30"
definition Digits :: nat where "Digits = 6"

definition GenerateSecret :: "string \<Rightarrow> string" where
  "GenerateSecret random = b32_encode random"

text \<open>The dynamic truncation of a 20-byte digest.\<close>

definition hotp_value :: "string \<Rightarrow> nat" where
  "hotp_value digest =
     (let offset = byte (last digest) mod 16
      in foldl (\<lambda>v c. 256 * v + byte c) 0 (take 4 (drop offset digest)) mod 2 ^ 31)"

definition codeAt :: "string \<Rightarrow> int \<Rightarrow> string res" where
  "codeAt secret counter =
     (case b32_decode (ToUpper (TrimSpace secret)) of
        None \<Rightarrow> Inl (Err ''illegal base32 data'')
      | Some key \<Rightarrow>
          let msg = be64 (unat (word_of_int counter :: 64 word));
              value = hotp_value (hmac_sha1 key msg)
          in Inr (zero_pad Digits (value mod 1000000)))"

text \<open>Division of 64-bit integers truncates towards zero.\<close>

definition counter_of :: "int \<Rightarrow> int" where
  "counter_of unix = (if unix \<ge> 0 then unix div Period else - ((- unix) div Period))"

definition Code :: "string \<Rightarrow> int \<Rightarrow> (string \<times> int) res" where
  "Code secret unix =
     (case codeAt secret (counter_of unix) of Inl e \<Rightarrow> Inl e | Inr code \<Rightarrow> Inr (code, counter_of unix))"

definition Validate :: "string \<Rightarrow> string \<Rightarrow> int \<Rightarrow> int option" where
  "Validate secret candidate0 unix =
     (let candidate = TrimSpace candidate0; counter = counter_of unix
      in if length candidate \<noteq> Digits then None
         else map_option (\<lambda>offset. counter + offset)
                (find (\<lambda>offset. codeAt secret (counter + offset) = Inr candidate) [-1, 0, 1]))"

section \<open>The otpauth URI\<close>

text \<open>
  \<open>url.PathEscape\<close> and \<open>url.QueryEscape\<close>: the unreserved characters, and in a path segment also
  \<open>$ & + : = @\<close>, stand for themselves; a space of a query is a plus sign; every other byte is
  written as a percent sign and two upper-case hexadecimal digits.
\<close>

definition upper_hex :: "nat \<Rightarrow> char" where
  "upper_hex d = (if d < 10 then chr (48 + d) else chr (55 + d))"

definition unreserved :: "char \<Rightarrow> bool" where
  "unreserved c \<longleftrightarrow> is_digit c \<or> 65 \<le> byte c \<and> byte c \<le> 90 \<or> 97 \<le> byte c \<and> byte c \<le> 122 \<or> c \<in> set ''-_.~''"

definition percent :: "char \<Rightarrow> string" where
  "percent c = [CHR ''%'', upper_hex (byte c div 16), upper_hex (byte c mod 16)]"

definition PathEscape :: "string \<Rightarrow> string" where
  "PathEscape s = concat (map (\<lambda>c. if unreserved c \<or> c \<in> set ''$&+:=@'' then [c] else percent c) s)"

definition QueryEscape :: "string \<Rightarrow> string" where
  "QueryEscape s = concat (map (\<lambda>c. if c = CHR '' '' then ''+'' else if unreserved c then [c] else percent c) s)"

text \<open>\<open>Values.Encode\<close> writes the keys in ascending order: the issuer comes first.\<close>

definition URI :: "string \<Rightarrow> string \<Rightarrow> string \<Rightarrow> string" where
  "URI issuer account secret =
     ''otpauth://totp/'' @ PathEscape account @ ''?issuer='' @ QueryEscape issuer @ ''&secret='' @ QueryEscape secret"

section \<open>Drawing the QR code\<close>

text \<open>
  \<open>QR\<close> from the bitmap on: two rows of modules per line, with a quiet zone of four modules. \<open>glyphs\<close>
  are the full block, the upper half, the lower half and the space.
\<close>

definition module_at :: "bool list list \<Rightarrow> int \<Rightarrow> int \<Rightarrow> bool" where
  "module_at bitmap x y \<longleftrightarrow> y \<ge> 0 \<and> y < int (length bitmap) \<and> x \<ge> 0 \<and> x < int (length bitmap)
     \<and> bitmap ! nat y ! nat x"

definition glyph :: "bool \<Rightarrow> bool \<Rightarrow> string" where
  "glyph upper lower = (if upper \<and> lower then EncodeRune 0x2588 else if upper then EncodeRune 0x2580
     else if lower then EncodeRune 0x2584 else '' '')"

definition QR_line :: "bool list list \<Rightarrow> int \<Rightarrow> string list" where
  "QR_line bitmap y = map (\<lambda>x. glyph (module_at bitmap x y) (module_at bitmap x (y + 1)))
     [-4..int (length bitmap) + 3]"

fun QR_rows :: "nat \<Rightarrow> int \<Rightarrow> bool list list \<Rightarrow> string list list" where
  "QR_rows 0 y bitmap = []"
| "QR_rows (Suc n) y bitmap =
     (if y < int (length bitmap) + 4 then QR_line bitmap y # QR_rows n (y + 2) bitmap else [])"

text \<open>The loop runs at most once for every two of the \<open>size + 8\<close> rows, and once more.\<close>

definition QR :: "bool list list \<Rightarrow> string list" where
  "QR bitmap = map concat (QR_rows (length bitmap + 8) (- 4) bitmap)"

section \<open>Secrets survive base 32\<close>

lemma split_2_32: "(b::nat) div 64 * 64 + b div 2 mod 32 * 2 + b mod 2 = b"
  using mod_mult2_eq[of b 2 32] div_mult_mod_eq[of b 64] by simp

lemma split_4_32: "(d::nat) div 128 * 128 + d div 4 mod 32 * 4 + d mod 4 = d"
  using mod_mult2_eq[of d 4 32] div_mult_mod_eq[of d 128] by simp

lemma b32_arith:
  fixes a b c d e :: nat
  assumes "a < 256" "b < 256" "c < 256" "d < 256" "e < 256"
  shows "(a div 8 * 8 + (a mod 8 * 4 + b div 64) div 4) mod 256 = a"
    "((a mod 8 * 4 + b div 64) * 64 + b div 2 mod 32 * 2 + (b mod 2 * 16 + c div 16) div 16) mod 256 = b"
    "((b mod 2 * 16 + c div 16) * 16 + (c mod 16 * 2 + d div 128) div 2) mod 256 = c"
    "((c mod 16 * 2 + d div 128) * 128 + d div 4 mod 32 * 4 + (d mod 4 * 8 + e div 32) div 8) mod 256 = d"
    "((d mod 4 * 8 + e div 32) * 32 + e mod 32) mod 256 = e"
proof -
  have q: "b div 64 < 4" "c div 16 < 16" "d div 128 < 2" "e div 32 < 8"
    using assms by (simp_all add: div_less_iff_less_mult)
  have m: "(k * 256 + x) mod 256 = x" if "x < 256" for k x :: nat using that by simp
  show "(a div 8 * 8 + (a mod 8 * 4 + b div 64) div 4) mod 256 = a" using q assms by (simp add: divmod_add)
  have "(a mod 8 * 4 + b div 64) * 64 + b div 2 mod 32 * 2 + (b mod 2 * 16 + c div 16) div 16
      = a mod 8 * 256 + (b div 64 * 64 + b div 2 mod 32 * 2 + b mod 2)"
    using q by (simp add: divmod_add algebra_simps)
  then show "((a mod 8 * 4 + b div 64) * 64 + b div 2 mod 32 * 2 + (b mod 2 * 16 + c div 16) div 16) mod 256 = b"
    unfolding split_2_32 using m assms by metis
  have "(b mod 2 * 16 + c div 16) * 16 + (c mod 16 * 2 + d div 128) div 2 = b mod 2 * 256 + c"
    using q by (simp add: divmod_add algebra_simps)
  then show "((b mod 2 * 16 + c div 16) * 16 + (c mod 16 * 2 + d div 128) div 2) mod 256 = c"
    using m assms by metis
  have "(c mod 16 * 2 + d div 128) * 128 + d div 4 mod 32 * 4 + (d mod 4 * 8 + e div 32) div 8
      = c mod 16 * 256 + (d div 128 * 128 + d div 4 mod 32 * 4 + d mod 4)"
    using q by (simp add: divmod_add algebra_simps)
  then show "((c mod 16 * 2 + d div 128) * 128 + d div 4 mod 32 * 4 + (d mod 4 * 8 + e div 32) div 8) mod 256 = d"
    unfolding split_4_32 using m assms by metis
  have "(d mod 4 * 8 + e div 32) * 32 + e mod 32 = d mod 4 * 256 + e"
    by (simp add: algebra_simps)
  then show "((d mod 4 * 8 + e div 32) * 32 + e mod 32) mod 256 = e" using m assms by metis
qed

lemma b32_bounds:
  fixes a b c d e :: nat
  assumes "a < 256" "b < 256" "c < 256" "d < 256" "e < 256"
  shows "a div 8 < 32" "a mod 8 * 4 + b div 64 < 32" "b div 2 mod 32 < 32" "b mod 2 * 16 + c div 16 < 32"
    "c mod 16 * 2 + d div 128 < 32" "d div 4 mod 32 < 32" "d mod 4 * 8 + e div 32 < 32" "e mod 32 < 32"
    "a mod 8 * 4 < 32" "b mod 2 * 16 < 32" "c mod 16 * 2 < 32" "d mod 4 * 8 < 32"
proof -
  have q: "b div 64 < 4" "c div 16 < 16" "d div 128 < 2" "e div 32 < 8" "a div 8 < 32"
    using assms by (simp_all add: div_less_iff_less_mult)
  have r: "a mod 8 < 8" "b mod 2 < 2" "c mod 16 < 16" "d mod 4 < 4" by simp_all
  show "a div 8 < 32" "a mod 8 * 4 + b div 64 < 32" "b div 2 mod 32 < 32" "b mod 2 * 16 + c div 16 < 32"
    "c mod 16 * 2 + d div 128 < 32" "d div 4 mod 32 < 32" "d mod 4 * 8 + e div 32 < 32" "e mod 32 < 32"
    "a mod 8 * 4 < 32" "b mod 2 * 16 < 32" "c mod 16 * 2 < 32" "d mod 4 * 8 < 32"
    using q r by simp_all
qed

lemma b32_val_char: "d < 32 \<Longrightarrow> b32_val (b32_char d) = Some d"
  by (auto simp: b32_val_def b32_char_def)

text \<open>The values an encoding stands for.\<close>

fun b32_values :: "string \<Rightarrow> nat list" where
  "b32_values (a # b # c # d # e # rest) =
     [byte a div 8, byte a mod 8 * 4 + byte b div 64, byte b div 2 mod 32, byte b mod 2 * 16 + byte c div 16,
      byte c mod 16 * 2 + byte d div 128, byte d div 4 mod 32, byte d mod 4 * 8 + byte e div 32, byte e mod 32]
     @ b32_values rest"
| "b32_values [] = []"
| "b32_values [a] = [byte a div 8, byte a mod 8 * 4]"
| "b32_values [a, b] = [byte a div 8, byte a mod 8 * 4 + byte b div 64, byte b div 2 mod 32, byte b mod 2 * 16]"
| "b32_values [a, b, c] = [byte a div 8, byte a mod 8 * 4 + byte b div 64, byte b div 2 mod 32,
     byte b mod 2 * 16 + byte c div 16, byte c mod 16 * 2]"
| "b32_values [a, b, c, d] = [byte a div 8, byte a mod 8 * 4 + byte b div 64, byte b div 2 mod 32,
     byte b mod 2 * 16 + byte c div 16, byte c mod 16 * 2 + byte d div 128, byte d div 4 mod 32, byte d mod 4 * 8]"

lemma b32_encode_values: "b32_encode s = map b32_char (b32_values s)"
  by (induction s rule: b32_encode.induct) simp_all

lemma b32_bounds_byte:
  "byte a div 8 < 32" "byte a mod 8 * 4 + byte b div 64 < 32" "byte b div 2 mod 32 < 32"
  "byte b mod 2 * 16 + byte c div 16 < 32" "byte c mod 16 * 2 + byte d div 128 < 32" "byte d div 4 mod 32 < 32"
  "byte d mod 4 * 8 + byte e div 32 < 32" "byte e mod 32 < 32" "byte a mod 8 * 4 < 32" "byte b mod 2 * 16 < 32"
  "byte c mod 16 * 2 < 32" "byte d mod 4 * 8 < 32"
  by (rule b32_bounds[of "byte a" "byte b" "byte c" "byte d" "byte e"]; rule byte_less_256)+

lemma b32_values_bound: "list_all (\<lambda>v. v < 32) (b32_values s)"
  by (induction s rule: b32_values.induct)
    (simp_all only: b32_values.simps list_all_append list.pred_inject b32_bounds_byte HOL.simp_thms)

lemma all_some_map: "(\<And>x. x \<in> set xs \<Longrightarrow> f x = Some (g x)) \<Longrightarrow> all_some (map f xs) = Some (map g xs)"
  by (induction xs) auto

text \<open>The bytes of a full group and of the shorter ones.\<close>

lemma upt_small:
  "[0..<5] = [0, Suc 0, Suc (Suc 0), Suc (Suc (Suc 0)), Suc (Suc (Suc (Suc 0)))]"
  "[0..<4] = [0, Suc 0, Suc (Suc 0), Suc (Suc (Suc 0))]"
  "[0..<3] = [0, Suc 0, Suc (Suc 0)]" "[0..<2] = [0, Suc 0]" "[0..<Suc 0] = [0]"
  by code_simp+

lemma b32_group_bytes:
  "b32_group [v0, v1] = [chr ((v0 * 8 + v1 div 4) mod 256)]"
  "b32_group [v0, v1, v2, v3] = [chr ((v0 * 8 + v1 div 4) mod 256), chr ((v1 * 64 + v2 * 2 + v3 div 16) mod 256)]"
  "b32_group [v0, v1, v2, v3, v4] = [chr ((v0 * 8 + v1 div 4) mod 256), chr ((v1 * 64 + v2 * 2 + v3 div 16) mod 256),
     chr ((v3 * 16 + v4 div 2) mod 256)]"
  "b32_group [v0, v1, v2, v3, v4, v5, v6] = [chr ((v0 * 8 + v1 div 4) mod 256),
     chr ((v1 * 64 + v2 * 2 + v3 div 16) mod 256), chr ((v3 * 16 + v4 div 2) mod 256),
     chr ((v4 * 128 + v5 * 4 + v6 div 8) mod 256)]"
  "b32_group [v0, v1, v2, v3, v4, v5, v6, v7] = [chr ((v0 * 8 + v1 div 4) mod 256),
     chr ((v1 * 64 + v2 * 2 + v3 div 16) mod 256), chr ((v3 * 16 + v4 div 2) mod 256),
     chr ((v4 * 128 + v5 * 4 + v6 div 8) mod 256), chr ((v6 * 32 + v7) mod 256)]"
  by (simp_all add: b32_group_def b32_byte_def upt_small)

lemma b32_arith_byte:
  "chr ((byte a div 8 * 8 + (byte a mod 8 * 4 + byte b div 64) div 4) mod 256) = a"
  "chr (((byte a mod 8 * 4 + byte b div 64) * 64 + byte b div 2 mod 32 * 2 + (byte b mod 2 * 16 + byte c div 16) div 16) mod 256) = b"
  "chr (((byte b mod 2 * 16 + byte c div 16) * 16 + (byte c mod 16 * 2 + byte d div 128) div 2) mod 256) = c"
  "chr (((byte c mod 16 * 2 + byte d div 128) * 128 + byte d div 4 mod 32 * 4 + (byte d mod 4 * 8 + byte e div 32) div 8) mod 256) = d"
  "chr (((byte d mod 4 * 8 + byte e div 32) * 32 + byte e mod 32) mod 256) = e"
  by (simp_all only: b32_arith[of "byte a" "byte b" "byte c" "byte d" "byte e", OF byte_less_256 byte_less_256
      byte_less_256 byte_less_256 byte_less_256] chr_byte)

lemma b32_arith_last:
  "chr ((byte a div 8 * 8 + byte a mod 8 * 4 div 4) mod 256) = a"
  "chr (((byte a mod 8 * 4 + byte b div 64) * 64 + byte b div 2 mod 32 * 2 + byte b mod 2 * 16 div 16) mod 256) = b"
  "chr (((byte b mod 2 * 16 + byte c div 16) * 16 + byte c mod 16 * 2 div 2) mod 256) = c"
  "chr (((byte c mod 16 * 2 + byte d div 128) * 128 + byte d div 4 mod 32 * 4 + byte d mod 4 * 8 div 8) mod 256) = d"
  using b32_arith_byte(1)[of a "chr 0"] b32_arith_byte(2)[of a b "chr 0"] b32_arith_byte(3)[of b c "chr 0"]
    b32_arith_byte(4)[of c d "chr 0"]
  by (simp_all only: byte_chr[of 0] div_0 add_0_right zero_less_numeral)

lemma b32_groups_values: "b32_groups (b32_values s) = s"
proof (induction s rule: b32_values.induct)
  case (1 a b c d e rest)
  then show ?case
    by (simp only: b32_values.simps append.simps b32_groups.simps b32_group_bytes b32_arith_byte)
qed (simp_all only: b32_values.simps b32_groups.simps b32_group_bytes b32_arith_byte b32_arith_last, simp add: b32_group_def)

lemma b32_decode_encode: "b32_decode (b32_encode s) = Some s"
proof -
  have b: "\<forall>v\<in>set (b32_values s). v < 32" using b32_values_bound[of s] by (simp add: list_all_iff)
  have "byte (b32_char v) \<noteq> 10 \<and> byte (b32_char v) \<noteq> 13" if "v < 32" for v
    using that by (auto simp: b32_char_def)
  with b have "filter (\<lambda>c. byte c \<noteq> 10 \<and> byte c \<noteq> 13) (b32_encode s) = b32_encode s"
    by (auto simp: b32_encode_values filter_id_conv)
  moreover have "all_some (map (\<lambda>v. b32_val (b32_char v)) (b32_values s)) = Some (map (\<lambda>v. v) (b32_values s))"
    using b by (intro all_some_map) (simp add: b32_val_char)
  ultimately show ?thesis by (simp add: b32_decode_def b32_encode_values comp_def b32_groups_values)
qed

text \<open>An encoded secret has only letters and digits, so trimming and upper-casing leave it alone.\<close>

lemma b32_encode_chars: "c \<in> set (b32_encode s) \<Longrightarrow> 65 \<le> byte c \<and> byte c \<le> 90 \<or> 50 \<le> byte c \<and> byte c \<le> 55"
proof -
  assume "c \<in> set (b32_encode s)"
  then obtain v where "c = b32_char v" "v < 32"
    using b32_values_bound[of s] by (auto simp: b32_encode_values list_all_iff)
  then show ?thesis by (auto simp: b32_char_def)
qed

lemma ToUpper_fixed:
  assumes "ascii s" "\<And>c. c \<in> set s \<Longrightarrow> \<not> (97 \<le> byte c \<and> byte c \<le> 122)"
  shows "ToUpper s = s"
proof -
  have "concat (map (\<lambda>c. EncodeRune (upper_rune (byte c))) t) = t" if "ascii t" "set t \<subseteq> set s" for t
    using that assms(2) by (induction t) (auto simp: upper_rune_def EncodeRune_def)
  with assms(1) show ?thesis by (simp add: ToUpper_def chunks_ascii comp_def)
qed

text \<open>
  A secret made by \<open>GenerateSecret\<close> stands for the random bytes it was made from: the code it gives
  for a counter is the truncated HMAC of the counter under exactly those bytes.
\<close>

theorem GenerateSecret_codes:
  "codeAt (GenerateSecret random) counter =
     Inr (zero_pad 6 (hotp_value (hmac_sha1 random (be64 (unat (word_of_int counter :: 64 word)))) mod 1000000))"
proof -
  have a: "ascii (b32_encode random)"
    unfolding ascii_def list_all_iff using b32_encode_chars[of _ random] by fastforce
  moreover have "TrimSpace (b32_encode random) = b32_encode random"
    by (rule TrimSpace_no_space[OF a]) (auto dest!: b32_encode_chars simp: unicode_IsSpace_def)
  moreover have "ToUpper (b32_encode random) = b32_encode random"
    by (rule ToUpper_fixed[OF a]) (auto dest!: b32_encode_chars)
  ultimately show ?thesis by (simp add: codeAt_def GenerateSecret_def b32_decode_encode Digits_def)
qed

section \<open>The first test vector of RFC 6238\<close>

text \<open>
  SHA-1 over the four blocks that HMAC hashes for the secret and the counter of the vector, evaluated
  step by step; together they fix the model of the standard library to the published value.
\<close>

lemma expand_step:
  "0 < n \<Longrightarrow> sha1_expand n ws = sha1_expand (n - 1) (rotl32 1 (ws ! 2 XOR ws ! 7 XOR ws ! 13 XOR ws ! 15) # ws)"
  by (cases n) auto

text \<open>The bytes of those blocks, and the two digests.\<close>

definition ipad_block :: "nat list" where
  "ipad_block = [7, 4, 5, 2, 3, 0, 1, 14, 15, 6, 7, 4, 5, 2, 3, 0, 1, 14, 15, 6, 54, 54, 54, 54, 54, 54, 54, 54,
       54, 54, 54, 54, 54, 54, 54, 54, 54, 54, 54, 54, 54, 54, 54, 54, 54, 54, 54, 54, 54, 54, 54, 54,
       54, 54, 54, 54, 54, 54, 54, 54, 54, 54, 54, 54]"

definition inner_tail :: "nat list" where
  "inner_tail = [0, 0, 0, 0, 0, 0, 0, 1, 128, 0, 0, 0, 0, 0, 0, 0, 0, 0, 0, 0, 0, 0, 0, 0, 0, 0, 0, 0, 0, 0, 0,
       0, 0, 0, 0, 0, 0, 0, 0, 0, 0, 0, 0, 0, 0, 0, 0, 0, 0, 0, 0, 0, 0, 0, 0, 0, 0, 0, 0, 0, 0, 0, 2,
       64]"

definition opad_block :: "nat list" where
  "opad_block = [109, 110, 111, 104, 105, 106, 107, 100, 101, 108, 109, 110, 111, 104, 105, 106, 107, 100, 101,
       108, 92, 92, 92, 92, 92, 92, 92, 92, 92, 92, 92, 92, 92, 92, 92, 92, 92, 92, 92, 92, 92, 92,
       92, 92, 92, 92, 92, 92, 92, 92, 92, 92, 92, 92, 92, 92, 92, 92, 92, 92, 92, 92, 92, 92]"

definition outer_tail :: "nat list" where
  "outer_tail = [174, 57, 138, 210, 229, 57, 214, 92, 93, 162, 218, 156, 138, 97, 52, 65, 151, 57, 58, 140, 128,
       0, 0, 0, 0, 0, 0, 0, 0, 0, 0, 0, 0, 0, 0, 0, 0, 0, 0, 0, 0, 0, 0, 0, 0, 0, 0, 0, 0, 0, 0, 0, 0,
       0, 0, 0, 0, 0, 0, 0, 0, 0, 2, 160]"

definition inner_digest :: "nat list" where
  "inner_digest = [174, 57, 138, 210, 229, 57, 214, 92, 93, 162, 218, 156, 138, 97, 52, 65, 151, 57, 58, 140]"

definition outer_digest :: "nat list" where
  "outer_digest = [117, 164, 138, 25, 212, 203, 225, 0, 100, 78, 138, 193, 57, 126, 234, 116, 122, 45, 51, 171]"

lemma rfc6238_block1:
  "sha1_block (1732584193, 4023233417, 2562383102, 271733878, 3285377520)
     (map chr ipad_block)
   = (3418885260, 4120502956, 3183003698, 3667247555, 4167577637)"
  by (simp add: ipad_block_def sha1_block_def be32_def expand_step rotl32_def sha1_fk_def del: sha1_expand.simps(2))

lemma rfc6238_block2:
  "sha1_block (3418885260, 4120502956, 3183003698, 3667247555, 4167577637)
     (map chr inner_tail)
   = (2923006674, 3845772892, 1570953884, 2321626177, 2537110156)"
  by (simp add: inner_tail_def sha1_block_def be32_def expand_step rotl32_def sha1_fk_def del: sha1_expand.simps(2))

lemma rfc6238_block3:
  "sha1_block (1732584193, 4023233417, 2562383102, 271733878, 3285377520)
     (map chr opad_block)
   = (2562571725, 1491106814, 2908544490, 985678603, 4262488101)"
  by (simp add: opad_block_def sha1_block_def be32_def expand_step rotl32_def sha1_fk_def del: sha1_expand.simps(2))

lemma rfc6238_block4:
  "sha1_block (2562571725, 1491106814, 2908544490, 985678603, 4262488101)
     (map chr outer_tail)
   = (1973717529, 3570131200, 1682868929, 964618868, 2049782699)"
  by (simp add: outer_tail_def sha1_block_def be32_def expand_step rotl32_def sha1_fk_def del: sha1_expand.simps(2))

lemma two_blocks:
  assumes "length x = 64" "length y = 64"
  shows "sha1_blocks (length (x @ y) div 64) h (x @ y) = sha1_block (sha1_block h x) y"
  using assms by (simp add: numeral_2_eq_2)

lemma digest_bytes:
  "concat (map bytes_of_w32 [2923006674, 3845772892, 1570953884, 2321626177, 2537110156]) = map chr inner_digest"
  "concat (map bytes_of_w32 [1973717529, 3570131200, 1682868929, 964618868, 2049782699]) = map chr outer_digest"
  by code_simp+

lemma rfc6238_hmac: "hmac_sha1 ''12345678901234567890'' (be64 1) = map chr outer_digest"
proof -
  let ?key = "''12345678901234567890''"
  let ?k = "?key @ replicate 44 (chr 0)"
  have "sha1_pad (map (xor_byte 0x36) ?k @ be64 1) = map chr ipad_block @ map chr inner_tail" by code_simp
  moreover have "length (map chr ipad_block) = 64" "length (map chr inner_tail) = 64"
    by (simp_all add: ipad_block_def inner_tail_def)
  ultimately have inner: "sha1 (map (xor_byte 0x36) ?k @ be64 1) = map chr inner_digest"
    by (simp add: sha1_def two_blocks rfc6238_block1 rfc6238_block2 digest_bytes del: length_append append.simps map_append concat.simps list.map)
  have "sha1_pad (map (xor_byte 0x5C) ?k @ map chr inner_digest) = map chr opad_block @ map chr outer_tail" by code_simp
  moreover have "length (map chr opad_block) = 64" "length (map chr outer_tail) = 64"
    by (simp_all add: opad_block_def outer_tail_def)
  ultimately have outer: "sha1 (map (xor_byte 0x5C) ?k @ map chr inner_digest) = map chr outer_digest"
    by (simp add: sha1_def two_blocks rfc6238_block3 rfc6238_block4 digest_bytes del: length_append append.simps map_append concat.simps list.map)
  have "length ?key = 20" by code_simp
  then show ?thesis using inner outer by (simp add: hmac_sha1_def)
qed

lemma rfc6238_code: "codeAt ''GEZDGNBVGY3TQOJQGEZDGNBVGY3TQOJQ'' 1 = Inr ''287082''"
proof -
  have d: "b32_decode (ToUpper (TrimSpace ''GEZDGNBVGY3TQOJQGEZDGNBVGY3TQOJQ''))
      = Some ''12345678901234567890''" by code_simp
  have v: "zero_pad Digits (hotp_value (map chr outer_digest) mod 1000000) = ''287082''" by code_simp
  have "unat (word_of_int 1 :: 64 word) = 1" by simp
  then show ?thesis by (simp only: codeAt_def d option.case Let_def rfc6238_hmac v)
qed

text \<open>
  The code for the secret of RFC 6238's test vectors at time 59 is the published one.
\<close>

theorem codeAt_rfc6238: "Code ''GEZDGNBVGY3TQOJQGEZDGNBVGY3TQOJQ'' 59 = Inr (''287082'', 1)"
  by (simp add: Code_def counter_of_def Period_def rfc6238_code)

section \<open>Codes have six digits, and validation is a window of three\<close>

lemma codeAt_shape:
  assumes "codeAt secret counter = Inr code"
  shows "length code = 6" "list_all is_digit code"
proof -
  obtain n where "code = zero_pad 6 (n mod 1000000)"
    using assms by (auto simp: codeAt_def Digits_def Let_def split: option.splits)
  then show "length code = 6" "list_all is_digit code"
    using length_zero_pad[of "n mod 1000000" 6] by (simp_all add: zero_pad_digits)
qed

text \<open>
  Every code is a string of exactly six decimal digits, whatever the secret and the counter (also
  for a secret that decodes to the empty key, or to one longer than a hash block).
\<close>

theorem codeAt_six_digits:
  assumes "codeAt secret counter = Inr code"
  shows "length code = 6 \<and> list_all is_digit code"
  using codeAt_shape[OF assms] by simp

theorem codeAt_six_digits_witness: "length ''287082'' = 6 \<and> list_all is_digit ''287082''"
proof -
  have "unat (word_of_int 1 :: 64 word) = 1" by simp
  moreover have "b32_decode (ToUpper (TrimSpace ''GEZDGNBVGY3TQOJQGEZDGNBVGY3TQOJQ'')) = Some ''12345678901234567890''"
    "zero_pad Digits (hotp_value (map chr outer_digest) mod 1000000) = ''287082''" by code_simp+
  ultimately have "codeAt ''GEZDGNBVGY3TQOJQGEZDGNBVGY3TQOJQ'' 1 = Inr ''287082''"
    by (simp only: codeAt_def option.case Let_def rfc6238_hmac)
  then show ?thesis by (rule codeAt_six_digits)
qed

lemma TrimSpace_digits: "list_all is_digit s \<Longrightarrow> TrimSpace s = s"
  by (rule TrimSpace_no_space)
    (auto simp: ascii_def list_all_iff is_digit_def unicode_IsSpace_def)

text \<open>
  C10: A candidate is accepted exactly when, trimmed, it is the code of the current 30-second step or of
  one of its two neighbours; the counter returned is the earliest such step, so it is never further than
  one from the current one and its code is the candidate.
\<close>

theorem Validate_exact:
  "Validate secret candidate unix = Some c \<longleftrightarrow>
     codeAt secret c = Inr (TrimSpace candidate)
     \<and> (c = counter_of unix - 1
        \<or> c = counter_of unix \<and> codeAt secret (counter_of unix - 1) \<noteq> Inr (TrimSpace candidate)
        \<or> c = counter_of unix + 1 \<and> codeAt secret (counter_of unix - 1) \<noteq> Inr (TrimSpace candidate)
            \<and> codeAt secret (counter_of unix) \<noteq> Inr (TrimSpace candidate))"
proof -
  let ?k = "counter_of unix" and ?m = "\<lambda>c. codeAt secret c = Inr (TrimSpace candidate)"
  have len: "length (TrimSpace candidate) = 6" if "?m c" for c
    by (rule codeAt_shape(1)[OF that])
  have v: "Validate secret candidate unix = (if length (TrimSpace candidate) \<noteq> 6 then None
      else if ?m (?k - 1) then Some (?k - 1) else if ?m ?k then Some ?k else if ?m (?k + 1) then Some (?k + 1) else None)"
    by (simp add: Validate_def Digits_def)
  show ?thesis unfolding v using len by auto
qed

text \<open>
  The code shown by an authenticator is accepted as long as the gateway's clock has moved at most
  one step past it or is at most one step behind it, with white space around it or not.
\<close>

theorem Validate_current:
  assumes "codeAt secret c = Inr code" "\<bar>c - counter_of unix\<bar> \<le> 1" "TrimSpace candidate = code"
  shows "\<exists>c'. Validate secret candidate unix = Some c' \<and> c' \<le> c"
proof -
  let ?k = "counter_of unix"
  have len: "length (TrimSpace candidate) = Digits" using codeAt_shape(1)[OF assms(1)] assms(3) by (simp add: Digits_def)
  have "c = ?k - 1 \<or> c = ?k \<or> c = ?k + 1" using assms(2) by auto
  with assms(1,3) len show ?thesis by (auto simp: Validate_def Let_def)
qed

theorem Validate_current_witness:
  "\<exists>c'. Validate ''GEZDGNBVGY3TQOJQGEZDGNBVGY3TQOJQ'' '' 287082'' 61 = Some c' \<and> c' \<le> 1"
proof -
  have "\<bar>1 - counter_of 61\<bar> \<le> 1" "TrimSpace '' 287082'' = ''287082''" by code_simp+
  with rfc6238_code show ?thesis by (rule Validate_current)
qed

section \<open>The URI can be taken apart again\<close>

text \<open>\<open>url.PathUnescape\<close> and, with plus signs read as spaces, \<open>url.QueryUnescape\<close>.\<close>

definition unhex :: "char \<Rightarrow> nat option" where
  "unhex c = (if is_digit c then Some (byte c - 48)
     else if 65 \<le> byte c \<and> byte c \<le> 70 then Some (byte c - 55)
     else if 97 \<le> byte c \<and> byte c \<le> 102 then Some (byte c - 87) else None)"

fun unescape :: "bool \<Rightarrow> string \<Rightarrow> string option" where
  "unescape q [] = Some []"
| "unescape q (c # cs) =
     (if c = CHR ''%'' then
        (case cs of
           a # b # rest \<Rightarrow>
             (case (unhex a, unhex b) of
                (Some h, Some l) \<Rightarrow> map_option (Cons (chr (16 * h + l))) (unescape q rest)
              | _ \<Rightarrow> None)
         | _ \<Rightarrow> None)
      else map_option (Cons (if q \<and> c = CHR ''+'' then CHR '' '' else c)) (unescape q cs))"

lemma unhex_upper_hex: "d < 16 \<Longrightarrow> unhex (upper_hex d) = Some d"
  by (auto simp: unhex_def upper_hex_def is_digit_def)

lemma unescape_percent: "unescape q (percent c @ s) = map_option (Cons c) (unescape q s)"
proof -
  have "byte c div 16 < 16" using byte_less_256[of c] by (simp add: div_less_iff_less_mult)
  then show ?thesis by (simp add: percent_def unhex_upper_hex)
qed

lemma unreserved_not_special: "unreserved c \<Longrightarrow> c \<noteq> CHR ''%'' \<and> c \<noteq> CHR ''+'' \<and> c \<noteq> CHR ''?'' \<and> c \<noteq> CHR ''&''"
  by (auto simp: unreserved_def is_digit_def)

lemma unescape_PathEscape: "unescape False (PathEscape s) = Some s"
proof (induction s)
  case (Cons c s)
  have "unescape False ((if unreserved c \<or> c \<in> set ''$&+:=@'' then [c] else percent c) @ PathEscape s) = Some (c # s)"
    using Cons unreserved_not_special[of c] by (auto simp: unescape_percent)
  then show ?case by (simp add: PathEscape_def)
qed (simp add: PathEscape_def)

lemma unescape_QueryEscape: "unescape True (QueryEscape s) = Some s"
proof (induction s)
  case (Cons c s)
  have "unescape True ((if c = CHR '' '' then ''+'' else if unreserved c then [c] else percent c) @ QueryEscape s)
      = Some (c # s)"
    using Cons unreserved_not_special[of c] by (auto simp: unescape_percent)
  then show ?case by (simp add: QueryEscape_def)
qed (simp add: QueryEscape_def)

lemma upper_hex_unreserved: "d < 16 \<Longrightarrow> unreserved (upper_hex d)"
  by (auto simp: upper_hex_def unreserved_def is_digit_def)

lemma percent_chars: "x \<in> set (percent c) \<Longrightarrow> x = CHR ''%'' \<or> unreserved x"
proof -
  have "byte c div 16 < 16" using byte_less_256[of c] by (simp add: div_less_iff_less_mult)
  then show "x \<in> set (percent c) \<Longrightarrow> x = CHR ''%'' \<or> unreserved x"
    by (auto simp: percent_def upper_hex_unreserved)
qed

lemma escapes_chars:
  "x \<in> set (PathEscape s) \<Longrightarrow> x \<noteq> CHR ''?''" "x \<in> set (QueryEscape s) \<Longrightarrow> x \<noteq> CHR ''&'' \<and> x \<noteq> CHR ''?''"
  by (auto simp: PathEscape_def QueryEscape_def split: if_splits dest!: percent_chars unreserved_not_special)

text \<open>
  The URI handed to authenticator apps is unambiguous: it splits at its only question mark into the
  label and a query of exactly two parameters, and unescaping them gives back the account, the issuer and
  the secret, whatever bytes they hold.
\<close>

theorem URI_roundtrip:
  "\<exists>label i k. Split (URI issuer account secret) (CHR ''?'') = [''otpauth://totp/'' @ label, ''issuer='' @ i @ ''&secret='' @ k]
     \<and> Split (''issuer='' @ i @ ''&secret='' @ k) (CHR ''&'') = [''issuer='' @ i, ''secret='' @ k]
     \<and> unescape False label = Some account \<and> unescape True i = Some issuer \<and> unescape True k = Some secret"
proof -
  let ?l = "''otpauth://totp/'' @ PathEscape account" and ?i = "''issuer='' @ QueryEscape issuer"
    and ?k = "''secret='' @ QueryEscape secret"
  have no: "CHR ''?'' \<notin> set ?l" "CHR ''?'' \<notin> set (?i @ CHR ''&'' # ?k)" "CHR ''&'' \<notin> set ?i" "CHR ''&'' \<notin> set ?k"
    using escapes_chars by auto
  have "Split (?l @ CHR ''?'' # ?i @ CHR ''&'' # ?k) (CHR ''?'') = [?l, ?i @ CHR ''&'' # ?k]"
    unfolding Split_append[OF no(1)] Split_no_sep[OF no(2)] ..
  moreover have "Split (?i @ CHR ''&'' # ?k) (CHR ''&'') = [?i, ?k]"
    unfolding Split_append[OF no(3)] Split_no_sep[OF no(4)] ..
  ultimately show ?thesis
    by (intro exI[of _ "PathEscape account"] exI[of _ "QueryEscape issuer"] exI[of _ "QueryEscape secret"])
      (simp add: URI_def unescape_PathEscape unescape_QueryEscape del: Split.simps)
qed

section \<open>Every module of the QR code is drawn\<close>

lemma QR_rows_nth:
  assumes "int (length bitmap) + 4 - y \<le> 2 * int n"
  shows "length (QR_rows n y bitmap) = nat (int (length bitmap) + 5 - y) div 2
    \<and> (\<forall>i<length (QR_rows n y bitmap). QR_rows n y bitmap ! i = QR_line bitmap (y + 2 * int i))"
  using assms
proof (induction n arbitrary: y)
  case 0
  then have "int (length bitmap) + 5 - y \<le> 1" by simp
  then have "nat (int (length bitmap) + 5 - y) < 2" by linarith
  then show ?case by simp
next
  case (Suc n)
  show ?case
  proof (cases "y < int (length bitmap) + 4")
    case True
    have IH: "length (QR_rows n (y + 2) bitmap) = nat (int (length bitmap) + 5 - (y + 2)) div 2"
      "\<forall>i<length (QR_rows n (y + 2) bitmap). QR_rows n (y + 2) bitmap ! i = QR_line bitmap (y + 2 + 2 * int i)"
      using Suc.IH[of "y + 2"] Suc.prems by auto
    have "nat (int (length bitmap) + 5 - y) = nat (int (length bitmap) + 5 - (y + 2)) + 2" using True by linarith
    then have "nat (int (length bitmap) + 5 - y) div 2 = Suc (nat (int (length bitmap) + 5 - (y + 2)) div 2)" by simp
    with True IH show ?thesis by (auto simp: nth_Cons algebra_simps split: nat.splits)
  next
    case False
    then have "nat (int (length bitmap) + 5 - y) < 2" by linarith
    with False show ?thesis by simp
  qed
qed

lemma glyph_inj: "glyph a b = glyph c d \<longleftrightarrow> a = c \<and> b = d"
proof -
  have n: "glyph True True \<noteq> glyph True False" "glyph True True \<noteq> glyph False True" "glyph True True \<noteq> glyph False False"
    "glyph True False \<noteq> glyph False True" "glyph True False \<noteq> glyph False False" "glyph False True \<noteq> glyph False False"
    by code_simp+
  show ?thesis using n n[symmetric] by (cases a; cases b; cases c; cases d; simp)
qed

text \<open>
  The drawing has one line per two rows of the bitmap with its quiet zone of four modules, each line
  one glyph per column, and the glyph at a place tells exactly the two modules it stands for. The bound on
  the loop is never reached.
\<close>

theorem QR_exact:
  "QR bitmap = map concat (QR_rows (length bitmap + 8) (- 4) bitmap)
    \<and> length (QR_rows (length bitmap + 8) (- 4) bitmap) = (length bitmap + 9) div 2
    \<and> (\<forall>i j. i < (length bitmap + 9) div 2 \<and> j < length bitmap + 8 \<longrightarrow>
         length (QR_rows (length bitmap + 8) (- 4) bitmap ! i) = length bitmap + 8
         \<and> (\<forall>u l. QR_rows (length bitmap + 8) (- 4) bitmap ! i ! j = glyph u l \<longleftrightarrow>
              u = module_at bitmap (int j - 4) (2 * int i - 4) \<and> l = module_at bitmap (int j - 4) (2 * int i - 3)))"
proof -
  let ?n = "length bitmap" and ?rows = "QR_rows (length bitmap + 8) (- 4) bitmap"
  have "nat (int ?n + 9) div 2 = (?n + 9) div 2" by (simp add: nat_add_distrib)
  then have r: "length ?rows = (?n + 9) div 2" "\<forall>i<length ?rows. ?rows ! i = QR_line bitmap (2 * int i - 4)"
    using QR_rows_nth[of bitmap "- 4" "?n + 8"] by auto
  have len: "length (QR_line bitmap y) = ?n + 8" for y by (simp add: QR_line_def)
  have "QR_line bitmap y ! j = glyph (module_at bitmap (int j - 4) y) (module_at bitmap (int j - 4) (y + 1))"
    if "j < ?n + 8" for y j
  proof -
    have "[- 4..int ?n + 3] ! j = int j - 4" using that by (subst nth_upto) auto
    then show ?thesis using that by (simp add: QR_line_def)
  qed
  then have "?rows ! i ! j = glyph u l \<longleftrightarrow>
      u = module_at bitmap (int j - 4) (2 * int i - 4) \<and> l = module_at bitmap (int j - 4) (2 * int i - 3)"
    if "i < (?n + 9) div 2" "j < ?n + 8" for i j u l
    using r that by (auto simp: glyph_inj)
  then show ?thesis using r len by (simp add: QR_def)
qed

theorem QR_exact_witness:
  "length (QR_rows 9 (- 4) [[True]]) = 5 \<and> QR_rows 9 (- 4) [[True]] ! 2 ! 4 = glyph True False"
proof -
  have "module_at [[True]] 0 0" "\<not> module_at [[True]] 0 1" by code_simp+
  then show ?thesis using QR_exact[of "[[True]]"] by (simp del: QR_rows.simps)
qed

end
