(* ===== verification/Gateway.thy ===== *)
theory Gateway
  imports Config Downstream Store_Replay Store_Steps Totp
begin

text \<open>
  \<^verbatim>\<open>internal/gateway\<close> (\<^verbatim>\<open>server.go\<close>, \<^verbatim>\<open>auth.go\<close>, \<^verbatim>\<open>routing.go\<close>): the session limiter, public-key, OIDC and
  TOTP authentication, and the three ways to a target (the menu loop, a routed session, a forwarded
  TCP connection). The server's state is a record; every handler takes it and returns it with the
  effects it had, in order. What the SSH library, the peers and the user answer is in \<^verbatim>\<open>world\<close>, with what
  other sessions do to the store while a connection to a target lasts.
\<close>

section \<open>State\<close>

record Server =
  srv_cfg :: Config
  srv_store :: db
  srv_cipher :: Cipher
  srv_oidc :: bool
  srv_total :: int
  srv_perUser :: "int \<rightharpoonup> int"

record authState =
  as_User :: User
  as_TargetName :: string
  as_AuthMethod :: string

record Permissions =
  perm_user :: string
  perm_target :: string
  perm_method :: string

text \<open>What an inbound session or connection tells about itself.\<close>

record inbound =
  in_User :: string
  in_Remote :: string
  in_Method :: string
  in_Pty :: bool
  in_Subsystem :: string
  in_RawCommand :: string
  in_Agent :: agent_offer

record world =
  w_aead :: aead
  w_ssh :: ssh_lib
  w_peer :: ssh_peer
  w_shlex :: "string \<Rightarrow> string list res"
  w_quoted :: "string \<Rightarrow> string"
  w_shell :: "ssh_client \<Rightarrow> shell_env"
  w_subsystem :: "ssh_client \<Rightarrow> subsystem_env"
  w_session :: "ssh_client \<Rightarrow> session_env"
  w_tcp :: "ssh_client \<Rightarrow> string \<Rightarrow> unit res"
  w_accept :: "unit res"
  w_bytes :: "int \<times> int"
  w_elapsed :: int
  w_meanwhile :: "store_step list"

text \<open>
  The effects outside the store. A connection attempt is recorded with the database it was decided on.
\<close>

datatype effect =
    Print string
  | Exit int
  | DialTarget db Target
  | DialThrough db Target string
  | Proxy string
  | Reject string string
  | Accept
  | Unwind string

section \<open>The session limiter\<close>

definition acquire :: "Server \<Rightarrow> User \<Rightarrow> bool \<times> Server" where
  "acquire s u =
     (let mine = (case srv_perUser s (User_ID u) of Some n \<Rightarrow> n | None \<Rightarrow> 0)
      in if srv_total s \<ge> MaxSessions (srv_cfg s) \<or> mine \<ge> MaxSessionsPerUser (srv_cfg s) then (False, s)
         else (True, s\<lparr>srv_total := srv_total s + 1,
                       srv_perUser := (srv_perUser s)(User_ID u \<mapsto> mine + 1)\<rparr>))"

definition release :: "Server \<Rightarrow> User \<Rightarrow> Server" where
  "release s u =
     (let mine = (case srv_perUser s (User_ID u) of Some n \<Rightarrow> n | None \<Rightarrow> 0) - 1
      in s\<lparr>srv_total := srv_total s - 1,
           srv_perUser := (if mine \<le> 0 then (srv_perUser s)(User_ID u := None)
                           else (srv_perUser s)(User_ID u \<mapsto> mine))\<rparr>)"

section \<open>Audit records\<close>

definition jsonString :: "(string \<times> json) list \<Rightarrow> string" where
  "jsonString v = marshal_map v"

definition sanitize_text :: "string \<Rightarrow> string" where
  "sanitize_text v = (if length v > 240 then take 240 v else v)"

definition sanitizeError :: "go_error option \<Rightarrow> string" where
  "sanitizeError err = (case err of None \<Rightarrow> [] | Some e \<Rightarrow> sanitize_text (err_text e))"

definition event :: "int option \<Rightarrow> string \<Rightarrow> string \<Rightarrow> string \<Rightarrow> int option \<Rightarrow> string \<Rightarrow> string \<Rightarrow> AuditEvent" where
  "event actor claimed source typ target outcome details =
     \<lparr>Audit_ID = 0, Audit_At = [], Audit_ActorUserID = actor, Audit_ClaimedUsername = claimed,
      Audit_SourceAddress = source, Audit_EventType = typ, Audit_TargetID = target, Audit_Outcome = outcome,
      Audit_Details = details\<rparr>"

text \<open>An audit record whose error is ignored.\<close>

definition record_event :: "Server \<Rightarrow> AuditEvent \<Rightarrow> Server" where
  "record_event s e = s\<lparr>srv_store := snd (Audit (srv_store s) e)\<rparr>"

definition nullableUserID :: "User res \<Rightarrow> int option" where
  "nullableUserID r = (case r of Inl _ \<Rightarrow> None | Inr u \<Rightarrow> Some (User_ID u))"

section \<open>Authentication\<close>

definition authPermissions :: "string \<Rightarrow> string \<Rightarrow> string \<Rightarrow> Permissions" where
  "authPermissions username target method = \<lparr>perm_user = username, perm_target = target, perm_method = method\<rparr>"

definition splitRoutedUsername :: "string \<Rightarrow> (string \<times> string) res" where
  "splitRoutedUsername value =
     (let parts = Split value (CHR ''+'') in
      if length parts = 1 then Inr (ToLower (parts ! 0), [])
      else if length parts \<noteq> 2 \<or> parts ! 0 = [] \<or> parts ! 1 = []
      then Inl (Err ''username must be USER or USER+TARGET'')
      else if \<not> is_ok (ValidateUsername (parts ! 0)) then Inl (Err ''invalid gateway username'')
      else Inr (ToLower (parts ! 0), ToLower (parts ! 1)))"

definition stateFromContext :: "Server \<Rightarrow> inbound \<Rightarrow> authState option" where
  "stateFromContext s ctx =
     (case splitRoutedUsername (in_User ctx) of
        Inl _ \<Rightarrow> None
      | Inr (username, target) \<Rightarrow>
          (case UserByName (srv_store s) username of
             Inl _ \<Rightarrow> None
           | Inr u \<Rightarrow>
               if \<not> User_Enabled u then None
               else Some \<lparr>as_User = u, as_TargetName = target, as_AuthMethod = in_Method ctx\<rparr>))"

definition auditTOTP :: "Server \<Rightarrow> User \<Rightarrow> string \<Rightarrow> string \<Rightarrow> string \<Rightarrow> Server" where
  "auditTOTP s u username source outcome =
     record_event s (event (Some (User_ID u)) username source ''gateway.auth.totp'' None outcome [])"

text \<open>\<open>challenge\<close> is the client's answer to a prompt, given the prompt's title and instruction; \<open>now\<close> is the clock.\<close>

type_synonym challenge = "string \<Rightarrow> string \<Rightarrow> string list res"

definition totp_verify :: "aead \<Rightarrow> int \<Rightarrow> Server \<Rightarrow> int \<Rightarrow> string \<Rightarrow> (Server, unit) outcome" where
  "totp_verify A now s uid answer =
     (case UserTOTP (srv_store s) uid of
        Inl e \<Rightarrow> (Inl e, s)
      | Inr config \<Rightarrow>
          (case DecryptTOTP A (srv_cipher s) uid (TOTP_Nonce config) (TOTP_Ciphertext config) of
             Inl e \<Rightarrow> (Inl e, s)
           | Inr secret \<Rightarrow>
               (case Totp.Validate secret answer now of
                  None \<Rightarrow> (Inl (Err ''invalid TOTP code''), s)
                | Some counter \<Rightarrow>
                    let (r, d) = ConsumeTOTPCounter (srv_store s) uid counter in (r, s\<lparr>srv_store := d\<rparr>))))"

definition authenticateTOTP :: "aead \<Rightarrow> int \<Rightarrow> challenge \<Rightarrow> Server \<Rightarrow> User \<Rightarrow> string \<Rightarrow> string \<Rightarrow> (Server, unit) outcome" where
  "authenticateTOTP A now challenge s u username source =
     (case challenge ''SSHGateW two-factor authentication'' [] of
        Inr [answer] \<Rightarrow>
          (case totp_verify A now s (User_ID u) answer of
             (Inl (Panic m), s') \<Rightarrow> (Inl (Panic m), s')
           | (Inl _, s') \<Rightarrow> (Inl (Err ''invalid TOTP code''), auditTOTP s' u username source ''denied'')
           | (Inr _, s') \<Rightarrow> (Inr (), auditTOTP s' u username source ''success''))
      | _ \<Rightarrow> (Inl (Err ''TOTP required''), auditTOTP s u username source ''denied''))"

text \<open>
  The public-key callback of \<open>serverConfig\<close>: it denies, grants, or asks for the second factor
  (\<open>PartialSuccessError\<close>), whose callback is \<open>second_factor\<close>.
\<close>

datatype key_auth = KeyDenied go_error | KeyGranted Permissions | KeyPartial User string string

definition serverConfig :: "ssh_lib \<Rightarrow> Server \<Rightarrow> string \<Rightarrow> string \<Rightarrow> pubkey \<Rightarrow> key_auth \<times> Server" where
  "serverConfig L s user source key =
     (case splitRoutedUsername user of
        Inl e \<Rightarrow> (KeyDenied e, s)
      | Inr (username, target) \<Rightarrow>
          let fp = FingerprintSHA256 L key;
              r = AuthenticateKey (srv_store s) username fp;
              s' = record_event s (event (nullableUserID r) username source ''gateway.auth.key'' None
                     (if is_ok r then ''success'' else ''denied'')
                     (jsonString [(''key_fingerprint'', JStr fp), (''target'', JStr target)]))
          in case r of
               Inl _ \<Rightarrow> (KeyDenied (Err ''permission denied''), s')
             | Inr u \<Rightarrow>
                 if \<not> User_TOTPEnabled u then (KeyGranted (authPermissions username target ''publickey''), s')
                 else (KeyPartial u username target, s'))"

definition second_factor :: "aead \<Rightarrow> int \<Rightarrow> challenge \<Rightarrow> Server \<Rightarrow> User \<Rightarrow> string \<Rightarrow> string \<Rightarrow> string
    \<Rightarrow> (Server, Permissions) outcome" where
  "second_factor A now challenge s u username target source =
     (case authenticateTOTP A now challenge s u username source of
        (Inl e, s') \<Rightarrow> (Inl e, s')
      | (Inr _, s') \<Rightarrow> (Inr (authPermissions username target ''publickey''), s'))"

text \<open>A login with a key, as the library runs the callbacks.\<close>

definition key_login :: "ssh_lib \<Rightarrow> aead \<Rightarrow> int \<Rightarrow> challenge \<Rightarrow> Server \<Rightarrow> string \<Rightarrow> string \<Rightarrow> pubkey
    \<Rightarrow> (Server, Permissions) outcome" where
  "key_login L A now challenge s user source key =
     (case serverConfig L s user source key of
        (KeyDenied e, s') \<Rightarrow> (Inl e, s')
      | (KeyGranted p, s') \<Rightarrow> (Inr p, s')
      | (KeyPartial u username target, s') \<Rightarrow> second_factor A now challenge s' u username target source)"

section \<open>OIDC\<close>

definition validOIDCSubject :: "string \<Rightarrow> bool" where
  "validOIDCSubject subject \<longleftrightarrow> subject \<noteq> [] \<and> length subject \<le> 512 \<and> ValidString subject"

definition auditOIDC :: "Server \<Rightarrow> int option \<Rightarrow> string \<Rightarrow> string \<Rightarrow> string \<Rightarrow> string \<Rightarrow> string \<Rightarrow> Server" where
  "auditOIDC s userID username source target subject outcome =
     record_event s (event userID username source ''gateway.auth.oidc'' None outcome
       (jsonString ([(''issuer'', JStr (OIDC_IssuerURL (OIDC (srv_cfg s)))), (''target'', JStr target)]
          @ (if validOIDCSubject subject then [(''subject'', JStr subject)] else []))))"

text \<open>
  What the device login gives: \<open>Begin\<close> the user code and the addresses to open, \<open>Complete\<close> the verified
  subject and username.
\<close>

record device_login =
  dl_UserCode :: string
  dl_VerificationURI :: string
  dl_VerificationURIComplete :: string

record identity_provider =
  idp_Begin :: "device_login res"
  idp_Complete :: "device_login \<Rightarrow> (string \<times> string) res"

definition oidc_instruction :: "device_login \<Rightarrow> string" where
  "oidc_instruction login =
     ''Open '' @ dl_VerificationURI login @ [chr 10] @ ''Enter code: '' @ dl_UserCode login @ [chr 10]
     @ ''Confirm that the provider page identifies this SSHGateW login.''
     @ (if dl_VerificationURIComplete login \<noteq> []
        then [chr 10] @ ''Direct link: '' @ dl_VerificationURIComplete login else [])"

definition authenticateOIDC :: "aead \<Rightarrow> identity_provider \<Rightarrow> int \<Rightarrow> challenge \<Rightarrow> Server \<Rightarrow> string \<Rightarrow> string
    \<Rightarrow> (Server, Permissions) outcome" where
  "authenticateOIDC A idp now challenge s claimedUsername source =
     (case splitRoutedUsername claimedUsername of
        Inl _ \<Rightarrow> (Inl (Err ''permission denied''), s)
      | Inr (username, target) \<Rightarrow>
          (case UserByName (srv_store s) username of
             Inl _ \<Rightarrow> (Inl (Err ''permission denied''), auditOIDC s None username source target [] ''denied'')
           | Inr u \<Rightarrow>
               if \<not> User_Enabled u
               then (Inl (Err ''permission denied''), auditOIDC s None username source target [] ''denied'')
               else
                 let audit = (\<lambda>s. auditOIDC s (Some (User_ID u)) username source target) in
                 (case idp_Begin idp of
                    Inl _ \<Rightarrow> (Inl (Err ''OIDC authentication unavailable''), audit s [] ''failure'')
                  | Inr login \<Rightarrow>
                      (case challenge ''SSHGateW OIDC authentication'' (oidc_instruction login) of
                         Inr [_] \<Rightarrow>
                           (case idp_Complete idp login of
                              Inl _ \<Rightarrow> (Inl (Err ''OIDC identity could not be verified''), audit s [] ''denied'')
                            | Inr (subject, name) \<Rightarrow>
                                if \<not> validOIDCSubject subject
                                then (Inl (Err ''OIDC identity could not be verified''), audit s subject ''denied'')
                                else (case AuthenticateOIDC (srv_store s) username
                                          (OIDC_IssuerURL (OIDC (srv_cfg s))) subject name of
                                   (Inl _, d) \<Rightarrow> (Inl (Err ''OIDC identity is not linked to this SSHGateW user''),
                                                 audit (s\<lparr>srv_store := d\<rparr>) subject ''denied'')
                                 | (Inr mappedUser, d) \<Rightarrow>
                                     let s1 = audit (s\<lparr>srv_store := d\<rparr>) subject ''success'' in
                                     if User_TOTPEnabled mappedUser then
                                       (case authenticateTOTP A now challenge s1 mappedUser username source of
                                          (Inl e, s2) \<Rightarrow> (Inl e, s2)
                                        | (Inr _, s2) \<Rightarrow> (Inr (authPermissions username target ''oidc''), s2))
                                     else (Inr (authPermissions username target ''oidc''), s1)))
                       | _ \<Rightarrow> (Inl (Err ''OIDC authentication cancelled''), audit s [] ''denied'')))))"

text \<open>\<open>attempted\<close> is the flag kept in the connection's context.\<close>

definition keyboardInteractive :: "aead \<Rightarrow> identity_provider \<Rightarrow> int \<Rightarrow> challenge \<Rightarrow> bool \<Rightarrow> Server \<Rightarrow> string \<Rightarrow> string
    \<Rightarrow> Permissions option \<times> bool \<times> Server" where
  "keyboardInteractive A idp now challenge attempted s user source =
     (if \<not> srv_oidc s then (None, attempted, s)
      else if attempted then (None, attempted, s)
      else case authenticateOIDC A idp now challenge s user source of
             (Inl _, s') \<Rightarrow> (None, True, s')
           | (Inr p, s') \<Rightarrow> (Some p, True, s'))"

section \<open>Starting the server\<close>

definition New :: "ssh_lib \<Rightarrow> Config \<Rightarrow> db \<Rightarrow> Cipher \<Rightarrow> fs \<Rightarrow> Server res" where
  "New L cfg st cipher fs =
     (case fs (HostKeyPath cfg) of
        None \<Rightarrow> Inl (Err (''read gateway host key: open '' @ HostKeyPath cfg @ '': no such file or directory''))
      | Some info \<Rightarrow>
          if \<not> file_regular info then Inl (Err ''gateway host key must be a regular file'')
          else if file_perm info AND 63 \<noteq> 0
          then Inl (Err (''gateway host key permissions '' @ octal4 (file_perm info) @ '' are too open; require 0600''))
          else (case ParsePrivateKey L (file_data info) None of
                  Inl e \<Rightarrow> Inl (wrap ''parse gateway host key'' e)
                | Inr _ \<Rightarrow> Inr \<lparr>srv_cfg = cfg, srv_store = st, srv_cipher = cipher, srv_oidc = OIDC_Enabled (OIDC cfg),
                               srv_total = 0, srv_perUser = Map.empty\<rparr>))"

section \<open>Reaching a target\<close>

definition allowSessionRequest :: "(string \<Rightarrow> string list res) \<Rightarrow> inbound \<Rightarrow> string \<Rightarrow> bool" where
  "allowSessionRequest shlex sess typ =
     (if typ = ''shell'' then True
      else if typ = ''subsystem'' then in_Subsystem sess = ''sftp''
      else if typ = ''exec'' then is_ok (SafeSCPCommand shlex (in_RawCommand sess))
      else False)"

text \<open>A column that is \<open>NULL\<close> is read as an empty slice.\<close>

definition blob :: "string option \<Rightarrow> string" where
  "blob b = (case b of None \<Rightarrow> [] | Some bs \<Rightarrow> bs)"

definition loadCredential :: "aead \<Rightarrow> Server \<Rightarrow> Target \<Rightarrow> Payload res" where
  "loadCredential A s target =
     (if Target_CredentialKind target = CredentialStoredKey then
        (case Target_IdentityID target of
           None \<Rightarrow> Inl (Err ''stored SSH key reference is missing'')
         | Some i \<Rightarrow>
             (case SSHIdentityByID (srv_store s) i of
                Inl e \<Rightarrow> Inl e
              | Inr identity \<Rightarrow>
                  DecryptSSHIdentity A (srv_cipher s) (Identity_ID identity) (blob (Identity_Nonce identity))
                    (blob (Identity_Ciphertext identity))))
      else Decrypt A (srv_cipher s) (Target_ID target) (Target_CredentialKind target)
             (blob (Target_Nonce target)) (blob (Target_Ciphertext target)))"

text \<open>Credential, agent and connection, as the menu loop and a routed session obtain them.\<close>

definition open_target :: "world \<Rightarrow> Server \<Rightarrow> agent_offer \<Rightarrow> Target \<Rightarrow> ssh_client res \<times> effect list" where
  "open_target W s offer target =
     (case loadCredential (w_aead W) s target of
        Inl e \<Rightarrow> (Inl e, [])
      | Inr credential \<Rightarrow>
          (case (if Target_CredentialKind target = CredentialAgent
                 then map_sum id Some (OpenForwardedAgent offer) else Inr None) of
             Inl e \<Rightarrow> (Inl e, [])
           | Inr forwarded \<Rightarrow>
               (fst (Dial (w_ssh W) (w_peer W) target credential forwarded), [DialTarget (srv_store s) target])))"

definition end_details :: "int \<Rightarrow> go_error option \<Rightarrow> string" where
  "end_details ms err = jsonString [(''duration_ms'', JNum (itoa ms)), (''error'', JStr (sanitizeError err))]"

definition error_of :: "'a res \<Rightarrow> go_error option" where
  "error_of r = (case r of Inl e \<Rightarrow> Some e | Inr _ \<Rightarrow> None)"

definition session_event :: "User \<Rightarrow> inbound \<Rightarrow> string \<Rightarrow> int option \<Rightarrow> string \<Rightarrow> string \<Rightarrow> AuditEvent" where
  "session_event u sess typ target outcome details =
     event (Some (User_ID u)) (User_Username u) (in_Remote sess) typ target outcome details"

definition protocol_of :: "inbound \<Rightarrow> string \<times> string" where
  "protocol_of sess = (if in_Subsystem sess = ''sftp'' then (CapabilitySFTP, ''sftp'')
     else if in_RawCommand sess \<noteq> [] then (CapabilitySCP, ''scp'') else (CapabilityShell, ''shell''))"

definition run_proxy :: "world \<Rightarrow> inbound \<Rightarrow> string \<Rightarrow> ssh_client \<Rightarrow> unit res" where
  "run_proxy W sess protocol client =
     (if protocol = ''shell'' then fst (ProxyShell (w_shell W client))
      else if protocol = ''sftp'' then fst (ProxySubsystem (w_quoted W) (w_subsystem W client) ''sftp'')
      else fst (ProxySCP (w_shlex W) (w_session W client) (in_RawCommand sess)))"

definition find_target :: "Server \<Rightarrow> string \<Rightarrow> Target res" where
  "find_target s name = (case TargetByName (srv_store s) name of
     Inl ErrNoRows \<Rightarrow> Inl (Err ''target not found or unavailable'') | r \<Rightarrow> r)"

text \<open>The checks of \<open>handleRouted\<close>, in its order.\<close>

definition routed_allowed :: "Server \<Rightarrow> inbound \<Rightarrow> authState \<Rightarrow> Target res" where
  "routed_allowed s sess state =
     (case find_target s (as_TargetName state) of
        Inl e \<Rightarrow> Inl e
      | Inr target \<Rightarrow>
          if \<not> CanAccessCapability (srv_store s) (as_User state) (Target_ID target) (fst (protocol_of sess))
          then Inl (Err ''access to this target protocol is denied'')
          else if snd (protocol_of sess) = ''shell'' \<and> \<not> in_Pty sess then Inl (Err ''routed shell requires a PTY'')
          else Inr target)"

text \<open>A connection to the target, with a proxy over it.\<close>

definition proxied :: "world \<Rightarrow> Server \<Rightarrow> inbound \<Rightarrow> string \<Rightarrow> Target \<Rightarrow> unit res \<times> effect list" where
  "proxied W s sess protocol target =
     (case open_target W s (in_Agent sess) target of
        (Inl e, effs) \<Rightarrow> (Inl e, effs)
      | (Inr client, effs) \<Rightarrow> (run_proxy W sess protocol client, effs @ [Proxy protocol]))"

text \<open>
  The end of a routed session: what the user sees and the closing record. A panic unwinds without them.
\<close>

definition routed_end :: "world \<Rightarrow> Server \<Rightarrow> inbound \<Rightarrow> authState \<Rightarrow> int option \<Rightarrow> unit res \<Rightarrow> effect list \<times> Server" where
  "routed_end W s sess state targetID result =
     (let closing = (\<lambda>outcome. session_event (as_User state) sess (''target.'' @ snd (protocol_of sess) @ ''.end'')
            targetID outcome (end_details (w_elapsed W) (error_of result)))
      in case result of
           Inl (Panic m) \<Rightarrow> ([Unwind m], s)
         | Inl e \<Rightarrow> ([Print (''SSHGateW: '' @ sanitize_text (err_text e)), Exit 1], record_event s (closing ''failure''))
         | Inr _ \<Rightarrow> ([], record_event s (closing ''success'')))"

definition row_id :: "Target res \<Rightarrow> int option" where
  "row_id found = (case found of Inr t \<Rightarrow> if Target_ID t \<noteq> 0 then Some (Target_ID t) else None | Inl _ \<Rightarrow> None)"

text \<open>What other sessions do to the store, in steps of theirs.\<close>

definition apply_ops :: "Server \<Rightarrow> store_step list \<Rightarrow> Server" where
  "apply_ops s ops = s\<lparr>srv_store := foldl exec_step (srv_store s) ops\<rparr>"

text \<open>\<open>handleRouted\<close> between taking and giving back the session slot.\<close>

definition routed_body :: "world \<Rightarrow> Server \<Rightarrow> inbound \<Rightarrow> authState \<Rightarrow> effect list \<times> Server" where
  "routed_body W s sess state =
     (let targetID = row_id (find_target s (as_TargetName state)) in
      case routed_allowed s sess state of
        Inl e \<Rightarrow> routed_end W s sess state targetID (Inl e)
      | Inr target \<Rightarrow>
          let s1 = record_event s (session_event (as_User state) sess
                (''target.'' @ snd (protocol_of sess) @ ''.start'') (Some (Target_ID target)) ''success'' []);
              (result, effs) = proxied W s1 sess (snd (protocol_of sess)) target;
              (effs', s2) = routed_end W (apply_ops s1 (w_meanwhile W)) sess state targetID result
          in (effs @ effs', s2))"

definition handleRouted :: "world \<Rightarrow> Server \<Rightarrow> inbound \<Rightarrow> authState \<Rightarrow> effect list \<times> Server" where
  "handleRouted W s sess state =
     (let u = as_User state in
      case acquire s u of
        (False, s0) \<Rightarrow> ([Print ''Session limit reached.'', Exit 1], s0)
      | (True, s1) \<Rightarrow> (let (effs, s2) = routed_body W s1 sess state in (effs, release s2 u)))"

section \<open>The menu loop\<close>

text \<open>
  One round of \<open>handle\<close>'s loop: what the outside answers during it, what other sessions and the menu
  itself did to the store until the menu returned, and what it returned.
\<close>

datatype menu_result = MenuError | MenuQuit | MenuPick int

definition connect_menu :: "world \<Rightarrow> Server \<Rightarrow> inbound \<Rightarrow> User \<Rightarrow> Target \<Rightarrow> string res \<times> effect list \<times> Server" where
  "connect_menu W s sess u target =
     (let s1 = record_event s (session_event u sess ''target.connect.start'' (Some (Target_ID target)) ''success'' []);
          (result, effs) = proxied W s1 sess ''shell'' target;
          s2 = apply_ops s1 (w_meanwhile W);
          closing = (\<lambda>outcome. session_event u sess ''target.connect.end'' (Some (Target_ID target)) outcome
                       (end_details (w_elapsed W) (error_of result)))
      in case result of
           Inl (Panic m) \<Rightarrow> (Inl (Panic m), effs @ [Unwind m], s2)
         | Inl e \<Rightarrow> (Inr (''Connection ended: '' @ sanitize_text (err_text e)), effs, record_event s2 (closing ''failure''))
         | Inr _ \<Rightarrow> (Inr (''Disconnected from '' @ Target_Name target), effs, record_event s2 (closing ''success'')))"

text \<open>The loop gives the status line the next menu would show, the effects so far and the state.\<close>

type_synonym round = "world \<times> store_step list \<times> menu_result"

fun menu_loop :: "inbound \<Rightarrow> User \<Rightarrow> round list \<Rightarrow> string \<Rightarrow> Server \<Rightarrow> string \<times> effect list \<times> Server" where
  "menu_loop sess u [] status s = (status, [], s)"
| "menu_loop sess u ((W, ops, result) # rounds) status s0 =
     (let s = apply_ops s0 ops in
      case result of
        MenuError \<Rightarrow> (status, [], s)
      | MenuQuit \<Rightarrow> (status, [], s)
      | MenuPick tid \<Rightarrow>
          if \<not> CanAccess (srv_store s) u tid
          then menu_loop sess u rounds ''Access was revoked or the target is disabled.'' s
          else (case TargetByID (srv_store s) tid of
             Inl _ \<Rightarrow> menu_loop sess u rounds ''Target no longer exists.'' s
           | Inr target \<Rightarrow>
               (case connect_menu W s sess u target of
                  (Inl _, effs, s1) \<Rightarrow> (status, effs, s1)
                | (Inr status', effs, s1) \<Rightarrow>
                    let (st, effs', s2) = menu_loop sess u rounds status' s1 in (st, effs @ effs', s2))))"

definition handle :: "world \<Rightarrow> Server \<Rightarrow> inbound \<Rightarrow> round list \<Rightarrow> effect list \<times> Server" where
  "handle W s sess rounds =
     (case stateFromContext s sess of
        None \<Rightarrow> ([Print ''Authentication context unavailable.'', Exit 1], s)
      | Some state \<Rightarrow>
          let u = as_User state in
          if as_TargetName state \<noteq> [] then handleRouted W s sess state
          else if \<not> in_Pty sess then ([Print ''SSHGateW requires an interactive PTY.'', Exit 1], s)
          else (case acquire s u of
             (False, s0) \<Rightarrow>
               ([Print ''Session limit reached. Try again later.'', Exit 1],
                record_event s0 (session_event u sess ''gateway.session'' None ''denied''
                  (jsonString [(''reason'', JStr ''session_limit'')])))
           | (True, s1) \<Rightarrow>
               let s2 = record_event s1 (session_event u sess ''gateway.session.start'' None ''success'' []);
                   (_, effs, s3) = menu_loop sess u rounds [] s2;
                   s4 = record_event s3 (session_event u sess ''gateway.session.end'' None ''success'' [])
               in (effs, release s4 u)))"

section \<open>Forwarded TCP connections\<close>

record directTCPIPData =
  DestAddr :: string
  DestPort :: int
  OriginAddr :: string
  OriginPort :: int

definition auditForward :: "world \<Rightarrow> Server \<Rightarrow> authState \<Rightarrow> Target res \<Rightarrow> inbound \<Rightarrow> directTCPIPData \<Rightarrow> int \<Rightarrow> int
    \<Rightarrow> string \<Rightarrow> go_error option \<Rightarrow> Server" where
  "auditForward W s state target ctx r up down outcome err =
     (record_event s (event (Some (User_ID (as_User state))) (User_Username (as_User state)) (in_Remote ctx)
           ''target.tcp_forward'' (row_id target) outcome
           (jsonString [(''destination'', JStr (JoinHostPort (DestAddr r) (itoa (DestPort r)))),
              (''bytes_up'', JNum (itoa up)), (''bytes_down'', JNum (itoa down)),
              (''duration_ms'', JNum (itoa (w_elapsed W))), (''error'', JStr (sanitizeError err))])))"

definition forward_allowed :: "Server \<Rightarrow> authState \<Rightarrow> Target \<Rightarrow> directTCPIPData \<Rightarrow> Target res" where
  "forward_allowed s state target r =
     (if \<not> CanAccessCapability (srv_store s) (as_User state) (Target_ID target) CapabilityForward
      then Inl (Err ''TCP forwarding is not granted'')
      else if \<not> ForwardAllowed (srv_store s) (Target_ID target) (DestAddr r) (DestPort r)
      then Inl (Err ''TCP destination is not allowed'')
      else if Target_CredentialKind target = CredentialAgent
      then Inl (Err ''TCP forwarding requires a stored target credential'')
      else Inr target)"

text \<open>The connection itself, with the session slot held.\<close>

definition forward_body :: "world \<Rightarrow> Server \<Rightarrow> inbound \<Rightarrow> authState \<Rightarrow> Target \<Rightarrow> directTCPIPData \<Rightarrow> effect list \<times> Server" where
  "forward_body W s ctx state target r =
     (let addr = JoinHostPort (DestAddr r) (itoa (DestPort r));
          (opened, effs) = (case loadCredential (w_aead W) s target of
              Inl e \<Rightarrow> (Inl e, [])
            | Inr credential \<Rightarrow> (fst (Dial (w_ssh W) (w_peer W) target credential None), [DialTarget (srv_store s) target]));
          (remote, effs') = (case opened of
              Inl e \<Rightarrow> (Inl e, effs)
            | Inr client \<Rightarrow> (w_tcp W client addr, effs @ [DialThrough (srv_store s) target addr]));
          s' = apply_ops s (w_meanwhile W)
      in case remote of
           Inl (Panic m) \<Rightarrow> (effs' @ [Unwind m], s')
         | Inl e \<Rightarrow> (effs' @ [Reject ''ConnectionFailed'' (sanitize_text (err_text e))],
                    auditForward W s' state (Inr target) ctx r 0 0 ''failure'' (Some e))
         | Inr _ \<Rightarrow>
             (case w_accept W of
                Inl _ \<Rightarrow> (effs', s')
              | Inr _ \<Rightarrow> (effs' @ [Accept],
                  auditForward W s' state (Inr target) ctx r (fst (w_bytes W)) (snd (w_bytes W)) ''success'' None)))"

definition handleDirectTCPIP :: "world \<Rightarrow> Server \<Rightarrow> inbound \<Rightarrow> directTCPIPData option \<Rightarrow> effect list \<times> Server" where
  "handleDirectTCPIP W s ctx request =
     (case request of
        None \<Rightarrow> ([Reject ''ConnectionFailed'' ''invalid forwarding request''], s)
      | Some r \<Rightarrow>
          let refuse = ([Reject ''Prohibited'' ''use USER+TARGET for forwarding''], s) in
          (case stateFromContext s ctx of
             None \<Rightarrow> refuse
           | Some state \<Rightarrow>
               if as_TargetName state = [] then refuse
               else
                 let found = find_target s (as_TargetName state) in
                 (case (case found of Inl e \<Rightarrow> Inl e | Inr t \<Rightarrow> forward_allowed s state t r) of
                    Inr target \<Rightarrow>
                      (case acquire s (as_User state) of
                         (False, s0) \<Rightarrow> ([Reject ''ResourceShortage'' ''session limit reached''], s0)
                       | (True, s1) \<Rightarrow>
                           (let (effs, s2) = forward_body W s1 ctx state target r in (effs, release s2 (as_User state))))
                  | Inl e \<Rightarrow>
                      ([Reject ''Prohibited'' (sanitize_text (err_text e))],
                       auditForward W s state found ctx r 0 0 ''denied'' (Some e)))))"

end
