(* ===== verification/Gateway_Sessions.thy ===== *)
theory Gateway_Sessions
  imports Gateway Store_Access
begin

text \<open>
  What holds of the gateway's handlers: the session limits, that a connection is made only where the
  policy allows it, that every slot is given back and every session recorded.
\<close>

section \<open>The session limiter\<close>

text \<open>
  A history of sessions: \<open>Inl u\<close> asks for a slot, \<open>Inr u\<close> ends one of \<open>u\<close>'s sessions. The second
  component is the multiset of the sessions that hold a slot; \<open>None\<close> when one ends that was not held.
\<close>

fun slot_run :: "('s \<Rightarrow> 'u \<Rightarrow> bool \<times> 's) \<Rightarrow> ('s \<Rightarrow> 'u \<Rightarrow> 's) \<Rightarrow> ('u \<Rightarrow> 'k) \<Rightarrow> 's \<Rightarrow> 'k multiset \<Rightarrow> ('u + 'u) list
    \<Rightarrow> ('s \<times> 'k multiset) option" where
  "slot_run take_slot give_back key s A [] = Some (s, A)"
| "slot_run take_slot give_back key s A (Inl u # es) =
     (let (ok, s') = take_slot s u in slot_run take_slot give_back key s' (if ok then add_mset (key u) A else A) es)"
| "slot_run take_slot give_back key s A (Inr u # es) =
     (if key u \<in># A then slot_run take_slot give_back key (give_back s u) (A - {#key u#}) es else None)"

text \<open>
  The contract of a limiter: its state stands for the multiset of the users whose sessions it counts;
  taking a slot succeeds exactly below both limits, and a slot that was taken can be given back.
\<close>

locale session_limiter =
  fixes take_slot :: "'s \<Rightarrow> 'u \<Rightarrow> bool \<times> 's" and give_back :: "'s \<Rightarrow> 'u \<Rightarrow> 's" and key :: "'u \<Rightarrow> 'k"
    and counts :: "'s \<Rightarrow> 'k multiset \<Rightarrow> bool" and limit :: int and user_limit :: int
  assumes take_ok: "counts s A \<Longrightarrow> fst (take_slot s u) \<longleftrightarrow> int (size A) < limit \<and> int (count A (key u)) < user_limit"
    and take_counts: "counts s A \<Longrightarrow>
      counts (snd (take_slot s u)) (if fst (take_slot s u) then add_mset (key u) A else A)"
    and give_counts: "counts s A \<Longrightarrow> key u \<in># A \<Longrightarrow> counts (give_back s u) (A - {#key u#})"
begin

lemma slot_run_counts:
  assumes "counts s A" "int (size A) \<le> limit" "\<forall>k. int (count A k) \<le> user_limit"
    "slot_run take_slot give_back key s A es = Some (s', B)"
  shows "counts s' B \<and> int (size B) \<le> limit \<and> (\<forall>k. int (count B k) \<le> user_limit)"
  using assms
proof (induction es arbitrary: s A)
  case (Cons e es)
  show ?case
  proof (cases e)
    case (Inl u)
    obtain ok t where t: "take_slot s u = (ok, t)" by (cases "take_slot s u")
    have "counts t (if ok then add_mset (key u) A else A)" using take_counts[OF Cons.prems(1), of u] t by simp
    moreover have "ok \<Longrightarrow> int (size A) < limit \<and> int (count A (key u)) < user_limit"
      using take_ok[OF Cons.prems(1), of u] t by simp
    moreover have "slot_run take_slot give_back key t (if ok then add_mset (key u) A else A) es = Some (s', B)"
      using Cons.prems(4) Inl t by simp
    ultimately show ?thesis using Cons.IH[of t "if ok then add_mset (key u) A else A"] Cons.prems(2,3)
      by (cases ok) auto
  next
    case (Inr u)
    then have u: "key u \<in># A"
      and r: "slot_run take_slot give_back key (give_back s u) (A - {#key u#}) es = Some (s', B)"
      using Cons.prems(4) by (auto split: if_splits)
    have "int (count (A - {#key u#}) k) \<le> user_limit" for k
      using Cons.prems(3) by (metis count_diff diff_le_self of_nat_mono order_trans)
    moreover have "int (size (A - {#key u#})) \<le> limit" using Cons.prems(2) u by (simp add: size_Diff_singleton)
    ultimately show ?thesis using Cons.IH give_counts[OF Cons.prems(1) u] r by blast
  qed
qed simp

end

text \<open>The server's two counters as such a limiter.\<close>

definition counts_sessions :: "Config \<Rightarrow> Server \<Rightarrow> int multiset \<Rightarrow> bool" where
  "counts_sessions cfg s A \<longleftrightarrow> srv_cfg s = cfg \<and> srv_total s = int (size A)
     \<and> (\<forall>i. srv_perUser s i = (if i \<in># A then Some (int (count A i)) else None))"

lemma counts_lookup:
  "counts_sessions cfg s A \<Longrightarrow> (case srv_perUser s i of Some n \<Rightarrow> n | None \<Rightarrow> 0) = int (count A i)"
  by (auto simp: counts_sessions_def not_in_iff)

lemma acquire_iff:
  "counts_sessions cfg s A \<Longrightarrow> fst (acquire s u) \<longleftrightarrow>
     int (size A) < MaxSessions cfg \<and> int (count A (User_ID u)) < MaxSessionsPerUser cfg"
  using counts_lookup[of cfg s A "User_ID u"] by (auto simp: acquire_def Let_def counts_sessions_def)

lemma acquire_counts:
  "counts_sessions cfg s A \<Longrightarrow>
     counts_sessions cfg (snd (acquire s u)) (if fst (acquire s u) then add_mset (User_ID u) A else A)"
  using counts_lookup[of cfg s A "User_ID u"] by (auto simp: acquire_def Let_def counts_sessions_def)

lemma release_counts:
  assumes "counts_sessions cfg s A" "User_ID u \<in># A"
  shows "counts_sessions cfg (release s u) (A - {#User_ID u#})"
proof -
  have n: "(case srv_perUser s (User_ID u) of Some n \<Rightarrow> n | None \<Rightarrow> 0) = int (count A (User_ID u))"
    using counts_lookup[OF assms(1)] .
  have pos: "0 < count A (User_ID u)" "0 < size A" using assms(2) by (auto simp: nonempty_has_size[symmetric])
  have "i \<in># A - {#User_ID u#} \<longleftrightarrow> (if i = User_ID u then 1 < count A i else i \<in># A)" for i
    by (auto simp flip: count_greater_zero_iff)
  with assms pos show ?thesis
    by (auto simp: release_def n counts_sessions_def Let_def size_Diff_singleton of_nat_diff)
qed

interpretation limiter: session_limiter acquire release User_ID "counts_sessions cfg"
  "MaxSessions cfg" "MaxSessionsPerUser cfg" for cfg
  by unfold_locales (rule acquire_iff acquire_counts release_counts; assumption)+

text \<open>
  C15: Whatever the order in which users connect and disconnect, the limiter's counters are exactly the
  sessions that hold a slot, never more than the configured total nor, for one user, more than the
  configured number; the next request is granted exactly when both are below their limits; and when all have
  ended the counters are as at the start.
\<close>

theorem session_limits:
  assumes "counts_sessions cfg s {#}" "0 \<le> MaxSessions cfg" "0 \<le> MaxSessionsPerUser cfg"
    "slot_run acquire release User_ID s {#} es = Some (s', B)"
  shows "srv_total s' = int (size B) \<and> int (size B) \<le> MaxSessions cfg
    \<and> (\<forall>i. int (count B i) \<le> MaxSessionsPerUser cfg)
    \<and> (\<forall>u. fst (acquire s' u) \<longleftrightarrow> int (size B) < MaxSessions cfg \<and> int (count B (User_ID u)) < MaxSessionsPerUser cfg)
    \<and> (B = {#} \<longrightarrow> srv_total s' = 0 \<and> srv_perUser s' = Map.empty)"
proof -
  have "counts_sessions cfg s' B \<and> int (size B) \<le> MaxSessions cfg \<and> (\<forall>i. int (count B i) \<le> MaxSessionsPerUser cfg)"
    using limiter.slot_run_counts[OF assms(1) _ _ assms(4)] assms(2,3) by simp
  then show ?thesis using limiter.take_ok[of cfg s' B] by (auto simp: counts_sessions_def)
qed

section \<open>Records change the audit log only\<close>

lemma Audit_frame: "\<exists>es. snd (Audit d e) = d\<lparr>audit_events := es\<rparr>"
  by (rule exI[of _ "audit_events (snd (Audit d e))"]) (simp add: Audit_def Let_def insert_audit_def split: option.splits)

lemma CanAccessCapability_audit [simp]:
  "CanAccessCapability (d\<lparr>audit_events := es\<rparr>) u tid cap = CanAccessCapability d u tid cap"
  by (simp add: CanAccessCapability_def split: option.splits)

lemma ForwardAllowed_audit [simp]: "ForwardAllowed (d\<lparr>audit_events := es\<rparr>) tid h p = ForwardAllowed d tid h p"
  by (simp add: ForwardAllowed_def)

lemma record_event_frame:
  "srv_cfg (record_event s e) = srv_cfg s" "srv_cipher (record_event s e) = srv_cipher s"
  "srv_total (record_event s e) = srv_total s" "srv_perUser (record_event s e) = srv_perUser s"
  "srv_oidc (record_event s e) = srv_oidc s"
  by (simp_all add: record_event_def)

lemma record_event_tables:
  "targets (srv_store (record_event s e)) = targets (srv_store s)"
  "users (srv_store (record_event s e)) = users (srv_store s)"
  "CanAccessCapability (srv_store (record_event s e)) u tid cap = CanAccessCapability (srv_store s) u tid cap"
  "ForwardAllowed (srv_store (record_event s e)) tid h p = ForwardAllowed (srv_store s) tid h p"
  using Audit_frame[of "srv_store s" e] by (auto simp: record_event_def)

lemma acquire_store: "srv_store (snd (acquire s u)) = srv_store s" "srv_cfg (snd (acquire s u)) = srv_cfg s"
  by (auto simp: acquire_def Let_def)

lemma release_store: "srv_store (release s u) = srv_store s"
  by (simp add: release_def Let_def)

section \<open>Connections are made only where the policy allows\<close>

lemma open_target_effects: "e \<in> set (snd (open_target W s offer t)) \<Longrightarrow> e = DialTarget (srv_store s) t"
  by (auto simp: open_target_def split: sum.splits if_splits)

lemma proxied_effects: "e \<in> set (snd (proxied W s sess pr t)) \<Longrightarrow> e = DialTarget (srv_store s) t \<or> e = Proxy pr"
  using open_target_effects[of e W s "in_Agent sess" t] by (auto simp: proxied_def split_beta split: sum.splits)

text \<open>An effect is allowed for a user when it is no connection, or a connection to an existing target under a capability.\<close>

definition permitted :: "User \<Rightarrow> string \<Rightarrow> effect \<Rightarrow> bool" where
  "permitted u cap e = (case e of
     DialTarget d t \<Rightarrow> t \<in> set (targets d) \<and> policy d u (Target_ID t) cap
   | DialThrough d t addr \<Rightarrow> False
   | _ \<Rightarrow> True)"

lemma permitted_simps [simp]:
  "permitted u cap (Print m)" "permitted u cap (Exit n)" "permitted u cap (Proxy p)" "permitted u cap (Reject c m)"
  "permitted u cap Accept" "permitted u cap (Unwind m)"
  by (simp_all add: permitted_def)

lemma find_target_InrD: "find_target s name = Inr t \<Longrightarrow> t \<in> set (targets (srv_store s)) \<and> Target_Name t = name"
  by (auto simp: find_target_def TargetByName_def split: sum.splits option.splits go_error.splits dest!: find_SomeD)

lemma proxied_permitted:
  assumes "t \<in> set (targets (srv_store s))" "CanAccessCapability (srv_store s) u (Target_ID t) cap"
  shows "list_all (permitted u cap) (snd (proxied W (record_event s ev) sess pr t))"
proof -
  have "permitted u cap (DialTarget (srv_store (record_event s ev)) t)"
    using assms by (simp add: permitted_def policy_iff record_event_tables)
  then have "list_all (permitted u cap) (snd (open_target W (record_event s ev) (in_Agent sess) t))"
    by (metis list_all_iff open_target_effects)
  then show ?thesis by (auto simp: proxied_def split_beta split: sum.splits)
qed

lemma routed_allowed_InrD:
  "routed_allowed s sess state = Inr t \<Longrightarrow> t \<in> set (targets (srv_store s)) \<and> Target_Name t = as_TargetName state
   \<and> CanAccessCapability (srv_store s) (as_User state) (Target_ID t) (fst (protocol_of sess))"
  by (auto simp: routed_allowed_def split: sum.splits if_splits dest!: find_target_InrD)

lemma routed_end_permitted: "list_all (permitted u cap) (fst (routed_end W s sess state i r))"
  by (auto simp: routed_end_def Let_def split: sum.splits go_error.splits)

lemma routed_body_permitted:
  "list_all (permitted (as_User state) (fst (protocol_of sess))) (fst (routed_body W s sess state))"
proof (cases "routed_allowed s sess state")
  case (Inl e)
  then show ?thesis by (simp add: routed_body_def routed_end_permitted)
next
  case (Inr t)
  with routed_allowed_InrD[OF Inr] proxied_permitted routed_end_permitted show ?thesis
    by (auto simp: routed_body_def Let_def split_beta)
qed

lemma routed_body_target: "DialTarget d t \<in> set (fst (routed_body W s sess state)) \<Longrightarrow> Target_Name t = as_TargetName state"
  using routed_allowed_InrD[of s sess state]
  by (auto simp: routed_body_def routed_end_def Let_def split_beta split: sum.splits go_error.splits
      dest!: proxied_effects)

lemma connect_menu_permitted:
  assumes "CanAccess (srv_store s) u tid" "TargetByID (srv_store s) tid = Inr t"
  shows "list_all (permitted u CapabilityShell) (fst (snd (connect_menu W s sess u t)))"
proof -
  have "t \<in> set (targets (srv_store s))" "Target_ID t = tid"
    using assms(2) by (auto simp: TargetByID_def split: option.splits dest!: find_SomeD)
  then have "list_all (permitted u CapabilityShell) (snd (proxied W (record_event s ev) sess pr t))" for ev pr
    using assms(1) by (simp add: proxied_permitted CanAccess_def)
  then show ?thesis by (auto simp: connect_menu_def Let_def split_beta split: sum.splits go_error.splits)
qed

lemma menu_loop_permitted: "list_all (permitted u CapabilityShell) (fst (snd (menu_loop sess u rounds status s)))"
proof (induction sess u rounds status s rule: menu_loop.induct)
  case (2 sess u W ops result rounds status s0)
  note c = connect_menu_permitted[of "apply_ops s0 ops" u _ _ W sess]
  show ?case
    using 2 c by (fastforce simp: Let_def split: menu_result.splits sum.splits prod.splits)
qed simp

lemma permitted_handleRouted:
  "list_all (permitted (as_User state) (fst (protocol_of sess))) (fst (handleRouted W s sess state))"
  using routed_body_permitted[of state sess W] by (auto simp: handleRouted_def Let_def split_beta split: prod.splits bool.splits)

text \<open>The capability a session needs: that of its protocol when it is routed, and a shell from the menu.\<close>

definition needed :: "inbound \<Rightarrow> authState \<Rightarrow> string" where
  "needed sess state = (if as_TargetName state = [] then CapabilityShell else fst (protocol_of sess))"

lemma handle_permitted:
  "case stateFromContext s sess of
     None \<Rightarrow> fst (handle W s sess rounds) = [Print ''Authentication context unavailable.'', Exit 1]
   | Some state \<Rightarrow> list_all (permitted (as_User state) (needed sess state)) (fst (handle W s sess rounds))"
  using permitted_handleRouted[of _ sess W s] menu_loop_permitted[of _ sess rounds]
  by (auto simp: handle_def needed_def Let_def split_beta split: option.splits prod.splits bool.splits)

lemma stateFromContext_SomeD:
  "stateFromContext s sess = Some state \<Longrightarrow> \<exists>name. splitRoutedUsername (in_User sess) = Inr (name, as_TargetName state)
     \<and> UserByName (srv_store s) name = Inr (as_User state) \<and> User_Enabled (as_User state)"
  by (auto simp: stateFromContext_def split: sum.splits if_splits prod.splits)

lemma handle_routed_target:
  assumes "DialTarget d t \<in> set (fst (handle W s sess rounds))" "stateFromContext s sess = Some state" "as_TargetName state \<noteq> []"
  shows "Target_Name t = as_TargetName state"
  using assms routed_body_target
  by (auto simp: handle_def handleRouted_def Let_def split_beta split: prod.splits bool.splits)

text \<open>
  C16: A session connects to a target only if, in the database as it is when the connection is decided on, that target exists and
  is enabled and the policy gives the user the capability the session needs there: the capability of its protocol when the user
  name routes it to that target, a shell when the target was picked from the menu. The grants, the group memberships and the
  target's state are those of that moment, whatever other sessions did in between; the user's role and enabled flag are those
  read when the session began, when the user existed and was enabled.
\<close>

theorem handle_connects_authorised:
  assumes "DialTarget d t \<in> set (fst (handle W s sess rounds))"
  shows "\<exists>state name. splitRoutedUsername (in_User sess) = Inr (name, as_TargetName state)
    \<and> UserByName (srv_store s) name = Inr (as_User state) \<and> User_Enabled (as_User state)
    \<and> (as_TargetName state \<noteq> [] \<longrightarrow> Target_Name t = as_TargetName state)
    \<and> t \<in> set (targets d) \<and> policy d (as_User state) (Target_ID t) (needed sess state)"
proof -
  obtain state where st: "stateFromContext s sess = Some state" "permitted (as_User state) (needed sess state) (DialTarget d t)"
    using assms handle_permitted[where W = W and s = s and sess = sess and rounds = rounds]
    by (auto simp: list_all_iff split: option.splits dest!: bspec)
  from stateFromContext_SomeD[OF st(1)] handle_routed_target[OF assms st(1)] st(2) show ?thesis
    by (auto simp: permitted_def)
qed

lemma forward_body_effects:
  "DialThrough d t' addr \<in> set (fst (forward_body W s ctx state t r)) \<Longrightarrow>
   d = srv_store s \<and> t' = t \<and> addr = JoinHostPort (DestAddr r) (itoa (DestPort r))"
  "DialTarget d t' \<in> set (fst (forward_body W s ctx state t r)) \<Longrightarrow> d = srv_store s \<and> t' = t"
  by (auto simp: forward_body_def Let_def split_beta split: sum.splits if_splits prod.splits go_error.splits)

lemma handleDirectTCPIP_effects:
  assumes "e \<in> set (fst (handleDirectTCPIP W s ctx (Some r)))" "\<And>c m. e \<noteq> Reject c m"
  obtains state t where "stateFromContext s ctx = Some state" "as_TargetName state \<noteq> []"
    "find_target s (as_TargetName state) = Inr t" "forward_allowed s state t r = Inr t"
    "fst (acquire s (as_User state))" "e \<in> set (fst (forward_body W (snd (acquire s (as_User state))) ctx state t r))"
proof -
  have "t' = t" if "forward_allowed s state t r = Inr t'" for state t t'
    using that by (auto simp: forward_allowed_def split: if_splits)
  with assms that show thesis
    by (fastforce simp: handleDirectTCPIP_def Let_def split_beta
        split: option.splits if_splits sum.splits prod.splits bool.splits)
qed

text \<open>
  C17: A TCP connection is forwarded only through a target the user has the forwarding capability on, only to
  a destination a rule of that target names, never with a forwarded agent, and only for a user name that
  routes to that target.
\<close>

theorem forward_authorised:
  assumes "DialThrough d t addr \<in> set (fst (handleDirectTCPIP W s ctx (Some r)))"
  shows "\<exists>state. stateFromContext s ctx = Some state \<and> as_TargetName state \<noteq> [] \<and> Target_Name t = as_TargetName state
    \<and> t \<in> set (targets d) \<and> policy d (as_User state) (Target_ID t) CapabilityForward
    \<and> addr = JoinHostPort (DestAddr r) (itoa (DestPort r)) \<and> ForwardAllowed d (Target_ID t) (DestAddr r) (DestPort r)
    \<and> Target_CredentialKind t \<noteq> CredentialAgent"
proof -
  obtain state u where f: "stateFromContext s ctx = Some state" "as_TargetName state \<noteq> []"
    "find_target s (as_TargetName state) = Inr u" "forward_allowed s state u r = Inr u"
    "DialThrough d t addr \<in> set (fst (forward_body W (snd (acquire s (as_User state))) ctx state u r))"
    using handleDirectTCPIP_effects[OF assms] by blast
  from forward_body_effects(1)[OF f(5)] f(1-4) find_target_InrD[OF f(3)] show ?thesis
    by (auto simp: acquire_store forward_allowed_def policy_iff split: if_splits)
qed

section \<open>Slots are given back\<close>

lemma counts_sessions_cong:
  "srv_cfg s' = srv_cfg s \<Longrightarrow> srv_total s' = srv_total s \<Longrightarrow> srv_perUser s' = srv_perUser s \<Longrightarrow>
   counts_sessions cfg s' A = counts_sessions cfg s A"
  by (simp add: counts_sessions_def)

definition same_slots :: "Server \<Rightarrow> Server \<Rightarrow> bool" where
  "same_slots s s' \<longleftrightarrow> srv_cfg s' = srv_cfg s \<and> srv_total s' = srv_total s \<and> srv_perUser s' = srv_perUser s"

lemma same_slots_simps [simp]: "same_slots s s" "same_slots s (record_event s' e) = same_slots s s'"
  "same_slots s (apply_ops s' ops) = same_slots s s'"
  by (simp_all add: same_slots_def record_event_frame apply_ops_def)

lemma same_slots_trans: "same_slots a b \<Longrightarrow> same_slots b c \<Longrightarrow> same_slots a c"
  by (simp add: same_slots_def)

lemma routed_body_slots: "same_slots s (snd (routed_body W s sess state))"
  by (auto simp: routed_body_def routed_end_def Let_def split_beta split: sum.splits go_error.splits)

lemma connect_menu_slots: "same_slots s (snd (snd (connect_menu W s sess u t)))"
  by (auto simp: connect_menu_def Let_def split_beta split: sum.splits go_error.splits)

lemma menu_loop_slots: "same_slots s (snd (snd (menu_loop sess u rounds status s)))"
proof (induction sess u rounds status s rule: menu_loop.induct)
  case (2 sess u W ops result rounds status s0)
  let ?s = "apply_ops s0 ops"
  have a: "same_slots ?s x \<Longrightarrow> same_slots s0 x" for x by (simp add: same_slots_def apply_ops_def)
  show ?case
  proof (cases result)
    case (MenuPick tid)
    show ?thesis
    proof (cases "CanAccess (srv_store ?s) u tid")
      case True
      show ?thesis
      proof (cases "TargetByID (srv_store ?s) tid")
        case (Inr t)
        obtain r effs s1 where c: "connect_menu W ?s sess u t = (r, effs, s1)" by (cases "connect_menu W ?s sess u t")
        then have s1: "same_slots s0 s1" using a connect_menu_slots[of ?s W sess u t] by simp
        have "same_slots s1 (snd (snd (menu_loop sess u rounds st s1)))" if "r = Inr st" for st
          using 2(3)[OF refl MenuPick _ Inr c[symmetric] that refl] True by simp
        with s1 True show ?thesis
          by (auto simp: MenuPick Inr c Let_def split_beta split: sum.splits intro: same_slots_trans)
      qed (use 2(2)[OF refl MenuPick] True MenuPick a in auto)
    qed (use 2(1)[OF refl MenuPick] MenuPick a in auto)
  qed auto
qed simp

lemma forward_body_slots: "same_slots s (snd (forward_body W s ctx state t r))"
  by (auto simp: forward_body_def auditForward_def Let_def split_beta split: sum.splits prod.splits go_error.splits)

text \<open>Taking a slot, anything that leaves the counters alone, and giving it back.\<close>

lemma bracket_counts:
  assumes "counts_sessions cfg s A" "acquire s u = (True, s1)" "same_slots s1 s2"
  shows "counts_sessions cfg (release s2 u) A"
proof -
  have "counts_sessions cfg s1 (add_mset (User_ID u) A)" using acquire_counts[OF assms(1), of u] assms(2) by simp
  then have "counts_sessions cfg s2 (add_mset (User_ID u) A)"
    using assms(3) counts_sessions_cong[of s2 s1] by (simp add: same_slots_def)
  from release_counts[OF this, of u] show ?thesis by simp
qed

lemma handleRouted_counts:
  assumes "counts_sessions cfg s A" shows "counts_sessions cfg (snd (handleRouted W s sess state)) A"
proof (cases "acquire s (as_User state)")
  case (Pair ok s1)
  then show ?thesis
    using assms bracket_counts[OF assms, of "as_User state" s1] routed_body_slots[of s1 W sess state]
      acquire_counts[OF assms, of "as_User state"]
    by (cases ok) (auto simp: handleRouted_def Let_def split_beta)
qed

text \<open>
  However a session ends, refused, failed, disconnected, quit or unwound by a panic, and whatever other
  sessions do to the store meanwhile, it leaves the limiter counting exactly the sessions it counted
  before: no slot is lost and none is given back twice.
\<close>

theorem sessions_give_slots_back:
  assumes "counts_sessions cfg s A"
  shows "counts_sessions cfg (snd (handle W s sess rounds)) A
    \<and> counts_sessions cfg (snd (handleDirectTCPIP W s sess request)) A"
proof
  note ev = counts_sessions_cong[OF record_event_frame(1,3,4)]
  have acq: "counts_sessions cfg (snd (acquire s u)) A" if "\<not> fst (acquire s u)" for u
    using acquire_counts[OF assms, of u] that by simp
  have pair: "fst (acquire s u) \<Longrightarrow> acquire s u = (True, snd (acquire s u))" for u by (metis prod.collapse)
  have menu: "counts_sessions cfg (release (record_event (snd (snd (menu_loop sess u rounds [] (record_event (snd (acquire s u)) e)))) e') u) A"
    if "fst (acquire s u)" for u e e'
    using bracket_counts[OF assms pair[OF that]] menu_loop_slots[of "record_event (snd (acquire s u)) e" sess u rounds "[]"]
    by (auto simp: same_slots_def record_event_frame)
  show "counts_sessions cfg (snd (handle W s sess rounds)) A"
    using assms handleRouted_counts[OF assms, of W sess] acq menu
    by (auto simp: handle_def Let_def case_prod_beta' ev split: option.splits bool.splits)
  have fwd: "counts_sessions cfg (release (snd (forward_body W (snd (acquire s (as_User st))) sess st t r)) (as_User st)) A"
    if "fst (acquire s (as_User st))" for st t r
    using bracket_counts[OF assms pair[OF that] forward_body_slots] .
  show "counts_sessions cfg (snd (handleDirectTCPIP W s sess request)) A"
    using assms acq fwd
    by (auto simp: handleDirectTCPIP_def auditForward_def Let_def case_prod_beta' ev
        split: option.splits sum.splits bool.splits)
qed

section \<open>Routed sessions are recorded\<close>

lemma plain_values [simp]: "plain_value (JStr t)" "plain_value (JNum (itoa i)) \<longleftrightarrow> int64 i"
proof -
  show "plain_value (JStr t)" by (simp add: plain_value_def)
  have "int64 i" if "atoi (itoa i) = Some j" "itoa j = itoa i" for j
    using that by (auto simp: itoa_inj atoi_def Let_def int64_def split: if_splits)
  then show "plain_value (JNum (itoa i)) \<longleftrightarrow> int64 i"
    using atoi_itoa[of i] by (auto simp: plain_value_def split: option.splits)
qed

lemma Audit_recorded:
  assumes "unmarshal_map (if Audit_Details e = [] then ''{}'' else Audit_Details e)" "valid_outcome (Audit_Outcome e)"
    "\<And>i. Audit_ActorUserID e = Some i \<Longrightarrow> i \<in> users_id ` set (users d)"
    "\<And>i. Audit_TargetID e = Some i \<Longrightarrow> i \<in> Target_ID ` set (targets d)"
  shows "\<exists>i at. audit_events (snd (Audit d e)) =
    audit_events d @ [(audit_defaults e)\<lparr>Audit_ID := i, Audit_At := at\<rparr>]"
proof -
  have "Audit_Outcome e \<noteq> []" using assms(2) by (auto simp: valid_outcome_def)
  with assms show ?thesis
    by (auto simp: Audit_def Let_def insert_audit_def audit_defaults_def split: option.splits)
qed

lemma end_details_ok: "int64 ms \<Longrightarrow> unmarshal_map (end_details ms err) \<and> end_details ms err \<noteq> []"
proof -
  assume "int64 ms"
  then have "unmarshal_map (end_details ms err)"
    unfolding end_details_def jsonString_def by (intro marshal_map_accepted) auto
  moreover have "\<not> unmarshal_map []" by code_simp
  ultimately show ?thesis by metis
qed

lemma stateFromContext_user:
  "stateFromContext s sess = Some state \<Longrightarrow> User_ID (as_User state) \<in> users_id ` set (users (srv_store s))"
  by (auto simp: stateFromContext_def scanUser_def split: sum.splits if_splits prod.splits dest!: UserByName_InrD)

lemma routed_end_recorded:
  assumes "User_ID (as_User state) \<in> users_id ` set (users (srv_store s))"
    "\<And>i. targetID = Some i \<Longrightarrow> i \<in> Target_ID ` set (targets (srv_store s))" "int64 (w_elapsed W)"
    "routed_end W s sess state targetID r = (effs, s')" "\<And>m. Unwind m \<notin> set effs"
  shows "\<exists>e. audit_events (srv_store s') = audit_events (srv_store s) @ [e]
    \<and> Audit_EventType e = ''target.'' @ snd (protocol_of sess) @ ''.end''
    \<and> Audit_ActorUserID e = Some (User_ID (as_User state)) \<and> Audit_ClaimedUsername e = User_Username (as_User state)
    \<and> Audit_SourceAddress e = in_Remote sess \<and> Audit_TargetID e = targetID
    \<and> Audit_Outcome e = (if Exit 1 \<in> set effs then ''failure'' else ''success'')"
proof -
  define outc where "outc = (if Exit 1 \<in> set effs then ''failure'' else ''success'')"
  let ?e = "session_event (as_User state) sess (''target.'' @ snd (protocol_of sess) @ ''.end'') targetID outc
      (end_details (w_elapsed W) (error_of r))"
  have s': "s' = record_event s ?e"
    using assms(4) assms(5)[of "case r of Inl (Panic m) \<Rightarrow> m | _ \<Rightarrow> []"]
    by (auto simp: routed_end_def Let_def outc_def split: sum.splits go_error.splits)
  have "\<exists>i at. audit_events (snd (Audit (srv_store s) ?e)) =
      audit_events (srv_store s) @ [(audit_defaults ?e)\<lparr>Audit_ID := i, Audit_At := at\<rparr>]"
    by (rule Audit_recorded)
      (use assms(1,2) end_details_ok[OF assms(3), of "error_of r"] in
        \<open>auto simp: session_event_def event_def outc_def valid_outcome_def\<close>)
  then obtain i at where "audit_events (snd (Audit (srv_store s) ?e)) =
      audit_events (srv_store s) @ [(audit_defaults ?e)\<lparr>Audit_ID := i, Audit_At := at\<rparr>]" by blast
  moreover have "Audit_EventType (audit_defaults ?e) = ''target.'' @ snd (protocol_of sess) @ ''.end''"
    "Audit_ActorUserID (audit_defaults ?e) = Some (User_ID (as_User state))" "Audit_TargetID (audit_defaults ?e) = targetID"
    "Audit_ClaimedUsername (audit_defaults ?e) = User_Username (as_User state)" "Audit_SourceAddress (audit_defaults ?e) = in_Remote sess"
    "Audit_Outcome (audit_defaults ?e) = outc"
    by (auto simp: audit_defaults_def session_event_def event_def outc_def)
  ultimately show ?thesis by (simp add: s' record_event_def outc_def)
qed

lemma record_event_appends: "\<exists>rest. audit_events (srv_store (record_event s e)) = audit_events (srv_store s) @ rest"
  by (auto simp: record_event_def Audit_def Let_def insert_audit_def split: option.splits)

lemma row_id_find_target:
  assumes "store_ok (srv_store s)"
  shows "row_id (find_target s name) = map_option Target_ID (find (\<lambda>t. Target_Name t = name) (targets (srv_store s)))"
proof (cases "find (\<lambda>t. Target_Name t = name) (targets (srv_store s))")
  case (Some t)
  then have "1 \<le> Target_ID t"
    using store_okD(6)[OF assms] by (auto simp: ok_targets_def rowids_def dest!: find_SomeD)
  with Some show ?thesis by (simp add: row_id_def find_target_def TargetByName_def)
qed (simp add: row_id_def find_target_def TargetByName_def)

text \<open>The database when a routed session comes to its closing record; only that record is added to it.\<close>

lemma routed_end_frame:
  assumes "routed_end W s sess state i r = (effs, s')"
  shows "users (srv_store s') = users (srv_store s) \<and> targets (srv_store s') = targets (srv_store s)"
  using assms by (auto simp: routed_end_def Let_def record_event_tables split: sum.splits go_error.splits)

lemma routed_body_end:
  obtains s2 effs0 effs2 r where
    "routed_end W s2 sess state (row_id (find_target s (as_TargetName state))) r = (effs2, snd (routed_body W s sess state))"
    "fst (routed_body W s sess state) = effs0 @ effs2" "Exit 1 \<notin> set effs0"
proof (cases "routed_allowed s sess state")
  case (Inl x)
  then show thesis by (intro that[of s "Inl x" "fst (routed_body W s sess state)" "[]"]) (auto simp: routed_body_def)
next
  case (Inr t)
  let ?ev = "session_event (as_User state) sess (''target.'' @ snd (protocol_of sess) @ ''.start'') (Some (Target_ID t)) ''success'' []"
  let ?p = "proxied W (record_event s ?ev) sess (snd (protocol_of sess)) t"
  have "Exit 1 \<notin> set (snd ?p)" using proxied_effects by blast
  with Inr show thesis
    by (intro that[of "apply_ops (record_event s ?ev) (w_meanwhile W)" "fst ?p" _ "snd ?p"])
      (auto simp: routed_body_def split_beta Let_def)
qed

text \<open>
  C18: A routed session refused at the limit leaves the database as it is, with no record. Every other that was not unwound by a
  panic, however it ended and whatever other sessions did to the database meanwhile, ends in a record, the last of the log, as
  long as the user's row and the row of the target (when there was one of that name) still exist: the record names the user, the
  address, the protocol and the target, and says failure exactly when the session was ended with status 1.
\<close>

theorem routed_session_recorded:
  assumes "store_ok (srv_store s)" "stateFromContext s sess = Some state" "int64 (w_elapsed W)"
    "handleRouted W s sess state = (effs, s')"
  defines "target \<equiv> map_option Target_ID (find (\<lambda>t. Target_Name t = as_TargetName state) (targets (srv_store s)))"
  shows "if \<not> fst (acquire s (as_User state)) then srv_store s' = srv_store s \<and> effs = [Print ''Session limit reached.'', Exit 1]
    else (\<forall>m. Unwind m \<notin> set effs) \<and> User_ID (as_User state) \<in> users_id ` set (users (srv_store s'))
        \<and> (\<forall>i. target = Some i \<longrightarrow> i \<in> Target_ID ` set (targets (srv_store s'))) \<longrightarrow>
      (\<exists>e rest. audit_events (srv_store s') = rest @ [e]
        \<and> Audit_EventType e = ''target.'' @ snd (protocol_of sess) @ ''.end''
        \<and> Audit_ActorUserID e = Some (User_ID (as_User state)) \<and> Audit_ClaimedUsername e = User_Username (as_User state)
        \<and> Audit_SourceAddress e = in_Remote sess \<and> Audit_TargetID e = target
        \<and> Audit_Outcome e = (if Exit 1 \<in> set effs then ''failure'' else ''success''))"
proof (cases "fst (acquire s (as_User state))")
  case False
  then have "acquire s (as_User state) = (False, s)" by (auto simp: acquire_def Let_def split: if_splits)
  with False assms(4) show ?thesis by (auto simp: handleRouted_def)
next
  case True
  let ?s1 = "snd (acquire s (as_User state))"
  have "find_target ?s1 = find_target s" by (simp add: fun_eq_iff find_target_def acquire_store)
  then have ti: "row_id (find_target ?s1 (as_TargetName state)) = target"
    using row_id_find_target[OF assms(1)] by (simp add: target_def)
  have body: "effs = fst (routed_body W ?s1 sess state)" "srv_store s' = srv_store (snd (routed_body W ?s1 sess state))"
    using True assms(4) by (auto simp: handleRouted_def Let_def split_beta release_store)
  obtain s2 effs0 effs2 r where r: "routed_end W s2 sess state target r = (effs2, snd (routed_body W ?s1 sess state))"
    "effs = effs0 @ effs2" "Exit 1 \<notin> set effs0"
    using routed_body_end[of W sess state ?s1] ti body(1) by metis
  have "\<exists>e rest. audit_events (srv_store s') = rest @ [e]
        \<and> Audit_EventType e = ''target.'' @ snd (protocol_of sess) @ ''.end''
        \<and> Audit_ActorUserID e = Some (User_ID (as_User state)) \<and> Audit_ClaimedUsername e = User_Username (as_User state)
        \<and> Audit_SourceAddress e = in_Remote sess \<and> Audit_TargetID e = target
        \<and> Audit_Outcome e = (if Exit 1 \<in> set effs then ''failure'' else ''success'')"
    if "\<forall>m. Unwind m \<notin> set effs" "User_ID (as_User state) \<in> users_id ` set (users (srv_store s'))"
      "\<forall>i. target = Some i \<longrightarrow> i \<in> Target_ID ` set (targets (srv_store s'))"
  proof -
    have "User_ID (as_User state) \<in> users_id ` set (users (srv_store s2))" "\<And>i. target = Some i \<Longrightarrow> i \<in> Target_ID ` set (targets (srv_store s2))"
      "\<And>m. Unwind m \<notin> set effs2"
      using that routed_end_frame[OF r(1)] body(2) r(2) by auto
    from routed_end_recorded[OF this(1,2) assms(3) r(1) this(3)] body(2) r(2,3) show ?thesis by auto
  qed
  with True show ?thesis by simp
qed

section \<open>A server to evaluate the properties on\<close>

text \<open>The sample database with a credential stored for its target, and no TOTP secret.\<close>

definition sealed_target :: Target where
  "sealed_target = sample_target\<lparr>Target_Nonce := Some sample_nonce,
     Target_Ciphertext := Some (Seal clear_aead (Cipher_key sample_cipher) sample_nonce
       (marshal_payload (sample_payload\<lparr>Version := 1\<rparr>)) (aad 1 ''password''))\<rparr>"

definition sample_server :: Server where
  "sample_server = \<lparr>srv_cfg = Default, srv_store = sample_db\<lparr>targets := [sealed_target], user_totp := []\<rparr>,
     srv_cipher = sample_cipher, srv_oidc = False, srv_total = 0, srv_perUser = Map.empty\<rparr>"

definition sample_world :: world where
  "sample_world = \<lparr>w_aead = clear_aead, w_ssh = sample_lib, w_peer = sample_peer, w_shlex = plain_shlex, w_quoted = id,
     w_shell = (\<lambda>_. \<lparr>se_NewSession = Inr (), se_Pty = Some (''xterm'', 24, 80), se_RequestPty = Inr (), se_ReadContext = True,
        se_StdinPipe = Inr (), se_Shell = Inr (), se_Wait = WaitOk, se_ctx = None\<rparr>),
     w_subsystem = (\<lambda>_. \<lparr>sub_OpenChannel = Inr (), sub_SendRequest = Inr True, sub_Copy = Inr (), sub_ctx = None\<rparr>),
     w_session = (\<lambda>_. \<lparr>ps_NewSession = Inr (), ps_Start = Inr (), ps_Wait = WaitOk, ps_ctx = None\<rparr>),
     w_tcp = (\<lambda>_ _. Inr ()), w_accept = Inr (), w_bytes = (5, 7), w_elapsed = 12, w_meanwhile = [Whole (OpAddGroup ''night'')]\<rparr>"

definition sample_inbound :: "string \<Rightarrow> inbound" where
  "sample_inbound user = \<lparr>in_User = user, in_Remote = ''192.0.2.1:5022'', in_Method = ''publickey'', in_Pty = True,
     in_Subsystem = [], in_RawCommand = [], in_Agent = NotRequested\<rparr>"

definition routed_alice :: authState where
  "routed_alice = \<lparr>as_User = \<lparr>User_ID = 2, User_Username = ''alice'', User_Role = ''member'', User_Enabled = True,
     User_TOTPEnabled = False, User_CreatedAt = []\<rparr>, as_TargetName = ''web'', as_AuthMethod = ''publickey''\<rparr>"

lemma sample_state: "stateFromContext sample_server (sample_inbound ''alice+web'') = Some routed_alice"
  by code_simp

lemma sample_ok: "store_ok (srv_store sample_server)"
  by code_simp

lemma sample_credential:
  "loadCredential clear_aead s sealed_target = Inr (clean_payload (sample_payload\<lparr>Version := 1\<rparr>))"
  if "srv_cipher s = sample_cipher"
  using decrypt_encrypt[OF clear_opens, of "Inr sample_nonce" sample_cipher sample_payload "aad 1 ''password''"]
    sample_sealed that
  by (simp add: loadCredential_def sealed_target_def sample_target_def const_defs Decrypt_def Encrypt_def blob_def)

lemma sample_access:
  "CanAccessCapability (srv_store sample_server) (as_User routed_alice) 1 CapabilityShell"
  "CanAccessCapability (srv_store sample_server) (as_User routed_alice) 1 CapabilityForward"
  "ForwardAllowed (srv_store sample_server) 1 ''db.local'' 5432"
  by code_simp+

lemma sample_dial:
  "is_ok (fst (Dial sample_lib sample_peer sealed_target (clean_payload (sample_payload\<lparr>Version := 1\<rparr>)) None))"
  by (simp add: Dial_def Dial_open_def ParseHostKey_def authMethod_def sample_lib_def sample_peer_def Let_def
      sealed_target_def sample_target_def const_defs pin_callback_def same_key_def sample_server_key_def)
    (code_simp)

lemma sample_find: "find_target sample_server ''web'' = Inr sealed_target"
  by (simp add: find_target_def TargetByName_def sample_server_def sealed_target_def sample_target_def)

lemma sample_acquire: "fst (acquire sample_server u)" "snd (acquire sample_server u) = sample_server\<lparr>srv_total := 1, srv_perUser := [User_ID u \<mapsto> 1]\<rparr>"
  by (simp_all add: acquire_def sample_server_def Default_def)

definition held_server :: Server where
  "held_server = sample_server\<lparr>srv_total := 1, srv_perUser := [2 \<mapsto> 1]\<rparr>"

lemma held_facts: "srv_store held_server = srv_store sample_server" "srv_cipher held_server = sample_cipher"
  "find_target held_server ''web'' = Inr sealed_target" "snd (acquire sample_server (as_User routed_alice)) = held_server"
  using sample_find sample_acquire(2)[of "as_User routed_alice"]
  by (simp_all add: held_server_def sample_server_def find_target_def routed_alice_def)

lemma sample_protocol: "protocol_of (sample_inbound u) = (CapabilityShell, ''shell'')"
  by (simp add: protocol_of_def sample_inbound_def)

lemma sample_target_id [simp]: "Target_ID sealed_target = 1" "Target_CredentialKind sealed_target = ''password''"
  by (simp_all add: sealed_target_def sample_target_def)

lemma sample_routed_allowed: "routed_allowed held_server (sample_inbound ''alice+web'') routed_alice = Inr sealed_target"
proof -
  have "in_Pty (sample_inbound ''alice+web'')" "as_TargetName routed_alice = ''web''"
    by (simp_all add: sample_inbound_def routed_alice_def)
  with sample_access(1) held_facts show ?thesis by (simp add: routed_allowed_def sample_protocol)
qed

lemma sample_proxied:
  assumes "srv_cipher s = sample_cipher"
  shows "proxied sample_world s (sample_inbound u) ''shell'' sealed_target
    = (Inr (), [DialTarget (srv_store s) sealed_target, Proxy ''shell''])"
proof -
  obtain c where "fst (Dial sample_lib sample_peer sealed_target (clean_payload (sample_payload\<lparr>Version := 1\<rparr>)) None) = Inr c"
    using sample_dial by (auto simp: is_ok_iff)
  then show ?thesis
    using sample_credential[OF assms]
    by (simp add: proxied_def open_target_def sample_world_def const_defs run_proxy_def ProxyShell_def shell_result_def)
qed

definition sample_start :: AuditEvent where
  "sample_start = session_event (as_User routed_alice) (sample_inbound ''alice+web'') (''target.'' @ ''shell'' @ ''.start'') (Some 1) ''success'' []"

lemma sample_routed_effects:
  "fst (handleRouted sample_world sample_server (sample_inbound ''alice+web'') routed_alice)
   = [DialTarget (srv_store (record_event held_server sample_start)) sealed_target, Proxy ''shell'']"
proof -
  have "proxied sample_world (record_event held_server sample_start) (sample_inbound ''alice+web'') ''shell'' sealed_target
      = (Inr (), [DialTarget (srv_store (record_event held_server sample_start)) sealed_target, Proxy ''shell''])"
    by (rule sample_proxied) (simp add: record_event_frame held_facts)
  then show ?thesis
    using sample_acquire(1)
    by (simp add: handleRouted_def Let_def split_beta held_facts routed_body_def sample_routed_allowed sample_protocol
        routed_end_def sample_start_def)
qed

theorem handle_connects_authorised_witness:
  "\<exists>d. DialTarget d sealed_target \<in> set (fst (handle sample_world sample_server (sample_inbound ''alice+web'') []))
    \<and> policy d (as_User routed_alice) 1 CapabilityShell"
proof -
  let ?d = "srv_store (record_event held_server sample_start)"
  have h: "handle sample_world sample_server (sample_inbound ''alice+web'') []
      = handleRouted sample_world sample_server (sample_inbound ''alice+web'') routed_alice"
    by (simp add: handle_def sample_state Let_def) (simp add: routed_alice_def)
  have "DialTarget ?d sealed_target \<in> set (fst (handle sample_world sample_server (sample_inbound ''alice+web'') []))"
    unfolding h sample_routed_effects by simp
  moreover from handle_connects_authorised[OF this] have "policy ?d (as_User routed_alice) 1 CapabilityShell"
  proof (elim exE conjE)
    fix state name
    assume "splitRoutedUsername (in_User (sample_inbound ''alice+web'')) = Inr (name, as_TargetName state)"
      "UserByName (srv_store sample_server) name = Inr (as_User state)"
      "policy ?d (as_User state) (Target_ID sealed_target) (needed (sample_inbound ''alice+web'') state)"
    moreover have "splitRoutedUsername (in_User (sample_inbound ''alice+web'')) = Inr (''alice'', ''web'')"
      "UserByName (srv_store sample_server) ''alice'' = Inr (as_User routed_alice)" by code_simp+
    ultimately have "as_TargetName state = ''web''" "as_User state = as_User routed_alice"
      "policy ?d (as_User state) (Target_ID sealed_target) (needed (sample_inbound ''alice+web'') state)" by auto
    then show ?thesis by (simp add: needed_def sample_protocol)
  qed
  ultimately show ?thesis by blast
qed

definition sample_request :: directTCPIPData where
  "sample_request = \<lparr>DestAddr = ''db.local'', DestPort = 5432, OriginAddr = ''127.0.0.1'', OriginPort = 40000\<rparr>"

theorem forward_authorised_witness:
  "\<exists>d addr. DialThrough d sealed_target addr \<in> set (fst (handleDirectTCPIP sample_world sample_server (sample_inbound ''alice+web'') (Some sample_request)))
    \<and> policy d (as_User routed_alice) 1 CapabilityForward \<and> ForwardAllowed d 1 ''db.local'' 5432"
proof -
  let ?h = "handleDirectTCPIP sample_world sample_server (sample_inbound ''alice+web'') (Some sample_request)"
  obtain c where c: "fst (Dial sample_lib sample_peer sealed_target (clean_payload (sample_payload\<lparr>Version := 1\<rparr>)) None) = Inr c"
    using sample_dial by (auto simp: is_ok_iff)
  have n: "as_TargetName routed_alice = ''web''" by (simp add: routed_alice_def)
  have "forward_allowed sample_server routed_alice sealed_target sample_request = Inr sealed_target"
    using sample_access by (simp add: forward_allowed_def sample_request_def const_defs)
  then have "fst ?h = fst (forward_body sample_world held_server (sample_inbound ''alice+web'') routed_alice sealed_target sample_request)"
    using sample_acquire(1)
    by (simp add: handleDirectTCPIP_def sample_state n sample_find held_facts split_beta Let_def)
  also have "DialThrough (srv_store sample_server) sealed_target (JoinHostPort ''db.local'' (itoa 5432)) \<in> set \<dots>"
    using sample_credential[OF held_facts(2)] c
    by (simp add: forward_body_def sample_world_def held_facts sample_request_def)
  finally have d: "DialThrough (srv_store sample_server) sealed_target (JoinHostPort ''db.local'' (itoa 5432)) \<in> set (fst ?h)" .
  with forward_authorised[OF d] show ?thesis
    by (auto simp: sample_state sample_request_def)
qed

lemma sample_counts: "counts_sessions Default sample_server {#}"
  by (simp add: counts_sessions_def sample_server_def)

theorem sessions_give_slots_back_witness:
  "counts_sessions Default (snd (handle sample_world sample_server (sample_inbound ''alice+web'') [])) {#}"
  using sessions_give_slots_back[OF sample_counts] by blast

theorem session_limits_witness:
  "\<exists>s'. slot_run acquire release User_ID sample_server {#} [Inl (as_User routed_alice), Inl (as_User routed_alice), Inr (as_User routed_alice)]
      = Some (s', {#2#}) \<and> srv_total s' = 1"
proof -
  let ?es = "[Inl (as_User routed_alice), Inl (as_User routed_alice), Inr (as_User routed_alice)]"
  obtain s' where r: "slot_run acquire release User_ID sample_server {#} ?es = Some (s', {#2#})"
    by (simp add: acquire_def sample_server_def Default_def routed_alice_def)
  from session_limits[OF sample_counts _ _ r] r show ?thesis by (simp add: Default_def)
qed

theorem routed_session_recorded_witness:
  "\<exists>e rest. audit_events (srv_store (snd (handleRouted sample_world sample_server (sample_inbound ''alice+web'') routed_alice))) = rest @ [e]
    \<and> Audit_EventType e = ''target.shell.end'' \<and> Audit_TargetID e = Some 1 \<and> Audit_Outcome e = ''success''"
proof -
  let ?h = "handleRouted sample_world sample_server (sample_inbound ''alice+web'') routed_alice"
  have h: "?h = (fst ?h, snd ?h)" by simp
  have w: "int64 (w_elapsed sample_world)" by (simp add: sample_world_def int64_def)
  have t: "find (\<lambda>t. Target_Name t = as_TargetName routed_alice) (targets (srv_store sample_server)) = Some sealed_target"
    by (simp add: sample_server_def sealed_target_def sample_target_def routed_alice_def)
  have g: "users (exec d (OpAddGroup n)) = users d" "targets (exec d (OpAddGroup n)) = targets d" for d n
    by (simp_all add: AddGroup_def split: sum.split)
  have "users (srv_store (snd ?h)) = users (srv_store sample_server) \<and> targets (srv_store (snd ?h)) = targets (srv_store sample_server)"
  proof -
    obtain effs0 s2 where r: "routed_body sample_world held_server (sample_inbound ''alice+web'') routed_alice = (effs0, s2)" by fastforce
    then have "users (srv_store s2) = users (srv_store held_server) \<and> targets (srv_store s2) = targets (srv_store held_server)"
      by (auto simp: routed_body_def Let_def split_beta sample_routed_allowed apply_ops_def sample_world_def record_event_tables
          routed_end_frame[OF prod.collapse[symmetric]] g simp del: exec.simps)
    with r sample_acquire(1) held_facts show ?thesis
      by (simp add: handleRouted_def Let_def split_beta release_store)
  qed
  then have "users (srv_store (snd ?h)) = users (srv_store sample_server)" "targets (srv_store (snd ?h)) = targets (srv_store sample_server)"
    by simp_all
  moreover have "User_ID (as_User routed_alice) \<in> users_id ` set (users (srv_store sample_server))"
    "1 \<in> Target_ID ` set (targets (srv_store sample_server))"
    by (simp_all add: sample_server_def sample_db_def routed_alice_def)
  ultimately show ?thesis
    using routed_session_recorded[OF sample_ok sample_state w h] sample_acquire(1) t
    by (auto simp: sample_routed_effects sample_protocol)
qed


section \<open>A session outlives its user's account\<close>

text \<open>
  A session keeps the user it read at its start: an administrator disables the account while its menu is open, and the
  pick that follows is still connected, on a database where the user is disabled.
\<close>

theorem disabled_user_connects:
  "\<exists>d. DialTarget d sealed_target \<in> set (fst (handle sample_world sample_server (sample_inbound ''alice'')
       [(sample_world, [Whole (OpSetUserEnabled ''alice'' False)], MenuPick 1)]))
     \<and> (\<forall>r\<in>set (users d). users_username r = ''alice'' \<longrightarrow> \<not> users_enabled r)"
proof -
  let ?in = "sample_inbound ''alice''" and ?alice = "as_User routed_alice"
  let ?started = "record_event (snd (acquire sample_server ?alice)) (session_event ?alice ?in ''gateway.session.start'' None ''success'' [])"
  let ?s = "apply_ops ?started [Whole (OpSetUserEnabled ''alice'' False)]"
  let ?t = "record_event ?s (session_event ?alice ?in ''target.connect.start'' (Some 1) ''success'' [])"
  have st: "stateFromContext sample_server ?in = Some (routed_alice\<lparr>as_TargetName := []\<rparr>)" by code_simp
  have c: "CanAccess (srv_store ?s) ?alice 1" by code_simp
  have i: "TargetByID (srv_store ?s) 1 = Inr sealed_target"
  proof -
    have "targets (srv_store ?s) = [sealed_target]"
      by (simp add: apply_ops_def SetUserEnabled_def record_event_tables acquire_store split: sum.split) (simp add: sample_server_def)
    then show ?thesis by (simp add: TargetByID_def)
  qed
  have p: "proxied sample_world ?t ?in ''shell'' sealed_target = (Inr (), [DialTarget (srv_store ?t) sealed_target, Proxy ''shell''])"
    by (rule sample_proxied) (simp add: record_event_frame apply_ops_def sample_acquire(2), simp add: sample_server_def)
  have e: "fst (snd (connect_menu sample_world ?s ?in ?alice sealed_target)) = [DialTarget (srv_store ?t) sealed_target, Proxy ''shell'']"
    using p by (simp add: connect_menu_def Let_def)
  have m: "DialTarget (srv_store ?t) sealed_target \<in> set (fst (snd (menu_loop ?in ?alice
       [(sample_world, [Whole (OpSetUserEnabled ''alice'' False)], MenuPick 1)] [] ?started)))"
    using c i e by (auto simp: Let_def split_beta split: sum.split)
  have a: "as_User (routed_alice\<lparr>as_TargetName := []\<rparr>) = ?alice" "in_Pty ?in" by (simp_all add: sample_inbound_def)
  obtain s1 where s1: "acquire sample_server ?alice = (True, s1)" using sample_acquire(1)[of ?alice] by (metis prod.collapse)
  have d: "DialTarget (srv_store ?t) sealed_target \<in> set (fst (handle sample_world sample_server ?in
       [(sample_world, [Whole (OpSetUserEnabled ''alice'' False)], MenuPick 1)]))"
    using m unfolding handle_def st option.case Let_def a s1 by (simp add: split_beta a(2))
  have "list_all (\<lambda>r. users_username r = ''alice'' \<longrightarrow> \<not> users_enabled r) (users (srv_store ?t))" by code_simp
  with d show ?thesis by (auto simp: list_all_iff)
qed

end
