(* ===== verification/Gateway_Auth.thy ===== *)
theory Gateway_Auth
  imports Gateway_Sessions
begin

text \<open>
  What a successful login means: which key, which identity and which second factor stood behind it, and
  that a code that was accepted is not accepted again.
\<close>

section \<open>The second factor\<close>

text \<open>A code passes for a user: it is the code of a step around now of the secret stored for the user, later than the last one used.\<close>

definition totp_passes :: "aead \<Rightarrow> int \<Rightarrow> Server \<Rightarrow> int \<Rightarrow> string \<Rightarrow> int \<Rightarrow> bool" where
  "totp_passes A now s uid answer counter \<longleftrightarrow> (\<exists>config secret. UserTOTP (srv_store s) uid = Inr config
     \<and> DecryptTOTP A (srv_cipher s) uid (TOTP_Nonce config) (TOTP_Ciphertext config) = Inr secret
     \<and> Totp.Validate secret answer now = Some counter \<and> TOTP_LastCounter config < counter)"

lemma totp_last_UserTOTP: "totp_last uid s = Some l \<longleftrightarrow> (\<exists>c. UserTOTP s uid = Inr c \<and> TOTP_LastCounter c = l)"
  by (auto simp: totp_last_def UserTOTP_def split: option.splits)

lemma totp_verify_iff:
  assumes "store_ok (srv_store s)"
  shows "is_ok (fst (totp_verify A now s uid answer)) \<longleftrightarrow> (\<exists>counter. totp_passes A now s uid answer counter)"
proof -
  have c: "is_ok (fst (ConsumeTOTPCounter (srv_store s) uid k)) \<longleftrightarrow> (\<exists>c. UserTOTP (srv_store s) uid = Inr c \<and> TOTP_LastCounter c < k)" for k
    using consume_iff[OF assms, of uid k] totp_last_UserTOTP by (auto simp: consume_def)
  show ?thesis
    by (auto simp: totp_verify_def totp_passes_def c split_beta split: sum.splits option.splits)
qed

lemma totp_verify_store:
  assumes "store_ok (srv_store s)" "totp_verify A now s uid answer = (Inr (), s')"
  obtains counter where "totp_passes A now s uid answer counter" "totp_last uid (srv_store s') = Some counter"
    "s' = s\<lparr>srv_store := snd (ConsumeTOTPCounter (srv_store s) uid counter)\<rparr>"
proof -
  obtain config secret counter where t: "UserTOTP (srv_store s) uid = Inr config"
    "DecryptTOTP A (srv_cipher s) uid (TOTP_Nonce config) (TOTP_Ciphertext config) = Inr secret"
    "Totp.Validate secret answer now = Some counter" "fst (ConsumeTOTPCounter (srv_store s) uid counter) = Inr ()"
    "s' = s\<lparr>srv_store := snd (ConsumeTOTPCounter (srv_store s) uid counter)\<rparr>"
    using assms(2) by (auto simp: totp_verify_def split_beta split: sum.splits option.splits)
  have f: "fst (consume uid (srv_store s) counter)" using t(4) by (simp add: consume_def)
  then have "totp_last uid (srv_store s') = Some counter"
    using consume_last[OF assms(1), of uid counter] t(5) by (simp add: consume_def)
  moreover have "TOTP_LastCounter config < counter"
    using f consume_iff[OF assms(1)] totp_last_UserTOTP[of uid "srv_store s"] t(1) by auto
  ultimately show thesis using that t unfolding totp_passes_def by blast
qed

lemma find_update_where:
  "(\<And>x. P (f x) = P x) \<Longrightarrow> find P (update_where Q f xs) = map_option (\<lambda>x. if Q x then f x else x) (find P xs)"
  by (induction xs) auto

lemma UserTOTP_consumed:
  assumes "UserTOTP (snd (ConsumeTOTPCounter d uid counter)) uid = Inr c'"
  obtains c where "UserTOTP d uid = Inr c" "TOTP_Nonce c' = TOTP_Nonce c" "TOTP_Ciphertext c' = TOTP_Ciphertext c"
proof (cases "find (\<lambda>q. totp_user_id q = uid) (user_totp d)")
  case None
  with assms show thesis by (simp add: UserTOTP_def ConsumeTOTPCounter_def Let_def find_update_where)
next
  case (Some q)
  with assms have "TOTP_Nonce c' = totp_secret_nonce q" "TOTP_Ciphertext c' = totp_secret_ciphertext q"
    by (auto simp: UserTOTP_def ConsumeTOTPCounter_def Let_def find_update_where)
  with Some show thesis by (intro that[of "\<lparr>TOTP_UserID = totp_user_id q, TOTP_Nonce = totp_secret_nonce q,
      TOTP_Ciphertext = totp_secret_ciphertext q, TOTP_LastCounter = totp_last_counter q\<rparr>"]) (simp_all add: UserTOTP_def)
qed

text \<open>
  A TOTP code that was accepted is refused when it is given again in the same time step: the counter it
  stands for has been used up in the store.
\<close>

theorem totp_code_replay_refused:
  assumes "store_ok (srv_store s)" "totp_verify A now s uid answer = (Inr (), s')"
  shows "\<not> is_ok (fst (totp_verify A now s' uid answer))"
proof
  assume again: "is_ok (fst (totp_verify A now s' uid answer))"
  obtain counter where c: "totp_passes A now s uid answer counter" "totp_last uid (srv_store s') = Some counter"
    "s' = s\<lparr>srv_store := snd (ConsumeTOTPCounter (srv_store s) uid counter)\<rparr>"
    using totp_verify_store[OF assms] .
  have "store_ok (srv_store s')" using assms(1) c(3) by (simp add: store_inv_intros)
  with again obtain config secret k where k: "UserTOTP (srv_store s') uid = Inr config"
    "DecryptTOTP A (srv_cipher s') uid (TOTP_Nonce config) (TOTP_Ciphertext config) = Inr secret"
    "Totp.Validate secret answer now = Some k" "TOTP_LastCounter config < k"
    by (auto simp: totp_verify_iff totp_passes_def)
  have "TOTP_LastCounter config = counter" using c(2) k(1) totp_last_UserTOTP[of uid "srv_store s'"] by auto
  moreover have "k = counter"
  proof -
    from k(1) obtain config0 where "UserTOTP (srv_store s) uid = Inr config0"
      "TOTP_Nonce config = TOTP_Nonce config0" "TOTP_Ciphertext config = TOTP_Ciphertext config0"
      unfolding c(3) by (auto elim: UserTOTP_consumed)
    with k(2,3) c(1,3) show ?thesis by (auto simp: totp_passes_def)
  qed
  ultimately show False using k(4) by simp
qed

section \<open>Logging in with a key\<close>

lemma record_event_UserTOTP [simp]: "UserTOTP (srv_store (record_event s e)) uid = UserTOTP (srv_store s) uid"
  using Audit_frame[of "srv_store s" e] by (auto simp: record_event_def UserTOTP_def)

lemma record_event_totp_last [simp]: "totp_last uid (srv_store (record_event s e)) = totp_last uid (srv_store s)"
  using Audit_frame[of "srv_store s" e] by (auto simp: record_event_def totp_last_def)

lemma record_event_ok: "store_ok (srv_store s) \<Longrightarrow> store_ok (srv_store (record_event s e))"
  by (simp add: record_event_def store_inv_intros)

lemma totp_passes_record [simp]: "totp_passes A now (record_event s e) uid answer k = totp_passes A now s uid answer k"
  by (simp add: totp_passes_def record_event_frame)

definition totp_prompt :: string where
  "totp_prompt = ''SSHGateW two-factor authentication''"

lemma authenticateTOTP_ok:
  assumes "store_ok (srv_store s)" "authenticateTOTP A now challenge s u username source = (Inr (), s')"
  shows "\<exists>answer counter. challenge totp_prompt [] = Inr [answer] \<and> totp_passes A now s (User_ID u) answer counter
    \<and> totp_last (User_ID u) (srv_store s') = Some counter"
proof -
  obtain answer s1 where a: "challenge totp_prompt [] = Inr [answer]" "totp_verify A now s (User_ID u) answer = (Inr (), s1)"
    "s' = auditTOTP s1 u username source ''success''"
    using assms(2) by (auto simp: authenticateTOTP_def totp_prompt_def split: sum.splits list.splits prod.splits go_error.splits)
  have "totp_last (User_ID u) (srv_store s') = totp_last (User_ID u) (srv_store s1)"
    by (simp add: a(3) auditTOTP_def)
  with totp_verify_store[OF assms(1) a(2)] a(1) show ?thesis by metis
qed

text \<open>
  C19: A key login that is granted is that of an enabled user of the claimed name who owns a key with the
  presented fingerprint; and if a TOTP secret is enrolled for that user, the client answered with a code
  of that secret for the current time, newer than every code used before, which is used up by the login. The permissions carry
  that user name, the target it routes to and the method.
\<close>

theorem key_login_sound:
  assumes "store_ok (srv_store s)" "key_login L A now challenge s user source key = (Inr p, s')"
  shows "\<exists>r\<in>set (users (srv_store s)). users_username r = ToLower (perm_user p) \<and> users_enabled r
    \<and> (\<exists>k\<in>set (gateway_keys (srv_store s)). Key_UserID k = users_id r \<and> Key_Fingerprint k = FingerprintSHA256 L key)
    \<and> splitRoutedUsername user = Inr (perm_user p, perm_target p) \<and> perm_method p = ''publickey''
    \<and> ((\<exists>q\<in>set (user_totp (srv_store s)). totp_user_id q = users_id r) \<longrightarrow>
        (\<exists>answer counter. challenge totp_prompt [] = Inr [answer] \<and> totp_passes A now s (users_id r) answer counter
          \<and> totp_last (users_id r) (srv_store s') = Some counter))"
proof -
  obtain username target where sp: "splitRoutedUsername user = Inr (username, target)"
    using assms(2) by (auto simp: key_login_def serverConfig_def split: sum.splits)
  obtain u where u: "AuthenticateKey (srv_store s) username (FingerprintSHA256 L key) = Inr u"
    using assms(2) sp by (auto simp: key_login_def serverConfig_def Let_def split: sum.splits)
  then obtain r where r: "r \<in> set (users (srv_store s))" "users_username r = ToLower username" "users_enabled r"
    "u = scanUser (srv_store s) r" "\<exists>k\<in>set (gateway_keys (srv_store s)). Key_UserID k = users_id r \<and> Key_Fingerprint k = FingerprintSHA256 L key"
    unfolding AuthenticateKey_iff[OF assms(1)] by blast
  define s1 where "s1 = snd (serverConfig L s user source key)"
  have s1: "\<exists>e. s1 = record_event s e" "serverConfig L s user source key =
      (if \<not> User_TOTPEnabled u then KeyGranted (authPermissions username target ''publickey'') else KeyPartial u username target, s1)"
    using sp u by (auto simp: s1_def serverConfig_def Let_def)
  have p: "p = authPermissions username target ''publickey''"
    using assms(2) s1(2) by (auto simp: key_login_def second_factor_def split: if_splits prod.splits sum.splits)
  have "\<exists>answer counter. challenge totp_prompt [] = Inr [answer] \<and> totp_passes A now s (users_id r) answer counter
      \<and> totp_last (users_id r) (srv_store s') = Some counter" if "User_TOTPEnabled u"
  proof -
    have "authenticateTOTP A now challenge s1 u username source = (Inr (), s')"
      using assms(2) s1(2) that by (auto simp: key_login_def second_factor_def split: prod.splits sum.splits)
    moreover have "store_ok (srv_store s1)" using s1(1) record_event_ok[OF assms(1)] by blast
    moreover have "User_ID u = users_id r" by (simp add: r(4) scanUser_def)
    ultimately show ?thesis using authenticateTOTP_ok[of s1] s1(1) by fastforce
  qed
  with r p sp show ?thesis by (auto simp: authPermissions_def scanUser_def list_ex_iff)
qed

section \<open>Logging in with OIDC\<close>

text \<open>
  C20: An OIDC login that is granted was verified by the provider for a subject the store accepts for the
  claimed user (who exists and is enabled there), and if the user has a TOTP secret a fresh code of
  it was given as well. OIDC that is not configured grants nothing, nor does a second attempt on the same connection.
\<close>

theorem oidc_login_sound:
  assumes "store_ok (srv_store s)"
    "keyboardInteractive A idp now challenge attempted s user source = (Some p, attempted', s')"
  shows "srv_oidc s \<and> \<not> attempted \<and> splitRoutedUsername user = Inr (perm_user p, perm_target p) \<and> perm_method p = ''oidc''
    \<and> (\<exists>login subject name u d. idp_Begin idp = Inr login \<and> idp_Complete idp login = Inr (subject, name) \<and> validOIDCSubject subject
        \<and> AuthenticateOIDC (srv_store s) (perm_user p) (OIDC_IssuerURL (OIDC (srv_cfg s))) subject name = (Inr u, d)
        \<and> (User_TOTPEnabled u \<longrightarrow> (\<exists>answer counter. challenge totp_prompt [] = Inr [answer]
             \<and> totp_passes A now (s\<lparr>srv_store := d\<rparr>) (User_ID u) answer counter
             \<and> totp_last (User_ID u) (srv_store s') = Some counter)))"
proof -
  have k: "srv_oidc s" "\<not> attempted" "authenticateOIDC A idp now challenge s user source = (Inr p, s')"
    using assms(2) by (auto simp: keyboardInteractive_def split: if_splits prod.splits sum.splits)
  obtain username target where sp: "splitRoutedUsername user = Inr (username, target)"
    using k(3) by (auto simp: authenticateOIDC_def split: sum.splits)
  obtain v where v: "UserByName (srv_store s) username = Inr v" "User_Enabled v"
    using k(3) sp by (auto simp: authenticateOIDC_def split: sum.splits if_splits)
  obtain login answer subject name where i: "idp_Begin idp = Inr login"
    "challenge ''SSHGateW OIDC authentication'' (oidc_instruction login) = Inr [answer]"
    "idp_Complete idp login = Inr (subject, name)" "validOIDCSubject subject"
    using k(3) sp v by (auto simp: authenticateOIDC_def Let_def split: sum.splits if_splits list.splits)
  obtain r d where ad: "AuthenticateOIDC (srv_store s) username (OIDC_IssuerURL (OIDC (srv_cfg s))) subject name = (r, d)"
    by fastforce
  obtain u where r: "r = Inr u" using k(3) sp v i ad by (auto simp: authenticateOIDC_def Let_def split: sum.splits)
  let ?s1 = "auditOIDC (s\<lparr>srv_store := d\<rparr>) (Some (User_ID v)) username source target subject ''success''"
  have p: "p = authPermissions username target ''oidc''"
    and t: "User_TOTPEnabled u \<Longrightarrow> authenticateTOTP A now challenge ?s1 u username source = (Inr (), s')"
    using k(3) sp v i ad r
    by (auto simp: authenticateOIDC_def Let_def split: if_splits prod.splits sum.splits)
  have "store_ok d" using AuthenticateOIDC_ok[OF assms(1), of username _ subject name] ad by (metis snd_conv)
  then have "store_ok (srv_store ?s1)" by (simp add: auditOIDC_def record_event_ok)
  from authenticateTOTP_ok[OF this] t p k(1,2) sp i ad r show ?thesis
    by (fastforce simp: authPermissions_def auditOIDC_def)
qed

section \<open>A user with two factors, to evaluate the properties on\<close>

definition rfc_secret :: string where
  "rfc_secret = ''GEZDGNBVGY3TQOJQGEZDGNBVGY3TQOJQ''"

definition sealed_totp :: totp_row where
  "sealed_totp = \<lparr>totp_user_id = 2, totp_secret_nonce = sample_nonce,
     totp_secret_ciphertext = Seal clear_aead (Cipher_key sample_cipher) sample_nonce
       (marshal_payload (empty_payload\<lparr>Version := 1, TOTPSecret := rfc_secret\<rparr>)) (totpAAD 2),
     totp_last_counter = -1, totp_created_at = []\<rparr>"

definition totp_server :: Server where
  "totp_server = sample_server\<lparr>srv_store := (srv_store sample_server)\<lparr>user_totp := [sealed_totp]\<rparr>, srv_oidc := True,
     srv_cfg := Default\<lparr>OIDC := (OIDC Default)\<lparr>OIDC_IssuerURL := ''https://idp''\<rparr>\<rparr>\<rparr>"

lemma totp_server_ok: "store_ok (srv_store totp_server)"
  by code_simp

lemma sealed_totp_opens:
  "DecryptTOTP clear_aead sample_cipher 2 (totp_secret_nonce sealed_totp) (totp_secret_ciphertext sealed_totp) = Inr rfc_secret"
proof -
  have "encrypt clear_aead (Inr sample_nonce) sample_cipher (empty_payload\<lparr>TOTPSecret := rfc_secret\<rparr>) (totpAAD 2)
      = Inr (sample_nonce, totp_secret_ciphertext sealed_totp)"
    by (simp add: encrypt_def sample_cipher_def KeySize_def sealed_totp_def empty_payload_def)
  from decrypt_encrypt[OF clear_opens this sample_sealed(1)]
  have "decrypt clear_aead sample_cipher (totp_secret_nonce sealed_totp) (totp_secret_ciphertext sealed_totp) (totpAAD 2)
      = Inr (clean_payload (empty_payload\<lparr>TOTPSecret := rfc_secret, Version := 1\<rparr>))"
    by (simp add: sealed_totp_def)
  moreover have "to_valid rfc_secret = rfc_secret" unfolding rfc_secret_def by (rule to_valid_ascii) simp
  ultimately show ?thesis by (simp add: DecryptTOTP_def clean_payload_def rfc_secret_def)
qed

lemma rfc_valid: "\<exists>k. Totp.Validate rfc_secret ''287082'' 59 = Some k \<and> -1 < k"
proof -
  have "TrimSpace ''287082'' = ''287082''" "counter_of 59 = 1" by code_simp+
  then show ?thesis by (simp add: Totp.Validate_def Let_def Digits_def rfc_secret_def rfc6238_code)
qed

lemma UserTOTP_sealed:
  assumes "user_totp d = [sealed_totp]"
  shows "UserTOTP d 2 = Inr \<lparr>TOTP_UserID = 2, TOTP_Nonce = totp_secret_nonce sealed_totp,
    TOTP_Ciphertext = totp_secret_ciphertext sealed_totp, TOTP_LastCounter = -1\<rparr>"
  using assms by (simp add: UserTOTP_def sealed_totp_def)

lemma sealed_totp_verify:
  assumes "user_totp (srv_store s) = [sealed_totp]" "srv_cipher s = sample_cipher"
  shows "\<exists>s'. totp_verify clear_aead 59 s 2 ''287082'' = (Inr (), s')"
proof -
  obtain k where k: "Totp.Validate rfc_secret ''287082'' 59 = Some k" "-1 < k" using rfc_valid by blast
  have "fst (ConsumeTOTPCounter (srv_store s) 2 k) = Inr ()"
    using assms(1) k(2) by (simp add: ConsumeTOTPCounter_def count_where_def sealed_totp_def)
  then show ?thesis
    using assms k sealed_totp_opens by (simp add: totp_verify_def UserTOTP_sealed split_beta)
qed

lemma totp_server_facts: "user_totp (srv_store totp_server) = [sealed_totp]" "srv_cipher totp_server = sample_cipher"
  by (simp_all add: totp_server_def sample_server_def)

theorem totp_code_replay_refused_witness:
  "\<exists>s'. totp_verify clear_aead 59 totp_server 2 ''287082'' = (Inr (), s')
    \<and> \<not> is_ok (fst (totp_verify clear_aead 59 s' 2 ''287082''))"
proof -
  obtain s' where v: "totp_verify clear_aead 59 totp_server 2 ''287082'' = (Inr (), s')"
    using sealed_totp_verify[OF totp_server_facts] by blast
  with totp_code_replay_refused[OF totp_server_ok v] show ?thesis by blast
qed

text \<open>A client that answers every prompt with the code.\<close>

definition code_answer :: challenge where
  "code_answer title instruction = Inr [''287082'']"

definition totp_alice :: User where
  "totp_alice = scanUser (srv_store totp_server) (users (srv_store totp_server) ! 1)"

lemma alice_second_factor:
  assumes "user_totp (srv_store s) = [sealed_totp]" "srv_cipher s = sample_cipher"
  shows "\<exists>s'. authenticateTOTP clear_aead 59 code_answer s totp_alice username source = (Inr (), s')"
proof -
  have "User_ID totp_alice = 2" by code_simp
  with sealed_totp_verify[OF assms] show ?thesis by (auto simp: authenticateTOTP_def code_answer_def)
qed

lemma record_event_totp [simp]: "user_totp (srv_store (record_event s e)) = user_totp (srv_store s)"
  using Audit_frame[of "srv_store s" e] by (auto simp: record_event_def)

definition alice_key :: pubkey where
  "alice_key = \<lparr>key_Type = ''ssh-ed25519'', key_Marshal = ''a''\<rparr>"

theorem key_login_sound_witness:
  "\<exists>p s' answer counter. key_login sample_lib clear_aead 59 code_answer totp_server ''alice'' ''192.0.2.1:5022'' alice_key = (Inr p, s')
     \<and> totp_passes clear_aead 59 totp_server 2 answer counter"
proof -
  have a: "splitRoutedUsername ''alice'' = Inr (''alice'', [])"
    "AuthenticateKey (srv_store totp_server) ''alice'' ''SHA256:a'' = Inr totp_alice" "User_TOTPEnabled totp_alice"
    by code_simp+
  have "FingerprintSHA256 sample_lib alice_key = ''SHA256:a''" by (simp add: sample_lib_def alice_key_def)
  then obtain s1 where s1: "serverConfig sample_lib totp_server ''alice'' ''192.0.2.1:5022'' alice_key = (KeyPartial totp_alice ''alice'' [], s1)"
    "user_totp (srv_store s1) = [sealed_totp]" "srv_cipher s1 = sample_cipher"
    by (simp add: serverConfig_def a Let_def record_event_frame totp_server_facts)
  obtain s2 where "authenticateTOTP clear_aead 59 code_answer s1 totp_alice ''alice'' ''192.0.2.1:5022'' = (Inr (), s2)"
    using alice_second_factor[OF s1(2,3)] by blast
  then obtain p s' where l: "key_login sample_lib clear_aead 59 code_answer totp_server ''alice'' ''192.0.2.1:5022'' alice_key = (Inr p, s')"
    using s1(1) by (simp add: key_login_def second_factor_def)
  obtain r where r: "r \<in> set (users (srv_store totp_server))" "users_username r = ToLower (perm_user p)"
    "splitRoutedUsername ''alice'' = Inr (perm_user p, perm_target p)"
    "(\<exists>q\<in>set (user_totp (srv_store totp_server)). totp_user_id q = users_id r) \<longrightarrow>
      (\<exists>answer counter. totp_passes clear_aead 59 totp_server (users_id r) answer counter)"
    using key_login_sound[OF totp_server_ok l] by blast
  have "ToLower ''alice'' = ''alice''" by code_simp
  then have "users_username r = ''alice''" using r(2,3) a(1) by simp
  then have "users_id r = 2" using r(1) by (auto simp: totp_server_def sample_server_def sample_db_def)
  with r(4) l show ?thesis by (auto simp: totp_server_facts sealed_totp_def)
qed

definition sample_idp :: identity_provider where
  "sample_idp = \<lparr>idp_Begin = Inr \<lparr>dl_UserCode = ''ABCD'', dl_VerificationURI = ''https://idp/d'', dl_VerificationURIComplete = []\<rparr>,
     idp_Complete = (\<lambda>_. Inr (''sub-1'', ''alice''))\<rparr>"

theorem oidc_login_sound_witness:
  "\<exists>p s'. keyboardInteractive clear_aead sample_idp 59 code_answer False totp_server ''alice+web'' ''192.0.2.1:5022'' = (Some p, True, s')
     \<and> perm_user p = ''alice'' \<and> perm_target p = ''web''"
proof -
  have a: "splitRoutedUsername ''alice+web'' = Inr (''alice'', ''web'')" "UserByName (srv_store totp_server) ''alice'' = Inr totp_alice"
    "User_Enabled totp_alice" "validOIDCSubject ''sub-1''" "User_TOTPEnabled totp_alice"
    "fst (AuthenticateOIDC (srv_store totp_server) ''alice'' ''https://idp'' ''sub-1'' ''alice'') = Inr totp_alice"
    "user_totp (snd (AuthenticateOIDC (srv_store totp_server) ''alice'' ''https://idp'' ''sub-1'' ''alice'')) = [sealed_totp]"
    by code_simp+
  then obtain d where d: "AuthenticateOIDC (srv_store totp_server) ''alice'' ''https://idp'' ''sub-1'' ''alice'' = (Inr totp_alice, d)"
    "user_totp d = [sealed_totp]" by (metis prod.collapse)
  let ?s1 = "auditOIDC (totp_server\<lparr>srv_store := d\<rparr>) (Some (User_ID totp_alice)) ''alice'' ''192.0.2.1:5022'' ''web'' ''sub-1'' ''success''"
  obtain s' where "authenticateTOTP clear_aead 59 code_answer ?s1 totp_alice ''alice'' ''192.0.2.1:5022'' = (Inr (), s')"
    using alice_second_factor[of ?s1] d(2) totp_server_facts(2) by (auto simp: auditOIDC_def record_event_frame)
  moreover have "OIDC_IssuerURL (OIDC (srv_cfg totp_server)) = ''https://idp''" by code_simp
  moreover have "srv_oidc totp_server" by code_simp
  ultimately obtain p where k: "keyboardInteractive clear_aead sample_idp 59 code_answer False totp_server ''alice+web'' ''192.0.2.1:5022'' = (Some p, True, s')"
    using a(1-5) d(1) by (simp add: keyboardInteractive_def authenticateOIDC_def Let_def sample_idp_def code_answer_def)
  from oidc_login_sound[OF totp_server_ok k] k a(1) show ?thesis by auto
qed

end
