(* ===== verification/Gateway_Input.thy ===== *)
theory Gateway_Input
  imports Go_Strings
begin

text \<open>
  \<^verbatim>\<open>internal/gateway/input.go\<close>: the one reader of an SSH channel, shared by the menu and the shells that
  take turns on it. A read by a shell can be cancelled while it waits; what the reader had already taken
  from the channel must then be there for the next consumer.
\<close>

section \<open>The reader\<close>

record inputResult =
  ir_data :: string
  ir_err :: "go_error option"

text \<open>
  \<open>is_reads\<close> is what the goroutine of \<open>newInteractiveSession\<close> sends on its channel from now on, until
  it closes it: the results of reading the session up to and including the first error.
\<close>

record interactiveSession =
  is_reads :: "inputResult list"
  is_pending :: string
  is_err :: "go_error option"

fun until_error :: "inputResult list \<Rightarrow> inputResult list" where
  "until_error [] = []"
| "until_error (r # rs) = (if ir_err r = None then r # until_error rs else [r])"

definition newInteractiveSession :: "inputResult list \<Rightarrow> interactiveSession" where
  "newInteractiveSession channel = \<lparr>is_reads = until_error channel, is_pending = [], is_err = None\<rparr>"

definition EOF :: go_error where
  "EOF = Err ''EOF''"

text \<open>
  The loop of \<open>ReadContext\<close>. \<open>ctx k\<close> is the error of the context at the \<open>k\<close>-th look at it: a round looks at
  its start, and again while it waits for the channel, where a cancellation wins over data that has not
  arrived.
\<close>

fun read_loop :: "nat \<Rightarrow> (nat \<Rightarrow> go_error option) \<Rightarrow> nat \<Rightarrow> inputResult list \<Rightarrow> string \<Rightarrow> go_error option
    \<Rightarrow> string res \<times> interactiveSession" where
  "read_loop n ctx k rs pending err =
     (let same = \<lparr>is_reads = rs, is_pending = pending, is_err = err\<rparr> in
      case ctx k of
        Some e \<Rightarrow> (Inl e, same)
      | None \<Rightarrow>
          if pending \<noteq> [] then (Inr (take n pending), same\<lparr>is_pending := drop n pending\<rparr>)
          else (case err of
             Some e \<Rightarrow> (Inl e, same)
           | None \<Rightarrow>
               (case ctx (k + 1) of
                  Some e \<Rightarrow> (Inl e, same)
                | None \<Rightarrow>
                    (case rs of
                       [] \<Rightarrow> (Inl EOF, same)
                     | r # rs' \<Rightarrow> read_loop n ctx (k + 2) rs' (ir_data r) (ir_err r)))))"

declare read_loop.simps [simp del]

definition ReadContext :: "(nat \<Rightarrow> go_error option) \<Rightarrow> nat \<Rightarrow> interactiveSession \<Rightarrow> string res \<times> interactiveSession" where
  "ReadContext ctx n s =
     (if n = 0 then (Inr [], s) else read_loop n ctx 0 (is_reads s) (is_pending s) (is_err s))"

text \<open>A sequence of reads, each with its own context and buffer: the bytes they return.\<close>

fun consume_input :: "((nat \<Rightarrow> go_error option) \<times> nat) list \<Rightarrow> interactiveSession \<Rightarrow> string \<times> interactiveSession" where
  "consume_input [] s = ([], s)"
| "consume_input ((ctx, n) # calls) s =
     (let (r, s') = ReadContext ctx n s; (rest, s'') = consume_input calls s'
      in ((case r of Inr bs \<Rightarrow> bs | Inl _ \<Rightarrow> []) @ rest, s''))"

section \<open>No byte is lost or moved\<close>

text \<open>The bytes a session still holds for its consumers.\<close>

definition remaining :: "interactiveSession \<Rightarrow> string" where
  "remaining s = is_pending s @ concat (map ir_data (is_reads s))"

lemma read_loop_bytes:
  "read_loop n ctx k rs pending err = (r, s') \<Longrightarrow>
   (case r of Inr bs \<Rightarrow> bs | Inl _ \<Rightarrow> []) @ remaining s' = pending @ concat (map ir_data rs)"
proof (induction rs arbitrary: k pending err)
  case Nil
  then show ?case
    by (subst (asm) read_loop.simps) (auto simp: remaining_def Let_def split: option.splits if_splits)
next
  case (Cons x rs)
  from Cons.prems show ?case
    by (subst (asm) read_loop.simps)
      (auto simp: remaining_def Let_def split: option.splits if_splits dest!: Cons.IH)
qed

lemma read_loop_size:
  assumes n: "0 < n"
  shows "read_loop n ctx k rs pending err = (Inr bs, s') \<Longrightarrow> bs \<noteq> [] \<and> length bs \<le> n"
proof (induction rs arbitrary: k pending err)
  case Nil
  with n show ?case
    by (subst (asm) read_loop.simps) (auto simp: Let_def split: option.splits if_splits)
next
  case (Cons x rs)
  from Cons.prems n show ?case
    by (subst (asm) read_loop.simps) (auto simp: Let_def split: option.splits if_splits dest!: Cons.IH)
qed

lemma read_loop_error:
  "read_loop n ctx k rs pending err = (Inl e, s') \<Longrightarrow>
   (\<exists>k. ctx k = Some e) \<or> is_pending s' = [] \<and> (is_err s' = Some e \<or> is_err s' = None \<and> is_reads s' = [] \<and> e = EOF)"
proof (induction rs arbitrary: k pending err)
  case Nil
  then show ?case
    by (subst (asm) read_loop.simps) (auto simp: Let_def split: option.splits if_splits)
next
  case (Cons x rs)
  from Cons.prems show ?case
    by (subst (asm) read_loop.simps) (auto simp: Let_def split: option.splits if_splits dest!: Cons.IH)
qed

lemma ReadContext_bytes:
  "ReadContext ctx n s = (r, s') \<Longrightarrow> (case r of Inr bs \<Rightarrow> bs | Inl _ \<Rightarrow> []) @ remaining s' = remaining s"
  using read_loop_bytes[of n ctx 0 "is_reads s" "is_pending s" "is_err s" r s']
  by (auto simp: ReadContext_def remaining_def split: if_splits)

lemma consume_input_bytes: "consume_input calls s = (bs, s') \<Longrightarrow> bs @ remaining s' = remaining s"
proof (induction calls arbitrary: s bs)
  case (Cons c calls)
  obtain ctx n where c: "c = (ctx, n)" by (cases c)
  obtain r s1 where r: "ReadContext ctx n s = (r, s1)" by (cases "ReadContext ctx n s")
  obtain rest where rest: "consume_input calls s1 = (rest, s')" "bs = (case r of Inr bs \<Rightarrow> bs | Inl _ \<Rightarrow> []) @ rest"
    using Cons.prems c r by (auto split: prod.splits)
  show ?case using Cons.IH[OF rest(1)] ReadContext_bytes[OF r] rest(2) by simp
qed simp

text \<open>
  C21: Whoever reads from the session, with whatever buffer sizes and however often a read is cancelled, the
  bytes the reads return, followed by what the session still holds, are exactly the bytes the channel
  delivered, in order: a shell that ends never takes a key with it that was meant for the menu.
\<close>

theorem input_never_lost:
  "fst (consume_input calls (newInteractiveSession channel)) @ remaining (snd (consume_input calls (newInteractiveSession channel)))
   = concat (map ir_data (until_error channel))"
  using consume_input_bytes[of calls "newInteractiveSession channel"]
  by (cases "consume_input calls (newInteractiveSession channel)") (simp add: remaining_def newInteractiveSession_def)

text \<open>
  A read returns at least one byte and at most as many as fit the buffer, or the error of the context, or,
  only when nothing is held back, the error that ended the channel.
\<close>

theorem ReadContext_result:
  assumes "0 < n" "ReadContext ctx n s = (r, s')"
  shows "case r of
      Inr bs \<Rightarrow> bs \<noteq> [] \<and> length bs \<le> n
    | Inl e \<Rightarrow> (\<exists>k. ctx k = Some e) \<or> is_pending s' = [] \<and> (is_err s' = Some e \<or> is_err s' = None \<and> is_reads s' = [] \<and> e = EOF)"
proof -
  have "read_loop n ctx 0 (is_reads s) (is_pending s) (is_err s) = (r, s')"
    using assms by (simp add: ReadContext_def)
  then show ?thesis
    using read_loop_size[OF assms(1), of ctx 0] read_loop_error[of n ctx 0] by (cases r) (blast | simp)+
qed

theorem ReadContext_result_witness:
  "\<exists>s'. ReadContext (\<lambda>k. None) 2 (newInteractiveSession [\<lparr>ir_data = ''abc'', ir_err = None\<rparr>]) = (Inr ''ab'', s') \<and> length ''ab'' \<le> 2"
proof -
  let ?s = "newInteractiveSession [\<lparr>ir_data = ''abc'', ir_err = None\<rparr>]"
  obtain s' where r: "ReadContext (\<lambda>k. None) 2 ?s = (Inr ''ab'', s')"
    by (simp add: ReadContext_def newInteractiveSession_def read_loop.simps)
  have "(0::nat) < 2" by simp
  from ReadContext_result[OF this r] have "length ''ab'' \<le> 2" by (simp only: sum.case)
  with r show ?thesis by blast
qed

end
