(* ===== verification/Oidc_Device.thy ===== *)
theory Oidc_Device
  imports Config Json
begin

text \<open>
  \<^verbatim>\<open>internal/oidcdevice/oidcdevice.go\<close>: the device-authorization login. Discovery, the token
  exchange and the verification of ID tokens belong to third-party packages and the network: what
  they answer is in \<^verbatim>\<open>provider_net\<close>. A login gives the requests it sent, in order, whether it succeeds or not. The code's own part is the checks on every address and response,
  the order of the steps, the cached provider, and the cleaning of text that is shown on a terminal.
\<close>

section \<open>Types\<close>

record Options =
  opt_IssuerURL :: string
  opt_ClientID :: string
  opt_ClientSecret :: string
  opt_UsernameClaim :: string
  opt_Scopes :: "string list"

text \<open>What discovery tells of a provider, with the \<open>jwks_uri\<close> of its metadata.\<close>

record provider =
  ep_DeviceAuthURL :: string
  ep_TokenURL :: string
  ep_JWKSURL :: "string res"

record Authenticator =
  auth_options :: Options
  auth_provider :: "provider option"

record DeviceAuthResponse =
  dar_DeviceCode :: string
  dar_UserCode :: string
  dar_VerificationURI :: string
  dar_VerificationURIComplete :: string

text \<open>The unexported fields of \<open>Login\<close> are the state the login continues from.\<close>

record Login =
  UserCode :: string
  VerificationURI :: string
  VerificationURIComplete :: string
  login_response :: "DeviceAuthResponse option"

record Identity =
  Subject :: string
  Username :: string

text \<open>The HTTP request of \<open>requestDeviceAuth\<close> and the answers of the network.\<close>

record http_request =
  req_URL :: string
  req_body :: "(string \<times> string) list"
  req_Accept :: string
  req_ContentType :: string
  req_basic :: "(string \<times> string) option"

datatype http_answer = HttpError go_error | HttpStatus int "DeviceAuthResponse res"

text \<open>What is sent: the discovery of an issuer, and the request for a device code.\<close>

datatype net_call = DiscoverCall string | DeviceCall http_request

record provider_net =
  net_discover :: "string \<Rightarrow> provider res"
  net_http :: "http_request \<Rightarrow> http_answer"
  net_token :: "DeviceAuthResponse \<Rightarrow> string option res"
  net_verify :: "string \<Rightarrow> string \<Rightarrow> (string \<times> (string \<times> json) list res) res"

definition New_Authenticator :: "Options \<Rightarrow> Authenticator" where
  "New_Authenticator o0 = \<lparr>auth_options = o0\<lparr>opt_UsernameClaim := TrimSpace (opt_UsernameClaim o0)\<rparr>, auth_provider = None\<rparr>"

section \<open>Addresses and text\<close>

definition isLoopback :: "string \<Rightarrow> bool" where
  "isLoopback host \<longleftrightarrow> EqualFold host ''localhost'' \<or> ip_IsLoopback host"

definition validateEndpoint :: "url_parser \<Rightarrow> string \<Rightarrow> unit res" where
  "validateEndpoint parse raw =
     (let bad = Inl (Err ''endpoint must be an absolute URL without user information or a fragment'') in
      case parse raw of
        None \<Rightarrow> bad
      | Some u \<Rightarrow>
          if url_Host u = [] \<or> url_User u \<or> url_Fragment u \<noteq> [] then bad
          else if url_Scheme u = ''https'' then Inr ()
          else if url_Scheme u = ''http'' \<and> isLoopback (url_Hostname u) then Inr ()
          else Inl (Err ''endpoint must use HTTPS''))"

text \<open>\<open>strings.Map\<close> dropping control characters (an invalid byte becomes U+FFFD), then the first bytes.\<close>

definition displayText :: "string \<Rightarrow> nat \<Rightarrow> string" where
  "displayText value limit =
     (let v = concat (map (\<lambda>(r, bs). EncodeRune r) (filter (\<lambda>(r, bs). \<not> unicode_IsControl r) (chunks value)))
      in if length v > limit then take limit v else v)"

section \<open>The login\<close>

definition discover :: "url_parser \<Rightarrow> provider_net \<Rightarrow> Authenticator \<Rightarrow> net_call list \<times> (Authenticator, provider) outcome" where
  "discover parse N a =
     (case auth_provider a of
        Some p \<Rightarrow> ([], Inr p, a)
      | None \<Rightarrow> ([DiscoverCall (opt_IssuerURL (auth_options a))],
          (case net_discover N (opt_IssuerURL (auth_options a)) of
             Inl e \<Rightarrow> (Inl (wrap_error ''discover OIDC provider'' e), a)
           | Inr p \<Rightarrow>
               (case ep_JWKSURL p of
                  Inl e \<Rightarrow> (Inl (wrap_error ''read OIDC provider metadata'' e), a)
                | Inr jwks \<Rightarrow>
                    (case validateEndpoint parse jwks of
                       Inl e \<Rightarrow> (Inl (wrap_error ''invalid OIDC JWKS endpoint'' e), a)
                     | Inr _ \<Rightarrow> (Inr p, a\<lparr>auth_provider := Some p\<rparr>))))))"

definition device_request :: "Options \<Rightarrow> string \<Rightarrow> http_request" where
  "device_request opts url =
     \<lparr>req_URL = url,
      req_body = (''client_id'', opt_ClientID opts)
        # (if opt_Scopes opts \<noteq> [] then [(''scope'', join '' '' (opt_Scopes opts))] else []),
      req_Accept = ''application/json'', req_ContentType = ''application/x-www-form-urlencoded'',
      req_basic = (if opt_ClientSecret opts \<noteq> [] then Some (opt_ClientID opts, opt_ClientSecret opts) else None)\<rparr>"

definition requestDeviceAuth :: "provider_net \<Rightarrow> Options \<Rightarrow> string \<Rightarrow> net_call list \<times> DeviceAuthResponse res" where
  "requestDeviceAuth N opts url =
     (let request = device_request opts url
      in ([DeviceCall request],
          (case net_http N request of
             HttpError e \<Rightarrow> Inl e
           | HttpStatus code body \<Rightarrow>
               if code < 200 \<or> code \<ge> 300
               then Inl (Err (''device authorization endpoint returned HTTP '' @ itoa code))
               else (case body of
                       Inl e \<Rightarrow> Inl (wrap_error ''decode device authorization response'' e)
                     | Inr device \<Rightarrow> Inr device))))"

definition check_response :: "url_parser \<Rightarrow> DeviceAuthResponse \<Rightarrow> unit res" where
  "check_response parse r =
     (if dar_DeviceCode r = [] \<or> dar_UserCode r = [] \<or> dar_VerificationURI r = []
      then Inl (Err ''OIDC provider returned an incomplete device authorization response'')
      else case validateEndpoint parse (dar_VerificationURI r) of
             Inl e \<Rightarrow> Inl (wrap_error ''invalid OIDC verification URI'' e)
           | Inr _ \<Rightarrow>
               if dar_VerificationURIComplete r \<noteq> [] then
                 (case validateEndpoint parse (dar_VerificationURIComplete r) of
                    Inl e \<Rightarrow> Inl (wrap_error ''invalid complete OIDC verification URI'' e)
                  | Inr _ \<Rightarrow> Inr ())
               else Inr ())"

definition Begin :: "url_parser \<Rightarrow> provider_net \<Rightarrow> Authenticator \<Rightarrow> net_call list \<times> (Authenticator, Login) outcome" where
  "Begin parse N a0 =
     (case discover parse N a0 of
        (sent, Inl e, a) \<Rightarrow> (sent, Inl e, a)
      | (sent, Inr p, a) \<Rightarrow>
          if ep_DeviceAuthURL p = []
          then (sent, Inl (Err ''OIDC provider does not advertise a device authorization endpoint''), a)
          else (case validateEndpoint parse (ep_DeviceAuthURL p) of
             Inl e \<Rightarrow> (sent, Inl (wrap_error ''invalid OIDC device authorization endpoint'' e), a)
           | Inr _ \<Rightarrow>
               (case validateEndpoint parse (ep_TokenURL p) of
                  Inl e \<Rightarrow> (sent, Inl (wrap_error ''invalid OIDC token endpoint'' e), a)
                | Inr _ \<Rightarrow>
                    (case requestDeviceAuth N (auth_options a) (ep_DeviceAuthURL p) of
                       (asked, Inl e) \<Rightarrow> (sent @ asked, Inl (wrap_error ''start OIDC device authorization'' e), a)
                     | (asked, Inr r) \<Rightarrow> (sent @ asked,
                         (case check_response parse r of
                            Inl e \<Rightarrow> Inl e
                          | Inr _ \<Rightarrow> Inr \<lparr>UserCode = displayText (dar_UserCode r) 128,
                              VerificationURI = displayText (dar_VerificationURI r) 2048,
                              VerificationURIComplete = displayText (dar_VerificationURIComplete r) 2048,
                              login_response = Some r\<rparr>), a)))))"

text \<open>
  \<open>net_token\<close> gives the \<open>id_token\<close> of the token response, if it is a string; \<open>net_verify\<close> checks it for
  the client and gives the signed subject and the claims.
\<close>

definition Complete :: "provider_net \<Rightarrow> Authenticator \<Rightarrow> (string \<Rightarrow> string) \<Rightarrow> Login \<Rightarrow> Identity res" where
  "Complete N a quoted login =
     (case login_response login of
        None \<Rightarrow> Inl (Err ''invalid OIDC login state'')
      | Some r \<Rightarrow>
          (case net_token N r of
             Inl e \<Rightarrow> Inl (wrap_error ''complete OIDC device authorization'' e)
           | Inr raw \<Rightarrow>
               (if raw = None \<or> raw = Some [] then Inl (Err ''OIDC token response did not include an ID token'')
                else case net_verify N (opt_ClientID (auth_options a)) (the raw) of
                  Inl e \<Rightarrow> Inl (wrap_error ''verify OIDC ID token'' e)
                | Inr (subject, Inl e) \<Rightarrow> Inl (wrap_error ''read OIDC ID token claims'' e)
                | Inr (subject, Inr claims) \<Rightarrow>
                    (case map_of (rev claims) (opt_UsernameClaim (auth_options a)) of
                       Some (JStr value) \<Rightarrow>
                         if TrimSpace value = []
                         then Inl (Err (''OIDC ID token is missing string claim '' @ quoted (opt_UsernameClaim (auth_options a))))
                         else Inr \<lparr>Subject = subject, Username = ToLower (TrimSpace value)\<rparr>
                     | _ \<Rightarrow> Inl (Err (''OIDC ID token is missing string claim '' @ quoted (opt_UsernameClaim (auth_options a))))))))"

section \<open>Every address that is used was checked\<close>

definition safe_url :: "url_parser \<Rightarrow> string \<Rightarrow> bool" where
  "safe_url parse raw \<longleftrightarrow> (\<exists>u. parse raw = Some u \<and> url_Host u \<noteq> [] \<and> \<not> url_User u \<and> url_Fragment u = []
     \<and> (url_Scheme u = ''https''
        \<or> url_Scheme u = ''http'' \<and> (EqualFold (url_Hostname u) ''localhost'' \<or> ip_IsLoopback (url_Hostname u))))"

lemma validateEndpoint_iff: "validateEndpoint parse raw = Inr () \<longleftrightarrow> safe_url parse raw"
  by (auto simp: validateEndpoint_def safe_url_def isLoopback_def Let_def split: option.splits)

text \<open>The cache holds a provider of the configured issuer whose key set is fetched from a safe address.\<close>

definition cache_ok :: "url_parser \<Rightarrow> provider_net \<Rightarrow> Authenticator \<Rightarrow> bool" where
  "cache_ok parse N a \<longleftrightarrow> (\<forall>p. auth_provider a = Some p \<longrightarrow> net_discover N (opt_IssuerURL (auth_options a)) = Inr p
     \<and> (\<exists>jwks. ep_JWKSURL p = Inr jwks \<and> safe_url parse jwks))"

lemma discover_ok:
  assumes "cache_ok parse N a" "discover parse N a = (sent, r, a')"
  shows "cache_ok parse N a'" "auth_options a' = auth_options a"
    "r = Inr p \<Longrightarrow> net_discover N (opt_IssuerURL (auth_options a)) = Inr p \<and> (\<exists>jwks. ep_JWKSURL p = Inr jwks \<and> safe_url parse jwks)"
    "set sent \<subseteq> {DiscoverCall (opt_IssuerURL (auth_options a))}"
  using assms
  by (auto simp: discover_def cache_ok_def validateEndpoint_iff split: option.splits sum.splits)

text \<open>Text that is shown on a terminal: of bounded length, and no byte of it is a control character.\<close>

definition shown_text :: "nat \<Rightarrow> string \<Rightarrow> bool" where
  "shown_text n v \<longleftrightarrow> length v \<le> n \<and> (\<forall>c\<in>set v. 32 \<le> byte c \<and> byte c \<noteq> 127)"

lemma EncodeRune_shown: "\<not> unicode_IsControl r \<Longrightarrow> c \<in> set (EncodeRune r) \<Longrightarrow> 32 \<le> byte c \<and> byte c \<noteq> 127"
proof -
  assume nc: "\<not> unicode_IsControl r" and c: "c \<in> set (EncodeRune r)"
  let ?r = "if 0xD800 \<le> r \<and> r \<le> 0xDFFF \<or> 0x10FFFF < r then RuneError else r"
  have r: "32 \<le> ?r" "?r \<noteq> 127" "?r \<le> 0x10FFFF" using nc by (auto simp: unicode_IsControl_def RuneError_def)
  consider "?r < 0x80" | "0x80 \<le> ?r" "?r < 0x800" | "0x800 \<le> ?r" "?r < 0x10000" | "0x10000 \<le> ?r" by linarith
  then show ?thesis
  proof cases
    case 1
    with c have "c = chr ?r" by (simp add: EncodeRune_def Let_def)
    with 1 r show ?thesis by (simp del: if_split)
  next
    case 2
    then have "?r div 64 < 32" by (simp add: div_less_iff_less_mult del: if_split)
    moreover have "c = chr (0xC0 + ?r div 64) \<or> c = chr (0x80 + ?r mod 64)"
      using c 2 by (simp add: EncodeRune_def Let_def del: if_split)
    moreover have "?r mod 64 < 64" by simp
    ultimately show ?thesis by (auto simp del: if_split)
  next
    case 3
    then have "?r div 4096 < 16" by (simp add: div_less_iff_less_mult del: if_split)
    moreover have "c = chr (0xE0 + ?r div 4096) \<or> c = chr (0x80 + ?r div 64 mod 64) \<or> c = chr (0x80 + ?r mod 64)"
      using c 3 by (simp add: EncodeRune_def Let_def del: if_split)
    moreover have "?r mod 64 < 64" "?r div 64 mod 64 < 64" by simp_all
    ultimately show ?thesis by (auto simp del: if_split)
  next
    case 4
    then have "?r div 262144 < 8" using r(3) by (simp add: div_less_iff_less_mult del: if_split)
    moreover have "c = chr (0xF0 + ?r div 262144) \<or> c = chr (0x80 + ?r div 4096 mod 64) \<or> c = chr (0x80 + ?r div 64 mod 64)
        \<or> c = chr (0x80 + ?r mod 64)"
      using c 4 by (simp add: EncodeRune_def Let_def del: if_split)
    moreover have "?r mod 64 < 64" "?r div 64 mod 64 < 64" "?r div 4096 mod 64 < 64" by simp_all
    ultimately show ?thesis by (auto simp del: if_split)
  qed
qed

lemma displayText_shown: "shown_text n (displayText v n)"
proof -
  have "32 \<le> byte c \<and> byte c \<noteq> 127"
    if "c \<in> set (concat (map (\<lambda>(r, bs). EncodeRune r) (filter (\<lambda>(r, bs). \<not> unicode_IsControl r) (chunks v))))" for c
    using that EncodeRune_shown by (auto split: prod.splits)
  then show ?thesis by (auto simp: shown_text_def displayText_def Let_def dest: in_set_takeD)
qed

lemma check_response_ok: "check_response parse r = Inr () \<Longrightarrow>
    dar_DeviceCode r \<noteq> [] \<and> safe_url parse (dar_VerificationURI r)
    \<and> (dar_VerificationURIComplete r \<noteq> [] \<longrightarrow> safe_url parse (dar_VerificationURIComplete r))"
  by (auto simp: check_response_def validateEndpoint_iff split: sum.splits if_splits)


text \<open>A provider for evaluating the property: every address is an HTTPS one.\<close>

definition sample_parse :: url_parser where
  "sample_parse raw = Some \<lparr>url_Scheme = ''https'', url_Host = ''idp'', url_Hostname = ''idp'', url_User = False,
     url_RawQuery = [], url_Fragment = []\<rparr>"

definition sample_net :: provider_net where
  "sample_net = \<lparr>
     net_discover = (\<lambda>_. Inr \<lparr>ep_DeviceAuthURL = ''https://idp/device'', ep_TokenURL = ''https://idp/token'', ep_JWKSURL = Inr ''https://idp/keys''\<rparr>),
     net_http = (\<lambda>_. HttpStatus 200 (Inr \<lparr>dar_DeviceCode = ''d'', dar_UserCode = ''ABCD'', dar_VerificationURI = ''https://idp/go'', dar_VerificationURIComplete = []\<rparr>)),
     net_token = (\<lambda>_. Inr (Some ''t'')), net_verify = (\<lambda>_ _. Inr (''sub'', Inr [(''preferred_username'', JStr '' Alice'')]))\<rparr>"

definition sample_authenticator :: Authenticator where
  "sample_authenticator = New_Authenticator \<lparr>opt_IssuerURL = ''https://idp'', opt_ClientID = ''c'', opt_ClientSecret = [],
     opt_UsernameClaim = '' preferred_username'', opt_Scopes = [''openid'']\<rparr>"


end
