(* ===== verification/Tui_Model.thy ===== *)
theory Tui_Model
  imports Oidc_Device Downstream Store Totp "HOL-Library.Monad_Syntax"
begin

text \<open>
  \<^verbatim>\<open>internal/tui/menu.go\<close>: the state of the menu, its messages and commands, and the helpers its
  handlers share. A handler gives \<open>None\<close> where the Go code would panic: a nil pointer that is
  dereferenced (\<open>m.pending\<close>, \<open>m.form\<close>, a host key) or an index out of a slice's range.
\<close>

section \<open>State\<close>

record Result =
  res_TargetID :: int
  res_Quit :: bool
  res_Verified :: bool

record pendingOperation =
  p_kind :: string
  p_name :: string
  p_host :: string
  p_remote :: string
  p_credentialKind :: string
  p_username :: string
  p_group :: string
  p_port :: int
  p_target :: Target
  p_user :: User
  p_grant :: Grant
  p_forwardRule :: ForwardRule
  p_identity :: SSHIdentity
  p_identityID :: int
  p_keyFingerprint :: string
  p_privateKey :: string
  p_hostKey :: "pubkey option"
  p_totpSecret :: string
  p_totpURI :: string
  p_totpQR :: "string list"

record formField =
  f_label :: string
  f_value :: string
  f_options :: "string list"

record adminForm =
  form_kind :: string
  form_title :: string
  form_fields :: "formField list"
  form_index :: int

record actionItem =
  a_label :: string
  a_code :: string

record Model =
  m_cipher :: "Cipher option"
  m_user :: User
  m_sourceAddress :: string
  m_targets :: "Target list"
  m_cursor :: int
  m_width :: int
  m_height :: int
  m_query :: string
  m_status :: string
  m_result :: "Result option"
  m_section :: string
  m_users :: "User list"
  m_groups :: "Group list"
  m_groupMembers :: "GroupMember list"
  m_identities :: "SSHIdentity list"
  m_grants :: "Grant list"
  m_forwardRules :: "ForwardRule list"
  m_auditEvents :: "AuditEvent list"
  m_oidcIdentities :: "OIDCIdentity list"
  m_oidc :: bool
  m_oidcIssuer :: string
  m_canSelfLinkOIDC :: bool
  m_oidcLogin :: Login
  m_mode :: string
  m_input :: string
  m_searching :: bool
  m_pending :: "pendingOperation option"
  m_form :: "adminForm option"
  m_actions :: "actionItem list"
  m_actionCursor :: int
  m_totpAttempts :: int

section \<open>Messages and commands\<close>

record dataMsg =
  d_targets :: "Target list"
  d_users :: "User list"
  d_groups :: "Group list"
  d_groupMembers :: "GroupMember list"
  d_identities :: "SSHIdentity list"
  d_grants :: "Grant list"
  d_forwardRules :: "ForwardRule list"
  d_auditEvents :: "AuditEvent list"
  d_oidcIdentities :: "OIDCIdentity list"
  d_err :: "go_error option"

record mutationMsg =
  mut_status :: string
  mut_section :: string
  mut_err :: "go_error option"

datatype msg =
    ReloadMsg
  | DataMsg dataMsg
  | HostKeyMsg "pubkey res"
  | MutationMsg mutationMsg
  | OidcBeginMsg "Login res"
  | OidcLinkMsg Identity "go_error option"
  | PasteMsg string
  | WindowSizeMsg int int
  | KeyPressMsg string
  | QuitMsg

text \<open>
  A command (\<open>tea.Cmd\<close>) is a closure that is run once, on the store, and answers with a message. The
  values a closure captures are those at its creation: it is run before anything else changes them.
\<close>

datatype cmd = Quit | Run "db \<Rightarrow> (msg \<times> db) option"

text \<open>
  What the outside answers while one key is processed: the SSH library's functions, the clock, the
  random source (a nonce, a TOTP secret, a new key in PEM form with a comment), the QR encoder, the
  network and the identity provider. \<open>m.ctx\<close> and the timeouts have no counterpart.
\<close>

record menu_env =
  e_aead :: aead
  e_ssh :: ssh_lib
  e_MarshalAuthorizedKey :: "pubkey \<Rightarrow> string"
  e_comment :: "string \<Rightarrow> string"
  e_PassphraseMissing :: "go_error \<Rightarrow> bool"
  e_Now :: int
  e_nonce :: "string res"
  e_secret :: "string res"
  e_newKey :: "string \<Rightarrow> string res"
  e_qrcode :: "string \<Rightarrow> bool list list res"
  e_ScanHostKey :: "string \<Rightarrow> pubkey res"
  e_Begin :: "Login res"
  e_Complete :: "Login \<Rightarrow> Identity res"

section \<open>Zero values\<close>

definition no_user :: User where
  "no_user = \<lparr>User_ID = 0, User_Username = [], User_Role = [], User_Enabled = False, User_TOTPEnabled = False,
     User_CreatedAt = []\<rparr>"

definition no_target :: Target where
  "no_target = \<lparr>Target_ID = 0, Target_Name = [], Target_Host = [], Target_RemoteUsername = [],
     Target_CredentialKind = [], Target_Port = 0, Target_Enabled = False, Target_HostKeyAlgorithm = [],
     Target_HostPublicKey = [], Target_Nonce = None, Target_Ciphertext = None, Target_IdentityID = None,
     Target_CreatedAt = [], Target_UpdatedAt = []\<rparr>"

definition no_identity :: SSHIdentity where
  "no_identity = \<lparr>Identity_ID = 0, Identity_Name = [], Identity_PublicKey = [], Identity_Fingerprint = [],
     Identity_Nonce = None, Identity_Ciphertext = None, Identity_CreatedAt = []\<rparr>"

definition no_pending :: pendingOperation where
  "no_pending = \<lparr>p_kind = [], p_name = [], p_host = [], p_remote = [], p_credentialKind = [], p_username = [],
     p_group = [], p_port = 0, p_target = no_target, p_user = no_user,
     p_grant = \<lparr>Grant_Target = [], Grant_Kind = [], Grant_Principal = [], Grant_Shell = False, Grant_SFTP = False,
       Grant_SCP = False, Grant_TCPForward = False\<rparr>,
     p_forwardRule = \<lparr>Rule_ID = 0, Rule_TargetID = 0, Rule_Target = [], Rule_Host = [], Rule_Port = 0\<rparr>,
     p_identity = no_identity, p_identityID = 0, p_keyFingerprint = [], p_privateKey = [], p_hostKey = None,
     p_totpSecret = [], p_totpURI = [], p_totpQR = []\<rparr>"

definition no_login :: Login where
  "no_login = \<lparr>UserCode = [], VerificationURI = [], VerificationURIComplete = [], login_response = None\<rparr>"

definition no_data :: dataMsg where
  "no_data = \<lparr>d_targets = [], d_users = [], d_groups = [], d_groupMembers = [], d_identities = [], d_grants = [],
     d_forwardRules = [], d_auditEvents = [], d_oidcIdentities = [], d_err = None\<rparr>"

section \<open>Opening a menu\<close>

definition New :: "Cipher option \<Rightarrow> string \<Rightarrow> User \<Rightarrow> string \<Rightarrow> Model" where
  "New cipher sourceAddress u status = \<lparr>m_cipher = cipher, m_user = u, m_sourceAddress = sourceAddress,
     m_targets = [], m_cursor = 0, m_width = 0, m_height = 0, m_query = [], m_status = status, m_result = None,
     m_section = ''targets'', m_users = [], m_groups = [], m_groupMembers = [], m_identities = [], m_grants = [],
     m_forwardRules = [], m_auditEvents = [], m_oidcIdentities = [], m_oidc = False, m_oidcIssuer = [],
     m_canSelfLinkOIDC = False, m_oidcLogin = no_login, m_mode = [], m_input = [], m_searching = False,
     m_pending = None, m_form = None, m_actions = [], m_actionCursor = 0, m_totpAttempts = 0\<rparr>"

definition ConfigureOIDC :: "string \<Rightarrow> bool \<Rightarrow> Model \<Rightarrow> Model" where
  "ConfigureOIDC issuer canSelfLink m =
     m\<lparr>m_oidc := True, m_oidcIssuer := issuer, m_canSelfLinkOIDC := canSelfLink\<rparr>"

definition NewTOTPChallenge :: "Cipher option \<Rightarrow> string \<Rightarrow> User \<Rightarrow> Model" where
  "NewTOTPChallenge cipher sourceAddress u =
     (New cipher sourceAddress u ''Enter the current code from your authenticator app.'')\<lparr>m_mode := ''totp_auth''\<rparr>"

definition quit_result :: Result where
  "quit_result = \<lparr>res_TargetID = 0, res_Quit = True, res_Verified = False\<rparr>"

definition connect_result :: "int \<Rightarrow> Result" where
  "connect_result i = \<lparr>res_TargetID = i, res_Quit = False, res_Verified = False\<rparr>"

definition Model_Result :: "Model \<Rightarrow> Result" where
  "Model_Result m = (case m_result m of None \<Rightarrow> quit_result | Some r \<Rightarrow> r)"

section \<open>Helpers\<close>

definition at :: "'a list \<Rightarrow> int \<Rightarrow> 'a option" where
  "at xs i = (if 0 \<le> i \<and> i < int (length xs) then Some (xs ! nat i) else None)"

definition is_admin :: "Model \<Rightarrow> bool" where
  "is_admin m \<longleftrightarrow> User_Role (m_user m) = RoleAdmin"

definition removeLastRune :: "string \<Rightarrow> string" where
  "removeLastRune v = (if runes v = [] then v else of_runes (butlast (runes v)))"

definition one_rune :: "string \<Rightarrow> bool" where
  "one_rune key \<longleftrightarrow> length (runes key) = 1"

definition closeModal :: "string \<Rightarrow> Model \<Rightarrow> Model" where
  "closeModal status m = m\<lparr>m_mode := [], m_input := [], m_form := None, m_actions := [], m_pending := None,
     m_actionCursor := 0, m_status := status\<rparr>"

definition filtered :: "Model \<Rightarrow> Target list" where
  "filtered m = (if m_query m = [] then m_targets m
     else filter (\<lambda>t. Contains (ToLower (Target_Name t @ '' '' @ Target_Host t @ '' '' @ Target_RemoteUsername t))
                        (ToLower (m_query m))) (m_targets m))"

definition itemCount :: "Model \<Rightarrow> nat" where
  "itemCount m =
     (if m_section m = ''keys'' then length (m_identities m)
      else if m_section m = ''users'' then length (m_users m)
      else if m_section m = ''groups'' then length (m_groups m)
      else if m_section m = ''grants'' then length (m_grants m)
      else if m_section m = ''forwards'' then length (m_forwardRules m)
      else if m_section m = ''audit'' then length (m_auditEvents m)
      else length (filtered m))"

definition clamp :: "Model \<Rightarrow> Model" where
  "clamp m = (if itemCount m = 0 then m\<lparr>m_cursor := 0\<rparr>
     else if m_cursor m \<ge> int (itemCount m) then m\<lparr>m_cursor := int (itemCount m) - 1\<rparr> else m)"

definition pageSize :: "Model \<Rightarrow> int" where
  "pageSize m =
     (let h0 = (if m_height m \<le> 0 then 24 else m_height m);
          h = (if h0 > 1 then h0 - 1 else h0)
      in if h < 10 then 1 else h - 8)"

definition section_names :: "string list" where
  "section_names = [''targets'', ''keys'', ''users'', ''groups'', ''grants'', ''forwards'', ''audit'']"

text \<open>The position of the first element that satisfies a condition, or zero.\<close>

fun first_index :: "('a \<Rightarrow> bool) \<Rightarrow> 'a list \<Rightarrow> int" where
  "first_index P [] = 0"
| "first_index P (x # xs) = (if P x then 0 else if list_ex P xs then 1 + first_index P xs else 0)"

definition changeSection :: "int \<Rightarrow> Model \<Rightarrow> Model" where
  "changeSection delta m =
     (let current = (first_index (\<lambda>s. s = m_section m) section_names + delta + int (length section_names))
            mod int (length section_names)
      in m\<lparr>m_section := section_names ! nat current, m_cursor := 0, m_query := [], m_searching := False\<rparr>)"

definition isGroupMember :: "Model \<Rightarrow> string \<Rightarrow> string \<Rightarrow> bool" where
  "isGroupMember m grp username = list_ex (\<lambda>x. Member_Group x = grp \<and> Member_Username x = username) (m_groupMembers m)"

definition oidcIdentityForUser :: "Model \<Rightarrow> int \<Rightarrow> OIDCIdentity option" where
  "oidcIdentityForUser m userID = find (\<lambda>i. OIDC_UserID i = userID \<and> OIDC_Issuer i = m_oidcIssuer m) (m_oidcIdentities m)"

definition targetNames :: "Target list \<Rightarrow> string list" where "targetNames values = map Target_Name values"
definition userNames :: "User list \<Rightarrow> string list" where "userNames values = map User_Username values"
definition groupNames :: "Group list \<Rightarrow> string list" where "groupNames values = map Group_Name values"
definition identityNames :: "SSHIdentity list \<Rightarrow> string list" where "identityNames values = map Identity_Name values"

definition firstIdentity :: "SSHIdentity list \<Rightarrow> string" where
  "firstIdentity values = (case values of [] \<Rightarrow> [] | i # _ \<Rightarrow> Identity_Name i)"

definition selectedIdentityName :: "SSHIdentity list \<Rightarrow> int option \<Rightarrow> string" where
  "selectedIdentityName values selected =
     (case Option.bind selected (\<lambda>s. find (\<lambda>i. Identity_ID i = s) values) of
        Some i \<Rightarrow> Identity_Name i | None \<Rightarrow> firstIdentity values)"

definition credentialKinds :: "string list" where
  "credentialKinds = [CredentialPrivateKey, CredentialPassword, CredentialStoredKey, CredentialAgent]"

definition firstUser :: "User list \<Rightarrow> string" where
  "firstUser values = (case values of [] \<Rightarrow> [] | u # _ \<Rightarrow> User_Username u)"

definition contains :: "string list \<Rightarrow> string \<Rightarrow> bool" where
  "contains values value = list_ex (\<lambda>c. c = value) values"

definition enabledWord :: "bool \<Rightarrow> string" where
  "enabledWord enabled = (if enabled then ''enable'' else ''disable'')"

definition addRemove :: "bool \<Rightarrow> string" where
  "addRemove add = (if add then ''add'' else ''remove'')"

definition cycleOption :: "formField \<Rightarrow> int \<Rightarrow> formField" where
  "cycleOption f delta =
     (if f_options f = [] then f
      else let n = int (length (f_options f)); i = (first_index (\<lambda>option. option = f_value f) (f_options f) + delta + n) mod n
           in f\<lparr>f_value := f_options f ! nat i\<rparr>)"

section \<open>Commands that several handlers return\<close>

definition load :: "Model \<Rightarrow> db \<Rightarrow> dataMsg" where
  "load m s =
     (let d = no_data\<lparr>d_targets := (if is_admin m then ListTargets s else ListAuthorizedTargets s (m_user m))\<rparr>;
          d1 = (if m_oidcIssuer m = [] then d
                else if is_admin m then d\<lparr>d_oidcIdentities := ListOIDCIdentities s (m_oidcIssuer m)\<rparr>
                else (case OIDCIdentityForUser s (User_ID (m_user m)) (m_oidcIssuer m) of
                        Inr i \<Rightarrow> d\<lparr>d_oidcIdentities := [i]\<rparr>
                      | Inl ErrNoRows \<Rightarrow> d
                      | Inl e \<Rightarrow> d\<lparr>d_err := Some e\<rparr>))
      in if is_admin m \<and> d_err d1 = None then d1\<lparr>d_users := ListUsers s, d_groups := ListGroups s, d_identities := ListSSHIdentities s,
              d_groupMembers := ListGroupMembers s, d_grants := ListGrants s, d_forwardRules := ListForwardRules s,
              d_auditEvents := ListAudit s 50\<rparr>
         else d1)"

definition load_cmd :: "Model \<Rightarrow> cmd" where
  "load_cmd m = Run (\<lambda>s. Some (DataMsg (load m s), s))"

text \<open>The result of a \<open>func() error\<close>: the error, if any.\<close>

definition err_of :: "'a res \<Rightarrow> go_error option" where
  "err_of r = (case r of Inl e \<Rightarrow> Some e | Inr _ \<Rightarrow> None)"

definition audit_event :: "Model \<Rightarrow> string \<Rightarrow> (string \<times> json) list \<Rightarrow> AuditEvent" where
  "audit_event m ev details =
     \<lparr>Audit_ID = 0, Audit_At = [], Audit_ActorUserID = Some (User_ID (m_user m)),
      Audit_ClaimedUsername = User_Username (m_user m), Audit_SourceAddress = m_sourceAddress m, Audit_EventType = ev,
      Audit_TargetID = None, Audit_Outcome = ''success'', Audit_Details = marshal_map details\<rparr>"

definition audit :: "Model \<Rightarrow> string \<Rightarrow> (string \<times> json) list \<Rightarrow> db \<Rightarrow> (db, unit) outcome" where
  "audit m ev details s = Audit s (audit_event m ev details)"

definition mutation :: "string \<Rightarrow> string \<Rightarrow> go_error option \<Rightarrow> msg" where
  "mutation status sect err = MutationMsg \<lparr>mut_status = status, mut_section = sect, mut_err = err\<rparr>"

text \<open>\<open>fn\<close>, then, when it succeeded, the audit record.\<close>

definition audited :: "Model \<Rightarrow> string \<Rightarrow> (string \<times> json) list \<Rightarrow> (db, 'a) outcome \<Rightarrow> (db, unit) outcome" where
  "audited m ev details done = (case done of
     (Inl e, s) \<Rightarrow> (Inl e, s) | (Inr _, s) \<Rightarrow> audit m ev details s)"

definition mutate :: "Model \<Rightarrow> string \<Rightarrow> string \<Rightarrow> string \<Rightarrow> (string \<times> json) list \<Rightarrow> (db \<Rightarrow> (db, 'a) outcome) \<Rightarrow> cmd" where
  "mutate m sect status ev details fn =
     Run (\<lambda>s. let (r, s') = audited m ev details (fn s) in Some (mutation status sect (err_of r), s'))"

text \<open>The texts with characters outside ASCII.\<close>

definition ellipsis :: string where "ellipsis = EncodeRune 0x2026"

definition scanHost :: "menu_env \<Rightarrow> string \<Rightarrow> Model \<Rightarrow> Model \<times> cmd option" where
  "scanHost E address m =
     (m\<lparr>m_mode := ''scanning'', m_status := ''Scanning downstream host key'' @ ellipsis\<rparr>,
      Some (Run (\<lambda>s. Some (HostKeyMsg (e_ScanHostKey E address), s))))"

end
