(* ===== verification/Tui_Commands.thy ===== *)
theory Tui_Commands
  imports Tui_Model
begin

text \<open>
  \<^verbatim>\<open>internal/tui/menu.go\<close>: the handlers that end a workflow of the menu. Each makes the command that
  changes the store and writes the audit record, or reports why it does not.
\<close>

type_synonym handled = "(Model \<times> cmd option) option"

section \<open>Host keys and credentials\<close>

definition canonical_key :: "menu_env \<Rightarrow> pubkey \<Rightarrow> string" where
  "canonical_key E k = TrimSpace (e_MarshalAuthorizedKey E k)"

definition finishHostKey :: "menu_env \<Rightarrow> Model \<Rightarrow> Model \<times> cmd option" where
  "finishHostKey E m = (m, Some (Run (\<lambda>s. do {
     p \<leftarrow> m_pending m;
     hk \<leftarrow> p_hostKey p;
     let (r, s') = audited m ''admin.target.host_key.replace''
           [(''target'', JStr (Target_Name (p_target p))), (''fingerprint'', JStr (FingerprintSHA256 (e_ssh E) hk))]
           (SetTargetHostKey s (Target_Name (p_target p)) (key_Type hk) (canonical_key E hk));
     Some (mutation ''Host key replaced.'' [] (err_of r), s') })))"

definition new_target :: "menu_env \<Rightarrow> pendingOperation \<Rightarrow> pubkey \<Rightarrow> string \<Rightarrow> int option \<Rightarrow> NewTarget" where
  "new_target E p hk kind identityID = \<lparr>New_Name = p_name p, New_Host = p_host p, New_Port = p_port p,
     New_RemoteUsername = p_remote p, New_CredentialKind = kind, New_HostKeyAlgorithm = key_Type hk,
     New_HostPublicKey = canonical_key E hk, New_IdentityID = identityID\<rparr>"

definition finishStoredTarget :: "menu_env \<Rightarrow> Model \<Rightarrow> Model \<times> cmd option" where
  "finishStoredTarget E m = (m, Some (Run (\<lambda>s. do {
     p \<leftarrow> m_pending m;
     hk \<leftarrow> p_hostKey p;
     let (r, s') = (case AddTarget s (new_target E p hk CredentialStoredKey (Some (p_identityID p))) of
           (Inl e, s1) \<Rightarrow> (Inl e, s1)
         | (Inr t, s1) \<Rightarrow> audit m ''admin.target.add''
             [(''target'', JStr (Target_Name t)), (''credential_kind'', JStr CredentialStoredKey),
              (''ssh_key'', JStr (Identity_Name (p_identity p))),
              (''fingerprint'', JStr (Identity_Fingerprint (p_identity p))),
              (''host_key'', JStr (FingerprintSHA256 (e_ssh E) hk))] s1);
     Some (mutation ''Target added with saved SSH key.'' ''targets'' (err_of r), s') })))"

definition no_cipher :: "db \<Rightarrow> (msg \<times> db) option" where
  "no_cipher s = Some (mutation [] [] (Some (Err ''credential cipher unavailable'')), s)"

text \<open>A new target is removed again when its credential cannot be stored.\<close>

definition add_target_with :: "menu_env \<Rightarrow> Model \<Rightarrow> Cipher \<Rightarrow> pendingOperation \<Rightarrow> pubkey \<Rightarrow> Payload \<Rightarrow> db \<Rightarrow> msg \<times> db" where
  "add_target_with E m c p hk payload s =
     (case AddTarget s (new_target E p hk (p_credentialKind p) None) of
        (Inl e, s1) \<Rightarrow> (mutation [] [] (Some e), s1)
      | (Inr t, s1) \<Rightarrow>
          (case (case Encrypt (e_aead E) (e_nonce E) c (Target_ID t) (p_credentialKind p) payload of
                   Inl e \<Rightarrow> (Inl e, s1)
                 | Inr (nonce, ct) \<Rightarrow> SetTargetCredential s1 (Target_ID t) (Some nonce) (Some ct)) of
             (Inl e, s2) \<Rightarrow> (mutation [] [] (Some e), snd (DeleteTarget s2 (Target_Name t)))
           | (Inr _, s2) \<Rightarrow>
               let (r, s3) = audit m ''admin.target.add''
                     [(''target'', JStr (Target_Name t)), (''credential_kind'', JStr (p_credentialKind p)),
                      (''host_key'', JStr (FingerprintSHA256 (e_ssh E) hk))] s2
               in (mutation ''Target added and credential saved.'' ''targets'' (err_of r), s3)))"

definition replace_credential :: "menu_env \<Rightarrow> Model \<Rightarrow> Cipher \<Rightarrow> pendingOperation \<Rightarrow> Payload \<Rightarrow> db \<Rightarrow> msg \<times> db" where
  "replace_credential E m c p payload s =
     (let (r, s') = audited m ''admin.target.credential.replace''
            [(''target'', JStr (Target_Name (p_target p))), (''credential_kind'', JStr (p_credentialKind p))]
            (case Encrypt (e_aead E) (e_nonce E) c (Target_ID (p_target p)) (p_credentialKind p) payload of
               Inl e \<Rightarrow> (Inl e, s)
             | Inr (nonce, ct) \<Rightarrow>
                 SetTargetCredentialKind s (Target_ID (p_target p)) (p_credentialKind p) (Some nonce) (Some ct))
      in (mutation ''Credential replaced.'' ''targets'' (err_of r), s'))"

definition finishCredential :: "menu_env \<Rightarrow> Payload \<Rightarrow> Model \<Rightarrow> Model \<times> cmd option" where
  "finishCredential E payload m = (m\<lparr>m_input := []\<rparr>, Some (Run (\<lambda>s.
     case m_cipher m of
       None \<Rightarrow> no_cipher s
     | Some c \<Rightarrow> do {
         p \<leftarrow> m_pending m;
         if p_kind p = ''target_add''
         then do { hk \<leftarrow> p_hostKey p; Some (add_target_with E m c p hk payload s) }
         else Some (replace_credential E m c p payload s) })))"

definition finishAgentKey :: "menu_env \<Rightarrow> Model \<Rightarrow> Model \<times> cmd option" where
  "finishAgentKey E m =
     (let bad = (\<lambda>text. (m\<lparr>m_status := ''Invalid forwarded-agent public key: '' @ text\<rparr>, None)) in
      case ParseAuthorizedKey (e_ssh E) (TrimSpace (m_input m)) of
        Inl e \<Rightarrow> bad (err_text e)
      | Inr (key, rest) \<Rightarrow>
          if TrimSpace rest \<noteq> [] then bad ''paste exactly one public key''
          else finishCredential E (empty_payload\<lparr>PublicKey := canonical_key E key\<rparr>)
                 (m\<lparr>m_status := ''Forwarded-agent key '' @ FingerprintSHA256 (e_ssh E) key @ '' accepted.''\<rparr>))"

section \<open>SSH identities and gateway keys\<close>

definition add_identity :: "menu_env \<Rightarrow> Model \<Rightarrow> Cipher \<Rightarrow> string \<Rightarrow> string \<Rightarrow> string \<Rightarrow> Payload \<Rightarrow> db \<Rightarrow> msg \<times> db" where
  "add_identity E m c name publicKey fingerprint payload s =
     (case AddSSHIdentity s name publicKey fingerprint of
        (Inl e, s1) \<Rightarrow> (mutation [] [] (Some e), s1)
      | (Inr i, s1) \<Rightarrow>
          (case (case EncryptSSHIdentity (e_aead E) (e_nonce E) c (Identity_ID i) payload of
                   Inl e \<Rightarrow> (Inl e, s1)
                 | Inr (nonce, ct) \<Rightarrow> SetSSHIdentitySecret s1 (Identity_ID i) (Some nonce) (Some ct)) of
             (Inl e, s2) \<Rightarrow> (mutation [] [] (Some e), snd (DeleteSSHIdentity s2 (Identity_Name i)))
           | (Inr _, s2) \<Rightarrow>
               let (r, s3) = audit m ''admin.ssh_identity.add''
                     [(''ssh_key'', JStr (Identity_Name i)), (''fingerprint'', JStr fingerprint)] s2
               in (mutation ''SSH key stored.'' ''keys'' (err_of r), s3)))"

definition finishIdentityPayload :: "menu_env \<Rightarrow> string \<Rightarrow> string \<Rightarrow> Model \<Rightarrow> Model \<times> cmd option" where
  "finishIdentityPayload E privateKey passphrase m =
     (case ParsePrivateKey (e_ssh E) privateKey (if passphrase = [] then None else Some passphrase) of
        Inl e \<Rightarrow> (m\<lparr>m_status := ''Invalid private key: '' @ err_text e\<rparr>, None)
      | Inr signer \<Rightarrow>
          let pub = signer_PublicKey signer in
          (m\<lparr>m_input := [], m_mode := ''saving''\<rparr>, Some (Run (\<lambda>s.
             case m_cipher m of
               None \<Rightarrow> no_cipher s
             | Some c \<Rightarrow> do {
                 p \<leftarrow> m_pending m;
                 Some (add_identity E m c (p_name p) (canonical_key E pub) (FingerprintSHA256 (e_ssh E) pub)
                   (empty_payload\<lparr>PrivateKey := privateKey, Passphrase := passphrase\<rparr>) s) }))))"

definition finishIdentity :: "menu_env \<Rightarrow> string \<Rightarrow> Model \<Rightarrow> Model \<times> cmd option" where
  "finishIdentity E privateKey = finishIdentityPayload E privateKey []"

definition finishIdentityWithPassphrase :: "menu_env \<Rightarrow> string \<Rightarrow> string \<Rightarrow> Model \<Rightarrow> Model \<times> cmd option" where
  "finishIdentityWithPassphrase E privateKey passphrase = finishIdentityPayload E privateKey passphrase"

definition finishPublicKey :: "menu_env \<Rightarrow> Model \<Rightarrow> handled" where
  "finishPublicKey E m =
     (let raw = TrimSpace (m_input m); bad = (\<lambda>text. Some (m\<lparr>m_status := ''Invalid public key: '' @ text\<rparr>, None)) in
      case ParseAuthorizedKey (e_ssh E) raw of
        Inl e \<Rightarrow> bad (err_text e)
      | Inr (key, rest) \<Rightarrow>
          if TrimSpace rest \<noteq> [] then bad ''paste one public key at a time; use Manage SSH keys to add another''
          else do {
            p \<leftarrow> m_pending m;
            let fingerprint = FingerprintSHA256 (e_ssh E) key;
            Some (m, Some (mutate m ''users'' ''SSH key added.'' ''admin.gateway_key.add''
              [(''username'', JStr (p_username p)), (''fingerprint'', JStr fingerprint)]
              (\<lambda>s. AddGatewayKey s (p_username p) fingerprint (canonical_key E key) (e_comment E raw)))) })"

section \<open>Removals\<close>

definition finishDelete :: "Model \<Rightarrow> handled" where
  "finishDelete m = do {
     p \<leftarrow> m_pending m;
     (let name = Target_Name (p_target p); user = (''username'', JStr (p_username p)); g = p_grant p; r = p_forwardRule p;
         i = p_identity p; kind = p_kind p
      in Some (m,
       if kind = ''user_key_remove'' then Some (mutate m ''users'' ''SSH key removed.'' ''admin.gateway_key.remove''
         [user, (''fingerprint'', JStr (p_keyFingerprint p))] (\<lambda>s. RemoveGatewayKey s (p_username p) (p_keyFingerprint p)))
       else if kind = ''target_delete'' then Some (mutate m ''targets'' ''Target deleted.'' ''admin.target.delete''
         [(''target'', JStr name)] (\<lambda>s. DeleteTarget s name))
       else if kind = ''user_delete'' then Some (mutate m ''users'' ''User deleted.'' ''admin.user.delete''
         [user] (\<lambda>s. DeleteUser s (p_username p)))
       else if kind = ''group_delete'' then Some (mutate m ''groups'' ''Group deleted.'' ''admin.group.delete''
         [(''group'', JStr (p_group p))] (\<lambda>s. DeleteGroup s (p_group p)))
       else if kind = ''grant_delete'' then Some (mutate m ''grants'' ''Access removed.'' ''admin.grant.remove''
         [(''target'', JStr (Grant_Target g)), (''kind'', JStr (Grant_Kind g)), (''principal'', JStr (Grant_Principal g))]
         (\<lambda>s. SetGrant s (Grant_Target g) (Grant_Kind g) (Grant_Principal g) False))
       else if kind = ''forward_delete'' then Some (mutate m ''forwards'' ''TCP destination removed.'' ''admin.forward.remove''
         [(''target'', JStr (Rule_Target r)), (''host'', JStr (Rule_Host r)), (''port'', JNum (itoa (Rule_Port r)))]
         (\<lambda>s. DeleteForwardRule s (Rule_ID r)))
       else if kind = ''user_totp_remove'' then Some (mutate m ''users'' ''TOTP removed.'' ''admin.user.totp.remove''
         [user] (\<lambda>s. RemoveUserTOTP s (User_ID (p_user p))))
       else if kind = ''user_oidc_remove'' then Some (mutate m ''users'' ''OIDC mapping removed.'' ''admin.user.oidc.remove''
         [user, (''issuer'', JStr (m_oidcIssuer m))] (\<lambda>s. RemoveOIDCIdentity s (User_ID (p_user p)) (m_oidcIssuer m)))
       else if kind = ''identity_delete'' then Some (mutate m ''keys'' ''SSH key deleted.'' ''admin.ssh_identity.delete''
         [(''ssh_key'', JStr (Identity_Name i)), (''fingerprint'', JStr (Identity_Fingerprint i))]
         (\<lambda>s. DeleteSSHIdentity s (Identity_Name i)))
       else None)) }"

section \<open>TOTP\<close>

text \<open>The closure needs the cipher: a menu without one would panic there.\<close>

definition enroll_totp :: "menu_env \<Rightarrow> Cipher \<Rightarrow> pendingOperation \<Rightarrow> int \<Rightarrow> db \<Rightarrow> (db, unit) outcome" where
  "enroll_totp E c p counter s =
     (case EncryptTOTP (e_aead E) (e_nonce E) c (User_ID (p_user p)) (p_totpSecret p) of
        Inl e \<Rightarrow> (Inl e, s)
      | Inr (nonce, ciphertext) \<Rightarrow>
          (case SetUserTOTP s (User_ID (p_user p)) nonce ciphertext of
             (Inl e, s1) \<Rightarrow> (Inl e, s1)
           | (Inr _, s1) \<Rightarrow> ConsumeTOTPCounter s1 (User_ID (p_user p)) counter))"

definition finishTOTPEnrollment :: "menu_env \<Rightarrow> Model \<Rightarrow> handled" where
  "finishTOTPEnrollment E m = do {
     p \<leftarrow> m_pending m;
     case Totp.Validate (p_totpSecret p) (m_input m) (e_Now E) of
       None \<Rightarrow> Some (m\<lparr>m_status := ''Invalid TOTP code. Try a fresh code.'', m_input := []\<rparr>, None)
     | Some counter \<Rightarrow> Some (m, Some (Run (\<lambda>s. do {
         c \<leftarrow> m_cipher m;
         let (r, s') = audited m ''admin.user.totp.enable'' [(''username'', JStr (p_username p))] (enroll_totp E c p counter s);
         Some (mutation ''TOTP enabled.'' ''users'' (err_of r), s') }))) }"

text \<open>The challenge of \<open>NewTOTPChallenge\<close>, run when Enter is pressed: it uses the store at once.\<close>

definition verifyTOTPChallenge :: "menu_env \<Rightarrow> Model \<Rightarrow> db \<Rightarrow> (Model \<times> db) option" where
  "verifyTOTPChallenge E m s =
     (let (checked, s') =
        (case UserTOTP s (User_ID (m_user m)) of
           Inl e \<Rightarrow> (Some (Inl e), s)
         | Inr config \<Rightarrow>
             (case m_cipher m of
                None \<Rightarrow> (None, s)
              | Some c \<Rightarrow>
                  (case DecryptTOTP (e_aead E) c (User_ID (m_user m)) (TOTP_Nonce config) (TOTP_Ciphertext config) of
                     Inl (Panic t) \<Rightarrow> (None, s)
                   | Inl e \<Rightarrow> (Some (Inl e), s)
                   | Inr secret \<Rightarrow>
                       (case Totp.Validate secret (m_input m) (e_Now E) of
                          None \<Rightarrow> (Some (Inl (Err ''invalid verification code'')), s)
                        | Some counter \<Rightarrow> map_prod Some id (ConsumeTOTPCounter s (User_ID (m_user m)) counter)))))
      in do {
        result \<leftarrow> checked;
        Some (case result of
            Inl _ \<Rightarrow>
              (if m_totpAttempts m + 1 \<ge> 5
               then m\<lparr>m_input := [], m_totpAttempts := m_totpAttempts m + 1, m_result := Some quit_result\<rparr>
               else m\<lparr>m_input := [], m_totpAttempts := m_totpAttempts m + 1,
                      m_status := ''Verification failed. Enter a fresh code.''\<rparr>)
          | Inr _ \<Rightarrow> m\<lparr>m_input := [],
                        m_result := Some \<lparr>res_TargetID = 0, res_Quit = False, res_Verified = True\<rparr>\<rparr>, s') })"

section \<open>Linking one's own OIDC account\<close>

definition startOIDCLink :: "menu_env \<Rightarrow> Model \<Rightarrow> Model \<times> cmd option" where
  "startOIDCLink E m =
     (if \<not> m_oidc m \<or> m_oidcIssuer m = [] then (m\<lparr>m_status := ''OIDC linking is not configured.''\<rparr>, None)
      else if \<not> m_canSelfLinkOIDC m
      then (m\<lparr>m_status := ''Sign in with an SSH key before linking an OIDC account.''\<rparr>, None)
      else (m\<lparr>m_mode := ''oidc_start'',
              m_pending := Some (no_pending\<lparr>p_user := m_user m, p_username := User_Username (m_user m)\<rparr>),
              m_status := ''Starting secure OIDC account linking'' @ ellipsis\<rparr>,
            Some (Run (\<lambda>s. Some (OidcBeginMsg (e_Begin E), s)))))"

definition link_account :: "menu_env \<Rightarrow> Model \<Rightarrow> Login \<Rightarrow> User \<Rightarrow> db \<Rightarrow> msg \<times> db" where
  "link_account E m login user s =
     (case e_Complete E login of
        Inl e \<Rightarrow> (OidcLinkMsg \<lparr>Subject = [], Username = []\<rparr> (Some e), s)
      | Inr i \<Rightarrow>
          (case LinkOIDCIdentity s (User_ID user) (m_oidcIssuer m) (Subject i) (Username i) of
             (Inl e, s1) \<Rightarrow> (OidcLinkMsg i (Some e), s1)
           | (Inr _, s1) \<Rightarrow>
               let (r, s2) = Audit s1 \<lparr>Audit_ID = 0, Audit_At = [], Audit_ActorUserID = Some (User_ID user),
                     Audit_ClaimedUsername = User_Username user, Audit_SourceAddress = m_sourceAddress m,
                     Audit_EventType = ''user.oidc.link'', Audit_TargetID = None, Audit_Outcome = ''success'',
                     Audit_Details = marshal_map [(''issuer'', JStr (m_oidcIssuer m)),
                       (''provider_username'', JStr (Username i))]\<rparr>
               in (OidcLinkMsg i (err_of r), s2)))"

definition completeOIDCLink :: "menu_env \<Rightarrow> Model \<Rightarrow> Model \<times> cmd option" where
  "completeOIDCLink E m =
     (case (if m_oidc m then m_pending m else None) of
        None \<Rightarrow> (closeModal ''OIDC linking state expired.'' m, None)
      | Some p \<Rightarrow>
          (m\<lparr>m_mode := ''oidc_complete'', m_status := ''Waiting for Authentik to finish authorization'' @ ellipsis\<rparr>,
           Some (Run (\<lambda>s. Some (link_account E m (m_oidcLogin m) (p_user p) s)))))"

end
