(* ===== verification/Tui_Forms.thy ===== *)
theory Tui_Forms
  imports Tui_Commands
begin

text \<open>
  \<^verbatim>\<open>internal/tui/menu.go\<close>: the forms of the menu, from opening one to submitting it.
\<close>

section \<open>Opening a form\<close>

definition text_field :: "string \<Rightarrow> string \<Rightarrow> formField" where
  "text_field label value = \<lparr>f_label = label, f_value = value, f_options = []\<rparr>"

definition choice_field :: "string \<Rightarrow> string \<Rightarrow> string list \<Rightarrow> formField" where
  "choice_field label value options = \<lparr>f_label = label, f_value = value, f_options = options\<rparr>"

definition open_form :: "string \<Rightarrow> string \<Rightarrow> formField list \<Rightarrow> Model \<Rightarrow> Model" where
  "open_form kind title entries m =
     m\<lparr>m_form := Some \<lparr>form_kind = kind, form_title = title, form_fields = entries, form_index = 0\<rparr>, m_mode := ''form''\<rparr>"

abbreviation yes_no :: "string list" where "yes_no \<equiv> [''yes'', ''no'']"

definition openAddForm :: "Model \<Rightarrow> Model" where
  "openAddForm m0 =
     (if \<not> is_admin m0 then m0
      else let sect = m_section m0; m = m0\<lparr>m_status := ''Complete the fields, then save.''\<rparr> in
      if sect = ''targets'' then open_form ''target_add'' ''Add target''
        [text_field ''Name'' [], text_field ''Host'' [], text_field ''Port'' ''22'', text_field ''Remote user'' [],
         choice_field ''Authentication'' CredentialPrivateKey credentialKinds] m
      else if sect = ''keys'' then open_form ''identity_add'' ''Add SSH key''
        [text_field ''Name'' [], choice_field ''Method'' ''generate_ed25519'' [''generate_ed25519'', ''import_private_key'']] m
      else if sect = ''users'' then open_form ''user_add'' ''Add user''
        [text_field ''Username'' [], choice_field ''Role'' RoleMember [RoleMember, RoleAdmin]] m
      else if sect = ''groups'' then open_form ''group_add'' ''Add group'' [text_field ''Name'' []] m
      else if sect = ''grants'' then
        (if m_targets m = [] \<or> length (m_users m) + length (m_groups m) = 0
         then m\<lparr>m_status := ''Add a target and a user or group before creating access.''\<rparr>
         else open_form ''grant_add'' ''Add access grant''
           [choice_field ''Target'' (Target_Name (hd (m_targets m))) (targetNames (m_targets m)),
            choice_field ''Principal type'' ''user'' [''user'', ''group''],
            choice_field ''Principal'' (firstUser (m_users m)) (userNames (m_users m)),
            choice_field ''Shell'' ''yes'' yes_no, choice_field ''SFTP'' ''yes'' yes_no,
            choice_field ''Legacy SCP'' ''yes'' yes_no, choice_field ''TCP forwarding'' ''no'' [''no'', ''yes'']] m)
      else if sect = ''forwards'' then
        (if m_targets m = [] then m\<lparr>m_status := ''Add a target before creating a forwarding rule.''\<rparr>
         else open_form ''forward_add'' ''Allow TCP destination''
           [choice_field ''Target'' (Target_Name (hd (m_targets m))) (targetNames (m_targets m)),
            text_field ''Destination host'' [], text_field ''Destination port'' []] m)
      else m\<lparr>m_status := ''This section is read-only.''\<rparr>)"

section \<open>Keeping the fields in step\<close>

definition pendingIdentityID :: "Model \<Rightarrow> int option" where
  "pendingIdentityID m =
     (case (m_pending m, m_form m) of
        (Some p, Some f) \<Rightarrow> if form_kind f = ''target_credential'' then Target_IdentityID (p_target p) else None
      | _ \<Rightarrow> None)"

definition sync_key_field :: "Model \<Rightarrow> nat \<Rightarrow> nat \<Rightarrow> adminForm \<Rightarrow> adminForm option" where
  "sync_key_field m authIndex baseFields f =
     (if length (form_fields f) < baseFields then Some f
      else do {
        auth \<leftarrow> at (form_fields f) (int authIndex);
        let storedKey = f_value auth = CredentialStoredKey;
        Some (if storedKey \<and> length (form_fields f) = baseFields
          then f\<lparr>form_fields := form_fields f @ [choice_field ''Saved SSH key''
                 (selectedIdentityName (m_identities m) (pendingIdentityID m)) (identityNames (m_identities m))]\<rparr>
          else if \<not> storedKey \<and> length (form_fields f) > baseFields
          then f\<lparr>form_fields := take baseFields (form_fields f),
                 form_index := (if form_index f \<ge> int baseFields then int baseFields - 1 else form_index f)\<rparr>
          else f) })"

definition syncTargetKeyField :: "Model \<Rightarrow> Model option" where
  "syncTargetKeyField m =
     (case m_form m of
        None \<Rightarrow> Some m
      | Some f \<Rightarrow>
          if form_kind f = ''target_add'' then do { f' \<leftarrow> sync_key_field m 4 5 f; Some (m\<lparr>m_form := Some f'\<rparr>) }
          else if form_kind f \<noteq> ''target_credential'' then Some m
          else do { f' \<leftarrow> sync_key_field m 0 1 f; Some (m\<lparr>m_form := Some f'\<rparr>) })"

definition sync_principal :: "Model \<Rightarrow> formField \<Rightarrow> formField \<Rightarrow> formField" where
  "sync_principal m kind princ =
     (let options = (if f_value kind = ''group'' then groupNames (m_groups m) else userNames (m_users m))
      in princ\<lparr>f_options := options,
               f_value := (if options \<noteq> [] \<and> \<not> contains options (f_value princ) then hd options else f_value princ)\<rparr>)"

definition syncFormOptions :: "Model \<Rightarrow> Model option" where
  "syncFormOptions m =
     (case m_form m of
        None \<Rightarrow> Some m
      | Some f \<Rightarrow>
          if form_kind f = ''target_add'' \<or> form_kind f = ''target_credential'' then syncTargetKeyField m
          else if form_kind f \<noteq> ''grant_add'' \<or> length (form_fields f) < 3 then Some m
          else Some (m\<lparr>m_form := Some (f\<lparr>form_fields := (form_fields f)[2 :=
                 sync_principal m (form_fields f ! 1) (form_fields f ! 2)]\<rparr>)\<rparr>))"

section \<open>Submitting\<close>

text \<open>The trimmed value of the field that chooses the credential kind, and the first field without a value.\<close>

definition form_authentication :: "adminForm \<Rightarrow> string" where
  "form_authentication f = (case find (\<lambda>x. f_label x = ''Authentication'') (form_fields f) of
     Some x \<Rightarrow> TrimSpace (f_value x) | None \<Rightarrow> [])"

fun missing_field :: "string \<Rightarrow> int \<Rightarrow> formField list \<Rightarrow> (int \<times> string) option" where
  "missing_field authentication i [] = None"
| "missing_field authentication i (x # xs) =
     (if f_label x = ''Saved SSH key'' \<and> authentication \<noteq> CredentialStoredKey then missing_field authentication (i + 1) xs
      else if TrimSpace (f_value x) = [] then Some (i, f_label x)
      else missing_field authentication (i + 1) xs)"

definition point_at :: "string \<Rightarrow> int \<Rightarrow> Model \<Rightarrow> Model \<times> cmd option" where
  "point_at status i m =
     (m\<lparr>m_status := status, m_form := map_option (\<lambda>f. f\<lparr>form_index := i\<rparr>) (m_form m)\<rparr>, None)"

definition form_port :: "string \<Rightarrow> int option" where
  "form_port v = (case atoi v of Some port \<Rightarrow> if port < 1 \<or> port > 65535 then None else Some port | None \<Rightarrow> None)"

definition port_text :: string where
  "port_text = ''Port must be between 1 and 65535.''"

definition submit_identity :: "menu_env \<Rightarrow> Model \<Rightarrow> string \<Rightarrow> string \<Rightarrow> Model \<times> cmd option" where
  "submit_identity E m0 name how =
     (let m = m0\<lparr>m_pending := Some (no_pending\<lparr>p_kind := ''identity_add'', p_name := name\<rparr>), m_form := None\<rparr> in
      if how = ''generate_ed25519'' then
        (case e_newKey E (''SSHGateW generated key: '' @ name) of
           Inl e \<Rightarrow> (closeModal (''Key generation failed: '' @ err_text e) m, None)
         | Inr pem \<Rightarrow> finishIdentity E pem m)
      else (m\<lparr>m_mode := ''secret_key'', m_input := [], m_status := ''Paste the private key, then press Ctrl+D.''\<rparr>, None))"

definition submit_credential :: "db \<Rightarrow> Model \<Rightarrow> string list \<Rightarrow> handled" where
  "submit_credential s m0 values = do {
     p0 \<leftarrow> m_pending m0;
     kind \<leftarrow> at values 0;
     (let p = p0\<lparr>p_kind := ''credential'', p_credentialKind := kind\<rparr>; m = m0\<lparr>m_pending := Some p, m_form := None\<rparr>;
          name = Target_Name (p_target p)
      in if kind = CredentialStoredKey then do {
           keyName \<leftarrow> at values 1;
           (case SSHIdentityByName s keyName of
              Inl e \<Rightarrow> Some (closeModal (''Saved SSH key unavailable: '' @ err_text e) m, None)
            | Inr i \<Rightarrow> Some (m, Some (mutate m ''targets'' ''Credential replaced with saved SSH key.''
                ''admin.target.credential.replace''
                [(''target'', JStr name), (''credential_kind'', JStr kind), (''ssh_key'', JStr (Identity_Name i)),
                 (''fingerprint'', JStr (Identity_Fingerprint i))]
                (\<lambda>s. SetTargetIdentity s (Target_ID (p_target p)) (Identity_ID i))))) }
         else Some (if kind = CredentialPassword
           then m\<lparr>m_mode := ''secret_password'', m_input := [],
                  m_status := ''Enter the downstream password, then press Enter.''\<rparr>
           else if kind = CredentialPrivateKey
           then m\<lparr>m_mode := ''secret_key'', m_input := [], m_status := ''Paste the private key, then press Ctrl+D.''\<rparr>
           else m\<lparr>m_mode := ''agent_key'', m_input := [],
                  m_status := ''Paste the public key that the forwarded agent must provide.''\<rparr>, None)) }"

definition submit_target :: "menu_env \<Rightarrow> db \<Rightarrow> Model \<Rightarrow> string list \<Rightarrow> handled" where
  "submit_target E s m values = do {
     name \<leftarrow> at values 0; host \<leftarrow> at values 1; portText \<leftarrow> at values 2; remote \<leftarrow> at values 3; kind \<leftarrow> at values 4;
     (case form_port portText of
        None \<Rightarrow> Some (point_at port_text 2 m)
      | Some port \<Rightarrow>
          let p = no_pending\<lparr>p_kind := ''target_add'', p_name := name, p_host := host, p_port := port,
                    p_remote := remote, p_credentialKind := kind\<rparr>;
              scan = (\<lambda>p. scanHost E (JoinHostPort host portText) (m\<lparr>m_pending := Some p, m_form := None\<rparr>))
          in if kind = CredentialStoredKey then do {
               keyName \<leftarrow> at values 5;
               if keyName = []
               then Some (point_at ''Create an SSH key first, then select it here.'' 5 (m\<lparr>m_pending := Some p\<rparr>))
               else (case SSHIdentityByName s keyName of
                  Inl e \<Rightarrow> Some (point_at (''Saved SSH key unavailable: '' @ err_text e) 5 (m\<lparr>m_pending := Some p\<rparr>))
                | Inr i \<Rightarrow> Some (scan (p\<lparr>p_identity := i, p_identityID := Identity_ID i\<rparr>))) }
             else Some (scan p)) }"

definition submit_oidc_map :: "Model \<Rightarrow> string list \<Rightarrow> handled" where
  "submit_oidc_map m values = do {
     p \<leftarrow> m_pending m;
     v \<leftarrow> at values 0;
     Some (m, Some (mutate m ''users'' ''OIDC username mapped; it will bind permanently on first login.''
       ''admin.user.oidc.map''
       [(''username'', JStr (p_username p)), (''provider_username'', JStr (ToLower v)), (''issuer'', JStr (m_oidcIssuer m))]
       (\<lambda>s. SetOIDCUsernameMapping s (User_ID (p_user p)) (m_oidcIssuer m) v))) }"

definition submit_grant_add :: "Model \<Rightarrow> string list \<Rightarrow> handled" where
  "submit_grant_add m values = do {
     target \<leftarrow> at values 0; kind \<leftarrow> at values 1; princ \<leftarrow> at values 2;
     shell \<leftarrow> at values 3; sftp \<leftarrow> at values 4; scp \<leftarrow> at values 5; fwd \<leftarrow> at values 6;
     Some (m, Some (mutate m ''grants'' ''Access granted.'' ''admin.grant.add''
       [(''target'', JStr target), (''kind'', JStr kind), (''principal'', JStr princ)]
       (\<lambda>s. SetGrantCapabilities s target kind princ True (shell = ''yes'') (sftp = ''yes'') (scp = ''yes'') (fwd = ''yes'')))) }"

definition submit_grant_edit :: "Model \<Rightarrow> string list \<Rightarrow> handled" where
  "submit_grant_edit m values = do {
     p \<leftarrow> m_pending m;
     shell \<leftarrow> at values 0; sftp \<leftarrow> at values 1; scp \<leftarrow> at values 2; fwd \<leftarrow> at values 3;
     let g = p_grant p;
     Some (m, Some (mutate m ''grants'' ''Grant capabilities updated.'' ''admin.grant.edit''
       [(''target'', JStr (Grant_Target g)), (''kind'', JStr (Grant_Kind g)), (''principal'', JStr (Grant_Principal g))]
       (\<lambda>s. SetGrantCapabilities s (Grant_Target g) (Grant_Kind g) (Grant_Principal g) True
              (shell = ''yes'') (sftp = ''yes'') (scp = ''yes'') (fwd = ''yes'')))) }"

definition submit_forward :: "Model \<Rightarrow> string list \<Rightarrow> handled" where
  "submit_forward m values = do {
     target \<leftarrow> at values 0; host \<leftarrow> at values 1; portText \<leftarrow> at values 2;
     Some (case form_port portText of
        None \<Rightarrow> point_at port_text 2 m
      | Some port \<Rightarrow> (m, Some (mutate m ''forwards'' ''TCP destination allowed.'' ''admin.forward.add''
          [(''target'', JStr target), (''host'', JStr host), (''port'', JNum (itoa port))]
          (\<lambda>s. AddForwardRule s target host port)))) }"

definition submit_target_edit :: "Model \<Rightarrow> string list \<Rightarrow> handled" where
  "submit_target_edit m values = do {
     host \<leftarrow> at values 0; portText \<leftarrow> at values 1; remote \<leftarrow> at values 2;
     (case form_port portText of
        None \<Rightarrow> Some (point_at port_text 1 m)
      | Some port \<Rightarrow> do {
          p \<leftarrow> m_pending m;
          let name = Target_Name (p_target p);
          Some (m, Some (mutate m ''targets'' ''Target updated.'' ''admin.target.edit'' [(''target'', JStr name)]
            (\<lambda>s. UpdateTarget s name host port remote))) }) }"

definition submit_values :: "menu_env \<Rightarrow> db \<Rightarrow> Model \<Rightarrow> string \<Rightarrow> string list \<Rightarrow> handled" where
  "submit_values E s m kind values =
     (if kind = ''identity_add'' then do { name \<leftarrow> at values 0; how \<leftarrow> at values 1; Some (submit_identity E m name how) }
      else if kind = ''user_add'' then do {
        name \<leftarrow> at values 0; role \<leftarrow> at values 1;
        Some (m, Some (mutate m ''users'' ''User added.'' ''admin.user.add''
          [(''username'', JStr name), (''role'', JStr role)] (\<lambda>s. AddUser s name role))) }
      else if kind = ''user_oidc_map'' then submit_oidc_map m values
      else if kind = ''group_add'' then do {
        name \<leftarrow> at values 0;
        Some (m, Some (mutate m ''groups'' ''Group added.'' ''admin.group.add'' [(''group'', JStr name)] (\<lambda>s. AddGroup s name))) }
      else if kind = ''grant_add'' then submit_grant_add m values
      else if kind = ''grant_edit'' then submit_grant_edit m values
      else if kind = ''forward_add'' then submit_forward m values
      else if kind = ''target_edit'' then submit_target_edit m values
      else if kind = ''target_credential'' then submit_credential s m values
      else if kind = ''target_add'' then submit_target E s m values
      else Some (m, None))"

definition submitForm :: "menu_env \<Rightarrow> db \<Rightarrow> Model \<Rightarrow> handled" where
  "submitForm E s m = do {
     f \<leftarrow> m_form m;
     (case missing_field (form_authentication f) 0 (form_fields f) of
        Some (i, label) \<Rightarrow> Some (point_at (label @ '' is required.'') i m)
      | None \<Rightarrow> submit_values E s m (form_kind f) (map (\<lambda>x. TrimSpace (f_value x)) (form_fields f))) }"

section \<open>Keys in a form\<close>

definition set_field_at :: "int \<Rightarrow> (formField \<Rightarrow> formField) \<Rightarrow> adminForm \<Rightarrow> adminForm" where
  "set_field_at i g f = f\<lparr>form_fields := (form_fields f)[nat i := g (form_fields f ! nat i)]\<rparr>"

definition handleFormKey :: "menu_env \<Rightarrow> db \<Rightarrow> Model \<Rightarrow> string \<Rightarrow> handled" where
  "handleFormKey E s m key =
     (if key = ''esc'' then Some (closeModal ''Cancelled.'' m, None)
      else case m_form m of
        None \<Rightarrow> Some (m, None)
      | Some f \<Rightarrow>
          if form_fields f = [] then Some (m, None)
          else do {
            field \<leftarrow> at (form_fields f) (form_index f);
            (let i = form_index f; last_i = int (length (form_fields f)) - 1;
                 with_form = (\<lambda>f'. m\<lparr>m_form := Some f'\<rparr>);
                 change = (\<lambda>g. Some (with_form (set_field_at i g f), None))
             in if key = ''up'' \<or> key = ''shift+tab'' then
                  Some (if i > 0 then with_form (f\<lparr>form_index := i - 1\<rparr>) else m, None)
                else if key = ''down'' \<or> key = ''tab'' then
                  Some (if i < last_i then with_form (f\<lparr>form_index := i + 1\<rparr>) else m, None)
                else if key = ''left'' \<or> key = ''right'' \<or> key = ''space'' then
                  (if f_options field \<noteq> [] then
                     do { m' \<leftarrow> syncFormOptions (with_form (set_field_at i
                            (\<lambda>x. cycleOption x (if key = ''left'' then -1 else 1)) f)); Some (m', None) }
                   else if key = ''space'' then change (\<lambda>x. x\<lparr>f_value := f_value x @ '' ''\<rparr>)
                   else Some (m, None))
                else if key = ''backspace'' then
                  (if f_options field = [] then change (\<lambda>x. x\<lparr>f_value := removeLastRune (f_value x)\<rparr>) else Some (m, None))
                else if key = ''ctrl+u'' then
                  (if f_options field = [] then change (\<lambda>x. x\<lparr>f_value := []\<rparr>) else Some (m, None))
                else if key = ''enter'' then
                  (if i < last_i then Some (with_form (f\<lparr>form_index := i + 1\<rparr>), None) else submitForm E s m)
                else if f_options field = [] \<and> one_rune key then change (\<lambda>x. x\<lparr>f_value := f_value x @ key\<rparr>)
                else Some (m, None)) })"

end
