(* ===== verification/Tui_Keys.thy ===== *)
theory Tui_Keys
  imports Tui_Forms
begin

text \<open>
  \<^verbatim>\<open>internal/tui/menu.go\<close>: the action menus, the keys in every mode, \<open>Update\<close> and the loops of
  \<^verbatim>\<open>remote.go\<close> that run a command and the messages it leads to.
\<close>

section \<open>The action menus\<close>

definition action :: "string \<Rightarrow> string \<Rightarrow> actionItem" where
  "action label code = \<lparr>a_label = label, a_code = code\<rparr>"

definition with_actions :: "Model \<Rightarrow> pendingOperation \<Rightarrow> actionItem list \<Rightarrow> Model" where
  "with_actions m p acts = m\<lparr>m_pending := Some p, m_actions := acts, m_mode := ''actions''\<rparr>"

definition target_actions :: "Target \<Rightarrow> actionItem list" where
  "target_actions t =
     (if Target_Enabled t then [action ''Connect'' ''target_connect''] else [])
     @ [action ''Edit connection'' ''target_edit'', action ''Replace credential'' ''target_credential'',
        action ''Replace host key'' ''target_host_key'',
        action (if Target_Enabled t then ''Disable'' else ''Enable'') ''target_toggle'', action ''Delete'' ''target_delete'']"

definition user_actions :: "Model \<Rightarrow> User \<Rightarrow> actionItem list" where
  "user_actions m u =
     (let base = [action ''Manage SSH keys'' ''user_keys'',
            if User_TOTPEnabled u then action ''Remove TOTP'' ''user_totp_remove'' else action ''Set up TOTP'' ''user_totp_setup'',
            action (if User_Role u = RoleAdmin then ''Make member'' else ''Make administrator'') ''user_role'',
            action (if User_Enabled u then ''Disable'' else ''Enable'') ''user_toggle'', action ''Delete'' ''user_delete'']
      in if m_oidcIssuer m = [] then base
         else if oidcIdentityForUser m (User_ID u) \<noteq> None
         then [action ''Change OIDC mapping'' ''user_oidc_map''] @ base @ [action ''Remove OIDC mapping'' ''user_oidc_remove'']
         else [action ''Map OIDC username'' ''user_oidc_map''] @ base)"

definition openSelectedActions :: "Model \<Rightarrow> Model option" where
  "openSelectedActions m0 =
     (let m = m0\<lparr>m_actionCursor := 0\<rparr>; i = m_cursor m; sect = m_section m; none = (\<lambda>text. Some (m\<lparr>m_status := text\<rparr>)) in
      if sect = ''targets'' then
        (if filtered m = [] then none ''No target selected.''
         else do { t \<leftarrow> at (filtered m) i; Some (with_actions m (no_pending\<lparr>p_target := t\<rparr>) (target_actions t)) })
      else if sect = ''users'' then
        (if m_users m = [] then none ''No user selected.''
         else do { u \<leftarrow> at (m_users m) i;
                   Some (with_actions m (no_pending\<lparr>p_user := u, p_username := User_Username u\<rparr>) (user_actions m u)) })
      else if sect = ''keys'' then
        (if m_identities m = [] then none ''No SSH key selected.''
         else do { k \<leftarrow> at (m_identities m) i; Some (with_actions m (no_pending\<lparr>p_identity := k\<rparr>)
                   [action ''View public key'' ''identity_view'', action ''Delete'' ''identity_delete'']) })
      else if sect = ''groups'' then
        (if m_groups m = [] then none ''No group selected.''
         else do { g \<leftarrow> at (m_groups m) i; Some (with_actions m (no_pending\<lparr>p_group := Group_Name g\<rparr>)
                   [action ''Add member'' ''group_member_add'', action ''Remove member'' ''group_member_remove'',
                    action ''Delete'' ''group_delete'']) })
      else if sect = ''grants'' then
        (if m_grants m = [] then none ''No grant selected.''
         else do { g \<leftarrow> at (m_grants m) i; Some (with_actions m (no_pending\<lparr>p_grant := g\<rparr>)
                   [action ''Edit capabilities'' ''grant_edit'', action ''Remove access'' ''grant_delete'']) })
      else if sect = ''forwards'' then
        (if m_forwardRules m = [] then none ''No forwarding rule selected.''
         else do { r \<leftarrow> at (m_forwardRules m) i; Some (with_actions m (no_pending\<lparr>p_forwardRule := r\<rparr>)
                   [action ''Delete destination'' ''forward_delete'']) })
      else Some m)"

definition yesNo :: "bool \<Rightarrow> string" where
  "yesNo v = (if v then ''yes'' else ''no'')"

definition grant_form :: "Grant \<Rightarrow> Model \<Rightarrow> Model" where
  "grant_form g = open_form ''grant_edit'' (''Edit '' @ Grant_Principal g @ '' '' @ EncodeRune 0x2192 @ '' '' @ Grant_Target g)
     [choice_field ''Shell'' (yesNo (Grant_Shell g)) yes_no, choice_field ''SFTP'' (yesNo (Grant_SFTP g)) yes_no,
      choice_field ''Legacy SCP'' (yesNo (Grant_SCP g)) yes_no,
      choice_field ''TCP forwarding'' (yesNo (Grant_TCPForward g)) yes_no]"

definition target_form :: "Target \<Rightarrow> Model \<Rightarrow> Model" where
  "target_form t = open_form ''target_edit'' (''Edit '' @ Target_Name t)
     [text_field ''Host'' (Target_Host t), text_field ''Port'' (itoa (Target_Port t)),
      text_field ''Remote user'' (Target_RemoteUsername t)]"

definition credential_form :: "Target \<Rightarrow> Model \<Rightarrow> Model option" where
  "credential_form t m = syncTargetKeyField (open_form ''target_credential'' ''Replace credential''
     [choice_field ''Authentication'' (Target_CredentialKind t) credentialKinds] m)"

definition show_keys :: "db \<Rightarrow> pendingOperation \<Rightarrow> Model \<Rightarrow> Model" where
  "show_keys s p m =
     (case ListGatewayKeys s (p_username p) of
        Inl e \<Rightarrow> closeModal (''Unable to load SSH keys: '' @ err_text e) m
      | Inr ks \<Rightarrow> m\<lparr>m_actions := action ''Add another SSH key'' ''user_key_add''
            # map (\<lambda>k. action (if Key_Label k = [] then Key_Fingerprint k else Key_Label k @ ''  '' @ Key_Fingerprint k)
                        (Key_Fingerprint k)) ks,
          m_mode := ''user_keys'', m_actionCursor := 0,
          m_status := p_username p @ '' has '' @ itoa (int (length ks))
            @ '' SSH key(s). Adding a key keeps existing keys working.''\<rparr>)"

definition setup_totp :: "menu_env \<Rightarrow> pendingOperation \<Rightarrow> Model \<Rightarrow> Model" where
  "setup_totp E p m =
     (case e_secret E of
        Inl e \<Rightarrow> closeModal (''TOTP setup failed: '' @ err_text e) m
      | Inr random \<Rightarrow>
          let secret = GenerateSecret random; uri = URI ''SSHGateW'' (p_username p) secret in
          (case e_qrcode E uri of
             Inl e \<Rightarrow> closeModal (''TOTP QR generation failed: '' @ err_text e) m
           | Inr bitmap \<Rightarrow> m\<lparr>m_pending := Some (p\<lparr>p_kind := ''user_totp_setup'', p_totpSecret := secret, p_totpURI := uri,
                              p_totpQR := QR bitmap\<rparr>),
                            m_mode := ''totp_enroll'', m_status := ''Scan the QR code, then press Enter.''\<rparr>))"

definition oidc_form :: "pendingOperation \<Rightarrow> Model \<Rightarrow> Model" where
  "oidc_form p m = open_form ''user_oidc_map'' (''Map OIDC account for '' @ p_username p)
     [text_field ''OIDC username'' (case oidcIdentityForUser m (User_ID (p_user p)) of
        Some i \<Rightarrow> OIDC_ProviderUsername i | None \<Rightarrow> [])] m"

definition choose_member :: "bool \<Rightarrow> pendingOperation \<Rightarrow> Model \<Rightarrow> Model" where
  "choose_member adding p m =
     (let acts = map (\<lambda>u. action (User_Username u) (User_Username u))
            (filter (\<lambda>u. isGroupMember m (p_group p) (User_Username u) \<noteq> adding) (m_users m))
      in if acts = [] then closeModal ''No eligible users for that membership action.'' (m\<lparr>m_actions := []\<rparr>)
         else m\<lparr>m_actions := acts, m_mode := (if adding then ''member_add'' else ''member_remove''), m_actionCursor := 0\<rparr>)"

definition removal_codes :: "string list" where
  "removal_codes = [''target_delete'', ''user_delete'', ''group_delete'', ''grant_delete'', ''forward_delete'',
     ''identity_delete'', ''user_totp_remove'', ''user_oidc_remove'']"

text \<open>The cases of \<open>dispatchAction\<close> that make a command.\<close>

definition dispatch_command :: "Model \<Rightarrow> pendingOperation \<Rightarrow> string \<Rightarrow> cmd option" where
  "dispatch_command m p code =
     (let t = p_target p; user = (''username'', JStr (p_username p)) in
      if code = ''target_toggle'' then Some (mutate m ''targets'' ''Target updated.''
        (''admin.target.'' @ enabledWord (\<not> Target_Enabled t)) [(''target'', JStr (Target_Name t))]
        (\<lambda>s. SetTargetEnabled s (Target_Name t) (\<not> Target_Enabled t)))
      else if code = ''user_role'' then
        (let role = (if User_Role (p_user p) = RoleAdmin then RoleMember else RoleAdmin) in
         Some (mutate m ''users'' ''User role updated.'' ''admin.user.role'' [user, (''role'', JStr role)]
           (\<lambda>s. SetUserRole s (p_username p) role)))
      else if code = ''user_toggle'' then Some (mutate m ''users'' ''User updated.''
        (''admin.user.'' @ enabledWord (\<not> User_Enabled (p_user p))) [user]
        (\<lambda>s. SetUserEnabled s (p_username p) (\<not> User_Enabled (p_user p))))
      else None)"

definition change_member :: "Model \<Rightarrow> pendingOperation \<Rightarrow> bool \<Rightarrow> handled" where
  "change_member m p adding = do {
     chosen \<leftarrow> at (m_actions m) (m_actionCursor m);
     let username = a_code chosen;
     Some (m, Some (mutate m ''groups'' ''Membership updated.'' (''admin.group.member.'' @ addRemove adding)
       [(''group'', JStr (p_group p)), (''username'', JStr username)]
       (\<lambda>s. SetGroupMember s (p_group p) username adding))) }"

definition dispatch_codes :: "string list" where
  "dispatch_codes = [''target_connect'', ''grant_edit'', ''target_edit'', ''target_credential'', ''target_host_key'', ''target_toggle'',
     ''user_keys'', ''user_totp_setup'', ''user_oidc_map'', ''user_role'', ''user_toggle'', ''group_member_add'',
     ''group_member_remove'', ''member_add'', ''member_remove''] @ removal_codes"

text \<open>An unknown code, \<open>identity_view\<close> and \<open>user_key_add\<close> do not read \<open>m.pending\<close>.\<close>

definition dispatchAction :: "menu_env \<Rightarrow> db \<Rightarrow> Model \<Rightarrow> string \<Rightarrow> handled" where
  "dispatchAction E s m code =
     (if code = ''identity_view'' then Some (m\<lparr>m_mode := ''identity_public''\<rparr>, None)
      else if code = ''user_key_add'' then
        Some (m\<lparr>m_mode := ''public_key'', m_input := [], m_status := ''Paste an OpenSSH public key, then press Enter.''\<rparr>, None)
      else if code \<notin> set dispatch_codes then Some (m, None)
      else do {
        p \<leftarrow> m_pending m;
        (let t = p_target p; only = (\<lambda>m'. Some (m', None)) in
         if code = ''target_connect'' then Some (m\<lparr>m_result := Some (connect_result (Target_ID t))\<rparr>, Some Quit)
         else if code = ''grant_edit'' then only (grant_form (p_grant p) m)
         else if code = ''target_edit'' then only (target_form t m)
         else if code = ''target_credential'' then do { m' \<leftarrow> credential_form t m; only m' }
         else if code = ''target_host_key'' then Some (scanHost E (JoinHostPort (Target_Host t) (itoa (Target_Port t)))
             (m\<lparr>m_pending := Some (p\<lparr>p_kind := ''host_key''\<rparr>)\<rparr>))
         else if code \<in> set removal_codes then
           only (m\<lparr>m_pending := Some (p\<lparr>p_kind := code\<rparr>), m_mode := ''confirm_delete''\<rparr>)
         else if code = ''user_keys'' then only (show_keys s p m)
         else if code = ''user_totp_setup'' then only (setup_totp E p m)
         else if code = ''user_oidc_map'' then only (oidc_form p m)
         else if code = ''group_member_add'' \<or> code = ''group_member_remove''
         then only (choose_member (code = ''group_member_add'') p m)
         else if code = ''member_add'' \<or> code = ''member_remove'' then change_member m p (code = ''member_add'')
         else Some (m, dispatch_command m p code)) })"

definition handleActionKey :: "menu_env \<Rightarrow> db \<Rightarrow> Model \<Rightarrow> string \<Rightarrow> handled" where
  "handleActionKey E s m key =
     (let i = m_actionCursor m; n = int (length (m_actions m)); move = (\<lambda>j. Some (m\<lparr>m_actionCursor := j\<rparr>, None)) in
      if key = ''esc'' then Some (closeModal ''Cancelled.'' m, None)
      else if key = ''up'' \<or> key = ''k'' then move (if i > 0 then i - 1 else i)
      else if key = ''down'' \<or> key = ''j'' \<or> key = ''tab'' then move (if i < n - 1 then i + 1 else i)
      else if key = ''home'' then move 0
      else if key = ''end'' then move (if n > 0 then n - 1 else i)
      else if (key = ''enter'' \<or> key = ''space'') \<and> n > 0 then do {
        chosen \<leftarrow> at (m_actions m) i;
        if m_mode m = ''user_keys'' \<and> a_code chosen \<noteq> ''user_key_add'' then do {
          p \<leftarrow> m_pending m;
          Some (m\<lparr>m_pending := Some (p\<lparr>p_kind := ''user_key_remove'', p_keyFingerprint := a_code chosen\<rparr>),
                  m_mode := ''confirm_delete''\<rparr>, None) }
        else dispatchAction E s m
          (if m_mode m = ''member_add'' \<or> m_mode m = ''member_remove'' then m_mode m else a_code chosen) }
      else Some (m, None))"

section \<open>Keys while a modal is open\<close>

definition type_key :: "Model \<Rightarrow> string \<Rightarrow> Model" where
  "type_key m key =
     (if key = ''backspace'' then (if m_input m \<noteq> [] then m\<lparr>m_input := removeLastRune (m_input m)\<rparr> else m)
      else if key = ''space'' then m\<lparr>m_input := m_input m @ '' ''\<rparr>
      else if one_rune key then m\<lparr>m_input := m_input m @ key\<rparr> else m)"

definition confirm_host_key :: "menu_env \<Rightarrow> Model \<Rightarrow> string \<Rightarrow> handled" where
  "confirm_host_key E m key =
     (if key = ''n'' then Some (m\<lparr>m_mode := [], m_pending := None, m_status := ''Host key rejected.''\<rparr>, None)
      else if key = ''y'' then do {
        p \<leftarrow> m_pending m;
        Some (if p_kind p = ''host_key'' then finishHostKey E m
          else if p_credentialKind p = CredentialPassword then (m\<lparr>m_mode := ''secret_password'', m_input := [],
            m_status := ''Enter downstream password (hidden), then press Enter.''\<rparr>, None)
          else if p_credentialKind p = CredentialPrivateKey then (m\<lparr>m_mode := ''secret_key'', m_input := [],
            m_status := ''Paste the private key; its contents will not be rendered. Press Ctrl+D when complete.''\<rparr>, None)
          else if p_credentialKind p = CredentialStoredKey then finishStoredTarget E m
          else (m\<lparr>m_mode := ''agent_key'', m_input := [],
            m_status := ''Paste the public key that must be present in the forwarded agent.''\<rparr>, None)) }
      else Some (m, None))"

definition submit_private_key :: "menu_env \<Rightarrow> Model \<Rightarrow> handled" where
  "submit_private_key E m =
     (case ParsePrivateKey (e_ssh E) (m_input m) None of
        Inr _ \<Rightarrow> do {
          p \<leftarrow> m_pending m;
          Some (if p_kind p = ''identity_add'' then finishIdentity E (m_input m) m
                else finishCredential E (empty_payload\<lparr>PrivateKey := m_input m\<rparr>) m) }
      | Inl e \<Rightarrow>
          if e_PassphraseMissing E e then do {
            p \<leftarrow> m_pending m;
            Some (m\<lparr>m_pending := Some (p\<lparr>p_privateKey := m_input m\<rparr>), m_mode := ''secret_passphrase'', m_input := [],
              m_status := ''Encrypted key received. Enter its passphrase (hidden), then press Enter.''\<rparr>, None) }
          else Some (m\<lparr>m_status := ''Invalid private key: '' @ err_text e, m_input := []\<rparr>, None))"

definition submit_passphrase :: "menu_env \<Rightarrow> Model \<Rightarrow> handled" where
  "submit_passphrase E m = do {
     p \<leftarrow> m_pending m;
     Some (case ParsePrivateKey (e_ssh E) (p_privateKey p) (Some (m_input m)) of
        Inl e \<Rightarrow> (m\<lparr>m_status := ''Invalid passphrase: '' @ err_text e, m_input := []\<rparr>, None)
      | Inr _ \<Rightarrow> if p_kind p = ''identity_add'' then finishIdentityWithPassphrase E (p_privateKey p) (m_input m) m
          else finishCredential E (empty_payload\<lparr>PrivateKey := p_privateKey p, Passphrase := m_input m\<rparr>) m) }"

text \<open>The second half of \<open>handleModeKey\<close>: Escape, the host-key question, the secrets, and typing.\<close>

definition handle_input_key :: "menu_env \<Rightarrow> Model \<Rightarrow> string \<Rightarrow> handled" where
  "handle_input_key E m key =
     (let mode = m_mode m in
      if key = ''esc'' then Some (closeModal ''Cancelled.'' m, None)
      else if mode = ''confirm_host'' then confirm_host_key E m key
      else if mode = ''secret_password'' \<and> key = ''enter''
      then Some (finishCredential E (empty_payload\<lparr>Password := m_input m\<rparr>) m)
      else if mode = ''secret_key'' \<and> key = ''ctrl+d'' then submit_private_key E m
      else if mode = ''secret_key'' \<and> key = ''enter'' then Some (m\<lparr>m_input := m_input m @ [chr 10]\<rparr>, None)
      else if mode = ''secret_passphrase'' \<and> key = ''enter'' then submit_passphrase E m
      else Some (type_key m key, None))"

definition action_modes :: "string list" where
  "action_modes = [''actions'', ''user_keys'', ''member_add'', ''member_remove'']"

definition handleModeKey :: "menu_env \<Rightarrow> db \<Rightarrow> Model \<Rightarrow> string \<Rightarrow> ((Model \<times> cmd option) \<times> db) option" where
  "handleModeKey E s m key =
     (let mode = m_mode m; pure = map_option (\<lambda>r. (r, s)) in
      if mode = ''help'' then Some ((m\<lparr>m_mode := []\<rparr>, None), s)
      else if mode = ''totp_auth'' \<and> key = ''enter''
      then do { (m', s') \<leftarrow> verifyTOTPChallenge E m s; Some ((m', None), s') }
      else if mode = ''totp_auth'' \<and> (key = ''esc'' \<or> key = ''ctrl+c'')
      then Some ((m\<lparr>m_result := Some quit_result\<rparr>, Some Quit), s)
      else if mode = ''totp_enroll'' \<and> key = ''enter'' then Some ((m\<lparr>m_mode := ''totp_confirm'', m_input := [],
             m_status := ''Enter a current code to verify enrollment.''\<rparr>, None), s)
      else if mode = ''totp_confirm'' \<and> key = ''enter'' then pure (finishTOTPEnrollment E m)
      else if mode = ''oidc_link'' \<and> key = ''enter'' then Some (completeOIDCLink E m, s)
      else if mode = ''oidc_start'' \<or> mode = ''oidc_complete'' then Some ((m, None), s)
      else if mode = ''form'' then pure (handleFormKey E s m key)
      else if mode \<in> set action_modes then pure (handleActionKey E s m key)
      else if mode = ''identity_public'' then Some ((closeModal [] m, None), s)
      else if mode = ''confirm_delete'' then
        (if key = ''y'' then pure (finishDelete m)
         else if key = ''n'' then Some ((closeModal ''Cancelled.'' m, None), s) else Some ((m, None), s))
      else if mode = ''public_key'' \<and> (key = ''enter'' \<or> key = ''ctrl+d'') then pure (finishPublicKey E m)
      else if mode = ''agent_key'' \<and> (key = ''enter'' \<or> key = ''ctrl+d'') then Some (finishAgentKey E m, s)
      else pure (handle_input_key E m key))"

section \<open>Keys in the lists\<close>

definition search_key :: "Model \<Rightarrow> string \<Rightarrow> Model" where
  "search_key m key =
     (let query = (\<lambda>q. m\<lparr>m_query := q, m_cursor := 0\<rparr>) in
      if key = ''esc'' then m\<lparr>m_searching := False, m_query := [], m_cursor := 0\<rparr>
      else if key = ''enter'' then m\<lparr>m_searching := False\<rparr>
      else if key = ''backspace'' then query (removeLastRune (m_query m))
      else if key = ''ctrl+u'' then query []
      else if key = ''space'' then query (m_query m @ '' '')
      else if one_rune key then query (m_query m @ key) else m)"

text \<open>The keys that only administrators have, up to those that return.\<close>

definition admin_key :: "Model \<Rightarrow> string \<Rightarrow> Model" where
  "admin_key m key =
     (let go = (\<lambda>sect. m\<lparr>m_section := sect, m_cursor := 0\<rparr>) in
      if key = ''1'' then go ''targets'' else if key = ''2'' then go ''keys'' else if key = ''3'' then go ''users''
      else if key = ''4'' then go ''groups'' else if key = ''5'' then go ''grants'' else if key = ''6'' then go ''forwards''
      else if key = ''7'' then go ''audit''
      else if key = ''left'' \<or> key = ''h'' then changeSection (-1) m
      else if key = ''right'' \<or> key = ''l'' \<or> key = ''tab'' then changeSection 1 m
      else m)"

definition list_key :: "Model \<Rightarrow> string \<Rightarrow> handled" where
  "list_key m key =
     (let cur = m_cursor m; n = int (itemCount m); go = (\<lambda>c. Some (m\<lparr>m_cursor := c\<rparr>, None)) in
      if key = ''up'' \<or> key = ''k'' then go (if cur > 0 then cur - 1 else cur)
      else if key = ''down'' \<or> key = ''j'' then go (if cur < n - 1 then cur + 1 else cur)
      else if key = ''pgup'' then go (if cur - pageSize m < 0 then 0 else cur - pageSize m)
      else if key = ''pgdown'' then Some (clamp (m\<lparr>m_cursor := cur + pageSize m\<rparr>), None)
      else if key = ''home'' \<or> key = ''g'' then go 0
      else if key = ''end'' \<or> key = ''G'' then go (if n > 0 then n - 1 else cur)
      else if key = ''/'' then
        Some (if m_section m = ''targets'' then m\<lparr>m_searching := True, m_status := []\<rparr> else m, None)
      else if key = ''esc'' then
        Some (if m_section m = ''targets'' then m\<lparr>m_query := [], m_cursor := 0\<rparr> else m, None)
      else if key = ''?'' then Some (m\<lparr>m_mode := ''help''\<rparr>, None)
      else if key = ''enter'' then
        (if m_section m = ''targets'' then
           (if filtered m = [] then Some (m, None)
            else do { t \<leftarrow> at (filtered m) cur; Some (m\<lparr>m_result := Some (connect_result (Target_ID t))\<rparr>, Some Quit) })
         else if is_admin m \<and> m_section m \<noteq> ''audit''
         then do { m' \<leftarrow> openSelectedActions m; Some (m', None) }
         else Some (m, None))
      else Some (m, None))"

definition handleKey :: "menu_env \<Rightarrow> db \<Rightarrow> Model \<Rightarrow> string \<Rightarrow> ((Model \<times> cmd option) \<times> db) option" where
  "handleKey E s m key =
     (let pure = map_option (\<lambda>r. (r, s)) in
      if m_mode m \<noteq> [] then handleModeKey E s m key
      else if m_searching m then Some ((search_key m key, None), s)
      else if key = ''ctrl+c'' \<or> key = ''q'' then Some ((m\<lparr>m_result := Some quit_result\<rparr>, Some Quit), s)
      else if key = ''o'' then Some (startOIDCLink E m, s)
      else if is_admin m \<and> key = ''r'' then Some ((m, Some (load_cmd m)), s)
      else if is_admin m \<and> key = ''a'' then Some ((openAddForm m, None), s)
      else if is_admin m \<and> key = ''m'' then pure (do { m' \<leftarrow> openSelectedActions m; Some (m', None) })
      else pure (list_key (if is_admin m then admin_key m key else m) key))"

section \<open>Messages\<close>

definition show_data :: "dataMsg \<Rightarrow> Model \<Rightarrow> Model" where
  "show_data v m = clamp (m\<lparr>m_targets := d_targets v, m_users := d_users v, m_groups := d_groups v,
     m_groupMembers := d_groupMembers v, m_identities := d_identities v, m_grants := d_grants v,
     m_forwardRules := d_forwardRules v, m_auditEvents := d_auditEvents v, m_oidcIdentities := d_oidcIdentities v,
     m_status := (case d_err v of Some e \<Rightarrow> err_text e | None \<Rightarrow> m_status m)\<rparr>)"

definition show_mutation :: "mutationMsg \<Rightarrow> Model \<Rightarrow> Model" where
  "show_mutation v m0 =
     (let m = m0\<lparr>m_mode := [], m_input := [], m_pending := None, m_form := None, m_actions := [], m_actionCursor := 0\<rparr> in
      case mut_err v of
        Some e \<Rightarrow> m\<lparr>m_status := ''Admin operation failed: '' @ err_text e\<rparr>
      | None \<Rightarrow>
          if mut_section v = [] then m\<lparr>m_status := mut_status v\<rparr>
          else m\<lparr>m_status := mut_status v, m_section := mut_section v, m_cursor := 0\<rparr>)"

definition paste :: "string \<Rightarrow> Model \<Rightarrow> Model option" where
  "paste v m =
     (if m_mode m = ''secret_key'' then Some (m\<lparr>m_input := m_input m @ v\<rparr>)
      else if m_mode m = ''public_key'' \<or> m_mode m = ''agent_key'' then Some (m\<lparr>m_input := m_input m @ TrimSpace v\<rparr>)
      else if m_mode m = ''form'' then
        (case m_form m of
           None \<Rightarrow> Some m
         | Some f \<Rightarrow> do {
             field \<leftarrow> at (form_fields f) (form_index f);
             Some (if f_options field \<noteq> [] then m
               else m\<lparr>m_form := Some (set_field_at (form_index f) (\<lambda>x. x\<lparr>f_value := f_value x @ TrimSpace v\<rparr>) f)\<rparr>) })
      else Some m)"

definition Update :: "menu_env \<Rightarrow> Model \<Rightarrow> msg \<Rightarrow> db \<Rightarrow> ((Model \<times> cmd option) \<times> db) option" where
  "Update E m msg s =
     (let stay = (\<lambda>m'. Some ((m', None), s)) in
      case msg of
        ReloadMsg \<Rightarrow> Some ((m, Some (load_cmd m)), s)
      | DataMsg v \<Rightarrow> stay (show_data v m)
      | OidcBeginMsg (Inl e) \<Rightarrow> stay (closeModal (''OIDC linking failed: '' @ err_text e) m)
      | OidcBeginMsg (Inr login) \<Rightarrow> stay (m\<lparr>m_oidcLogin := login, m_mode := ''oidc_link'',
            m_status := ''Complete sign-in in your browser, then press Enter.''\<rparr>)
      | OidcLinkMsg i (Some e) \<Rightarrow> stay (closeModal (''OIDC linking failed: '' @ err_text e) m)
      | OidcLinkMsg i None \<Rightarrow>
          (let m' = m\<lparr>m_mode := [], m_pending := None, m_status := ''OIDC account linked as '' @ Username i @ ''.''\<rparr>
           in Some ((m', Some (load_cmd m')), s))
      | HostKeyMsg (Inl e) \<Rightarrow>
          stay (m\<lparr>m_mode := [], m_pending := None, m_status := ''Host-key scan failed: '' @ err_text e\<rparr>)
      | HostKeyMsg (Inr k) \<Rightarrow> do {
          p \<leftarrow> m_pending m;
          stay (m\<lparr>m_pending := Some (p\<lparr>p_hostKey := Some k\<rparr>), m_mode := ''confirm_host'',
            m_status := ''Verify out-of-band: '' @ key_Type k @ '' '' @ FingerprintSHA256 (e_ssh E) k
              @ ''. Press y to accept or n to cancel.''\<rparr>) }
      | MutationMsg v \<Rightarrow> (let m' = show_mutation v m in Some ((m', Some (load_cmd m')), s))
      | PasteMsg v \<Rightarrow> do { m' \<leftarrow> paste v m; stay m' }
      | WindowSizeMsg w h \<Rightarrow> stay (m\<lparr>m_width := w, m_height := h\<rparr>)
      | KeyPressMsg key \<Rightarrow> handleKey E s m key
      | QuitMsg \<Rightarrow> stay m)"

text \<open>
  \<open>applyCommand\<close> and \<open>applyMessage\<close> run commands until a message leads to no further one. Whether they
  end is not evident from the loop: their value is \<open>None\<close> when they do not, or when they panic.
\<close>

partial_function (option) applyCommand :: "menu_env \<Rightarrow> Model \<Rightarrow> cmd option \<Rightarrow> db \<Rightarrow> (Model \<times> db) option" where
  "applyCommand E m c s =
     (case c of
        None \<Rightarrow> Some (m, s)
      | Some cmd \<Rightarrow>
          Option.bind (case cmd of Quit \<Rightarrow> Some (QuitMsg, s) | Run f \<Rightarrow> f s) (\<lambda>a.
          Option.bind (Update E m (fst a) (snd a)) (\<lambda>r. applyCommand E (fst (fst r)) (snd (fst r)) (snd r))))"

definition applyMessage :: "menu_env \<Rightarrow> Model \<Rightarrow> msg \<Rightarrow> db \<Rightarrow> (Model \<times> db) option" where
  "applyMessage E m msg s = Option.bind (Update E m msg s) (\<lambda>r. applyCommand E (fst (fst r)) (snd (fst r)) (snd r))"

end
