(* ===== verification/Tui_Input.thy ===== *)
theory Tui_Input
  imports Go_Strings
begin

text \<open>
  \<^verbatim>\<open>internal/tui/remote.go\<close>: decoding the bytes of the terminal into keys and pastes.
\<close>

section \<open>Keys beyond a byte\<close>

definition esc :: char where "esc = chr 27"

text \<open>\<open>strings.SplitN(field, ":", 2)[0]\<close>, read as a number.\<close>

definition leadingNumber :: "string \<Rightarrow> int option" where
  "leadingNumber fld = atoi (takeWhile (\<lambda>c. c \<noteq> CHR '':'') fld)"

text \<open>\<open>string(rune(code))\<close>: \<open>rune\<close> keeps the low 32 bits as a signed number.\<close>

definition rune_text :: "int \<Rightarrow> string" where
  "rune_text code = (let r = sint (word_of_int code :: 32 word) in if r < 0 then EncodeRune RuneError else EncodeRune (nat r))"

definition extendedKeyName :: "int \<Rightarrow> int \<Rightarrow> string" where
  "extendedKeyName code modifiers =
     (if modifiers > 0 \<and> (modifiers - 1) div 4 mod 2 = 1 then ''ctrl+'' @ ToLower (rune_text code)
      else if code = 9 then ''tab'' else if code = 13 then ''enter'' else if code = 27 then ''esc''
      else if code = 127 then ''backspace'' else rune_text code)"

record inputEvent =
  ev_key :: string
  ev_paste :: string

definition key_event :: "string \<Rightarrow> inputEvent" where
  "key_event k = \<lparr>ev_key = k, ev_paste = []\<rparr>"

text \<open>\<open>parseExtendedKey\<close> gives a key and the bytes it takes, finds the sequence incomplete, or neither.\<close>

datatype extended = Extended inputEvent nat | Incomplete | NotExtended

definition final_byte :: "char \<Rightarrow> bool" where
  "final_byte c \<longleftrightarrow> 0x40 \<le> byte c \<and> byte c \<le> 0x7E"

definition csi_u :: "string \<Rightarrow> nat \<Rightarrow> extended" where
  "csi_u body i =
     (let fs = Split body (CHR '';'') in
      case leadingNumber (hd fs) of
        None \<Rightarrow> NotExtended
      | Some code \<Rightarrow>
          let modifiers = (case fs of _ # f1 # _ \<Rightarrow> (case leadingNumber f1 of Some k \<Rightarrow> k | None \<Rightarrow> 1) | _ \<Rightarrow> 1)
          in Extended (key_event (extendedKeyName code modifiers)) (i + 1))"

definition csi_tilde :: "string \<Rightarrow> nat \<Rightarrow> extended" where
  "csi_tilde body i =
     (case Split body (CHR '';'') of
        [f0, f1, f2] \<Rightarrow>
          (if f0 = ''27'' then
             (case (leadingNumber f1, leadingNumber f2) of
                (Some modifiers, Some code) \<Rightarrow> Extended (key_event (extendedKeyName code modifiers)) (i + 1)
              | _ \<Rightarrow> NotExtended)
           else NotExtended)
      | _ \<Rightarrow> NotExtended)"

definition parseExtendedKey :: "string \<Rightarrow> extended" where
  "parseExtendedKey data =
     (if \<not> HasPrefix data [esc, CHR ''['']  then NotExtended
      else let body = takeWhile (\<lambda>c. \<not> final_byte c) (drop 2 data); i = 2 + length body in
           if i \<ge> length data then Incomplete
           else if data ! i = CHR ''u'' then csi_u body i
           else if data ! i = CHR ''~'' then csi_tilde body i
           else NotExtended)"

section \<open>The parser\<close>

definition paste_start :: string where "paste_start = esc # ''[200~''"
definition paste_end :: string where "paste_end = esc # ''[201~''"

definition key_sequences :: "(string \<times> string) list" where
  "key_sequences = map (\<lambda>(raw, key). (esc # raw, key))
     [(''[A'', ''up''), (''[B'', ''down''), (''[C'', ''right''), (''[D'', ''left''), (''[5~'', ''pgup''), (''[6~'', ''pgdown''),
      (''[H'', ''home''), (''[F'', ''end''), (''OH'', ''home''), (''OF'', ''end'')]"

text \<open>What is at the front of the input: an event and the bytes it takes, bytes that are dropped, or too little.\<close>

datatype token = Event inputEvent nat | Skip nat | NeedMore

definition escape_token :: "string \<Rightarrow> token" where
  "escape_token data =
     (case find (\<lambda>(raw, key). HasPrefix data raw) key_sequences of
        Some (raw, key) \<Rightarrow> Event (key_event key) (length raw)
      | None \<Rightarrow>
          if list_ex (\<lambda>(raw, key). HasPrefix raw data) key_sequences then NeedMore
          else (case parseExtendedKey data of
             Extended ev n \<Rightarrow> Event ev n
           | Incomplete \<Rightarrow> NeedMore
           | NotExtended \<Rightarrow> Event (key_event ''esc'') 1))"

definition control_key :: "char \<Rightarrow> string option" where
  "control_key c =
     (let b = byte c in
      if b = 3 then Some ''ctrl+c'' else if b = 4 then Some ''ctrl+d''
      else if b = 13 \<or> b = 10 then Some ''enter'' else if b = 8 \<or> b = 127 then Some ''backspace''
      else if b = 9 then Some ''tab'' else if b = 21 then Some ''ctrl+u'' else if b = 32 then Some ''space'' else None)"

definition rune_token :: "string \<Rightarrow> token" where
  "rune_token data =
     (if \<not> FullRune data then NeedMore
      else let (r, size) = DecodeRune data in
           if r = RuneError \<and> size = 1 then Skip 1 else Event (key_event (EncodeRune r)) size)"

definition next_token :: "string \<Rightarrow> token" where
  "next_token data =
     (if HasPrefix paste_start data \<and> length data < length paste_start then NeedMore
      else if HasPrefix data paste_start then
        (case Index (drop 6 data) paste_end of
           None \<Rightarrow> NeedMore
         | Some end \<Rightarrow> Event \<lparr>ev_key = [], ev_paste = take end (drop 6 data)\<rparr> (6 + end + 6))
      else if hd data = esc then escape_token data
      else (case control_key (hd data) of Some key \<Rightarrow> Event (key_event key) 1 | None \<Rightarrow> rune_token data))"


lemma FullRune_append:
  assumes "FullRune s" shows "FullRune (s @ t) \<and> DecodeRune (s @ t) = DecodeRune s"
proof (cases s)
  case (Cons c cs)
  show ?thesis
  proof (cases "utf8_lead (byte c)")
    case None
    then show ?thesis using Cons by (simp add: FullRune_def DecodeRune_def)
  next
    case (Some k)
    then obtain n lo hi where k: "utf8_lead (byte c) = Some (n, lo, hi)" by (cases k) auto
    then have n: "n = 2 \<or> n = 3 \<or> n = 4" "\<not> byte c < 0x80" by (auto simp: utf8_lead_def split: if_splits)
    consider "cs = []" | c1 where "cs = [c1]" | c1 c2 where "cs = [c1, c2]" | c1 c2 c3 r where "cs = c1 # c2 # c3 # r"
      by (metis list.exhaust)
    then show ?thesis
      using assms Cons k n by cases (auto simp: FullRune_def DecodeRune_def split: list.splits)
  qed
qed (use assms in \<open>simp add: FullRune_def\<close>)

lemma DecodeRune_size: "s \<noteq> [] \<Longrightarrow> DecodeRune s = (r, n) \<Longrightarrow> 0 < n \<and> n \<le> length s"
  using DecodeRune_valid[of s r n] by (cases s) (auto simp: DecodeRune_pos)

lemma Index_bound: "Index s sub = Some e \<Longrightarrow> e + length sub \<le> length s"
proof (induction s arbitrary: e)
  case (Cons c s)
  then show ?case by (auto simp: HasPrefix_iff split: if_splits) (metis add_le_cancel_left length_append le_add1 length_Cons)
qed (auto split: if_splits)

lemma HasPrefix_append_left: "HasPrefix s p \<Longrightarrow> HasPrefix (s @ t) p"
  by (auto simp: HasPrefix_iff)

lemma HasPrefix_append_iff: "length p \<le> length s \<Longrightarrow> HasPrefix (s @ t) p \<longleftrightarrow> HasPrefix s p"
  by (auto simp: HasPrefix_iff append_eq_append_conv2)

lemma HasPrefix_length: "HasPrefix s p \<Longrightarrow> length p \<le> length s"
  by (auto simp: HasPrefix_iff)

text \<open>A prefix of a longer text: either already there, or the shorter text is still on its way.\<close>

lemma HasPrefix_grow: "HasPrefix (s @ t) p \<Longrightarrow> HasPrefix s p \<or> HasPrefix p s"
  by (auto simp: HasPrefix_iff append_eq_append_conv2)

lemma Index_append: "Index s sub = Some e \<Longrightarrow> Index (s @ t) sub = Some e"
proof (induction s arbitrary: e)
  case Nil
  then show ?case by (cases t) (auto split: if_splits)
next
  case (Cons c s)
  show ?case
  proof (cases "HasPrefix (c # s) sub")
    case True
    then show ?thesis using Cons.prems HasPrefix_append_left[OF True, of t] by simp
  next
    case False
    then obtain e' where e: "Index s sub = Some e'" "e = Suc e'" using Cons.prems by auto
    then have "length sub \<le> length (c # s)" using Index_bound[OF e(1)] by simp
    with False have "\<not> HasPrefix (c # s @ t) sub" using HasPrefix_append_iff[of sub "c # s" t] by simp
    with Cons.IH[OF e(1)] e(2) show ?thesis by simp
  qed
qed

text \<open>The bytes a token takes.\<close>

lemma csi_size: "csi_u body i = Extended ev n \<Longrightarrow> n = i + 1" "csi_tilde body i = Extended ev n \<Longrightarrow> n = i + 1"
  by (auto simp: csi_u_def csi_tilde_def Let_def split: option.splits list.splits if_splits)

lemma parseExtendedKey_size: "parseExtendedKey data = Extended ev n \<Longrightarrow> 0 < n \<and> n \<le> length data"
  by (auto simp: parseExtendedKey_def Let_def dest!: csi_size split: if_splits)

lemma escape_token_size:
  assumes "data \<noteq> []" "escape_token data = Event ev n" shows "0 < n \<and> n \<le> length data"
proof (cases "find (\<lambda>(raw, key). HasPrefix data raw) key_sequences")
  case None
  with assms show ?thesis
    by (auto simp: escape_token_def dest!: parseExtendedKey_size split: if_splits extended.splits) (cases data; simp)
next
  case (Some x)
  then have "x \<in> set key_sequences" "HasPrefix data (fst x)" by (auto dest!: find_SomeD)
  moreover have "fst x \<noteq> []" if "x \<in> set key_sequences" using that by (auto simp: key_sequences_def)
  ultimately show ?thesis
    using assms(2) Some HasPrefix_length[of data "fst x"] by (auto simp: escape_token_def split: prod.splits)
qed

lemma next_token_size:
  assumes "data \<noteq> []" "next_token data = Event ev n \<or> next_token data = Skip n"
  shows "0 < n \<and> n \<le> length data"
proof -
  have r: "0 < n \<and> n \<le> length data" if "rune_token data = Event ev n \<or> rune_token data = Skip n"
    using that DecodeRune_size[OF assms(1)] by (auto simp: rune_token_def split: if_splits prod.splits)
  have p: "6 + e + 6 \<le> length data" if "HasPrefix data paste_start" "Index (drop 6 data) paste_end = Some e" for e
    using Index_bound[OF that(2)] HasPrefix_length[OF that(1)] by (simp add: paste_start_def paste_end_def)
  have e: "escape_token data \<noteq> Skip k" for k
    by (auto simp: escape_token_def split: option.splits if_splits extended.splits)
  have l: "1 \<le> length data" using assms(1) by (cases data) auto
  from assms(2) p escape_token_size[OF assms(1)] r l e show ?thesis
    unfolding next_token_def
    by (auto simp: Let_def simp del: HasPrefix.simps split: if_splits option.splits)
qed

function parseInput :: "string \<Rightarrow> inputEvent list \<times> string" where
  "parseInput data =
     (if data = [] then ([], [])
      else if data = [esc] then ([key_event ''esc''], [])
      else case next_token data of
             NeedMore \<Rightarrow> ([], data)
           | Skip n \<Rightarrow> parseInput (drop n data)
           | Event ev n \<Rightarrow> (let (evs, rest) = parseInput (drop n data) in (ev # evs, rest)))"
  by pat_completeness auto
termination
proof (relation "measure length")
  fix data n assume "data \<noteq> []" "next_token data = Skip n"
  then show "(drop n data, data) \<in> measure length" using next_token_size[of data _ n] by auto
next
  fix data ev n assume "data \<noteq> []" "next_token data = Event ev n"
  then show "(drop n data, data) \<in> measure length" using next_token_size[of data ev n] by auto
qed simp

declare parseInput.simps [simp del]

section \<open>The keys do not depend on how the bytes arrive\<close>

lemma csi_stable:
  assumes "parseExtendedKey a \<noteq> Incomplete" "HasPrefix a [esc, CHR ''['']"
  shows "parseExtendedKey (a @ b) = parseExtendedKey a"
proof -
  let ?p = "\<lambda>c. \<not> final_byte c"
  have len2: "2 \<le> length a" using HasPrefix_length[OF assms(2)] by simp
  have len1: "2 + length (takeWhile ?p (drop 2 a)) < length a"
  proof (rule ccontr)
    assume "\<not> 2 + length (takeWhile ?p (drop 2 a)) < length a"
    then have "parseExtendedKey a = Incomplete" using assms(2) by (simp add: parseExtendedKey_def Let_def del: HasPrefix.simps)
    with assms(1) show False by simp
  qed
  note len = len1 len2
  have "takeWhile ?p (drop 2 a) \<noteq> drop 2 a"
  proof
    assume "takeWhile ?p (drop 2 a) = drop 2 a"
    then have "length (takeWhile ?p (drop 2 a)) = length a - 2" by (metis length_drop)
    with len show False by linarith
  qed
  then obtain c where "c \<in> set (drop 2 a)" "\<not> ?p c" by (metis takeWhile_eq_all_conv)
  then have "takeWhile ?p (drop 2 a @ b) = takeWhile ?p (drop 2 a)" by (rule takeWhile_append1)
  moreover have "drop 2 (a @ b) = drop 2 a @ b" using len(2) by simp
  ultimately have tw: "takeWhile ?p (drop 2 (a @ b)) = takeWhile ?p (drop 2 a)" by simp
  have nth: "(a @ b) ! (2 + length (takeWhile ?p (drop 2 a))) = a ! (2 + length (takeWhile ?p (drop 2 a)))"
    using len(1) by (simp add: nth_append)
  have ge: "\<not> 2 + length (takeWhile ?p (drop 2 a)) \<ge> length (a @ b)" "\<not> 2 + length (takeWhile ?p (drop 2 a)) \<ge> length a"
    using len(1) by simp_all
  show ?thesis
    unfolding parseExtendedKey_def Let_def tw nth using ge assms(2) HasPrefix_append_left[OF assms(2), of b]
    by (simp only: if_False not_True_eq_False)
qed

lemma find_stable:
  assumes "\<And>x. x \<in> set ks \<Longrightarrow> HasPrefix (a @ b) (fst x) \<longleftrightarrow> HasPrefix a (fst x)"
  shows "find (\<lambda>(raw, key). HasPrefix (a @ b) raw) ks = find (\<lambda>(raw, key). HasPrefix a raw) ks"
  by (rule find_cong_set) (use assms in auto)

lemma find_first_stable:
  assumes "find (\<lambda>(raw, key). HasPrefix a raw) ks = Some x"
    and "\<And>u v. u \<in> set ks \<Longrightarrow> v \<in> set ks \<Longrightarrow> HasPrefix (fst u) (fst v) \<Longrightarrow> HasPrefix (fst v) (fst u)"
  shows "find (\<lambda>(raw, key). HasPrefix (a @ b) raw) ks = Some x"
proof -
  have x: "x \<in> set ks" "HasPrefix a (fst x)" using assms(1) by (auto dest!: find_SomeD)
  show ?thesis unfolding assms(1)[symmetric]
  proof (rule find_stable)
    fix y assume y: "y \<in> set ks"
    show "HasPrefix (a @ b) (fst y) \<longleftrightarrow> HasPrefix a (fst y)"
    proof
      assume "HasPrefix (a @ b) (fst y)"
      then consider "HasPrefix a (fst y)" | "HasPrefix (fst y) a" using HasPrefix_grow by blast
      then show "HasPrefix a (fst y)"
      proof cases
        case 2
        with x(2) have "HasPrefix (fst y) (fst x)" by (auto simp: HasPrefix_iff)
        then have "HasPrefix (fst x) (fst y)" using assms(2) x(1) y by blast
        with x(2) show ?thesis by (auto simp: HasPrefix_iff)
      qed
    qed (rule HasPrefix_append_left)
  qed
qed

lemma key_sequences_prefix_free:
  "u \<in> set key_sequences \<Longrightarrow> v \<in> set key_sequences \<Longrightarrow> HasPrefix (fst u) (fst v) \<Longrightarrow> HasPrefix (fst v) (fst u)"
  by (auto simp: key_sequences_def)

lemma escape_token_stable:
  assumes "escape_token a \<noteq> NeedMore" "hd a = esc" "2 \<le> length a"
  shows "escape_token (a @ b) = escape_token a"
proof (cases "find (\<lambda>(raw, key). HasPrefix a raw) key_sequences")
  case (Some x)
  with find_first_stable[OF Some key_sequences_prefix_free, of b] show ?thesis by (simp add: escape_token_def)
next
  case None
  have p': "\<not> list_ex (\<lambda>(raw, key). HasPrefix raw a) key_sequences"
    using assms(1) None by (simp add: escape_token_def split: if_splits)
  have np: "\<not> HasPrefix (fst x) a" if "x \<in> set key_sequences" for x
  proof
    assume "HasPrefix (fst x) a"
    with that have "list_ex (\<lambda>(raw, key). HasPrefix raw a) key_sequences"
      by (auto simp: list_ex_iff intro!: bexI[of _ x] split: prod.splits)
    with p' show False by simp
  qed
  have n: "\<not> HasPrefix (a @ b) (fst x)" if "x \<in> set key_sequences" for x
    using np[OF that] find_NoneD[OF None that] HasPrefix_grow[of a b "fst x"] by (cases x) auto
  then have f: "find (\<lambda>(raw, key). HasPrefix (a @ b) raw) key_sequences = None" by (force simp: find_None_iff)
  have p: "\<not> list_ex (\<lambda>(raw, key). HasPrefix raw (a @ b)) key_sequences"
  proof
    assume "list_ex (\<lambda>(raw, key). HasPrefix raw (a @ b)) key_sequences"
    then obtain x where "x \<in> set key_sequences" "HasPrefix (fst x) (a @ b)" by (auto simp: list_ex_iff)
    then show False using np[of x] by (auto simp: HasPrefix_iff)
  qed
  have "parseExtendedKey (a @ b) = parseExtendedKey a"
  proof (cases "HasPrefix a [esc, CHR ''['']")
    case True
    moreover have "parseExtendedKey a \<noteq> Incomplete" using assms(1) None p' by (auto simp: escape_token_def)
    ultimately show ?thesis by (rule csi_stable[rotated])
  next
    case False
    then have "\<not> HasPrefix (a @ b) [esc, CHR ''['']" using HasPrefix_append_iff[of "[esc, CHR ''['']" a b] assms(3) by simp
    with False show ?thesis by (simp add: parseExtendedKey_def del: HasPrefix.simps)
  qed
  with None f p p' show ?thesis by (simp add: escape_token_def)
qed

lemma next_token_stable:
  assumes a: "a \<noteq> []" "a \<noteq> [esc]" and t: "next_token a \<noteq> NeedMore"
  shows "next_token (a @ b) = next_token a"
proof -
  have s: "\<not> (HasPrefix paste_start a \<and> length a < length paste_start)" using t by (auto simp: next_token_def)
  have s': "\<not> (HasPrefix paste_start (a @ b) \<and> length (a @ b) < length paste_start)"
    using s HasPrefix_grow[of a b] by (auto simp: HasPrefix_iff)
  show ?thesis
  proof (cases "HasPrefix a paste_start")
    case True
    then have len: "6 \<le> length a" using HasPrefix_length[of a paste_start] by (simp add: paste_start_def)
    obtain e where e: "Index (drop 6 a) paste_end = Some e"
      using t s True by (cases "Index (drop 6 a) paste_end") (auto simp: next_token_def)
    have "e \<le> length (drop 6 a)" using Index_bound[OF e] by simp
    then show ?thesis
      using s s' True len e Index_append[OF e, of b] HasPrefix_append_left[OF True, of b] by (simp add: next_token_def)
  next
    case False
    have f: "\<not> HasPrefix (a @ b) paste_start"
    proof
      assume "HasPrefix (a @ b) paste_start"
      then have "HasPrefix paste_start a" using HasPrefix_grow False by blast
      moreover have "\<not> length a < length paste_start" using calculation s by blast
      moreover obtain t where "paste_start = a @ t" using calculation(1) by (auto simp: HasPrefix_iff)
      moreover have "length paste_start = length a + length t" using calculation(3) by (metis length_append)
      ultimately have "a = paste_start" by simp
      then show False using False HasPrefix_append[of paste_start "[]"] by simp
    qed
    have h: "hd (a @ b) = hd a" using a(1) by simp
    have "2 \<le> length a" if "hd a = esc" using that a by (cases a; cases "tl a") auto
    moreover have "escape_token a \<noteq> NeedMore" if "hd a = esc" using that t s False by (auto simp: next_token_def)
    moreover have "rune_token (a @ b) = rune_token a" if "rune_token a \<noteq> NeedMore"
      using that FullRune_append[of a b] by (auto simp: rune_token_def split: if_splits)
    ultimately show ?thesis
      using s s' False f h t escape_token_stable[of a b]
      by (auto simp: next_token_def simp del: HasPrefix.simps split: option.splits if_splits)
  qed
qed

lemma parseInput_append:
  assumes "a = [] \<or> last a \<noteq> esc"
  shows "parseInput (a @ b) = (fst (parseInput a) @ fst (parseInput (snd (parseInput a) @ b)),
           snd (parseInput (snd (parseInput a) @ b)))"
  using assms
proof (induction a rule: parseInput.induct)
  case (1 a)
  show ?case
  proof (cases "a = [] \<or> next_token a = NeedMore")
    case True
    with "1.prems" show ?thesis by (subst (2 4 6) parseInput.simps) auto
  next
    case False
    then have a: "a \<noteq> []" "a \<noteq> [esc]" "next_token a \<noteq> NeedMore" using "1.prems" by auto
    have ab: "a @ b \<noteq> []" "a @ b \<noteq> [esc]" using a by (cases a; auto)+
    have rest: "drop n a = [] \<or> last (drop n a) \<noteq> esc" for n using "1.prems" by (cases "n < length a") (auto simp: last_drop)
    have eq: "next_token (a @ b) = next_token a" by (rule next_token_stable[OF a])
    show ?thesis
    proof (cases "next_token a")
      case (Event ev n)
      then have "n \<le> length a" using next_token_size[OF a(1)] by blast
      moreover have ih: "parseInput (drop n a @ b) = (fst (parseInput (drop n a)) @ fst (parseInput (snd (parseInput (drop n a)) @ b)),
          snd (parseInput (snd (parseInput (drop n a)) @ b)))"
        using "1.IH"(1)[OF a(1,2) Event] rest by blast
      ultimately show ?thesis
        using a(1,2) ab eq Event parseInput.simps[of "a @ b"] parseInput.simps[of a]
        by (simp add: Let_def split: prod.splits)
    next
      case (Skip n)
      then have "n \<le> length a" using next_token_size[OF a(1)] by blast
      moreover have ih: "parseInput (drop n a @ b) = (fst (parseInput (drop n a)) @ fst (parseInput (snd (parseInput (drop n a)) @ b)),
          snd (parseInput (snd (parseInput (drop n a)) @ b)))"
        using "1.IH"(2)[OF a(1,2) Skip] rest by blast
      ultimately show ?thesis
        using a(1,2) ab eq Skip parseInput.simps[of "a @ b"] parseInput.simps[of a] by simp
    qed (use a in simp)
  qed
qed

text \<open>The bytes of successive reads: what is left over is put in front of the next read.\<close>

fun feed :: "string \<Rightarrow> string list \<Rightarrow> inputEvent list \<times> string" where
  "feed pending [] = ([], pending)"
| "feed pending (d # ds) =
     (let (evs, rest) = parseInput (pending @ d); (evs', rest') = feed rest ds in (evs @ evs', rest'))"

lemma feed_parse:
  assumes "\<And>d. d \<in> set ds \<Longrightarrow> d \<noteq> [] \<and> last d \<noteq> esc" "ds \<noteq> []"
  shows "feed p ds = parseInput (p @ concat ds)"
  using assms
proof (induction ds arbitrary: p)
  case (Cons d ds)
  have l: "p @ d = [] \<or> last (p @ d) \<noteq> esc" using Cons.prems(1)[of d] by auto
  show ?case
  proof (cases "ds = []")
    case False
    with Cons have "feed r ds = parseInput (r @ concat ds)" for r by simp
    with parseInput_append[OF l, of "concat ds"] show ?thesis by (simp add: Let_def split: prod.splits)
  qed (simp add: Let_def split: prod.splits)
qed simp

text \<open>
  C29: However the bytes of the terminal are cut into reads, the keys and pastes they decode to and the
  bytes that wait for more are those of the whole input, as long as no read ends in an escape byte.
\<close>

theorem parseInput_chunks:
  assumes "\<forall>d\<in>set reads. d \<noteq> [] \<and> last d \<noteq> esc" "reads \<noteq> []"
  shows "feed [] reads = parseInput (concat reads)"
  using feed_parse[of reads "[]"] assms by simp

theorem parseInput_chunks_witness:
  "feed [] [paste_start @ ''ssh-'', ''rsa'' @ esc # ''[20'', ''1~q''] = ([\<lparr>ev_key = [], ev_paste = ''ssh-rsa''\<rparr>, key_event ''q''], [])"
proof -
  let ?reads = "[paste_start @ ''ssh-'', ''rsa'' @ esc # ''[20'', ''1~q'']"
  have "feed [] ?reads = parseInput (concat ?reads)"
  proof (rule parseInput_chunks)
    show "\<forall>d\<in>set ?reads. d \<noteq> [] \<and> last d \<noteq> esc" by code_simp
  qed simp
  also have "\<dots> = ([\<lparr>ev_key = [], ev_paste = ''ssh-rsa''\<rparr>, key_event ''q''], [])" by code_simp
  finally show ?thesis .
qed

text \<open>
  A read that ends right after the escape byte of a paste's start mark loses the paste: the escape is
  taken for the Escape key, and the mark and the pasted text for keys typed one by one.
\<close>

theorem parseInput_split_paste:
  "feed [] [[esc], ''[200~y'' @ paste_end] = (map key_event [''esc'', ''['', ''2'', ''0'', ''0'', ''~'', ''y'', ''esc'', ''['', ''2'', ''0'', ''1'', ''~''], [])"
  by code_simp

text \<open>
  Decoding ends for every input, takes every byte at most once, and leaves over only a suffix that is not
  yet a whole key or paste: nothing, or bytes the next token cannot be told from.
\<close>

theorem parseInput_rest:
  "(\<exists>used. data = used @ snd (parseInput data)) \<and> (snd (parseInput data) = [] \<or> next_token (snd (parseInput data)) = NeedMore)"
proof (induction data rule: parseInput.induct)
  case (1 data)
  have drop: "\<exists>used. data = used @ r" if "\<exists>used. drop n data = used @ r" for n r
    using that by (metis append.assoc append_take_drop_id)
  show ?case
  proof (cases "next_token data")
    case (Event ev n)
    then show ?thesis
      using "1.IH"(1)[of ev n] drop[of n "snd (parseInput (drop n data))"] parseInput.simps[of data]
      by (auto simp: Let_def split: prod.splits)
  next
    case (Skip n)
    then show ?thesis
      using "1.IH"(2)[of n] drop[of n "snd (parseInput (drop n data))"] parseInput.simps[of data] by auto
  next
    case NeedMore
    then show ?thesis using parseInput.simps[of data] by auto
  qed
qed

end
