(* ===== verification/Tui_View.thy ===== *)
theory Tui_View
  imports Tui_Keys Tui_Input
begin

text \<open>
  \<^verbatim>\<open>internal/tui/menu.go\<close>: drawing the menu. The width of a text on the terminal and cutting a text to a
  width are functions of a third-party package, and the local time of an event depends on the host:
  they are the parameters of \<^verbatim>\<open>terminal\<close>.
\<close>

record terminal =
  StringWidth :: "string \<Rightarrow> int"
  Truncate :: "string \<Rightarrow> int \<Rightarrow> string \<Rightarrow> string"
  LocalTime :: "string \<Rightarrow> string"

section \<open>Text\<close>

definition u :: "nat \<Rightarrow> string" where "u r = EncodeRune r"

definition reset :: string where "reset = esc # ''[0m''"
definition dim :: string where "dim = esc # ''[2m''"
definition cyan :: string where "cyan = esc # ''[36m''"
definition brightCyan :: string where "brightCyan = esc # ''[1;96m''"
definition green :: string where "green = esc # ''[32m''"
definition red :: string where "red = esc # ''[31m''"
definition yellow :: string where "yellow = esc # ''[33m''"

text \<open>\<open>strings.Repeat\<close>; every count below is guarded to be at least zero.\<close>

definition Repeat :: "string \<Rightarrow> int \<Rightarrow> string" where
  "Repeat s n = concat (replicate (nat n) s)"

text \<open>\<open>%-20s\<close> and the like pad to a number of runes.\<close>

definition pad :: "nat \<Rightarrow> string \<Rightarrow> string" where
  "pad n s = s @ replicate (n - length (runes s)) (CHR '' '')"

definition minInt :: "int \<Rightarrow> int \<Rightarrow> int" where "minInt a b = (if a < b then a else b)"
definition maxInt :: "int \<Rightarrow> int \<Rightarrow> int" where "maxInt a b = (if a > b then a else b)"

definition fit :: "terminal \<Rightarrow> string \<Rightarrow> int \<Rightarrow> string" where
  "fit T s width =
     (if width \<le> 0 then []
      else let t = Truncate T s width ellipsis in
           if StringWidth T t < width then t @ Repeat '' '' (width - StringWidth T t) else t)"

fun drop_front :: "terminal \<Rightarrow> int \<Rightarrow> nat list \<Rightarrow> nat list" where
  "drop_front T width [] = []"
| "drop_front T width (r # rs) =
     (if StringWidth T (ellipsis @ of_runes (r # rs)) > width then drop_front T width rs else r # rs)"

definition tailFit :: "terminal \<Rightarrow> string \<Rightarrow> int \<Rightarrow> string" where
  "tailFit T s width =
     (if width \<le> 0 then [] else if StringWidth T s \<le> width then s
      else ellipsis @ of_runes (drop_front T width (runes s)))"

function wrap_runes :: "nat \<Rightarrow> nat list \<Rightarrow> string list" where
  "wrap_runes width rs =
     (if rs = [] \<or> width = 0 then [] else of_runes (take width rs) # wrap_runes width (drop width rs))"
  by pat_completeness auto
termination by (relation "measure (\<lambda>(w, rs). length rs)") auto

declare wrap_runes.simps [simp del]

definition wrapText :: "string \<Rightarrow> int \<Rightarrow> string list" where
  "wrapText s width = (if width < 1 then [s] else wrap_runes (nat width) (runes s))"

definition joinSides :: "terminal \<Rightarrow> string \<Rightarrow> string \<Rightarrow> int \<Rightarrow> string" where
  "joinSides T left right width =
     (let space = width - StringWidth T left - StringWidth T right
      in if space < 1 then fit T (left @ '' '' @ right) width else left @ Repeat '' '' space @ right)"

definition borderTop :: "terminal \<Rightarrow> string \<Rightarrow> int \<Rightarrow> string" where
  "borderTop T label width =
     (let inside = width - 2 in
      if inside < 1 then fit T (u 0x2500) width
      else let middle = u 0x2500 @ '' '' @ Truncate T label (maxInt 1 (inside - 3)) ellipsis @ '' '';
               n = StringWidth T middle
           in dim @ u 0x250C @ (if n < inside then middle @ Repeat (u 0x2500) (inside - n) else middle) @ u 0x2510 @ reset)"

definition borderBottom :: "int \<Rightarrow> string" where
  "borderBottom width = (if width < 2 then Repeat (u 0x2500) width
     else dim @ u 0x2514 @ Repeat (u 0x2500) (width - 2) @ u 0x2518 @ reset)"

text \<open>The rows in view; Go's division rounds towards zero.\<close>

definition visibleRange :: "int \<Rightarrow> int \<Rightarrow> int \<Rightarrow> int \<times> int" where
  "visibleRange cursor tot height0 =
     (if tot \<le> 0 then (0, 0)
      else let height = (if height0 < 1 then 1 else height0);
               page = (if cursor \<ge> 0 then cursor div height else - ((- cursor) div height));
               start0 = page * height;
               start = (if start0 + height > tot then (if tot - height < 0 then 0 else tot - height) else start0)
           in (start, if start + height > tot then tot else start + height))"

section \<open>The lists\<close>

definition identity_row :: "Model \<Rightarrow> SSHIdentity \<Rightarrow> string" where
  "identity_row m i =
     (let keyType = (case Fields (Identity_PublicKey i) of
            [] \<Rightarrow> ''SSH''
          | a # _ \<Rightarrow> (let up = ToUpper a in if HasPrefix up ''SSH-'' then drop 4 up else up));
          uses = length (filter (\<lambda>t. Target_IdentityID t = Some (Identity_ID i)) (m_targets m))
      in ''  '' @ pad 20 (Identity_Name i) @ ''  '' @ pad 11 keyType @ ''  '' @ itoa (int uses) @ '' target(s)  '' @ Identity_Fingerprint i)"

definition user_row_text :: "Model \<Rightarrow> User \<Rightarrow> string" where
  "user_row_text m v =
     (let state = (if User_Enabled v then ''ENABLED'' else ''DISABLED'');
          mfa = (if User_TOTPEnabled v then ''TOTP ON'' else ''TOTP OFF'');
          oidc = (case oidcIdentityForUser m (User_ID v) of
            None \<Rightarrow> ''OIDC OFF'' | Some i \<Rightarrow> if OIDC_Subject i \<noteq> [] then ''OIDC LINKED'' else ''OIDC PENDING'')
      in ''  '' @ pad 18 (User_Username v) @ ''  '' @ pad 7 (ToUpper (User_Role v)) @ ''  '' @ pad 8 mfa @ ''  '' @ pad 12 oidc @ ''  '' @ state)"

definition group_row :: "Model \<Rightarrow> Group \<Rightarrow> string" where
  "group_row m g = ''  '' @ pad 28 (Group_Name g) @ ''  ''
     @ itoa (int (length (filter (\<lambda>x. Member_Group x = Group_Name g) (m_groupMembers m)))) @ '' member(s)''"

definition grant_row_text :: "Grant \<Rightarrow> string" where
  "grant_row_text g = ''  '' @ pad 18 (Grant_Target g) @ ''  '' @ pad 7 (ToUpper (Grant_Kind g)) @ ''  '' @ pad 16 (Grant_Principal g)
     @ ''  '' @ join '','' ((if Grant_Shell g then [''shell''] else []) @ (if Grant_SFTP g then [''sftp''] else [])
        @ (if Grant_SCP g then [''scp''] else []) @ (if Grant_TCPForward g then [''tcp''] else []))"

definition rule_row_text :: "ForwardRule \<Rightarrow> string" where
  "rule_row_text r = ''  '' @ pad 22 (Rule_Target r) @ ''  '' @ Rule_Host r @ '':'' @ itoa (Rule_Port r)"

definition audit_row :: "terminal \<Rightarrow> AuditEvent \<Rightarrow> string" where
  "audit_row T e = ''  '' @ LocalTime T (Audit_At e) @ ''  '' @ pad 25 (Audit_EventType e) @ ''  '' @ pad 7 (ToUpper (Audit_Outcome e))
     @ ''  '' @ (if Audit_ClaimedUsername e = [] then ''system'' else Audit_ClaimedUsername e)"

definition target_row :: "Target \<Rightarrow> string" where
  "target_row t = ''  '' @ pad 20 (Target_Name t) @ ''  '' @ pad 15 (Target_CredentialKind t) @ ''  '' @ Target_RemoteUsername t
     @ ''@'' @ Target_Host t @ '':'' @ itoa (Target_Port t) @ (if Target_Enabled t then [] else red @ ''  DISABLED'' @ reset)"

definition search_prompt :: "Model \<Rightarrow> string" where
  "search_prompt m = (if m_searching m then yellow @ ''  Search: '' @ reset @ m_query m @ u 0x258F
     else if m_query m \<noteq> [] then ''  Filter: '' @ m_query m @ dim @ ''  '' @ u 0x2022 @ '' Esc clears'' @ reset
     else ''  / Search profiles'')"

type_synonym page = "string \<times> string \<times> string list"

definition list_content :: "terminal \<Rightarrow> Model \<Rightarrow> page" where
  "list_content T m =
     (let sect = m_section m; note = (\<lambda>text. dim @ ''  '' @ text @ reset) in
      if sect = ''keys'' then (''SSH keys'', note ''Encrypted reusable downstream identities'', map (identity_row m) (m_identities m))
      else if sect = ''users'' then (''Users'', note ''Gateway identities and roles'', map (user_row_text m) (m_users m))
      else if sect = ''groups'' then (''Groups'', note ''Access-control groups'', map (group_row m) (m_groups m))
      else if sect = ''grants'' then (''Grants'', note (''Target '' @ u 0x2192 @ '' principal protocol capabilities''),
        map grant_row_text (m_grants m))
      else if sect = ''forwards'' then (''TCP forwarding'', note ''Exact destinations reachable through selected targets'',
        map rule_row_text (m_forwardRules m))
      else if sect = ''audit'' then (''Recent audit events'', note (''Newest first '' @ u 0x2022 @ '' metadata only''),
        map (audit_row T) (m_auditEvents m))
      else (''Connection profiles'', search_prompt m, map target_row (filtered m)))"

section \<open>The modals\<close>

definition captured :: "Model \<Rightarrow> int \<Rightarrow> string \<Rightarrow> string" where
  "captured m most unit = ''  '' @ Repeat (u 0x2022) (minInt (int (length (m_input m))) most) @ ''  ''
     @ itoa (int (length (m_input m))) @ '' '' @ unit @ '' captured''"

definition bytes_captured :: "string \<Rightarrow> Model \<Rightarrow> string" where
  "bytes_captured what m = ''  '' @ what @ '' captured: '' @ itoa (int (length (m_input m))) @ '' bytes''"

definition help_rows :: "string list" where
  "help_rows = [''  '' @ u 0x2191 @ ''/'' @ u 0x2193 @ '' or j/k     Move selection'', ''  Enter          Connect/manage selected item'',
     ''  a              Add item in current section'', ''  m              Manage selected item'',
     ''  o              Link my OIDC account (key login)'', ''  Tab            Move through form fields'',
     ''  '' @ u 0x2190 @ ''/'' @ u 0x2192 @ ''            Change option or section'', ''  /              Search targets'',
     ''  1'' @ u 0x2013 @ ''7            Change admin section'', ''  r              Refresh data'',
     ''  q              Disconnect from SSHGateW'']"

definition form_row :: "terminal \<Rightarrow> int \<Rightarrow> adminForm \<Rightarrow> int \<Rightarrow> formField \<Rightarrow> string" where
  "form_row T inner f i x =
     (let value = (if f_options x \<noteq> [] then u 0x2039 @ '' '' @ f_value x @ '' '' @ u 0x203A
                   else if i = form_index f then f_value x @ u 0x258F else f_value x)
      in (if i = form_index f then brightCyan @ u 0x203A @ '' '' @ reset else ''  '')
         @ pad 18 (f_label x) @ ''  '' @ tailFit T value (maxInt (inner - 24) 8))"

fun map_index :: "(int \<Rightarrow> 'a \<Rightarrow> 'b) \<Rightarrow> int \<Rightarrow> 'a list \<Rightarrow> 'b list" where
  "map_index f i [] = []"
| "map_index f i (x # xs) = f i x # map_index f (i + 1) xs"

definition form_content :: "terminal \<Rightarrow> int \<Rightarrow> Model \<Rightarrow> page" where
  "form_content T inner m =
     (case m_form m of
        None \<Rightarrow> (''Form'', ''  Esc cancels'', [])
      | Some f \<Rightarrow> (form_title f, ''  Fill in each field; values are validated before saving'',
          map_index (form_row T inner f) 0 (form_fields f)
          @ [[], green @ ''  Enter  Next / save'' @ reset @ dim @ ''   '' @ u 0x2022 @ ''   Tab  Next field   '' @ u 0x2022 @ ''   ''
              @ u 0x2190 @ ''/'' @ u 0x2192 @ ''  Change option'' @ reset]))"

definition action_content :: "Model \<Rightarrow> page option" where
  "action_content m = do {
     (title, hint) \<leftarrow>
       (if m_mode m = ''user_keys'' then do { p \<leftarrow> m_pending m; Some (''SSH keys for '' @ p_username p,
            ''  Add another key or select an existing key to remove '' @ u 0x2022 @ '' Esc returns'') }
        else Some (if m_mode m = ''member_add'' then ''Add group member'' else if m_mode m = ''member_remove''
            then ''Remove group member'' else ''Choose action'', ''  Enter selects '' @ u 0x2022 @ '' Esc returns''));
     Some (title, hint, map_index (\<lambda>i a. (if i = m_actionCursor m then brightCyan @ u 0x203A @ '' '' @ reset else ''  '') @ a_label a)
       0 (m_actions m)) }"

definition removal_name :: "Model \<Rightarrow> string" where
  "removal_name m =
     (case m_pending m of
        None \<Rightarrow> ''selected item''
      | Some p \<Rightarrow>
          if p_kind p = ''user_key_remove'' then ''SSH key '' @ p_keyFingerprint p @ '' for '' @ p_username p
          else if p_kind p = ''target_delete'' then ''target '' @ Target_Name (p_target p)
          else if p_kind p = ''user_delete'' then ''user '' @ p_username p
          else if p_kind p = ''group_delete'' then ''group '' @ p_group p
          else if p_kind p = ''grant_delete'' then ''grant for '' @ Grant_Target (p_grant p)
          else if p_kind p = ''identity_delete'' then ''SSH key '' @ Identity_Name (p_identity p)
          else if p_kind p = ''user_totp_remove'' then ''TOTP for user '' @ p_username p
          else if p_kind p = ''user_oidc_remove'' then ''OIDC mapping for user '' @ p_username p
          else ''selected item'')"

definition identity_content :: "int \<Rightarrow> Model \<Rightarrow> page" where
  "identity_content inner m =
     (case m_pending m of
        None \<Rightarrow> (''SSH public key'', ''  Press any key to return'', [])
      | Some p \<Rightarrow> (''SSH public key'', ''  Safe to copy to the downstream server'',
          [''  Name         '' @ Identity_Name (p_identity p), ''  Fingerprint  '' @ Identity_Fingerprint (p_identity p), [],
           ''  Public key:''] @ wrapText (''  '' @ Identity_PublicKey (p_identity p)) (maxInt (inner - 2) 16)))"

definition host_content :: "ssh_lib \<Rightarrow> Model \<Rightarrow> page" where
  "host_content L m =
     (let hk = Option.bind (m_pending m) p_hostKey;
          fingerprint = (case hk of Some k \<Rightarrow> FingerprintSHA256 L k | None \<Rightarrow> ''Unavailable'');
          algorithm = (case hk of Some k \<Rightarrow> key_Type k | None \<Rightarrow> [])
      in (''Confirm downstream host key'', yellow @ ''  Verify this fingerprint out-of-band'' @ reset,
          [''  Algorithm    '' @ algorithm, ''  Fingerprint  '' @ fingerprint, [],
           green @ ''  y  Accept and continue'' @ reset, red @ ''  n  Reject'' @ reset]))"

definition totp_content :: "int \<Rightarrow> Model \<Rightarrow> page" where
  "totp_content inner m =
     (let (secret, uri) = (case m_pending m of Some p \<Rightarrow> (p_totpSecret p, p_totpURI p) | None \<Rightarrow> ([], []))
      in (''Confirm TOTP enrollment'', ''  Enter the current six-digit authenticator code'',
          [''  Manual secret  '' @ secret, [], ''  Setup URI:''] @ wrapText (''  '' @ uri) (maxInt (inner - 2) 16)
          @ [[], captured m 6 ''digits'', [], green @ ''  Enter  Verify and enable'' @ reset]))"

definition link_content :: "int \<Rightarrow> Model \<Rightarrow> page" where
  "link_content inner m =
     (let l = m_oidcLogin m in
      (''Link OIDC account'', ''  The signed provider identity will be bound to '' @ User_Username (m_user m),
       [''  Open          '' @ VerificationURI l, ''  Enter code    '' @ UserCode l]
       @ (if VerificationURIComplete l \<noteq> []
          then [[], ''  Direct link:''] @ wrapText (''  '' @ VerificationURIComplete l) (maxInt (inner - 2) 16) else [])
       @ [[], green @ ''  Enter  Finish linking after browser approval'' @ reset]))"

definition secret_page :: "string \<Rightarrow> string \<Rightarrow> string \<Rightarrow> string \<Rightarrow> string \<Rightarrow> page" where
  "secret_page title hint shown save cancel = (title, hint, [[], shown, [], green @ save @ reset, dim @ cancel @ reset])"

definition modalContent :: "terminal \<Rightarrow> ssh_lib \<Rightarrow> int \<Rightarrow> Model \<Rightarrow> page option" where
  "modalContent T L inner m =
     (let mode = m_mode m; hidden = ''  Contents are never rendered or logged''; dot = u 0x2022; wait = u 0x25CC in
      if mode = ''help'' then Some (''Keyboard help'', ''  Press any key to return'', help_rows)
      else if mode = ''form'' then Some (form_content T inner m)
      else if mode \<in> set action_modes then action_content m
      else if mode = ''confirm_delete'' then Some (''Confirm removal'', red @ ''  This change takes effect immediately'' @ reset,
        [[], ''  Remove '' @ removal_name m @ ''?'', [], red @ ''  y  Remove'' @ reset, dim @ ''  n  Keep it'' @ reset])
      else if mode = ''public_key'' then Some (secret_page ''Add SSH public key'' ''  Paste one OpenSSH public key''
        (bytes_captured ''Public key'' m) ''  Enter   Validate and save'' (''  Ctrl+D  Also saves '' @ dot @ '' Esc cancels''))
      else if mode = ''identity_public'' then Some (identity_content inner m)
      else if mode = ''agent_key'' then Some (secret_page ''Forwarded-agent identity''
        ''  This public key pins the only agent identity SSHGateW may use'' (bytes_captured ''Public key'' m)
        ''  Enter   Validate and save'' (''  No private key is stored '' @ dot @ '' Connect with ssh -A''))
      else if mode = ''confirm_host'' then Some (host_content L m)
      else if mode = ''scanning'' then Some (''Scanning host key'', ''  Connecting to the downstream SSH server'' @ ellipsis,
        [[], cyan @ ''  '' @ wait @ '' Waiting for host-key exchange'' @ reset, [], dim @ ''  Esc cancels this workflow'' @ reset])
      else if mode = ''secret_password'' then Some (secret_page ''Secure password input'' hidden
        (captured m 24 ''bytes'') ''  Enter  Save credential'' ''  Esc    Cancel'')
      else if mode = ''secret_key'' then Some (secret_page ''Secure private-key input'' ''  Paste the key, then press Ctrl+D''
        (bytes_captured ''Private key'' m) ''  Ctrl+D  Validate and save'' ''  Esc     Cancel'')
      else if mode = ''secret_passphrase'' then Some (secret_page ''Private-key passphrase'' hidden
        (captured m 24 ''bytes'') ''  Enter  Unlock and save'' ''  Esc    Cancel'')
      else if mode = ''totp_confirm'' then Some (totp_content inner m)
      else if mode = ''totp_auth'' then Some (secret_page ''Two-factor authentication''
        (''  Public key accepted '' @ dot @ '' TOTP required'') (captured m 6 ''digits'') ''  Enter  Verify'' ''  Esc    Disconnect'')
      else if mode = ''oidc_start'' then Some (''Link OIDC account'', ''  Requesting a device authorization code'' @ ellipsis,
        [[], cyan @ ''  '' @ wait @ '' Contacting the configured identity provider'' @ reset])
      else if mode = ''oidc_link'' then Some (link_content inner m)
      else if mode = ''oidc_complete'' then Some (''Link OIDC account'',
        ''  Verifying the signed identity and saving its stable subject'' @ ellipsis,
        [[], cyan @ ''  '' @ wait @ '' Waiting for authorization'' @ reset])
      else Some (''Working'', ''  Please wait'' @ ellipsis, []))"

definition content :: "terminal \<Rightarrow> ssh_lib \<Rightarrow> int \<Rightarrow> Model \<Rightarrow> page option" where
  "content T L inner m = (if m_mode m \<noteq> [] then modalContent T L inner m else Some (list_content T m))"

section \<open>The frame\<close>

definition statusLine :: "terminal \<Rightarrow> Model \<Rightarrow> int \<Rightarrow> string" where
  "statusLine T m w =
     (if m_status m = [] then fit T (dim @ ''  '' @ u 0x25CF @ '' Ready'' @ reset) w
      else let lower = ToLower (m_status m);
               color = (if Contains lower ''fail'' \<or> Contains lower ''error'' \<or> Contains lower ''denied'' \<or> Contains lower ''invalid''
                        then red else if Contains lower ''cancel'' \<or> Contains lower ''verify'' then yellow else green)
           in fit T (''  '' @ color @ u 0x25CF @ '' '' @ reset @ m_status m) w)"

text \<open>The entries of the footer are set apart by bullets.\<close>

definition bullets :: "string list \<Rightarrow> string" where
  "bullets entries = dim @ ''  '' @ join (''  '' @ u 0x2022 @ ''  '') entries @ reset"

definition footer :: "Model \<Rightarrow> string" where
  "footer m =
     (let tabs = u 0x2190 @ u 0x2192 @ '' tabs''; arrows = u 0x2191 @ u 0x2193 @ '' navigate''; sect = m_section m in
      if m_mode m = ''help'' then bullets [''Any key  close help'']
      else if m_mode m \<noteq> [] then bullets [''Esc  cancel'']
      else if m_searching m then bullets [''Type to filter'', ''Enter apply'', ''Esc clear'']
      else bullets
       (if is_admin m then
          (if sect = ''targets'' then [''Enter connect'', ''a add'', ''m manage'', ''/ search'', tabs, ''? help'']
           else if sect = ''keys'' then [''Enter/m manage'', ''a add or generate'', tabs, ''? help'', ''q quit'']
           else if sect = ''users'' \<or> sect = ''groups'' then [''Enter/m manage'', ''a add'', tabs, ''? help'', ''q quit'']
           else if sect = ''grants'' then [''Enter/m manage'', ''a grant access'', tabs, ''? help'', ''q quit'']
           else if sect = ''forwards'' then [''a allow destination'', ''Enter/m manage'', tabs, ''? help'', ''q quit'']
           else [arrows, tabs, ''r refresh'', ''? help'', ''q quit''])
        else if m_canSelfLinkOIDC m \<and> m_oidc m then [''Enter connect'', ''o link OIDC'', ''/ search'', ''? help'', ''q quit'']
        else [arrows, ''Enter connect'', ''/ search'', ''? help'', ''q quit'']))"

definition tabLine :: "terminal \<Rightarrow> Model \<Rightarrow> int \<Rightarrow> string" where
  "tabLine T m w =
     (if \<not> is_admin m then fit T ''  CONNECTION PROFILES'' w
      else fit T ('' '' @ join ''  '' (map_index (\<lambda>i name.
          (if m_section m = name then brightCyan else dim) @ ''['' @ itoa i @ ''] '' @ ToUpper name @ reset) 1 section_names)) w)"

definition compactView :: "terminal \<Rightarrow> Model \<Rightarrow> int \<Rightarrow> int \<Rightarrow> string list" where
  "compactView T m w0 h0 =
     (let w = (if w0 < 1 then 1 else w0); h = (if h0 < 1 then 1 else h0)
      in take (nat h) [fit T (brightCyan @ ''SSHGateW'' @ reset) w,
           fit T (User_Username (m_user m) @ '' '' @ u 0x2022 @ '' '' @ ToUpper (User_Role (m_user m))) w,
           fit T ''Terminal too small'' w, fit T (''Resize to at least 20'' @ u 0xD7 @ ''8'') w])"

definition totpEnrollmentView :: "terminal \<Rightarrow> Model \<Rightarrow> int \<Rightarrow> int \<Rightarrow> string list" where
  "totpEnrollmentView T m w h =
     (let qr = (case m_pending m of None \<Rightarrow> [] | Some p \<Rightarrow> map (\<lambda>line.
            fit T (Repeat '' '' (maxInt ((w - StringWidth T line) div 2) 0) @ esc # ''[47;30m'' @ line @ reset) w) (p_totpQR p));
          top_lines = fit T (brightCyan @ '' SSHGateW '' @ u 0x2022 @ '' TOTP enrollment '' @ reset) w # qr
      in take (nat h) (top_lines @ replicate (nat (h - 1) - length top_lines) (Repeat '' '' w)
           @ [fit T (dim @ ''  Scan QR  '' @ u 0x2022 @ ''  Enter continue  '' @ u 0x2022 @ ''  Esc cancel'' @ reset) w]))"

definition row_cursor :: "Model \<Rightarrow> int" where
  "row_cursor m = (if m_mode m \<in> set action_modes then m_actionCursor m else m_cursor m)"

definition frame_line :: "string \<Rightarrow> string" where
  "frame_line row = dim @ u 0x2502 @ reset @ row @ dim @ u 0x2502 @ reset"

fun rows_between :: "string list \<Rightarrow> int \<Rightarrow> nat \<Rightarrow> string list option" where
  "rows_between rows i 0 = Some []"
| "rows_between rows i (Suc n) = do { r \<leftarrow> at rows i; rs \<leftarrow> rows_between rows (i + 1) n; Some (r # rs) }"

definition frame_rows :: "terminal \<Rightarrow> Model \<Rightarrow> int \<Rightarrow> int \<Rightarrow> string list \<Rightarrow> int \<Rightarrow> int \<Rightarrow> string list option" where
  "frame_rows T m inner lastRow rows start end = do {
     shown \<leftarrow> rows_between rows start (nat (end - start));
     Some (map_index (\<lambda>i row. frame_line ('' '' @ (if m_mode m = [] \<and> lastRow > 0 \<and> i = m_cursor m
         then brightCyan @ fit T row inner @ reset else fit T row inner) @ '' '')) start shown) }"

definition head_lines :: "terminal \<Rightarrow> Model \<Rightarrow> int \<Rightarrow> string \<Rightarrow> string \<Rightarrow> string list" where
  "head_lines T m w hint label = [joinSides T (brightCyan @ '' SSHGateW '' @ reset)
       (dim @ User_Username (m_user m) @ '' '' @ u 0x2022 @ '' '' @ ToUpper (User_Role (m_user m)) @ reset) w,
     tabLine T m w, dim @ Repeat (u 0x2500) w @ reset, fit T hint w, borderTop T label w]"

definition empty_row :: "Model \<Rightarrow> string" where
  "empty_row m = dim @ (if m_section m = ''forwards'' \<and> m_mode m = [] then ''Press a to allow a destination.''
     else ''Nothing to show here yet.'') @ reset"

definition frame_label :: "Model \<Rightarrow> string \<Rightarrow> int \<Rightarrow> int \<Rightarrow> int \<Rightarrow> string" where
  "frame_label m title n start end = (if n > 0 \<and> m_mode m = []
     then title @ ''  '' @ itoa (start + 1) @ u 0x2013 @ itoa end @ '' of '' @ itoa n else title)"

definition fill_frame :: "terminal \<Rightarrow> Model \<Rightarrow> int \<Rightarrow> int \<Rightarrow> string list \<Rightarrow> string list" where
  "fill_frame T m w h lines = take (nat h) (lines @ replicate (nat (h - 3) - length lines) (frame_line (Repeat '' '' (w - 2)))
     @ [borderBottom w, statusLine T m w, fit T (footer m) w])"

definition mainView :: "terminal \<Rightarrow> ssh_lib \<Rightarrow> Model \<Rightarrow> int \<Rightarrow> int \<Rightarrow> string list option" where
  "mainView T L m w h = do {
     (title, hint, rows) \<leftarrow> content T L (w - 4) m;
     (let n = int (length rows); (start, end) = visibleRange (row_cursor m) n (if h - 8 < 1 then 1 else h - 8) in do {
        shown \<leftarrow> (if rows = [] then frame_rows T m (w - 4) n [empty_row m] 0 1 else frame_rows T m (w - 4) n rows start end);
        Some (fill_frame T m w h (head_lines T m w hint (frame_label m title n start end) @ shown)) }) }"

definition View_lines :: "terminal \<Rightarrow> ssh_lib \<Rightarrow> Model \<Rightarrow> string list option" where
  "View_lines T L m =
     (let w0 = (if m_width m \<le> 0 then 80 else m_width m); h0 = (if m_height m \<le> 0 then 24 else m_height m);
          w = (if w0 > 1 then w0 - 1 else w0); h = (if h0 > 1 then h0 - 1 else h0)
      in if w < 20 \<or> h < 8 then Some (compactView T m w h)
         else if m_mode m = ''totp_enroll'' then Some (totpEnrollmentView T m w h)
         else mainView T L m w h)"

definition View :: "terminal \<Rightarrow> ssh_lib \<Rightarrow> Model \<Rightarrow> string option" where
  "View T L m = map_option (join [chr 10]) (View_lines T L m)"

end
