(* ===== verification/Tui_Remote.thy ===== *)
theory Tui_Remote
  imports Tui_View
begin

text \<open>
  \<^verbatim>\<open>internal/tui/remote.go\<close>: \<open>RunRemote\<close>, which runs a menu on a terminal. The outside is given as a function: before
  the \<open>k\<close>-th key other sessions have run the store operations \<open>snd (out k)\<close>, and while it is processed
  everything the menu asks is answered by \<open>fst (out k)\<close>. \<open>None\<close> is a panic or a loop that does not end.
\<close>

definition enterScreen :: string where
  "enterScreen = esc # ''[?1049h'' @ esc # ''[?25l'' @ esc # ''[?2004h'' @ esc # ''[H'' @ esc # ''[2J''"

definition leaveScreen :: string where
  "leaveScreen = esc # ''[?2004l'' @ esc # ''[?25h'' @ esc # ''[?1049l''"

datatype run_status = Running | Returned Result | Failed go_error

text \<open>What is written, and the results of the writes to come (they succeed when none is given).\<close>

record remote =
  r_model :: Model
  r_store :: db
  r_pending :: string
  r_count :: nat
  r_written :: "string list"
  r_writes :: "unit res list"
  r_status :: run_status

type_synonym outside = "nat \<Rightarrow> menu_env \<times> store_op list"

definition write_text :: "string \<Rightarrow> remote \<Rightarrow> remote" where
  "write_text v st =
     (case r_writes st of
        [] \<Rightarrow> st\<lparr>r_written := r_written st @ [v]\<rparr>
      | Inr _ # ws \<Rightarrow> st\<lparr>r_written := r_written st @ [v], r_writes := ws\<rparr>
      | Inl e # ws \<Rightarrow> st\<lparr>r_writes := ws, r_status := Failed e\<rparr>)"

definition render :: "terminal \<Rightarrow> ssh_lib \<Rightarrow> remote \<Rightarrow> remote option" where
  "render T L st = do {
     v \<leftarrow> View T L (r_model st);
     Some (write_text (esc # ''[?2026h'' @ esc # ''[H'' @ v @ esc # ''[J'' @ esc # ''[?2026l'') st) }"

definition finish_if_done :: "remote \<Rightarrow> remote" where
  "finish_if_done st = (case m_result (r_model st) of Some r \<Rightarrow> st\<lparr>r_status := Returned r\<rparr> | None \<Rightarrow> st)"

text \<open>One key or paste.\<close>

definition run_event :: "terminal \<Rightarrow> ssh_lib \<Rightarrow> outside \<Rightarrow> inputEvent \<Rightarrow> remote \<Rightarrow> remote option" where
  "run_event T L out ev st =
     (let E = fst (out (r_count st)); s = foldl exec (r_store st) (snd (out (r_count st))) in do {
        ((m, c), s') \<leftarrow> (if ev_paste ev \<noteq> [] then Update E (r_model st) (PasteMsg (ev_paste ev)) s
                      else handleKey E s (r_model st) (ev_key ev));
        (let st1 = st\<lparr>r_model := m, r_store := s', r_count := r_count st + 1\<rparr> in
         if m_result m \<noteq> None then Some (finish_if_done st1)
         else (case c of
           None \<Rightarrow> render T L st1
         | Some _ \<Rightarrow> do {
             st2 \<leftarrow> render T L st1;
             if r_status st2 \<noteq> Running then Some st2
             else do {
               (m', s'') \<leftarrow> applyCommand E m c s';
               st3 \<leftarrow> render T L (st2\<lparr>r_model := m', r_store := s''\<rparr>);
               Some (if r_status st3 \<noteq> Running then st3 else finish_if_done st3) } })) })"

fun run_events :: "terminal \<Rightarrow> ssh_lib \<Rightarrow> outside \<Rightarrow> inputEvent list \<Rightarrow> remote \<Rightarrow> remote option" where
  "run_events T L out [] st = Some st"
| "run_events T L out (ev # evs) st =
     (if r_status st \<noteq> Running then Some st
      else do { st' \<leftarrow> run_event T L out ev st; run_events T L out evs st' })"

text \<open>What the loop's \<open>select\<close> receives: the end of the session, a window size, or the result of a read.\<close>

datatype remote_event = Cancelled go_error | WindowsClosed | Window int int | ReadDone string "go_error option"

definition EOF :: go_error where "EOF = Err ''EOF''"

definition read_end :: "go_error option \<Rightarrow> remote \<Rightarrow> remote" where
  "read_end err st =
     (if r_status st \<noteq> Running then st
      else case err of
        None \<Rightarrow> st
      | Some e \<Rightarrow> st\<lparr>r_status := (if e = EOF then Returned quit_result else Failed e)\<rparr>)"

definition remote_step :: "terminal \<Rightarrow> ssh_lib \<Rightarrow> outside \<Rightarrow> remote \<Rightarrow> remote_event \<Rightarrow> remote option" where
  "remote_step T L out st e =
     (if r_status st \<noteq> Running then Some st
      else case e of
        Cancelled err \<Rightarrow> Some (st\<lparr>r_status := Failed err\<rparr>)
      | WindowsClosed \<Rightarrow> Some st
      | Window w h \<Rightarrow>
          if w = m_width (r_model st) \<and> h = m_height (r_model st) then Some st
          else render T L (st\<lparr>r_model := (r_model st)\<lparr>m_width := w, m_height := h\<rparr>\<rparr>)
      | ReadDone data err \<Rightarrow>
          if data = [] then Some (read_end err st)
          else (let (evs, rest) = parseInput (r_pending st @ data) in do {
            st' \<leftarrow> run_events T L out evs (st\<lparr>r_pending := rest\<rparr>);
            Some (read_end err st') }))"

fun remote_loop :: "terminal \<Rightarrow> ssh_lib \<Rightarrow> outside \<Rightarrow> remote_event list \<Rightarrow> remote \<Rightarrow> remote option" where
  "remote_loop T L out [] st = Some st"
| "remote_loop T L out (e # es) st = do { st' \<leftarrow> remote_step T L out st e; remote_loop T L out es st' }"

text \<open>
  The whole run on a list of received events; it is still running when they end without an end of the
  session. \<open>E\<close> and \<open>s\<close> are the outside and the store when the menu is opened.
\<close>

definition open_screen :: "menu_env \<Rightarrow> int \<Rightarrow> int \<Rightarrow> Model \<Rightarrow> db \<Rightarrow> unit res list \<Rightarrow> remote option" where
  "open_screen E width height m0 s writes =
     (let m = m0\<lparr>m_width := width, m_height := height\<rparr> in do {
        (m', s') \<leftarrow> (if m_mode m \<noteq> ''totp_auth'' then applyMessage E m ReloadMsg s else Some (m, s));
        Some (write_text enterScreen \<lparr>r_model = m', r_store = s', r_pending = [], r_count = 0, r_written = [],
          r_writes = writes, r_status = Running\<rparr>) })"

definition RunRemote :: "terminal \<Rightarrow> ssh_lib \<Rightarrow> outside \<Rightarrow> menu_env \<Rightarrow> int \<Rightarrow> int \<Rightarrow> Model \<Rightarrow> db \<Rightarrow> unit res list
    \<Rightarrow> remote_event list \<Rightarrow> remote option" where
  "RunRemote T L out E width height m s writes events = do {
     st0 \<leftarrow> open_screen E width height m s writes;
     if r_status st0 \<noteq> Running then Some st0
     else do {
       st1 \<leftarrow> render T L st0;
       st2 \<leftarrow> (if r_status st1 \<noteq> Running then Some st1 else remote_loop T L out events st1);
       Some (if r_status st2 \<noteq> Running then st2\<lparr>r_written := r_written st2 @ [leaveScreen]\<rparr> else st2) } }"

end
