(* ===== verification/Tui_Colon.thy ===== *)
theory Tui_Colon
  imports Tui_Commands
begin

text \<open>
  \<^verbatim>\<open>internal/tui/menu.go\<close>: \<open>runCommand\<close>, the line syntax of the administrative operations. One
  definition per first word; \<open>None\<close> where the Go code goes on to the message for an invalid command.
\<close>

definition colon_user :: "Model \<Rightarrow> string list \<Rightarrow> (Model \<times> cmd option) option" where
  "colon_user m f =
     (let user = (''username'', JStr (f ! 2)); did = (\<lambda>c. Some (m, Some c)) in
      if length f < 3 then None
      else if f ! 1 = ''add'' then
        (let role = (if length f > 3 then f ! 3 else RoleMember) in
         did (mutate m [] ''User added.'' ''admin.user.add'' [user, (''role'', JStr role)] (\<lambda>s. AddUser s (f ! 2) role)))
      else if f ! 1 = ''delete'' then
        did (mutate m [] ''User deleted.'' ''admin.user.delete'' [user] (\<lambda>s. DeleteUser s (f ! 2)))
      else if f ! 1 = ''enable'' \<or> f ! 1 = ''disable'' then
        did (mutate m [] ''User updated.'' (''admin.user.'' @ f ! 1) [user] (\<lambda>s. SetUserEnabled s (f ! 2) (f ! 1 = ''enable'')))
      else if f ! 1 = ''role'' \<and> length f = 4 then
        did (mutate m [] ''Role updated.'' ''admin.user.role'' [user, (''role'', JStr (f ! 3))] (\<lambda>s. SetUserRole s (f ! 2) (f ! 3)))
      else None)"

definition colon_key :: "menu_env \<Rightarrow> Model \<Rightarrow> string list \<Rightarrow> (Model \<times> cmd option) option" where
  "colon_key E m f =
     (let user = (''username'', JStr (f ! 2)) in
      if length f \<ge> 4 \<and> f ! 1 = ''remove'' then
        Some (m, Some (mutate m [] ''Gateway key removed.'' ''admin.gateway_key.remove'' [user, (''fingerprint'', JStr (f ! 3))]
          (\<lambda>s. RemoveGatewayKey s (f ! 2) (f ! 3))))
      else if length f \<ge> 5 \<and> f ! 1 = ''add'' then
        (case ParseAuthorizedKey (e_ssh E) (join '' '' (drop 3 f)) of
           Inl e \<Rightarrow> Some (m\<lparr>m_status := ''Invalid public key: '' @ err_text e\<rparr>, None)
         | Inr (k, _) \<Rightarrow>
             let fp = FingerprintSHA256 (e_ssh E) k in
             Some (m, Some (mutate m [] ''Gateway key added.'' ''admin.gateway_key.add'' [user, (''fingerprint'', JStr fp)]
               (\<lambda>s. AddGatewayKey s (f ! 2) fp (canonical_key E k) []))))
      else None)"

definition colon_group :: "Model \<Rightarrow> string list \<Rightarrow> (Model \<times> cmd option) option" where
  "colon_group m f =
     (if length f = 3 \<and> (f ! 1 = ''add'' \<or> f ! 1 = ''delete'') then
        Some (m, Some (mutate m [] ''Group updated.'' (''admin.group.'' @ f ! 1) [(''group'', JStr (f ! 2))]
          (\<lambda>s. if f ! 1 = ''add'' then AddGroup s (f ! 2) else DeleteGroup s (f ! 2))))
      else None)"

definition colon_member :: "Model \<Rightarrow> string list \<Rightarrow> (Model \<times> cmd option) option" where
  "colon_member m f =
     (if length f = 4 \<and> (f ! 1 = ''add'' \<or> f ! 1 = ''remove'') then
        Some (m, Some (mutate m [] ''Membership updated.'' (''admin.group.member.'' @ f ! 1)
          [(''group'', JStr (f ! 2)), (''username'', JStr (f ! 3))] (\<lambda>s. SetGroupMember s (f ! 2) (f ! 3) (f ! 1 = ''add''))))
      else None)"

definition colon_grant :: "Model \<Rightarrow> string list \<Rightarrow> (Model \<times> cmd option) option" where
  "colon_grant m f =
     (if length f = 5 \<and> (f ! 1 = ''add'' \<or> f ! 1 = ''remove'') then
        Some (m, Some (mutate m [] ''Grant updated.'' (''admin.grant.'' @ f ! 1)
          [(''target'', JStr (f ! 2)), (''kind'', JStr (f ! 3)), (''principal'', JStr (f ! 4))]
          (\<lambda>s. SetGrant s (f ! 2) (f ! 3) (f ! 4) (f ! 1 = ''add''))))
      else None)"

definition colon_target :: "menu_env \<Rightarrow> Model \<Rightarrow> string list \<Rightarrow> (Model \<times> cmd option) option" where
  "colon_target E m f =
     (let target = [(''target'', JStr (f ! 2))]; say = (\<lambda>text. Some (m\<lparr>m_status := text\<rparr>, None)) in
      if length f < 3 then None
      else if f ! 1 = ''delete'' then
        Some (m, Some (mutate m [] ''Target deleted.'' ''admin.target.delete'' target (\<lambda>s. DeleteTarget s (f ! 2))))
      else if f ! 1 = ''enable'' \<or> f ! 1 = ''disable'' then
        Some (m, Some (mutate m [] ''Target updated.'' (''admin.target.'' @ f ! 1) target
          (\<lambda>s. SetTargetEnabled s (f ! 2) (f ! 1 = ''enable''))))
      else if f ! 1 = ''edit'' \<and> length f = 6 then
        (case atoi (f ! 4) of
           None \<Rightarrow> say ''Port must be numeric.''
         | Some port \<Rightarrow> Some (m, Some (mutate m [] ''Target updated.'' ''admin.target.edit'' target
             (\<lambda>s. UpdateTarget s (f ! 2) (f ! 3) port (f ! 5)))))
      else if f ! 1 = ''add'' \<and> length f = 7 then
        (case atoi (f ! 4) of
           None \<Rightarrow> say ''Port must be numeric.''
         | Some port \<Rightarrow>
             if f ! 6 \<noteq> CredentialPassword \<and> f ! 6 \<noteq> CredentialPrivateKey
             then say ''Credential kind must be password or private_key.''
             else Some (scanHost E (JoinHostPort (f ! 3) (f ! 4)) (m\<lparr>m_pending := Some (no_pending\<lparr>p_kind := ''target_add'',
               p_name := f ! 2, p_host := f ! 3, p_port := port, p_remote := f ! 5, p_credentialKind := f ! 6\<rparr>)\<rparr>)))
      else None)"

definition colon_credential :: "db \<Rightarrow> Model \<Rightarrow> string list \<Rightarrow> (Model \<times> cmd option) option" where
  "colon_credential s m f =
     (let say = (\<lambda>text. Some (m\<lparr>m_status := text\<rparr>, None)) in
      if length f = 4 \<and> f ! 1 = ''replace'' then
        (case TargetByName s (f ! 2) of
           Inl e \<Rightarrow> say (err_text e)
         | Inr t \<Rightarrow>
             if f ! 3 \<noteq> CredentialPassword \<and> f ! 3 \<noteq> CredentialPrivateKey
             then say ''Credential kind must be password or private_key.''
             else let m' = m\<lparr>m_pending := Some (no_pending\<lparr>p_kind := ''credential'', p_target := t, p_credentialKind := f ! 3\<rparr>)\<rparr>
               in Some (if f ! 3 = CredentialPassword
                 then m'\<lparr>m_mode := ''secret_password'', m_status := ''Enter replacement password (hidden), then press Enter.''\<rparr>
                 else m'\<lparr>m_mode := ''secret_key'', m_status := ''Paste replacement private key, then press Ctrl+D.''\<rparr>, None))
      else None)"

definition colon_host_key :: "menu_env \<Rightarrow> db \<Rightarrow> Model \<Rightarrow> string list \<Rightarrow> (Model \<times> cmd option) option" where
  "colon_host_key E s m f =
     (if length f = 3 \<and> f ! 1 = ''replace'' then
        (case TargetByName s (f ! 2) of
           Inl e \<Rightarrow> Some (m\<lparr>m_status := err_text e\<rparr>, None)
         | Inr t \<Rightarrow> Some (scanHost E (JoinHostPort (Target_Host t) (itoa (Target_Port t)))
             (m\<lparr>m_pending := Some (no_pending\<lparr>p_kind := ''host_key'', p_target := t\<rparr>)\<rparr>)))
      else None)"

definition runCommand :: "menu_env \<Rightarrow> db \<Rightarrow> Model \<Rightarrow> string \<Rightarrow> Model \<times> cmd option" where
  "runCommand E s m line =
     (let f = Fields line in
      if f = [] then (m, None)
      else if f ! 0 = ''help'' then (m\<lparr>m_mode := ''help''\<rparr>, None)
      else
        (case (if f ! 0 = ''user'' then colon_user m f
               else if f ! 0 = ''key'' then colon_key E m f
               else if f ! 0 = ''group'' then colon_group m f
               else if f ! 0 = ''member'' then colon_member m f
               else if f ! 0 = ''grant'' then colon_grant m f
               else if f ! 0 = ''target'' then colon_target E m f
               else if f ! 0 = ''credential'' then colon_credential s m f
               else if f ! 0 = ''host-key'' then colon_host_key E s m f
               else None) of
           Some r \<Rightarrow> r
         | None \<Rightarrow> (m\<lparr>m_status := ''Invalid admin command. Type : then '' @ [chr 39] @ ''help'' @ [chr 39] @ '' for syntax.''\<rparr>, None)))"

end
