(* ===== verification/Tui_Safety.thy ===== *)
theory Tui_Safety
  imports Tui_Remote Tui_Colon Store_Access
begin

text \<open>
  The menu never panics: an invariant of its state (the cursors are in range, what a mode refers to is
  there, the fields of a form are those its kind reads) that every key, paste and message keeps, and
  from which every handler, command and drawing has a result.
\<close>

section \<open>The invariant\<close>

text \<open>
  A credential kind whose trimmed text names the stored key is that text: \<open>submitForm\<close> trims the field
  that \<open>syncTargetKeyField\<close> compares as it is.
\<close>

definition kind_text :: "string \<Rightarrow> bool" where
  "kind_text v \<longleftrightarrow> (TrimSpace v = CredentialStoredKey \<longrightarrow> v = CredentialStoredKey)"

definition list_ok :: "Model \<Rightarrow> bool" where
  "list_ok m \<longleftrightarrow> 0 \<le> m_cursor m \<and> (m_cursor m = 0 \<or> m_cursor m < int (itemCount m))
     \<and> list_all (\<lambda>t. kind_text (Target_CredentialKind t)) (m_targets m)"

definition secret_modes :: "string list" where
  "secret_modes = [''confirm_host'', ''secret_password'', ''secret_key'', ''secret_passphrase'', ''agent_key'']"

definition pending_modes :: "string list" where
  "pending_modes = [''confirm_delete'', ''public_key'', ''totp_enroll'', ''totp_confirm''] @ action_modes @ secret_modes"

definition pending_ok :: "string \<Rightarrow> pendingOperation option \<Rightarrow> bool" where
  "pending_ok mode po \<longleftrightarrow> (case po of
     None \<Rightarrow> mode \<notin> set pending_modes
   | Some p \<Rightarrow> kind_text (Target_CredentialKind (p_target p)) \<and> (mode = ''confirm_host'' \<longrightarrow> p_hostKey p \<noteq> None)
       \<and> (mode \<in> set secret_modes \<longrightarrow> p_kind p = ''target_add'' \<longrightarrow> p_hostKey p \<noteq> None))"

text \<open>A form with a credential field: a choice among kinds, followed by the key's field when that is chosen.\<close>

definition auth_field_ok :: "nat \<Rightarrow> nat \<Rightarrow> formField list \<Rightarrow> bool" where
  "auth_field_ok i base fs \<longleftrightarrow> i < base \<and> base \<le> length fs \<and> f_options (fs ! i) = credentialKinds
     \<and> kind_text (f_value (fs ! i)) \<and> (f_value (fs ! i) = CredentialStoredKey \<longrightarrow> base < length fs)"

definition form_size :: "string \<Rightarrow> nat" where
  "form_size kind = (if kind = ''grant_add'' then 7 else if kind = ''grant_edit'' then 4
     else if kind = ''forward_add'' \<or> kind = ''target_edit'' then 3
     else if kind = ''identity_add'' \<or> kind = ''user_add'' then 2 else 1)"

definition form_ok :: "pendingOperation option \<Rightarrow> adminForm \<Rightarrow> bool" where
  "form_ok po f \<longleftrightarrow> 0 \<le> form_index f \<and> form_index f < int (length (form_fields f))
     \<and> form_size (form_kind f) \<le> length (form_fields f)
     \<and> (form_kind f = ''target_add'' \<longrightarrow> auth_field_ok 4 5 (form_fields f))
     \<and> (form_kind f = ''target_credential'' \<longrightarrow> auth_field_ok 0 1 (form_fields f))
     \<and> (form_kind f \<in> set [''target_credential'', ''target_edit'', ''grant_edit'', ''user_oidc_map''] \<longrightarrow> po \<noteq> None)"

definition modal_ok :: "Model \<Rightarrow> bool" where
  "modal_ok m \<longleftrightarrow> m_mode m \<noteq> ''totp_auth'' \<and> m_cipher m \<noteq> None \<and> pending_ok (m_mode m) (m_pending m)
     \<and> (m_mode m = ''form'' \<longrightarrow> (case m_form m of None \<Rightarrow> True | Some f \<Rightarrow> form_ok (m_pending m) f))
     \<and> (m_mode m \<in> set action_modes \<longrightarrow>
          0 \<le> m_actionCursor m \<and> (m_actionCursor m = 0 \<or> m_actionCursor m < int (length (m_actions m))))"

definition menu_ok :: "Model \<Rightarrow> bool" where
  "menu_ok m \<longleftrightarrow> list_ok m \<and> modal_ok m"

text \<open>The messages a command may answer with, and a command that always answers.\<close>

definition msg_ok :: "Model \<Rightarrow> msg \<Rightarrow> bool" where
  "msg_ok m msg = (case msg of
     DataMsg v \<Rightarrow> list_all (\<lambda>t. kind_text (Target_CredentialKind t)) (d_targets v)
   | HostKeyMsg _ \<Rightarrow> m_pending m \<noteq> None
   | KeyPressMsg _ \<Rightarrow> False
   | PasteMsg _ \<Rightarrow> False
   | _ \<Rightarrow> True)"

definition cmd_ok :: "Model \<Rightarrow> cmd option \<Rightarrow> bool" where
  "cmd_ok m c = (case c of
     Some (Run f) \<Rightarrow> (\<forall>s. store_ok s \<longrightarrow> (\<exists>msg s'. f s = Some (msg, s') \<and> store_ok s' \<and> msg_ok m msg))
   | _ \<Rightarrow> True)"

definition result_ok :: "Model \<times> cmd option \<Rightarrow> bool" where
  "result_ok r \<longleftrightarrow> menu_ok (fst r) \<and> cmd_ok (fst r) (snd r)"

definition handled_ok :: "handled \<Rightarrow> bool" where
  "handled_ok h = (case h of None \<Rightarrow> False | Some r \<Rightarrow> result_ok r)"

lemma handled_ok_simps [simp]: "handled_ok None = False" "handled_ok (Some r) = result_ok r"
  by (simp_all add: handled_ok_def)

lemma result_ok_Pair: "result_ok (m, c) \<longleftrightarrow> menu_ok m \<and> cmd_ok m c"
  by (simp add: result_ok_def)

lemma cmd_ok_None [simp]: "cmd_ok m None" "cmd_ok m (Some Quit)"
  by (simp_all add: cmd_ok_def)

lemma msg_ok_simps [simp]:
  "msg_ok m ReloadMsg" "msg_ok m (MutationMsg w)" "msg_ok m (OidcBeginMsg b)" "msg_ok m (OidcLinkMsg i e)" "msg_ok m QuitMsg"
  "msg_ok m (HostKeyMsg k) \<longleftrightarrow> m_pending m \<noteq> None" "\<not> msg_ok m (KeyPressMsg key)" "\<not> msg_ok m (PasteMsg v)"
  "msg_ok m (DataMsg dm) \<longleftrightarrow> list_all (\<lambda>t. kind_text (Target_CredentialKind t)) (d_targets dm)" "msg_ok m (mutation st sec e)"
  by (simp_all add: msg_ok_def mutation_def)

lemma filtered_upd [simp]:
  "filtered (m\<lparr>m_mode := mo\<rparr>) = filtered m" "filtered (m\<lparr>m_status := st\<rparr>) = filtered m" "filtered (m\<lparr>m_input := i\<rparr>) = filtered m"
  "filtered (m\<lparr>m_pending := p\<rparr>) = filtered m" "filtered (m\<lparr>m_form := f\<rparr>) = filtered m" "filtered (m\<lparr>m_actions := a\<rparr>) = filtered m"
  "filtered (m\<lparr>m_actionCursor := c\<rparr>) = filtered m" "filtered (m\<lparr>m_result := r\<rparr>) = filtered m" "filtered (m\<lparr>m_cursor := c\<rparr>) = filtered m"
  "filtered (m\<lparr>m_searching := b\<rparr>) = filtered m" "filtered (m\<lparr>m_oidcLogin := l\<rparr>) = filtered m" "filtered (m\<lparr>m_width := c\<rparr>) = filtered m"
  "filtered (m\<lparr>m_height := c\<rparr>) = filtered m"
  by (simp_all add: filtered_def)

lemma itemCount_upd [simp]:
  "itemCount (m\<lparr>m_mode := mo\<rparr>) = itemCount m" "itemCount (m\<lparr>m_status := st\<rparr>) = itemCount m"
  "itemCount (m\<lparr>m_input := i\<rparr>) = itemCount m" "itemCount (m\<lparr>m_pending := p\<rparr>) = itemCount m"
  "itemCount (m\<lparr>m_form := f\<rparr>) = itemCount m" "itemCount (m\<lparr>m_actions := a\<rparr>) = itemCount m"
  "itemCount (m\<lparr>m_actionCursor := c\<rparr>) = itemCount m" "itemCount (m\<lparr>m_result := r\<rparr>) = itemCount m"
  "itemCount (m\<lparr>m_cursor := c\<rparr>) = itemCount m" "itemCount (m\<lparr>m_searching := b\<rparr>) = itemCount m"
  "itemCount (m\<lparr>m_oidcLogin := l\<rparr>) = itemCount m" "itemCount (m\<lparr>m_width := c\<rparr>) = itemCount m"
  "itemCount (m\<lparr>m_height := c\<rparr>) = itemCount m"
  by (simp_all add: itemCount_def)

lemma list_ok_upd [simp]:
  "list_ok (m\<lparr>m_mode := mo\<rparr>) = list_ok m" "list_ok (m\<lparr>m_status := st\<rparr>) = list_ok m"
  "list_ok (m\<lparr>m_input := i\<rparr>) = list_ok m" "list_ok (m\<lparr>m_pending := p\<rparr>) = list_ok m"
  "list_ok (m\<lparr>m_form := f\<rparr>) = list_ok m" "list_ok (m\<lparr>m_actions := a\<rparr>) = list_ok m"
  "list_ok (m\<lparr>m_actionCursor := c\<rparr>) = list_ok m" "list_ok (m\<lparr>m_result := r\<rparr>) = list_ok m"
  "list_ok (m\<lparr>m_searching := b\<rparr>) = list_ok m" "list_ok (m\<lparr>m_oidcLogin := l\<rparr>) = list_ok m"
  "list_ok (m\<lparr>m_width := c\<rparr>) = list_ok m" "list_ok (m\<lparr>m_height := c\<rparr>) = list_ok m"
  by (simp_all add: list_ok_def)

lemma modal_ok_upd [simp]:
  "modal_ok (m\<lparr>m_status := st\<rparr>) = modal_ok m" "modal_ok (m\<lparr>m_input := i\<rparr>) = modal_ok m"
  "modal_ok (m\<lparr>m_result := r\<rparr>) = modal_ok m" "modal_ok (m\<lparr>m_searching := b\<rparr>) = modal_ok m"
  "modal_ok (m\<lparr>m_oidcLogin := l\<rparr>) = modal_ok m" "modal_ok (m\<lparr>m_width := c\<rparr>) = modal_ok m"
  "modal_ok (m\<lparr>m_height := c\<rparr>) = modal_ok m" "modal_ok (m\<lparr>m_cursor := c\<rparr>) = modal_ok m"
  "modal_ok (m\<lparr>m_query := q\<rparr>) = modal_ok m" "modal_ok (m\<lparr>m_section := q\<rparr>) = modal_ok m"
  by (simp_all add: modal_ok_def split: option.split)

lemma menu_ok_upd [simp]:
  "menu_ok (m\<lparr>m_status := st\<rparr>) = menu_ok m" "menu_ok (m\<lparr>m_input := i\<rparr>) = menu_ok m"
  "menu_ok (m\<lparr>m_result := r\<rparr>) = menu_ok m" "menu_ok (m\<lparr>m_oidcLogin := l\<rparr>) = menu_ok m"
  "menu_ok (m\<lparr>m_width := c\<rparr>) = menu_ok m" "menu_ok (m\<lparr>m_height := c\<rparr>) = menu_ok m"
  "menu_ok (m\<lparr>m_searching := b\<rparr>) = menu_ok m"
  by (simp_all add: menu_ok_def)

lemma is_admin_upd [simp]: "is_admin (m\<lparr>m_actionCursor := c\<rparr>) = is_admin m" "is_admin (m\<lparr>m_status := st\<rparr>) = is_admin m"
  by (simp_all add: is_admin_def)

lemmas mode_lists = pending_modes_def secret_modes_def action_modes_def

lemma at_Some: "0 \<le> i \<Longrightarrow> i < int (length xs) \<Longrightarrow> at xs i = Some (xs ! nat i)"
  by (simp add: at_def)

lemma at_nat: "n < length xs \<Longrightarrow> at xs (int n) = Some (xs ! n)"
  by (simp add: at_def)

lemma at_num [simp]: "xs \<noteq> [] \<Longrightarrow> at xs 0 = Some (xs ! 0)" "1 < length xs \<Longrightarrow> at xs 1 = Some (xs ! 1)"
  "numeral k < length xs \<Longrightarrow> at xs (numeral k) = Some (xs ! numeral k)"
  by (simp_all add: at_def)

section \<open>Commands\<close>

lemma audited_store_ok: "store_ok (snd r) \<Longrightarrow> store_ok (snd (audited m ev details r))"
  by (auto simp: audited_def audit_def store_inv_intros split: prod.splits sum.splits)

lemma mutate_ok: "(\<And>s. store_ok s \<Longrightarrow> store_ok (snd (fn s))) \<Longrightarrow> cmd_ok m' (Some (mutate m sec st ev details fn))"
  using audited_store_ok[of "fn s" m ev details for s] by (auto simp: cmd_ok_def mutate_def split: prod.splits) (metis snd_conv)

lemma kind_text_valid: "validCredentialKind v \<Longrightarrow> kind_text v"
proof -
  have "kind_text CredentialPassword" "kind_text CredentialPrivateKey" "kind_text CredentialAgent" "kind_text CredentialStoredKey"
    by code_simp+
  then show "validCredentialKind v \<Longrightarrow> kind_text v" by (auto simp: validCredentialKind_def)
qed

lemma target_kind_ok: "store_ok s \<Longrightarrow> t \<in> set (targets s) \<Longrightarrow> kind_text (Target_CredentialKind t)"
  using store_okD(6)[of s] by (auto simp: ok_targets_def intro: kind_text_valid)

lemma listed_targets: "set (ListTargets s) \<subseteq> set (targets s)" "set (ListAuthorizedTargets s v) \<subseteq> set (targets s)"
  by (auto simp: ListTargets_def ListAuthorizedTargets_def set_member_target_rows split: if_splits)

lemma load_targets_ok: "store_ok s \<Longrightarrow> list_all (\<lambda>t. kind_text (Target_CredentialKind t)) (d_targets (load m s))"
proof -
  have "d_targets (load m s) = (if is_admin m then ListTargets s else ListAuthorizedTargets s (m_user m))"
    by (simp add: load_def Let_def split: sum.splits go_error.splits)
  then show "store_ok s \<Longrightarrow> ?thesis" using listed_targets(1)[of s] listed_targets(2)[of s "m_user m"] target_kind_ok[of s]
    by (auto simp: list_all_iff split: if_splits)
qed

lemma load_cmd_ok: "cmd_ok m' (Some (load_cmd m))"
  by (auto simp: cmd_ok_def load_cmd_def load_targets_ok)

lemma audit_store_ok: "store_ok s \<Longrightarrow> store_ok (snd (audit m ev details s))"
  by (simp add: audit_def store_inv_intros)

lemmas store_steps = audited_store_ok audit_store_ok store_inv_intros

lemma store_ok_outcome: "store_ok (snd r) \<Longrightarrow> r = (x, s') \<Longrightarrow> store_ok s'"
  by simp

text \<open>A command given by a function that always answers.\<close>

definition answers :: "Model \<Rightarrow> msg \<times> db \<Rightarrow> bool" where
  "answers m r \<longleftrightarrow> msg_ok m (fst r) \<and> store_ok (snd r)"

lemma answers_simps [simp]: "answers m (msg, s) \<longleftrightarrow> msg_ok m msg \<and> store_ok s"
  by (simp add: answers_def)

lemma cmd_ok_Run: "cmd_ok m (Some (Run f)) \<longleftrightarrow> (\<forall>s. store_ok s \<longrightarrow> (case f s of None \<Rightarrow> False | Some r \<Rightarrow> answers m r))"
  by (fastforce simp: cmd_ok_def split: option.splits)

lemma scanHost_ok: "menu_ok m \<Longrightarrow> m_pending m \<noteq> None \<Longrightarrow> result_ok (scanHost E a m)"
  by (auto simp: scanHost_def result_ok_Pair menu_ok_def modal_ok_def pending_ok_def cmd_ok_def mode_lists
      split: option.splits)

lemma finishHostKey_ok: "menu_ok m \<Longrightarrow> m_pending m = Some p \<Longrightarrow> p_hostKey p \<noteq> None \<Longrightarrow> result_ok (finishHostKey E m)"
  by (auto simp: finishHostKey_def result_ok_Pair cmd_ok_def Let_def case_prod_beta store_steps)

lemma AddTarget_out: "AddTarget s n = (r, s1) \<Longrightarrow> store_ok s \<Longrightarrow> store_ok s1"
  using AddTarget_ok[of s n] by simp

lemma AddSSHIdentity_out: "AddSSHIdentity s n k f = (r, s1) \<Longrightarrow> store_ok s \<Longrightarrow> store_ok s1"
  using AddSSHIdentity_ok[of s n k f] by simp

lemma SetTargetCredential_out: "SetTargetCredential s i x y = (r, s1) \<Longrightarrow> store_ok s \<Longrightarrow> store_ok s1"
  using SetTargetCredential_ok[of s i x y] by simp

lemma SetSSHIdentitySecret_out: "SetSSHIdentitySecret s i x y = (r, s1) \<Longrightarrow> store_ok s \<Longrightarrow> store_ok s1"
  using SetSSHIdentitySecret_ok[of s i x y] by simp

lemma audit_out: "audit m ev details s = (r, s1) \<Longrightarrow> store_ok s \<Longrightarrow> store_ok s1"
  using audit_store_ok[of s m ev details] by simp

lemma SetUserTOTP_out: "SetUserTOTP s i x y = (r, s1) \<Longrightarrow> store_ok s \<Longrightarrow> store_ok s1"
  using SetUserTOTP_ok[of s i x y] by simp

lemma LinkOIDCIdentity_out: "LinkOIDCIdentity s i a b c = (r, s1) \<Longrightarrow> store_ok s \<Longrightarrow> store_ok s1"
  using LinkOIDCIdentity_ok[of s i a b c] by simp

lemma Audit_out: "Audit s e = (r, s1) \<Longrightarrow> store_ok s \<Longrightarrow> store_ok s1"
  using Audit_ok[of s e] by simp

lemmas store_outs = AddTarget_out AddSSHIdentity_out SetTargetCredential_out SetSSHIdentitySecret_out audit_out SetUserTOTP_out
  LinkOIDCIdentity_out Audit_out

lemma finishStoredTarget_ok:
  assumes "menu_ok m" "m_pending m = Some p" "p_hostKey p \<noteq> None" shows "result_ok (finishStoredTarget E m)"
  using assms
  by (auto simp: finishStoredTarget_def result_ok_Pair cmd_ok_Run Let_def case_prod_beta' store_steps
      dest: store_outs split: prod.splits sum.splits)

lemma add_target_with_ok: "store_ok s \<Longrightarrow> answers m' (add_target_with E m c p hk payload s)"
  by (auto simp: add_target_with_def store_steps Let_def
      dest: store_outs split: prod.split sum.split)

lemma replace_credential_ok: "store_ok s \<Longrightarrow> answers m' (replace_credential E m c p payload s)"
  by (auto simp: replace_credential_def Let_def case_prod_beta store_steps split: sum.splits)

lemma add_identity_ok: "store_ok s \<Longrightarrow> answers m' (add_identity E m c n pk fp payload s)"
  by (auto simp: add_identity_def store_steps Let_def
      dest: store_outs split: prod.split sum.split)

lemma finishCredential_ok:
  assumes "menu_ok m" "m_pending m = Some p" "p_kind p = ''target_add'' \<longrightarrow> p_hostKey p \<noteq> None"
  shows "result_ok (finishCredential E payload m)"
proof -
  obtain c where "m_cipher m = Some c" using assms(1) by (auto simp: menu_ok_def modal_ok_def)
  then show ?thesis
    using assms add_target_with_ok replace_credential_ok
    by (auto simp: finishCredential_def result_ok_Pair cmd_ok_Run)
qed

lemma closeModal_ok: "menu_ok m \<Longrightarrow> menu_ok (closeModal text m)"
  by (auto simp: closeModal_def menu_ok_def modal_ok_def pending_ok_def mode_lists)

lemma kind_text_Nil [simp]: "kind_text []"
  by (simp add: kind_text_def const_defs TrimSpace_def TrimFunc_def)

lemma menu_ok_pending: "menu_ok m \<Longrightarrow> m_pending m = Some p \<Longrightarrow> kind_text (Target_CredentialKind (p_target p))"
  by (simp add: menu_ok_def modal_ok_def pending_ok_def)

text \<open>Changing to a mode that only needs the pending operation.\<close>

lemma plain_mode_ok:
  assumes "menu_ok m" "m_pending m = Some p" "mode \<notin> set ([''totp_auth'', ''form''] @ action_modes)"
    "mode = ''confirm_host'' \<longrightarrow> p_hostKey p \<noteq> None"
    "mode \<in> set secret_modes \<longrightarrow> p_kind p = ''target_add'' \<longrightarrow> p_hostKey p \<noteq> None"
  shows "menu_ok (m\<lparr>m_mode := mode\<rparr>)"
  using assms menu_ok_pending[OF assms(1,2)] by (auto simp: menu_ok_def modal_ok_def pending_ok_def)

lemma finishAgentKey_ok:
  assumes "menu_ok m" "m_pending m = Some p" "p_kind p = ''target_add'' \<longrightarrow> p_hostKey p \<noteq> None"
  shows "result_ok (finishAgentKey E m)"
  using assms finishCredential_ok[of "m\<lparr>m_status := x\<rparr>" p E for x]
  by (auto simp: finishAgentKey_def Let_def result_ok_Pair split: sum.split prod.split)

lemma finishIdentityPayload_ok:
  assumes "menu_ok m" "m_pending m = Some p" shows "result_ok (finishIdentityPayload E key pass m)"
proof -
  obtain c where c: "m_cipher m = Some c" using assms(1) by (auto simp: menu_ok_def modal_ok_def)
  have "menu_ok (m\<lparr>m_mode := ''saving''\<rparr>)" by (rule plain_mode_ok[OF assms]) (simp_all add: mode_lists)
  then have "menu_ok (m\<lparr>m_input := [], m_mode := ''saving''\<rparr>)" by (simp add: menu_ok_def modal_ok_def split: option.splits)
  with assms c show ?thesis
    by (auto simp: finishIdentityPayload_def result_ok_Pair cmd_ok_Run Let_def add_identity_ok split: sum.split)
qed

lemma finishPublicKey_ok: "menu_ok m \<Longrightarrow> m_pending m = Some p \<Longrightarrow> handled_ok (finishPublicKey E m)"
  by (auto simp: finishPublicKey_def Let_def result_ok_Pair intro!: mutate_ok AddGatewayKey_ok split: sum.split prod.split)

lemma finishDelete_ok: "menu_ok m \<Longrightarrow> m_pending m = Some p \<Longrightarrow> handled_ok (finishDelete m)"
  by (simp add: finishDelete_def Let_def result_ok_Pair mutate_ok store_inv_intros)

lemma enroll_totp_ok: "store_ok s \<Longrightarrow> store_ok (snd (enroll_totp E c p n s))"
  by (auto simp: enroll_totp_def store_steps dest: store_outs split: sum.split prod.split)

lemma finishTOTPEnrollment_ok:
  assumes "menu_ok m" "m_pending m = Some p" shows "handled_ok (finishTOTPEnrollment E m)"
proof -
  obtain c where "m_cipher m = Some c" using assms(1) by (auto simp: menu_ok_def modal_ok_def)
  with assms show ?thesis
    by (auto simp: finishTOTPEnrollment_def result_ok_Pair cmd_ok_Run Let_def case_prod_beta audited_store_ok enroll_totp_ok
        split: option.split)
qed

lemma new_pending_ok:
  assumes "menu_ok m" "mode \<notin> set ([''totp_auth'', ''form''] @ action_modes @ secret_modes)"
    "kind_text (Target_CredentialKind (p_target p))"
  shows "menu_ok (m\<lparr>m_mode := mode, m_pending := Some p\<rparr>)"
  using assms by (auto simp: menu_ok_def modal_ok_def pending_ok_def secret_modes_def)

lemma startOIDCLink_ok:
  assumes "menu_ok m" shows "result_ok (startOIDCLink E m)"
proof -
  have "menu_ok (m\<lparr>m_mode := ''oidc_start'', m_pending := Some (no_pending\<lparr>p_user := v, p_username := n\<rparr>)\<rparr>)" for v n
    by (rule new_pending_ok[OF assms]) (simp_all add: mode_lists no_pending_def no_target_def)
  then show ?thesis using assms by (simp add: startOIDCLink_def result_ok_Pair cmd_ok_Run)
qed

lemma completeOIDCLink_ok: "menu_ok m \<Longrightarrow> result_ok (completeOIDCLink E m)"
proof -
  have "answers m' (link_account E m l v s)" if "store_ok s" for l v s m'
    using that by (auto simp: link_account_def Let_def dest: store_outs split: sum.split prod.split)
  then show "menu_ok m \<Longrightarrow> ?thesis"
    by (auto simp: completeOIDCLink_def result_ok_Pair cmd_ok_Run closeModal_ok split: option.split)
      (auto simp: menu_ok_def modal_ok_def pending_ok_def mode_lists)
qed

section \<open>Forms\<close>

lemma openAddForm_ok:
  assumes "menu_ok m" shows "menu_ok (openAddForm m)"
proof -
  have "menu_ok (open_form kind title fs m')" if "menu_ok m'" "fs \<noteq> []" "form_size kind \<le> length fs"
    "kind = ''target_add'' \<longrightarrow> auth_field_ok 4 5 fs"
    "kind \<notin> set [''target_credential'', ''target_edit'', ''grant_edit'', ''user_oidc_map'']" for kind title fs m'
    using that by (auto simp: open_form_def menu_ok_def modal_ok_def pending_ok_def form_ok_def mode_lists split: option.splits)
  moreover have "auth_field_ok 4 5 [a, b, c, d, choice_field l CredentialPrivateKey credentialKinds]" for a b c d l
    using kind_text_valid[of CredentialPrivateKey]
    by (simp add: auth_field_ok_def choice_field_def validCredentialKind_def const_defs)
  ultimately show ?thesis using assms by (simp add: openAddForm_def Let_def form_size_def)
qed

lemma missing_field_range: "missing_field a i fs = Some (j, l) \<Longrightarrow> i \<le> j \<and> j < i + int (length fs)"
  by (induction a i fs rule: missing_field.induct) (auto split: if_splits)

lemma form_state: "menu_ok m \<Longrightarrow> m_mode m = ''form'' \<Longrightarrow> m_form m = Some f \<Longrightarrow> form_ok (m_pending m) f"
  by (simp add: menu_ok_def modal_ok_def)

lemma with_form_ok:
  assumes "menu_ok m" "m_mode m = ''form''" "form_ok (m_pending m) f" shows "menu_ok (m\<lparr>m_form := Some f\<rparr>)"
  using assms by (auto simp: menu_ok_def modal_ok_def)

lemma form_ok_index: "form_ok po f \<Longrightarrow> 0 \<le> i \<Longrightarrow> i < int (length (form_fields f)) \<Longrightarrow> form_ok po (f\<lparr>form_index := i\<rparr>)"
  by (simp add: form_ok_def)

lemma point_at_ok:
  assumes "menu_ok m" "m_mode m = ''form''" "m_form m = Some f" "0 \<le> i" "i < int (length (form_fields f))"
  shows "result_ok (point_at text i m)"
  using assms form_ok_index[OF form_state[OF assms(1-3)], of i]
  by (auto simp: point_at_def result_ok_Pair menu_ok_def modal_ok_def)

text \<open>
  A field that may be typed into is never the credential field, whose options are the credential kinds.
\<close>

definition auth_field_pre :: "nat \<Rightarrow> nat \<Rightarrow> formField list \<Rightarrow> bool" where
  "auth_field_pre i base fs \<longleftrightarrow> i < base \<and> base \<le> length fs \<and> f_options (fs ! i) = credentialKinds \<and> kind_text (f_value (fs ! i))"

lemma form_ok_type:
  assumes "form_ok po f" "f_options (form_fields f ! nat (form_index f)) = []" "\<And>x. f_options (g x) = f_options x"
  shows "form_ok po (set_field_at (form_index f) g f)"
proof -
  have "i \<noteq> nat (form_index f)" if "auth_field_ok i b (form_fields f)" for i b
    using that assms(2) by (auto simp: auth_field_ok_def credentialKinds_def)
  then have "auth_field_ok i b ((form_fields f)[nat (form_index f) := g (form_fields f ! nat (form_index f))])"
    if "auth_field_ok i b (form_fields f)" for i b
  proof -
    from \<open>\<And>i b. auth_field_ok i b (form_fields f) \<Longrightarrow> i \<noteq> nat (form_index f)\<close>[OF that]
    have "(form_fields f)[nat (form_index f) := g (form_fields f ! nat (form_index f))] ! i = form_fields f ! i" by simp
    with that show ?thesis by (simp add: auth_field_ok_def)
  qed
  with assms(1) show ?thesis by (auto simp: form_ok_def set_field_at_def)
qed

lemma cycleOption_in: "f_options x \<noteq> [] \<Longrightarrow> f_value (cycleOption x d) \<in> set (f_options x) \<and> f_options (cycleOption x d) = f_options x"
  by (auto simp: cycleOption_def Let_def intro!: nth_mem) (simp add: nat_less_iff)

lemma credentialKinds_text: "v \<in> set credentialKinds \<Longrightarrow> kind_text v"
  by (rule kind_text_valid) (auto simp: credentialKinds_def validCredentialKind_def)

lemma auth_field_cycle:
  assumes "auth_field_ok i b (form_fields f)" "f_options (form_fields f ! nat j) \<noteq> []" "0 \<le> j" "j < int (length (form_fields f))"
  shows "auth_field_pre i b (form_fields (set_field_at j (\<lambda>x. cycleOption x d) f))"
  using assms cycleOption_in[OF assms(2), of d] credentialKinds_text[of "f_value (cycleOption (form_fields f ! nat j) d)"]
  by (cases "i = nat j") (auto simp: auth_field_ok_def auth_field_pre_def set_field_at_def)

lemma sync_key_field_ok:
  assumes "auth_field_pre i b (form_fields f)" "0 \<le> form_index f" "form_index f < int (length (form_fields f))"
  shows "\<exists>f'. sync_key_field m i b f = Some f' \<and> auth_field_ok i b (form_fields f') \<and> form_kind f' = form_kind f
    \<and> 0 \<le> form_index f' \<and> form_index f' < int (length (form_fields f'))"
  using assms
  by (auto simp: sync_key_field_def auth_field_pre_def auth_field_ok_def at_nat Let_def nth_append)

lemma syncTargetKeyField_ok:
  assumes f: "m_form m = Some f" "0 \<le> form_index f" "form_index f < int (length (form_fields f))"
    and k: "form_kind f = ''target_add'' \<and> auth_field_pre 4 5 (form_fields f)
      \<or> form_kind f = ''target_credential'' \<and> auth_field_pre 0 1 (form_fields f) \<and> m_pending m \<noteq> None"
  shows "\<exists>f'. syncTargetKeyField m = Some (m\<lparr>m_form := Some f'\<rparr>) \<and> form_ok (m_pending m) f'"
proof -
  have size: "form_size (form_kind f') \<le> length (form_fields f')" if "form_kind f' = form_kind f" "auth_field_ok i b (form_fields f')" for f' i b
    using that k by (auto simp: form_size_def auth_field_ok_def)
  from k show ?thesis
  proof
    assume a: "form_kind f = ''target_add'' \<and> auth_field_pre 4 5 (form_fields f)"
    then obtain f' where "sync_key_field m 4 5 f = Some f'" "auth_field_ok 4 5 (form_fields f')" "form_kind f' = form_kind f"
      "0 \<le> form_index f'" "form_index f' < int (length (form_fields f'))"
      using sync_key_field_ok[of 4 5 f m] f by blast
    with a f(1) size[of f' 4 5] show ?thesis by (auto simp: syncTargetKeyField_def form_ok_def)
  next
    assume a: "form_kind f = ''target_credential'' \<and> auth_field_pre 0 1 (form_fields f) \<and> m_pending m \<noteq> None"
    then obtain f' where "sync_key_field m 0 1 f = Some f'" "auth_field_ok 0 1 (form_fields f')" "form_kind f' = form_kind f"
      "0 \<le> form_index f'" "form_index f' < int (length (form_fields f'))"
      using sync_key_field_ok[of 0 1 f m] f by blast
    with a f(1) size[of f' 0 1] show ?thesis by (auto simp: syncTargetKeyField_def form_ok_def)
  qed
qed

lemma cycle_ok:
  assumes "menu_ok m" "m_mode m = ''form''" "m_form m = Some f" "f_options (form_fields f ! nat (form_index f)) \<noteq> []"
  shows "\<exists>m'. syncFormOptions (m\<lparr>m_form := Some (set_field_at (form_index f) (\<lambda>x. cycleOption x d) f)\<rparr>) = Some m' \<and> menu_ok m'"
proof -
  let ?f = "set_field_at (form_index f) (\<lambda>x. cycleOption x d) f" and ?m = "m\<lparr>m_form := Some (set_field_at (form_index f) (\<lambda>x. cycleOption x d) f)\<rparr>"
  have fo: "form_ok (m_pending m) f" by (rule form_state[OF assms(1-3)])
  then have i: "0 \<le> form_index f" "form_index f < int (length (form_fields f))" by (simp_all add: form_ok_def)
  have k: "form_kind ?f = form_kind f" "form_index ?f = form_index f" "length (form_fields ?f) = length (form_fields f)"
    by (simp_all add: set_field_at_def)
  have finish: "menu_ok (m\<lparr>m_form := Some f'\<rparr>)" if "form_ok (m_pending m) f'" for f'
    by (rule with_form_ok[OF assms(1,2) that])
  show ?thesis
  proof (cases "form_kind f = ''target_add'' \<or> form_kind f = ''target_credential''")
    case True
    then have "form_kind ?f = ''target_add'' \<and> auth_field_pre 4 5 (form_fields ?f)
      \<or> form_kind ?f = ''target_credential'' \<and> auth_field_pre 0 1 (form_fields ?f) \<and> m_pending ?m \<noteq> None"
      using fo i auth_field_cycle[of _ _ f "form_index f" d] assms(4) k(1) by (auto simp: form_ok_def)
    then obtain f' where "syncTargetKeyField ?m = Some (?m\<lparr>m_form := Some f'\<rparr>)" "form_ok (m_pending ?m) f'"
      using syncTargetKeyField_ok[of ?m ?f] i k by auto
    then show ?thesis using True k(1) finish[of f'] by (simp add: syncFormOptions_def)
  next
    case False
    then have "form_ok (m_pending m) (?f\<lparr>form_fields := g (form_fields ?f)\<rparr>)" if "\<And>xs. length (g xs) = length xs" for g
      using fo k that by (simp add: form_ok_def)
    from this[of "\<lambda>xs. xs"] this[of "\<lambda>xs. xs[2 := sync_principal ?m (xs ! 1) (xs ! 2)]"]
    show ?thesis using False k finish by (auto simp: syncFormOptions_def)
  qed
qed

lemma submit_target_ok:
  assumes m: "menu_ok m" "m_mode m = ''form''" "m_form m = Some f" "form_kind f = ''target_add''"
  shows "handled_ok (submit_target E s m (map (\<lambda>x. TrimSpace (f_value x)) (form_fields f)))"
proof -
  let ?v = "map (\<lambda>x. TrimSpace (f_value x)) (form_fields f)"
  have fo: "form_ok (m_pending m) f" by (rule form_state[OF m(1-3)])
  then have a: "auth_field_ok 4 5 (form_fields f)" using m(4) by (simp add: form_ok_def)
  then have len: "5 \<le> length (form_fields f)" "form_fields f \<noteq> []" by (auto simp: auth_field_ok_def)
  have st: "5 < length (form_fields f)" if "TrimSpace (f_value (form_fields f ! 4)) = CredentialStoredKey"
    using a that by (simp add: auth_field_ok_def kind_text_def)
  have upd: "menu_ok (m\<lparr>m_pending := Some p\<rparr>)" if "p_target p = no_target" for p
  proof -
    have "form_ok (Some p) f" using fo m(4) by (simp add: form_ok_def)
    then show ?thesis using m that by (auto simp: menu_ok_def modal_ok_def pending_ok_def mode_lists no_target_def)
  qed
  have pt: "result_ok (point_at t i (m\<lparr>m_pending := Some p\<rparr>))" if "p_target p = no_target" "0 \<le> i" "i < int (length (form_fields f))" for t i p
    by (rule point_at_ok[OF upd[OF that(1)]]) (use m that in simp_all)
  have pt': "result_ok (point_at t 2 m)" for t by (rule point_at_ok[OF m(1-3)]) (use len in auto)
  have sc: "result_ok (scanHost E a (m\<lparr>m_pending := Some p, m_form := None\<rparr>))" if "p_target p = no_target" for a p
    by (rule scanHost_ok) (use upd[OF that] m(2) in \<open>auto simp: menu_ok_def modal_ok_def\<close>)
  show ?thesis
  proof (cases "form_port (?v ! 2)")
    case None
    then show ?thesis using len pt' by (simp add: submit_target_def)
  next
    case (Some port)
    then show ?thesis
      using len st pt sc by (auto simp: submit_target_def Let_def no_pending_def split: sum.split)
  qed
qed

lemma submit_credential_ok:
  assumes m: "menu_ok m" "m_mode m = ''form''" "m_form m = Some f" "form_kind f = ''target_credential''"
  shows "handled_ok (submit_credential s m (map (\<lambda>x. TrimSpace (f_value x)) (form_fields f)))"
proof -
  have fo: "form_ok (m_pending m) f" by (rule form_state[OF m(1-3)])
  then have a: "auth_field_ok 0 1 (form_fields f)" using m(4) by (simp add: form_ok_def)
  obtain p where p: "m_pending m = Some p" using fo m(4) by (auto simp: form_ok_def)
  have len: "form_fields f \<noteq> []" using a by (auto simp: auth_field_ok_def)
  have st: "1 < length (form_fields f)" if "TrimSpace (f_value (form_fields f ! 0)) = CredentialStoredKey"
    using a that by (simp add: auth_field_ok_def kind_text_def)
  let ?m = "\<lambda>k. m\<lparr>m_pending := Some (p\<lparr>p_kind := ''credential'', p_credentialKind := k\<rparr>), m_form := None\<rparr>"
  have mk: "menu_ok (?m k)" for k
    using m(1,2) menu_ok_pending[OF m(1) p] by (auto simp: menu_ok_def modal_ok_def pending_ok_def mode_lists)
  have md: "menu_ok ((?m k)\<lparr>m_mode := mode\<rparr>)" if "mode \<in> set [''secret_password'', ''secret_key'', ''agent_key'']" for k mode
    by (rule plain_mode_ok[OF mk]) (use that in \<open>auto simp: mode_lists\<close>)
  have md': "menu_ok ((?m k)\<lparr>m_mode := mode, m_input := i, m_status := t\<rparr>)"
    if "mode \<in> set [''secret_password'', ''secret_key'', ''agent_key'']" for k mode i t
    using md[OF that, of k] by simp
  show ?thesis
    using len st p mk md' closeModal_ok[OF mk]
    by (simp add: submit_credential_def Let_def result_ok_Pair mutate_ok SetTargetIdentity_ok split: sum.split)
qed

lemma submit_mutations_ok:
  assumes "menu_ok m" "length vs \<ge> form_size kind"
    "kind \<in> set [''target_edit'', ''grant_edit'', ''user_oidc_map''] \<longrightarrow> m_pending m \<noteq> None"
    "m_mode m = ''form''" "m_form m = Some f" "form_kind f = kind" "length vs = length (form_fields f)"
    "kind \<notin> set [''identity_add'', ''target_credential'', ''target_add'']"
  shows "handled_ok (submit_values E s m kind vs)"
proof -
  have pt: "result_ok (point_at t i m)" if "0 \<le> i" "i < int (length vs)" for t i
    by (rule point_at_ok[OF assms(1,4,5)]) (use that assms(7) in auto)
  have "0 < form_size kind" by (simp add: form_size_def)
  then have ne: "vs \<noteq> []" using assms(2) by (cases vs) auto
  consider "kind = ''user_add''" | "kind = ''user_oidc_map''" | "kind = ''group_add''" | "kind = ''grant_add''"
    | "kind = ''grant_edit''" | "kind = ''forward_add''" | "kind = ''target_edit''"
    | "kind \<notin> set [''user_add'', ''user_oidc_map'', ''group_add'', ''grant_add'', ''grant_edit'', ''forward_add'', ''target_edit'',
         ''identity_add'', ''target_credential'', ''target_add'']"
    using assms(8) by auto
  then show ?thesis
  proof cases
    case 7
    then show ?thesis using assms pt ne
      by (auto simp: submit_values_def submit_target_edit_def form_size_def result_ok_Pair mutate_ok store_inv_intros Let_def
          split: option.split)
  next
    case 6
    then show ?thesis using assms pt ne
      by (auto simp: submit_values_def submit_forward_def form_size_def result_ok_Pair mutate_ok store_inv_intros split: option.split)
  qed (use assms ne in \<open>auto simp: submit_values_def submit_oidc_map_def submit_grant_add_def submit_grant_edit_def form_size_def
      result_ok_Pair mutate_ok store_inv_intros Let_def\<close>)
qed

lemma submit_identity_ok:
  assumes "menu_ok m" "m_mode m = ''form''" shows "result_ok (submit_identity E m name how)"
proof -
  let ?p = "no_pending\<lparr>p_kind := ''identity_add'', p_name := name\<rparr>" and ?m = "m\<lparr>m_pending := Some (no_pending\<lparr>p_kind := ''identity_add'', p_name := name\<rparr>), m_form := None\<rparr>"
  have m: "menu_ok ?m" "m_pending ?m = Some ?p"
    using assms by (auto simp: menu_ok_def modal_ok_def pending_ok_def mode_lists no_pending_def no_target_def)
  have "menu_ok (?m\<lparr>m_mode := ''secret_key''\<rparr>)" by (rule plain_mode_ok[OF m]) (simp_all add: mode_lists)
  then have k: "menu_ok (?m\<lparr>m_mode := ''secret_key'', m_input := i, m_status := t\<rparr>)" for i t by simp
  have f: "result_ok (finishIdentity E pem ?m)" for pem
    unfolding finishIdentity_def by (rule finishIdentityPayload_ok[OF m])
  show ?thesis using k f closeModal_ok[OF m(1)] by (simp add: submit_identity_def Let_def result_ok_Pair split: sum.split)
qed

lemma submitForm_ok:
  assumes m: "menu_ok m" "m_mode m = ''form''" "m_form m = Some f" shows "handled_ok (submitForm E s m)"
proof -
  have fo: "form_ok (m_pending m) f" by (rule form_state[OF m])
  let ?v = "map (\<lambda>x. TrimSpace (f_value x)) (form_fields f)"
  show ?thesis
  proof (cases "missing_field (form_authentication f) 0 (form_fields f)")
    case None
    have "handled_ok (submit_values E s m (form_kind f) ?v)"
    proof (cases "form_kind f \<in> set [''identity_add'', ''target_credential'', ''target_add'']")
      case True
      then consider "form_kind f = ''identity_add''" | "form_kind f = ''target_credential''" | "form_kind f = ''target_add''" by auto
      then show ?thesis
      proof cases
        case 1
        then have "2 \<le> length ?v" using fo by (simp add: form_ok_def form_size_def)
        then have "at ?v 0 = Some (?v ! 0)" "at ?v 1 = Some (?v ! 1)" by (auto simp: at_def)
        with 1 submit_identity_ok[OF m(1,2)] show ?thesis by (simp add: submit_values_def)
      qed (use submit_target_ok[OF m] submit_credential_ok[OF m] in \<open>simp_all add: submit_values_def\<close>)
    next
      case False
      then show ?thesis using fo by (intro submit_mutations_ok[OF m(1) _ _ m(2,3)]) (auto simp: form_ok_def)
    qed
    with None m(3) show ?thesis by (simp add: submitForm_def)
  next
    case (Some x)
    then obtain i l where x: "missing_field (form_authentication f) 0 (form_fields f) = Some (i, l)" by (cases x) auto
    with missing_field_range[OF x] m point_at_ok[OF m, of i] show ?thesis by (simp add: submitForm_def)
  qed
qed

lemma handleFormKey_ok:
  assumes m: "menu_ok m" "m_mode m = ''form''" shows "handled_ok (handleFormKey E s m key)"
proof (cases "m_form m")
  case None
  then show ?thesis using m closeModal_ok[OF m(1)] by (simp add: handleFormKey_def result_ok_Pair)
next
  case (Some f)
  have fo: "form_ok (m_pending m) f" by (rule form_state[OF m Some])
  then have i: "0 \<le> form_index f" "form_index f < int (length (form_fields f))" "form_fields f \<noteq> []" by (auto simp: form_ok_def)
  note w = with_form_ok[OF m]
  define i where "i = form_index f"
  define x where "x = form_fields f ! nat i"
  have at: "at (form_fields f) (form_index f) = Some x" using i by (simp add: at_Some x_def i_def)
  have up: "0 < i \<Longrightarrow> menu_ok (m\<lparr>m_form := Some (f\<lparr>form_index := i - 1\<rparr>)\<rparr>)"
    and down: "i < int (length (form_fields f)) - 1 \<Longrightarrow> menu_ok (m\<lparr>m_form := Some (f\<lparr>form_index := i + 1\<rparr>)\<rparr>)"
    using i by (auto intro!: w form_ok_index[OF fo] simp: i_def)
  have ty: "menu_ok (m\<lparr>m_form := Some (set_field_at i g f)\<rparr>)"
    if "f_options x = []" "\<And>x. f_options (g x) = f_options x" for g
    unfolding i_def by (rule w[OF form_ok_type[OF fo]]) (use that in \<open>simp_all add: x_def i_def\<close>)
  have cy: "handled_ok (do { m' \<leftarrow> syncFormOptions (m\<lparr>m_form := Some (set_field_at i (\<lambda>x. cycleOption x d) f)\<rparr>); Some (m', None) })"
    if "f_options x \<noteq> []" for d
    using cycle_ok[OF m Some, of d] that by (auto simp: result_ok_Pair x_def i_def)
  show ?thesis
    using i(3) at up down ty cy submitForm_ok[OF m Some] closeModal_ok[OF m(1)] m(1)
    unfolding handleFormKey_def Let_def Some option.case i_def[symmetric]
    by (simp add: result_ok_Pair)
qed

end
