(* ===== verification/Tui_Handlers.thy ===== *)
theory Tui_Handlers
  imports Tui_Safety
begin

text \<open>
  The menu never panics, continued: the action menus and the keys, in every mode and in the lists.
\<close>

section \<open>Action menus\<close>

lemma action_pending_ok:
  assumes "menu_ok m" "m_mode m \<in> set action_modes" shows "\<exists>p. m_pending m = Some p"
  using assms by (auto simp: menu_ok_def modal_ok_def pending_ok_def pending_modes_def split: option.splits)

lemma action_mode_other:
  "mode \<in> set action_modes \<Longrightarrow> mode \<notin> set secret_modes \<and> mode \<noteq> ''confirm_host'' \<and> mode \<noteq> ''form'' \<and> mode \<noteq> ''totp_auth'' \<and> mode \<noteq> []"
  by (auto simp: mode_lists)

lemma with_actions_ok: "menu_ok m \<Longrightarrow> m_actionCursor m = 0 \<Longrightarrow> kind_text (Target_CredentialKind (p_target p))
    \<Longrightarrow> menu_ok (with_actions m p acts)"
  by (simp add: with_actions_def menu_ok_def modal_ok_def pending_ok_def secret_modes_def)

lemma menu_ok_cursor0: "menu_ok m \<Longrightarrow> menu_ok (m\<lparr>m_actionCursor := 0\<rparr>)"
  by (auto simp: menu_ok_def modal_ok_def split: option.splits)

lemma filtered_targets: "t \<in> set (filtered m) \<Longrightarrow> t \<in> set (m_targets m)"
  by (auto simp: filtered_def split: if_splits)

lemma cursor_at:
  assumes "menu_ok m" "itemCount m = length xs" "xs \<noteq> []" shows "at xs (m_cursor m) = Some (xs ! nat (m_cursor m))"
proof -
  have "0 < length xs" using assms(3) by simp
  with assms(1,2) show ?thesis by (auto simp: menu_ok_def list_ok_def at_def)
qed

lemma openSelectedActions_ok: "menu_ok m \<Longrightarrow> \<exists>m'. openSelectedActions m = Some m' \<and> menu_ok m'"
proof -
  assume m: "menu_ok m"
  let ?m = "m\<lparr>m_actionCursor := 0\<rparr>"
  have m0: "menu_ok ?m" by (rule menu_ok_cursor0[OF m])
  have w: "menu_ok (with_actions ?m p acts)" if "kind_text (Target_CredentialKind (p_target p))" for p acts
    by (rule with_actions_ok[OF m0]) (use that in simp_all)
  have t: "kind_text (Target_CredentialKind (filtered m ! nat (m_cursor m)))" if "m_section m = ''targets''" "filtered m \<noteq> []"
  proof -
    have "at (filtered m) (m_cursor m) = Some (filtered m ! nat (m_cursor m))"
      by (rule cursor_at[OF m]) (use that in \<open>simp_all add: itemCount_def\<close>)
    then have "filtered m ! nat (m_cursor m) \<in> set (m_targets m)"
      by (intro filtered_targets nth_mem) (auto simp: at_def split: if_splits)
    with m show ?thesis by (auto simp: menu_ok_def list_ok_def list_all_iff)
  qed
  have n: "kind_text (Target_CredentialKind no_target)" by (simp add: no_target_def)
  show ?thesis
    using m0 w t n cursor_at[OF m, of "filtered m"] cursor_at[OF m, of "m_users m"] cursor_at[OF m, of "m_identities m"]
      cursor_at[OF m, of "m_groups m"] cursor_at[OF m, of "m_grants m"] cursor_at[OF m, of "m_forwardRules m"]
    by (simp add: openSelectedActions_def Let_def no_pending_def itemCount_def)
qed

lemma open_form_ok:
  assumes "menu_ok m" "fs \<noteq> []" "form_size kind \<le> length fs" "m_pending m \<noteq> None" "kind \<noteq> ''target_add''" "kind \<noteq> ''target_credential''"
  shows "menu_ok (open_form kind title fs m)"
  using assms by (auto simp: open_form_def menu_ok_def modal_ok_def pending_ok_def form_ok_def mode_lists)

lemma credential_form_ok:
  assumes "menu_ok m" "m_pending m = Some p" "t = p_target p"
  shows "\<exists>m'. credential_form t m = Some m' \<and> menu_ok m'"
proof -
  let ?m = "open_form ''target_credential'' ''Replace credential'' [choice_field ''Authentication'' (Target_CredentialKind t) credentialKinds] m"
  let ?f = "\<lparr>form_kind = ''target_credential'', form_title = ''Replace credential'',
      form_fields = [choice_field ''Authentication'' (Target_CredentialKind t) credentialKinds], form_index = 0\<rparr>"
  have "\<exists>f'. syncTargetKeyField ?m = Some (?m\<lparr>m_form := Some f'\<rparr>) \<and> form_ok (m_pending ?m) f'"
    by (rule syncTargetKeyField_ok[of ?m ?f])
      (use assms menu_ok_pending[OF assms(1,2)] in \<open>simp_all add: open_form_def auth_field_pre_def choice_field_def\<close>)
  then obtain f' where "syncTargetKeyField ?m = Some (?m\<lparr>m_form := Some f'\<rparr>)" "form_ok (m_pending ?m) f'" by blast
  then show ?thesis
    using assms menu_ok_pending[OF assms(1,2)]
    by (auto simp: credential_form_def open_form_def menu_ok_def modal_ok_def pending_ok_def mode_lists)
qed

text \<open>Changing the pending operation's texts keeps what the invariant says of it.\<close>

lemma change_pending_ok:
  assumes "menu_ok m" "mode \<notin> set ([''totp_auth'', ''form''] @ action_modes @ secret_modes)" "kind_text (Target_CredentialKind (p_target p))"
  shows "menu_ok (m\<lparr>m_pending := Some p, m_mode := mode\<rparr>)"
  using assms by (auto simp: menu_ok_def modal_ok_def pending_ok_def secret_modes_def)

lemma dispatch_command_ok: "cmd_ok m' (dispatch_command m p code)"
  by (simp add: dispatch_command_def Let_def mutate_ok store_inv_intros)

lemma dispatchAction_ok:
  assumes m: "menu_ok m" "m_mode m \<in> set action_modes" "m_actions m \<noteq> []"
  shows "handled_ok (dispatchAction E s m code)"
proof -
  obtain p where p: "m_pending m = Some p" using action_pending_ok[OF m(1,2)] by blast
  have kt: "kind_text (Target_CredentialKind (p_target p))" by (rule menu_ok_pending[OF m(1) p])
  have plain: "menu_ok (m\<lparr>m_mode := mode\<rparr>)" if "mode \<notin> set ([''totp_auth'', ''form''] @ action_modes @ secret_modes)" for mode
    by (rule plain_mode_ok[OF m(1) p]) (use that in \<open>auto simp: secret_modes_def\<close>)
  have change: "menu_ok (m\<lparr>m_pending := Some p', m_mode := mode\<rparr>)"
    if "mode \<notin> set ([''totp_auth'', ''form''] @ action_modes @ secret_modes)" "p_target p' = p_target p" for p' mode
    by (rule change_pending_ok[OF m(1) that(1)]) (use kt that in simp)
  have form: "menu_ok (open_form kind title fs m)"
    if "fs \<noteq> []" "form_size kind \<le> length fs" "kind \<noteq> ''target_add''" "kind \<noteq> ''target_credential''" for kind title fs
    by (rule open_form_ok[OF m(1) that(1,2) _ that(3,4)]) (simp add: p)
  have forms: "menu_ok (grant_form g m)" "menu_ok (target_form t m)" "menu_ok (oidc_form p m)" for g t
    by (simp_all add: grant_form_def target_form_def oidc_form_def form form_size_def)
  obtain mc where mc: "credential_form (p_target p) m = Some mc" "menu_ok mc" using credential_form_ok[OF m(1) p] by blast
  have sc: "result_ok (scanHost E a (m\<lparr>m_pending := Some p'\<rparr>))" if "p_target p' = p_target p" for a p'
  proof (rule scanHost_ok)
    show "menu_ok (m\<lparr>m_pending := Some p'\<rparr>)"
      using m(1,2) that kt action_mode_other[OF m(2)] by (auto simp: menu_ok_def modal_ok_def pending_ok_def)
  qed simp
  have acts: "menu_ok (m\<lparr>m_actions := as, m_mode := mode, m_actionCursor := 0\<rparr>)" if "mode \<in> set action_modes" for as mode
    using m(1) p kt action_mode_other[OF that] by (auto simp: menu_ok_def modal_ok_def pending_ok_def)
  have noacts: "menu_ok (closeModal t (m\<lparr>m_actions := []\<rparr>))" for t
    using closeModal_ok[OF m(1), of t] by (simp add: closeModal_def)
  have keys: "menu_ok (show_keys s p m)"
    using acts[of "''user_keys''"] closeModal_ok[OF m(1)] by (auto simp: show_keys_def action_modes_def split: sum.split)
  have totp: "menu_ok (setup_totp E p m)"
    using change[of "''totp_enroll''"] closeModal_ok[OF m(1)] by (auto simp: setup_totp_def Let_def mode_lists split: sum.split)
  have member: "menu_ok (choose_member b p m)" for b
    using acts[of "''member_add''"] acts[of "''member_remove''"] noacts by (auto simp: choose_member_def Let_def action_modes_def)
  have cm: "handled_ok (change_member m p b)" for b
  proof -
    have "0 < length (m_actions m)" using m(3) by simp
    then have "at (m_actions m) (m_actionCursor m) = Some (m_actions m ! nat (m_actionCursor m))"
      using m(1,2) by (auto simp: menu_ok_def modal_ok_def at_def)
    then show ?thesis using m(1) by (simp add: change_member_def Let_def result_ok_Pair mutate_ok SetGroupMember_ok)
  qed
  have r: "menu_ok (m\<lparr>m_pending := Some (p\<lparr>p_kind := code\<rparr>), m_mode := ''confirm_delete''\<rparr>)"
    by (rule change) (simp_all add: mode_lists)
  have v: "menu_ok (m\<lparr>m_mode := ''identity_public''\<rparr>)" "menu_ok (m\<lparr>m_mode := ''public_key''\<rparr>)" by (rule plain; simp add: mode_lists)+
  show ?thesis
    using m(1) p mc forms sc keys totp member cm r v dispatch_command_ok[of m m p code]
    by (simp add: dispatchAction_def Let_def result_ok_Pair)
qed

lemma handled_if: "(b \<Longrightarrow> handled_ok x) \<Longrightarrow> (\<not> b \<Longrightarrow> handled_ok y) \<Longrightarrow> handled_ok (if b then x else y)"
  by simp

lemma handleActionKey_ok:
  assumes m: "menu_ok m" "m_mode m \<in> set action_modes" shows "handled_ok (handleActionKey E s m key)"
proof -
  let ?i = "m_actionCursor m" and ?n = "int (length (m_actions m))"
  have c: "0 \<le> ?i" "?i = 0 \<or> ?i < ?n" using m by (auto simp: menu_ok_def modal_ok_def)
  have move: "menu_ok (m\<lparr>m_actionCursor := j\<rparr>)" if "0 \<le> j" "j = 0 \<or> j < ?n" for j
    using m that by (auto simp: menu_ok_def modal_ok_def action_modes_def split: option.splits)
  obtain p where p: "m_pending m = Some p" using action_pending_ok[OF m] by blast
  have r: "menu_ok (m\<lparr>m_pending := Some (p\<lparr>p_kind := k, p_keyFingerprint := fp\<rparr>), m_mode := ''confirm_delete''\<rparr>)" for k fp
    by (rule change_pending_ok[OF m(1)]) (use menu_ok_pending[OF m(1) p] in \<open>simp_all add: mode_lists\<close>)
  have moves: "menu_ok (m\<lparr>m_actionCursor := (if ?i > 0 then ?i - 1 else ?i)\<rparr>)"
    "menu_ok (m\<lparr>m_actionCursor := (if ?i < ?n - 1 then ?i + 1 else ?i)\<rparr>)" "menu_ok (m\<lparr>m_actionCursor := 0\<rparr>)"
    "menu_ok (m\<lparr>m_actionCursor := (if ?n > 0 then ?n - 1 else ?i)\<rparr>)"
    using c m(1) by (auto intro!: move)
  have ent: "handled_ok (do {
        chosen \<leftarrow> at (m_actions m) ?i;
        if m_mode m = ''user_keys'' \<and> a_code chosen \<noteq> ''user_key_add'' then do {
          p \<leftarrow> m_pending m;
          Some (m\<lparr>m_pending := Some (p\<lparr>p_kind := ''user_key_remove'', p_keyFingerprint := a_code chosen\<rparr>),
                  m_mode := ''confirm_delete''\<rparr>, None) }
        else dispatchAction E s m
          (if m_mode m = ''member_add'' \<or> m_mode m = ''member_remove'' then m_mode m else a_code chosen) })" if "?n > 0"
  proof -
    have "at (m_actions m) ?i = Some (m_actions m ! nat ?i)" using c that by (auto simp: at_def)
    moreover have "handled_ok (dispatchAction E s m code)" for code by (rule dispatchAction_ok[OF m]) (use that in auto)
    ultimately show ?thesis using p r by (simp add: result_ok_Pair)
  qed
  show ?thesis
    unfolding handleActionKey_def Let_def
    by (intro handled_if ent) (simp_all add: moves moves[simplified] closeModal_ok m(1) result_ok_Pair split del: if_split)
qed

section \<open>Keys\<close>

definition key_ok :: "db \<Rightarrow> ((Model \<times> cmd option) \<times> db) option \<Rightarrow> bool" where
  "key_ok s r \<longleftrightarrow> (case r of None \<Rightarrow> False | Some (mc, s') \<Rightarrow> s' = s \<and> result_ok mc)"

lemma key_ok_simps [simp]: "key_ok s (Some (mc, s')) \<longleftrightarrow> s' = s \<and> result_ok mc" "\<not> key_ok s None"
  by (simp_all add: key_ok_def)

lemma key_if: "(b \<Longrightarrow> key_ok s x) \<Longrightarrow> (\<not> b \<Longrightarrow> key_ok s y) \<Longrightarrow> key_ok s (if b then x else y)"
  by simp

lemma key_ok_pure: "handled_ok h \<Longrightarrow> key_ok s (map_option (\<lambda>r. (r, s)) h)"
  by (cases h) simp_all

lemma type_key_ok: "menu_ok m \<Longrightarrow> menu_ok (type_key m key)"
  by (simp add: type_key_def)

lemma secret_pending:
  assumes "menu_ok m" "m_mode m \<in> set secret_modes"
  obtains p where "m_pending m = Some p" "p_kind p = ''target_add'' \<longrightarrow> p_hostKey p \<noteq> None" "m_mode m = ''confirm_host'' \<longrightarrow> p_hostKey p \<noteq> None"
  using assms by (auto simp: menu_ok_def modal_ok_def pending_ok_def pending_modes_def split: option.splits)

lemma secret_mode_ok:
  assumes "menu_ok m" "m_pending m = Some p" "p_kind p = ''target_add'' \<longrightarrow> p_hostKey p \<noteq> None"
    "mode \<in> set [''secret_password'', ''secret_key'', ''secret_passphrase'', ''agent_key'']"
  shows "menu_ok (m\<lparr>m_mode := mode\<rparr>)"
  by (rule plain_mode_ok[OF assms(1,2)]) (use assms(3,4) in \<open>auto simp: mode_lists\<close>)

lemma confirm_host_key_ok:
  assumes m: "menu_ok m" "m_mode m = ''confirm_host''" shows "handled_ok (confirm_host_key E m key)"
proof -
  have "m_mode m \<in> set secret_modes" using m(2) by (simp add: secret_modes_def)
  then obtain p where p: "m_pending m = Some p" "p_kind p = ''target_add'' \<longrightarrow> p_hostKey p \<noteq> None" "p_hostKey p \<noteq> None"
    using secret_pending[OF m(1)] m(2) by metis
  have n: "menu_ok (m\<lparr>m_mode := [], m_pending := None\<rparr>)"
    using m(1) by (simp add: menu_ok_def modal_ok_def pending_ok_def mode_lists)
  show ?thesis
    using m(1) p n secret_mode_ok[OF m(1) p(1,2)] finishHostKey_ok[OF m(1) p(1,3)] finishStoredTarget_ok[OF m(1) p(1,3)]
    by (simp add: confirm_host_key_def result_ok_Pair)
qed

lemma submit_private_key_ok:
  assumes m: "menu_ok m" "m_mode m = ''secret_key''" shows "handled_ok (submit_private_key E m)"
proof -
  have "m_mode m \<in> set secret_modes" using m(2) by (simp add: secret_modes_def)
  then obtain p where p: "m_pending m = Some p" "p_kind p = ''target_add'' \<longrightarrow> p_hostKey p \<noteq> None"
    using secret_pending[OF m(1)] by metis
  have s: "menu_ok (m\<lparr>m_pending := Some (p\<lparr>p_privateKey := k\<rparr>), m_mode := ''secret_passphrase''\<rparr>)" for k
    using m(1) p menu_ok_pending[OF m(1) p(1)] by (simp add: menu_ok_def modal_ok_def pending_ok_def action_modes_def)
  show ?thesis
    using m(1) p s finishIdentityPayload_ok[OF m(1) p(1)] finishCredential_ok[OF m(1) p(1,2)]
    by (simp add: submit_private_key_def result_ok_Pair finishIdentity_def split: sum.split)
qed

lemma submit_passphrase_ok:
  assumes m: "menu_ok m" "m_mode m = ''secret_passphrase''" shows "handled_ok (submit_passphrase E m)"
proof -
  have "m_mode m \<in> set secret_modes" using m(2) by (simp add: secret_modes_def)
  then obtain p where p: "m_pending m = Some p" "p_kind p = ''target_add'' \<longrightarrow> p_hostKey p \<noteq> None"
    using secret_pending[OF m(1)] by metis
  show ?thesis
    using m(1) p finishIdentityPayload_ok[OF m(1) p(1)] finishCredential_ok[OF m(1) p]
    by (simp add: submit_passphrase_def result_ok_Pair finishIdentityWithPassphrase_def split: sum.split)
qed

lemma handle_input_key_ok:
  assumes m: "menu_ok m" shows "handled_ok (handle_input_key E m key)"
proof -
  have pw: "result_ok (finishCredential E payload m)" if mode: "m_mode m = ''secret_password''" for payload
  proof -
    have "m_mode m \<in> set secret_modes" using mode by (simp add: secret_modes_def)
    then show ?thesis using secret_pending[OF m] finishCredential_ok[OF m] by metis
  qed
  show ?thesis
    using m pw closeModal_ok[OF m] type_key_ok[OF m] confirm_host_key_ok[OF m] submit_private_key_ok[OF m] submit_passphrase_ok[OF m]
    by (simp add: handle_input_key_def Let_def result_ok_Pair)
qed

lemma mode_pending:
  assumes "menu_ok m" "m_mode m \<in> set pending_modes" shows "\<exists>p. m_pending m = Some p"
  using assms by (auto simp: menu_ok_def modal_ok_def pending_ok_def split: option.splits)

lemma handleModeKey_ok:
  assumes m: "menu_ok m" shows "key_ok s (handleModeKey E s m key)"
proof -
  have ta: "m_mode m \<noteq> ''totp_auth''" using m by (simp add: menu_ok_def modal_ok_def)
  have hlp: "menu_ok (m\<lparr>m_mode := []\<rparr>)"
    using m by (auto simp: menu_ok_def modal_ok_def pending_ok_def mode_lists split: option.splits)
  have en: "menu_ok (m\<lparr>m_mode := ''totp_confirm''\<rparr>)" if "m_mode m = ''totp_enroll''"
  proof -
    have "m_mode m \<in> set pending_modes" using that by (simp add: mode_lists)
    then obtain p where "m_pending m = Some p" using mode_pending[OF m] by blast
    then show ?thesis by (rule plain_mode_ok[OF m]) (simp_all add: mode_lists)
  qed
  have pmode: "mode \<in> set pending_modes" if "mode \<in> set [''totp_confirm'', ''confirm_delete'', ''public_key'']" for mode
    using that by (auto simp: mode_lists)
  have tc: "handled_ok (finishTOTPEnrollment E m)" if "m_mode m = ''totp_confirm''"
    using mode_pending[OF m] finishTOTPEnrollment_ok[OF m] pmode[of "''totp_confirm''"] that by auto
  have de: "handled_ok (finishDelete m)" if "m_mode m = ''confirm_delete''"
    using mode_pending[OF m] finishDelete_ok[OF m] pmode[of "''confirm_delete''"] that by auto
  have pk: "handled_ok (finishPublicKey E m)" if "m_mode m = ''public_key''"
    using mode_pending[OF m] finishPublicKey_ok[OF m] pmode[of "''public_key''"] that by auto
  have ak: "result_ok (finishAgentKey E m)" if mode: "m_mode m = ''agent_key''"
  proof -
    have "m_mode m \<in> set secret_modes" using mode by (simp add: secret_modes_def)
    then show ?thesis using secret_pending[OF m] finishAgentKey_ok[OF m] by metis
  qed
  note parts = key_ok_pure[OF handleFormKey_ok[OF m]] key_ok_pure[OF handleActionKey_ok[OF m]] key_ok_pure[OF tc] key_ok_pure[OF de]
    key_ok_pure[OF pk] key_ok_pure[OF handle_input_key_ok[OF m]] hlp en ak closeModal_ok[OF m] completeOIDCLink_ok[OF m] m ta
  show ?thesis
    unfolding handleModeKey_def Let_def
    by (intro key_if parts(1-6)) (simp_all add: parts result_ok_Pair split del: if_split)
qed

lemma search_key_ok: "menu_ok m \<Longrightarrow> menu_ok (search_key m key)"
  by (simp add: search_key_def Let_def menu_ok_def list_ok_def)

lemma admin_key_ok: "menu_ok m \<Longrightarrow> menu_ok (admin_key m key)"
  by (simp add: admin_key_def Let_def menu_ok_def list_ok_def changeSection_def)

lemma clamp_ok: "0 \<le> m_cursor m \<Longrightarrow> list_all (\<lambda>t. kind_text (Target_CredentialKind t)) (m_targets m) \<Longrightarrow> modal_ok m \<Longrightarrow> menu_ok (clamp m)"
  by (auto simp: clamp_def menu_ok_def list_ok_def)

lemma pageSize_pos: "1 \<le> pageSize m"
  by (simp add: pageSize_def Let_def)

lemma list_key_ok:
  assumes m: "menu_ok m" "m_mode m = []" shows "handled_ok (list_key m key)"
proof -
  have cur: "0 \<le> m_cursor m" "m_cursor m = 0 \<or> m_cursor m < int (itemCount m)" using m(1) by (auto simp: menu_ok_def list_ok_def)
  have go: "menu_ok (m\<lparr>m_cursor := c\<rparr>)" if "0 \<le> c" "c = 0 \<or> c < int (itemCount m)" for c
    using m(1) that by (simp add: menu_ok_def list_ok_def)
  have moves: "menu_ok (m\<lparr>m_cursor := (if m_cursor m > 0 then m_cursor m - 1 else m_cursor m)\<rparr>)"
    "menu_ok (m\<lparr>m_cursor := (if m_cursor m < int (itemCount m) - 1 then m_cursor m + 1 else m_cursor m)\<rparr>)"
    "menu_ok (m\<lparr>m_cursor := (if m_cursor m - pageSize m < 0 then 0 else m_cursor m - pageSize m)\<rparr>)"
    "menu_ok (m\<lparr>m_cursor := 0\<rparr>)"
    "menu_ok (m\<lparr>m_cursor := (if int (itemCount m) > 0 then int (itemCount m) - 1 else m_cursor m)\<rparr>)"
    using cur pageSize_pos[of m] m(1) by (auto intro!: go)
  have pd: "menu_ok (clamp (m\<lparr>m_cursor := m_cursor m + pageSize m\<rparr>))"
    by (rule clamp_ok) (use cur pageSize_pos[of m] m(1) in \<open>simp_all add: menu_ok_def list_ok_def\<close>)
  have q: "menu_ok (m\<lparr>m_query := [], m_cursor := 0\<rparr>)" using m(1) by (simp add: menu_ok_def list_ok_def)
  have h: "menu_ok (m\<lparr>m_mode := ''help''\<rparr>)"
    using m(1) by (auto simp: menu_ok_def modal_ok_def pending_ok_def mode_lists split: option.splits)
  have sel: "handled_ok (do { t \<leftarrow> at (filtered m) (m_cursor m); Some (m\<lparr>m_result := Some (connect_result (Target_ID t))\<rparr>, Some Quit) })"
    if "m_section m = ''targets''" "filtered m \<noteq> []"
    using cursor_at[OF m(1), of "filtered m"] that m(1) by (simp add: itemCount_def result_ok_Pair)
  have act: "handled_ok (do { m' \<leftarrow> openSelectedActions m; Some (m', None) })"
    using openSelectedActions_ok[OF m(1)] by (auto simp: result_ok_Pair)
  have s: "menu_ok (m\<lparr>m_searching := True, m_status := []\<rparr>)" using m(1) by simp
  show ?thesis
    unfolding list_key_def Let_def
    by (intro handled_if sel act) (simp_all add: moves moves[simplified] pd q h s m(1) result_ok_Pair)
qed

lemma handleKey_ok:
  assumes m: "menu_ok m" shows "key_ok s (handleKey E s m key)"
proof -
  have ak: "m_mode (admin_key m k) = m_mode m" for k by (simp add: admin_key_def Let_def changeSection_def)
  have lk: "handled_ok (list_key (if is_admin m then admin_key m key else m) key)" if "m_mode m = []"
    by (rule list_key_ok) (use m that admin_key_ok[OF m] ak in simp_all)
  have oa: "handled_ok (do { m' \<leftarrow> openSelectedActions m; Some (m', None) })"
    using openSelectedActions_ok[OF m] by (auto simp: result_ok_Pair)
  show ?thesis
    unfolding handleKey_def Let_def
    using m handleModeKey_ok[OF m] search_key_ok[OF m] startOIDCLink_ok[OF m] openAddForm_ok[OF m] load_cmd_ok[of m m]
    by (simp add: result_ok_Pair key_ok_pure[OF lk] key_ok_pure[OF oa])
qed

end
