(* ===== verification/Tui_Run.thy ===== *)
theory Tui_Run
  imports Tui_Handlers
begin

text \<open>
  Messages, drawing, and the whole run of a menu on a terminal: every message is handled, every chain of
  commands ends, every state can be drawn, within the height of the terminal.
\<close>

section \<open>Messages\<close>

lemma paste_ok:
  assumes m: "menu_ok m" shows "\<exists>m'. paste v m = Some m' \<and> menu_ok m'"
proof (cases "m_mode m = ''form'' \<and> m_form m \<noteq> None")
  case True
  then obtain f where f: "m_mode m = ''form''" "m_form m = Some f" by auto
  have fo: "form_ok (m_pending m) f" by (rule form_state[OF m f])
  then have "at (form_fields f) (form_index f) = Some (form_fields f ! nat (form_index f))" by (simp add: form_ok_def at_def)
  then show ?thesis using f m with_form_ok[OF m f(1) form_ok_type[OF fo]] by (simp add: paste_def)
next
  case False
  with m show ?thesis by (auto simp: paste_def split: option.split)
qed

lemma show_data_ok:
  assumes "menu_ok m" "list_all (\<lambda>t. kind_text (Target_CredentialKind t)) (d_targets v)" shows "menu_ok (show_data v m)"
  unfolding show_data_def
proof (rule clamp_ok)
  show "modal_ok (m\<lparr>m_targets := d_targets v, m_users := d_users v, m_groups := d_groups v,
     m_groupMembers := d_groupMembers v, m_identities := d_identities v, m_grants := d_grants v,
     m_forwardRules := d_forwardRules v, m_auditEvents := d_auditEvents v, m_oidcIdentities := d_oidcIdentities v,
     m_status := (case d_err v of Some e \<Rightarrow> err_text e | None \<Rightarrow> m_status m)\<rparr>)"
    using assms(1) by (auto simp: menu_ok_def modal_ok_def split: option.splits)
qed (use assms in \<open>simp_all add: menu_ok_def list_ok_def\<close>)

lemma no_mode_ok:
  assumes "list_ok m" "m_cipher m \<noteq> None" "m_mode m = []" "m_pending m = None" shows "menu_ok m"
  using assms by (simp add: menu_ok_def modal_ok_def pending_ok_def mode_lists)

lemma show_mutation_ok:
  assumes "menu_ok m" shows "menu_ok (show_mutation v m)"
  by (rule no_mode_ok)
    (use assms in \<open>auto simp: show_mutation_def Let_def menu_ok_def modal_ok_def list_ok_def split: option.split\<close>)

lemma shown_host_key_ok:
  assumes m: "menu_ok m" "m_pending m = Some p"
  shows "menu_ok (m\<lparr>m_pending := Some (p\<lparr>p_hostKey := Some k\<rparr>), m_mode := ''confirm_host''\<rparr>)"
  using m menu_ok_pending[OF m] by (simp add: menu_ok_def modal_ok_def pending_ok_def action_modes_def)

text \<open>A message that is not a key or a paste leads to nothing more than reading the data again.\<close>

definition settled :: "Model \<Rightarrow> cmd option \<Rightarrow> bool" where
  "settled m c \<longleftrightarrow> c = None \<or> c = Some (load_cmd m)"

lemma Update_ok:
  assumes m: "menu_ok m" "msg_ok m msg"
  shows "\<exists>m' c. Update E m msg s = Some ((m', c), s) \<and> menu_ok m' \<and> settled m' c"
proof -
  have l: "menu_ok (m\<lparr>m_oidcLogin := login, m_mode := ''oidc_link''\<rparr>)" for login
    using m(1) by (auto simp: menu_ok_def modal_ok_def pending_ok_def mode_lists split: option.splits)
  have n: "menu_ok (m\<lparr>m_mode := [], m_pending := None\<rparr>)"
    by (rule no_mode_ok) (use m(1) in \<open>simp_all add: menu_ok_def modal_ok_def\<close>)
  show ?thesis
  proof (cases msg)
    case (HostKeyMsg r)
    then obtain p where "m_pending m = Some p" using m(2) by auto
    with HostKeyMsg n shown_host_key_ok[OF m(1)] show ?thesis
      by (cases r) (simp_all add: Update_def settled_def)
  next
    case (OidcBeginMsg r)
    then show ?thesis using l closeModal_ok[OF m(1)] by (cases r) (simp_all add: Update_def settled_def)
  next
    case (OidcLinkMsg i e)
    then show ?thesis using n closeModal_ok[OF m(1)] by (cases e) (simp_all add: Update_def settled_def Let_def)
  qed (use m show_data_ok[OF m(1)] show_mutation_ok[OF m(1)] in \<open>simp_all add: Update_def settled_def Let_def\<close>)
qed

text \<open>Reading the data again ends the chain.\<close>

lemma applyCommand_None: "applyCommand E m None s = Some (m, s)"
  by (subst applyCommand.simps) simp

lemma load_chain:
  assumes "menu_ok m" "store_ok s"
  shows "applyCommand E m (Some (load_cmd m)) s = Some (show_data (load m s) m, s)"
  by (subst applyCommand.simps) (simp add: load_cmd_def Update_def applyCommand_None)

lemma settled_chain:
  assumes "menu_ok m" "settled m c" "store_ok s"
  shows "\<exists>m'. applyCommand E m c s = Some (m', s) \<and> menu_ok m'"
  using assms load_chain[OF assms(1,3)] show_data_ok[OF assms(1) load_targets_ok[OF assms(3)]]
  by (auto simp: settled_def applyCommand_None)

lemma applyMessage_ok:
  assumes "menu_ok m" "msg_ok m msg" "store_ok s"
  shows "\<exists>m'. applyMessage E m msg s = Some (m', s) \<and> menu_ok m'"
  using Update_ok[OF assms(1,2), of E s] settled_chain[OF _ _ assms(3)] by (auto simp: applyMessage_def)

lemma applyCommand_ok:
  assumes m: "result_ok (m, c)" and s: "store_ok s"
  shows "\<exists>m' s'. applyCommand E m c s = Some (m', s') \<and> menu_ok m' \<and> store_ok s'"
proof (cases c)
  case None
  with m s show ?thesis by (auto simp: applyCommand_None result_ok_Pair)
next
  case (Some cm)
  show ?thesis
  proof (cases cm)
    case Quit
    have "applyCommand E m c s = applyMessage E m QuitMsg s"
      by (subst applyCommand.simps) (simp add: Some Quit applyMessage_def)
    then show ?thesis using applyMessage_ok[of m QuitMsg s E] m s by (auto simp: result_ok_Pair)
  next
    case (Run f)
    with m s Some obtain msg s' where f: "f s = Some (msg, s')" "store_ok s'" "msg_ok m msg"
      by (auto simp: result_ok_Pair cmd_ok_def)
    have "applyCommand E m c s = applyMessage E m msg s'"
      by (subst applyCommand.simps) (simp add: Some Run f applyMessage_def)
    then show ?thesis using applyMessage_ok[OF _ f(3,2), of E] m f(2) by (auto simp: result_ok_Pair)
  qed
qed

section \<open>Drawing\<close>

text \<open>The rows in view: within the list, no more than the page holds, and with the cursor's row among them.\<close>

lemma page_bounds:
  fixes cursor height :: int
  assumes "0 \<le> cursor" "1 \<le> height"
  shows "0 \<le> cursor div height * height" "cursor div height * height \<le> cursor" "cursor < cursor div height * height + height"
proof -
  have "cursor = cursor div height * height + cursor mod height" by simp
  moreover have "0 \<le> cursor mod height" "cursor mod height < height" using assms(2) by simp_all
  ultimately show "cursor div height * height \<le> cursor" "cursor < cursor div height * height + height" by linarith+
  show "0 \<le> cursor div height * height" using assms by (simp add: pos_imp_zdiv_nonneg_iff)
qed

lemma visibleRange_cases:
  assumes "0 \<le> cursor"
  obtains q h where "0 \<le> q" "q \<le> cursor" "cursor < q + h" "1 \<le> h" "h \<le> max 1 height"
    "visibleRange cursor tot height = (if tot \<le> 0 then (0, 0)
       else if q + h > tot then (if tot < h then (0, tot) else (tot - h, tot)) else (q, q + h))"
proof
  let ?h = "if height < 1 then 1 else height"
  show "0 \<le> cursor div ?h * ?h" "cursor div ?h * ?h \<le> cursor" "cursor < cursor div ?h * ?h + ?h"
    by (rule page_bounds; use assms in simp)+
  show "visibleRange cursor tot height = (if tot \<le> 0 then (0, 0)
       else if cursor div ?h * ?h + ?h > tot then (if tot < ?h then (0, tot) else (tot - ?h, tot))
       else (cursor div ?h * ?h, cursor div ?h * ?h + ?h))"
    using assms by (simp add: visibleRange_def Let_def)
qed simp_all

lemma visibleRange_bounds:
  assumes v: "visibleRange cursor tot height = (a, b)" and c: "0 \<le> cursor"
  shows "0 \<le> a \<and> a \<le> b \<and> b - a \<le> max 1 height \<and> (0 \<le> tot \<longrightarrow> b \<le> tot) \<and> (0 < tot \<longrightarrow> a < b)
    \<and> (cursor < tot \<longrightarrow> a \<le> cursor \<and> cursor < b)"
proof -
  obtain q h where "0 \<le> q" "q \<le> cursor" "cursor < q + h" "1 \<le> h" "h \<le> max 1 height"
    "visibleRange cursor tot height = (if tot \<le> 0 then (0, 0)
       else if q + h > tot then (if tot < h then (0, tot) else (tot - h, tot)) else (q, q + h))"
    by (rule visibleRange_cases[OF c])
  with v show ?thesis by (simp split: if_splits)
qed

lemma rows_between_ok:
  "0 \<le> i \<Longrightarrow> i + int n \<le> int (length rows) \<Longrightarrow> \<exists>rs. rows_between rows i n = Some rs \<and> length rs = n"
proof (induction n arbitrary: i)
  case (Suc n)
  then have "at rows i = Some (rows ! nat i)" by (simp add: at_Some)
  with Suc.IH[of "i + 1"] Suc.prems show ?case by auto
qed simp

lemma length_map_index [simp]: "length (map_index f i xs) = length xs"
  by (induction f i xs rule: map_index.induct) simp_all

lemma nth_map_index: "n < length xs \<Longrightarrow> map_index f i xs ! n = f (i + int n) (xs ! n)"
proof (induction xs arbitrary: i n)
  case (Cons x xs)
  then show ?case by (cases n) (simp_all add: algebra_simps)
qed simp

lemma rows_between_nth:
  "rows_between rows i n = Some rs \<Longrightarrow> k < n \<Longrightarrow> 0 \<le> i \<Longrightarrow> rs ! k = rows ! nat (i + int k)"
proof (induction n arbitrary: i rs k)
  case (Suc n)
  then obtain rs' where rs: "rs = rows ! nat i # rs'" "rows_between rows (i + 1) n = Some rs'"
    by (auto simp: at_def split: if_splits bind_splits)
  show ?case
  proof (cases k)
    case (Suc k')
    with Suc.IH[OF rs(2), of k'] Suc.prems rs(1) show ?thesis by (simp add: algebra_simps)
  qed (simp add: rs)
qed simp

lemma frame_rows_ok:
  assumes "0 \<le> a" "a \<le> b" "b \<le> int (length rows)"
  shows "\<exists>ls. frame_rows T m inner lastRow rows a b = Some ls \<and> length ls = nat (b - a)
     \<and> (m_mode m = [] \<and> 0 < lastRow \<and> a \<le> m_cursor m \<and> m_cursor m < b \<longrightarrow>
          frame_line ('' '' @ brightCyan @ fit T (rows ! nat (m_cursor m)) inner @ reset @ '' '') \<in> set ls)"
proof -
  obtain rs where rs: "rows_between rows a (nat (b - a)) = Some rs" "length rs = nat (b - a)"
    using rows_between_ok[of a "nat (b - a)" rows] assms by auto
  define g where "g = (\<lambda>i row. frame_line ('' '' @ (if m_mode m = [] \<and> lastRow > 0 \<and> i = m_cursor m
         then brightCyan @ fit T row inner @ reset else fit T row inner) @ '' ''))"
  have "g (m_cursor m) (rows ! nat (m_cursor m)) \<in> set (map_index g a rs)" if "a \<le> m_cursor m" "m_cursor m < b"
  proof -
    let ?k = "nat (m_cursor m - a)"
    have k: "?k < length rs" using that rs(2) by linarith
    then have "map_index g a rs ! ?k = g (m_cursor m) (rows ! nat (m_cursor m))"
      using rows_between_nth[OF rs(1), of ?k] rs(2) that assms(1) by (simp add: nth_map_index)
    then show ?thesis using nth_mem[of ?k "map_index g a rs"] k by simp
  qed
  moreover have "frame_rows T m inner lastRow rows a b = Some (map_index g a rs)" by (simp add: frame_rows_def rs(1) g_def)
  moreover have "g (m_cursor m) row = frame_line ('' '' @ brightCyan @ fit T row inner @ reset @ '' '')"
    if "m_mode m = []" "0 < lastRow" for row using that by (simp add: g_def)
  ultimately show ?thesis using rs(2) by (intro exI[of _ "map_index g a rs"] conjI impI) auto
qed

lemma some_if: "(b \<Longrightarrow> \<exists>y. x = Some y) \<Longrightarrow> (\<not> b \<Longrightarrow> \<exists>y. z = Some y) \<Longrightarrow> \<exists>y. (if b then x else z) = Some y"
  by simp

lemma some_Some: "\<exists>y. Some x = Some y"
  by simp

lemma content_ok:
  assumes "menu_ok m" shows "\<exists>title hint rows. content T L inner m = Some (title, hint, rows)"
proof -
  have "\<exists>p. m_pending m = Some p" if "m_mode m = ''user_keys''"
    by (rule action_pending_ok[OF assms]) (simp add: that action_modes_def)
  then have a: "\<exists>page. action_content m = Some page" by (auto simp: action_content_def)
  have "\<exists>page. modalContent T L inner m = Some page"
    unfolding modalContent_def Let_def by (intro some_if a some_Some)
  then obtain page where "content T L inner m = Some page" by (cases "m_mode m = []") (auto simp: content_def)
  then show ?thesis by (cases page) auto
qed

lemma row_cursor_ok: "menu_ok m \<Longrightarrow> 0 \<le> row_cursor m"
  by (simp add: row_cursor_def menu_ok_def list_ok_def modal_ok_def)

lemma list_content_rows: "list_content T m = (title, hint, rows) \<Longrightarrow> length rows = itemCount m"
  by (auto simp: list_content_def Let_def itemCount_def split: if_splits)

lemma mainView_ok:
  assumes m: "menu_ok m" and h: "8 \<le> h"
  shows "\<exists>ls. mainView T L m w h = Some ls \<and> length ls = nat h
     \<and> (m_mode m = [] \<and> m_cursor m < int (itemCount m) \<longrightarrow>
          frame_line ('' '' @ brightCyan @ fit T (snd (snd (list_content T m)) ! nat (m_cursor m)) (w - 4) @ reset @ '' '') \<in> set ls)"
proof -
  obtain title hint rows where c: "content T L (w - 4) m = Some (title, hint, rows)" using content_ok[OF m] by blast
  obtain a b where v: "visibleRange (row_cursor m) (int (length rows)) (if h - 8 < 1 then 1 else h - 8) = (a, b)" by fastforce
  note vb = visibleRange_bounds[OF v row_cursor_ok[OF m]]
  obtain es where es: "frame_rows T m (w - 4) (int (length rows)) [empty_row m] 0 1 = Some es" "length es = 1"
    using frame_rows_ok[of 0 1 "[empty_row m]" T m "w - 4" "int (length rows)"] by auto
  obtain rs where rs: "frame_rows T m (w - 4) (int (length rows)) rows a b = Some rs" "length rs = nat (b - a)"
    "m_mode m = [] \<and> 0 < int (length rows) \<and> a \<le> m_cursor m \<and> m_cursor m < b \<longrightarrow>
          frame_line ('' '' @ brightCyan @ fit T (rows ! nat (m_cursor m)) (w - 4) @ reset @ '' '') \<in> set rs"
    using frame_rows_ok[of a b rows T m "w - 4" "int (length rows)"] vb by auto
  define shown where "shown = (if rows = [] then es else rs)"
  have "b - a \<le> max 1 (h - 8)" using vb h by (auto split: if_splits)
  then have sl: "length shown + 5 \<le> nat h" using es(2) rs(2) h by (auto simp: shown_def)
  define heads where "heads = head_lines T m w hint (frame_label m title (int (length rows)) a b)"
  have heads: "length heads = 5" by (simp add: heads_def head_lines_def)
  let ?ls = "fill_frame T m w h (heads @ shown)"
  have mv: "mainView T L m w h = Some ?ls"
    unfolding mainView_def c Option.bind.simps Let_def prod.case v
    by (cases "rows = []") (use es(1) rs(1) in \<open>simp_all add: shown_def heads_def\<close>)
  have len: "length ?ls = nat h" using sl h heads by (simp add: fill_frame_def)
  have sub: "set shown \<subseteq> set ?ls" using sl heads by (auto simp: fill_frame_def)
  show ?thesis
  proof (intro exI[of _ ?ls] conjI impI mv len)
    assume l: "m_mode m = [] \<and> m_cursor m < int (itemCount m)"
    then have lc: "list_content T m = (title, hint, rows)" using c by (simp add: content_def)
    have "row_cursor m = m_cursor m" using l by (simp add: row_cursor_def action_modes_def)
    then have "frame_line ('' '' @ brightCyan @ fit T (rows ! nat (m_cursor m)) (w - 4) @ reset @ '' '') \<in> set rs"
      using rs(3) l vb list_content_rows[OF lc] row_cursor_ok[OF m] by auto
    moreover have "rows \<noteq> []" using l list_content_rows[OF lc] row_cursor_ok[OF m] \<open>row_cursor m = m_cursor m\<close> by auto
    ultimately show "frame_line ('' '' @ brightCyan @ fit T (snd (snd (list_content T m)) ! nat (m_cursor m)) (w - 4) @ reset @ '' '')
        \<in> set ?ls" using sub by (auto simp: lc shown_def)
  qed
qed

text \<open>The width and height a frame is drawn for: one less than the terminal's, which is taken for 80 by 24 when unknown.\<close>

definition frame_width :: "Model \<Rightarrow> int" where
  "frame_width m = (let w = (if m_width m \<le> 0 then 80 else m_width m) in if w > 1 then w - 1 else w)"

definition frame_height :: "Model \<Rightarrow> int" where
  "frame_height m = (let h = (if m_height m \<le> 0 then 24 else m_height m) in if h > 1 then h - 1 else h)"

lemma View_lines_eq:
  "View_lines T L m = (if frame_width m < 20 \<or> frame_height m < 8 then Some (compactView T m (frame_width m) (frame_height m))
     else if m_mode m = ''totp_enroll'' then Some (totpEnrollmentView T m (frame_width m) (frame_height m))
     else mainView T L m (frame_width m) (frame_height m))"
  by (simp add: View_lines_def frame_width_def frame_height_def Let_def)

lemma frame_height_pos: "1 \<le> frame_height m"
  by (simp add: frame_height_def Let_def)

lemma compact_length: "1 \<le> h \<Longrightarrow> length (compactView T m w h) \<le> nat h"
  by (simp add: compactView_def Let_def)

lemma enrollment_length: "1 \<le> h \<Longrightarrow> length (totpEnrollmentView T m w h) = nat h"
  by (simp add: totpEnrollmentView_def Let_def)

lemma View_ok: "menu_ok m \<Longrightarrow> \<exists>v. View T L m = Some v"
  using mainView_ok[of m "frame_height m" T L "frame_width m"] by (auto simp: View_def View_lines_eq)

lemma View_height:
  assumes "menu_ok m"
  shows "\<exists>ls. View_lines T L m = Some ls \<and> length ls \<le> nat (frame_height m)
     \<and> (20 \<le> frame_width m \<and> 8 \<le> frame_height m \<longrightarrow> length ls = nat (frame_height m))"
  using mainView_ok[OF assms, of "frame_height m" T L "frame_width m"] frame_height_pos[of m]
  by (auto simp: View_lines_eq compact_length enrollment_length)

section \<open>The run\<close>

lemma render_ok: "menu_ok (r_model st) \<Longrightarrow> \<exists>st'. render T L st = Some st' \<and> r_model st' = r_model st \<and> r_store st' = r_store st"
  using View_ok[of "r_model st" T L]
  by (auto simp: render_def write_text_def split: list.split sum.split)

definition remote_ok :: "remote \<Rightarrow> bool" where
  "remote_ok st \<longleftrightarrow> menu_ok (r_model st) \<and> store_ok (r_store st)"

lemma render_keeps: "remote_ok st \<Longrightarrow> \<exists>st'. render T L st = Some st' \<and> remote_ok st'"
  using render_ok[of st T L] by (auto simp: remote_ok_def)

lemma exec_all_ok: "store_ok s \<Longrightarrow> store_ok (foldl exec s ops)"
  by (induction ops arbitrary: s) (simp_all add: exec_ok)

lemma remote_ok_upd [simp]:
  "remote_ok (st\<lparr>r_status := x\<rparr>) = remote_ok st" "remote_ok (st\<lparr>r_pending := p\<rparr>) = remote_ok st"
  "remote_ok (st\<lparr>r_written := w\<rparr>) = remote_ok st" "remote_ok (finish_if_done st) = remote_ok st" "remote_ok (write_text v st) = remote_ok st"
  by (simp_all add: remote_ok_def finish_if_done_def write_text_def split: option.split list.split sum.split)

lemma event_key_ok:
  assumes "menu_ok m"
  shows "key_ok s (if ev_paste ev \<noteq> [] then Update E m (PasteMsg (ev_paste ev)) s else handleKey E s m (ev_key ev))"
  using paste_ok[OF assms, of "ev_paste ev"] handleKey_ok[OF assms] by (auto simp: Update_def result_ok_Pair)

lemma run_event_ok:
  assumes st: "remote_ok st" shows "\<exists>st'. run_event T L out ev st = Some st' \<and> remote_ok st'"
proof -
  define E where "E = fst (out (r_count st))"
  define s where "s = foldl exec (r_store st) (snd (out (r_count st)))"
  have s: "store_ok s" using st by (simp add: remote_ok_def s_def exec_all_ok)
  obtain m c where h: "(if ev_paste ev \<noteq> [] then Update E (r_model st) (PasteMsg (ev_paste ev)) s else handleKey E s (r_model st) (ev_key ev))
      = Some ((m, c), s)" and r: "result_ok (m, c)"
    using event_key_ok[of "r_model st" s ev E] st
    by (cases "if ev_paste ev \<noteq> [] then Update E (r_model st) (PasteMsg (ev_paste ev)) s else handleKey E s (r_model st) (ev_key ev)")
      (auto simp: remote_ok_def)
  define st1 where "st1 = st\<lparr>r_model := m, r_store := s, r_count := r_count st + 1\<rparr>"
  have st1: "remote_ok st1" using r s by (simp add: remote_ok_def st1_def result_ok_Pair)
  obtain st2 where st2: "render T L st1 = Some st2" "remote_ok st2" using render_keeps[OF st1] by blast
  obtain m' s'' where a: "applyCommand E m c s = Some (m', s'')" "menu_ok m'" "store_ok s''" using applyCommand_ok[OF r s] by blast
  have "remote_ok (st2\<lparr>r_model := m', r_store := s''\<rparr>)" using a by (simp add: remote_ok_def)
  then obtain st3 where st3: "render T L (st2\<lparr>r_model := m', r_store := s''\<rparr>) = Some st3" "remote_ok st3" using render_keeps by blast
  show ?thesis
    unfolding run_event_def Let_def E_def[symmetric] s_def[symmetric] h Option.bind.simps prod.case st1_def[symmetric]
    using st1 st2 st3 a(1) by (cases c) simp_all
qed

lemma run_events_ok: "remote_ok st \<Longrightarrow> \<exists>st'. run_events T L out evs st = Some st' \<and> remote_ok st'"
proof (induction evs arbitrary: st)
  case (Cons ev evs)
  then show ?case using run_event_ok[OF Cons.prems, of T L out ev] by fastforce
qed simp

lemma read_end_ok [simp]: "remote_ok (read_end err st) = remote_ok st"
  by (simp add: read_end_def split: option.split)

lemma resized_ok: "remote_ok st \<Longrightarrow> remote_ok (st\<lparr>r_model := (r_model st)\<lparr>m_width := w, m_height := h\<rparr>\<rparr>)"
  by (simp add: remote_ok_def)

lemma remote_step_ok:
  assumes "remote_ok st" shows "\<exists>st'. remote_step T L out st e = Some st' \<and> remote_ok st'"
proof (cases "r_status st \<noteq> Running")
  case False
  show ?thesis
  proof (cases e)
    case (ReadDone data err)
    obtain evs rest where p: "parseInput (r_pending st @ data) = (evs, rest)" by fastforce
    obtain st' where "run_events T L out evs (st\<lparr>r_pending := rest\<rparr>) = Some st'" "remote_ok st'"
      using run_events_ok[of "st\<lparr>r_pending := rest\<rparr>" T L out evs] assms by auto
    then show ?thesis using assms by (simp add: remote_step_def ReadDone p)
  qed (use False assms render_keeps[OF resized_ok[OF assms]] in \<open>auto simp: remote_step_def\<close>)
qed (use assms in \<open>simp add: remote_step_def\<close>)

lemma remote_loop_ok: "remote_ok st \<Longrightarrow> \<exists>st'. remote_loop T L out es st = Some st' \<and> remote_ok st'"
proof (induction es arbitrary: st)
  case (Cons e es)
  then show ?case using remote_step_ok[OF Cons.prems, of T L out e] by fastforce
qed simp

lemma open_screen_ok:
  assumes m: "menu_ok m" and s: "store_ok s" shows "\<exists>st. open_screen E w h m s writes = Some st \<and> remote_ok st"
proof -
  have "m_mode m \<noteq> ''totp_auth''" using m by (simp add: menu_ok_def modal_ok_def)
  moreover obtain m' where "applyMessage E (m\<lparr>m_width := w, m_height := h\<rparr>) ReloadMsg s = Some (m', s)" "menu_ok m'"
    using applyMessage_ok[of "m\<lparr>m_width := w, m_height := h\<rparr>" ReloadMsg s E] m s by auto
  moreover have "remote_ok \<lparr>r_model = m', r_store = s, r_pending = [], r_count = 0, r_written = [], r_writes = writes,
      r_status = Running\<rparr>" if "menu_ok m'" for m' using that s by (simp add: remote_ok_def)
  ultimately show ?thesis by (simp add: open_screen_def Let_def)
qed

lemma RunRemote_ok:
  assumes "menu_ok m" "store_ok s" shows "\<exists>st. RunRemote T L out E w h m s writes es = Some st \<and> remote_ok st"
proof -
  obtain st0 where st0: "open_screen E w h m s writes = Some st0" "remote_ok st0" using open_screen_ok[OF assms] by blast
  obtain st1 where st1: "render T L st0 = Some st1" "remote_ok st1" using render_keeps[OF st0(2)] by blast
  obtain st2 where "remote_loop T L out es st1 = Some st2" "remote_ok st2" using remote_loop_ok[OF st1(2)] by blast
  with st0 st1 show ?thesis by (simp add: RunRemote_def)
qed

end
