(* ===== verification/Tui_Member.thy ===== *)
theory Tui_Member
  imports Tui_Run
begin

text \<open>
  What the menu lets a member do: every store operation a member's menu starts reads, or links the
  member's own account and records that in the audit log.
\<close>

section \<open>Changes to one's own account\<close>

definition own_change :: "int \<Rightarrow> db \<Rightarrow> db \<Rightarrow> bool" where
  "own_change uid s s' \<longleftrightarrow> s' = s\<lparr>oidc_identities := oidc_identities s', audit_events := audit_events s'\<rparr>
     \<and> filter (\<lambda>r. oidc_user_id r \<noteq> uid) (oidc_identities s') = filter (\<lambda>r. oidc_user_id r \<noteq> uid) (oidc_identities s)"

lemma own_change_refl [simp]: "own_change uid s s"
  by (simp add: own_change_def)

lemma own_change_trans:
  assumes "own_change uid s s1" "own_change uid s1 s2" shows "own_change uid s s2"
proof -
  have "s2 = s1\<lparr>oidc_identities := oidc_identities s2, audit_events := audit_events s2\<rparr>"
    "s1 = s\<lparr>oidc_identities := oidc_identities s1, audit_events := audit_events s1\<rparr>"
    using assms by (simp_all add: own_change_def)
  then have "s2 = s\<lparr>oidc_identities := oidc_identities s2, audit_events := audit_events s2\<rparr>" by (cases s, cases s1, cases s2) simp
  with assms show ?thesis by (simp add: own_change_def)
qed

lemma own_change_audit: "Audit s e = (r, s') \<Longrightarrow> own_change uid s s'"
  by (auto simp: Audit_def insert_audit_def Let_def own_change_def split: if_splits)

lemma filter_update_other: "(\<And>r. P r \<Longrightarrow> \<not> Q r) \<Longrightarrow> (\<And>r. Q (f r) = Q r) \<Longrightarrow> filter Q (update_where P f rs) = filter Q rs"
  by (induction rs) (auto simp: update_where_def)

lemma own_change_upsert: "oidc_upsert s uid issuer subject provider = (r, s') \<Longrightarrow> own_change uid s s'"
proof -
  assume u: "oidc_upsert s uid issuer subject provider = (r, s')"
  have "filter (\<lambda>r. oidc_user_id r \<noteq> uid) (update_where (\<lambda>r. oidc_user_id r = uid \<and> oidc_issuer r = issuer)
      (\<lambda>r. r\<lparr>oidc_subject := a, oidc_provider_username := b, oidc_updated_at := c\<rparr>) rs) = filter (\<lambda>r. oidc_user_id r \<noteq> uid) rs" for a b c rs
    by (rule filter_update_other) simp_all
  with u show ?thesis by (auto simp: oidc_upsert_def Let_def own_change_def split: if_splits)
qed

lemma own_change_link: "LinkOIDCIdentity s uid a b c = (r, s') \<Longrightarrow> own_change uid s s'"
  by (auto simp: LinkOIDCIdentity_def intro: own_change_upsert split: if_splits sum.splits prod.splits)

lemma own_change_link_account:
  assumes "link_account E m l v s = (msg, s')" shows "own_change (User_ID v) s s'"
proof (cases "e_Complete E l")
  case (Inr i)
  obtain r s1 where l: "LinkOIDCIdentity s (User_ID v) (m_oidcIssuer m) (Subject i) (Username i) = (r, s1)" by fastforce
  have "own_change (User_ID v) s s1" by (rule own_change_link[OF l])
  moreover have "own_change (User_ID v) s1 s'"
    using assms Inr l by (auto simp: link_account_def Let_def split: sum.splits prod.splits dest: own_change_audit)
  ultimately show ?thesis by (rule own_change_trans)
qed (use assms in \<open>simp add: link_account_def\<close>)

section \<open>A member's menu\<close>

definition member_modes :: "string list" where
  "member_modes = [[], ''help'', ''oidc_start'', ''oidc_link'', ''oidc_complete'']"

definition member_menu :: "User \<Rightarrow> Model \<Rightarrow> bool" where
  "member_menu v m \<longleftrightarrow> User_Role v \<noteq> RoleAdmin \<and> m_user m = v \<and> m_mode m \<in> set member_modes
     \<and> (\<forall>p. m_pending m = Some p \<longrightarrow> p_user p = v)"

text \<open>The messages of a member's commands.\<close>

definition member_msg :: "msg \<Rightarrow> bool" where
  "member_msg msg \<longleftrightarrow> (case msg of MutationMsg _ \<Rightarrow> False | HostKeyMsg _ \<Rightarrow> False | _ \<Rightarrow> True)"

lemma member_msg_simps [simp]:
  "member_msg ReloadMsg" "member_msg (DataMsg d)" "member_msg (OidcBeginMsg b)" "member_msg (OidcLinkMsg i e)"
  "member_msg (PasteMsg t)" "member_msg (WindowSizeMsg w h)" "member_msg (KeyPressMsg key)" "member_msg QuitMsg"
  "\<not> member_msg (MutationMsg x)" "\<not> member_msg (HostKeyMsg y)"
  by (simp_all add: member_msg_def)

definition member_cmd :: "User \<Rightarrow> cmd option \<Rightarrow> bool" where
  "member_cmd v c \<longleftrightarrow> (case c of
     Some (Run f) \<Rightarrow> (\<forall>s msg s'. f s = Some (msg, s') \<longrightarrow> member_msg msg \<and> own_change (User_ID v) s s')
   | _ \<Rightarrow> True)"

definition member_result :: "User \<Rightarrow> db \<Rightarrow> ((Model \<times> cmd option) \<times> db) option \<Rightarrow> bool" where
  "member_result v s r \<longleftrightarrow> (\<forall>m c s'. r = Some ((m, c), s') \<longrightarrow> s' = s \<and> member_menu v m \<and> member_cmd v c)"

lemma member_result_Some [simp]: "member_result v s (Some ((m, c), s')) \<longleftrightarrow> s' = s \<and> member_menu v m \<and> member_cmd v c"
  by (auto simp: member_result_def)

lemma member_cmd_simps [simp]: "member_cmd v None" "member_cmd v (Some Quit)" "member_cmd v (Some (load_cmd m))"
  by (simp_all add: member_cmd_def load_cmd_def)

lemma member_result_if:
  "(b \<Longrightarrow> member_result v s x) \<Longrightarrow> (\<not> b \<Longrightarrow> member_result v s y) \<Longrightarrow> member_result v s (if b then x else y)"
  by simp

lemma member_closeModal [simp]: "member_menu v m \<Longrightarrow> member_menu v (closeModal t m)"
  by (simp add: member_menu_def closeModal_def member_modes_def)

lemma member_startOIDCLink: "member_menu v m \<Longrightarrow> member_result v s (Some (startOIDCLink E m, s))"
  by (simp add: startOIDCLink_def member_menu_def member_modes_def member_cmd_def)

lemma member_link_cmd: "member_cmd v (Some (Run (\<lambda>s. Some (link_account E m l v s))))"
proof -
  have "member_msg (fst (link_account E m l v s))" for s
    by (simp add: link_account_def Let_def split: sum.split prod.split)
  then show ?thesis using own_change_link_account[of E m l v] by (simp add: member_cmd_def) (metis fst_conv)
qed

lemma member_completeOIDCLink: "member_menu v m \<Longrightarrow> member_result v s (Some (completeOIDCLink E m, s))"
  by (auto simp: completeOIDCLink_def member_menu_def member_modes_def member_link_cmd closeModal_def split: option.split)

lemma member_handleModeKey:
  assumes m: "member_menu v m" "m_mode m \<noteq> []" shows "member_result v s (handleModeKey E s m key)"
proof -
  have hlp: "member_menu v (m\<lparr>m_mode := []\<rparr>)" using m by (simp add: member_menu_def member_modes_def)
  have ty: "member_menu v (type_key m key)" using m by (simp add: type_key_def member_menu_def)
  consider "m_mode m = ''help''" | "m_mode m = ''oidc_start''" | "m_mode m = ''oidc_link''" | "m_mode m = ''oidc_complete''"
    using m by (auto simp: member_menu_def member_modes_def)
  then show ?thesis
    using hlp ty m(1) member_completeOIDCLink[OF m(1), of s E]
    by cases (simp_all add: handleModeKey_def handle_input_key_def Let_def action_modes_def)
qed

lemma member_menu_upd [simp]:
  "member_menu v (m\<lparr>m_cursor := c\<rparr>) = member_menu v m" "member_menu v (m\<lparr>m_status := t\<rparr>) = member_menu v m"
  "member_menu v (m\<lparr>m_result := r\<rparr>) = member_menu v m" "member_menu v (m\<lparr>m_query := q\<rparr>) = member_menu v m"
  "member_menu v (m\<lparr>m_searching := b\<rparr>) = member_menu v m" "member_menu v (m\<lparr>m_width := c\<rparr>) = member_menu v m"
  "member_menu v (m\<lparr>m_height := c\<rparr>) = member_menu v m" "member_menu v (clamp m) = member_menu v m"
  "member_menu v (search_key m key) = member_menu v m"
  by (simp_all add: member_menu_def clamp_def search_key_def Let_def)

lemma member_handleKey:
  assumes m: "member_menu v m" shows "member_result v s (handleKey E s m key)"
proof -
  have na: "\<not> is_admin m" using m by (simp add: member_menu_def is_admin_def)
  have hlp: "member_menu v (m\<lparr>m_mode := ''help''\<rparr>)" using m by (simp add: member_menu_def member_modes_def)
  have lk: "member_result v s (map_option (\<lambda>r. (r, s)) (list_key m key))"
    unfolding list_key_def Let_def
    using m hlp na by (auto simp: member_result_def split: if_splits bind_splits)
  show ?thesis
    unfolding handleKey_def Let_def
    by (intro member_result_if member_handleModeKey[OF m] member_startOIDCLink[OF m]) (use na m lk in simp_all)
qed

lemma member_show_data: "member_menu v m \<Longrightarrow> member_menu v (show_data d m)"
  by (simp add: show_data_def) (simp add: member_menu_def)

lemma member_Update:
  assumes m: "member_menu v m" "member_msg msg" shows "member_result v s (Update E m msg s)"
proof (cases msg)
  case (OidcBeginMsg r)
  have "member_menu v (m\<lparr>m_oidcLogin := login, m_mode := ''oidc_link''\<rparr>)" for login
    using m(1) by (simp add: member_menu_def member_modes_def)
  then show ?thesis using m by (cases r) (simp_all add: Update_def OidcBeginMsg)
next
  case (OidcLinkMsg i e)
  have "member_menu v (m\<lparr>m_mode := [], m_pending := None\<rparr>)" using m(1) by (simp add: member_menu_def member_modes_def)
  then show ?thesis using m by (cases e) (simp_all add: Update_def OidcLinkMsg Let_def)
next
  case (PasteMsg t)
  have "m_mode m \<noteq> ''secret_key'' \<and> m_mode m \<noteq> ''public_key'' \<and> m_mode m \<noteq> ''agent_key'' \<and> m_mode m \<noteq> ''form''"
    using m(1) unfolding member_menu_def member_modes_def by auto
  then have "paste t m = Some m" by (simp add: paste_def)
  then show ?thesis using m by (simp add: Update_def PasteMsg)
next
  case (KeyPressMsg key)
  then show ?thesis using member_handleKey[OF m(1), of s E key] by (simp add: Update_def)
next
  case (DataMsg d)
  then show ?thesis using member_show_data[OF m(1), of d] by (simp add: Update_def)
qed (use m in \<open>simp_all add: Update_def\<close>)

lemma member_chain_step:
  assumes m: "member_menu v m" and c: "member_cmd v (Some cm)"
    and f: "(case cm of Quit \<Rightarrow> Some (QuitMsg, s) | Run f \<Rightarrow> f s) = Some (msg, s1)" and u: "Update E m msg s1 = Some ((m1, c1), s2)"
  shows "member_menu v m1 \<and> member_cmd v c1 \<and> own_change (User_ID v) s s2"
proof -
  have ms: "member_msg msg" "own_change (User_ID v) s s1" using f c by (auto simp: member_cmd_def split: cmd.splits)
  moreover have "s2 = s1 \<and> member_menu v m1 \<and> member_cmd v c1" using member_Update[OF m ms(1), of s1 E] u by simp
  ultimately show ?thesis by simp
qed

lemma member_applyCommand:
  assumes "applyCommand E m c s = Some r"
  shows "member_menu v m \<longrightarrow> member_cmd v c \<longrightarrow> member_menu v (fst r) \<and> own_change (User_ID v) s (snd r)"
  using assms
proof (rule applyCommand.raw_induct[rotated, where P = "\<lambda>E m c s r. member_menu v m \<longrightarrow> member_cmd v c
    \<longrightarrow> member_menu v (fst r) \<and> own_change (User_ID v) s (snd r)"])
  fix chain E m c s r
  assume IH: "\<And>E m c s r. chain E m c s = Some r \<Longrightarrow> member_menu v m \<longrightarrow> member_cmd v c
      \<longrightarrow> member_menu v (fst r) \<and> own_change (User_ID v) s (snd r)"
    and eq: "(case c of None \<Rightarrow> Some (m, s) | Some cmd \<Rightarrow> Option.bind (case cmd of Quit \<Rightarrow> Some (QuitMsg, s) | Run f \<Rightarrow> f s) (\<lambda>a.
          Option.bind (Update E m (fst a) (snd a)) (\<lambda>r. chain E (fst (fst r)) (snd (fst r)) (snd r)))) = Some r"
  show "member_menu v m \<longrightarrow> member_cmd v c \<longrightarrow> member_menu v (fst r) \<and> own_change (User_ID v) s (snd r)"
  proof (cases c)
    case (Some cm)
    from eq Some obtain msg s1 m1 c1 s2 where f: "(case cm of Quit \<Rightarrow> Some (QuitMsg, s) | Run f \<Rightarrow> f s) = Some (msg, s1)"
      and u: "Update E m msg s1 = Some ((m1, c1), s2)" and r: "chain E m1 c1 s2 = Some r"
      by (auto split: bind_splits)
    show ?thesis using member_chain_step[OF _ _ f u, of v] IH[OF r] own_change_trans[of "User_ID v" s s2 "snd r"] by (simp add: Some)
  qed (use eq in auto)
qed

section \<open>A member's session\<close>

text \<open>What a session keeps when nobody else changes the store.\<close>

definition member_remote :: "User \<Rightarrow> db \<Rightarrow> remote \<Rightarrow> bool" where
  "member_remote v s0 st \<longleftrightarrow> member_menu v (r_model st) \<and> own_change (User_ID v) s0 (r_store st)"

lemma member_remote_upd [simp]:
  "member_remote v s0 (st\<lparr>r_status := x\<rparr>) = member_remote v s0 st" "member_remote v s0 (st\<lparr>r_pending := p\<rparr>) = member_remote v s0 st"
  "member_remote v s0 (st\<lparr>r_written := w\<rparr>) = member_remote v s0 st"
  "member_remote v s0 (finish_if_done st) = member_remote v s0 st" "member_remote v s0 (write_text t st) = member_remote v s0 st"
  "member_remote v s0 (read_end err st) = member_remote v s0 st"
  by (simp_all add: member_remote_def finish_if_done_def write_text_def read_end_def split: option.split list.split sum.split)

lemma member_render: "render T L st = Some st' \<Longrightarrow> member_remote v s0 st' = member_remote v s0 st"
  by (auto simp: render_def split: bind_splits)

lemma member_run_event:
  assumes st: "member_remote v s0 st" and alone: "\<forall>k. snd (out k) = []" and e: "run_event T L out ev st = Some st'"
  shows "member_remote v s0 st'"
proof -
  define E where "E = fst (out (r_count st))"
  define s where "s = r_store st"
  have mm: "member_menu v (r_model st)" and oc: "own_change (User_ID v) s0 s" using st by (simp_all add: member_remote_def s_def)
  have "foldl exec (r_store st) (snd (out (r_count st))) = s" by (simp add: alone s_def)
  note e = e[unfolded run_event_def Let_def this E_def[symmetric]]
  obtain m c s' where h: "(if ev_paste ev \<noteq> [] then Update E (r_model st) (PasteMsg (ev_paste ev)) s else handleKey E s (r_model st) (ev_key ev))
      = Some ((m, c), s')"
    using e by (auto split: bind_splits)
  have "member_result v s (if ev_paste ev \<noteq> [] then Update E (r_model st) (PasteMsg (ev_paste ev)) s else handleKey E s (r_model st) (ev_key ev))"
    by (intro member_result_if member_Update[OF mm] member_handleKey[OF mm]) simp
  with h have r: "s' = s" "member_menu v m" "member_cmd v c" by simp_all
  define st1 where "st1 = st\<lparr>r_model := m, r_store := s, r_count := r_count st + 1\<rparr>"
  have st1: "member_remote v s0 st1" using r oc by (simp add: member_remote_def st1_def)
  note e = e[unfolded h Option.bind.simps prod.case r(1) st1_def[symmetric]]
  show ?thesis
  proof (cases "m_result m \<noteq> None \<or> c = None")
    case True
    with e st1 show ?thesis by (auto split: if_splits dest: member_render)
  next
    case False
    then obtain st2 where st2: "render T L st1 = Some st2" using e by (auto split: bind_splits)
    with member_render[OF st2] st1 have "member_remote v s0 st2" by simp
    show ?thesis
    proof (cases "r_status st2 = Running")
      case True
      with e False st2 obtain m' s2 st3 where a: "applyCommand E m c s = Some (m', s2)"
        "render T L (st2\<lparr>r_model := m', r_store := s2\<rparr>) = Some st3" "st' = st3 \<or> st' = finish_if_done st3"
        by (auto split: bind_splits if_splits)
      have "member_menu v m' \<and> own_change (User_ID v) s0 s2"
        using member_applyCommand[OF a(1), of v] r(2,3) own_change_trans[OF oc] by auto
      then have "member_remote v s0 (st2\<lparr>r_model := m', r_store := s2\<rparr>)" by (simp add: member_remote_def)
      then have "member_remote v s0 st3" by (simp add: member_render[OF a(2)])
      with a(3) show ?thesis by auto
    qed (use e False st2 \<open>member_remote v s0 st2\<close> in \<open>auto split: if_splits\<close>)
  qed
qed

lemma member_run_events:
  assumes "\<forall>k. snd (out k) = []"
  shows "member_remote v s0 st \<Longrightarrow> run_events T L out evs st = Some st' \<Longrightarrow> member_remote v s0 st'"
proof (induction evs arbitrary: st)
  case (Cons ev evs)
  from Cons.prems(2) consider "st' = st" | st1 where "run_event T L out ev st = Some st1" "run_events T L out evs st1 = Some st'"
    by (auto split: if_splits bind_splits)
  then show ?case using Cons.prems(1) Cons.IH member_run_event[OF Cons.prems(1) assms] by cases blast+
qed simp

lemma member_remote_step:
  assumes alone: "\<forall>k. snd (out k) = []" and st: "member_remote v s0 st" and e: "remote_step T L out st e = Some st'"
  shows "member_remote v s0 st'"
proof (cases e)
  case (Window w h)
  have "member_remote v s0 (st\<lparr>r_model := (r_model st)\<lparr>m_width := w, m_height := h\<rparr>\<rparr>)" using st by (simp add: member_remote_def)
  with e st show ?thesis by (auto simp: remote_step_def Window split: if_splits dest: member_render)
next
  case (ReadDone data err)
  obtain evs rest where p: "parseInput (r_pending st @ data) = (evs, rest)" by fastforce
  from e consider "st' = st" | "st' = read_end err st"
    | st1 where "run_events T L out evs (st\<lparr>r_pending := rest\<rparr>) = Some st1" "st' = read_end err st1"
    by (auto simp: remote_step_def ReadDone p split: if_splits bind_splits)
  then show ?thesis using st member_run_events[OF alone, of v s0 "st\<lparr>r_pending := rest\<rparr>" T L evs] by cases auto
qed (use e st in \<open>auto simp: remote_step_def split: if_splits\<close>)

lemma member_remote_loop:
  assumes "\<forall>k. snd (out k) = []"
  shows "member_remote v s0 st \<Longrightarrow> remote_loop T L out es st = Some st' \<Longrightarrow> member_remote v s0 st'"
proof (induction es arbitrary: st)
  case (Cons e es)
  from Cons.prems(2) obtain st1 where "remote_step T L out st e = Some st1" "remote_loop T L out es st1 = Some st'"
    by (auto split: bind_splits)
  then show ?case using Cons.IH member_remote_step[OF assms Cons.prems(1)] by blast
qed simp

lemma member_open_screen:
  assumes "member_menu v m" "open_screen E w h m s writes = Some st" shows "member_remote v s st"
proof -
  let ?m = "m\<lparr>m_width := w, m_height := h\<rparr>"
  have mm: "member_menu v ?m" "m_mode m \<noteq> ''totp_auth''" using assms(1) by (auto simp: member_menu_def member_modes_def)
  with assms(2) obtain m' s' where a: "applyCommand E ?m (Some (load_cmd ?m)) s = Some (m', s')"
    "st = write_text enterScreen \<lparr>r_model = m', r_store = s', r_pending = [], r_count = 0, r_written = [],
          r_writes = writes, r_status = Running\<rparr>"
    by (auto simp: open_screen_def Let_def applyMessage_def Update_def split: bind_splits)
  have "member_menu v m' \<and> own_change (User_ID v) s s'" using member_applyCommand[OF a(1), of v] mm(1) by simp
  then show ?thesis by (simp add: a(2)) (simp add: member_remote_def)
qed

lemma member_RunRemote:
  assumes m: "member_menu v m" and alone: "\<forall>k. snd (out k) = []"
    and run: "RunRemote T L out E w h m s writes es = Some st"
  shows "member_remote v s st"
proof -
  obtain st0 where st0: "open_screen E w h m s writes = Some st0" using run by (auto simp: RunRemote_def split: bind_splits)
  have m0: "member_remote v s st0" by (rule member_open_screen[OF m st0])
  show ?thesis
  proof (cases "r_status st0 = Running")
    case True
    with run obtain st1 st2 where st: "render T L st0 = Some st1" "st2 = st1 \<or> remote_loop T L out es st1 = Some st2"
      "st = st2 \<or> st = st2\<lparr>r_written := r_written st2 @ [leaveScreen]\<rparr>"
      by (auto simp: RunRemote_def st0 split: if_splits bind_splits)
    have m1: "member_remote v s st1" using m0 by (simp add: member_render[OF st(1)])
    have "member_remote v s st2" using st(2) m1 member_remote_loop[OF alone m1] by blast
    with st(3) show ?thesis by auto
  qed (use run m0 in \<open>auto simp: RunRemote_def st0\<close>)
qed

end
