(* ===== verification/Tui_Audit.thy ===== *)
theory Tui_Audit
  imports Tui_Member
begin

text \<open>
  Accountability: every change an administrator makes in the menu that is reported as done has left a record
  of that administrator as the newest event of the audit log.
\<close>

section \<open>Recorded changes\<close>

definition recorded :: "User \<Rightarrow> string \<Rightarrow> db \<Rightarrow> bool" where
  "recorded v addr s \<longleftrightarrow> audit_events s \<noteq> [] \<and> Audit_ActorUserID (last (audit_events s)) = Some (User_ID v)
     \<and> Audit_ClaimedUsername (last (audit_events s)) = User_Username v \<and> Audit_SourceAddress (last (audit_events s)) = addr
     \<and> Audit_Outcome (last (audit_events s)) = ''success''"

definition logged :: "Model \<Rightarrow> msg \<Rightarrow> db \<Rightarrow> bool" where
  "logged m msg s \<longleftrightarrow> (case msg of MutationMsg w \<Rightarrow> mut_err w = None \<longrightarrow> recorded (m_user m) (m_sourceAddress m) s | _ \<Rightarrow> True)"

definition logs :: "Model \<Rightarrow> cmd option \<Rightarrow> bool" where
  "logs m c \<longleftrightarrow> (case c of Some (Run f) \<Rightarrow> (\<forall>s. case f s of None \<Rightarrow> True | Some r \<Rightarrow> logged m (fst r) (snd r)) | _ \<Rightarrow> True)"

text \<open>The menu of the same user from the same address.\<close>

definition same_user :: "Model \<Rightarrow> Model \<Rightarrow> bool" where
  "same_user m m' \<longleftrightarrow> m_user m' = m_user m \<and> m_sourceAddress m' = m_sourceAddress m"

definition result_logs :: "Model \<Rightarrow> Model \<times> cmd option \<Rightarrow> bool" where
  "result_logs m r \<longleftrightarrow> same_user m (fst r) \<and> logs m (snd r)"

definition handled_logs :: "Model \<Rightarrow> handled \<Rightarrow> bool" where
  "handled_logs m h \<longleftrightarrow> (case h of None \<Rightarrow> True | Some r \<Rightarrow> result_logs m r)"

lemma handled_logs_simps [simp]: "handled_logs m None" "handled_logs m (Some r) = result_logs m r"
  by (simp_all add: handled_logs_def)

lemma result_logs_Pair [simp]: "result_logs m (m', c) \<longleftrightarrow> same_user m m' \<and> logs m c"
  by (simp add: result_logs_def)

lemma logs_simps [simp]: "logs m None" "logs m (Some Quit)" "logs m (Some (load_cmd m'))"
  by (simp_all add: logs_def load_cmd_def logged_def)

lemma logs_Run: "logs m (Some (Run f)) \<longleftrightarrow> (\<forall>s. case f s of None \<Rightarrow> True | Some r \<Rightarrow> logged m (fst r) (snd r))"
  by (simp add: logs_def)

lemma same_user_simps [simp]:
  "same_user m m" "same_user m (m'\<lparr>m_status := t\<rparr>) = same_user m m'" "same_user m (m'\<lparr>m_input := t\<rparr>) = same_user m m'"
  "same_user m (m'\<lparr>m_mode := t\<rparr>) = same_user m m'" "same_user m (m'\<lparr>m_pending := p\<rparr>) = same_user m m'"
  "same_user m (m'\<lparr>m_form := f\<rparr>) = same_user m m'" "same_user m (m'\<lparr>m_actions := a\<rparr>) = same_user m m'"
  "same_user m (m'\<lparr>m_actionCursor := c\<rparr>) = same_user m m'" "same_user m (m'\<lparr>m_cursor := c\<rparr>) = same_user m m'"
  "same_user m (m'\<lparr>m_section := t\<rparr>) = same_user m m'" "same_user m (m'\<lparr>m_query := t\<rparr>) = same_user m m'"
  "same_user m (m'\<lparr>m_searching := b\<rparr>) = same_user m m'" "same_user m (m'\<lparr>m_result := r\<rparr>) = same_user m m'"
  "same_user m (m'\<lparr>m_oidcLogin := l\<rparr>) = same_user m m'"
  "same_user m (closeModal t m') = same_user m m'" "same_user m (clamp m') = same_user m m'"
  by (simp_all add: same_user_def closeModal_def clamp_def)

lemma audit_recorded: "audit m ev details s = (Inr x, s') \<Longrightarrow> recorded (m_user m) (m_sourceAddress m) s'"
  by (auto simp: audit_def Audit_def insert_audit_def audit_event_def audit_defaults_def recorded_def Let_def split: if_splits)

lemma audited_recorded: "audited m ev details r = (Inr x, s') \<Longrightarrow> recorded (m_user m) (m_sourceAddress m) s'"
  by (auto simp: audited_def split: prod.splits sum.splits dest: audit_recorded)

lemma logged_mutation: "logged m (mutation st sec e) s \<longleftrightarrow> (e = None \<longrightarrow> recorded (m_user m) (m_sourceAddress m) s)"
  by (simp add: logged_def mutation_def)

lemma logged_audit: "logged m (mutation st sec (err_of (fst (audit m ev details s)))) (snd (audit m ev details s))"
  by (cases "audit m ev details s") (auto simp: logged_mutation err_of_def dest: audit_recorded split: sum.splits)

lemma logged_audited: "logged m (mutation st sec (err_of (fst (audited m ev details r)))) (snd (audited m ev details r))"
  by (cases "audited m ev details r") (auto simp: logged_mutation err_of_def dest: audited_recorded split: sum.splits)

text \<open>The same for the menu whose user is \<open>m\<close>'s.\<close>

lemma logged_cong: "same_user m m' \<Longrightarrow> logged m' msg s = logged m msg s"
  by (simp add: logged_def same_user_def split: msg.split)

lemma logs_cong: "same_user m m' \<Longrightarrow> logs m' c = logs m c"
  by (auto simp: logs_def logged_cong split: option.split cmd.split)

lemma logs_mutate [simp]: "same_user m m' \<Longrightarrow> logs m (Some (mutate m' sec st ev details fn))"
proof -
  have "logs m' (Some (mutate m' sec st ev details fn))"
    by (simp add: logs_Run mutate_def case_prod_beta logged_audited)
  then show "same_user m m' \<Longrightarrow> ?thesis" by (simp add: logs_cong)
qed

lemma logged_error [simp]: "logged m (mutation st sec (Some e)) s"
  by (simp add: logged_mutation)

lemma handled_logs_if:
  "(b \<Longrightarrow> handled_logs m x) \<Longrightarrow> (\<not> b \<Longrightarrow> handled_logs m y) \<Longrightarrow> handled_logs m (if b then x else y)"
  by simp

section \<open>Every handler\<close>

lemma scanHost_logs: "same_user m m' \<Longrightarrow> result_logs m (scanHost E a m')"
  by (simp add: scanHost_def logs_Run logged_def)

lemma finishHostKey_logs: "result_logs m (finishHostKey E m)"
  by (simp add: finishHostKey_def logs_Run case_prod_beta logged_audited split: option.split bind_split)

lemma finishStoredTarget_logs: "result_logs m (finishStoredTarget E m)"
  by (auto simp: finishStoredTarget_def logs_Run case_prod_beta logged_audit err_of_def[of "Inl e" for e]
      split: option.split bind_split sum.split)

lemma logged_outcome: "logged m (fst r) (snd r) \<Longrightarrow> r = (a, b) \<Longrightarrow> logged m a b"
  by simp

lemma add_target_logs_fs: "logged m (fst (add_target_with E m c p hk payload s)) (snd (add_target_with E m c p hk payload s))"
  by (simp add: add_target_with_def Let_def case_prod_beta logged_audit split: sum.split)

lemma add_target_logs: "add_target_with E m c p hk payload s = (a, b) \<Longrightarrow> logged m a b"
  by (rule logged_outcome[OF add_target_logs_fs])

lemma replace_logs_fs: "logged m (fst (replace_credential E m c p payload s)) (snd (replace_credential E m c p payload s))"
  by (simp add: replace_credential_def Let_def case_prod_beta logged_audited)

lemma replace_logs: "replace_credential E m c p payload s = (a, b) \<Longrightarrow> logged m a b"
  by (rule logged_outcome[OF replace_logs_fs])

lemma add_identity_logs_fs: "logged m (fst (add_identity E m c n pk fp payload s)) (snd (add_identity E m c n pk fp payload s))"
  by (simp add: add_identity_def Let_def case_prod_beta logged_audit split: sum.split)

lemma add_identity_logs: "add_identity E m c n pk fp payload s = (a, b) \<Longrightarrow> logged m a b"
  by (rule logged_outcome[OF add_identity_logs_fs])

lemma no_cipher_logs: "no_cipher s = Some r \<Longrightarrow> logged m (fst r) (snd r)"
  by (auto simp: no_cipher_def)

lemma finishCredential_logs: "result_logs m (finishCredential E payload m)"
  by (simp add: finishCredential_def logs_Run no_cipher_def add_target_logs replace_logs split: option.split bind_split)

lemma result_logs_cong: "same_user m m' \<Longrightarrow> result_logs m' r \<Longrightarrow> result_logs m r"
  using logs_cong[of m m' "snd r"] by (auto simp: result_logs_def same_user_def)

lemma finishAgentKey_logs: "result_logs m (finishAgentKey E m)"
proof -
  have "result_logs m (finishCredential E payload m')" if "same_user m m'" for payload m'
    by (rule result_logs_cong[OF that finishCredential_logs])
  then show ?thesis by (simp add: finishAgentKey_def Let_def split: sum.split prod.split)
qed

lemma finishIdentityPayload_own: "result_logs m (finishIdentityPayload E k p m)"
  by (simp add: finishIdentityPayload_def Let_def logs_Run no_cipher_def add_identity_logs split: sum.split option.split bind_split)

lemma finishIdentityPayload_logs: "same_user m m' \<Longrightarrow> result_logs m (finishIdentityPayload E k p m')"
  by (rule result_logs_cong[OF _ finishIdentityPayload_own])

lemma finishPublicKey_logs: "handled_logs m (finishPublicKey E m)"
  by (simp add: finishPublicKey_def Let_def split: sum.split prod.split bind_split)

lemma finishDelete_logs: "handled_logs m (finishDelete m)"
  by (simp add: finishDelete_def Let_def split: bind_split)

lemma finishTOTPEnrollment_logs: "handled_logs m (finishTOTPEnrollment E m)"
  by (simp add: finishTOTPEnrollment_def logs_Run case_prod_beta logged_audited split: option.split bind_split)

lemma startOIDCLink_logs: "result_logs m (startOIDCLink E m)"
  by (simp add: startOIDCLink_def logs_Run logged_def)

lemma completeOIDCLink_logs: "result_logs m (completeOIDCLink E m)"
proof -
  have "fst (link_account E m l v s) = OidcLinkMsg i e \<Longrightarrow> logged m (fst (link_account E m l v s)) s'" for l v s i e s'
    by (simp add: logged_def)
  moreover have "\<exists>i e. fst (link_account E m l v s) = OidcLinkMsg i e" for l v s
    by (simp add: link_account_def Let_def split: sum.split prod.split)
  ultimately have "logged m (fst (link_account E m l v s)) s'" for l v s s' by blast
  then show ?thesis by (simp add: completeOIDCLink_def logs_Run split: option.split)
qed

lemma submit_identity_logs: "result_logs m (submit_identity E m n how)"
  by (simp add: submit_identity_def Let_def finishIdentity_def finishIdentityPayload_logs split: sum.split)

lemma point_at_logs [simp]: "same_user m m' \<Longrightarrow> result_logs m (point_at t i m')"
  by (simp add: point_at_def)

lemma submit_credential_logs: "handled_logs m (submit_credential s m values)"
  by (simp add: submit_credential_def Let_def split: sum.split bind_split)

lemma submit_target_logs: "handled_logs m (submit_target E s m values)"
  by (simp add: submit_target_def Let_def scanHost_logs split: sum.split bind_split option.split)

lemma submit_values_logs: "handled_logs m (submit_values E s m kind values)"
  by (simp add: submit_values_def submit_identity_logs submit_oidc_map_def submit_grant_add_def submit_grant_edit_def submit_forward_def
      submit_target_edit_def submit_credential_logs submit_target_logs Let_def split: bind_split option.split)

lemma sync_same: "syncFormOptions m = Some m' \<Longrightarrow> same_user m m'" "syncTargetKeyField m = Some m' \<Longrightarrow> same_user m m'"
  by (auto simp: syncFormOptions_def syncTargetKeyField_def split: option.splits if_splits bind_splits)

lemma same_user_trans: "same_user m m' \<Longrightarrow> same_user m' m'' \<Longrightarrow> same_user m m''"
  by (simp add: same_user_def)

lemma handleFormKey_logs: "handled_logs m (handleFormKey E s m key)"
proof -
  have "handled_logs m (submitForm E s m)"
    by (auto simp: submitForm_def submit_values_logs split: bind_split option.split)
  moreover have "handled_logs m (do { m' \<leftarrow> syncFormOptions (m\<lparr>m_form := Some f\<rparr>); Some (m', None) })" for f
    using sync_same(1)[of "m\<lparr>m_form := Some f\<rparr>"] same_user_trans[of m "m\<lparr>m_form := Some f\<rparr>"] by (auto split: bind_split)
  ultimately show ?thesis by (simp add: handleFormKey_def Let_def split: option.split bind_split)
qed

lemma openSelectedActions_same: "openSelectedActions m = Some m' \<Longrightarrow> same_user m m'"
  by (auto simp: openSelectedActions_def with_actions_def Let_def split: if_splits bind_splits)

lemma credential_form_same: "credential_form t m = Some m' \<Longrightarrow> same_user m m'"
  using sync_same(2) by (auto simp: credential_form_def open_form_def same_user_def)

lemma show_keys_same: "same_user m (show_keys s p m)"
  by (simp add: show_keys_def split: sum.split)

lemma setup_totp_same: "same_user m (setup_totp E p m)"
  by (simp add: setup_totp_def Let_def split: sum.split)

lemma forms_same: "same_user m (open_form k t fs m') = same_user m m'" "same_user m (grant_form g m)" "same_user m (target_form t' m)"
  "same_user m (oidc_form p m)" "same_user m (choose_member b p m)"
  by (simp_all add: open_form_def grant_form_def target_form_def oidc_form_def choose_member_def Let_def)

lemma dispatch_command_logs: "logs m (dispatch_command m p code)"
  by (simp add: dispatch_command_def Let_def)

lemma change_member_logs: "handled_logs m (change_member m p b)"
  by (simp add: change_member_def Let_def split: bind_split)

lemma dispatchAction_logs: "handled_logs m (dispatchAction E s m code)"
proof (cases "m_pending m")
  case (Some p)
  have cf: "handled_logs m (do { m' \<leftarrow> credential_form t m; Some (m', None) })" for t
    by (auto split: bind_split dest: credential_form_same)
  show ?thesis
    unfolding dispatchAction_def Some Option.bind.simps Let_def
    by (intro handled_logs_if change_member_logs cf)
      (simp_all add: forms_same show_keys_same setup_totp_same scanHost_logs dispatch_command_logs)
qed (simp add: dispatchAction_def)

lemma handleActionKey_logs: "handled_logs m (handleActionKey E s m key)"
  by (simp add: handleActionKey_def Let_def dispatchAction_logs split: bind_split)

lemma confirm_host_key_logs: "handled_logs m (confirm_host_key E m key)"
  by (simp add: confirm_host_key_def finishHostKey_logs finishStoredTarget_logs split: bind_split)

lemma submit_private_key_logs: "handled_logs m (submit_private_key E m)"
  by (simp add: submit_private_key_def finishIdentity_def finishIdentityPayload_own finishCredential_logs split: bind_split sum.split)

lemma submit_passphrase_logs: "handled_logs m (submit_passphrase E m)"
  by (simp add: submit_passphrase_def finishIdentityWithPassphrase_def finishIdentityPayload_own finishCredential_logs split: bind_split sum.split)

lemma type_key_same: "same_user m (type_key m key)"
  by (simp add: type_key_def)

lemma handle_input_key_logs: "handled_logs m (handle_input_key E m key)"
  by (simp add: handle_input_key_def Let_def confirm_host_key_logs submit_private_key_logs submit_passphrase_logs type_key_same
      finishCredential_logs)

definition key_logs :: "Model \<Rightarrow> ((Model \<times> cmd option) \<times> db) option \<Rightarrow> bool" where
  "key_logs m r \<longleftrightarrow> (case r of None \<Rightarrow> True | Some rs \<Rightarrow> result_logs m (fst rs))"

lemma key_logs_simps [simp]: "key_logs m None" "key_logs m (Some rs) = result_logs m (fst rs)"
  by (simp_all add: key_logs_def)

lemma key_logs_pure: "handled_logs m h \<Longrightarrow> key_logs m (map_option (\<lambda>r. (r, s)) h)"
  by (cases h) simp_all

lemma key_logs_if: "(b \<Longrightarrow> key_logs m x) \<Longrightarrow> (\<not> b \<Longrightarrow> key_logs m y) \<Longrightarrow> key_logs m (if b then x else y)"
  by simp

lemma verifyTOTPChallenge_logs: "key_logs m (do { (m', s') \<leftarrow> verifyTOTPChallenge E m s; Some ((m', None), s') })"
proof -
  have "same_user m m'" if "verifyTOTPChallenge E m s = Some (m', s')" for m' s'
    using that by (auto simp: verifyTOTPChallenge_def Let_def same_user_def split: prod.splits bind_splits sum.splits if_splits)
  then show ?thesis by (auto split: bind_split)
qed

lemma handleModeKey_logs: "key_logs m (handleModeKey E s m key)"
  unfolding handleModeKey_def Let_def
  by (intro key_logs_if verifyTOTPChallenge_logs key_logs_pure handleFormKey_logs handleActionKey_logs finishDelete_logs
      finishPublicKey_logs finishTOTPEnrollment_logs handle_input_key_logs)
    (simp_all add: completeOIDCLink_logs finishAgentKey_logs)

lemma list_key_logs: "same_user m m' \<Longrightarrow> handled_logs m (list_key m' key)"
proof -
  assume u: "same_user m m'"
  have "handled_logs m (do { m'' \<leftarrow> openSelectedActions m'; Some (m'', None) })"
    using openSelectedActions_same same_user_trans[OF u] by (auto split: bind_split)
  with u show ?thesis unfolding list_key_def Let_def
    by (intro handled_logs_if) (simp_all split: bind_split)
qed

lemma handleKey_logs: "key_logs m (handleKey E s m key)"
proof -
  have "same_user m (admin_key m key)" by (simp add: admin_key_def Let_def changeSection_def)
  then have lk: "handled_logs m (list_key (if is_admin m then admin_key m key else m) key)" by (simp add: list_key_logs)
  have oa: "handled_logs m (do { m' \<leftarrow> openSelectedActions m; Some (m', None) })"
    using openSelectedActions_same by (auto split: bind_split)
  have add: "same_user m (openAddForm m)"
    by (simp add: openAddForm_def forms_same Let_def)
  have sk: "same_user m (search_key m key)" by (simp add: search_key_def Let_def)
  show ?thesis
    unfolding handleKey_def Let_def
    by (intro key_logs_if handleModeKey_logs key_logs_pure[OF lk] key_logs_pure[OF oa]) (simp_all add: startOIDCLink_logs add sk)
qed

end
