(* ===== verification/Tui_Lines.thy ===== *)
theory Tui_Lines
  imports Tui_Run
begin

text \<open>
  The lines of the drawn menu. \<open>View\<close> joins its lines with line breaks, so the text on the terminal has as many lines only when no
  line holds a break of its own: that is so as long as no text the menu holds does.
\<close>

section \<open>Texts without a line break\<close>

definition one_line :: "string \<Rightarrow> bool" where
  "one_line s \<longleftrightarrow> CHR 0x0A \<notin> set s"

named_theorems one_line_intros "texts without a line break"

lemma line_break: "chr 10 = CHR 0x0A"
  by code_simp

lemma one_line_simps [simp]:
  "one_line []" "one_line (c # s) \<longleftrightarrow> c \<noteq> CHR 0x0A \<and> one_line s" "one_line (s @ t) \<longleftrightarrow> one_line s \<and> one_line t"
  by (auto simp: one_line_def)

lemma one_line_concat: "(\<And>s. s \<in> set ss \<Longrightarrow> one_line s) \<Longrightarrow> one_line (concat ss)"
  by (auto simp: one_line_def)

lemma one_line_subset: "one_line s \<Longrightarrow> set t \<subseteq> set s \<Longrightarrow> one_line t"
  by (auto simp: one_line_def)

lemma one_line_parts [one_line_intros]:
  "one_line s \<Longrightarrow> one_line (drop n s)" "one_line s \<Longrightarrow> one_line (take n s)" "one_line s \<Longrightarrow> one_line (Repeat s k)"
  "one_line s \<Longrightarrow> one_line (pad n s)"
  by (auto simp: one_line_def Repeat_def pad_def dest: in_set_takeD in_set_dropD)

lemma one_line_join [one_line_intros]: "one_line sep \<Longrightarrow> (\<And>s. s \<in> set ss \<Longrightarrow> one_line s) \<Longrightarrow> one_line (join sep ss)"
  by (induction sep ss rule: join.induct) auto

text \<open>Only the line feed is encoded as one.\<close>

lemma byte_line_break: "byte (CHR 0x0A) = 10"
  by code_simp

lemma EncodeRune_one_line: "r \<noteq> 10 \<Longrightarrow> one_line (EncodeRune r)"
proof (cases "unicode_IsControl r")
  case False
  then show ?thesis using EncodeRune_shown[OF False, of "CHR 0x0A"] by (auto simp: one_line_def byte_line_break)
next
  case True
  assume r: "r \<noteq> 10"
  have "byte c \<noteq> 10" if "c \<in> set (EncodeRune r)" for c
  proof (cases "r < 0x80")
    case True
    then show ?thesis using that r by (auto simp: EncodeRune_ascii byte_chr)
  next
    case False
    then have "c = chr (0xC0 + r div 64) \<or> c = chr (0x80 + r mod 64)" "r div 64 < 4"
      using \<open>unicode_IsControl r\<close> that by (auto simp: unicode_IsControl_def EncodeRune_widths(1))
    moreover have "r mod 64 < 64" by simp
    ultimately have "128 \<le> byte c" by (auto simp: byte_chr)
    then show ?thesis by simp
  qed
  then have "CHR 0x0A \<notin> set (EncodeRune r)" using byte_line_break by metis
  then show ?thesis by (simp add: one_line_def)
qed

lemma u_one_line [simp]: "r \<noteq> 10 \<Longrightarrow> one_line (u r)"
  by (simp add: u_def EncodeRune_one_line)

lemma runes_one_line: "one_line s \<Longrightarrow> 10 \<notin> set (runes s)"
proof (induction s rule: chunks.induct)
  case (2 c cs)
  obtain r n where d: "DecodeRune (c # cs) = (r, n)" by fastforce
  have "r \<noteq> 10"
  proof
    assume r: "r = 10"
    then have "EncodeRune r = take n (c # cs)" "0 < n"
      using DecodeRune_valid[OF d, of "[]"] by (auto simp: RuneError_def)
    moreover have "EncodeRune r = [CHR 0x0A]" using r line_break by (simp add: EncodeRune_ascii)
    ultimately show False using "2.prems" by (cases n) auto
  qed
  moreover have "10 \<notin> set (runes (drop (n - 1) cs))"
    using "2.IH"[OF d[symmetric] refl] "2.prems" one_line_parts(1) by simp
  ultimately show ?case using d by (auto simp: runes_def)
qed (simp add: runes_def)

lemma of_runes_one_line: "10 \<notin> set rs \<Longrightarrow> one_line (of_runes rs)"
  unfolding of_runes_def by (intro one_line_concat) (auto intro: EncodeRune_one_line)

text \<open>The texts that are made of others.\<close>

lemma ToUpper_one_line [one_line_intros]: "one_line s \<Longrightarrow> one_line (ToUpper s)"
proof -
  assume s: "one_line s"
  have "upper_rune r \<noteq> 10" if "(r, bs) \<in> set (chunks s)" for r bs
  proof -
    have "r \<in> set (runes s)" using that unfolding runes_def by force
    then have "r \<noteq> 10" using runes_one_line[OF s] by blast
    then show ?thesis by (auto simp: upper_rune_def)
  qed
  then show ?thesis unfolding ToUpper_def by (intro one_line_concat) (auto intro: EncodeRune_one_line)
qed

lemma digits_one_line: "one_line (digits n)"
proof (induction n rule: digits.induct)
  case (1 n)
  have "digit k \<noteq> CHR 0x0A" if "k < 10" for k
  proof
    assume "digit k = CHR 0x0A"
    then have "byte (digit k) = 10" by (simp only: byte_line_break)
    then show False using that by (simp add: digit_def byte_chr)
  qed
  then have "one_line [digit (n mod 10)]" by simp
  moreover have "one_line (digits (n div 10))" if "\<not> n < 10" using 1 that by simp
  ultimately show ?case by (subst digits.simps) auto
qed

lemma itoa_one_line [simp]: "one_line (itoa i)"
  by (simp add: itoa_def digits_one_line)

lemma chunks_concat: "concat (map snd (chunks s)) = s"
  by (induction s rule: chunks.induct) (auto split: prod.splits)

lemma fields_subset: "f \<in> set (fields_of cs acc) \<Longrightarrow> set f \<subseteq> set acc \<union> set (concat (map snd cs))"
  by (induction cs acc rule: fields_of.induct) (auto split: if_splits)

lemma Fields_one_line: "one_line s \<Longrightarrow> f \<in> set (Fields s) \<Longrightarrow> one_line f"
  using fields_subset[of f "chunks s" "[]"] chunks_concat[of s] by (auto simp: Fields_def intro: one_line_subset)

lemma wrap_runes_one_line: "10 \<notin> set rs \<Longrightarrow> t \<in> set (wrap_runes width rs) \<Longrightarrow> one_line t"
proof (induction width rs rule: wrap_runes.induct)
  case (1 width rs)
  have "one_line (of_runes (take width rs))" using 1(2) by (intro of_runes_one_line) (auto dest: in_set_takeD)
  then show ?case using 1 by (subst (asm) wrap_runes.simps) (auto split: if_splits dest: in_set_dropD)
qed

lemma wrapText_one_line: "one_line s \<Longrightarrow> t \<in> set (wrapText s width) \<Longrightarrow> one_line t"
  by (auto simp: wrapText_def dest: wrap_runes_one_line runes_one_line split: if_splits)

lemma ellipsis_one_line [simp]: "one_line ellipsis"
  by (simp add: ellipsis_def EncodeRune_one_line)

lemma colours_one_line [simp]: "one_line reset" "one_line dim" "one_line cyan" "one_line brightCyan" "one_line green" "one_line red"
  "one_line yellow" "esc \<noteq> CHR 0x0A"
  by (code_simp; fail)+

section \<open>The terminal\<close>

text \<open>Cutting a text to a width, and writing a time, add no line break.\<close>

definition breaks_nothing :: "terminal \<Rightarrow> ssh_lib \<Rightarrow> bool" where
  "breaks_nothing T L \<longleftrightarrow> (\<forall>s width tail. one_line s \<longrightarrow> one_line tail \<longrightarrow> one_line (Truncate T s width tail))
     \<and> (\<forall>s. one_line s \<longrightarrow> one_line (LocalTime T s)) \<and> (\<forall>k. one_line (FingerprintSHA256 L k))"

lemma drop_front_subset: "set (drop_front T width rs) \<subseteq> set rs"
  by (induction T width rs rule: drop_front.induct) auto

lemma tailFit_one_line [one_line_intros]: "one_line s \<Longrightarrow> one_line (tailFit T s width)"
proof -
  assume s: "one_line s"
  then have "one_line (of_runes (drop_front T width (runes s)))"
    using runes_one_line[OF s] drop_front_subset[of T width "runes s"] by (intro of_runes_one_line) auto
  with s show ?thesis by (simp add: tailFit_def)
qed

lemma fit_one_line [one_line_intros]: "breaks_nothing T L \<Longrightarrow> one_line s \<Longrightarrow> one_line (fit T s width)"
  using one_line_parts(3)[of "'' ''"] by (auto simp: fit_def breaks_nothing_def Let_def)

lemma joinSides_one_line [one_line_intros]:
  "breaks_nothing T L \<Longrightarrow> one_line a \<Longrightarrow> one_line b \<Longrightarrow> one_line (joinSides T a b width)"
  using one_line_parts(3)[of "'' ''"] fit_one_line[of T L "a @ '' '' @ b" width] by (auto simp: joinSides_def Let_def)

lemma border_one_line [one_line_intros]:
  "breaks_nothing T L \<Longrightarrow> one_line label \<Longrightarrow> one_line (borderTop T label width)" "one_line (borderBottom width)"
  using one_line_parts(3)[of "u 0x2500"] fit_one_line[of T L "u 0x2500" width]
  by (auto simp: borderTop_def borderBottom_def breaks_nothing_def Let_def)

lemma frame_line_one_line [one_line_intros]: "one_line s \<Longrightarrow> one_line (frame_line s)"
  by (simp add: frame_line_def)

lemma bullets_one_line [one_line_intros]: "(\<And>s. s \<in> set ss \<Longrightarrow> one_line s) \<Longrightarrow> one_line (bullets ss)"
  unfolding bullets_def by (simp add: one_line_join)

lemma footer_one_line: "one_line (footer m)"
  unfolding footer_def Let_def by (auto intro!: bullets_one_line simp: if_distrib)
section \<open>The texts of the menu\<close>

text \<open>Every text of the menu's state that a page may draw, by the lists and records it is in.\<close>

definition identity_texts :: "SSHIdentity \<Rightarrow> string list" where
  "identity_texts i = [Identity_Name i, Identity_PublicKey i, Identity_Fingerprint i]"

definition target_texts :: "Target \<Rightarrow> string list" where
  "target_texts t = [Target_Name t, Target_CredentialKind t, Target_RemoteUsername t, Target_Host t]"

definition grant_texts :: "Grant \<Rightarrow> string list" where
  "grant_texts g = [Grant_Target g, Grant_Kind g, Grant_Principal g]"

definition list_texts :: "Model \<Rightarrow> string list" where
  "list_texts m = concat (map identity_texts (m_identities m)) @ concat (map target_texts (m_targets m))
     @ concat (map grant_texts (m_grants m)) @ concat (map (\<lambda>v. [User_Username v, User_Role v]) (m_user m # m_users m))
     @ map Group_Name (m_groups m) @ concat (map (\<lambda>r. [Rule_Target r, Rule_Host r]) (m_forwardRules m))
     @ concat (map (\<lambda>e. [Audit_At e, Audit_EventType e, Audit_Outcome e, Audit_ClaimedUsername e]) (m_auditEvents m))"

definition form_texts :: "adminForm \<Rightarrow> string list" where
  "form_texts f = form_title f # concat (map (\<lambda>x. [f_label x, f_value x]) (form_fields f))"

definition pending_texts :: "pendingOperation \<Rightarrow> string list" where
  "pending_texts p = [p_username p, p_group p, p_keyFingerprint p, p_totpSecret p, p_totpURI p] @ p_totpQR p
     @ target_texts (p_target p) @ grant_texts (p_grant p) @ identity_texts (p_identity p)
     @ (case p_hostKey p of None \<Rightarrow> [] | Some k \<Rightarrow> [key_Type k])"

definition menu_texts :: "Model \<Rightarrow> string list" where
  "menu_texts m = [m_status m, m_query m] @ list_texts m @ map a_label (m_actions m)
     @ (case m_form m of None \<Rightarrow> [] | Some f \<Rightarrow> form_texts f)
     @ (case m_pending m of None \<Rightarrow> [] | Some p \<Rightarrow> pending_texts p)
     @ [UserCode (m_oidcLogin m), VerificationURI (m_oidcLogin m), VerificationURIComplete (m_oidcLogin m)]"

definition unbroken :: "Model \<Rightarrow> bool" where
  "unbroken m \<longleftrightarrow> list_all one_line (menu_texts m)"

lemma unbroken_iff:
  "unbroken m \<longleftrightarrow> one_line (m_status m) \<and> one_line (m_query m)
     \<and> (\<forall>i\<in>set (m_identities m). \<forall>t\<in>set (identity_texts i). one_line t)
     \<and> (\<forall>x\<in>set (m_targets m). \<forall>t\<in>set (target_texts x). one_line t)
     \<and> (\<forall>g\<in>set (m_grants m). \<forall>t\<in>set (grant_texts g). one_line t)
     \<and> (\<forall>v\<in>set (m_user m # m_users m). one_line (User_Username v) \<and> one_line (User_Role v))
     \<and> (\<forall>g\<in>set (m_groups m). one_line (Group_Name g))
     \<and> (\<forall>r\<in>set (m_forwardRules m). one_line (Rule_Target r) \<and> one_line (Rule_Host r))
     \<and> (\<forall>e\<in>set (m_auditEvents m). one_line (Audit_At e) \<and> one_line (Audit_EventType e) \<and> one_line (Audit_Outcome e)
          \<and> one_line (Audit_ClaimedUsername e))
     \<and> (\<forall>a\<in>set (m_actions m). one_line (a_label a))
     \<and> (\<forall>f. m_form m = Some f \<longrightarrow> one_line (form_title f) \<and> (\<forall>x\<in>set (form_fields f). one_line (f_label x) \<and> one_line (f_value x)))
     \<and> (\<forall>p. m_pending m = Some p \<longrightarrow> (\<forall>t\<in>set (pending_texts p). one_line t))
     \<and> one_line (UserCode (m_oidcLogin m)) \<and> one_line (VerificationURI (m_oidcLogin m))
     \<and> one_line (VerificationURIComplete (m_oidcLogin m))"
  by (cases "m_form m"; cases "m_pending m")
    (simp_all add: unbroken_def menu_texts_def list_texts_def form_texts_def list_all_iff ball_Un conj_ac)

lemma unbroken_basics:
  assumes "unbroken m"
  shows "one_line (m_status m)" "one_line (m_query m)" "one_line (User_Username (m_user m))" "one_line (User_Role (m_user m))"
    "one_line (UserCode (m_oidcLogin m))" "one_line (VerificationURI (m_oidcLogin m))" "one_line (VerificationURIComplete (m_oidcLogin m))"
  using assms by (simp_all add: unbroken_iff)

lemma unbroken_lists:
  assumes "unbroken m"
  shows "i \<in> set (m_identities m) \<Longrightarrow> t \<in> set (identity_texts i) \<Longrightarrow> one_line t"
    "tg \<in> set (m_targets m) \<Longrightarrow> t \<in> set (target_texts tg) \<Longrightarrow> one_line t"
    "g \<in> set (m_grants m) \<Longrightarrow> t \<in> set (grant_texts g) \<Longrightarrow> one_line t"
    "v \<in> set (m_users m) \<Longrightarrow> one_line (User_Username v) \<and> one_line (User_Role v)"
    "gr \<in> set (m_groups m) \<Longrightarrow> one_line (Group_Name gr)"
    "r \<in> set (m_forwardRules m) \<Longrightarrow> one_line (Rule_Target r) \<and> one_line (Rule_Host r)"
    "e \<in> set (m_auditEvents m) \<Longrightarrow> one_line (Audit_At e) \<and> one_line (Audit_EventType e) \<and> one_line (Audit_Outcome e)
       \<and> one_line (Audit_ClaimedUsername e)"
    "a \<in> set (m_actions m) \<Longrightarrow> one_line (a_label a)"
  using assms by (simp_all add: unbroken_iff)

lemma unbroken_form:
  assumes "unbroken m" "m_form m = Some f"
  shows "one_line (form_title f)" "x \<in> set (form_fields f) \<Longrightarrow> one_line (f_label x) \<and> one_line (f_value x)"
  using assms by (simp_all add: unbroken_iff)

lemma unbroken_pending: "unbroken m \<Longrightarrow> m_pending m = Some p \<Longrightarrow> t \<in> set (pending_texts p) \<Longrightarrow> one_line t"
  by (simp add: unbroken_iff)

section \<open>The pages\<close>

definition one_line_page :: "page \<Rightarrow> bool" where
  "one_line_page pg \<longleftrightarrow> (case pg of (title, hint, rows) \<Rightarrow> one_line title \<and> one_line hint \<and> (\<forall>r\<in>set rows. one_line r))"

lemma one_line_page_tuple: "one_line_page (title, hint, rows) \<longleftrightarrow> one_line title \<and> one_line hint \<and> (\<forall>r\<in>set rows. one_line r)"
  by (simp add: one_line_page_def)

lemma set_map_index: "r \<in> set (map_index f i xs) \<Longrightarrow> \<exists>j x. x \<in> set xs \<and> r = f j x"
  by (induction f i xs rule: map_index.induct) auto

lemma identity_row_one_line: "unbroken m \<Longrightarrow> i \<in> set (m_identities m) \<Longrightarrow> one_line (identity_row m i)"
proof -
  assume "unbroken m" "i \<in> set (m_identities m)"
  then have t: "one_line (Identity_Name i)" "one_line (Identity_PublicKey i)" "one_line (Identity_Fingerprint i)"
    using unbroken_lists(1) by (auto simp: identity_texts_def)
  have "one_line a" if "Fields (Identity_PublicKey i) = a # rest" for a rest
    using Fields_one_line[OF t(2), of a] that by simp
  then have "one_line (case Fields (Identity_PublicKey i) of [] \<Rightarrow> ''SSH''
      | a # _ \<Rightarrow> (let up = ToUpper a in if HasPrefix up ''SSH-'' then drop 4 up else up))"
    by (auto simp: Let_def intro: one_line_intros split: list.split)
  with t show ?thesis unfolding identity_row_def Let_def by (simp add: one_line_parts)
qed

lemma user_row_one_line: "unbroken m \<Longrightarrow> v \<in> set (m_users m) \<Longrightarrow> one_line (user_row_text m v)"
  using unbroken_lists(4)[of m v] unfolding user_row_text_def Let_def
  by (simp add: one_line_parts ToUpper_one_line split: option.split)

lemma rows_one_line:
  "unbroken m \<Longrightarrow> gr \<in> set (m_groups m) \<Longrightarrow> one_line (group_row m gr)"
  "unbroken m \<Longrightarrow> g \<in> set (m_grants m) \<Longrightarrow> one_line (grant_row_text g)"
  "unbroken m \<Longrightarrow> r \<in> set (m_forwardRules m) \<Longrightarrow> one_line (rule_row_text r)"
  "unbroken m \<Longrightarrow> breaks_nothing T L \<Longrightarrow> e \<in> set (m_auditEvents m) \<Longrightarrow> one_line (audit_row T e)"
  "unbroken m \<Longrightarrow> t \<in> set (m_targets m) \<Longrightarrow> one_line (target_row t)"
  using unbroken_lists(5)[of m gr] unbroken_lists(3)[of m g] unbroken_lists(6)[of m r] unbroken_lists(7)[of m e] unbroken_lists(2)[of m t]
  by (simp_all add: group_row_def grant_row_text_def rule_row_text_def audit_row_def target_row_def one_line_parts ToUpper_one_line
      grant_texts_def target_texts_def breaks_nothing_def)

lemma list_content_one_line:
  assumes "unbroken m" "breaks_nothing T L" shows "one_line_page (list_content T m)"
proof -
  have "set (filtered m) \<subseteq> set (m_targets m)" by (auto simp: filtered_def)
  moreover have "one_line (search_prompt m)" using unbroken_basics(2)[OF assms(1)] by (simp add: search_prompt_def)
  ultimately show ?thesis using rows_one_line[OF assms(1)] rows_one_line(4)[OF assms] identity_row_one_line[OF assms(1)]
      user_row_one_line[OF assms(1)]
    unfolding list_content_def Let_def one_line_page_def by (auto split: if_split)
qed

lemma form_content_one_line: "unbroken m \<Longrightarrow> one_line_page (form_content T inner m)"
proof -
  assume m: "unbroken m"
  have "one_line (form_row T inner f i x)" if "m_form m = Some f" "x \<in> set (form_fields f)" for f i x
    using unbroken_form(2)[OF m that] by (simp add: form_row_def Let_def one_line_intros)
  then show ?thesis using unbroken_form(1)[OF m]
    by (auto simp: form_content_def one_line_page_def dest!: set_map_index split: option.split)
qed

text \<open>A pending operation's texts, one by one.\<close>

lemma pending_one_line:
  assumes "unbroken m" "m_pending m = Some p"
  shows "one_line (p_username p)" "one_line (p_group p)" "one_line (p_keyFingerprint p)" "one_line (p_totpSecret p)"
    "one_line (p_totpURI p)" "one_line (Target_Name (p_target p))" "one_line (Grant_Target (p_grant p))"
    "one_line (Identity_Name (p_identity p))" "one_line (Identity_PublicKey (p_identity p))"
    "one_line (Identity_Fingerprint (p_identity p))" "l \<in> set (p_totpQR p) \<Longrightarrow> one_line l"
    "p_hostKey p = Some k \<Longrightarrow> one_line (key_Type k)"
  using unbroken_pending[OF assms]
  by (simp_all add: pending_texts_def target_texts_def grant_texts_def identity_texts_def)

lemma action_content_one_line: "unbroken m \<Longrightarrow> action_content m = Some pg \<Longrightarrow> one_line_page pg"
  using pending_one_line(1)[of m] unbroken_lists(8)[of m]
  by (auto simp: action_content_def one_line_page_def split: option.splits Option.bind_splits if_splits dest!: set_map_index)

lemma removal_name_one_line: "unbroken m \<Longrightarrow> one_line (removal_name m)"
  using pending_one_line[of m] by (auto simp: removal_name_def split: option.split)

lemma identity_content_one_line: "unbroken m \<Longrightarrow> one_line_page (identity_content inner m)"
  using pending_one_line[of m]
  by (auto simp: identity_content_def one_line_page_def split: option.split intro: wrapText_one_line[of "''  '' @ s" for s, simplified])

lemma host_content_one_line: "unbroken m \<Longrightarrow> breaks_nothing T L \<Longrightarrow> one_line_page (host_content L m)"
  using pending_one_line(12)[of m]
  by (auto simp: host_content_def one_line_page_def breaks_nothing_def Let_def split: option.split bind_splits)

lemma captured_one_line [simp]: "one_line (captured m n unit) \<longleftrightarrow> one_line unit" "one_line (bytes_captured w m) \<longleftrightarrow> one_line w"
  by (simp_all add: captured_def bytes_captured_def one_line_parts)

lemma totp_content_one_line: "unbroken m \<Longrightarrow> one_line_page (totp_content inner m)"
  using pending_one_line[of m]
  by (auto simp: totp_content_def one_line_page_def split: option.split dest!: wrapText_one_line[rotated])

lemma link_content_one_line: "unbroken m \<Longrightarrow> one_line_page (link_content inner m)"
  using unbroken_basics[of m]
  by (auto simp: link_content_def one_line_page_def Let_def intro: wrapText_one_line[of "''  '' @ s" for s, simplified])

lemma secret_page_one_line: "one_line_page (secret_page a b c d e) \<longleftrightarrow> one_line a \<and> one_line b \<and> one_line c \<and> one_line d \<and> one_line e"
  by (auto simp: secret_page_def one_line_page_def)

lemma help_one_line: "r \<in> set help_rows \<Longrightarrow> one_line r"
  unfolding help_rows_def by auto

text \<open>The page of a mode, whichever it is.\<close>

definition some_one_line :: "page option \<Rightarrow> bool" where
  "some_one_line x \<longleftrightarrow> (\<forall>pg. x = Some pg \<longrightarrow> one_line_page pg)"

lemma some_one_line_if: "(b \<Longrightarrow> some_one_line x) \<Longrightarrow> (\<not> b \<Longrightarrow> some_one_line y) \<Longrightarrow> some_one_line (if b then x else y)"
  by simp

lemma some_one_line_Some: "one_line_page pg \<Longrightarrow> some_one_line (Some pg)"
  by (simp add: some_one_line_def)

lemma modalContent_one_line:
  assumes "unbroken m" "breaks_nothing T L" "modalContent T L inner m = Some pg"
  shows "one_line_page pg"
proof -
  have a: "some_one_line (action_content m)" using action_content_one_line[OF assms(1)] by (simp add: some_one_line_def)
  have h: "\<forall>r\<in>set help_rows. one_line r" using help_one_line by blast
  note pages = form_content_one_line[OF assms(1)] identity_content_one_line[OF assms(1)] host_content_one_line[OF assms(1,2)]
    totp_content_one_line[OF assms(1)] link_content_one_line[OF assms(1)]
  have "some_one_line (modalContent T L inner m)"
    unfolding modalContent_def Let_def
    by (intro some_one_line_if a some_one_line_Some pages)
      (simp_all add: secret_page_one_line one_line_page_tuple h removal_name_one_line[OF assms(1)])
  with assms(3) show ?thesis by (simp add: some_one_line_def)
qed

lemma content_one_line:
  assumes "unbroken m" "breaks_nothing T L" "content T L inner m = Some pg"
  shows "one_line_page pg"
  using assms modalContent_one_line list_content_one_line by (auto simp: content_def split: if_splits)

section \<open>The frame\<close>

lemma rows_between_subset: "rows_between rows i n = Some rs \<Longrightarrow> set rs \<subseteq> set rows"
proof (induction n arbitrary: i rs)
  case (Suc n)
  obtain r rs' where r: "at rows i = Some r" "rows_between rows (i + 1) n = Some rs'" "rs = r # rs'"
    using Suc.prems by (auto split: bind_splits)
  moreover have "r \<in> set rows" using r(1) by (auto simp: at_def split: if_splits)
  ultimately show ?case using Suc.IH[OF r(2)] by simp
qed simp

lemma frame_rows_one_line:
  assumes "breaks_nothing T L" "frame_rows T m inner lastRow rows start end = Some ls" "\<forall>r\<in>set rows. one_line r" "l \<in> set ls"
  shows "one_line l"
proof -
  obtain shown where s: "rows_between rows start (nat (end - start)) = Some shown"
    "ls = map_index (\<lambda>i row. frame_line ('' '' @ (if m_mode m = [] \<and> lastRow > 0 \<and> i = m_cursor m
         then brightCyan @ fit T row inner @ reset else fit T row inner) @ '' '')) start shown"
    using assms(2) by (auto simp: frame_rows_def split: bind_splits)
  have "one_line (fit T row inner)" if "row \<in> set shown" for row
    using that rows_between_subset[OF s(1)] assms(3) fit_one_line[OF assms(1)] by blast
  then show ?thesis using assms(4) by (auto simp: s(2) dest!: set_map_index intro!: frame_line_one_line)
qed

lemma statusLine_one_line: "unbroken m \<Longrightarrow> breaks_nothing T L \<Longrightarrow> one_line (statusLine T m w)"
  using unbroken_basics(1)[of m] unfolding statusLine_def Let_def by (auto intro!: fit_one_line)

lemma tabLine_one_line: "breaks_nothing T L \<Longrightarrow> one_line (tabLine T m w)"
  unfolding tabLine_def
  by (auto intro!: fit_one_line one_line_join ToUpper_one_line dest!: set_map_index simp: section_names_def)

lemma head_lines_one_line:
  assumes "unbroken m" "breaks_nothing T L" "one_line hint" "one_line label" "l \<in> set (head_lines T m w hint label)"
  shows "one_line l"
  using assms(5) unbroken_basics(3,4)[OF assms(1)] tabLine_one_line[OF assms(2)]
  by (auto simp: head_lines_def assms(3,4) ToUpper_one_line one_line_parts(3)
      intro: joinSides_one_line[OF assms(2)] fit_one_line[OF assms(2)] border_one_line(1)[OF assms(2)])

lemma fill_frame_one_line:
  assumes "unbroken m" "breaks_nothing T L" "\<forall>l\<in>set lines. one_line l" "l \<in> set (fill_frame T m w h lines)"
  shows "one_line l"
  using assms(4) assms(3) statusLine_one_line[OF assms(1,2)] fit_one_line[OF assms(2) footer_one_line]
    one_line_parts(3)[of "'' ''"] border_one_line(2)
  by (auto simp: fill_frame_def intro!: frame_line_one_line dest!: in_set_takeD)

lemma mainView_one_line:
  assumes "unbroken m" "breaks_nothing T L" "mainView T L m w h = Some ls" "l \<in> set ls"
  shows "one_line l"
proof -
  obtain title hint rows where c: "content T L (w - 4) m = Some (title, hint, rows)"
    using assms(3) by (auto simp: mainView_def split: bind_splits)
  obtain a b where v: "visibleRange (row_cursor m) (int (length rows)) (if h - 8 < 1 then 1 else h - 8) = (a, b)" by fastforce
  have p: "one_line title" "one_line hint" "\<forall>r\<in>set rows. one_line r"
    using content_one_line[OF assms(1,2) c] by (simp_all add: one_line_page_def)
  obtain shown where s: "(if rows = [] then frame_rows T m (w - 4) (int (length rows)) [empty_row m] 0 1
        else frame_rows T m (w - 4) (int (length rows)) rows a b) = Some shown"
    and ls: "ls = fill_frame T m w h (head_lines T m w hint (frame_label m title (int (length rows)) a b) @ shown)"
    using assms(3) unfolding mainView_def c Option.bind.simps prod.case Let_def v by (auto split: bind_splits simp del: if_split_asm)
  have "\<forall>r\<in>set shown. one_line r"
  proof
    fix r assume r: "r \<in> set shown"
    show "one_line r"
    proof (cases "rows = []")
      case True
      then show ?thesis using frame_rows_one_line[OF assms(2) s[unfolded if_P[OF True]] _ r] by (simp add: empty_row_def)
    next
      case False
      then show ?thesis using frame_rows_one_line[OF assms(2) s[unfolded if_not_P[OF False]] p(3) r] by simp
    qed
  qed
  moreover have "one_line (frame_label m title (int (length rows)) a b)" using p(1) by (simp add: frame_label_def)
  ultimately show ?thesis
    using fill_frame_one_line[OF assms(1,2) _ assms(4)[unfolded ls]] head_lines_one_line[OF assms(1,2) p(2)] by auto
qed

lemma compact_one_line: "unbroken m \<Longrightarrow> breaks_nothing T L \<Longrightarrow> l \<in> set (compactView T m w h) \<Longrightarrow> one_line l"
  using unbroken_basics(3,4)[of m]
  by (auto simp: compactView_def Let_def ToUpper_one_line dest!: in_set_takeD intro!: fit_one_line)

lemma enrollment_one_line: "unbroken m \<Longrightarrow> breaks_nothing T L \<Longrightarrow> l \<in> set (totpEnrollmentView T m w h) \<Longrightarrow> one_line l"
  using pending_one_line(11)[of m] one_line_parts(3)[of "'' ''"]
  by (auto simp: totpEnrollmentView_def Let_def dest!: in_set_takeD intro!: fit_one_line split: option.splits)

lemma View_lines_one_line: "unbroken m \<Longrightarrow> breaks_nothing T L \<Longrightarrow> View_lines T L m = Some ls \<Longrightarrow> l \<in> set ls \<Longrightarrow> one_line l"
  using compact_one_line enrollment_one_line mainView_one_line by (auto simp: View_lines_eq split: if_splits)

text \<open>The number of lines of a text on a terminal: split at the line breaks.\<close>

definition drawn_lines :: "string \<Rightarrow> nat" where
  "drawn_lines v = length (Split v (chr 10))"

lemma Split_join: "ls \<noteq> [] \<Longrightarrow> (\<And>l. l \<in> set ls \<Longrightarrow> c \<notin> set l) \<Longrightarrow> Split (join [c] ls) c = ls"
  by (induction "[c]" ls rule: join.induct) (simp_all add: Split_no_sep Split_append)

lemma drawn_lines_join: "ls \<noteq> [] \<Longrightarrow> (\<And>l. l \<in> set ls \<Longrightarrow> one_line l) \<Longrightarrow> drawn_lines (join [chr 10] ls) = length ls"
  unfolding drawn_lines_def line_break one_line_def by (simp add: Split_join)

lemma compact_nonempty: "compactView T m w h \<noteq> []"
  by (simp add: compactView_def Let_def)

lemma View_drawn_lines:
  assumes "menu_ok m" "unbroken m" "breaks_nothing T L"
  shows "\<exists>v. View T L m = Some v \<and> drawn_lines v \<le> nat (frame_height m)
     \<and> (20 \<le> frame_width m \<and> 8 \<le> frame_height m \<longrightarrow> drawn_lines v = nat (frame_height m))"
proof -
  obtain ls where ls: "View_lines T L m = Some ls" "length ls \<le> nat (frame_height m)"
    "20 \<le> frame_width m \<and> 8 \<le> frame_height m \<longrightarrow> length ls = nat (frame_height m)"
    using View_height[OF assms(1)] by blast
  have "ls \<noteq> []"
  proof (cases "20 \<le> frame_width m \<and> 8 \<le> frame_height m")
    case True
    then show ?thesis using ls(3) by auto
  next
    case False
    then show ?thesis using ls(1) compact_nonempty by (auto simp: View_lines_eq)
  qed
  then have "drawn_lines (join [chr 10] ls) = length ls"
    using drawn_lines_join View_lines_one_line[OF assms(2,3) ls(1)] by blast
  with ls show ?thesis by (simp add: View_def)
qed

end
