(* ===== verification/Tui_Properties.thy ===== *)
theory Tui_Properties
  imports Tui_Audit Tui_Lines Sample_Store
begin

text \<open>
  The properties of the menu as a whole, from the moment a session opens it.
\<close>

section \<open>Opening a menu\<close>

text \<open>The menu a session opens for a user: \<open>New\<close>, and \<open>ConfigureOIDC\<close> when an identity provider is configured.\<close>

definition opened_menu :: "Cipher \<Rightarrow> User \<Rightarrow> Model \<Rightarrow> bool" where
  "opened_menu c v m \<longleftrightarrow> (\<exists>addr status. m = New (Some c) addr v status
     \<or> (\<exists>issuer can. m = ConfigureOIDC issuer can (New (Some c) addr v status)))"

lemma opened_menuD: "opened_menu c v m \<Longrightarrow> m_cipher m = Some c \<and> m_user m = v \<and> m_mode m = [] \<and> m_pending m = None
    \<and> m_cursor m = 0 \<and> m_targets m = []"
  by (auto simp: opened_menu_def New_def ConfigureOIDC_def)

lemma opened_menu_ok: "opened_menu c v m \<Longrightarrow> menu_ok m"
  by (rule no_mode_ok) (auto simp: list_ok_def dest: opened_menuD)

lemma opened_member_menu: "opened_menu c v m \<Longrightarrow> User_Role v \<noteq> RoleAdmin \<Longrightarrow> member_menu v m"
  by (auto simp: member_menu_def member_modes_def dest: opened_menuD)

lemma opened_menu_New: "opened_menu c v (New (Some c) addr v status)"
  by (auto simp: opened_menu_def)

text \<open>Concrete values for the witnesses.\<close>

definition sample_cipher :: Cipher where
  "sample_cipher = \<lparr>Cipher_key = replicate 32 (CHR ''k'')\<rparr>"

definition sample_admin :: User where
  "sample_admin = no_user\<lparr>User_ID := 1, User_Username := ''root'', User_Role := ''admin'', User_Enabled := True\<rparr>"

definition sample_member :: User where
  "sample_member = no_user\<lparr>User_ID := 2, User_Username := ''alice'', User_Role := ''member'', User_Enabled := True\<rparr>"

section \<open>Properties\<close>

text \<open>
  C23: A menu never panics and never hangs: whatever is typed or pasted, in whatever pieces it is read, however
  the terminal is resized, whatever the network, the identity provider and the clock answer, whatever writes
  fail, and whatever other sessions do to the store between two keys, every event is processed to its end, and
  the schema's constraints hold afterwards.
\<close>

theorem RunRemote_never_panics:
  assumes "opened_menu c v m" "store_ok s"
  shows "\<exists>st. RunRemote T L out E w h m s writes events = Some st \<and> store_ok (r_store st)"
  using RunRemote_ok[OF opened_menu_ok[OF assms(1)] assms(2), of T L out E w h writes events] by (auto simp: remote_ok_def)

theorem RunRemote_never_panics_witness:
  "\<forall>T L out E. \<exists>st. RunRemote T L out E 80 24 (New (Some sample_cipher) ''10.0.0.1'' sample_admin []) sample_db []
     [ReadDone ''3am'' None, Window 10 3, ReadDone [esc] None] = Some st \<and> store_ok (r_store st)"
  by (intro allI RunRemote_never_panics[OF opened_menu_New]) simp

text \<open>
  C24: The state of the menu is well formed whenever a run pauses: the cursor is on a row of the list or at zero, a
  mode that needs a pending operation has one, and an open form has the fields its kind reads.
\<close>

theorem RunRemote_keeps_menu_ok:
  assumes "opened_menu c v m" "store_ok s" "RunRemote T L out E w h m s writes events = Some st"
  shows "menu_ok (r_model st)"
  using RunRemote_ok[OF opened_menu_ok[OF assms(1)] assms(2), of T L out E w h writes events] assms(3) by (auto simp: remote_ok_def)

theorem RunRemote_keeps_menu_ok_witness:
  "\<forall>T L out E. \<exists>st. RunRemote T L out E 80 24 (New (Some sample_cipher) ''10.0.0.1'' sample_admin []) sample_db []
     [ReadDone ''3j'' None] = Some st \<and> menu_ok (r_model st)"
proof (intro allI)
  fix T L out E
  let ?m = "New (Some sample_cipher) ''10.0.0.1'' sample_admin []"
  obtain st where "RunRemote T L out E 80 24 ?m sample_db [] [ReadDone ''3j'' None] = Some st"
    using RunRemote_ok[OF opened_menu_ok[OF opened_menu_New] sample_db_ok, of T L out E 80 24] by blast
  then show "\<exists>st. RunRemote T L out E 80 24 ?m sample_db [] [ReadDone ''3j'' None] = Some st \<and> menu_ok (r_model st)"
    using RunRemote_keeps_menu_ok[OF opened_menu_New sample_db_ok] by blast
qed

text \<open>
  C25: The chain of commands and messages that a key starts always ends: \<open>applyCommand\<close> is a loop without a bound
  in the code, yet in every well-formed menu it comes to a message that starts no further command.
\<close>

theorem applyCommand_ends:
  assumes "menu_ok m" "store_ok s"
  shows "\<exists>m1 c m2 s2. handleKey E s m key = Some ((m1, c), s) \<and> applyCommand E m1 c s = Some (m2, s2)"
proof -
  have "key_ok s (handleKey E s m key)" by (rule handleKey_ok[OF assms(1)])
  then obtain m1 c where k: "handleKey E s m key = Some ((m1, c), s)" "result_ok (m1, c)"
    by (cases "handleKey E s m key") auto
  then show ?thesis using applyCommand_ok[OF k(2) assms(2), of E] by auto
qed

theorem applyCommand_ends_witness:
  "\<forall>E. \<exists>m1 c m2 s2. handleKey E sample_db (New (Some sample_cipher) ''10.0.0.1'' sample_admin []) ''r'' = Some ((m1, c), sample_db)
     \<and> applyCommand E m1 c sample_db = Some (m2, s2)"
  by (intro allI applyCommand_ends opened_menu_ok[OF opened_menu_New] sample_db_ok)

text \<open>
  C26: The text drawn never has more lines, split at its line breaks, than the terminal has room for, and exactly as many when the
  terminal is large enough for the full view. This is for a menu none of whose texts (names, form values, status, keys, addresses)
  holds a line break; one that was pasted into a form adds a line.
\<close>

theorem View_fits:
  assumes "menu_ok m" "unbroken m" "breaks_nothing T L"
  shows "\<exists>v. View T L m = Some v \<and> drawn_lines v \<le> nat (frame_height m)
     \<and> (20 \<le> frame_width m \<and> 8 \<le> frame_height m \<longrightarrow> drawn_lines v = nat (frame_height m))"
  using assms by (rule View_drawn_lines)

text \<open>A terminal where every byte is a cell, and a library with one fingerprint.\<close>

definition plain_terminal :: terminal where
  "plain_terminal = \<lparr>StringWidth = (\<lambda>s. int (length s)), Truncate = (\<lambda>s width tail. take (nat width) s), LocalTime = id\<rparr>"

definition plain_lib :: ssh_lib where
  "plain_lib = sample_lib\<lparr>FingerprintSHA256 := (\<lambda>_. ''SHA256:pinned'')\<rparr>"

lemma plain_terminal_breaks_nothing: "breaks_nothing plain_terminal plain_lib"
  by (simp add: breaks_nothing_def plain_terminal_def plain_lib_def one_line_parts)

theorem View_fits_witness:
  "\<exists>v. View plain_terminal plain_lib (New (Some sample_cipher) ''10.0.0.1'' sample_member []) = Some v \<and> drawn_lines v = 23"
proof -
  let ?m = "New (Some sample_cipher) ''10.0.0.1'' sample_member []"
  have "unbroken ?m" by code_simp
  from View_fits[OF opened_menu_ok[OF opened_menu_New] this plain_terminal_breaks_nothing] show ?thesis
    by (auto simp: frame_width_def frame_height_def New_def)
qed

text \<open>
  A form whose field holds a line break, as a paste puts it there: the state is as well formed as before, and the text drawn, here on a
  terminal of 60 by 9, has one line more than the frame.
\<close>

definition broken_form :: "string \<Rightarrow> Model" where
  "broken_form name = (New (Some sample_cipher) ''10.0.0.1'' sample_admin [])\<lparr>m_mode := ''form'', m_width := 60, m_height := 9,
     m_form := Some \<lparr>form_kind = ''group_add'', form_title = ''Add group'',
      form_fields = [\<lparr>f_label = ''Name'', f_value = name, f_options = []\<rparr>], form_index = 0\<rparr>\<rparr>"

definition pasted_name :: string where
  "pasted_name = [CHR ''a'', CHR 0x0A, CHR ''b'']"

theorem pasted_break_overflows:
  "paste pasted_name (broken_form []) = Some (broken_form pasted_name)"
  "frame_height (broken_form pasted_name) = 8"
  "map_option drawn_lines (View plain_terminal plain_lib (broken_form [])) = Some 8"
  "map_option drawn_lines (View plain_terminal plain_lib (broken_form pasted_name)) = Some 9"
     apply code_simp
    apply code_simp
   apply code_simp
  apply code_simp
  done

text \<open>
  The selected row of a list is always on the screen, highlighted, whatever the size of the terminal the full
  view is drawn on and however long the list is.
\<close>

theorem View_shows_selection:
  assumes "menu_ok m" "m_mode m = []" "m_cursor m < int (itemCount m)" "20 \<le> frame_width m" "8 \<le> frame_height m"
    "list_content T m = (title, hint, rows)"
  shows "\<exists>ls. View_lines T L m = Some ls
     \<and> frame_line ('' '' @ brightCyan @ fit T (rows ! nat (m_cursor m)) (frame_width m - 4) @ reset @ '' '') \<in> set ls"
  using mainView_ok[OF assms(1,5), of T L "frame_width m"] assms by (auto simp: View_lines_eq)

theorem View_shows_selection_witness:
  "\<forall>T L. \<exists>ls. View_lines T L ((New (Some sample_cipher) ''10.0.0.1'' sample_member [])\<lparr>m_targets := [sample_target]\<rparr>) = Some ls
     \<and> frame_line ('' '' @ brightCyan @ fit T (target_row sample_target) 75 @ reset @ '' '') \<in> set ls"
proof (intro allI)
  fix T L
  let ?m = "(New (Some sample_cipher) ''10.0.0.1'' sample_member [])\<lparr>m_targets := [sample_target]\<rparr>"
  have "kind_text ''password''" by code_simp
  then have ok: "menu_ok ?m"
    by (intro no_mode_ok) (simp_all add: New_def list_ok_def itemCount_def filtered_def sample_target_def)
  have rows: "list_content T ?m = (''Connection profiles'', search_prompt ?m, [target_row sample_target])"
    by (simp add: list_content_def New_def filtered_def)
  show "\<exists>ls. View_lines T L ?m = Some ls \<and> frame_line ('' '' @ brightCyan @ fit T (target_row sample_target) 75 @ reset @ '' '') \<in> set ls"
    using View_shows_selection[OF ok _ _ _ _ rows, of L]
    by (simp add: New_def itemCount_def filtered_def frame_width_def frame_height_def)
qed

text \<open>
  C27: Without other sessions, a member's menu changes nothing but the member's own OIDC mapping and the audit log,
  whatever keys are pressed: no other user's mapping and no other table.
\<close>

theorem member_menu_limited:
  assumes "opened_menu c v m" "User_Role v \<noteq> RoleAdmin" "\<forall>k. snd (out k) = []"
    "RunRemote T L out E w h m s writes events = Some st"
  shows "r_store st = s\<lparr>oidc_identities := oidc_identities (r_store st), audit_events := audit_events (r_store st)\<rparr>
     \<and> filter (\<lambda>r. oidc_user_id r \<noteq> User_ID v) (oidc_identities (r_store st)) = filter (\<lambda>r. oidc_user_id r \<noteq> User_ID v) (oidc_identities s)"
  using member_RunRemote[OF opened_member_menu[OF assms(1,2)] assms(3,4)] unfolding member_remote_def own_change_def by blast

theorem member_menu_limited_witness:
  "\<forall>T L E. \<exists>st. RunRemote T L (\<lambda>k. (E, [])) E 80 24 (New (Some sample_cipher) ''10.0.0.1'' sample_member []) sample_db []
     [ReadDone ''oaq'' None] = Some st \<and> users (r_store st) = users sample_db \<and> targets (r_store st) = targets sample_db"
proof (intro allI)
  fix T L E
  let ?m = "New (Some sample_cipher) ''10.0.0.1'' sample_member []"
  obtain st where st: "RunRemote T L (\<lambda>k. (E, [])) E 80 24 ?m sample_db [] [ReadDone ''oaq'' None] = Some st"
    using RunRemote_ok[OF opened_menu_ok[OF opened_menu_New] sample_db_ok, of T L "\<lambda>k. (E, [])" E 80 24] by blast
  have "User_Role sample_member \<noteq> RoleAdmin" by code_simp
  then have "r_store st = sample_db\<lparr>oidc_identities := oidc_identities (r_store st), audit_events := audit_events (r_store st)\<rparr>"
    using member_menu_limited[OF opened_menu_New _ _ st] by simp
  then have "users (r_store st) = users (sample_db\<lparr>oidc_identities := oidc_identities (r_store st), audit_events := audit_events (r_store st)\<rparr>)"
    "targets (r_store st) = targets (sample_db\<lparr>oidc_identities := oidc_identities (r_store st), audit_events := audit_events (r_store st)\<rparr>)"
    by (rule arg_cong)+
  then have "users (r_store st) = users sample_db \<and> targets (r_store st) = targets sample_db" by simp
  with st show "\<exists>st. RunRemote T L (\<lambda>k. (E, [])) E 80 24 ?m sample_db [] [ReadDone ''oaq'' None] = Some st
    \<and> users (r_store st) = users sample_db \<and> targets (r_store st) = targets sample_db" by blast
qed

text \<open>
  C28: An administrative change that the menu reports as done is on record: when the command a key started answers
  with a mutation without an error, the newest audit event names the menu's user as its actor, with the address of
  the session, as a success.
\<close>

theorem menu_changes_recorded:
  assumes "handleKey E s m key = Some ((m1, Some (Run f)), s1)" "f t = Some (MutationMsg v, t1)" "mut_err v = None"
  shows "audit_events t1 \<noteq> [] \<and> Audit_ActorUserID (last (audit_events t1)) = Some (User_ID (m_user m))
     \<and> Audit_ClaimedUsername (last (audit_events t1)) = User_Username (m_user m)
     \<and> Audit_SourceAddress (last (audit_events t1)) = m_sourceAddress m \<and> Audit_Outcome (last (audit_events t1)) = ''success''"
proof -
  have "logged m (MutationMsg v) t1"
    using handleKey_logs[of m E s key] assms(1,2) by (auto simp: logs_Run split: option.splits)
  then show ?thesis using assms(3) by (simp add: logged_def recorded_def)
qed

definition sample_confirm :: Model where
  "sample_confirm = (New (Some sample_cipher) ''10.0.0.1'' sample_admin [])\<lparr>m_mode := ''confirm_delete'',
     m_pending := Some (no_pending\<lparr>p_kind := ''group_delete'', p_group := ''ops''\<rparr>)\<rparr>"

theorem menu_changes_recorded_witness:
  "\<forall>E. \<exists>f v t1. handleKey E sample_db sample_confirm ''y'' = Some ((sample_confirm, Some (Run f)), sample_db)
     \<and> f sample_db = Some (MutationMsg v, t1) \<and> mut_err v = None \<and> groups_table t1 = []
     \<and> Audit_ActorUserID (last (audit_events t1)) = Some 1"
proof (intro allI)
  fix E
  let ?done = "audited sample_confirm ''admin.group.delete'' [(''group'', JStr ''ops'')] (DeleteGroup sample_db ''ops'')"
  let ?f = "\<lambda>s. let (r, s') = audited sample_confirm ''admin.group.delete'' [(''group'', JStr ''ops'')] (DeleteGroup s ''ops'')
     in Some (mutation ''Group deleted.'' ''groups'' (err_of r), s')"
  let ?v = "\<lparr>mut_status = ''Group deleted.'', mut_section = ''groups'', mut_err = None\<rparr>"
  have k: "handleKey E sample_db sample_confirm ''y'' = Some ((sample_confirm, Some (Run ?f)), sample_db)"
    by (simp add: handleKey_def handleModeKey_def finishDelete_def mutate_def sample_confirm_def action_modes_def Let_def)
  have "fst ?done = Inr ()" "groups_table (snd ?done) = []" by code_simp+
  then have f: "?f sample_db = Some (MutationMsg ?v, snd ?done)" "groups_table (snd ?done) = []"
    by (simp_all add: case_prod_beta mutation_def err_of_def)
  have "User_ID (m_user sample_confirm) = 1" by code_simp
  then have "Audit_ActorUserID (last (audit_events (snd ?done))) = Some 1"
    using menu_changes_recorded[OF k f(1)] by simp
  with k f show "\<exists>f v t1. handleKey E sample_db sample_confirm ''y'' = Some ((sample_confirm, Some (Run f)), sample_db)
     \<and> f sample_db = Some (MutationMsg v, t1) \<and> mut_err v = None \<and> groups_table t1 = []
     \<and> Audit_ActorUserID (last (audit_events t1)) = Some 1"
    by (intro exI[of _ ?f] exI[of _ ?v] exI[of _ "snd ?done"]) simp
qed

end
