(* ===== verification/Go_Flags.thy ===== *)
theory Go_Flags
  imports Go_Strings
begin

text \<open>
  What the command line uses of Go's packages \<^verbatim>\<open>flag\<close> and \<^verbatim>\<open>strconv\<close>: parsing flags with string, integer and
  boolean values. The usage text that a failed parse prints to the error stream is not modelled.
\<close>

section \<open>Integers with a base prefix\<close>

datatype num_error = Syntax | Range

definition digit_value :: "char \<Rightarrow> nat option" where
  "digit_value c =
     (if is_digit c then Some (of_char c - 48)
      else if CHR ''a'' \<le> c \<and> c \<le> CHR ''z'' then Some (of_char c - 87)
      else if CHR ''A'' \<le> c \<and> c \<le> CHR ''Z'' then Some (of_char c - 55)
      else None)"

text \<open>The loop of \<open>ParseUint\<close>: underscores are skipped, and the value must fit into 64 bits.\<close>

fun uint_loop :: "nat \<Rightarrow> nat \<Rightarrow> string \<Rightarrow> num_error + nat" where
  "uint_loop base n [] = Inr n"
| "uint_loop base n (c # cs) =
     (if c = CHR ''_'' then uint_loop base n cs
      else (case digit_value c of
        None \<Rightarrow> Inl Syntax
      | Some d \<Rightarrow> if d \<ge> base then Inl Syntax
                  else if n * base + d \<ge> 2 ^ 64 then Inl Range else uint_loop base (n * base + d) cs))"

definition lower_is :: "char \<Rightarrow> char \<Rightarrow> bool" where
  "lower_is x c \<longleftrightarrow> ascii_lower c = x"

definition base_prefix :: "string \<Rightarrow> nat \<times> string" where
  "base_prefix s =
     (if s = [] \<or> hd s \<noteq> CHR ''0'' then (10, s)
      else if length s \<ge> 3 \<and> lower_is (CHR ''b'') (s ! 1) then (2, drop 2 s)
      else if length s \<ge> 3 \<and> lower_is (CHR ''o'') (s ! 1) then (8, drop 2 s)
      else if length s \<ge> 3 \<and> lower_is (CHR ''x'') (s ! 1) then (16, drop 2 s)
      else (8, tl s))"

text \<open>Underscores may stand only between digits, or between the prefix and a digit.\<close>

fun underscores_ok :: "bool \<Rightarrow> char \<Rightarrow> string \<Rightarrow> bool" where
  "underscores_ok hex saw [] \<longleftrightarrow> saw \<noteq> CHR ''_''"
| "underscores_ok hex saw (c # cs) =
     (if is_digit c \<or> (hex \<and> CHR ''a'' \<le> ascii_lower c \<and> ascii_lower c \<le> CHR ''f'') then underscores_ok hex (CHR ''0'') cs
      else if c = CHR ''_'' then saw = CHR ''0'' \<and> underscores_ok hex (CHR ''_'') cs
      else saw \<noteq> CHR ''_'' \<and> underscores_ok hex (CHR ''!'') cs)"

definition underscoreOK :: "string \<Rightarrow> bool" where
  "underscoreOK s =
     (if length s \<ge> 2 \<and> hd s = CHR ''0'' \<and> ascii_lower (s ! 1) \<in> set ''box''
      then underscores_ok (lower_is (CHR ''x'') (s ! 1)) (CHR ''0'') (drop 2 s)
      else underscores_ok False (CHR ''^'') s)"

definition ParseUint :: "string \<Rightarrow> num_error + nat" where
  "ParseUint s =
     (if s = [] then Inl Syntax
      else let (base, body) = base_prefix s in
        (case uint_loop base 0 body of
           Inl e \<Rightarrow> Inl e
         | Inr n \<Rightarrow> if CHR ''_'' \<in> set body \<and> \<not> underscoreOK s then Inl Syntax else Inr n))"

text \<open>\<open>strconv.ParseInt(s, 0, 64)\<close>, which integer flags are read with.\<close>

definition ParseInt :: "string \<Rightarrow> num_error + int" where
  "ParseInt s =
     (let neg = (s \<noteq> [] \<and> hd s = CHR ''-''); body = (if s \<noteq> [] \<and> (hd s = CHR ''-'' \<or> hd s = CHR ''+'') then tl s else s)
      in case ParseUint body of
           Inl e \<Rightarrow> Inl e
         | Inr n \<Rightarrow> if \<not> neg \<and> n \<ge> 2 ^ 63 \<or> neg \<and> n > 2 ^ 63 then Inl Range
                    else Inr (if neg then - int n else int n))"

definition ParseBool :: "string \<Rightarrow> bool option" where
  "ParseBool s =
     (if s \<in> set [''1'', ''t'', ''T'', ''TRUE'', ''true'', ''True''] then Some True
      else if s \<in> set [''0'', ''f'', ''F'', ''FALSE'', ''false'', ''False''] then Some False
      else None)"

section \<open>Flag sets\<close>

datatype flag_value = StringFlag string | IntFlag int | BoolFlag bool

text \<open>A flag set: its flags with their values, the defaults before it is parsed.\<close>

type_synonym flag_set = "(string \<times> flag_value) list"

definition set_flag :: "string \<Rightarrow> flag_value \<Rightarrow> flag_set \<Rightarrow> flag_set" where
  "set_flag name v fs = map (\<lambda>(n, x). (n, if n = name then v else x)) fs"

definition string_flag :: "flag_set \<Rightarrow> string \<Rightarrow> string" where
  "string_flag fs name = (case map_of fs name of Some (StringFlag v) \<Rightarrow> v | _ \<Rightarrow> [])"

definition int_flag :: "flag_set \<Rightarrow> string \<Rightarrow> int" where
  "int_flag fs name = (case map_of fs name of Some (IntFlag v) \<Rightarrow> v | _ \<Rightarrow> 0)"

definition bool_flag :: "flag_set \<Rightarrow> string \<Rightarrow> bool" where
  "bool_flag fs name = (case map_of fs name of Some (BoolFlag v) \<Rightarrow> v | _ \<Rightarrow> False)"

datatype flag_error = BadSyntax string | HelpRequested | NotDefined string | NeedsArgument string
  | InvalidBool string string | InvalidInt string string num_error

datatype parse_step = Stop "string list" | Bad flag_error | Go_on flag_set "string list"

definition set_value :: "flag_set \<Rightarrow> string \<Rightarrow> flag_value \<Rightarrow> string \<Rightarrow> string list \<Rightarrow> parse_step" where
  "set_value fs name old v rest =
     (case old of
        IntFlag _ \<Rightarrow> (case ParseInt v of
           Inl e \<Rightarrow> Bad (InvalidInt v name e) | Inr i \<Rightarrow> Go_on (set_flag name (IntFlag i) fs) rest)
      | BoolFlag _ \<Rightarrow> (case ParseBool v of
           None \<Rightarrow> Bad (InvalidBool v name) | Some b \<Rightarrow> Go_on (set_flag name (BoolFlag b) fs) rest)
      | StringFlag _ \<Rightarrow> Go_on (set_flag name (StringFlag v) fs) rest)"

text \<open>\<open>parseOne\<close> on a non-empty list: stop before the first argument that is no flag, or after \<open>--\<close>.\<close>

definition parse_one :: "flag_set \<Rightarrow> string \<Rightarrow> string list \<Rightarrow> parse_step" where
  "parse_one fs s args =
     (if length s < 2 \<or> hd s \<noteq> CHR ''-'' then Stop (s # args)
      else if s = ''--'' then Stop args
      else let text = drop (if s ! 1 = CHR ''-'' then 2 else 1) s in
        if text = [] \<or> hd text = CHR ''-'' \<or> hd text = CHR ''='' then Bad (BadSyntax s)
        else let name = takeWhile (\<lambda>c. c \<noteq> CHR ''='') text; given = dropWhile (\<lambda>c. c \<noteq> CHR ''='') text in
          (case map_of fs name of
             None \<Rightarrow> Bad (if name = ''help'' \<or> name = ''h'' then HelpRequested else NotDefined name)
           | Some old \<Rightarrow>
               if given \<noteq> [] then set_value fs name old (tl given) args
               else (case old of
                   BoolFlag _ \<Rightarrow> Go_on (set_flag name (BoolFlag True) fs) args
                 | _ \<Rightarrow> (case args of [] \<Rightarrow> Bad (NeedsArgument name) | v # rest \<Rightarrow> set_value fs name old v rest))))"

lemma set_value_rest: "set_value fs name old v rest = Go_on fs' rest' \<Longrightarrow> rest' = rest"
  by (auto simp: set_value_def split: flag_value.splits sum.splits option.splits)

lemma parse_one_rest: "parse_one fs s args = Go_on fs' rest \<Longrightarrow> length rest < Suc (length args)"
  by (auto simp: parse_one_def Let_def split: if_splits option.splits flag_value.splits list.splits dest: set_value_rest)

text \<open>\<open>FlagSet.Parse\<close>: the flags with their values and the arguments after them (\<open>Args\<close>).\<close>

function parse_flags :: "flag_set \<Rightarrow> string list \<Rightarrow> flag_error + flag_set \<times> string list" where
  "parse_flags fs [] = Inr (fs, [])"
| "parse_flags fs (s # args) =
     (case parse_one fs s args of
        Stop rest \<Rightarrow> Inr (fs, rest)
      | Bad e \<Rightarrow> Inl e
      | Go_on fs' rest \<Rightarrow> parse_flags fs' rest)"
  by pat_completeness auto
termination by (relation "measure (\<lambda>(fs, args). length args)") (auto dest: parse_one_rest)

text \<open>Only values change: the flags of a parsed set are those it was defined with.\<close>

lemma set_flag_names [simp]: "map fst (set_flag name v fs) = map fst fs"
  by (simp add: set_flag_def case_prod_beta comp_def)

lemma set_value_names: "set_value fs name old v rest = Go_on fs' rest' \<Longrightarrow> map fst fs' = map fst fs"
  by (auto simp: set_value_def split: flag_value.splits sum.splits option.splits)

lemma parse_one_names: "parse_one fs s args = Go_on fs' rest \<Longrightarrow> map fst fs' = map fst fs"
  by (auto simp: parse_one_def Let_def split: if_splits option.splits flag_value.splits list.splits dest: set_value_names)

lemma parse_flags_names: "parse_flags fs args = Inr (fs', rest) \<Longrightarrow> map fst fs' = map fst fs"
  by (induction fs args arbitrary: rest rule: parse_flags.induct) (auto split: parse_step.splits dest: parse_one_names)

text \<open>A string flag given as two arguments, or as one with an equals sign, has the value given.\<close>

lemma set_flag_lookup [simp]: "map_of (set_flag name v fs) n = (if n = name then map_option (\<lambda>_. v) (map_of fs n) else map_of fs n)"
  by (induction fs) (auto simp: set_flag_def)

lemma parse_one_two_args:
  assumes "map_of fs name = Some (StringFlag old)" "name \<noteq> []" "CHR ''='' \<notin> set name" "hd name \<noteq> CHR ''-''"
  shows "parse_one fs (''--'' @ name) (v # rest) = Go_on (set_flag name (StringFlag v) fs) rest"
    "parse_one fs (''--'' @ name @ ''='' @ v) rest = Go_on (set_flag name (StringFlag v) fs) rest"
proof -
  have ne: "\<And>c. c \<in> set name \<Longrightarrow> c \<noteq> CHR ''=''" using assms(3) by auto
  have t: "takeWhile (\<lambda>c. c \<noteq> CHR ''='') name = name" "dropWhile (\<lambda>c. c \<noteq> CHR ''='') name = []"
    "takeWhile (\<lambda>c. c \<noteq> CHR ''='') (name @ CHR ''='' # v) = name" "dropWhile (\<lambda>c. c \<noteq> CHR ''='') (name @ CHR ''='' # v) = CHR ''='' # v"
    using ne by (simp_all add: takeWhile_append2 dropWhile_append2)
  have "hd name \<noteq> CHR ''=''" using assms(2,3) by (cases name) auto
  then show "parse_one fs (''--'' @ name) (v # rest) = Go_on (set_flag name (StringFlag v) fs) rest"
    "parse_one fs (''--'' @ name @ ''='' @ v) rest = Go_on (set_flag name (StringFlag v) fs) rest"
    using assms(1,2,4) by (simp_all add: parse_one_def Let_def set_value_def t)
qed

end
