(* ===== verification/Cli.thy ===== *)
theory Cli
  imports Go_Flags Tui_View Config
begin

text \<open>
  \<^verbatim>\<open>cmd/sshgatew/main.go\<close>: the administration commands of the command line, on the store. What a command
  prints is a list of lines or audit events; its result is the error it returns, if any. The usage texts that
  the flag package writes to the error stream are not modelled.
\<close>

datatype printed = Line string | Event AuditEvent

type_synonym cli = "printed list \<times> unit res \<times> db"

text \<open>
  The outside: the SSH library, the random source, files (\<open>os.ReadFile\<close>), the standard input (a terminal's hidden
  line, or all bytes of a pipe), the network, the master key's file and the parser of timestamps. \<open>c_quote\<close> is
  \<^verbatim>\<open>strconv.Quote\<close>, which only texts of errors use. \<open>c_storage\<close> tells which of the store's methods the database file
  fails in this command (it is locked by another process, the disk is full): before anything was written, or after the change
  was made but before its success was known, as when a new row cannot be read back.
\<close>

datatype storage_fault = NotWritten go_error | NotConfirmed go_error

record cli_env =
  c_aead :: aead
  c_ssh :: ssh_lib
  c_MarshalAuthorizedKey :: "pubkey \<Rightarrow> string"
  c_nonce :: "string res"
  c_ReadFile :: "string \<Rightarrow> string res"
  c_terminal :: "string res option"
  c_stdin :: "string res"
  c_ScanHostKey :: "string \<Rightarrow> pubkey res"
  c_fs :: fs
  c_fault :: fault
  c_ParseTime :: "string \<Rightarrow> datetime option"
  c_quote :: "string \<Rightarrow> string"
  c_storage :: "string \<Rightarrow> storage_fault option"

section \<open>Helpers\<close>

definition failing :: "db \<Rightarrow> string \<Rightarrow> cli" where
  "failing s text = ([], Inl (Err text), s)"

definition quiet :: "(db, unit) outcome \<Rightarrow> cli" where
  "quiet r = ([], fst r, snd r)"

text \<open>A method that writes, and one that reads, on storage that may fail.\<close>

definition attempt :: "cli_env \<Rightarrow> string \<Rightarrow> db \<Rightarrow> (db, 'a) outcome \<Rightarrow> (db, 'a) outcome" where
  "attempt E method s r = (case c_storage E method of
     None \<Rightarrow> r
   | Some (NotWritten e) \<Rightarrow> (Inl e, s)
   | Some (NotConfirmed e) \<Rightarrow> (case r of (Inl e', s') \<Rightarrow> (Inl e', s') | (Inr _, s') \<Rightarrow> (Inl e, s')))"

definition query :: "cli_env \<Rightarrow> string \<Rightarrow> 'a res \<Rightarrow> 'a res" where
  "query E method r = (case c_storage E method of
     None \<Rightarrow> r | Some (NotWritten e) \<Rightarrow> Inl e | Some (NotConfirmed e) \<Rightarrow> Inl e)"

definition flag_error_text :: "cli_env \<Rightarrow> flag_error \<Rightarrow> string" where
  "flag_error_text E e = (case e of
     BadSyntax s \<Rightarrow> ''bad flag syntax: '' @ s
   | HelpRequested \<Rightarrow> ''flag: help requested''
   | NotDefined n \<Rightarrow> ''flag provided but not defined: -'' @ n
   | NeedsArgument n \<Rightarrow> ''flag needs an argument: -'' @ n
   | InvalidBool v n \<Rightarrow> ''invalid boolean value '' @ c_quote E v @ '' for -'' @ n @ '': parse error''
   | InvalidInt v n k \<Rightarrow> ''invalid value '' @ c_quote E v @ '' for flag -'' @ n @ '': ''
       @ (case k of Syntax \<Rightarrow> ''parse error'' | Range \<Rightarrow> ''value out of range''))"

text \<open>A command's body runs on the parsed flags and the arguments after them.\<close>

definition with_flags :: "cli_env \<Rightarrow> db \<Rightarrow> flag_set \<Rightarrow> string list \<Rightarrow> (flag_set \<Rightarrow> string list \<Rightarrow> cli) \<Rightarrow> cli" where
  "with_flags E s flags args body =
     (case parse_flags flags args of
        Inl e \<Rightarrow> failing s (flag_error_text E e)
      | Inr (fs, rest) \<Rightarrow> body fs rest)"

definition auditLocal :: "cli_env \<Rightarrow> db \<Rightarrow> string \<Rightarrow> (string \<times> json) list \<Rightarrow> (db, unit) outcome" where
  "auditLocal E s ev details = attempt E ''Audit'' s (Audit s \<lparr>Audit_ID = 0, Audit_At = [], Audit_ActorUserID = None,
     Audit_ClaimedUsername = ''local-admin'', Audit_SourceAddress = ''local'', Audit_EventType = ev, Audit_TargetID = None,
     Audit_Outcome = ''success'', Audit_Details = marshal_map details\<rparr>)"

text \<open>An operation and, when it succeeded, its audit record.\<close>

definition then_audit :: "cli_env \<Rightarrow> db \<Rightarrow> string \<Rightarrow> (db, 'a) outcome \<Rightarrow> string \<Rightarrow> (string \<times> json) list \<Rightarrow> cli" where
  "then_audit E s method r ev details = (case attempt E method s r of
     (Inl e, s') \<Rightarrow> ([], Inl e, s') | (Inr _, s') \<Rightarrow> quiet (auditLocal E s' ev details))"

definition readPublicKey :: "cli_env \<Rightarrow> string \<Rightarrow> (pubkey \<times> string \<times> string) res" where
  "readPublicKey E path =
     (case c_ReadFile E path of
        Inl e \<Rightarrow> Inl e
      | Inr b \<Rightarrow>
          (case ParseAuthorizedKey (c_ssh E) b of
             Inl e \<Rightarrow> Inl (wrap ''parse authorized key'' e)
           | Inr (k, _) \<Rightarrow> Inr (k, TrimSpace (c_MarshalAuthorizedKey E k), FingerprintSHA256 (c_ssh E) k)))"

definition TrimRightNewlines :: "string \<Rightarrow> string" where
  "TrimRightNewlines v = rev (dropWhile (\<lambda>c. c = chr 13 \<or> c = chr 10) (rev v))"

definition readSecret :: "cli_env \<Rightarrow> string res" where
  "readSecret E = (case c_terminal E of
     Some line \<Rightarrow> line
   | None \<Rightarrow> (case c_stdin E of Inl e \<Rightarrow> Inl e | Inr b \<Rightarrow> Inr (TrimRightNewlines (take (1024 * 1024) b))))"

definition row_line :: "string \<Rightarrow> printed" where
  "row_line text = Line (text @ [chr 10])"

section \<open>Users and their keys\<close>

definition user_line :: "User \<Rightarrow> printed" where
  "user_line v = row_line (pad 32 (User_Username v) @ '' '' @ pad 8 (User_Role v) @ '' ''
     @ pad 8 (if User_TOTPEnabled v then ''totp-on'' else ''totp-off'') @ '' '' @ (if User_Enabled v then ''enabled'' else ''disabled''))"

definition userKeysCommand :: "cli_env \<Rightarrow> db \<Rightarrow> string list \<Rightarrow> cli" where
  "userKeysCommand E s args =
     (case args of
        op # user # params \<Rightarrow>
          if op = ''list'' then
            (case query E ''ListGatewayKeys'' (ListGatewayKeys s user) of
               Inl e \<Rightarrow> ([], Inl e, s)
             | Inr ks \<Rightarrow> (map (\<lambda>k. row_line (Key_Fingerprint k @ chr 9 # Key_Label k)) ks, Inr (), s))
          else if op = ''add'' then
            with_flags E s [(''file'', StringFlag []), (''label'', StringFlag [])] params (\<lambda>fs _.
              if string_flag fs ''file'' = [] then failing s ''--file is required''
              else (case readPublicKey E (string_flag fs ''file'') of
                 Inl e \<Rightarrow> ([], Inl e, s)
               | Inr (_, canonical, fp) \<Rightarrow>
                   then_audit E s ''AddGatewayKey'' (AddGatewayKey s user fp canonical (string_flag fs ''label''))
                     ''admin.gateway_key.add'' [(''username'', JStr user), (''fingerprint'', JStr fp)]))
          else if op = ''remove'' then
            (case params of
               [fp] \<Rightarrow> then_audit E s ''RemoveGatewayKey'' (RemoveGatewayKey s user fp) ''admin.gateway_key.remove''
                        [(''username'', JStr user), (''fingerprint'', JStr fp)]
             | _ \<Rightarrow> failing s ''usage: users keys remove USER FINGERPRINT'')
          else failing s (''unknown key operation '' @ c_quote E op)
      | _ \<Rightarrow> failing s ''usage: users keys list|add|remove USER'')"

definition usersCommand :: "cli_env \<Rightarrow> db \<Rightarrow> string list \<Rightarrow> cli" where
  "usersCommand E s args =
     (case args of
        [] \<Rightarrow> failing s ''users requires list, add, enable, disable, delete, set-role, keys, or totp''
      | op # params \<Rightarrow>
          if op = ''list'' then
            (case query E ''ListUsers'' (Inr (ListUsers s)) of
               Inl e \<Rightarrow> ([], Inl e, s) | Inr us \<Rightarrow> (map user_line us, Inr (), s))
          else if op = ''add'' then
            (case params of
               [] \<Rightarrow> failing s ''usage: users add USER [--role role]''
             | name # rest \<Rightarrow>
                 with_flags E s [(''role'', StringFlag RoleMember)] rest (\<lambda>fs extra.
                   if extra \<noteq> [] then failing s ''usage: users add USER [--role role]''
                   else (case attempt E ''AddUser'' s (AddUser s name (string_flag fs ''role'')) of
                      (Inl e, s1) \<Rightarrow> ([], Inl e, s1)
                    | (Inr v, s1) \<Rightarrow> quiet (auditLocal E s1 ''admin.user.add''
                        [(''username'', JStr (User_Username v)), (''role'', JStr (User_Role v))]))))
          else if op = ''enable'' \<or> op = ''disable'' then
            (case params of
               [name] \<Rightarrow> then_audit E s ''SetUserEnabled'' (SetUserEnabled s name (op = ''enable'')) (''admin.user.'' @ op) [(''username'', JStr name)]
             | _ \<Rightarrow> failing s (''usage: users '' @ op @ '' USER''))
          else if op = ''delete'' then
            (case params of
               [name] \<Rightarrow> then_audit E s ''DeleteUser'' (DeleteUser s name) ''admin.user.delete'' [(''username'', JStr name)]
             | _ \<Rightarrow> failing s ''usage: users delete USER'')
          else if op = ''set-role'' then
            (case params of
               [name, role] \<Rightarrow> then_audit E s ''SetUserRole'' (SetUserRole s name role) ''admin.user.set_role''
                                [(''username'', JStr name), (''role'', JStr role)]
             | _ \<Rightarrow> failing s ''usage: users set-role USER admin|member'')
          else if op = ''keys'' then userKeysCommand E s params
          else if op = ''totp'' then
            (case params of
               [sub, name] \<Rightarrow>
                 if sub \<noteq> ''remove'' then failing s ''usage: users totp remove USER''
                 else (case query E ''UserByName'' (UserByName s name) of
                    Inl e \<Rightarrow> ([], Inl e, s)
                  | Inr v \<Rightarrow> then_audit E s ''RemoveUserTOTP'' (RemoveUserTOTP s (User_ID v)) ''admin.user.totp.remove''
                               [(''username'', JStr (User_Username v))])
             | _ \<Rightarrow> failing s ''usage: users totp remove USER'')
          else failing s (''unknown users operation '' @ c_quote E op))"

section \<open>Groups\<close>

definition group_line :: "GroupMember list \<Rightarrow> Group \<Rightarrow> printed" where
  "group_line members g = row_line (pad 32 (Group_Name g) @ '' ''
     @ join '','' (map Member_Username (filter (\<lambda>x. Member_Group x = Group_Name g) members)))"

definition groupsCommand :: "cli_env \<Rightarrow> db \<Rightarrow> string list \<Rightarrow> cli" where
  "groupsCommand E s args =
     (case args of
        [] \<Rightarrow> failing s ''groups requires list, add, delete, or members''
      | op # params \<Rightarrow>
          if op = ''list'' then
            (case query E ''ListGroups'' (Inr (ListGroups s)) of
               Inl e \<Rightarrow> ([], Inl e, s)
             | Inr gs \<Rightarrow>
                 (case query E ''ListGroupMembers'' (Inr (ListGroupMembers s)) of
                    Inl e \<Rightarrow> ([], Inl e, s) | Inr members \<Rightarrow> (map (group_line members) gs, Inr (), s)))
          else if op = ''add'' \<or> op = ''delete'' then
            (case params of
               [name] \<Rightarrow> then_audit E s (if op = ''add'' then ''AddGroup'' else ''DeleteGroup'') (if op = ''add'' then AddGroup s name else DeleteGroup s name)
                          (''admin.group.'' @ op) [(''group'', JStr name)]
             | _ \<Rightarrow> failing s (''usage: groups '' @ op @ '' GROUP''))
          else if op = ''members'' then
            (case params of
               [sub, grp, user] \<Rightarrow>
                 if sub = ''add'' \<or> sub = ''remove'' then
                   then_audit E s ''SetGroupMember'' (SetGroupMember s grp user (sub = ''add'')) (''admin.group.member.'' @ sub)
                     [(''group'', JStr grp), (''username'', JStr user)]
                 else failing s ''usage: groups members add|remove GROUP USER''
             | _ \<Rightarrow> failing s ''usage: groups members add|remove GROUP USER'')
          else failing s (''unknown groups operation '' @ c_quote E op))"

section \<open>Credentials and host keys\<close>

definition readCredential :: "cli_env \<Rightarrow> string \<Rightarrow> string \<Rightarrow> Payload res" where
  "readCredential E kind keyFile =
     (if kind = CredentialPassword then
        (case readSecret E of Inl e \<Rightarrow> Inl e | Inr p \<Rightarrow> Inr (empty_payload\<lparr>Password := p\<rparr>))
      else if kind = CredentialPrivateKey then
        (if keyFile = [] then Inl (Err ''--key-file is required for private_key authentication'')
         else (case c_ReadFile E keyFile of
            Inl e \<Rightarrow> Inl e
          | Inr b \<Rightarrow>
              (case ParsePrivateKey (c_ssh E) b None of
                 Inr _ \<Rightarrow> Inr (empty_payload\<lparr>PrivateKey := b\<rparr>)
               | Inl _ \<Rightarrow>
                   (case readSecret E of
                      Inl e \<Rightarrow> Inl e
                    | Inr pass \<Rightarrow>
                        (case ParsePrivateKey (c_ssh E) b (Some pass) of
                           Inl e \<Rightarrow> Inl (wrap ''parse private key'' e)
                         | Inr _ \<Rightarrow> Inr (empty_payload\<lparr>PrivateKey := b, Passphrase := pass\<rparr>))))))
      else if kind = CredentialAgent then
        (if keyFile = [] then Inl (Err ''--key-file is required and must contain the forwarded-agent public key'')
         else (case c_ReadFile E keyFile of
            Inl e \<Rightarrow> Inl e
          | Inr b \<Rightarrow>
              (case ParseAuthorizedKey (c_ssh E) b of
                 Inl e \<Rightarrow> Inl (wrap ''parse forwarded-agent public key'' e)
               | Inr (key, rest) \<Rightarrow>
                   if TrimSpace rest \<noteq> []
                   then Inl (wrap ''parse forwarded-agent public key'' (Err ''file must contain exactly one public key''))
                   else Inr (empty_payload\<lparr>PublicKey := TrimSpace (c_MarshalAuthorizedKey E key)\<rparr>))))
      else Inl (Err ''auth must be password, private_key, or forwarded_agent''))"

definition obtainHostKey :: "cli_env \<Rightarrow> string \<Rightarrow> string \<Rightarrow> bool \<Rightarrow> printed list \<times> pubkey res" where
  "obtainHostKey E address path accept =
     (if path \<noteq> [] then ([], case readPublicKey E path of Inl e \<Rightarrow> Inl e | Inr (k, _) \<Rightarrow> Inr k)
      else (case c_ScanHostKey E address of
         Inl e \<Rightarrow> ([], Inl e)
       | Inr k \<Rightarrow>
           ([row_line (''Observed host key: '' @ key_Type k @ '' '' @ FingerprintSHA256 (c_ssh E) k)],
            if accept then Inr k
            else Inl (Err (''host key was not stored; verify the fingerprint out-of-band and repeat with ''
              @ ''--accept-host-key'')))))"

definition fingerprintLine :: "cli_env \<Rightarrow> string \<Rightarrow> string" where
  "fingerprintLine E line = (case ParseHostKey (c_ssh E) line of
     Inl _ \<Rightarrow> ''invalid'' | Inr k \<Rightarrow> FingerprintSHA256 (c_ssh E) k)"

section \<open>Targets\<close>

text \<open>The credential of a new target: read, encrypted under the master key and stored.\<close>

definition store_credential :: "cli_env \<Rightarrow> Config \<Rightarrow> db \<Rightarrow> Target \<Rightarrow> string \<Rightarrow> string \<Rightarrow> (db, unit) outcome" where
  "store_credential E cfg s t kind keyFile =
     (case readCredential E kind keyFile of
        Inl e \<Rightarrow> (Inl e, s)
      | Inr payload \<Rightarrow>
          (case Load (c_fault E) (c_fs E) (MasterKeyPath cfg) of
             Inl e \<Rightarrow> (Inl e, s)
           | Inr c \<Rightarrow>
               (case Encrypt (c_aead E) (c_nonce E) c (Target_ID t) kind payload of
                  Inl e \<Rightarrow> (Inl e, s)
                | Inr (nonce, ct) \<Rightarrow>
                    attempt E ''SetTargetCredential'' s (SetTargetCredential s (Target_ID t) (Some nonce) (Some ct)))))"

definition target_flags :: flag_set where
  "target_flags = [(''name'', StringFlag []), (''host'', StringFlag []), (''port'', IntFlag 22), (''remote-user'', StringFlag []),
     (''auth'', StringFlag []), (''key-file'', StringFlag []), (''host-key-file'', StringFlag []), (''accept-host-key'', BoolFlag False)]"

text \<open>A target whose credential cannot be stored is removed again.\<close>

definition targetAdd :: "cli_env \<Rightarrow> Config \<Rightarrow> db \<Rightarrow> string list \<Rightarrow> cli" where
  "targetAdd E cfg s args =
     with_flags E s target_flags args (\<lambda>fs _.
       let str = string_flag fs; kind = str ''auth''; port = int_flag fs ''port'' in
       if str ''name'' = [] \<or> str ''host'' = [] \<or> str ''remote-user'' = [] \<or> kind = []
       then failing s ''--name, --host, --remote-user, and --auth are required''
       else (case obtainHostKey E (JoinHostPort (str ''host'') (itoa port)) (str ''host-key-file'') (bool_flag fs ''accept-host-key'') of
          (out, Inl e) \<Rightarrow> (out, Inl e, s)
        | (out, Inr hk) \<Rightarrow>
            (case attempt E ''AddTarget'' s (AddTarget s \<lparr>New_Name = str ''name'', New_Host = str ''host'', New_Port = port,
                    New_RemoteUsername = str ''remote-user'', New_CredentialKind = kind, New_HostKeyAlgorithm = key_Type hk,
                    New_HostPublicKey = TrimSpace (c_MarshalAuthorizedKey E hk), New_IdentityID = None\<rparr>) of
               (Inl e, s1) \<Rightarrow> (out, Inl e, s1)
             | (Inr t, s1) \<Rightarrow>
                 (case store_credential E cfg s1 t kind (str ''key-file'') of
                    (Inl e, s2) \<Rightarrow> (out, Inl e, snd (attempt E ''DeleteTarget'' s2 (DeleteTarget s2 (Target_Name t))))
                  | (Inr _, s2) \<Rightarrow>
                      let (r, s3) = auditLocal E s2 ''admin.target.add'' [(''target'', JStr (Target_Name t)),
                            (''host_key'', JStr (FingerprintSHA256 (c_ssh E) hk)), (''credential_kind'', JStr kind)]
                      in (out, r, s3)))))"

definition targetEdit :: "cli_env \<Rightarrow> db \<Rightarrow> string list \<Rightarrow> cli" where
  "targetEdit E s args =
     (case args of
        [] \<Rightarrow> failing s ''usage: targets edit NAME [--host H --port P --remote-user U]''
      | name # rest \<Rightarrow>
          (case query E ''TargetByName'' (TargetByName s name) of
             Inl e \<Rightarrow> ([], Inl e, s)
           | Inr t \<Rightarrow>
               with_flags E s [(''host'', StringFlag (Target_Host t)), (''port'', IntFlag (Target_Port t)),
                   (''remote-user'', StringFlag (Target_RemoteUsername t))] rest (\<lambda>fs _.
                 then_audit E s ''UpdateTarget'' (UpdateTarget s (Target_Name t) (string_flag fs ''host'') (int_flag fs ''port'')
                     (string_flag fs ''remote-user''))
                   ''admin.target.edit'' [(''target'', JStr (Target_Name t))])))"

definition targetCredential :: "cli_env \<Rightarrow> Config \<Rightarrow> db \<Rightarrow> string \<Rightarrow> string list \<Rightarrow> cli" where
  "targetCredential E cfg s name args =
     (case query E ''TargetByName'' (TargetByName s name) of
        Inl e \<Rightarrow> ([], Inl e, s)
      | Inr t \<Rightarrow>
          with_flags E s [(''auth'', StringFlag (Target_CredentialKind t)), (''key-file'', StringFlag [])] args (\<lambda>fs _.
            let kind = string_flag fs ''auth'' in
            (case readCredential E kind (string_flag fs ''key-file'') of
               Inl e \<Rightarrow> ([], Inl e, s)
             | Inr payload \<Rightarrow>
                 (case Load (c_fault E) (c_fs E) (MasterKeyPath cfg) of
                    Inl e \<Rightarrow> ([], Inl e, s)
                  | Inr c \<Rightarrow>
                      (case Encrypt (c_aead E) (c_nonce E) c (Target_ID t) kind payload of
                         Inl e \<Rightarrow> ([], Inl e, s)
                       | Inr (nonce, ct) \<Rightarrow>
                           then_audit E s ''SetTargetCredentialKind'' (SetTargetCredentialKind s (Target_ID t) kind (Some nonce) (Some ct))
                             ''admin.target.credential.replace'' [(''target'', JStr name), (''credential_kind'', JStr kind)])))))"

definition targetHostKey :: "cli_env \<Rightarrow> db \<Rightarrow> string list \<Rightarrow> cli" where
  "targetHostKey E s args =
     (let usage = failing s ''usage: targets host-key scan|replace NAME [--host-key-file FILE --accept-host-key]'' in
      case args of
        op # name # rest \<Rightarrow>
          if op \<noteq> ''scan'' \<and> op \<noteq> ''replace'' then usage
          else (case query E ''TargetByName'' (TargetByName s name) of
             Inl e \<Rightarrow> ([], Inl e, s)
           | Inr t \<Rightarrow>
               with_flags E s [(''host-key-file'', StringFlag []), (''accept-host-key'', BoolFlag False)] rest (\<lambda>fs _.
                 let path = string_flag fs ''host-key-file''; accept = bool_flag fs ''accept-host-key'' in
                 (case obtainHostKey E (JoinHostPort (Target_Host t) (itoa (Target_Port t))) path (op = ''scan'' \<or> accept) of
                    (out, Inl e) \<Rightarrow> (out, Inl e, s)
                  | (out, Inr k) \<Rightarrow>
                      let fp = FingerprintSHA256 (c_ssh E) k;
                          shown = out @ [row_line (''Pinned:   '' @ fingerprintLine E (Target_HostPublicKey t)),
                                         row_line (''Observed: '' @ fp)] in
                      if op = ''scan'' then (shown, Inr (), s)
                      else if \<not> accept \<and> path = [] then (shown, Inl (Err ''--accept-host-key is required''), s)
                      else let (out', r, s') = then_audit E s ''SetTargetHostKey''
                             (SetTargetHostKey s name (key_Type k) (TrimSpace (c_MarshalAuthorizedKey E k)))
                             ''admin.target.host_key.replace'' [(''target'', JStr name), (''fingerprint'', JStr fp)]
                           in (shown @ out', r, s'))))
      | _ \<Rightarrow> usage)"

definition target_line :: "cli_env \<Rightarrow> Target \<Rightarrow> printed" where
  "target_line E t = row_line (pad 24 (Target_Name t) @ '' '' @ Target_RemoteUsername t @ ''@'' @ Target_Host t @ '':''
     @ itoa (Target_Port t) @ '' '' @ pad 11 (Target_CredentialKind t) @ '' ''
     @ pad 8 (if Target_Enabled t then ''enabled'' else ''disabled'') @ '' '' @ fingerprintLine E (Target_HostPublicKey t))"

definition targetsCommand :: "cli_env \<Rightarrow> Config \<Rightarrow> db \<Rightarrow> string list \<Rightarrow> cli" where
  "targetsCommand E cfg s args =
     (case args of
        [] \<Rightarrow> failing s ''targets requires list, add, edit, enable, disable, delete, credential, or host-key''
      | op # params \<Rightarrow>
          if op = ''list'' then
            (case query E ''ListTargets'' (Inr (ListTargets s)) of
               Inl e \<Rightarrow> ([], Inl e, s) | Inr ts \<Rightarrow> (map (target_line E) ts, Inr (), s))
          else if op = ''add'' then targetAdd E cfg s params
          else if op = ''edit'' then targetEdit E s params
          else if op = ''enable'' \<or> op = ''disable'' then
            (case params of
               [name] \<Rightarrow> then_audit E s ''SetTargetEnabled'' (SetTargetEnabled s name (op = ''enable'')) (''admin.target.'' @ op) [(''target'', JStr name)]
             | _ \<Rightarrow> failing s (''usage: targets '' @ op @ '' NAME''))
          else if op = ''delete'' then
            (case params of
               [name] \<Rightarrow> then_audit E s ''DeleteTarget'' (DeleteTarget s name) ''admin.target.delete'' [(''target'', JStr name)]
             | _ \<Rightarrow> failing s ''usage: targets delete NAME'')
          else if op = ''credential'' then
            (case params of
               sub # name # rest \<Rightarrow>
                 if sub \<noteq> ''replace''
                 then failing s ''usage: targets credential replace NAME [--auth kind] [--key-file path]''
                 else targetCredential E cfg s name rest
             | _ \<Rightarrow> failing s ''usage: targets credential replace NAME [--auth kind] [--key-file path]'')
          else if op = ''host-key'' then targetHostKey E s params
          else failing s (''unknown targets operation '' @ c_quote E op))"

section \<open>Grants and the audit log\<close>

definition grant_line :: "Grant \<Rightarrow> printed" where
  "grant_line g = row_line (pad 24 (Grant_Target g) @ '' '' @ pad 8 (Grant_Kind g) @ '' '' @ Grant_Principal g)"

definition grantsCommand :: "cli_env \<Rightarrow> db \<Rightarrow> string list \<Rightarrow> cli" where
  "grantsCommand E s args =
     (case args of
        [] \<Rightarrow> failing s ''grants requires list, add, or remove''
      | op # params \<Rightarrow>
          if op = ''list'' then
            (case query E ''ListGrants'' (Inr (ListGrants s)) of
               Inl e \<Rightarrow> ([], Inl e, s) | Inr gs \<Rightarrow> (map grant_line gs, Inr (), s))
          else if op \<noteq> ''add'' \<and> op \<noteq> ''remove'' then failing s ''grants requires list, add, or remove''
          else with_flags E s [(''target'', StringFlag []), (''user'', StringFlag []), (''group'', StringFlag [])] params (\<lambda>fs _.
            let target = string_flag fs ''target''; user = string_flag fs ''user''; grp = string_flag fs ''group'';
                kind = (if grp \<noteq> [] then ''group'' else ''user''); princ = (if grp \<noteq> [] then grp else user) in
            if target = [] \<or> (user = []) = (grp = [])
            then failing s ''--target and exactly one of --user or --group are required''
            else then_audit E s ''SetGrant'' (SetGrant s target kind princ (op = ''add'')) (''admin.grant.'' @ op)
                   [(''target'', JStr target), (''kind'', JStr kind), (''principal'', JStr princ)]))"

definition auditCommand :: "cli_env \<Rightarrow> db \<Rightarrow> string list \<Rightarrow> cli" where
  "auditCommand E s args =
     (let listing = (\<lambda>rest. with_flags E s [(''limit'', IntFlag 100)] rest (\<lambda>fs _.
            (case query E ''ListAudit'' (Inr (ListAudit s (int_flag fs ''limit''))) of
               Inl e \<Rightarrow> ([], Inl e, s) | Inr events \<Rightarrow> (map Event events, Inr (), s)))) in
      case args of
        [] \<Rightarrow> listing []
      | op # params \<Rightarrow>
          if op = ''list'' then listing params
          else if op = ''prune'' then
            with_flags E s [(''before'', StringFlag [])] params (\<lambda>fs _.
              (case c_ParseTime E (string_flag fs ''before'') of
                 None \<Rightarrow> failing s ''--before must be an RFC3339 timestamp''
               | Some t \<Rightarrow>
                   (case attempt E ''PruneAudit'' s (PruneAudit s t) of
                      (Inl e, s') \<Rightarrow> ([], Inl e, s')
                    | (Inr n, s') \<Rightarrow> ([row_line (''Pruned '' @ itoa (int n) @ '' audit events.'')], Inr (), s'))))
          else failing s (''unknown audit operation '' @ c_quote E op))"

definition adminCommand :: "cli_env \<Rightarrow> Config \<Rightarrow> db \<Rightarrow> string \<Rightarrow> string list \<Rightarrow> cli" where
  "adminCommand E cfg s command args =
     (if command = ''users'' then usersCommand E s args
      else if command = ''groups'' then groupsCommand E s args
      else if command = ''targets'' then targetsCommand E cfg s args
      else if command = ''grants'' then grantsCommand E s args
      else if command = ''audit'' then auditCommand E s args
      else failing s (''unknown command '' @ c_quote E command))"

end
