(* ===== verification/Cli_Safety.thy ===== *)
theory Cli_Safety
  imports Cli Store Gateway_Sessions Sample_Store
begin

text \<open>
  The command line's administration commands: one that fails leaves the store as it was, unless the storage failed at the audit
  record, at the removal of a half-made target or after a change was made; one that succeeds has either only read the store
  or left a record in the audit log.
\<close>

section \<open>Operations that fail change nothing\<close>

definition unchanged :: "db \<Rightarrow> (db, 'a) outcome \<Rightarrow> bool" where
  "unchanged s r \<longleftrightarrow> (store_ok s \<longrightarrow> (\<forall>e s'. r = (Inl e, s') \<longrightarrow> s' = s))"

named_theorems unchanged_ops "store operations that change nothing when they fail"

lemma unchanged_simps [simp]: "unchanged s (Inr x, s')" "unchanged s (r, s)"
  by (auto simp: unchanged_def)

lemma unchanged_InlD: "unchanged s r \<Longrightarrow> store_ok s \<Longrightarrow> r = (Inl e, s') \<Longrightarrow> s' = s"
  by (simp add: unchanged_def)

lemma unchanged_changed: "(n = 0 \<Longrightarrow> s' = s) \<Longrightarrow> unchanged s (changed n, s')"
  by (simp add: changed_def)

lemma update_where_count0: "count_where P rs = 0 \<Longrightarrow> update_where P f rs = rs"
  by (induction rs) (auto simp: count_where_def update_where_def)

lemma update_targets_unchanged: "unchanged s (update_targets s P f)"
  by (simp add: update_targets_def changed_def update_where_count0)

lemma delete_nothing [simp]: "delete_target_rows s {} = s" "delete_group_rows s {} = s"
  by (simp_all add: delete_target_rows_def delete_group_rows_def update_where_none)

lemma DeleteTarget_unchanged [unchanged_ops]: "unchanged s (DeleteTarget s n)"
  unfolding DeleteTarget_def Let_def by (rule unchanged_changed) simp

lemma DeleteGroup_unchanged [unchanged_ops]: "unchanged s (DeleteGroup s n)"
  unfolding DeleteGroup_def Let_def by (rule unchanged_changed) simp

text \<open>A new target is found under its id, and deleting it at once takes nothing else along.\<close>

lemma insert_target_InrD:
  assumes "insert_target s n = (Inr i, s1)"
  shows "\<exists>t. s1 = s\<lparr>targets := targets s @ [t]\<rparr> \<and> Target_ID t = i \<and> Target_Name t = New_Name n
     \<and> i = next_rowid (map Target_ID (targets s)) \<and> New_Name n \<notin> Target_Name ` set (targets s)"
  using assms unfolding insert_target_def Let_def by (simp split: if_splits) force

lemma insert_target_fresh:
  assumes "store_ok s" "insert_target s n = (Inr i, s1)" "valid_port (New_Port n)" "validCredentialKind (New_CredentialKind n)"
  shows "\<exists>t. TargetByID s1 i = Inr t \<and> t \<in> set (targets s1) \<and> Target_ID t = i \<and> snd (DeleteTarget s1 (Target_Name t)) = s"
proof -
  obtain t where t: "s1 = s\<lparr>targets := targets s @ [t]\<rparr>" "Target_ID t = i" "Target_Name t = New_Name n"
      "i = next_rowid (map Target_ID (targets s))" "New_Name n \<notin> Target_Name ` set (targets s)"
    using insert_target_InrD[OF assms(2)] by blast
  have "store_ok s1" using insert_target_ok[OF assms(1,3,4)] assms(2) by simp
  then have found: "TargetByID s1 i = Inr t" using TargetByID_found[of s1 t] t(1,2) by simp
  have new: "j \<noteq> i" if "j \<in> Target_ID ` set (targets s)" for j
    using next_rowid_greater[of j "map Target_ID (targets s)"] that t(4) by auto
  have refs: "refs grant_target_id (user_target_grants s) Target_ID (targets s)"
      "refs grant_target_id (group_target_grants s) Target_ID (targets s)"
      "refs rule_target_id (target_forward_rules s) Target_ID (targets s)"
      "refs_some Audit_TargetID (audit_events s) Target_ID (targets s)"
    using assms(1) by (auto simp: store_ok_def ok_defs)
  have keep: "filter (\<lambda>g. grant_target_id g \<noteq> i) (user_target_grants s) = user_target_grants s"
      "filter (\<lambda>g. grant_target_id g \<noteq> i) (group_target_grants s) = group_target_grants s"
      "filter (\<lambda>r. rule_target_id r \<noteq> i) (target_forward_rules s) = target_forward_rules s"
      "filter (\<lambda>t. Target_ID t \<noteq> i) (targets s) = targets s"
    using refs new by (auto simp: refs_def filter_id_conv)
  have "count_where (\<lambda>e. Audit_TargetID e = Some i) (audit_events s) = 0"
    using refs(4) new by (auto simp: count_where_def refs_some_def filter_empty_conv)
  then have events: "update_where (\<lambda>e. Audit_TargetID e = Some i) f (audit_events s) = audit_events s" for f
    by (rule update_where_count0)
  have "filter (\<lambda>t'. Target_Name t' = Target_Name t) (targets s1) = [t]"
    using t(1,3,5) by (auto simp: filter_empty_conv image_iff)
  then have "snd (DeleteTarget s1 (Target_Name t)) = s"
    using keep events by (simp add: DeleteTarget_def delete_target_rows_def t(1,2))
  then show ?thesis using found t(1,2) by auto
qed

lemma AddTarget_InrD:
  assumes "store_ok s" "AddTarget s n = (Inr t, s1)"
  shows "snd (DeleteTarget s1 (Target_Name t)) = s"
proof -
  obtain i where "insert_target s n = (Inr i, s1)" "TargetByID s1 i = Inr t" "valid_port (New_Port n)"
      "validCredentialKind (New_CredentialKind n)"
    using assms(2) by (auto simp: AddTarget_def split: if_splits sum.splits prod.splits)
  then show ?thesis using insert_target_fresh[OF assms(1), of n i s1] by auto
qed

lemma AddTarget_unchanged [unchanged_ops]: "unchanged s (AddTarget s n)"
  unfolding unchanged_def
proof (intro impI allI)
  fix e s1
  assume ok: "store_ok s" and r: "AddTarget s n = (Inl e, s1)"
  show "s1 = s"
  proof (cases "insert_target s n")
    case (Pair x s2)
    show ?thesis
    proof (cases x)
      case (Inl e')
      then show ?thesis using Pair r
        by (auto simp: AddTarget_def insert_target_def Let_def split: if_splits)
    next
      case (Inr i)
      then show ?thesis using insert_target_fresh[OF ok, of n i s2] Pair r
        by (auto simp: AddTarget_def split: if_splits)
    qed
  qed
qed

lemma target_ops_unchanged [unchanged_ops]:
  "unchanged s (SetTargetEnabled s n b)" "unchanged s (SetTargetCredential s i x y)" "unchanged s (SetTargetCredentialKind s i k x y)"
  "unchanged s (SetTargetHostKey s n a k)" "unchanged s (UpdateTarget s n h p r)"
  by (auto simp: SetTargetEnabled_def SetTargetCredential_def SetTargetCredentialKind_def SetTargetHostKey_def UpdateTarget_def
      update_targets_unchanged)

lemma found_user_counted: "UserByName s n = Inr x \<Longrightarrow> count_where (\<lambda>r. users_id r = User_ID x) (users s) \<noteq> 0"
  by (auto dest!: UserByName_InrD simp: count_where_def filter_empty_conv)

lemma changed_found: "c \<noteq> 0 \<Longrightarrow> unchanged s (changed c, s')"
  by (simp add: changed_def)

lemma SetUserEnabled_unchanged [unchanged_ops]: "unchanged s (SetUserEnabled s n b)"
  by (auto simp: SetUserEnabled_def intro!: changed_found dest: found_user_counted split: sum.split)

lemma SetUserRole_unchanged [unchanged_ops]: "unchanged s (SetUserRole s n r)"
  by (auto simp: SetUserRole_def intro!: changed_found dest: found_user_counted split: sum.split)

lemma DeleteUser_unchanged [unchanged_ops]: "unchanged s (DeleteUser s n)"
  by (auto simp: DeleteUser_def intro!: changed_found dest: found_user_counted split: sum.split)

lemma filter_count0: "count_where P rs = 0 \<Longrightarrow> filter (\<lambda>x. \<not> P x) rs = rs"
  by (auto simp: count_where_def filter_empty_conv filter_id_conv)

lemma RemoveGatewayKey_unchanged [unchanged_ops]: "unchanged s (RemoveGatewayKey s n f)"
  by (auto simp: RemoveGatewayKey_def Let_def intro!: unchanged_changed dest!: filter_count0 split: sum.split)

lemma RemoveUserTOTP_unchanged [unchanged_ops]: "unchanged s (RemoveUserTOTP s i)"
  unfolding RemoveUserTOTP_def by (rule unchanged_changed) (auto dest!: filter_count0)

lemma AddGatewayKey_unchanged [unchanged_ops]: "unchanged s (AddGatewayKey s n f p l)"
  by (auto simp: AddGatewayKey_def split: sum.split)

lemma AddUser_unchanged [unchanged_ops]: "unchanged s (AddUser s n r)"
proof (cases "validateName n ''username''")
  case (Inr name)
  have "\<exists>u. UserByID s' i = Inr u" if "insert_user s name r = (Inr i, s')" for i s'
    using that by (auto simp: insert_user_def Let_def UserByID_def find_None_iff split: if_splits option.splits)
  then show ?thesis using Inr
    by (auto simp: AddUser_def unchanged_def insert_user_def Let_def split: sum.splits prod.splits if_splits)
qed (simp add: AddUser_def)

lemma group_ops_unchanged [unchanged_ops]:
  "unchanged s (AddGroup s n)" "unchanged s (SetGroupMember s g v b)" "unchanged s (SetGrant s t k p b)"
  by (auto simp: AddGroup_def SetGroupMember_def SetGrant_def SetGrantCapabilities_def changed_def Let_def unchanged_def
      split: sum.splits prod.splits if_splits)

text \<open>Only \<open>Audit\<close> and pruning change how many events there are.\<close>

definition events_kept :: "db \<Rightarrow> (db, 'a) outcome \<Rightarrow> bool" where
  "events_kept s r \<longleftrightarrow> length (audit_events (snd r)) = length (audit_events s)"

named_theorems events_kept_ops "store operations that keep the number of audit events"

lemma update_targets_events [simp]: "audit_events (snd (update_targets s P f)) = audit_events s"
  by (simp add: update_targets_def)

lemma insert_target_events: "insert_target s n = (r, s') \<Longrightarrow> audit_events s' = audit_events s"
  by (auto simp: insert_target_def Let_def split: if_splits)

lemma target_ops_events [events_kept_ops]:
  "events_kept s (SetTargetEnabled s n b)" "events_kept s (SetTargetCredential s i x y)" "events_kept s (SetTargetCredentialKind s i k x y)"
  "events_kept s (SetTargetHostKey s n a k)" "events_kept s (UpdateTarget s n h p r)" "events_kept s (DeleteTarget s n)"
  by (auto simp: events_kept_def SetTargetEnabled_def SetTargetCredential_def SetTargetCredentialKind_def SetTargetHostKey_def
      UpdateTarget_def DeleteTarget_def Let_def delete_target_rows_def)

lemma AddTarget_events [events_kept_ops]: "events_kept s (AddTarget s n)"
  by (auto simp: events_kept_def AddTarget_def dest!: insert_target_events split: sum.split prod.split)

lemma user_ops_events [events_kept_ops]:
  "events_kept s (AddUser s n r)" "events_kept s (SetUserEnabled s n b)" "events_kept s (DeleteUser s n)" "events_kept s (SetUserRole s n r)"
  by (auto simp: events_kept_def AddUser_def insert_user_def SetUserEnabled_def DeleteUser_def SetUserRole_def Let_def delete_user_row_def
      split: sum.splits prod.splits if_splits)

lemma key_ops_events [events_kept_ops]:
  "events_kept s (AddGatewayKey s n f p l)" "events_kept s (RemoveGatewayKey s n f)" "events_kept s (RemoveUserTOTP s i)"
  by (auto simp: events_kept_def AddGatewayKey_def RemoveGatewayKey_def RemoveUserTOTP_def Let_def split: sum.splits)

lemma group_ops_events [events_kept_ops]:
  "events_kept s (AddGroup s n)" "events_kept s (DeleteGroup s n)" "events_kept s (SetGroupMember s g v b)" "events_kept s (SetGrant s t k p b)"
  by (auto simp: events_kept_def AddGroup_def DeleteGroup_def delete_group_rows_def SetGroupMember_def SetGrant_def SetGrantCapabilities_def
      upsert_grant_def delete_grant_def Let_def split: sum.splits prod.splits if_splits)

text \<open>No operation takes away the last usable administrator.\<close>

lemmas admin_ops = exec_admin[where op = "OpAddUser n r" for n r, simplified] exec_admin[where op = "OpSetUserEnabled n e" for n e, simplified]
  exec_admin[where op = "OpSetUserRole n r" for n r, simplified] exec_admin[where op = "OpDeleteUser n" for n, simplified]
  exec_admin[where op = "OpAddGatewayKey n f p l" for n f p l, simplified] exec_admin[where op = "OpRemoveGatewayKey n f" for n f, simplified]
  exec_admin[where op = "OpRemoveUserTOTP i" for i, simplified] exec_admin[where op = "OpAddGroup n" for n, simplified]
  exec_admin[where op = "OpDeleteGroup n" for n, simplified] exec_admin[where op = "OpSetGroupMember g n a" for g n a, simplified]
  exec_admin[where op = "OpAddTarget t" for t, simplified] exec_admin[where op = "OpSetTargetEnabled n e" for n e, simplified]
  exec_admin[where op = "OpDeleteTarget n" for n, simplified] exec_admin[where op = "OpSetTargetCredential i n c" for i n c, simplified]
  exec_admin[where op = "OpSetTargetCredentialKind i k n c" for i k n c, simplified] exec_admin[where op = "OpSetTargetHostKey n a k" for n a k, simplified]
  exec_admin[where op = "OpUpdateTarget n h p r" for n h p r, simplified] exec_admin[where op = "OpAudit e" for e, simplified]
  exec_admin[where op = "OpPruneAudit t" for t, simplified]

lemma SetGrant_admin: "store_ok s \<Longrightarrow> usable_admin s \<Longrightarrow> usable_admin (snd (SetGrant s t k p b))"
  using exec_admin[of s "OpSetGrantCapabilities t k p b True True True False"] by (simp add: SetGrant_def)

section \<open>Commands\<close>

definition local_event :: "AuditEvent \<Rightarrow> bool" where
  "local_event e \<longleftrightarrow> Audit_ClaimedUsername e = ''local-admin'' \<and> Audit_ActorUserID e = None \<and> Audit_Outcome e = ''success''
     \<and> take 6 (Audit_EventType e) = ''admin.''"

text \<open>The log has one event more, of the local administrator.\<close>

definition cli_recorded :: "db \<Rightarrow> db \<Rightarrow> bool" where
  "cli_recorded s s' \<longleftrightarrow> length (audit_events s') = Suc (length (audit_events s)) \<and> local_event (last (audit_events s'))"

text \<open>
  Storage that fails late: when the record of a change is to be written, when a half-made target is to be removed, or when a
  change was made and could not be confirmed.
\<close>

definition late_failure :: "cli_env \<Rightarrow> bool" where
  "late_failure E \<longleftrightarrow> c_storage E ''Audit'' \<noteq> None \<or> c_storage E ''DeleteTarget'' \<noteq> None
     \<or> (\<exists>m e. c_storage E m = Some (NotConfirmed e))"

lemma attempt_InrD: "attempt E m s r = (Inr x, s') \<Longrightarrow> r = (Inr x, s') \<and> c_storage E m = None"
  by (auto simp: attempt_def split: option.splits storage_fault.splits sum.splits prod.splits)

lemma attempt_InlD: "attempt E m s r = (Inl e, s') \<Longrightarrow> s' = s \<or> (\<exists>e'. r = (Inl e', s')) \<or> late_failure E \<and> s' = snd r"
  by (auto simp: attempt_def late_failure_def split: option.splits storage_fault.splits sum.splits prod.splits)

lemma attempt_snd: "snd (attempt E m s r) = s \<or> snd (attempt E m s r) = snd r"
  by (auto simp: attempt_def split: option.split storage_fault.split sum.split prod.split)

lemma attempt_NotWritten: "c_storage E m = Some (NotWritten e) \<Longrightarrow> attempt E m s r = (Inl e, s)"
  by (simp add: attempt_def)

text \<open>
  What a command may do to the store: nothing when it fails, unless the storage fails late; nothing without a record when it
  succeeds; and in no case break the schema's constraints or take away the last usable administrator.
\<close>

definition accountable :: "cli_env \<Rightarrow> db \<Rightarrow> cli \<Rightarrow> bool" where
  "accountable E s c \<longleftrightarrow> (store_ok s \<longrightarrow> (case c of
     (_, Inl e, s') \<Rightarrow> (s' = s \<or> late_failure E) \<and> store_ok s' \<and> (usable_admin s \<longrightarrow> usable_admin s')
   | (_, Inr _, s') \<Rightarrow> (s' = s \<or> cli_recorded s s') \<and> store_ok s' \<and> (usable_admin s \<longrightarrow> usable_admin s')))"

lemma accountable_simps [simp]:
  "accountable E s (failing s text)" "accountable E s (out, r, s)"
  by (auto simp: accountable_def failing_def split: sum.split)

text \<open>An operation on storage that may fail.\<close>

lemma attempt_good:
  assumes "unchanged s r" "store_ok s \<Longrightarrow> store_ok (snd r)" "store_ok s \<Longrightarrow> usable_admin s \<Longrightarrow> usable_admin (snd r)"
    "attempt E m s r = (Inl e, s')"
  shows "accountable E s (out, Inl e, s')"
  using attempt_InlD[OF assms(4)] assms(1-3) by (auto simp: accountable_def dest: unchanged_InlD)

lemma accountable_if: "(b \<Longrightarrow> accountable E s x) \<Longrightarrow> (\<not> b \<Longrightarrow> accountable E s y) \<Longrightarrow> accountable E s (if b then x else y)"
  by simp

lemma accountable_flags: "(\<And>fs rest. accountable E s (body fs rest)) \<Longrightarrow> accountable E s (with_flags E s flags args body)"
  by (simp add: with_flags_def split: sum.split prod.split)

lemma auditLocal_records:
  assumes "list_all (\<lambda>(k, v). plain_value v) details" "take 6 ev = ''admin.''" "auditLocal E s ev details = (r, s')"
  shows "(if isl r then s' = s \<or> late_failure E else cli_recorded s s')
    \<and> (isl r \<longrightarrow> late_failure E) \<and> (store_ok s \<longrightarrow> store_ok s' \<and> (usable_admin s \<longrightarrow> usable_admin s'))"
proof -
  define e where "e = \<lparr>Audit_ID = 0, Audit_At = [], Audit_ActorUserID = None,
     Audit_ClaimedUsername = ''local-admin'', Audit_SourceAddress = ''local'', Audit_EventType = ev, Audit_TargetID = None,
     Audit_Outcome = ''success'', Audit_Details = marshal_map details\<rparr>"
  have a: "attempt E ''Audit'' s (Audit s e) = (r, s')" using assms(3) by (simp add: auditLocal_def e_def)
  have "unmarshal_map (marshal_map details)" by (rule marshal_map_accepted) (use assms in \<open>auto simp: list_all_iff\<close>)
  moreover have "unmarshal_map ''{}''" by code_simp
  moreover have "valid_outcome ''success''" by code_simp
  ultimately have "\<exists>s1. Audit s e = (Inr (), s1) \<and> cli_recorded s s1"
    using assms(2) by (auto simp: Audit_def insert_audit_def audit_defaults_def Let_def cli_recorded_def local_event_def e_def)
  then obtain s1 where s1: "Audit s e = (Inr (), s1)" "cli_recorded s s1" by blast
  have ok: "store_ok s \<longrightarrow> store_ok s1 \<and> (usable_admin s \<longrightarrow> usable_admin s1)"
    using Audit_ok[of s e] exec_admin[of s "OpAudit e"] s1(1) by simp
  have "c_storage E ''Audit'' = None \<or> late_failure E" by (auto simp: late_failure_def)
  moreover have "s' = s \<or> s' = s1" using attempt_snd[of E "''Audit''" s "Audit s e"] a s1(1) by auto
  moreover have "isl r \<or> s' = s1" using a s1(1) by (cases r) (auto dest: attempt_InrD)
  ultimately show ?thesis using a s1 ok by (auto simp: attempt_def)
qed

lemma quiet_audit:
  assumes "list_all (\<lambda>(k, v). plain_value v) details" "take 6 ev = ''admin.''" "store_ok s0 \<Longrightarrow> store_ok s"
    "store_ok s0 \<Longrightarrow> usable_admin s0 \<Longrightarrow> usable_admin s" "length (audit_events s) = length (audit_events s0)"
  shows "accountable E s0 (out, auditLocal E s ev details)"
proof -
  obtain r s' where a: "auditLocal E s ev details = (r, s')" by fastforce
  from auditLocal_records[OF assms(1,2) a] assms(3-5) show ?thesis
    by (cases r) (auto simp: accountable_def cli_recorded_def a)
qed

lemma then_audit_good:
  assumes "unchanged s r" "store_ok s \<Longrightarrow> store_ok (snd r)" "store_ok s \<Longrightarrow> usable_admin s \<Longrightarrow> usable_admin (snd r)" "events_kept s r" "list_all (\<lambda>(k, v). plain_value v) details"
    "take 6 ev = ''admin.''"
  shows "accountable E s (case then_audit E s m r ev details of (o2, r2, s2) \<Rightarrow> (out @ o2, r2, s2))"
proof (cases "attempt E m s r")
  case (Pair x s1)
  show ?thesis
  proof (cases x)
    case (Inl e)
    then show ?thesis using attempt_good[OF assms(1-3)] Pair by (simp add: then_audit_def)
  next
    case (Inr y)
    have r: "r = (Inr y, s1)" using attempt_InrD Pair Inr by metis
    then show ?thesis using quiet_audit[OF assms(5,6), of s s1 E out] assms(2-4) Pair Inr
      by (cases "auditLocal E s1 ev details") (simp add: then_audit_def quiet_def events_kept_def)
  qed
qed

lemma then_audit_good_plain:
  assumes "unchanged s r" "store_ok s \<Longrightarrow> store_ok (snd r)" "store_ok s \<Longrightarrow> usable_admin s \<Longrightarrow> usable_admin (snd r)" "events_kept s r" "list_all (\<lambda>(k, v). plain_value v) details"
    "take 6 ev = ''admin.''"
  shows "accountable E s (then_audit E s m r ev details)"
  using then_audit_good[OF assms, where out = "[]"] by simp

text \<open>One rule per construct of the commands' bodies, applied from the outside in.\<close>

lemma accountable_list: "accountable E s a \<Longrightarrow> (\<And>x xs. accountable E s (f x xs)) \<Longrightarrow> accountable E s (case l of [] \<Rightarrow> a | x # xs \<Rightarrow> f x xs)"
  by (cases l) auto

lemma accountable_sum: "(\<And>e. accountable E s (f e)) \<Longrightarrow> (\<And>y. accountable E s (g y)) \<Longrightarrow> accountable E s (case x of Inl e \<Rightarrow> f e | Inr y \<Rightarrow> g y)"
  by (cases x) auto

lemma accountable_pair: "(\<And>a b. accountable E s (f a b)) \<Longrightarrow> accountable E s (case x of (a, b) \<Rightarrow> f a b)"
  by (cases x) auto

lemma accountable_failed: "accountable E s (failing s t)"
  by simp

lemma accountable_same: "accountable E s (out, r, s)"
  by simp

lemmas good_intros = accountable_failed accountable_same then_audit_good_plain then_audit_good accountable_if accountable_flags
  accountable_list accountable_sum

lemma userKeysCommand_good: "accountable E s (userKeysCommand E s args)"
  unfolding userKeysCommand_def
  by (rule good_intros unchanged_ops events_kept_ops admin_ops SetGrant_admin store_inv_intros accountable_pair | simp; fail)+

lemma AddUser_good:
  "accountable E s (case attempt E m s (AddUser s n r) of (Inl e, s1) \<Rightarrow> ([], Inl e, s1)
     | (Inr v, s1) \<Rightarrow> quiet (auditLocal E s1 ''admin.user.add'' [(''username'', JStr (User_Username v)), (''role'', JStr (User_Role v))]))"
proof (cases "attempt E m s (AddUser s n r)")
  case (Pair x s1)
  show ?thesis
  proof (cases x)
    case (Inl e)
    then show ?thesis using attempt_good[OF AddUser_unchanged AddUser_ok admin_ops(1)] Pair by simp
  next
    case (Inr v)
    then have "AddUser s n r = (Inr v, s1)" using Pair attempt_InrD by metis
    then show ?thesis using AddUser_ok[of s n r] admin_ops(1)[of s n r] user_ops_events(1)[of s n r] Pair Inr
      by (auto simp: quiet_def events_kept_def intro!: quiet_audit)
  qed
qed

lemma usersCommand_good: "accountable E s (usersCommand E s args)"
  unfolding usersCommand_def
  by (rule AddUser_good userKeysCommand_good good_intros unchanged_ops events_kept_ops admin_ops SetGrant_admin store_inv_intros | simp; fail)+

lemma groupsCommand_good: "accountable E s (groupsCommand E s args)"
  unfolding groupsCommand_def
  by (rule good_intros unchanged_ops events_kept_ops admin_ops SetGrant_admin store_inv_intros | simp add: unchanged_ops events_kept_ops admin_ops SetGrant_admin store_inv_intros; fail)+

lemma grantsCommand_good: "accountable E s (grantsCommand E s args)"
  unfolding grantsCommand_def Let_def
  by (rule good_intros unchanged_ops events_kept_ops admin_ops SetGrant_admin store_inv_intros | simp; fail)+

lemma targetEdit_good: "accountable E s (targetEdit E s args)"
  unfolding targetEdit_def
  by (rule good_intros unchanged_ops events_kept_ops admin_ops SetGrant_admin store_inv_intros | simp; fail)+

lemma targetCredential_good: "accountable E s (targetCredential E cfg s name args)"
  unfolding targetCredential_def Let_def
  by (rule good_intros unchanged_ops events_kept_ops admin_ops SetGrant_admin store_inv_intros accountable_pair | simp; fail)+

lemma targetHostKey_good: "accountable E s (targetHostKey E s args)"
  unfolding targetHostKey_def Let_def
  by (rule good_intros unchanged_ops events_kept_ops admin_ops SetGrant_admin store_inv_intros accountable_pair | simp; fail)+

lemma store_credential_good: "store_credential E cfg s t kind f = (Inl e, s') \<Longrightarrow> store_ok s \<Longrightarrow> s' = s \<or> late_failure E"
  using unchanged_InlD[OF target_ops_unchanged(2)]
  by (auto simp: store_credential_def dest!: attempt_InlD split: sum.splits prod.splits)

text \<open>Every method that writes gives the old store or the new one, whatever the storage does.\<close>

lemma store_credential_snd: "snd (store_credential E cfg s t kind f) = s
    \<or> (\<exists>i x y. snd (store_credential E cfg s t kind f) = snd (SetTargetCredential s i x y))"
proof -
  have "snd (attempt E ''SetTargetCredential'' s (SetTargetCredential s i x y)) = s
      \<or> (\<exists>i' x' y'. snd (attempt E ''SetTargetCredential'' s (SetTargetCredential s i x y)) = snd (SetTargetCredential s i' x' y'))" for i x y
    using attempt_snd[of E "''SetTargetCredential''" s "SetTargetCredential s i x y"] by blast
  then show ?thesis by (simp add: store_credential_def split: sum.split prod.split)
qed

lemma store_credential_events [events_kept_ops]: "events_kept s (store_credential E cfg s t kind f)"
  using store_credential_snd[of E cfg s t kind f] target_ops_events(2) unfolding events_kept_def by metis

lemma store_credential_ok [store_inv_intros]: "store_ok s \<Longrightarrow> store_ok (snd (store_credential E cfg s t kind f))"
  using store_credential_snd[of E cfg s t kind f] SetTargetCredential_ok by metis

lemma store_credential_admin: "store_ok s \<Longrightarrow> usable_admin s \<Longrightarrow> usable_admin (snd (store_credential E cfg s t kind f))"
  using store_credential_snd[of E cfg s t kind f] exec_admin[of s "OpSetTargetCredential i x y" for i x y] by (metis exec.simps)

lemma removed_target_good:
  "store_ok s \<Longrightarrow> store_ok (snd (attempt E m s (DeleteTarget s n)))
     \<and> (usable_admin s \<longrightarrow> usable_admin (snd (attempt E m s (DeleteTarget s n))))"
  using attempt_snd[of E m s "DeleteTarget s n"] DeleteTarget_ok[of s n] exec_admin[of s "OpDeleteTarget n"] by auto

lemma AddTarget_good:
  assumes "list_all (\<lambda>(k, v). plain_value v) (details :: (string \<times> json) list)" "take 6 ev = ''admin.''"
  shows "accountable E s (case attempt E ''AddTarget'' s (AddTarget s n) of
     (Inl e, s1) \<Rightarrow> (out, Inl e, s1)
   | (Inr t, s1) \<Rightarrow>
       (case store_credential E cfg s1 t kind f of
          (Inl e, s2) \<Rightarrow> (out, Inl e, snd (attempt E ''DeleteTarget'' s2 (DeleteTarget s2 (Target_Name t))))
        | (Inr _, s2) \<Rightarrow> (case auditLocal E s2 ev ((''target'', JStr (Target_Name t)) # details) of (r, s3) \<Rightarrow> (out, r, s3))))"
    (is "accountable E s ?c")
proof (cases "store_ok s")
  case ok: True
  obtain x s1 where add: "attempt E ''AddTarget'' s (AddTarget s n) = (x, s1)" by fastforce
  show ?thesis
  proof (cases x)
    case (Inl e)
    then show ?thesis using attempt_good[OF AddTarget_unchanged AddTarget_ok admin_ops(11)] add by simp
  next
    case (Inr t)
    note at = conjunct1[OF attempt_InrD[OF add[unfolded Inr]]]
    have s1: "store_ok s1" "usable_admin s \<Longrightarrow> usable_admin s1"
      using AddTarget_ok[OF ok, of n] admin_ops(11)[OF ok, of n] unfolding at snd_conv by blast+
    obtain y s2 where st: "store_credential E cfg s1 t kind f = (y, s2)" by (cases "store_credential E cfg s1 t kind f")
    have s2: "store_ok s2" "usable_admin s \<Longrightarrow> usable_admin s2"
      using store_credential_ok[OF s1(1), of E cfg t kind f] store_credential_admin[OF s1(1), of E cfg t kind f] s1(2)
      unfolding st snd_conv by blast+
    show ?thesis
    proof (cases y)
      case (Inl e)
      let ?s3 = "snd (attempt E ''DeleteTarget'' s2 (DeleteTarget s2 (Target_Name t)))"
      have "?s3 = s \<or> late_failure E"
      proof (cases "late_failure E")
        case False
        then have "s2 = s1" "c_storage E ''DeleteTarget'' = None"
          using store_credential_good[OF st[unfolded Inl] s1(1)] by (auto simp: late_failure_def)
        then show ?thesis using AddTarget_InrD[OF ok at] by (simp add: attempt_def)
      qed simp
      then show ?thesis using removed_target_good[OF s2(1), of E "''DeleteTarget''" "Target_Name t"] s2(2) add \<open>x = Inr t\<close> st Inl
        by (simp add: accountable_def)
    next
      case (Inr z)
      have "length (audit_events s2) = length (audit_events s)"
        using AddTarget_events[of s n] store_credential_events[of s1 E cfg t kind f] at st by (simp add: events_kept_def)
      then have "accountable E s (out, auditLocal E s2 ev ((''target'', JStr (Target_Name t)) # details))"
        by (intro quiet_audit) (simp_all add: assms s2)
      then show ?thesis unfolding add \<open>x = Inr t\<close> prod.case sum.case st Inr by (simp add: split_beta)
    qed
  qed
qed (simp add: accountable_def)

lemma targetAdd_good: "accountable E s (targetAdd E cfg s args)"
  unfolding targetAdd_def Let_def
  by (rule AddTarget_good good_intros accountable_pair | simp; fail)+

lemma targetsCommand_good: "accountable E s (targetsCommand E cfg s args)"
  unfolding targetsCommand_def
  by (rule targetAdd_good targetEdit_good targetCredential_good targetHostKey_good good_intros unchanged_ops events_kept_ops admin_ops SetGrant_admin store_inv_intros | simp; fail)+

text \<open>Pruning is the command that deletes events, and it records nothing.\<close>

definition pruned :: "db \<Rightarrow> db \<Rightarrow> bool" where
  "pruned s s' \<longleftrightarrow> (\<exists>t. s' = snd (PruneAudit s t))"

lemma PruneAudit_good: "store_ok s \<Longrightarrow> \<not> isl (fst (PruneAudit s t)) \<and> store_ok (snd (PruneAudit s t)) \<and> pruned s (snd (PruneAudit s t))
    \<and> (usable_admin s \<longrightarrow> usable_admin (snd (PruneAudit s t)))"
  using PruneAudit_ok[of s t] exec_admin[of s "OpPruneAudit t"] unfolding pruned_def by (auto simp: PruneAudit_def Let_def)

lemma attempt_PruneAudit:
  assumes "store_ok s" "attempt E m s (PruneAudit s t) = (r, s')"
  shows "(isl r \<longrightarrow> s' = s \<or> late_failure E) \<and> (s' = s \<or> pruned s s') \<and> store_ok s' \<and> (usable_admin s \<longrightarrow> usable_admin s')"
proof -
  note p = PruneAudit_good[OF assms(1), of t]
  have "isl r \<Longrightarrow> s' = s \<or> late_failure E" using assms(2) p by (cases r) (auto dest!: attempt_InlD)
  moreover have "s' = s \<or> s' = snd (PruneAudit s t)" using attempt_snd[of E m s "PruneAudit s t"] assms(2) by auto
  ultimately show ?thesis using p assms(1) by auto
qed

definition prunes :: "cli_env \<Rightarrow> db \<Rightarrow> cli \<Rightarrow> bool" where
  "prunes E s c \<longleftrightarrow> (store_ok s \<longrightarrow> (case c of (_, r, s') \<Rightarrow> (isl r \<longrightarrow> s' = s \<or> late_failure E) \<and> (s' = s \<or> pruned s s')
     \<and> store_ok s' \<and> (usable_admin s \<longrightarrow> usable_admin s')))"

lemma prunes_simps [simp]: "prunes E s (failing s text)" "prunes E s (out, r, s)"
  by (auto simp: prunes_def failing_def)

lemma prunes_attempt: "prunes E s (case attempt E m s (PruneAudit s t) of
     (Inl e, s') \<Rightarrow> ([], Inl e, s') | (Inr n, s') \<Rightarrow> (f n, Inr (), s'))"
proof (cases "attempt E m s (PruneAudit s t)")
  case (Pair r s')
  then show ?thesis using attempt_PruneAudit[of s E m t r s'] by (cases r) (auto simp: prunes_def)
qed

lemma auditCommand_good: "prunes E s (auditCommand E s args)"
  using prunes_attempt[where m = "''PruneAudit''"]
  by (simp add: auditCommand_def with_flags_def split: list.split sum.split prod.split option.split)

text \<open>All commands together.\<close>

lemma adminCommand_good:
  assumes "store_ok s" "adminCommand E cfg s command args = (out, r, s')"
  shows "(isl r \<longrightarrow> s' = s \<or> late_failure E) \<and> (\<not> isl r \<longrightarrow> s' = s \<or> cli_recorded s s' \<or> pruned s s' \<and> command = ''audit'')
    \<and> store_ok s' \<and> (usable_admin s \<longrightarrow> usable_admin s')"
proof (cases "command = ''audit''")
  case True
  then have "auditCommand E s args = (out, r, s')" using assms(2) by (simp add: adminCommand_def)
  then show ?thesis using auditCommand_good[of E s args] assms(1) True by (auto simp: prunes_def)
next
  case False
  have "accountable E s (adminCommand E cfg s command args)"
    using False by (simp add: adminCommand_def usersCommand_good groupsCommand_good targetsCommand_good grantsCommand_good)
  then show ?thesis using assms by (cases r) (auto simp: accountable_def)
qed

section \<open>Properties\<close>

text \<open>
  C30: An administration command that ends in an error has changed nothing, although several of them write in more than one
  step: a target whose credential cannot be read, encrypted or stored is gone again, without any trace. That holds whatever goes
  wrong outside the store and wherever its methods are refused, with three exceptions, each a failure of the storage at a step
  after the change was made: the audit record cannot be written, the half-made target cannot be removed, or a change cannot be
  confirmed. Even then no constraint of the schema is broken and the last usable administrator is not lost.
\<close>

theorem adminCommand_atomic:
  assumes "store_ok s" "adminCommand E cfg s command args = (out, Inl e, s')"
  shows "store_ok s' \<and> (usable_admin s \<longrightarrow> usable_admin s')
    \<and> (s' = s \<or> c_storage E ''Audit'' \<noteq> None \<or> c_storage E ''DeleteTarget'' \<noteq> None \<or> (\<exists>m f. c_storage E m = Some (NotConfirmed f)))"
  using adminCommand_good[OF assms] by (auto simp: late_failure_def)

text \<open>
  C31: An administration command that succeeds and has changed the store has also added one event to the audit log, of the
  local administrator; the only exception is pruning the log itself, of which no record is left. No command breaks the schema's
  constraints or takes away the last usable administrator.
\<close>

theorem adminCommand_recorded:
  assumes "store_ok s" "adminCommand E cfg s command args = (out, Inr (), s')"
  shows "store_ok s' \<and> (usable_admin s \<longrightarrow> usable_admin s') \<and> (s' = s \<or> cli_recorded s s' \<or> command = ''audit'' \<and> (\<exists>t. s' = snd (PruneAudit s t)))"
  using adminCommand_good[OF assms] by (auto simp: pruned_def)

text \<open>
  C32: A host key that was only observed on the network is not pinned: without \<open>--accept-host-key\<close> or a file holding the
  key, neither adding a target nor replacing its host key changes anything.
\<close>

theorem host_key_needs_acceptance:
  assumes "parse_flags (if op = ''add'' then target_flags else [(''host-key-file'', StringFlag []), (''accept-host-key'', BoolFlag False)])
      args = Inr (fs, rest)"
    "\<not> bool_flag fs ''accept-host-key''" "string_flag fs ''host-key-file'' = []"
    "command = (if op = ''add'' then op # args else [''host-key'', ''replace'', name] @ args)"
    "targetsCommand E cfg s command = (out, r, s')"
  shows "isl r \<and> s' = s"
  using assms
  by (auto simp: targetsCommand_def targetAdd_def targetHostKey_def with_flags_def obtainHostKey_def failing_def Let_def
      split: if_splits sum.splits prod.splits)

section \<open>Witnesses\<close>

text \<open>An outside that answers, on storage that does not fail.\<close>

definition sample_cli :: cli_env where
  "sample_cli = \<lparr>c_aead = clear_aead, c_ssh = sample_lib, c_MarshalAuthorizedKey = key_Marshal, c_nonce = Inr (replicate 24 (chr 1)),
     c_ReadFile = (\<lambda>p. if p = ''/root/id.pub'' then Inr ''pinned'' else Inl (Err ''no such file'')), c_terminal = None,
     c_stdin = Inr [], c_ScanHostKey = (\<lambda>_. Inl (Err ''refused'')), c_fs = (\<lambda>_. None), c_fault = NoFault,
     c_ParseTime = (\<lambda>_. None), c_quote = id, c_storage = (\<lambda>_. None)\<rparr>"

theorem adminCommand_atomic_witness:
  "\<exists>e. adminCommand sample_cli Default sample_db ''users'' [''disable'', ''root''] = ([], Inl e, sample_db)"
proof -
  have no: "c_storage sample_cli m = None" for m by (simp add: sample_cli_def)
  have "UserByName sample_db ''root'' = Inr (scanUser sample_db (hd (users sample_db)))" by code_simp
  moreover have "ensureOtherUsableAdmin sample_db 1 = Inl (Err ''operation would remove the final usable administrator'')" by code_simp
  ultimately obtain e s' where r: "adminCommand sample_cli Default sample_db ''users'' [''disable'', ''root''] = ([], Inl e, s')"
    by (simp add: adminCommand_def usersCommand_def SetUserEnabled_def then_audit_def attempt_def no)
      (simp add: sample_db_def RoleAdmin_def)
  from adminCommand_atomic[OF sample_db_ok r] r no show ?thesis by auto
qed

theorem adminCommand_recorded_witness:
  "\<exists>s'. adminCommand sample_cli Default sample_db ''groups'' [''add'', ''dba''] = ([], Inr (), s') \<and> s' \<noteq> sample_db \<and> cli_recorded sample_db s'"
proof -
  let ?r = "then_audit sample_cli sample_db ''AddGroup'' (AddGroup sample_db ''dba'') ''admin.group.add'' [(''group'', JStr ''dba'')]"
  have r: "adminCommand sample_cli Default sample_db ''groups'' [''add'', ''dba''] = ?r" by (simp add: adminCommand_def groupsCommand_def)
  have e: "fst ?r = [] \<and> fst (snd ?r) = Inr () \<and> length (groups_table (snd (snd ?r))) = 2" by code_simp
  obtain s' where s': "?r = ([], Inr (), s')" using e by (metis prod.collapse)
  have g: "s' \<noteq> sample_db" using e s' by (auto simp: sample_db_def)
  show ?thesis
    using adminCommand_recorded[OF sample_db_ok, of sample_cli Default "''groups''" "[''add'', ''dba'']" "[]" s'] r s' g by auto
qed

theorem host_key_needs_acceptance_witness:
  "\<forall>E cfg. \<exists>out e. targetsCommand E cfg sample_db [''host-key'', ''replace'', ''web''] = (out, Inl e, sample_db)"
proof (intro allI)
  fix E cfg
  obtain out r s' where t: "targetsCommand E cfg sample_db [''host-key'', ''replace'', ''web''] = (out, r, s')" by (metis prod.collapse)
  have "isl r \<and> s' = sample_db"
    by (rule host_key_needs_acceptance[OF _ _ _ _ t,
          where op = "''replace''" and args = "[]" and name = "''web''" and rest = "[]"
            and fs = "[(''host-key-file'', StringFlag []), (''accept-host-key'', BoolFlag False)]"])
      (code_simp | simp)+
  then show "\<exists>out e. targetsCommand E cfg sample_db [''host-key'', ''replace'', ''web''] = (out, Inl e, sample_db)"
    using t by (cases r) auto
qed


text \<open>
  The record of a change is a statement of its own: when it fails, the command reports the error and the change stays, with no
  record of it.
\<close>

theorem failed_record_keeps_change:
  "let E = sample_cli\<lparr>c_storage := (\<lambda>m. if m = ''Audit'' then Some (NotWritten (Err ''database is locked'')) else None)\<rparr> in
   (case adminCommand E Default sample_db ''groups'' [''add'', ''dba''] of (out, r, s') \<Rightarrow>
      r = Inl (Err ''database is locked'') \<and> map Group_Name (groups_table s') = [''ops'', ''dba'']
      \<and> audit_events s' = audit_events sample_db)"
proof -
  let ?E = "sample_cli\<lparr>c_storage := (\<lambda>m. if m = ''Audit'' then Some (NotWritten (Err ''database is locked'')) else None)\<rparr>"
  have r: "auditLocal ?E s ev d = (Inl (Err ''database is locked''), s)" "attempt ?E ''AddGroup'' s r = r"
    for s ev d and r :: "(db, unit) outcome"
    by (simp_all add: attempt_def auditLocal_def)
  obtain x s1 where a: "AddGroup sample_db ''dba'' = (x, s1)" by fastforce
  have "map Group_Name (groups_table (snd (AddGroup sample_db ''dba''))) = [''ops'', ''dba'']" "is_ok (fst (AddGroup sample_db ''dba''))"
    "length (audit_events (snd (AddGroup sample_db ''dba''))) = length (audit_events sample_db)" by code_simp+
  moreover have "audit_events s1 = audit_events sample_db" using a by (auto simp: AddGroup_def split: sum.splits if_splits)
  ultimately show ?thesis
    by (auto simp: adminCommand_def groupsCommand_def then_audit_def r quiet_def is_ok_iff a)
qed

end
