(* ===== verification/Store_Migrate.thy ===== *)
theory Store_Migrate
  imports Store Downstream
begin

text \<open>
  \<open>Open\<close> and the migrations of \<^verbatim>\<open>internal/store/store.go\<close>: database files of seven schema versions, and how opening
  one of them brings it to the current version, step by step, each step a transaction.
\<close>

section \<open>Database files of every version\<close>

text \<open>
  Tables whose columns changed are sums over their forms; a table that came later is absent before. Targets have no
  identity before version 3 and more kinds of credential from version to version; grants have no capabilities before
  version 6.
\<close>

record old_target =
  old_ID :: int
  old_Name :: string
  old_Host :: string
  old_Port :: int
  old_RemoteUsername :: string
  old_CredentialKind :: string
  old_Nonce :: "string option"
  old_Ciphertext :: "string option"
  old_HostKeyAlgorithm :: string
  old_HostPublicKey :: string
  old_Enabled :: bool
  old_CreatedAt :: string
  old_UpdatedAt :: string

datatype targets_table = TargetsV1 "old_target list" | TargetsV2 "old_target list" | TargetsV3 "Target list"

datatype grants_table = PlainGrants "(int \<times> int) list" | CapableGrants "grant_row list"

record disk =
  d_versions :: "nat list"
  d_users :: "user_row list"
  d_keys :: "GatewayKey list"
  d_groups :: "Group list"
  d_members :: "member_row list"
  d_targets :: targets_table
  d_user_grants :: grants_table
  d_group_grants :: grants_table
  d_events :: "AuditEvent list"
  d_identities :: "SSHIdentity list option"
  d_totp :: "totp_row list option"
  d_rules :: "rule_row list option"
  d_oidc :: "oidc_row list option"

text \<open>\<open>CREATE TABLE IF NOT EXISTS\<close> and \<open>INSERT OR IGNORE\<close>: a file has all the tables of version 1 or none.\<close>

definition create_schema :: "disk option \<Rightarrow> disk" where
  "create_schema file = (case file of
     None \<Rightarrow> \<lparr>d_versions = [1], d_users = [], d_keys = [], d_groups = [], d_members = [], d_targets = TargetsV1 [],
       d_user_grants = PlainGrants [], d_group_grants = PlainGrants [], d_events = [], d_identities = None, d_totp = None,
       d_rules = None, d_oidc = None\<rparr>
   | Some d \<Rightarrow> if 1 \<in> set (d_versions d) then d else d\<lparr>d_versions := d_versions d @ [1]\<rparr>)"

section \<open>What a file holds, read as a current database\<close>

definition with_identity :: "old_target \<Rightarrow> Target" where
  "with_identity t = \<lparr>Target_ID = old_ID t, Target_Name = old_Name t, Target_Host = old_Host t,
     Target_RemoteUsername = old_RemoteUsername t, Target_CredentialKind = old_CredentialKind t, Target_Port = old_Port t,
     Target_Enabled = old_Enabled t, Target_HostKeyAlgorithm = old_HostKeyAlgorithm t,
     Target_HostPublicKey = old_HostPublicKey t, Target_Nonce = old_Nonce t, Target_Ciphertext = old_Ciphertext t,
     Target_IdentityID = None, Target_CreatedAt = old_CreatedAt t, Target_UpdatedAt = old_UpdatedAt t\<rparr>"

text \<open>The defaults of the capability columns: shell, SFTP and SCP, but no forwarding.\<close>

definition with_capabilities :: "int \<times> int \<Rightarrow> grant_row" where
  "with_capabilities g = \<lparr>grant_principal = fst g, grant_target_id = snd g, allow_shell = True, allow_sftp = True,
     allow_scp = True, allow_tcp_forward = False\<rparr>"

definition current_targets :: "targets_table \<Rightarrow> Target list" where
  "current_targets tab = (case tab of TargetsV1 ts \<Rightarrow> map with_identity ts | TargetsV2 ts \<Rightarrow> map with_identity ts | TargetsV3 ts \<Rightarrow> ts)"

definition current_grants :: "grants_table \<Rightarrow> grant_row list" where
  "current_grants tab = (case tab of PlainGrants gs \<Rightarrow> map with_capabilities gs | CapableGrants gs \<Rightarrow> gs)"

definition rows_of :: "'a list option \<Rightarrow> 'a list" where
  "rows_of tab = (case tab of None \<Rightarrow> [] | Some rs \<Rightarrow> rs)"

definition view :: "datetime \<Rightarrow> disk \<Rightarrow> db" where
  "view now d = \<lparr>users = d_users d, gateway_keys = d_keys d, groups_table = d_groups d, group_members = d_members d,
     targets = current_targets (d_targets d), user_target_grants = current_grants (d_user_grants d),
     group_target_grants = current_grants (d_group_grants d), target_forward_rules = rows_of (d_rules d),
     ssh_identities = rows_of (d_identities d), oidc_identities = rows_of (d_oidc d), user_totp = rows_of (d_totp d),
     audit_events = d_events d, db_now = now\<rparr>"

text \<open>\<open>pragma_foreign_key_check\<close> finds nothing.\<close>

definition foreign_keys_hold :: "db \<Rightarrow> bool" where
  "foreign_keys_hold s \<longleftrightarrow>
     refs Key_UserID (gateway_keys s) users_id (users s)
     \<and> refs member_group_id (group_members s) Group_ID (groups_table s) \<and> refs member_user_id (group_members s) users_id (users s)
     \<and> refs_some Target_IdentityID (targets s) Identity_ID (ssh_identities s)
     \<and> refs grant_principal (user_target_grants s) users_id (users s) \<and> refs grant_target_id (user_target_grants s) Target_ID (targets s)
     \<and> refs grant_principal (group_target_grants s) Group_ID (groups_table s)
     \<and> refs grant_target_id (group_target_grants s) Target_ID (targets s)
     \<and> refs rule_target_id (target_forward_rules s) Target_ID (targets s) \<and> refs oidc_user_id (oidc_identities s) users_id (users s)
     \<and> refs totp_user_id (user_totp s) users_id (users s)
     \<and> refs_some Audit_ActorUserID (audit_events s) users_id (users s) \<and> refs_some Audit_TargetID (audit_events s) Target_ID (targets s)"

section \<open>The migrations\<close>

text \<open>
  What may fail for reasons outside the program: the schema's statements, the query of a version, a transaction up to its
  commit, and the query of the foreign key check after it. \<open>mf_rows\<close> is the text of the rows the check reports.
\<close>

record migrate_faults =
  mf_schema :: "go_error option"
  mf_query :: "nat \<Rightarrow> go_error option"
  mf_tx :: "nat \<Rightarrow> go_error option"
  mf_check :: "nat \<Rightarrow> go_error option"
  mf_rows :: string

definition no_faults :: migrate_faults where
  "no_faults = \<lparr>mf_schema = None, mf_query = (\<lambda>_. None), mf_tx = (\<lambda>_. None), mf_check = (\<lambda>_. None), mf_rows = []\<rparr>"

definition commit :: "nat \<Rightarrow> disk \<Rightarrow> disk" where
  "commit v d = d\<lparr>d_versions := d_versions d @ [v]\<rparr>"

text \<open>The check that follows the commit of versions 2 and 3: an error there no longer undoes the step.\<close>

definition check_foreign_keys :: "migrate_faults \<Rightarrow> nat \<Rightarrow> string \<Rightarrow> disk \<Rightarrow> (disk, unit) outcome" where
  "check_foreign_keys F v what d =
     (case mf_check F v of
        Some e \<Rightarrow> (Inl e, d)
      | None \<Rightarrow> (if foreign_keys_hold (view \<lparr>dt_year = 0, dt_month = 1, dt_day = 1, dt_hour = 0, dt_minute = 0, dt_second = 0\<rparr> d)
                  then Inr () else Inl (Err (''foreign key check failed after '' @ what @ '': '' @ mf_rows F)), d))"

definition migrateTargetsV2 :: "migrate_faults \<Rightarrow> disk \<Rightarrow> (disk, unit) outcome" where
  "migrateTargetsV2 F d =
     (case mf_tx F 2 of
        Some e \<Rightarrow> (Inl e, d)
      | None \<Rightarrow>
          let copy = (\<lambda>ts.
            if list_all (\<lambda>t. old_CredentialKind t \<in> {CredentialPassword, CredentialPrivateKey, CredentialAgent}) ts
            then check_foreign_keys F 2 ''migration'' ((commit 2 d)\<lparr>d_targets := TargetsV2 ts\<rparr>)
            else (Inl (wrap ''migrate targets for forwarded agents'' (ErrConstraint ''CHECK'')), d)) in
          (case d_targets d of
             TargetsV1 ts \<Rightarrow> copy ts
           | TargetsV2 ts \<Rightarrow> copy ts
           | TargetsV3 _ \<Rightarrow> (Inl (Err ''migrate targets for forwarded agents: table targets_v2 has 13 columns but 14 values were supplied''), d)))"

definition migrateIdentitiesV3 :: "migrate_faults \<Rightarrow> disk \<Rightarrow> (disk, unit) outcome" where
  "migrateIdentitiesV3 F d =
     (case mf_tx F 3 of
        Some e \<Rightarrow> (Inl e, d)
      | None \<Rightarrow>
          if d_identities d \<noteq> None then (Inl (Err ''migrate reusable SSH identities: table ssh_identities already exists''), d)
          else let ts = map (\<lambda>t. t\<lparr>Target_IdentityID := None\<rparr>) (current_targets (d_targets d)) in
            if list_all (\<lambda>t. validCredentialKind (Target_CredentialKind t)) ts
            then check_foreign_keys F 3 ''identity migration'' ((commit 3 d)\<lparr>d_identities := Some [], d_targets := TargetsV3 ts\<rparr>)
            else (Inl (wrap ''migrate reusable SSH identities'' (ErrConstraint ''CHECK'')), d))"

text \<open>\<open>CREATE TABLE IF NOT EXISTS user_totp\<close>.\<close>

definition migrateTOTPV4 :: "migrate_faults \<Rightarrow> disk \<Rightarrow> (disk, unit) outcome" where
  "migrateTOTPV4 F d =
     (case mf_tx F 4 of
        Some e \<Rightarrow> (Inl e, d)
      | None \<Rightarrow> (Inr (), (commit 4 d)\<lparr>d_totp := Some (rows_of (d_totp d))\<rparr>))"

text \<open>The new table has a key unique per user; foreign keys are enforced while its rows are copied.\<close>

definition migrateGatewayKeyUniquenessV5 :: "migrate_faults \<Rightarrow> disk \<Rightarrow> (disk, unit) outcome" where
  "migrateGatewayKeyUniquenessV5 F d =
     (case mf_tx F 5 of
        Some e \<Rightarrow> (Inl e, d)
      | None \<Rightarrow>
          if \<not> uniq (\<lambda>k. (Key_UserID k, Key_Fingerprint k)) (d_keys d) then (Inl (wrap ''migrate gateway key uniqueness'' (ErrConstraint ''UNIQUE'')), d)
          else if \<not> refs Key_UserID (d_keys d) users_id (d_users d) then (Inl (wrap ''migrate gateway key uniqueness'' (ErrConstraint ''FOREIGN KEY'')), d)
          else (Inr (), commit 5 d))"

definition migrateProtocolAccessV6 :: "migrate_faults \<Rightarrow> disk \<Rightarrow> (disk, unit) outcome" where
  "migrateProtocolAccessV6 F d =
     (case mf_tx F 6 of
        Some e \<Rightarrow> (Inl e, d)
      | None \<Rightarrow>
          (case (d_user_grants d, d_group_grants d) of
             (PlainGrants us, PlainGrants gs) \<Rightarrow>
               if d_rules d \<noteq> None then (Inl (Err ''migrate protocol access: table target_forward_rules already exists''), d)
               else (Inr (), (commit 6 d)\<lparr>d_user_grants := CapableGrants (map with_capabilities us),
                      d_group_grants := CapableGrants (map with_capabilities gs), d_rules := Some []\<rparr>)
           | _ \<Rightarrow> (Inl (Err ''migrate protocol access: duplicate column name: allow_shell''), d)))"

definition migrateOIDCIdentitiesV7 :: "migrate_faults \<Rightarrow> disk \<Rightarrow> (disk, unit) outcome" where
  "migrateOIDCIdentitiesV7 F d =
     (case mf_tx F 7 of
        Some e \<Rightarrow> (Inl e, d)
      | None \<Rightarrow>
          if d_oidc d \<noteq> None then (Inl (Err ''migrate OIDC identities: table oidc_identities already exists''), d)
          else (Inr (), (commit 7 d)\<lparr>d_oidc := Some []\<rparr>))"

text \<open>Each version is migrated to when the file does not record it yet; the first error ends the upgrade.\<close>

fun run_migrations ::
    "migrate_faults \<Rightarrow> (nat \<times> (migrate_faults \<Rightarrow> disk \<Rightarrow> (disk, unit) outcome)) list \<Rightarrow> disk \<Rightarrow> (disk, unit) outcome" where
  "run_migrations F [] d = (Inr (), d)"
| "run_migrations F ((v, mig) # rest) d =
     (case mf_query F v of
        Some e \<Rightarrow> (Inl e, d)
      | None \<Rightarrow>
          if v \<in> set (d_versions d) then run_migrations F rest d
          else (case mig F d of (Inl e, d') \<Rightarrow> (Inl e, d') | (Inr _, d') \<Rightarrow> run_migrations F rest d'))"

definition migrations :: "(nat \<times> (migrate_faults \<Rightarrow> disk \<Rightarrow> (disk, unit) outcome)) list" where
  "migrations = [(2, migrateTargetsV2), (3, migrateIdentitiesV3), (4, migrateTOTPV4), (5, migrateGatewayKeyUniquenessV5),
     (6, migrateProtocolAccessV6), (7, migrateOIDCIdentitiesV7)]"

definition migrate :: "migrate_faults \<Rightarrow> disk option \<Rightarrow> (disk option, disk) outcome" where
  "migrate F file =
     (case mf_schema F of
        Some e \<Rightarrow> (Inl e, file)
      | None \<Rightarrow> (case run_migrations F migrations (create_schema file) of
                   (Inl e, d) \<Rightarrow> (Inl e, Some d) | (Inr _, d) \<Rightarrow> (Inr d, Some d)))"

section \<open>Opening\<close>

text \<open>
  A database that others may read is refused; a new file is created by the driver and made private before it is filled.
  Octal 0600 is 384. \<open>o_lstat\<close> is an error of \<open>os.Lstat\<close> other than a missing file, \<open>o_setup\<close> one of the driver with the file
  it leaves, \<open>o_perm\<close> the permissions it creates a file with, and \<open>o_chmod\<close> an error of \<open>os.Chmod\<close>; the connection's options
  are arguments of the driver. A database in memory (\<open>:memory:\<close>) has no file.
\<close>

record open_faults =
  o_lstat :: "go_error option"
  o_setup :: "(go_error \<times> file_info option) option"
  o_perm :: nat
  o_chmod :: "go_error option"
  o_migrate :: migrate_faults

type_synonym stored = "file_info option \<times> disk option"

text \<open>The check before anything is opened.\<close>

definition refused_file :: "open_faults \<Rightarrow> file_info option \<Rightarrow> go_error option" where
  "refused_file os info =
     (case o_lstat os of
        Some e \<Rightarrow> Some e
      | None \<Rightarrow>
          (case info of
             None \<Rightarrow> None
           | Some f \<Rightarrow>
               if \<not> file_regular f then Some (Err ''database must be a regular file'')
               else if file_perm f AND 63 \<noteq> 0
               then Some (Err (''database permissions '' @ octal4 (file_perm f) @ '' are too open; require 0600''))
               else None))"

definition OpenStore :: "open_faults \<Rightarrow> datetime \<Rightarrow> string \<Rightarrow> stored \<Rightarrow> (stored, db) outcome" where
  "OpenStore os now path st =
     (let (info, file) = st; named = (path \<noteq> '':memory:'') in
      case (if named then refused_file os info else None) of
        Some e \<Rightarrow> (Inl e, st)
      | None \<Rightarrow>
          (case o_setup os of
             Some (e, left) \<Rightarrow> (Inl e, (left, file))
           | None \<Rightarrow>
               let f = (case info of None \<Rightarrow> \<lparr>file_regular = True, file_perm = o_perm os, file_data = []\<rparr> | Some f \<Rightarrow> f) in
               (case (if named then o_chmod os else None) of
                  Some e \<Rightarrow> (Inl e, (Some f, file))
                | None \<Rightarrow>
                    let info' = (if named then Some (f\<lparr>file_perm := 384\<rparr>) else info) in
                    (case migrate (o_migrate os) file of
                       (Inl e, file') \<Rightarrow> (Inl e, (info', file'))
                     | (Inr d, file') \<Rightarrow> (Inr (view now d), (info', file'))))))"

section \<open>Well-formed files\<close>

definition old_kinds :: "targets_table \<Rightarrow> bool" where
  "old_kinds tab = (case tab of
     TargetsV1 ts \<Rightarrow> list_all (\<lambda>t. old_CredentialKind t \<in> {CredentialPassword, CredentialPrivateKey}) ts
   | TargetsV2 ts \<Rightarrow> list_all (\<lambda>t. old_CredentialKind t \<in> {CredentialPassword, CredentialPrivateKey, CredentialAgent}) ts
   | TargetsV3 ts \<Rightarrow> True)"

text \<open>A file of a version: it records the versions up to it, has the tables of it, and its rows meet the constraints.\<close>

definition disk_at :: "nat \<Rightarrow> disk \<Rightarrow> bool" where
  "disk_at n d \<longleftrightarrow> 1 \<le> n \<and> n \<le> 7 \<and> d_versions d = [1..<Suc n]
     \<and> (case d_targets d of TargetsV1 _ \<Rightarrow> n = 1 | TargetsV2 _ \<Rightarrow> n = 2 | TargetsV3 _ \<Rightarrow> 3 \<le> n) \<and> old_kinds (d_targets d)
     \<and> (d_identities d \<noteq> None \<longleftrightarrow> 3 \<le> n) \<and> (d_totp d \<noteq> None \<longleftrightarrow> 4 \<le> n)
     \<and> (case d_user_grants d of PlainGrants _ \<Rightarrow> n < 6 | CapableGrants _ \<Rightarrow> 6 \<le> n)
     \<and> (case d_group_grants d of PlainGrants _ \<Rightarrow> n < 6 | CapableGrants _ \<Rightarrow> 6 \<le> n)
     \<and> (d_rules d \<noteq> None \<longleftrightarrow> 6 \<le> n) \<and> (d_oidc d \<noteq> None \<longleftrightarrow> 7 \<le> n)
     \<and> (\<forall>now. store_ok (view now d))"

lemma store_ok_foreign_keys: "store_ok s \<Longrightarrow> foreign_keys_hold s"
  by (simp add: store_ok_def ok_defs foreign_keys_hold_def)

lemma disk_at_foreign_keys: "disk_at n d \<Longrightarrow> foreign_keys_hold (view now d)"
  by (simp add: disk_at_def store_ok_foreign_keys)

lemma versions_commit: "d_versions d = [1..<Suc n] \<Longrightarrow> 1 \<le> n \<Longrightarrow> d_versions d @ [Suc n] = [1..<Suc (Suc n)]"
  by simp

section \<open>One migration\<close>

text \<open>
  The contract of a migration: on a file of the version before, it either changes nothing or leaves a file of its version with
  the same contents, and without faults it succeeds.
\<close>

locale migration =
  fixes ver :: nat and mig :: "migrate_faults \<Rightarrow> disk \<Rightarrow> (disk, unit) outcome"
  assumes steps: "disk_at n d \<Longrightarrow> Suc n = ver \<Longrightarrow> mig F d = (r, d') \<Longrightarrow>
      d' = d \<and> r \<noteq> Inr () \<or> disk_at ver d' \<and> (\<forall>now. view now d' = view now d)"
    and completes: "disk_at n d \<Longrightarrow> Suc n = ver \<Longrightarrow> fst (mig no_faults d) = Inr ()"
begin

text \<open>The check of the recorded versions: a file of this version or later is left alone.\<close>

lemma guarded_step:
  assumes "disk_at n d" "Suc n = ver" "mig F d = (r, d')"
  shows "\<exists>k. n \<le> k \<and> k \<le> ver \<and> disk_at k d' \<and> (\<forall>now. view now d' = view now d) \<and> (r = Inr () \<longrightarrow> k = ver)"
  using steps[OF assms] assms(1,2) by (metis le_refl lessI less_imp_le)

lemma completed_step:
  assumes "disk_at n d" "Suc n = ver"
  shows "\<exists>d'. mig no_faults d = (Inr (), d') \<and> disk_at ver d' \<and> (\<forall>now. view now d' = view now d)"
  using completes[OF assms] steps[OF assms, of no_faults "Inr ()"] by (metis prod.collapse)

end

text \<open>The later migrations end with their commit: one that fails has changed nothing, and can be tried again as if it never ran.\<close>

locale transaction = migration +
  assumes all_or_nothing: "disk_at n d \<Longrightarrow> Suc n = ver \<Longrightarrow> mig F d = (Inl e, d') \<Longrightarrow> d' = d"
begin

lemma retry:
  assumes "disk_at n d" "Suc n = ver" "mig F d = (Inl e, d')"
  shows "\<exists>d''. mig no_faults d' = (Inr (), d'') \<and> disk_at ver d'' \<and> (\<forall>now. view now d'' = view now d)"
  using completed_step[OF assms(1,2)] all_or_nothing[OF assms] by simp

end

lemma check_outcome: "check_foreign_keys F v what d = (r, d') \<Longrightarrow> d' = d"
  by (auto simp: check_foreign_keys_def split: option.splits)

lemma check_succeeds: "disk_at n d \<Longrightarrow> fst (check_foreign_keys no_faults v what d) = Inr ()"
  by (simp add: check_foreign_keys_def no_faults_def disk_at_foreign_keys)

lemma with_identity_None [simp]: "(with_identity t)\<lparr>Target_IdentityID := None\<rparr> = with_identity t"
  by (simp add: with_identity_def)

lemma with_identity_kind [simp]: "Target_CredentialKind (with_identity t) = old_CredentialKind t"
  by (simp add: with_identity_def)

lemmas disk_simps = disk_at_def view_def current_targets_def current_grants_def rows_of_def old_kinds_def commit_def

lemma old_targets_V2: "disk_at 2 d \<Longrightarrow> \<exists>ts. d_targets d = TargetsV2 ts \<and>
    list_all (\<lambda>t. old_CredentialKind t \<in> {CredentialPassword, CredentialPrivateKey, CredentialAgent}) ts"
  by (auto simp: disk_at_def old_kinds_def split: targets_table.splits)

lemma old_targets_V1: "disk_at 1 d \<Longrightarrow> \<exists>ts. d_targets d = TargetsV1 ts \<and>
    list_all (\<lambda>t. old_CredentialKind t \<in> {CredentialPassword, CredentialPrivateKey}) ts"
  by (auto simp: disk_at_def old_kinds_def split: targets_table.splits)

lemma disk_at_next:
  assumes "disk_at n d" "Suc n = v" "d_versions d' = d_versions d @ [v]" "\<And>now. view now d' = view now d" "v \<le> 7"
    "case d_targets d' of TargetsV1 _ \<Rightarrow> v = 1 | TargetsV2 _ \<Rightarrow> v = 2 | TargetsV3 _ \<Rightarrow> 3 \<le> v" "old_kinds (d_targets d')"
    "d_identities d' \<noteq> None \<longleftrightarrow> 3 \<le> v" "d_totp d' \<noteq> None \<longleftrightarrow> 4 \<le> v"
    "case d_user_grants d' of PlainGrants _ \<Rightarrow> v < 6 | CapableGrants _ \<Rightarrow> 6 \<le> v"
    "case d_group_grants d' of PlainGrants _ \<Rightarrow> v < 6 | CapableGrants _ \<Rightarrow> 6 \<le> v"
    "d_rules d' \<noteq> None \<longleftrightarrow> 6 \<le> v" "d_oidc d' \<noteq> None \<longleftrightarrow> 7 \<le> v"
  shows "disk_at v d' \<and> (\<forall>now. view now d' = view now d)"
  using assms unfolding disk_at_def by auto

lemma targetsV2_committed:
  assumes "disk_at 1 d" "d_targets d = TargetsV1 ts"
  shows "disk_at 2 ((commit 2 d)\<lparr>d_targets := TargetsV2 ts\<rparr>) \<and> (\<forall>now. view now ((commit 2 d)\<lparr>d_targets := TargetsV2 ts\<rparr>) = view now d)"
  using assms(2) assms(1)[unfolded disk_at_def]
  by (intro disk_at_next[OF assms(1)]) (auto simp: disk_simps list_all_iff split: grants_table.splits)

interpretation v2: migration 2 migrateTargetsV2
proof
  fix n d F r d'
  assume a: "disk_at n d" "Suc n = 2" "migrateTargetsV2 F d = (r, d')"
  then have d1: "disk_at 1 d" by (simp add: numeral_2_eq_2)
  obtain ts where ts: "d_targets d = TargetsV1 ts" using old_targets_V1[OF d1] by blast
  show "d' = d \<and> r \<noteq> Inr () \<or> disk_at 2 d' \<and> (\<forall>now. view now d' = view now d)"
    using a(3) targetsV2_committed[OF d1 ts] ts
    by (auto simp: migrateTargetsV2_def Let_def dest!: check_outcome split: option.splits if_splits)
next
  fix n d
  assume a: "disk_at n d" "Suc n = 2"
  then have d1: "disk_at 1 d" by (simp add: numeral_2_eq_2)
  obtain ts where ts: "d_targets d = TargetsV1 ts" "list_all (\<lambda>t. old_CredentialKind t \<in> {CredentialPassword, CredentialPrivateKey}) ts"
    using old_targets_V1[OF d1] by blast
  have "list_all (\<lambda>t. old_CredentialKind t \<in> {CredentialPassword, CredentialPrivateKey, CredentialAgent}) ts"
    using ts(2) by (auto simp: list_all_iff)
  then show "fst (migrateTargetsV2 no_faults d) = Inr ()"
    using check_succeeds[OF conjunct1[OF targetsV2_committed[OF d1 ts(1)]]] ts(1)
    by (simp add: migrateTargetsV2_def Let_def no_faults_def)
qed

lemma identitiesV3_committed:
  assumes "disk_at 2 d" "d_targets d = TargetsV2 ts"
  shows "disk_at 3 ((commit 3 d)\<lparr>d_identities := Some [], d_targets := TargetsV3 (map with_identity ts)\<rparr>)
    \<and> (\<forall>now. view now ((commit 3 d)\<lparr>d_identities := Some [], d_targets := TargetsV3 (map with_identity ts)\<rparr>) = view now d)"
  using assms(2) assms(1)[unfolded disk_at_def]
  by (intro disk_at_next[OF assms(1)]) (auto simp: disk_simps split: grants_table.splits)

lemma identitiesV3_run:
  assumes "disk_at 2 d" "d_targets d = TargetsV2 ts"
    "list_all (\<lambda>t. old_CredentialKind t \<in> {CredentialPassword, CredentialPrivateKey, CredentialAgent}) ts"
  shows "migrateIdentitiesV3 F d = (case mf_tx F 3 of Some e \<Rightarrow> (Inl e, d) | None \<Rightarrow>
    check_foreign_keys F 3 ''identity migration'' ((commit 3 d)\<lparr>d_identities := Some [], d_targets := TargetsV3 (map with_identity ts)\<rparr>))"
proof -
  have "d_identities d = None" using assms(1) by (auto simp: disk_at_def)
  moreover have "list_all (\<lambda>t. validCredentialKind (Target_CredentialKind t)) (map with_identity ts)"
    using assms(3) by (auto simp: list_all_iff validCredentialKind_def)
  ultimately show ?thesis using assms(2)
    by (simp add: migrateIdentitiesV3_def current_targets_def comp_def Let_def split: option.split)
qed

interpretation v3: migration 3 migrateIdentitiesV3
proof
  fix n d F r d'
  assume a: "disk_at n d" "Suc n = 3" "migrateIdentitiesV3 F d = (r, d')"
  then have d2: "disk_at 2 d" by (simp add: numeral_3_eq_3 numeral_2_eq_2)
  obtain ts where ts: "d_targets d = TargetsV2 ts"
      "list_all (\<lambda>t. old_CredentialKind t \<in> {CredentialPassword, CredentialPrivateKey, CredentialAgent}) ts"
    using old_targets_V2[OF d2] by blast
  show "d' = d \<and> r \<noteq> Inr () \<or> disk_at 3 d' \<and> (\<forall>now. view now d' = view now d)"
    using a(3) identitiesV3_committed[OF d2 ts(1)] unfolding identitiesV3_run[OF d2 ts]
    by (auto dest!: check_outcome split: option.splits)
next
  fix n d
  assume a: "disk_at n d" "Suc n = 3"
  then have d2: "disk_at 2 d" by (simp add: numeral_3_eq_3 numeral_2_eq_2)
  obtain ts where ts: "d_targets d = TargetsV2 ts"
      "list_all (\<lambda>t. old_CredentialKind t \<in> {CredentialPassword, CredentialPrivateKey, CredentialAgent}) ts"
    using old_targets_V2[OF d2] by blast
  show "fst (migrateIdentitiesV3 no_faults d) = Inr ()"
    using check_succeeds[OF conjunct1[OF identitiesV3_committed[OF d2 ts(1)]]] unfolding identitiesV3_run[OF d2 ts]
    by (simp add: no_faults_def)
qed

text \<open>A version whose migration only adds a table or columns: what is left to check of the file after it.\<close>

lemma plain_migrationI:
  assumes "Suc n = v"
    "\<And>(F :: migrate_faults) d e. mf_tx F v = Some e \<Longrightarrow> mig F d = (Inl e, d)"
    "\<And>F d. disk_at n d \<Longrightarrow> mf_tx F v = None \<Longrightarrow> mig F d = (Inr (), up d)"
    "\<And>d. disk_at n d \<Longrightarrow> disk_at v (up d) \<and> (\<forall>now. view now (up d) = view now d)"
  shows "transaction v mig"
proof
  fix k d F r d'
  assume k: "disk_at k d" "Suc k = v" "mig F d = (r, d')"
  then have kn: "k = n" using assms(1) by simp
  show "d' = d \<and> r \<noteq> Inr () \<or> disk_at v d' \<and> (\<forall>now. view now d' = view now d)"
    using assms(3)[OF k(1)[unfolded kn], of F] assms(2)[of F _ d] assms(4)[OF k(1)[unfolded kn]] k(3)
    by (cases "mf_tx F v") auto
next
  fix k d
  assume k: "disk_at k d" "Suc k = v"
  then have kn: "k = n" using assms(1) by simp
  show "fst (mig no_faults d) = Inr ()" using assms(3)[OF k(1)[unfolded kn], of no_faults] by (simp add: no_faults_def)
next
  fix k d F e d'
  assume k: "disk_at k d" "Suc k = v" "mig F d = (Inl e, d')"
  then have kn: "k = n" using assms(1) by simp
  show "d' = d" using assms(2)[of F _ d] assms(3)[OF k(1)[unfolded kn], of F] k(3) by (cases "mf_tx F v") auto
qed

interpretation v4: transaction 4 migrateTOTPV4
proof (rule plain_migrationI[of 3 _ _ "\<lambda>d. (commit 4 d)\<lparr>d_totp := Some (rows_of (d_totp d))\<rparr>"])
  fix d
  assume d: "disk_at 3 d"
  show "disk_at 4 ((commit 4 d)\<lparr>d_totp := Some (rows_of (d_totp d))\<rparr>)
      \<and> (\<forall>now. view now ((commit 4 d)\<lparr>d_totp := Some (rows_of (d_totp d))\<rparr>) = view now d)"
    using d[unfolded disk_at_def]
    by (intro disk_at_next[OF d]) (auto simp: disk_simps split: grants_table.splits targets_table.splits)
qed (auto simp: migrateTOTPV4_def)

interpretation v5: transaction 5 migrateGatewayKeyUniquenessV5
proof (rule plain_migrationI[of 4 _ _ "commit 5"])
  fix F :: migrate_faults and d
  assume a: "disk_at 4 d" "mf_tx F 5 = None"
  have "ok_keys (d_users d) (d_keys d)" using a(1) by (auto simp: disk_at_def view_def store_ok_def)
  then show "migrateGatewayKeyUniquenessV5 F d = (Inr (), commit 5 d)"
    using a(2) by (simp add: migrateGatewayKeyUniquenessV5_def ok_keys_def)
next
  fix d
  assume d: "disk_at 4 d"
  show "disk_at 5 (commit 5 d) \<and> (\<forall>now. view now (commit 5 d) = view now d)"
    using d[unfolded disk_at_def]
    by (intro disk_at_next[OF d]) (auto simp: disk_simps split: grants_table.splits targets_table.splits)
qed (auto simp: migrateGatewayKeyUniquenessV5_def)

definition capable :: "disk \<Rightarrow> disk" where
  "capable d = (commit 6 d)\<lparr>d_user_grants := CapableGrants (current_grants (d_user_grants d)),
     d_group_grants := CapableGrants (current_grants (d_group_grants d)), d_rules := Some []\<rparr>"

interpretation v6: transaction 6 migrateProtocolAccessV6
proof (rule plain_migrationI[of 5 _ _ capable])
  fix F :: migrate_faults and d
  assume a: "disk_at 5 d" "mf_tx F 6 = None"
  then show "migrateProtocolAccessV6 F d = (Inr (), capable d)"
    by (auto simp: migrateProtocolAccessV6_def capable_def disk_at_def current_grants_def split: grants_table.splits)
next
  fix d
  assume d: "disk_at 5 d"
  show "disk_at 6 (capable d) \<and> (\<forall>now. view now (capable d) = view now d)"
    using d[unfolded disk_at_def]
    by (intro disk_at_next[OF d]) (auto simp: disk_simps capable_def split: grants_table.splits targets_table.splits)
qed (auto simp: migrateProtocolAccessV6_def)

interpretation v7: transaction 7 migrateOIDCIdentitiesV7
proof (rule plain_migrationI[of 6 _ _ "\<lambda>d. (commit 7 d)\<lparr>d_oidc := Some []\<rparr>"])
  fix F :: migrate_faults and d
  assume a: "disk_at 6 d" "mf_tx F 7 = None"
  then show "migrateOIDCIdentitiesV7 F d = (Inr (), (commit 7 d)\<lparr>d_oidc := Some []\<rparr>)"
    by (auto simp: migrateOIDCIdentitiesV7_def disk_at_def)
next
  fix d
  assume d: "disk_at 6 d"
  show "disk_at 7 ((commit 7 d)\<lparr>d_oidc := Some []\<rparr>) \<and> (\<forall>now. view now ((commit 7 d)\<lparr>d_oidc := Some []\<rparr>) = view now d)"
    using d[unfolded disk_at_def]
    by (intro disk_at_next[OF d]) (auto simp: disk_simps split: grants_table.splits targets_table.splits)
qed (auto simp: migrateOIDCIdentitiesV7_def)

section \<open>The whole upgrade\<close>

lemmas migrations_ok = v2.migration_axioms v3.migration_axioms v4.migration_axioms v5.migration_axioms v6.migration_axioms
  v7.migration_axioms

lemma recorded_versions: "disk_at n d \<Longrightarrow> v \<in> set (d_versions d) \<longleftrightarrow> 1 \<le> v \<and> v \<le> n"
  by (auto simp: disk_at_def)

lemma disk_at_bounds: "disk_at n d \<Longrightarrow> 1 \<le> n \<and> n \<le> 7"
  by (simp add: disk_at_def)

lemma consecutive: "x # xs = [a..<b] \<Longrightarrow> x = a \<and> xs = [Suc a..<b] \<and> a < b"
  using upt_eq_Cons_conv[of a b x xs] by auto

lemma run_migrations_keeps:
  assumes "list_all (\<lambda>(v, mig). migration v mig) migs" "map fst migs = [a..<b]" "a \<le> Suc n" "disk_at n d" "n < b" "1 \<le> a"
    "run_migrations F migs d = (r, d')"
  shows "\<exists>k. n \<le> k \<and> k < b \<and> disk_at k d' \<and> (\<forall>now. view now d' = view now d) \<and> (r = Inr () \<longrightarrow> b \<le> Suc k)"
  using assms
proof (induction migs arbitrary: a n d)
  case Nil
  have "b \<le> a" using Nil.prems(2) upt_eq_Nil_conv[of a b] by auto
  then show ?case using Nil.prems by auto
next
  case (Cons m migs)
  obtain v mig where m: "m = (v, mig)" by (cases m)
  have ab: "v = a" "map fst migs = [Suc a..<b]" "a < b"
    using consecutive[of v "map fst migs" a b] Cons.prems(2) m by auto
  have mg: "migration a mig" "list_all (\<lambda>(v, mig). migration v mig) migs" using Cons.prems(1) m ab(1) by auto
  show ?case
  proof (cases "mf_query F v")
    case (Some e)
    then show ?thesis using Cons.prems(4,5,7) m by auto
  next
    case None
    show ?thesis
    proof (cases "a \<le> n")
      case True
      then have "v \<in> set (d_versions d)" using Cons.prems(6) ab(1) recorded_versions[OF Cons.prems(4)] by simp
      then show ?thesis using Cons.IH[OF mg(2) ab(2) _ Cons.prems(4,5)] Cons.prems(7) True None m by auto
    next
      case False
      then have a: "a = Suc n" using Cons.prems(3) by simp
      have "v \<notin> set (d_versions d)" using recorded_versions[OF Cons.prems(4)] ab(1) a by simp
      then have run: "(case mig F d of (Inl e, d1) \<Rightarrow> (Inl e, d1) | (Inr _, d1) \<Rightarrow> run_migrations F migs d1) = (r, d')"
        using Cons.prems(7) None m by simp
      obtain r1 d1 where one: "mig F d = (r1, d1)" by (cases "mig F d")
      obtain k where k: "n \<le> k" "k \<le> a" "disk_at k d1" "\<forall>now. view now d1 = view now d" "r1 = Inr () \<longrightarrow> k = a"
        using migration.guarded_step[OF mg(1) Cons.prems(4) _ one] a by auto
      show ?thesis
      proof (cases r1)
        case (Inl e)
        then show ?thesis using run one k ab(3) by auto
      next
        case (Inr x)
        then have "disk_at a d1" "run_migrations F migs d1 = (r, d')" using k(3,5) run one by auto
        from Cons.IH[OF mg(2) ab(2) _ this(1) ab(3) _ this(2)]
        obtain k' where "a \<le> k'" "k' < b" "disk_at k' d'" "\<forall>now. view now d' = view now d1" "r = Inr () \<longrightarrow> b \<le> Suc k'"
          by auto
        then show ?thesis using k(4) a by (intro exI[of _ k']) simp
      qed
    qed
  qed
qed

lemma run_migrations_returns:
  assumes "list_all (\<lambda>(v, mig). migration v mig) migs" "map fst migs = [a..<b]" "1 \<le> a" "a \<le> Suc n" "disk_at n d"
  shows "fst (run_migrations no_faults migs d) = Inr ()"
  using assms
proof (induction migs arbitrary: a n d)
  case (Cons m migs)
  obtain v mig where m: "m = (v, mig)" by (cases m)
  have ab: "v = a" "map fst migs = [Suc a..<b]" using consecutive[of v "map fst migs" a b] Cons.prems(2) m by auto
  have mg: "migration a mig" "list_all (\<lambda>(v, mig). migration v mig) migs" using Cons.prems(1) m ab(1) by auto
  show ?case
  proof (cases "a \<le> n")
    case True
    then have "v \<in> set (d_versions d)" using Cons.prems(3) ab(1) recorded_versions[OF Cons.prems(5)] by simp
    then show ?thesis using Cons.IH[OF mg(2) ab(2) _ _ Cons.prems(5)] True m by (simp add: no_faults_def)
  next
    case False
    then have a: "Suc n = a" using Cons.prems(4) by simp
    then obtain d1 where "mig no_faults d = (Inr (), d1)" "disk_at a d1"
      using migration.completed_step[OF mg(1) Cons.prems(5)] by blast
    moreover have "v \<notin> set (d_versions d)" using recorded_versions[OF Cons.prems(5)] ab(1) a by simp
    ultimately show ?thesis using Cons.IH[OF mg(2) ab(2), of a d1] m by (simp add: no_faults_def)
  qed
qed simp

text \<open>A file of one of the versions, or no file yet, and its contents.\<close>

definition recognised :: "disk option \<Rightarrow> bool" where
  "recognised file \<longleftrightarrow> (\<forall>d. file = Some d \<longrightarrow> (\<exists>n. disk_at n d))"

definition contents :: "datetime \<Rightarrow> disk option \<Rightarrow> db" where
  "contents now file = (case file of None \<Rightarrow> empty_db now | Some d \<Rightarrow> view now d)"

lemma create_schema_at:
  assumes "recognised file"
  shows "\<exists>n. disk_at n (create_schema file) \<and> (\<forall>now. view now (create_schema file) = contents now file)
    \<and> (\<forall>d k. file = Some d \<longrightarrow> disk_at k d \<longrightarrow> n = k)"
proof (cases "file")
  case None
  have "view now (create_schema None) = empty_db now" for now
    by (simp add: create_schema_def view_def current_targets_def current_grants_def rows_of_def empty_db_def)
  moreover from this have "disk_at 1 (create_schema None)" using store_ok_empty
    by (simp add: disk_at_def old_kinds_def) (simp add: create_schema_def)
  ultimately show ?thesis using None by (auto simp: contents_def)
next
  case (Some d)
  then obtain n where n: "disk_at n d" using assms by (auto simp: recognised_def)
  have "k = n" if "disk_at k d" for k using that n by (auto simp: disk_at_def dest: arg_cong[of _ _ length])
  moreover have "create_schema file = d" using n Some by (auto simp: create_schema_def disk_at_def)
  ultimately show ?thesis using n Some by (auto simp: contents_def)
qed

lemma migrate_keeps:
  assumes "recognised file" "migrate F file = (r, file')"
  shows "recognised file' \<and> (\<forall>now. contents now file' = contents now file)
    \<and> (\<forall>d. r = Inr d \<longrightarrow> file' = Some d \<and> disk_at 7 d)"
proof (cases "mf_schema F")
  case (Some e)
  then show ?thesis using assms by (auto simp: migrate_def)
next
  case None
  obtain n where n: "disk_at n (create_schema file)" "\<forall>now. view now (create_schema file) = contents now file"
    using create_schema_at[OF assms(1)] by blast
  obtain r1 d1 where run: "run_migrations F migrations (create_schema file) = (r1, d1)"
    by (cases "run_migrations F migrations (create_schema file)")
  have n7: "n < 8" using disk_at_bounds[OF n(1)] by simp
  have migs: "list_all (\<lambda>(v, mig). migration v mig) migrations" "map fst migrations = [2..<8]"
    using migrations_ok by (auto simp: migrations_def upt_rec)
  obtain k where k: "disk_at k d1" "k < 8" "\<forall>now. view now d1 = contents now file" "r1 = Inr () \<longrightarrow> 8 \<le> Suc k"
    using run_migrations_keeps[OF migs _ n(1) n7 _ run] n(2) disk_at_bounds[OF n(1)] by auto
  have "k = 7" if "r1 = Inr ()" using k(2,4) that by simp
  then show ?thesis using assms(2) None run k(1,3)
    by (auto simp: migrate_def recognised_def contents_def split: sum.splits)
qed

lemma migrate_returns:
  assumes "recognised file"
  shows "\<exists>d. migrate no_faults file = (Inr d, Some d)"
proof -
  obtain n where n: "disk_at n (create_schema file)" using create_schema_at[OF assms] by blast
  have migs: "list_all (\<lambda>(v, mig). migration v mig) migrations" "map fst migrations = [2..<8]"
    using migrations_ok by (auto simp: migrations_def upt_rec)
  have "fst (run_migrations no_faults migrations (create_schema file)) = Inr ()"
    using run_migrations_returns[OF migs _ _ n] disk_at_bounds[OF n] by auto
  then show ?thesis by (auto simp: migrate_def no_faults_def split: prod.splits sum.splits)
qed

text \<open>Several attempts, each with faults of its own: what they leave.\<close>

fun attempts :: "migrate_faults list \<Rightarrow> disk option \<Rightarrow> disk option" where
  "attempts [] file = file"
| "attempts (F # Fs) file = attempts Fs (snd (migrate F file))"

lemma attempts_keep: "recognised file \<Longrightarrow> recognised (attempts Fs file) \<and> (\<forall>now. contents now (attempts Fs file) = contents now file)"
proof (induction Fs arbitrary: "file")
  case (Cons F Fs)
  obtain r file' where m: "migrate F file = (r, file')" by (cases "migrate F file")
  show ?case using migrate_keeps[OF Cons.prems m] Cons.IH[of file'] m by simp
qed simp

section \<open>A file of version 1\<close>

definition sample_disk :: disk where
  "sample_disk = (create_schema None)\<lparr>d_users := users sample_db, d_keys := gateway_keys sample_db,
     d_groups := groups_table sample_db, d_members := group_members sample_db,
     d_targets := TargetsV1 [\<lparr>old_ID = 1, old_Name = ''web'', old_Host = ''10.0.0.5'', old_Port = 22,
       old_RemoteUsername = ''deploy'', old_CredentialKind = ''password'', old_Nonce = None, old_Ciphertext = None,
       old_HostKeyAlgorithm = ''ssh-ed25519'', old_HostPublicKey = ''hostkey'', old_Enabled = True, old_CreatedAt = '''',
       old_UpdatedAt = ''''\<rparr>],
     d_group_grants := PlainGrants [(1, 1)]\<rparr>"

lemma store_ok_now: "store_ok (s\<lparr>db_now := now\<rparr>) \<longleftrightarrow> store_ok s"
  by (simp add: store_ok_def)

lemma view_now: "(view t d)\<lparr>db_now := now\<rparr> = view now d"
  by (simp add: view_def)

lemma sample_disk_at: "disk_at 1 sample_disk"
proof -
  have "store_ok (view sample_now sample_disk)" by code_simp
  then have "\<forall>now. store_ok (view now sample_disk)" using store_ok_now[where s = "view sample_now sample_disk"] by (simp add: view_now)
  then show ?thesis by (simp add: disk_at_def) (simp add: sample_disk_def create_schema_def old_kinds_def const_defs)
qed

lemma sample_disk_recognised: "recognised (Some sample_disk)"
  using sample_disk_at by (auto simp: recognised_def)

section \<open>Properties\<close>

text \<open>
  C37: However many attempts to upgrade a database were interrupted by faults, an attempt without one succeeds, from a file of any
  version or from no file, and its database has the contents the file had at first.
\<close>

theorem upgrade_succeeds:
  assumes "recognised file"
  shows "\<exists>d. migrate no_faults (attempts Fs file) = (Inr d, Some d) \<and> disk_at 7 d \<and> (\<forall>now. view now d = contents now file)"
proof -
  have a: "recognised (attempts Fs file)" "\<forall>now. contents now (attempts Fs file) = contents now file"
    using attempts_keep[OF assms] by auto
  obtain d where d: "migrate no_faults (attempts Fs file) = (Inr d, Some d)" using migrate_returns[OF a(1)] by blast
  from migrate_keeps[OF a(1) d] a(2) d show ?thesis by (auto simp: contents_def)
qed

theorem upgrade_succeeds_witness:
  "\<exists>d. migrate no_faults (attempts [no_faults\<lparr>mf_tx := (\<lambda>v. if v = 4 then Some (Err ''disk full'') else None)\<rparr>] (Some sample_disk))
    = (Inr d, Some d) \<and> disk_at 7 d \<and> (\<forall>now. view now d = contents now (Some sample_disk))"
  by (rule upgrade_succeeds) (rule sample_disk_recognised)

text \<open>
  A migration that fails, whatever the fault and wherever it strikes, leaves a file of one of the versions with the same
  contents; one that reports success leaves a file of the current version.
\<close>

theorem upgrade_interrupted:
  assumes "recognised file" "migrate F file = (r, file')"
  shows "recognised file' \<and> contents now file' = contents now file \<and> (is_ok r \<longrightarrow> (\<exists>d. r = Inr d \<and> file' = Some d \<and> disk_at 7 d))"
  using migrate_keeps[OF assms] by (cases r) (auto simp: is_ok_def)

theorem upgrade_interrupted_witness:
  "\<exists>r file'. migrate (no_faults\<lparr>mf_check := (\<lambda>v. if v = 3 then Some (Err ''interrupted'') else None)\<rparr>) (Some sample_disk) = (r, file')
    \<and> \<not> is_ok r \<and> file' \<noteq> Some sample_disk \<and> contents sample_now file' = contents sample_now (Some sample_disk)"
proof -
  let ?F = "no_faults\<lparr>mf_check := (\<lambda>v. if v = 3 then Some (Err ''interrupted'') else None)\<rparr>"
  obtain r file' where m: "migrate ?F (Some sample_disk) = (r, file')" by (cases "migrate ?F (Some sample_disk)")
  have "\<not> is_ok (fst (migrate ?F (Some sample_disk)))" by code_simp
  moreover have "(case snd (migrate ?F (Some sample_disk)) of None \<Rightarrow> False | Some d \<Rightarrow> d_versions d = [1, 2, 3])" by code_simp
  moreover have "d_versions sample_disk = [1]" by code_simp
  ultimately show ?thesis using m upgrade_interrupted[OF sample_disk_recognised m, of sample_now] by auto
qed

text \<open>What a user could reach before capabilities existed: every enabled target granted to them or to a group of theirs.\<close>

definition plain_pairs :: "grants_table \<Rightarrow> (int \<times> int) list" where
  "plain_pairs tab = (case tab of PlainGrants gs \<Rightarrow> gs | CapableGrants gs \<Rightarrow> map (\<lambda>g. (grant_principal g, grant_target_id g)) gs)"

definition old_access :: "disk \<Rightarrow> User \<Rightarrow> int \<Rightarrow> bool" where
  "old_access d u tid \<longleftrightarrow> User_Enabled u \<and> (\<exists>t\<in>set (current_targets (d_targets d)). Target_ID t = tid \<and> Target_Enabled t)
     \<and> (User_Role u = RoleAdmin \<or> (User_ID u, tid) \<in> set (plain_pairs (d_user_grants d))
        \<or> (\<exists>m\<in>set (d_members d). member_user_id m = User_ID u \<and> (member_group_id m, tid) \<in> set (plain_pairs (d_group_grants d))))"

lemma granted_before:
  assumes "disk_at n d" "n < 6"
  shows "granted (view now d) uid tid col \<longleftrightarrow>
    ((uid, tid) \<in> set (plain_pairs (d_user_grants d)) \<and> col (with_capabilities (uid, tid)))
    \<or> (\<exists>m\<in>set (d_members d). member_user_id m = uid \<and> (member_group_id m, tid) \<in> set (plain_pairs (d_group_grants d))
         \<and> col (with_capabilities (member_group_id m, tid)))"
proof -
  obtain us gs where "d_user_grants d = PlainGrants us" "d_group_grants d = PlainGrants gs"
    using assms by (auto simp: disk_at_def split: grants_table.splits)
  then show ?thesis
    by (force simp: granted_def view_def current_grants_def plain_pairs_def with_capabilities_def)
qed

text \<open>
  C38: An upgrade from a version before capabilities keeps what every user could reach: shell, SFTP and SCP exactly on the targets
  the plain grants named, and forwarding to administrators alone, with no destination allowed yet.
\<close>

theorem upgrade_keeps_access:
  assumes "disk_at n d" "n < 6" "migrate F (Some d) = (Inr d', file')" "capability_column cap = Some col"
  shows "CanAccessCapability (view now d') u tid cap
      = (old_access d u tid \<and> (cap = CapabilityForward \<longrightarrow> User_Role u = RoleAdmin))
    \<and> target_forward_rules (view now d') = []"
proof -
  have v: "view now d' = view now d"
  proof -
    have "recognised (Some d)" using assms(1) by (auto simp: recognised_def)
    from migrate_keeps[OF this assms(3)] show ?thesis by (auto simp: contents_def)
  qed
  have "d_rules d = None" using assms(1,2) by (auto simp: disk_at_def)
  then have rules: "target_forward_rules (view now d) = []" by (simp add: view_def rows_of_def)
  have col: "col (with_capabilities p) = (cap \<noteq> CapabilityForward)" for p
    using assms(4) by (auto simp: capability_column_def with_capabilities_def const_defs split: if_splits)
  have "targets (view now d) = current_targets (d_targets d)" by (simp add: view_def)
  moreover note granted_before[OF assms(1,2), of now "User_ID u" tid col, unfolded col]
  ultimately show ?thesis unfolding v by (auto simp: CanAccessCapability_iff assms(4) old_access_def rules)
qed

theorem upgrade_keeps_access_witness:
  "\<exists>d'. migrate no_faults (Some sample_disk) = (Inr d', Some d')
     \<and> (let u = \<lparr>User_ID = 2, User_Username = ''alice'', User_Role = RoleMember, User_Enabled = True, User_TOTPEnabled = False,
            User_CreatedAt = ''''\<rparr> in
        CanAccessCapability (view sample_now d') u 1 CapabilityShell
        \<and> \<not> CanAccessCapability (view sample_now d') u 1 CapabilityForward)"
proof -
  let ?u = "\<lparr>User_ID = 2, User_Username = ''alice'', User_Role = RoleMember, User_Enabled = True, User_TOTPEnabled = False,
    User_CreatedAt = ''''\<rparr>"
  obtain d' where m: "migrate no_faults (Some sample_disk) = (Inr d', Some d')"
    using migrate_returns[OF sample_disk_recognised] by blast
  have caps: "capability_column CapabilityShell = Some allow_shell" "capability_column CapabilityForward = Some allow_tcp_forward"
    by (simp_all add: capability_column_def const_defs)
  have "old_access sample_disk ?u 1" "User_Role ?u \<noteq> RoleAdmin" "CapabilityShell \<noteq> CapabilityForward" by code_simp+
  then show ?thesis
    using m upgrade_keeps_access[OF sample_disk_at _ m caps(1), of sample_now ?u 1]
      upgrade_keeps_access[OF sample_disk_at _ m caps(2), of sample_now ?u 1] by (auto simp: Let_def)
qed

lemma migrated_contents:
  assumes "recognised file" "migrate F file = (m, file')"
  shows "contents now file' = contents now file
    \<and> (\<forall>d. m = Inr d \<longrightarrow> view now d = contents now file \<and> store_ok (view now d))"
  using migrate_keeps[OF assms] by (auto simp: contents_def disk_at_def)

lemma refused_None:
  assumes "refused_file os info = None"
  shows "o_lstat os = None \<and> (\<forall>f. info = Some f \<longrightarrow> file_regular f \<and> file_perm f AND 63 = 0)"
  using assms by (auto simp: refused_file_def split: option.splits if_splits)

lemma refused_Some:
  "info = Some f \<Longrightarrow> \<not> file_regular f \<or> file_perm f AND 63 \<noteq> 0 \<Longrightarrow> \<exists>e. refused_file os info = Some e"
  by (auto simp: refused_file_def split: option.splits)

lemma OpenStore_refused:
  "path \<noteq> '':memory:'' \<Longrightarrow> refused_file os info = Some e \<Longrightarrow> OpenStore os now path (info, file) = (Inl e, (info, file))"
  by (simp add: OpenStore_def)

lemma OpenStore_result:
  assumes "OpenStore os now path (info, file) = (r, (info', file'))"
  shows "file' = file \<and> (\<exists>e. r = Inl e)
    \<or> (\<exists>m. migrate (o_migrate os) file = (m, file') \<and> r = (case m of Inl e \<Rightarrow> Inl e | Inr d \<Rightarrow> Inr (view now d))
         \<and> (path \<noteq> '':memory:'' \<longrightarrow> refused_file os info = None \<and> (\<exists>f. info' = Some f \<and> file_regular f \<and> file_perm f = 384)))"
proof (cases "path \<noteq> '':memory:'' \<and> (refused_file os info \<noteq> None \<or> o_chmod os \<noteq> None) \<or> o_setup os \<noteq> None")
  case True
  then show ?thesis using assms by (auto simp: OpenStore_def Let_def split: option.splits if_splits)
next
  case False
  then have n: "o_setup os = None" by blast
  obtain m f' where m: "migrate (o_migrate os) file = (m, f')" by (cases "migrate (o_migrate os) file")
  show ?thesis
  proof (cases "path = '':memory:''")
    case True
    show ?thesis using assms True n m by (cases m) (simp_all add: OpenStore_def Let_def)
  next
    case named: False
    then have "refused_file os info = None" "o_chmod os = None" using False by auto
    moreover from this have "info = Some f \<Longrightarrow> file_regular f" for f using refused_None[of os info] by simp
    ultimately show ?thesis using assms named n m by (cases m; cases info) (simp_all add: OpenStore_def Let_def, auto)
  qed
qed

lemma opened_good:
  assumes "recognised file" "OpenStore os now path (info, file) = (r, (info', file'))"
  shows "recognised file' \<and> (\<forall>t. contents t file' = contents t file)
    \<and> (\<forall>s. r = Inr s \<longrightarrow> s = contents now file \<and> store_ok s)"
  using OpenStore_result[OF assms(2)]
proof
  assume "\<exists>m. migrate (o_migrate os) file = (m, file') \<and> r = (case m of Inl e \<Rightarrow> Inl e | Inr d \<Rightarrow> Inr (view now d))
    \<and> (path \<noteq> '':memory:'' \<longrightarrow> refused_file os info = None \<and> (\<exists>f. info' = Some f \<and> file_regular f \<and> file_perm f = 384))"
  then obtain m where m: "migrate (o_migrate os) file = (m, file')" "r = (case m of Inl e \<Rightarrow> Inl e | Inr d \<Rightarrow> Inr (view now d))"
    by blast
  show ?thesis using migrated_contents[OF assms(1) m(1), of now] migrate_keeps[OF assms(1) m(1)] m(2) by (cases m) auto
qed (use assms(1) in auto)

text \<open>
  A database is opened only when no one but its owner could read it, and is private afterwards; what is opened holds the
  schema's constraints and the contents of the file. A refused or failed opening does not change the contents either, and a
  file that others may read is not touched.
\<close>

theorem OpenStore_safe:
  assumes "recognised file" "OpenStore os now path (info, file) = (r, (info', file'))"
  shows "contents now file' = contents now file \<and>
    (\<forall>s. r = Inr s \<longrightarrow> s = contents now file \<and> store_ok s
       \<and> (path \<noteq> '':memory:'' \<longrightarrow> (\<exists>f. info' = Some f \<and> file_regular f \<and> file_perm f = 384) \<and> o_lstat os = None
            \<and> (\<forall>f. info = Some f \<longrightarrow> file_regular f \<and> file_perm f AND 63 = 0)))
    \<and> (path \<noteq> '':memory:'' \<longrightarrow> (\<forall>f. info = Some f \<longrightarrow> \<not> file_regular f \<or> file_perm f AND 63 \<noteq> 0
         \<longrightarrow> \<not> is_ok r \<and> info' = info \<and> file' = file))"
proof (intro conjI)
  note kept = opened_good[OF assms]
  show "contents now file' = contents now file" using kept by simp
  show "\<forall>s. r = Inr s \<longrightarrow> s = contents now file \<and> store_ok s
      \<and> (path \<noteq> '':memory:'' \<longrightarrow> (\<exists>f. info' = Some f \<and> file_regular f \<and> file_perm f = 384) \<and> o_lstat os = None
           \<and> (\<forall>f. info = Some f \<longrightarrow> file_regular f \<and> file_perm f AND 63 = 0))"
    using kept OpenStore_result[OF assms(2)] refused_None[of os info] by auto
  show "path \<noteq> '':memory:'' \<longrightarrow> (\<forall>f. info = Some f \<longrightarrow> \<not> file_regular f \<or> file_perm f AND 63 \<noteq> 0
      \<longrightarrow> \<not> is_ok r \<and> info' = info \<and> file' = file)"
    using OpenStore_refused[of path os info _ now "file"] refused_Some[of info _ os] assms(2) by (fastforce simp: is_ok_def)
qed

definition sample_open :: open_faults where
  "sample_open = \<lparr>o_lstat = None, o_setup = None, o_perm = 420, o_chmod = None, o_migrate = no_faults\<rparr>"

theorem OpenStore_safe_witness:
  "(\<exists>s info' file'. OpenStore sample_open sample_now ''gw.db'' (None, Some sample_disk) = (Inr s, (info', file'))
      \<and> store_ok s \<and> (\<exists>f. info' = Some f \<and> file_regular f \<and> file_perm f = 384))
   \<and> (\<exists>r info' file'. OpenStore sample_open sample_now ''gw.db'' (Some \<lparr>file_regular = True, file_perm = 420, file_data = []\<rparr>, Some sample_disk)
        = (r, (info', file')) \<and> \<not> is_ok r \<and> file' = Some sample_disk)"
proof
  obtain r info' file' where o: "OpenStore sample_open sample_now ''gw.db'' (None, Some sample_disk) = (r, (info', file'))"
    by (metis prod.collapse)
  have "is_ok (fst (OpenStore sample_open sample_now ''gw.db'' (None, Some sample_disk)))" by code_simp
  then obtain s where s: "r = Inr s" using o by (cases r) (auto simp: is_ok_def)
  then show "\<exists>s info' file'. OpenStore sample_open sample_now ''gw.db'' (None, Some sample_disk) = (Inr s, (info', file'))
      \<and> store_ok s \<and> (\<exists>f. info' = Some f \<and> file_regular f \<and> file_perm f = 384)"
    using o OpenStore_safe[OF sample_disk_recognised o] by auto
next
  let ?f = "\<lparr>file_regular = True, file_perm = 420, file_data = []\<rparr>"
  obtain r info' file' where o: "OpenStore sample_open sample_now ''gw.db'' (Some ?f, Some sample_disk) = (r, (info', file'))"
    by (metis prod.collapse)
  have "file_perm ?f AND 63 \<noteq> 0" by code_simp
  then show "\<exists>r info' file'. OpenStore sample_open sample_now ''gw.db'' (Some ?f, Some sample_disk) = (r, (info', file'))
      \<and> \<not> is_ok r \<and> file' = Some sample_disk"
    using o OpenStore_safe[OF sample_disk_recognised o] by auto
qed

end
