(* ===== verification/Cli_Init.thy ===== *)
theory Cli_Init
  imports Cli_Safety Store_Migrate
begin

text \<open>
  \<^verbatim>\<open>cmd/sshgatew/main.go\<close>: the \<open>init\<close> command, which creates the configuration, the keys and the database
  of a new gateway, and removes them again when it cannot finish. Directories are not modelled; a directory that cannot
  be made is an error of its own.
\<close>

text \<open>
  What \<open>init\<close> meets outside the program: the TOML encoder, \<open>url.Parse\<close>, errors of \<open>os.Stat\<close> other than a missing file, the
  umask, the random bytes of the master key, the PEM text of a new host key, a fault for each file, a failing read of the
  new host key, the faults of opening the database, and what SQLite does to the files beside it, also when the opening fails.
\<close>

record init_env =
  i_cli :: cli_env
  i_parse :: url_parser
  i_marshal :: "Config \<Rightarrow> string res"
  i_stat :: "string \<Rightarrow> go_error option"
  i_mkdir :: "go_error option"
  i_umask :: nat
  i_random :: string
  i_pem :: "string res"
  i_master_fault :: fault
  i_host_fault :: fault
  i_config_fault :: fault
  i_reread :: "go_error option"
  i_open :: open_faults
  i_side :: "string \<Rightarrow> fs \<Rightarrow> fs"
  i_now :: datetime

section \<open>The files\<close>

definition generateHostKey :: "init_env \<Rightarrow> fs \<Rightarrow> string \<Rightarrow> (fs, unit) outcome" where
  "generateHostKey I fs path =
     (case i_host_fault I of
        RandFails e \<Rightarrow> (Inl e, fs)
      | _ \<Rightarrow>
          (case i_pem I of
             Inl e \<Rightarrow> (Inl e, fs)
           | Inr block \<Rightarrow>
               (case i_host_fault I of
                  OpenFails e \<Rightarrow> (Inl e, fs)
                | _ \<Rightarrow>
                    if fs path \<noteq> None then (Inl (Err ''file exists''), fs)
                    else (case i_host_fault I of
                            WriteFails n e \<Rightarrow> (Inl e, fs(path \<mapsto> key_file (i_umask I) (take n block)))
                          | SyncFails e \<Rightarrow> (Inl e, fs(path \<mapsto> key_file (i_umask I) block))
                          | _ \<Rightarrow> (Inr (), fs(path \<mapsto> key_file (i_umask I) block))))))"

definition hostFingerprint :: "init_env \<Rightarrow> fs \<Rightarrow> string \<Rightarrow> string" where
  "hostFingerprint I fs path =
     (case (i_reread I, fs path) of
        (None, Some f) \<Rightarrow>
          (case ParsePrivateKey (c_ssh (i_cli I)) (file_data f) None of
             Inl _ \<Rightarrow> ''unknown'' | Inr k \<Rightarrow> FingerprintSHA256 (c_ssh (i_cli I)) (signer_PublicKey k))
      | _ \<Rightarrow> ''unknown'')"

text \<open>The loop that refuses to overwrite a file.\<close>

fun refuse_existing :: "(string \<Rightarrow> go_error option) \<Rightarrow> fs \<Rightarrow> string list \<Rightarrow> unit res" where
  "refuse_existing stat fs [] = Inr ()"
| "refuse_existing stat fs (p # ps) =
     (case stat p of
        Some e \<Rightarrow> Inl e
      | None \<Rightarrow> if fs p \<noteq> None then Inl (Err (''refusing to overwrite existing '' @ p)) else refuse_existing stat fs ps)"

definition created_files :: "string \<Rightarrow> Config \<Rightarrow> string list" where
  "created_files configPath cfg = [MasterKeyPath cfg, HostKeyPath cfg, configPath, DatabasePath cfg,
     DatabasePath cfg @ ''-wal'', DatabasePath cfg @ ''-shm'']"

definition remove_all :: "string list \<Rightarrow> fs \<Rightarrow> fs" where
  "remove_all ps fs = foldl (\<lambda>f p. f(p := None)) fs ps"

definition create_files :: "init_env \<Rightarrow> fs \<Rightarrow> string \<Rightarrow> Config \<Rightarrow> (fs, unit) outcome" where
  "create_files I fs configPath cfg =
     (case i_mkdir I of
        Some e \<Rightarrow> (Inl e, fs)
      | None \<Rightarrow>
          (case Generate (i_master_fault I) (i_umask I) (i_random I) fs (MasterKeyPath cfg) of
             (Inl e, fs1) \<Rightarrow> (Inl (wrap ''create master key'' e), fs1)
           | (Inr _, fs1) \<Rightarrow>
               (case generateHostKey I fs1 (HostKeyPath cfg) of
                  (Inl e, fs2) \<Rightarrow> (Inl (wrap ''create host key'' e), fs2)
                | (Inr _, fs2) \<Rightarrow>
                    (case Write (i_marshal I) (i_parse I) (i_config_fault I) (i_umask I) fs2 configPath cfg of
                       (Inl e, fs3) \<Rightarrow> (Inl (wrap ''write config'' e), fs3)
                     | (Inr _, fs3) \<Rightarrow> (Inr (), fs3)))))"

section \<open>The first administrator\<close>

text \<open>The record of the initialisation is written at the end; a failure to write it is ignored.\<close>

definition bootstrap :: "db \<Rightarrow> string \<Rightarrow> string \<Rightarrow> string \<Rightarrow> (db, unit) outcome" where
  "bootstrap s admin fp canonical =
     (case AddUser s admin RoleAdmin of
        (Inl e, s1) \<Rightarrow> (Inl e, s1)
      | (Inr v, s1) \<Rightarrow>
          (case AddGatewayKey s1 (User_Username v) fp canonical ''bootstrap'' of
             (Inl e, s2) \<Rightarrow> (Inl e, s2)
           | (Inr _, s2) \<Rightarrow>
               (Inr (), snd (Audit s2 \<lparr>Audit_ID = 0, Audit_At = [], Audit_ActorUserID = Some (User_ID v),
                  Audit_ClaimedUsername = ''local-init'', Audit_SourceAddress = ''local'', Audit_EventType = ''system.init'',
                  Audit_TargetID = None, Audit_Outcome = ''success'', Audit_Details = ''{\"version\":1}''\<rparr>))))"

section \<open>The command\<close>

definition init_flags :: flag_set where
  "init_flags = [(''admin'', StringFlag []), (''authorized-key'', StringFlag []),
     (''data-dir'', StringFlag ''/var/lib/sshgatew''), (''listen'', StringFlag ''0.0.0.0:2222'')]"

text \<open>\<open>store.Open\<close> on a path that had no database.\<close>

definition open_new :: "init_env \<Rightarrow> fs \<Rightarrow> string \<Rightarrow> (fs, db) outcome" where
  "open_new I fs path = (case OpenStore (i_open I) (i_now I) path (fs path, None) of
     (r, (info, _)) \<Rightarrow> (r, (i_side I path fs)(path := info)))"

definition create_all :: "init_env \<Rightarrow> fs \<Rightarrow> string \<Rightarrow> Config \<Rightarrow> string \<Rightarrow> string \<Rightarrow> string \<Rightarrow> (fs, db) outcome" where
  "create_all I fs configPath cfg admin fp canonical =
     (case create_files I fs configPath cfg of
        (Inl e, fs1) \<Rightarrow> (Inl e, fs1)
      | (Inr _, fs1) \<Rightarrow>
          (case open_new I fs1 (DatabasePath cfg) of
             (Inl e, fs2) \<Rightarrow> (Inl e, fs2)
           | (Inr st, fs2) \<Rightarrow>
               (case bootstrap st admin fp canonical of
                  (Inl e, _) \<Rightarrow> (Inl e, fs2)
                | (Inr _, s) \<Rightarrow> (Inr s, fs2))))"

text \<open>What the command prints, the error it returns, the files, and the new database's content.\<close>

type_synonym init_result = "printed list \<times> unit res \<times> fs \<times> db option"

definition initCommand :: "init_env \<Rightarrow> fs \<Rightarrow> string \<Rightarrow> string list \<Rightarrow> init_result" where
  "initCommand I fs configPath args =
     (case parse_flags init_flags args of
        Inl e \<Rightarrow> ([], Inl (Err (flag_error_text (i_cli I) e)), fs, None)
      | Inr (flags, _) \<Rightarrow>
          let admin = string_flag flags ''admin''; keyPath = string_flag flags ''authorized-key'';
              cfg = (ForDataDir (string_flag flags ''data-dir''))\<lparr>ListenAddress := string_flag flags ''listen''\<rparr> in
          if admin = [] \<or> keyPath = [] then ([], Inl (Err ''--admin and --authorized-key are required''), fs, None)
          else (case ValidateUsername admin of
             Inl e \<Rightarrow> ([], Inl e, fs, None)
           | Inr _ \<Rightarrow>
               (case readPublicKey (i_cli I) keyPath of
                  Inl e \<Rightarrow> ([], Inl e, fs, None)
                | Inr (_, canonical, fp) \<Rightarrow>
                    (case Config.Validate (i_parse I) cfg of
                       Inl e \<Rightarrow> ([], Inl e, fs, None)
                     | Inr _ \<Rightarrow>
                         (case refuse_existing (i_stat I) fs [configPath, DatabasePath cfg, MasterKeyPath cfg, HostKeyPath cfg] of
                            Inl e \<Rightarrow> ([], Inl e, fs, None)
                          | Inr _ \<Rightarrow>
                              (case create_all I fs configPath cfg admin fp canonical of
                                 (Inl e, fs') \<Rightarrow> ([], Inl e, remove_all (created_files configPath cfg) fs', None)
                               | (Inr s, fs') \<Rightarrow>
                                   ([row_line ''Initialized SSHGateW.'', row_line (''Config: '' @ configPath),
                                     row_line (''Database: '' @ DatabasePath cfg),
                                     row_line (''Gateway host key: '' @ hostFingerprint I fs' (HostKeyPath cfg)),
                                     row_line (''Administrator key: '' @ fp)], Inr (), fs', Some s)))))))"

section \<open>Which files change\<close>

definition changes_only :: "string set \<Rightarrow> fs \<Rightarrow> fs \<Rightarrow> bool" where
  "changes_only P fs fs' \<longleftrightarrow> (\<forall>p. p \<notin> P \<longrightarrow> fs' p = fs p)"

lemma changes_only_refl [simp]: "changes_only P fs fs"
  by (simp add: changes_only_def)

lemma changes_only_upd [simp]: "p \<in> P \<Longrightarrow> changes_only P fs (fs(p := x))"
  by (auto simp: changes_only_def)

lemma changes_only_trans: "changes_only P fs fs1 \<Longrightarrow> changes_only P fs1 fs2 \<Longrightarrow> changes_only P fs fs2"
  by (simp add: changes_only_def)

lemma changes_only_mono: "changes_only P fs fs' \<Longrightarrow> P \<subseteq> Q \<Longrightarrow> changes_only Q fs fs'"
  by (auto simp: changes_only_def)

lemma remove_all_apply: "remove_all ps fs p = (if p \<in> set ps then None else fs p)"
  by (induction ps arbitrary: fs) (auto simp: remove_all_def)

lemma Generate_changes: "changes_only {path} fs (snd (Generate fault umask random fs path))"
  by (simp add: Generate_def split: fault.split)

lemma generateHostKey_changes: "changes_only {path} fs (snd (generateHostKey I fs path))"
  by (simp add: generateHostKey_def split: fault.split sum.split)

lemma Write_changes: "changes_only {path} fs (snd (Write marshal parse fault umask fs path c))"
  by (simp add: Write_def Let_def split: fault.split sum.split)

text \<open>A created file is there afterwards, and was not before.\<close>

lemma Generate_created: "Generate fault umask random fs path = (Inr x, fs') \<Longrightarrow> fs path = None \<and> fs' = fs(path \<mapsto> key_file umask random)"
  by (auto simp: Generate_def split: fault.splits if_splits)

lemma generateHostKey_created: "generateHostKey I fs path = (Inr x, fs') \<Longrightarrow> fs path = None \<and> changes_only {path} fs fs'"
  by (auto simp: generateHostKey_def split: fault.splits if_splits sum.splits)

lemma generateHostKey_there: "generateHostKey I fs path = (Inr x, fs') \<Longrightarrow> fs' path \<noteq> None"
  by (auto simp: generateHostKey_def split: fault.splits if_splits sum.splits)

lemma Write_created: "Write marshal parse fault umask fs path c = (Inr x, fs') \<Longrightarrow> fs path = None \<and> changes_only {path} fs fs'"
  by (auto simp: Write_def Let_def split: fault.splits if_splits sum.splits)

lemma create_files_cases:
  assumes "create_files I fs configPath cfg = (r, fs')"
  shows "changes_only {MasterKeyPath cfg, HostKeyPath cfg, configPath} fs fs'
     \<and> (r = Inr () \<longrightarrow> HostKeyPath cfg \<noteq> MasterKeyPath cfg \<and> configPath \<noteq> MasterKeyPath cfg \<and> configPath \<noteq> HostKeyPath cfg
          \<and> fs' (MasterKeyPath cfg) = Some (key_file (i_umask I) (i_random I)))"
proof (cases "i_mkdir I")
  case None
  let ?P = "{MasterKeyPath cfg, HostKeyPath cfg, configPath}"
  obtain x1 fs1 where g: "Generate (i_master_fault I) (i_umask I) (i_random I) fs (MasterKeyPath cfg) = (x1, fs1)" by fastforce
  obtain x2 fs2 where h: "generateHostKey I fs1 (HostKeyPath cfg) = (x2, fs2)" by fastforce
  obtain x3 fs3 where w: "Write (i_marshal I) (i_parse I) (i_config_fault I) (i_umask I) fs2 configPath cfg = (x3, fs3)" by fastforce
  have c1: "changes_only ?P fs fs1"
    using Generate_changes[of "MasterKeyPath cfg" fs "i_master_fault I" "i_umask I" "i_random I"] g by (auto elim: changes_only_mono)
  have c2: "changes_only {HostKeyPath cfg} fs1 fs2" using generateHostKey_changes[of "HostKeyPath cfg" fs1 I] h by simp
  have c3: "changes_only {configPath} fs2 fs3"
    using Write_changes[of configPath fs2 "i_marshal I" "i_parse I" "i_config_fault I" "i_umask I" cfg] w by simp
  have c12: "changes_only ?P fs fs2" using c1 c2 by (auto simp: changes_only_def)
  have c13: "changes_only ?P fs fs3" using c12 c3 by (auto simp: changes_only_def)
  note r = assms[unfolded create_files_def None, simplified, unfolded g, simplified]
  show ?thesis
  proof (cases x1)
    case (Inl e)
    then show ?thesis using r c1 by auto
  next
    case (Inr u1)
    note r1 = r[unfolded Inr, simplified, unfolded h, simplified]
    note m = Generate_created[OF g[unfolded Inr]]
    show ?thesis
    proof (cases x2)
      case (Inl e)
      then show ?thesis using r1 c12 by auto
    next
      case (Inr u2)
      note r2 = r1[unfolded Inr, simplified, unfolded w, simplified]
      note k = generateHostKey_created[OF h[unfolded Inr]]
      show ?thesis
      proof (cases x3)
        case (Inl e)
        then show ?thesis using r2 c13 by auto
      next
        case (Inr u3)
        have "configPath \<noteq> HostKeyPath cfg"
          using Write_created[OF w[unfolded Inr]] generateHostKey_there[OF h[unfolded \<open>x2 = Inr u2\<close>]] by auto
        moreover have hm: "HostKeyPath cfg \<noteq> MasterKeyPath cfg" using k m by (auto split: if_splits)
        moreover have two: "fs2 (MasterKeyPath cfg) = Some (key_file (i_umask I) (i_random I))"
          using k m hm by (simp add: changes_only_def)
        moreover have cm: "configPath \<noteq> MasterKeyPath cfg" using Write_created[OF w[unfolded Inr]] two by auto
        moreover have "fs3 (MasterKeyPath cfg) = Some (key_file (i_umask I) (i_random I))"
          using c3 two cm by (simp add: changes_only_def)
        ultimately show ?thesis using r2 c13 Inr by simp
      qed
    qed
  qed
qed (use assms in \<open>auto simp: create_files_def\<close>)

text \<open>A joined path ends in its file name.\<close>

lemma Split_snoc: "c \<notin> set name \<Longrightarrow> Split (d @ c # name) c = Split d c @ [name]"
proof (induction d)
  case Nil
  then show ?case by (simp add: Split_no_sep)
next
  case (Cons x xs)
  then show ?case using Split_nonempty[of xs c] by (cases "Split xs c") auto
qed

lemma join_snoc: "\<exists>pre. join sep (ys @ [name]) = pre @ name"
proof (induction ys)
  case (Cons y ys)
  then obtain pre where "join sep (ys @ [name]) = pre @ name" by blast
  then show ?case by (cases ys) (auto intro: exI[of _ "y @ sep @ pre"])
qed simp

lemma Clean_file:
  assumes "name \<notin> {[], ''.'', ''..''}" "Split path (CHR ''/'') = xs @ [name]"
  shows "\<exists>pre. Clean path = pre @ name"
proof -
  obtain ys where ys: "clean_parts (HasPrefix path ''/'') [] (xs @ [name]) = ys @ [name]"
    using clean_parts_last[of name] assms(1) by blast
  obtain pre where pre: "join ''/'' (ys @ [name]) = pre @ name" using join_snoc by blast
  show ?thesis
    unfolding Clean_def Let_def assms(2) ys pre using assms(1)
    by (auto intro: exI[of _ "CHR ''/'' # pre"])
qed

lemma Join_file:
  assumes "name \<notin> {[], ''.'', ''..''}" "CHR ''/'' \<notin> set name"
  shows "\<exists>pre. filepath_Join dir name = pre @ name"
proof (cases "dir = []")
  case True
  then show ?thesis using Clean_file[OF assms(1), of name "[]"] assms by (simp add: filepath_Join_def Split_no_sep)
next
  case False
  then show ?thesis using Clean_file[OF assms(1), of "dir @ ''/'' @ name" "Split dir (CHR ''/'')"] assms
    by (simp add: filepath_Join_def Split_snoc)
qed

text \<open>The paths of a data directory never fall together, nor with the files SQLite keeps beside the database.\<close>

lemma data_paths:
  "MasterKeyPath (ForDataDir dir) \<notin> {DatabasePath (ForDataDir dir), DatabasePath (ForDataDir dir) @ ''-wal'', DatabasePath (ForDataDir dir) @ ''-shm''}"
  "HostKeyPath (ForDataDir dir) \<notin> {DatabasePath (ForDataDir dir), DatabasePath (ForDataDir dir) @ ''-wal'', DatabasePath (ForDataDir dir) @ ''-shm''}"
proof -
  obtain a b c where "filepath_Join dir ''master.key'' = a @ ''master.key''" "filepath_Join dir ''sshgatew.db'' = b @ ''sshgatew.db''"
      "filepath_Join dir ''ssh_host_ed25519_key'' = c @ ''ssh_host_ed25519_key''"
    using Join_file[of "''master.key''" dir] Join_file[of "''sshgatew.db''" dir] Join_file[of "''ssh_host_ed25519_key''" dir] by auto
  then have p: "last (MasterKeyPath (ForDataDir dir)) = CHR ''y''" "last (HostKeyPath (ForDataDir dir)) = CHR ''y''"
      "last (DatabasePath (ForDataDir dir)) = CHR ''b''"
    by (simp_all add: ForDataDir_def)
  then show "MasterKeyPath (ForDataDir dir) \<notin> {DatabasePath (ForDataDir dir), DatabasePath (ForDataDir dir) @ ''-wal'', DatabasePath (ForDataDir dir) @ ''-shm''}"
    "HostKeyPath (ForDataDir dir) \<notin> {DatabasePath (ForDataDir dir), DatabasePath (ForDataDir dir) @ ''-wal'', DatabasePath (ForDataDir dir) @ ''-shm''}"
    by auto
qed

section \<open>The first administrator can log in\<close>

lemma empty_users [simp]: "users (empty_db now) = []" "gateway_keys (empty_db now) = []" "audit_events (empty_db now) = []"
  by (simp_all add: empty_db_def)

lemma Audit_keeps: "users (snd (Audit s e)) = users s" "gateway_keys (snd (Audit s e)) = gateway_keys s"
  by (simp_all add: Audit_def insert_audit_def Let_def split: sum.split)

lemma AddUser_first:
  assumes "AddUser (empty_db now) admin role = (Inr v, s1)"
  shows "\<exists>r. users s1 = [r] \<and> users_username r = ToLower (TrimSpace admin) \<and> users_role r = role \<and> users_enabled r
    \<and> nameRE (users_username r) \<and> v = scanUser s1 r \<and> gateway_keys s1 = []"
  using assms
  by (auto simp: AddUser_def insert_user_def Let_def UserByID_def split: sum.splits if_splits dest!: validateName_ok)

lemma bootstrap_ok:
  assumes "bootstrap (empty_db now) admin fp canonical = (Inr x, s)"
  shows "store_ok s \<and> usable_admin s \<and> (\<exists>v. AuthenticateKey s (TrimSpace admin) fp = Inr v \<and> User_Role v = RoleAdmin)"
proof -
  let ?e = "\<lambda>v. \<lparr>Audit_ID = 0, Audit_At = [], Audit_ActorUserID = Some (User_ID v),
                  Audit_ClaimedUsername = ''local-init'', Audit_SourceAddress = ''local'', Audit_EventType = ''system.init'',
                  Audit_TargetID = None, Audit_Outcome = ''success'', Audit_Details = ''{\"version\":1}''\<rparr>"
  obtain v s1 where a: "AddUser (empty_db now) admin RoleAdmin = (Inr v, s1)"
    using assms by (cases "AddUser (empty_db now) admin RoleAdmin") (auto simp: bootstrap_def split: sum.splits)
  obtain y s2 where k: "AddGatewayKey s1 (User_Username v) fp canonical ''bootstrap'' = (Inr y, s2)" and s: "s = snd (Audit s2 (?e v))"
    using assms a by (cases "AddGatewayKey s1 (User_Username v) fp canonical ''bootstrap''") (auto simp: bootstrap_def split: sum.splits)
  have ok: "store_ok s" using AddUser_ok[of "empty_db now" admin RoleAdmin] AddGatewayKey_ok[of s1 "User_Username v" fp canonical "''bootstrap''"]
      Audit_ok[of s2 "?e v"] a k s by simp
  obtain r where r: "users s1 = [r]" "users_username r = ToLower (TrimSpace admin)" "users_role r = RoleAdmin" "users_enabled r"
      "v = scanUser s1 r" "gateway_keys s1 = []" using AddUser_first[OF a] by blast
  obtain g where g: "users s2 = [r]" "gateway_keys s2 = [g]" "Key_UserID g = users_id r" "Key_Fingerprint g = fp"
    using k r by (auto simp: AddGatewayKey_def dest!: UserByName_InrD split: sum.splits if_splits)
  have h: "users s = [r]" "gateway_keys s = [g]" using s g Audit_keeps by simp_all
  have "AuthenticateKey s (TrimSpace admin) fp = Inr (scanUser s r)"
    unfolding AuthenticateKey_iff[OF ok] using h g r by simp
  moreover have "usable_admin s" unfolding usable_admin_def usable_def using h g r by auto
  ultimately show ?thesis using ok r(3) by auto
qed

section \<open>The whole command\<close>

text \<open>SQLite keeps two files beside a database; of the others, opening one touches the database's own file only.\<close>

definition opens_only :: "init_env \<Rightarrow> bool" where
  "opens_only I \<longleftrightarrow> (\<forall>fs path. changes_only {path @ ''-wal'', path @ ''-shm''} fs (i_side I path fs))"

lemma open_new_changes: "opens_only I \<Longrightarrow> changes_only {path, path @ ''-wal'', path @ ''-shm''} fs (snd (open_new I fs path))"
  by (auto simp: open_new_def opens_only_def changes_only_def split: prod.split)

text \<open>The new database is empty.\<close>

lemma open_new_empty:
  assumes "open_new I fs path = (Inr s, fs')"
  shows "s = empty_db (i_now I)"
proof -
  obtain info d where "OpenStore (i_open I) (i_now I) path (fs path, None) = (Inr s, (info, d))"
    using assms by (auto simp: open_new_def split: prod.splits)
  moreover have "recognised None" by (auto simp: recognised_def)
  ultimately have "s = contents (i_now I) None" using opened_good by blast
  then show ?thesis by (simp add: contents_def)
qed

lemma refuse_existing_ok: "refuse_existing stat fs ps = Inr x \<Longrightarrow> p \<in> set ps \<Longrightarrow> fs p = None"
  by (induction ps) (auto split: option.splits if_splits)

lemma create_all_cases:
  assumes "opens_only I" "create_all I fs configPath cfg admin fp canonical = (r, fs')"
  shows "changes_only (set (created_files configPath cfg)) fs fs'
     \<and> (\<forall>s. r = Inr s \<longrightarrow> (\<exists>fs1. create_files I fs configPath cfg = (Inr (), fs1)
          \<and> changes_only {DatabasePath cfg, DatabasePath cfg @ ''-wal'', DatabasePath cfg @ ''-shm''} fs1 fs'
          \<and> (\<exists>x. bootstrap (empty_db (i_now I)) admin fp canonical = (Inr x, s))))"
proof -
  obtain x1 fs1 where f: "create_files I fs configPath cfg = (x1, fs1)" by fastforce
  obtain x2 fs2 where o: "open_new I fs1 (DatabasePath cfg) = (x2, fs2)" by fastforce
  obtain x3 s3 where b: "bootstrap (empty_db (i_now I)) admin fp canonical = (x3, s3)" by fastforce
  let ?C = "set (created_files configPath cfg)"
  have c1: "changes_only ?C fs fs1" using create_files_cases[OF f] by (auto simp: created_files_def changes_only_def)
  have d: "changes_only {DatabasePath cfg, DatabasePath cfg @ ''-wal'', DatabasePath cfg @ ''-shm''} fs1 fs2"
    using open_new_changes[OF assms(1)] o by (metis snd_conv)
  have c2: "changes_only ?C fs fs2" using c1 d by (auto simp: created_files_def changes_only_def)
  note r = assms(2)[unfolded create_all_def f, simplified, unfolded o, simplified]
  show ?thesis
  proof (cases x1)
    case (Inl e)
    then show ?thesis using r c1 by auto
  next
    case Inr1: (Inr u1)
    show ?thesis
    proof (cases x2)
      case (Inl e)
      then show ?thesis using r Inr1 c2 by auto
    next
      case (Inr st)
      then have "st = empty_db (i_now I)" using open_new_empty o by blast
      then show ?thesis using r Inr Inr1 c2 d f b by (cases x3) auto
    qed
  qed
qed

lemma initCommand_cases:
  assumes "initCommand I fs configPath args = (out, r, fs', st)"
  shows "(\<exists>e. r = Inl e \<and> fs' = fs \<and> st = None) \<or>
    (\<exists>flags rest cfg k canonical fp x fs1. parse_flags init_flags args = Inr (flags, rest)
       \<and> cfg = (ForDataDir (string_flag flags ''data-dir''))\<lparr>ListenAddress := string_flag flags ''listen''\<rparr>
       \<and> readPublicKey (i_cli I) (string_flag flags ''authorized-key'') = Inr (k, canonical, fp)
       \<and> valid_config (i_parse I) cfg
       \<and> (\<forall>p\<in>{configPath, DatabasePath cfg, MasterKeyPath cfg, HostKeyPath cfg}. fs p = None)
       \<and> create_all I fs configPath cfg (string_flag flags ''admin'') fp canonical = (x, fs1)
       \<and> (case x of Inl e \<Rightarrow> r = Inl e \<and> fs' = remove_all (created_files configPath cfg) fs1 \<and> st = None
          | Inr s \<Rightarrow> r = Inr () \<and> fs' = fs1 \<and> st = Some s))"
proof (cases "parse_flags init_flags args")
  case (Inl e)
  then show ?thesis using assms by (auto simp: initCommand_def)
next
  case (Inr q)
  obtain flags rest where p: "parse_flags init_flags args = Inr (flags, rest)" using Inr by (cases q) auto
  define cfg where "cfg = (ForDataDir (string_flag flags ''data-dir''))\<lparr>ListenAddress := string_flag flags ''listen''\<rparr>"
  define U where "U = ValidateUsername (string_flag flags ''admin'')"
  define V where "V = Config.Validate (i_parse I) cfg"
  define R where "R = refuse_existing (i_stat I) fs [configPath, DatabasePath cfg, MasterKeyPath cfg, HostKeyPath cfg]"
  note a = assms[unfolded initCommand_def p Let_def sum.case prod.case, folded cfg_def U_def V_def R_def]
  show ?thesis
  proof (cases "readPublicKey (i_cli I) (string_flag flags ''authorized-key'')")
    case (Inl e)
    then show ?thesis using a by (cases U) (auto split: if_splits)
  next
    case (Inr y)
    obtain k canonical fp where k: "readPublicKey (i_cli I) (string_flag flags ''authorized-key'') = Inr (k, canonical, fp)"
      using Inr by (cases y) auto
    obtain x fs1 where c: "create_all I fs configPath cfg (string_flag flags ''admin'') fp canonical = (x, fs1)" by fastforce
    note a' = a[unfolded k sum.case prod.case c]
    show ?thesis
    proof (cases "(\<exists>u. U = Inr u) \<and> (\<exists>v. V = Inr v) \<and> (\<exists>w. R = Inr w)")
      case False
      then show ?thesis using a' by (cases U; cases V; cases R) (auto split: if_splits)
    next
      case True
      then obtain u v w where o: "U = Inr u" "V = Inr v" "R = Inr w" by blast
      have v: "valid_config (i_parse I) cfg" using o(2) Validate_valid[of "i_parse I" cfg] by (simp add: V_def)
      have e: "\<forall>p\<in>{configPath, DatabasePath cfg, MasterKeyPath cfg, HostKeyPath cfg}. fs p = None"
        using refuse_existing_ok[OF o(3)[unfolded R_def]] by simp
      have t: "(\<exists>e. r = Inl e \<and> fs' = fs \<and> st = None) \<or> (case x of Inl e \<Rightarrow> r = Inl e \<and> fs' = remove_all (created_files configPath cfg) fs1 \<and> st = None
          | Inr s \<Rightarrow> r = Inr () \<and> fs' = fs1 \<and> st = Some s)"
        using a' o by (cases x) (auto split: if_splits)
      then show ?thesis using p cfg_def k v e c by blast
    qed
  qed
qed

section \<open>Properties\<close>

text \<open>
  C33: An \<open>init\<close> that fails leaves every file as it was and creates none, and no database; the one exception is that stray
  files named like those SQLite keeps beside the database are removed although \<open>init\<close> did not create them.
\<close>

theorem init_failed_leaves_files:
  assumes "opens_only I" "parse_flags init_flags args = Inr (flags, rest)"
    "initCommand I fs configPath args = (out, Inl e, fs', st)"
    "db = DatabasePath (ForDataDir (string_flag flags ''data-dir''))"
  shows "st = None \<and> changes_only {db @ ''-wal'', db @ ''-shm''} fs fs'
    \<and> (fs (db @ ''-wal'') = None \<longrightarrow> fs (db @ ''-shm'') = None \<longrightarrow> fs' = fs)"
proof -
  have "st = None \<and> changes_only {db @ ''-wal'', db @ ''-shm''} fs fs'
     \<and> (fs' = fs \<or> fs' (db @ ''-wal'') = None \<and> fs' (db @ ''-shm'') = None)"
    using initCommand_cases[OF assms(3)]
  proof (elim disjE exE conjE)
    fix flags' rest' cfg k canonical fp x fs1
    assume p: "parse_flags init_flags args = Inr (flags', rest')"
      and cfg: "cfg = (ForDataDir (string_flag flags' ''data-dir''))\<lparr>ListenAddress := string_flag flags' ''listen''\<rparr>"
      and free: "\<forall>p\<in>{configPath, DatabasePath cfg, MasterKeyPath cfg, HostKeyPath cfg}. fs p = None"
      and c: "create_all I fs configPath cfg (string_flag flags' ''admin'') fp canonical = (x, fs1)"
      and r: "case x of Inl e' \<Rightarrow> Inl e = Inl e' \<and> fs' = remove_all (created_files configPath cfg) fs1 \<and> st = None
          | Inr s \<Rightarrow> (Inl e :: unit res) = Inr () \<and> fs' = fs1 \<and> st = Some s"
    have db: "DatabasePath cfg = db" using p assms(2,4) cfg by simp
    have ch: "changes_only (set (created_files configPath cfg)) fs fs1" using create_all_cases[OF assms(1) c] by blast
    have f': "fs' = remove_all (created_files configPath cfg) fs1" "st = None" using r by (auto split: sum.splits)
    show ?thesis using ch free f' db by (auto simp: changes_only_def remove_all_apply created_files_def)
  qed simp_all
  then show ?thesis by (auto simp: changes_only_def fun_eq_iff) metis
qed


section \<open>Witnesses\<close>

text \<open>A machine without files but the administrator's public key, on which every step works, or one fails.\<close>

definition sample_init :: "fault \<Rightarrow> init_env" where
  "sample_init fault = \<lparr>i_cli = sample_cli, i_parse = (\<lambda>_. None), i_marshal = (\<lambda>_. Inr ''toml''), i_stat = (\<lambda>_. None), i_mkdir = None,
     i_umask = 18, i_random = replicate 32 (chr 7), i_pem = Inr ''pem'', i_master_fault = NoFault, i_host_fault = fault,
     i_config_fault = NoFault, i_reread = None,
     i_open = sample_open, i_side = (\<lambda>_ fs. fs), i_now = sample_now\<rparr>"

definition init_args :: "string list" where
  "init_args = [''--admin'', ''root'', ''--authorized-key=/root/id.pub'', ''--data-dir'', ''/data'']"

lemma sample_opens: "opens_only (sample_init f)"
  by (auto simp: opens_only_def sample_init_def changes_only_def)

text \<open>On such a machine a new database opens.\<close>

lemma sample_opened: "fs path = None \<Longrightarrow> \<exists>fs'. open_new (sample_init f) fs path = (Inr (empty_db sample_now), fs')"
proof -
  assume "fs path = None"
  have m: "is_ok (fst (migrate no_faults None))" by code_simp
  obtain r info d where o: "OpenStore sample_open sample_now path (None, None) = (r, (info, d))" using prod_cases3 by blast
  have "is_ok r" using o m
    by (auto simp: OpenStore_def sample_open_def refused_file_def Let_def is_ok_def split: prod.splits sum.splits if_splits)
  then obtain s where "r = Inr s" by (auto simp: is_ok_iff)
  then have "open_new (sample_init f) fs path = (Inr s, fs(path := info))"
    using o \<open>fs path = None\<close> by (simp add: open_new_def sample_init_def)
  with open_new_empty[OF this] show ?thesis by (simp add: sample_init_def)
qed

definition parsed_init :: flag_set where
  "parsed_init = [(''admin'', StringFlag ''root''), (''authorized-key'', StringFlag ''/root/id.pub''),
     (''data-dir'', StringFlag ''/data''), (''listen'', StringFlag ''0.0.0.0:2222'')]"

lemma parsed_init: "parse_flags init_flags init_args = Inr (parsed_init, [])"
  by code_simp

definition sample_config :: Config where
  "sample_config = (ForDataDir ''/data'')\<lparr>ListenAddress := ''0.0.0.0:2222''\<rparr>"

lemma sample_paths: "MasterKeyPath sample_config = ''/data/master.key''" "HostKeyPath sample_config = ''/data/ssh_host_ed25519_key''"
  "DatabasePath sample_config = ''/data/sshgatew.db''"
  by code_simp+

lemma sample_user_ok: "ValidateUsername ''root'' = Inr ()"
  by code_simp

lemma sample_config_ok: "Config.Validate (\<lambda>_. None) sample_config = Inr ()"
  by code_simp

lemma parsed_init_values: "string_flag parsed_init ''admin'' = ''root''" "string_flag parsed_init ''data-dir'' = ''/data''"
  "string_flag parsed_init ''listen'' = ''0.0.0.0:2222''" "string_flag parsed_init ''authorized-key'' = ''/root/id.pub''"
  by code_simp+

lemma sample_key: "readPublicKey sample_cli ''/root/id.pub'' = Inr (\<lparr>key_Type = ''ssh-ed25519'', key_Marshal = ''pinned''\<rparr>, ''pinned'', ''SHA256:pinned'')"
  by code_simp

lemma sample_bootstrap: "fst (bootstrap (empty_db sample_now) ''root'' ''SHA256:pinned'' ''pinned'') = Inr ()"
proof -
  obtain x s1 where a: "AddUser (empty_db sample_now) ''root'' RoleAdmin = (x, s1)" by fastforce
  have "map_sum id User_Username (fst (AddUser (empty_db sample_now) ''root'' RoleAdmin)) = Inr ''root''" by code_simp
  then obtain v where v: "x = Inr v" "User_Username v = ''root''" using a by (cases x) auto
  have "fst (AddGatewayKey (snd (AddUser (empty_db sample_now) ''root'' RoleAdmin)) ''root'' ''SHA256:pinned'' ''pinned'' ''bootstrap'') = Inr ()"
    by code_simp
  then obtain s2 where "AddGatewayKey s1 ''root'' ''SHA256:pinned'' ''pinned'' ''bootstrap'' = (Inr (), s2)"
    using a by (cases "AddGatewayKey s1 ''root'' ''SHA256:pinned'' ''pinned'' ''bootstrap''") auto
  then show ?thesis using a v by (simp add: bootstrap_def)
qed

lemma sample_init_run:
  "create_all (sample_init f) (\<lambda>_. None) ''/etc/c.toml'' sample_config ''root'' ''SHA256:pinned'' ''pinned'' = (r, fs') \<Longrightarrow>
   \<exists>out st. initCommand (sample_init f) (\<lambda>_. None) ''/etc/c.toml'' init_args =
     (case r of Inl e \<Rightarrow> ([], Inl e, remove_all (created_files ''/etc/c.toml'' sample_config) fs', None) | Inr s \<Rightarrow> (out, Inr (), fs', Some s))"
  unfolding initCommand_def parsed_init sum.case prod.case Let_def parsed_init_values
  by (simp add: sample_init_def sample_user_ok sample_key sample_config_ok flip: sample_config_def split: sum.split)

theorem init_failed_leaves_files_witness:
  "\<exists>out e st. initCommand (sample_init (SyncFails (Err ''no space''))) (\<lambda>_. None) ''/etc/c.toml'' init_args = (out, Inl e, \<lambda>_. None, st)"
proof -
  let ?I = "sample_init (SyncFails (Err ''no space''))"
  have "\<exists>fs'. create_files ?I (\<lambda>_. None) ''/etc/c.toml'' sample_config = (Inl (Err ''create host key: no space''), fs')"
    by (simp add: create_files_def sample_init_def Generate_def generateHostKey_def sample_paths wrap_def err_text_def)
  then obtain fs' where "create_all ?I (\<lambda>_. None) ''/etc/c.toml'' sample_config ''root'' ''SHA256:pinned'' ''pinned''
      = (Inl (Err ''create host key: no space''), fs')"
    by (auto simp: create_all_def)
  then obtain fs'' where c: "initCommand ?I (\<lambda>_. None) ''/etc/c.toml'' init_args = ([], Inl (Err ''create host key: no space''), fs'', None)"
    using sample_init_run by fastforce
  show ?thesis using init_failed_leaves_files[OF sample_opens parsed_init c refl] c by auto
qed


end
