(* ===== verification/Install.thy ===== *)
theory Install
  imports Cli_Init
begin

text \<open>
  \<^verbatim>\<open>cmd/sshgatew/install.go\<close>: the installer, which places the binary, initialises the gateway, hands its files to a
  service account and enables the service.
\<close>

section \<open>The machine\<close>

text \<open>
  The system calls whose effect is outside the model's files are logged: directories made, permissions, owners, and
  programs run. \<open>os.Chmod\<close> of a file also sets its permissions.
\<close>

datatype sys_call = SysMkdirAll string nat | SysChmod string nat | SysChown string int int | SysRun string "string list"

record machine =
  mc_fs :: fs
  mc_log :: "sys_call list"
  mc_store :: "db option"

datatype lookup = Account string string | UnknownUser | LookupError go_error

text \<open>
  \<open>n_names\<close> are the random names \<open>os.CreateTemp\<close> tries in a directory for a pattern; \<open>n_temp_fault\<close> is what goes
  wrong while a temporary file for a destination is made, written, made readable and closed, \<open>n_rename\<close> whether moving it there fails. \<open>n_comment\<close> is
  the comment \<open>ParseAuthorizedKey\<close> returns.
\<close>

record install_env =
  n_init :: init_env
  n_euid :: int
  n_executable :: "string res"
  n_lookup :: "sys_call list \<Rightarrow> string \<Rightarrow> lookup"
  n_fails :: "sys_call list \<Rightarrow> sys_call \<Rightarrow> go_error option"
  n_same :: "string \<Rightarrow> string \<Rightarrow> bool"
  n_tempdir :: string
  n_names :: "string \<Rightarrow> string \<Rightarrow> string list"
  n_temp_fault :: "string \<Rightarrow> fault"
  n_rename :: "string \<Rightarrow> go_error option"
  n_comment :: "string \<Rightarrow> string"
  n_input :: string
  n_input_error :: "go_error option"

type_synonym 'a step = "machine \<Rightarrow> (machine, 'a) outcome"

definition and_then :: "(machine, 'a) outcome \<Rightarrow> ('a \<Rightarrow> 'b step) \<Rightarrow> (machine, 'b) outcome" where
  "and_then r f = (case r of (Inl e, m) \<Rightarrow> (Inl e, m) | (Inr x, m) \<Rightarrow> f x m)"

definition set_perm :: "fs \<Rightarrow> string \<Rightarrow> nat \<Rightarrow> fs" where
  "set_perm fs p mode = (case fs p of None \<Rightarrow> fs | Some f \<Rightarrow> fs(p \<mapsto> f\<lparr>file_perm := mode\<rparr>))"

definition sys :: "install_env \<Rightarrow> sys_call \<Rightarrow> unit step" where
  "sys N c m =
     (case n_fails N (mc_log m) c of
        Some e \<Rightarrow> (Inl e, m)
      | None \<Rightarrow> (Inr (), m\<lparr>mc_log := mc_log m @ [c],
          mc_fs := (case c of SysChmod p mode \<Rightarrow> set_perm (mc_fs m) p mode | _ \<Rightarrow> mc_fs m)\<rparr>))"

fun sys_all :: "install_env \<Rightarrow> sys_call list \<Rightarrow> unit step" where
  "sys_all N [] m = (Inr (), m)"
| "sys_all N (c # cs) m = and_then (sys N c m) (\<lambda>_. sys_all N cs)"

text \<open>\<^verbatim>\<open>filepath.Dir\<close>.\<close>

definition filepath_Dir :: "string \<Rightarrow> string" where
  "filepath_Dir path = Clean (rev (dropWhile (\<lambda>c. c \<noteq> CHR ''/'') (rev path)))"

text \<open>\<^verbatim>\<open>os.CreateTemp\<close> creates the first of the names that is free, and gives up when none is.\<close>

definition CreateTemp :: "install_env \<Rightarrow> fs \<Rightarrow> string \<Rightarrow> string \<Rightarrow> string res" where
  "CreateTemp N fs dir pattern =
     (case find (\<lambda>p. fs p = None) (n_names N dir pattern) of None \<Rightarrow> Inl (Err ''createtemp: file exists'') | Some p \<Rightarrow> Inr p)"

section \<open>Files that are put in place by renaming\<close>

text \<open>A temporary file beside the destination is written, made readable and renamed; whatever fails, it is removed.\<close>

definition place_file :: "install_env \<Rightarrow> string \<Rightarrow> string res \<Rightarrow> nat \<Rightarrow> unit step" where
  "place_file N destination payload mode m =
     (case (n_temp_fault N destination, CreateTemp N (mc_fs m) (filepath_Dir destination) ''.sshgatew-install-*'') of
        (OpenFails e, _) \<Rightarrow> (Inl e, m)
      | (_, Inl e) \<Rightarrow> (Inl e, m)
      | (flt, Inr temp) \<Rightarrow>
          let written = (\<lambda>bs. (mc_fs m)(temp \<mapsto> \<lparr>file_regular = True, file_perm = mode, file_data = bs\<rparr>));
              gone = (\<lambda>fs. m\<lparr>mc_fs := fs(temp := None)\<rparr>) in
          (case payload of
             Inl e \<Rightarrow> (Inl e, gone (written []))
           | Inr b \<Rightarrow>
               (case flt of
                  WriteFails n e \<Rightarrow> (Inl e, gone (written (take n b)))
                | SyncFails e \<Rightarrow> (Inl e, gone (written b))
                | _ \<Rightarrow>
                    (case n_rename N destination of
                       Some e \<Rightarrow> (Inl e, gone (written b))
                     | None \<Rightarrow> (Inr (), gone ((written b)(destination := written b temp)))))))"

definition atomicWrite :: "install_env \<Rightarrow> string \<Rightarrow> string \<Rightarrow> nat \<Rightarrow> unit step" where
  "atomicWrite N destination payload mode = place_file N destination (Inr payload) mode"

text \<open>Octal 0755 is 493. A binary that runs from its destination only has its permissions set.\<close>

definition installCurrentExecutable :: "install_env \<Rightarrow> string \<Rightarrow> unit step" where
  "installCurrentExecutable N destination m =
     (case n_executable N of
        Inl e \<Rightarrow> (Inl e, m)
      | Inr source \<Rightarrow>
          if mc_fs m source \<noteq> None \<and> mc_fs m destination \<noteq> None \<and> n_same N source destination
          then sys N (SysChmod destination 493) m
          else (case mc_fs m source of
             None \<Rightarrow> (Inl (Err (''open '' @ source @ '': no such file or directory'')), m)
           | Some f \<Rightarrow> place_file N destination (Inr (file_data f)) 493 m))"

section \<open>The service account\<close>

definition ensureServiceUser :: "install_env \<Rightarrow> unit step" where
  "ensureServiceUser N m =
     (case n_lookup N (mc_log m) ''sshgatew'' of
        Account _ _ \<Rightarrow> (Inr (), m)
      | LookupError e \<Rightarrow> (Inl (wrap ''look up sshgatew service account'' e), m)
      | UnknownUser \<Rightarrow> sys N (SysRun ''useradd'' [''--system'', ''--home-dir'', ''/var/lib/sshgatew'',
          ''--shell'', ''/usr/sbin/nologin'', ''sshgatew'']) m)"

text \<open>The account's ids; an account that is the superuser is refused.\<close>

definition service_ids :: "install_env \<Rightarrow> machine \<Rightarrow> (int \<times> int) res" where
  "service_ids N m =
     (case n_lookup N (mc_log m) ''sshgatew'' of
        LookupError e \<Rightarrow> Inl (wrap ''look up sshgatew service account'' e)
      | UnknownUser \<Rightarrow> Inl (Err ''look up sshgatew service account: user: unknown user sshgatew'')
      | Account uid gid \<Rightarrow>
          (case atoi uid of
             None \<Rightarrow> Inl (Err ''invalid uid'')
           | Some n \<Rightarrow>
               if n = 0 then Inl (Err ''refusing to run SSHGateW with a service account that resolves to UID 0'')
               else (case atoi gid of None \<Rightarrow> Inl (Err ''invalid gid'') | Some g \<Rightarrow> Inr (n, g))))"

section \<open>The installation\<close>

definition systemdUnit :: "string \<Rightarrow> string \<Rightarrow> string \<Rightarrow> string" where
  "systemdUnit binary configPath dataDir = concat (map (\<lambda>l. l @ [chr 10]) [
     ''[Unit]'',
     ''Description=SSHGateW SSH credential gateway'',
     ''After=network-online.target'',
     ''Wants=network-online.target'',
     [],
     ''[Service]'',
     ''Type=simple'',
     ''User=sshgatew'',
     ''Group=sshgatew'',
     ''ExecStart='' @ binary @ '' --config '' @ configPath @ '' serve'',
     ''Restart=on-failure'',
     ''RestartSec=3s'',
     ''TimeoutStopSec=15s'',
     ''LimitNOFILE=8192'',
     [],
     ''NoNewPrivileges=true'',
     ''PrivateTmp=true'',
     ''PrivateDevices=true'',
     ''ProtectSystem=strict'',
     ''ProtectHome=true'',
     ''ReadWritePaths='' @ dataDir,
     ''RestrictAddressFamilies=AF_UNIX AF_INET AF_INET6'',
     ''RestrictSUIDSGID=true'',
     ''LockPersonality=true'',
     ''MemoryDenyWriteExecute=true'',
     ''CapabilityBoundingSet='',
     ''AmbientCapabilities='',
     [],
     ''[Install]'',
     ''WantedBy=multi-user.target''])"

record install_paths =
  p_config :: string
  p_dataDir :: string
  p_binary :: string
  p_unit :: string

fun not_initialized :: "(string \<Rightarrow> go_error option) \<Rightarrow> fs \<Rightarrow> string list \<Rightarrow> unit res" where
  "not_initialized stat fs [] = Inr ()"
| "not_initialized stat fs (p # ps) =
     (case stat p of
        Some e \<Rightarrow> Inl e
      | None \<Rightarrow> if fs p \<noteq> None then Inl (Err (''SSHGateW is already initialized at '' @ p @ ''; refusing to overwrite it''))
                else not_initialized stat fs ps)"

definition one_key :: "install_env \<Rightarrow> string \<Rightarrow> string \<Rightarrow> string \<Rightarrow> pubkey res" where
  "one_key N several failed b =
     (case ParseAuthorizedKey (c_ssh (i_cli (n_init N))) b of
        Inl e \<Rightarrow> Inl (wrap failed e)
      | Inr (key, rest) \<Rightarrow> if TrimSpace rest \<noteq> [] then Inl (wrap failed (Err several)) else Inr key)"

text \<open>Octal 0750 is 488.\<close>

definition directories :: "install_paths \<Rightarrow> int \<Rightarrow> int \<Rightarrow> sys_call list" where
  "directories P uid gid =
     [SysMkdirAll (p_dataDir P) 488, SysMkdirAll (filepath_Dir (p_config P)) 488, SysChmod (filepath_Dir (p_config P)) 488,
      SysMkdirAll (filepath_Dir (p_binary P)) 493, SysMkdirAll (filepath_Dir (p_unit P)) 493,
      SysChown (p_dataDir P) uid gid, SysChmod (p_dataDir P) 488]"

text \<open>\<open>init\<close> reads the administrator's key from the temporary file.\<close>

definition run_init :: "install_env \<Rightarrow> install_paths \<Rightarrow> string \<Rightarrow> string \<Rightarrow> string \<Rightarrow> printed list step" where
  "run_init N P admin listen keyPath m =
     (let I = n_init N; read = (\<lambda>p. case mc_fs m p of Some f \<Rightarrow> Inr (file_data f)
            | None \<Rightarrow> Inl (Err (''open '' @ p @ '': no such file or directory'')))
      in case initCommand (I\<lparr>i_cli := (i_cli I)\<lparr>c_ReadFile := read\<rparr>\<rparr>) (mc_fs m) (p_config P)
             [''--admin'', admin, ''--authorized-key'', keyPath, ''--data-dir'', p_dataDir P, ''--listen'', listen] of
           (out, Inl e, fs', st) \<Rightarrow> (Inl (wrap ''initialize SSHGateW'' e), m\<lparr>mc_fs := fs'\<rparr>)
         | (out, Inr _, fs', st) \<Rightarrow> (Inr out, m\<lparr>mc_fs := fs', mc_store := st\<rparr>))"

definition owners :: "install_paths \<Rightarrow> int \<Rightarrow> int \<Rightarrow> sys_call list" where
  "owners P uid gid =
     map (\<lambda>p. SysChown p uid gid) [p_dataDir P, filepath_Join (p_dataDir P) ''sshgatew.db'', filepath_Join (p_dataDir P) ''master.key'',
       filepath_Join (p_dataDir P) ''ssh_host_ed25519_key'']
     @ [SysChown (filepath_Dir (p_config P)) 0 gid, SysChown (p_config P) 0 gid, SysChmod (p_config P) 416]"

definition enable_service :: "bool \<Rightarrow> sys_call list" where
  "enable_service start = [SysRun ''systemctl'' [''daemon-reload''],
     SysRun ''systemctl'' (if start then [''enable'', ''--now'', ''sshgatew.service''] else [''enable'', ''sshgatew.service''])]"

text \<open>The administrator's key in a temporary file, which is removed however the rest ends.\<close>

definition with_key_file :: "install_env \<Rightarrow> string \<Rightarrow> (string \<Rightarrow> 'a step) \<Rightarrow> 'a step" where
  "with_key_file N publicKey body m =
     (case (n_temp_fault N (n_tempdir N), CreateTemp N (mc_fs m) (n_tempdir N) ''sshgatew-admin-key-*.pub'') of
        (OpenFails e, _) \<Rightarrow> (Inl e, m)
      | (_, Inl e) \<Rightarrow> (Inl e, m)
      | (WriteFails n e, Inr keyPath) \<Rightarrow> (Inl e, m\<lparr>mc_fs := (mc_fs m)(keyPath := None)\<rparr>)
      | (SyncFails e, Inr keyPath) \<Rightarrow> (Inl e, m\<lparr>mc_fs := (mc_fs m)(keyPath := None)\<rparr>)
      | (_, Inr keyPath) \<Rightarrow>
          (case body keyPath (m\<lparr>mc_fs := (mc_fs m)(keyPath \<mapsto> \<lparr>file_regular = True, file_perm = 384, file_data = publicKey\<rparr>)\<rparr>) of
             (r, m') \<Rightarrow> (r, m'\<lparr>mc_fs := (mc_fs m')(keyPath := None)\<rparr>)))"

text \<open>The steps that change the machine.\<close>

definition install_steps :: "install_env \<Rightarrow> install_paths \<Rightarrow> string \<Rightarrow> string \<Rightarrow> string \<Rightarrow> bool \<Rightarrow> printed list step" where
  "install_steps N P admin listen publicKey start m =
     and_then (ensureServiceUser N m) (\<lambda>_ m.
       case service_ids N m of
         Inl e \<Rightarrow> (Inl e, m)
       | Inr (uid, gid) \<Rightarrow>
           and_then (sys_all N (directories P uid gid) m) (\<lambda>_ m.
           and_then (installCurrentExecutable N (p_binary P) m) (\<lambda>_.
           with_key_file N publicKey (\<lambda>keyPath m.
             and_then (run_init N P admin listen keyPath m) (\<lambda>out m.
             and_then (sys_all N (owners P uid gid) m) (\<lambda>_ m.
             and_then (atomicWrite N (p_unit P) (systemdUnit (p_binary P) (p_config P) (p_dataDir P)) 420 m) (\<lambda>_ m.
             and_then (sys_all N (enable_service start) m) (\<lambda>_ m. (Inr out, m)))))))))"

definition connect_port :: "string \<Rightarrow> string" where
  "connect_port listen = (case SplitHostPort listen of Inl _ \<Rightarrow> [] | Inr (_, port) \<Rightarrow> port)"

definition performInstall ::
    "install_env \<Rightarrow> install_paths \<Rightarrow> string \<Rightarrow> string \<Rightarrow> string \<Rightarrow> bool \<Rightarrow> printed list step" where
  "performInstall N P admin listen publicKey start m =
     (if n_euid N \<noteq> 0 then (Inl (Err ''installation must run as root; use sudo ./sshgatew install''), m)
      else (case ValidateUsername admin of
        Inl e \<Rightarrow> (Inl e, m)
      | Inr _ \<Rightarrow>
          (case Config.Validate (i_parse (n_init N)) ((ForDataDir (p_dataDir P))\<lparr>ListenAddress := listen\<rparr>) of
             Inl e \<Rightarrow> (Inl e, m)
           | Inr _ \<Rightarrow>
               (case one_key N ''expected exactly one administrator public key'' ''parse administrator public key'' publicKey of
                  Inl e \<Rightarrow> (Inl e, m)
                | Inr _ \<Rightarrow>
                    (case not_initialized (i_stat (n_init N)) (mc_fs m) [p_config P, filepath_Join (p_dataDir P) ''sshgatew.db''] of
                       Inl e \<Rightarrow> (Inl e, m)
                     | Inr _ \<Rightarrow>
                         and_then (install_steps N P admin listen publicKey start m) (\<lambda>out m.
                           (Inr (out @ [row_line [], row_line ''Installation complete.'',
                             row_line (''Service: '' @ (if start then ''enabled and running'' else ''enabled, not started'')),
                             row_line (''Connect: ssh -p '' @ connect_port listen @ '' '' @ admin @ ''@<gateway-host>'')]), m)))))))"

section \<open>The command\<close>

text \<open>
  \<open>bufio.Reader.ReadString\<close> up to a line feed: the line and the input after it. At the end of the input the rest is a line;
  another error of the input is returned.
\<close>

definition ReadString :: "install_env \<Rightarrow> string \<Rightarrow> string res \<times> string" where
  "ReadString N input =
     (if chr 10 \<in> set input then let line = takeWhile (\<lambda>c. c \<noteq> chr 10) input @ [chr 10] in (Inr line, drop (length line) input)
      else (case n_input_error N of None \<Rightarrow> (Inr input, []) | Some e \<Rightarrow> (Inl e, [])))"

definition promptDefault :: "install_env \<Rightarrow> string \<Rightarrow> string \<Rightarrow> string \<Rightarrow> printed list \<times> string res \<times> string" where
  "promptDefault N label value input =
     (let (line, rest) = ReadString N input in
      ([Line (label @ '' ['' @ value @ '']: '')],
       (case line of Inl e \<Rightarrow> Inl e | Inr l \<Rightarrow> Inr (if TrimSpace l \<noteq> [] then TrimSpace l else value)), rest))"

definition loadInstallPublicKey :: "install_env \<Rightarrow> string \<Rightarrow> string res" where
  "loadInstallPublicKey N value0 =
     (let value = TrimSpace value0; E = i_cli (n_init N) in
      if value = [] then Inl (Err ''an administrator public key is required'')
      else (case (if \<not> ContainsAny value ('' '' @ [chr 9])
                  then (case c_ReadFile E value of Inl e \<Rightarrow> Inl (wrap ''read administrator public key'' e) | Inr b \<Rightarrow> Inr b)
                  else Inr value) of
         Inl e \<Rightarrow> Inl e
       | Inr b \<Rightarrow>
           (case one_key N ''expected exactly one public key'' ''parse administrator public key'' b of
              Inl e \<Rightarrow> Inl e
            | Inr key \<Rightarrow>
                let canonical = TrimSpace (c_MarshalAuthorizedKey E key); comment = n_comment N b in
                Inr ((if comment \<noteq> [] then canonical @ '' '' @ comment else canonical) @ [chr 10]))))"

definition install_flags :: flag_set where
  "install_flags = [(''admin'', StringFlag ''admin''), (''authorized-key'', StringFlag []), (''listen'', StringFlag ''0.0.0.0:2222''),
     (''no-start'', BoolFlag False), (''yes'', BoolFlag False)]"

text \<open>The name and address, asked for when the command has no arguments; the key, asked for when it is not given.\<close>

definition ask_names :: "install_env \<Rightarrow> bool \<Rightarrow> string \<Rightarrow> string \<Rightarrow> string \<Rightarrow> printed list \<times> (string \<times> string) res \<times> string" where
  "ask_names N interactive admin listen input =
     (if \<not> interactive then ([], Inr (admin, listen), input)
      else (case promptDefault N ''Administrator username'' admin input of
        (out, Inl e, rest) \<Rightarrow> (out, Inl e, rest)
      | (out, Inr a, rest) \<Rightarrow>
          (case promptDefault N ''Listen address'' listen rest of
             (out', Inl e, rest') \<Rightarrow> (out @ out', Inl e, rest')
           | (out', Inr l, rest') \<Rightarrow> (out @ out', Inr (a, l), rest'))))"

definition ask_key :: "install_env \<Rightarrow> string \<Rightarrow> string \<Rightarrow> printed list \<times> string res \<times> string" where
  "ask_key N given input =
     (if given \<noteq> [] then ([], Inr given, input)
      else let (line, rest) = ReadString N input in
        ([Line ''Administrator public key (paste one OpenSSH public key): ''],
         (case line of Inl e \<Rightarrow> Inl e | Inr l \<Rightarrow> Inr (TrimSpace l)), rest))"

definition ask_consent :: "install_env \<Rightarrow> string \<Rightarrow> string \<Rightarrow> string \<Rightarrow> string \<Rightarrow> printed list \<times> unit res" where
  "ask_consent N version admin listen input =
     ([Line (chr 10 # ''Install SSHGateW '' @ version @ '' on '' @ listen @ '' for administrator '' @ admin @ ''? [y/N]: '')],
      (case fst (ReadString N input) of
         Inl e \<Rightarrow> Inl e
       | Inr l \<Rightarrow> let answer = ToLower (TrimSpace l) in
           if answer \<noteq> ''y'' \<and> answer \<noteq> ''yes'' then Inl (Err ''installation cancelled'') else Inr ()))"

definition install_target :: "string \<Rightarrow> install_paths" where
  "install_target configPath = \<lparr>p_config = configPath, p_dataDir = ''/var/lib/sshgatew'', p_binary = ''/usr/local/bin/sshgatew'',
     p_unit = ''/etc/systemd/system/sshgatew.service''\<rparr>"

definition installCommand :: "install_env \<Rightarrow> string \<Rightarrow> string \<Rightarrow> string list \<Rightarrow> machine \<Rightarrow> printed list \<times> unit res \<times> machine" where
  "installCommand N version configPath args m =
     (case parse_flags install_flags args of
        Inl e \<Rightarrow> ([], if e = HelpRequested then Inr () else Inl (Err (flag_error_text (i_cli (n_init N)) e)), m)
      | Inr (flags, _) \<Rightarrow>
          let interactive = (args = []) in
          (case ask_names N interactive (string_flag flags ''admin'') (string_flag flags ''listen'') (n_input N) of
             (out, Inl e, _) \<Rightarrow> (out, Inl e, m)
           | (out, Inr (admin, listen), input) \<Rightarrow>
               (case ask_key N (string_flag flags ''authorized-key'') input of
                  (out1, Inl e, _) \<Rightarrow> (out @ out1, Inl e, m)
                | (out1, Inr given, input1) \<Rightarrow>
                    (case loadInstallPublicKey N given of
                       Inl e \<Rightarrow> (out @ out1, Inl e, m)
                     | Inr key \<Rightarrow>
                         (case (if interactive \<and> \<not> bool_flag flags ''yes'' then ask_consent N version admin listen input1 else ([], Inr ())) of
                            (out2, Inl e) \<Rightarrow> (out @ out1 @ out2, Inl e, m)
                          | (out2, Inr _) \<Rightarrow>
                              (case performInstall N (install_target configPath) admin listen key (\<not> bool_flag flags ''no-start'') m of
                                 (Inl e, m') \<Rightarrow> (out @ out1 @ out2, Inl e, m')
                               | (Inr out3, m') \<Rightarrow> (out @ out1 @ out2 @ out3, Inr (), m')))))))"

end
