(* ===== verification/Install_Safety.thy ===== *)
theory Install_Safety
  imports Install
begin

text \<open>
  The installer: which files it may touch, and that the service is enabled only when everything it needs is in place.
\<close>

section \<open>Steps\<close>

lemma and_thenD:
  assumes "and_then r f = (x, m')"
  obtains (stops) e where "r = (Inl e, m')" "x = Inl e" | (goes_on) y m1 where "r = (Inr y, m1)" "f y m1 = (x, m')"
  using assms by (cases r; cases "fst r") (auto simp: and_then_def)

text \<open>A relation between the machine before and after that every step keeps.\<close>

definition keeps :: "(machine \<Rightarrow> machine \<Rightarrow> bool) \<Rightarrow> machine \<Rightarrow> (machine, 'a) outcome \<Rightarrow> bool" where
  "keeps Q m r \<longleftrightarrow> Q m (snd r)"

lemma and_then_Inr: "and_then (Inr x, m) f = f x m"
  by (simp add: and_then_def)

text \<open>A relation that is reflexive and transitive holds over a sequence of steps when it holds over each.\<close>

locale step_relation =
  fixes Q :: "machine \<Rightarrow> machine \<Rightarrow> bool"
  assumes same_machine: "Q m m"
    and trans_machine: "Q a b \<Longrightarrow> Q b c \<Longrightarrow> Q a c"
begin

lemma keeps_same: "keeps Q m (x, m)"
  by (simp add: keeps_def same_machine)

lemma keeps_then:
  assumes "keeps Q m r" "\<And>y m1. keeps Q m1 (f y m1)"
  shows "keeps Q m (and_then r f)"
proof (cases r)
  case (Pair x m1)
  then show ?thesis using assms(1) trans_machine[OF _ assms(2)[unfolded keeps_def]]
    by (cases x) (auto simp: keeps_def and_then_def)
qed

lemma keeps_calls: "(\<And>c m. c \<in> set cs \<Longrightarrow> keeps Q m (sys N c m)) \<Longrightarrow> keeps Q m (sys_all N cs m)"
  by (induction cs arbitrary: m) (auto intro!: keeps_same keeps_then)

end

section \<open>Files\<close>

definition files_in :: "string set \<Rightarrow> machine \<Rightarrow> machine \<Rightarrow> bool" where
  "files_in S m m' \<longleftrightarrow> changes_only S (mc_fs m) (mc_fs m')"

interpretation changed_files: step_relation "files_in S" for S
  by unfold_locales (auto simp: files_in_def intro: changes_only_trans)

lemma files_in_refl [simp]: "files_in S m m"
  by (rule changed_files.same_machine)

lemma CreateTemp_free: "CreateTemp N fs d pat = Inr p \<Longrightarrow> fs p = None \<and> p \<in> set (n_names N d pat)"
  by (auto simp: CreateTemp_def dest!: find_SomeD split: option.splits)

text \<open>The random names are not that of the installed unit.\<close>

definition names_ok :: "install_env \<Rightarrow> install_paths \<Rightarrow> bool" where
  "names_ok N P \<longleftrightarrow> (\<forall>d pat. p_unit P \<notin> set (n_names N d pat))"

definition chmod_path :: "sys_call \<Rightarrow> string set" where
  "chmod_path c = (case c of SysChmod p _ \<Rightarrow> {p} | _ \<Rightarrow> {})"

lemma sys_files: "chmod_path c \<subseteq> S \<Longrightarrow> keeps (files_in S) m (sys N c m)"
  by (auto simp: keeps_def sys_def files_in_def set_perm_def chmod_path_def changes_only_def split: option.split sys_call.splits)

lemma sys_all_files: "\<Union> (chmod_path ` set cs) \<subseteq> S \<Longrightarrow> keeps (files_in S) m (sys_all N cs m)"
  by (rule changed_files.keeps_calls) (auto intro!: sys_files)

lemma place_file_files: "dst \<in> S \<Longrightarrow> keeps (files_in S) m (place_file N dst b mode m)"
  using CreateTemp_free[of N "mc_fs m" "filepath_Dir dst" "''.sshgatew-install-*''"]
  by (auto simp: keeps_def place_file_def files_in_def changes_only_def Let_def split: fault.split sum.split option.split)

lemma with_key_file_files:
  assumes "\<And>k m. keeps (files_in S) m (body k m)"
  shows "keeps (files_in S) m (with_key_file N key body m)"
proof (cases "CreateTemp N (mc_fs m) (n_tempdir N) ''sshgatew-admin-key-*.pub''")
  case (Inr k)
  have f: "mc_fs m k = None" using CreateTemp_free[OF Inr] by simp
  let ?m = "m\<lparr>mc_fs := (mc_fs m)(k \<mapsto> \<lparr>file_regular = True, file_perm = 384, file_data = key\<rparr>)\<rparr>"
  obtain r m' where b: "body k ?m = (r, m')" by fastforce
  have "files_in S ?m m'" using assms[of ?m k] b by (simp add: keeps_def)
  then have "files_in S m (m'\<lparr>mc_fs := (mc_fs m')(k := None)\<rparr>)" using f by (auto simp: files_in_def changes_only_def split: if_splits)
  moreover have "files_in S m (m\<lparr>mc_fs := (mc_fs m)(k := None)\<rparr>)" using f by (auto simp: files_in_def changes_only_def)
  ultimately show ?thesis using b Inr by (auto simp: keeps_def with_key_file_def split: fault.split)
qed (auto simp: keeps_def with_key_file_def split: fault.split)

text \<open>What \<open>init\<close> may touch, whatever file it reads the key from.\<close>

lemma initCommand_files:
  assumes "opens_only I" "parse_flags init_flags args = Inr (flags, rest)" "initCommand I fs configPath args = (out, r, fs', st)"
  shows "changes_only (set (created_files configPath (ForDataDir (string_flag flags ''data-dir'')))) fs fs'"
  using initCommand_cases[OF assms(3)]
proof (elim disjE exE conjE)
  fix flags' rest' cfg k canonical fp x fs1
  assume p: "parse_flags init_flags args = Inr (flags', rest')"
    and cfg: "cfg = (ForDataDir (string_flag flags' ''data-dir''))\<lparr>ListenAddress := string_flag flags' ''listen''\<rparr>"
    and c: "create_all I fs configPath cfg (string_flag flags' ''admin'') fp canonical = (x, fs1)"
    and r: "case x of Inl e \<Rightarrow> r = Inl e \<and> fs' = remove_all (created_files configPath cfg) fs1 \<and> st = None
        | Inr s \<Rightarrow> r = Inr () \<and> fs' = fs1 \<and> st = Some s"
  have cf: "created_files configPath cfg = created_files configPath (ForDataDir (string_flag flags ''data-dir''))"
    using p assms(2) cfg by (simp add: created_files_def)
  have "changes_only (set (created_files configPath cfg)) fs fs1" using create_all_cases[OF assms(1) c] by blast
  then show ?thesis using r unfolding cf by (auto simp: changes_only_def remove_all_apply split: sum.splits)
qed (simp_all add: changes_only_def)

lemma install_init_flags:
  "parse_flags init_flags [''--admin'', admin, ''--authorized-key'', keyPath, ''--data-dir'', dataDir, ''--listen'', listen] =
     Inr ([(''admin'', StringFlag admin), (''authorized-key'', StringFlag keyPath), (''data-dir'', StringFlag dataDir),
           (''listen'', StringFlag listen)], [])"
  by (simp add: init_flags_def parse_one_def set_value_def set_flag_def Let_def)

lemma opens_only_cli [simp]: "opens_only (I\<lparr>i_cli := E\<rparr>) = opens_only I"
  by (simp add: opens_only_def)

lemma run_init_files:
  assumes "opens_only (n_init N)" "set (created_files (p_config P) (ForDataDir (p_dataDir P))) \<subseteq> S"
  shows "keeps (files_in S) m (run_init N P admin listen keyPath m)"
proof -
  let ?I = "(n_init N)\<lparr>i_cli := (i_cli (n_init N))\<lparr>c_ReadFile := (\<lambda>p. case mc_fs m p of Some f \<Rightarrow> Inr (file_data f)
            | None \<Rightarrow> Inl (Err (''open '' @ p @ '': no such file or directory'')))\<rparr>\<rparr>"
  let ?a = "[''--admin'', admin, ''--authorized-key'', keyPath, ''--data-dir'', p_dataDir P, ''--listen'', listen]"
  obtain out r fs' st where c: "initCommand ?I (mc_fs m) (p_config P) ?a = (out, r, fs', st)" using prod_cases4 by blast
  have "opens_only ?I" using assms(1) by simp
  from initCommand_files[OF this install_init_flags c]
  have "changes_only (set (created_files (p_config P) (ForDataDir (p_dataDir P)))) (mc_fs m) fs'"
    by (simp add: string_flag_def)
  then have "changes_only S (mc_fs m) fs'" using assms(2) by (rule changes_only_mono)
  then show ?thesis using c by (cases r) (auto simp: keeps_def run_init_def Let_def files_in_def)
qed

definition installed_files :: "install_paths \<Rightarrow> string set" where
  "installed_files P = set (created_files (p_config P) (ForDataDir (p_dataDir P)))
     \<union> {p_binary P, p_unit P, p_dataDir P, filepath_Dir (p_config P)}"

lemma installed_files_simps [simp]:
  "p_binary P \<in> installed_files P" "p_unit P \<in> installed_files P" "p_dataDir P \<in> installed_files P"
  "filepath_Dir (p_config P) \<in> installed_files P" "p_config P \<in> installed_files P"
  "set (created_files (p_config P) (ForDataDir (p_dataDir P))) \<subseteq> installed_files P"
  by (auto simp: installed_files_def created_files_def)

lemma ensureServiceUser_files: "keeps (files_in S) m (ensureServiceUser N m)"
  by (auto simp: ensureServiceUser_def keeps_def sys_def files_in_def split: lookup.split option.split)

lemma installCurrentExecutable_files:
  assumes "dst \<in> S"
  shows "keeps (files_in S) m (installCurrentExecutable N dst m)"
  using assms
  by (auto simp: installCurrentExecutable_def chmod_path_def intro!: sys_files place_file_files split: sum.split option.split)
    (auto simp: keeps_def)

lemma install_steps_files:
  assumes "opens_only (n_init N)"
  shows "keeps (files_in (installed_files P)) m (install_steps N P admin listen key start m)"
proof -
  have o: "\<Union> (chmod_path ` set (owners P uid gid)) \<subseteq> installed_files P" for uid gid
    by (auto simp: owners_def chmod_path_def)
  have d: "\<Union> (chmod_path ` set (directories P uid gid)) \<subseteq> installed_files P" for uid gid
    by (auto simp: directories_def chmod_path_def)
  have e: "\<Union> (chmod_path ` set (enable_service start)) \<subseteq> installed_files P"
    by (auto simp: enable_service_def chmod_path_def)
  show ?thesis
    unfolding install_steps_def atomicWrite_def
    by (intro changed_files.keeps_then ensureServiceUser_files)
      (auto intro!: changed_files.keeps_then changed_files.keeps_same sys_all_files o d e installCurrentExecutable_files with_key_file_files
        run_init_files[OF assms installed_files_simps(6)] place_file_files split: sum.split)
qed

lemma performInstall_files:
  assumes "opens_only (n_init N)"
  shows "keeps (files_in (installed_files P)) m (performInstall N P admin listen key start m)"
  by (auto simp: performInstall_def changed_files.keeps_same intro!: changed_files.keeps_then install_steps_files[OF assms] split: sum.split)

section \<open>The order of the steps\<close>

definition no_systemctl :: "sys_call list \<Rightarrow> bool" where
  "no_systemctl log \<longleftrightarrow> (\<forall>as. SysRun ''systemctl'' as \<notin> set log)"

lemma no_systemctl_simps [simp]: "no_systemctl []" "no_systemctl (xs @ ys) \<longleftrightarrow> no_systemctl xs \<and> no_systemctl ys"
  by (auto simp: no_systemctl_def)

text \<open>Steps other than the last log no call of \<open>systemctl\<close>.\<close>

definition quiet_step :: "machine \<Rightarrow> machine \<Rightarrow> bool" where
  "quiet_step m m' \<longleftrightarrow> (no_systemctl (mc_log m) \<longrightarrow> no_systemctl (mc_log m'))"

interpretation unlogged: step_relation quiet_step
  by unfold_locales (auto simp: quiet_step_def)

lemma sys_quiet: "no_systemctl [c] \<Longrightarrow> keeps quiet_step m (sys N c m)"
  by (auto simp: keeps_def sys_def quiet_step_def split: option.split)

lemma sys_all_log:
  "sys_all N cs m = (r, m') \<Longrightarrow> mc_store m' = mc_store m \<and> (\<exists>k. mc_log m' = mc_log m @ take k cs)
     \<and> (r = Inr () \<longrightarrow> mc_log m' = mc_log m @ cs)"
proof (induction cs arbitrary: m)
  case (Cons c cs)
  from Cons.prems show ?case
  proof (simp, elim and_thenD)
    fix e assume "sys N c m = (Inl e, m')" "r = Inl e"
    then show ?thesis by (auto simp: sys_def intro: exI[of _ 0] split: option.splits)
  next
    fix y m1 assume s: "sys N c m = (Inr y, m1)" and r: "sys_all N cs m1 = (r, m')"
    then have "mc_log m1 = mc_log m @ [c]" "mc_store m1 = mc_store m" by (auto simp: sys_def split: option.splits)
    moreover obtain k where "mc_log m' = mc_log m1 @ take k cs" using Cons.IH[OF r] by blast
    ultimately show ?thesis using Cons.IH[OF r] by (auto intro: exI[of _ "Suc k"])
  qed
qed simp

lemma sys_all_quiet: "sys_all N cs m = (r, m') \<Longrightarrow> no_systemctl cs \<Longrightarrow> quiet_step m m'"
proof -
  assume r: "sys_all N cs m = (r, m')" and n: "no_systemctl cs"
  have "keeps quiet_step m (sys_all N cs m)"
    by (rule unlogged.keeps_calls, rule sys_quiet) (use n in \<open>auto simp: no_systemctl_def\<close>)
  then show ?thesis by (simp add: keeps_def r)
qed

lemma place_file_frame:
  "place_file N dst b mode m = (r, m') \<Longrightarrow> mc_log m' = mc_log m \<and> mc_store m' = mc_store m"
  by (auto simp: place_file_def Let_def split: fault.splits sum.splits option.splits)

lemma atomicWrite_placed:
  assumes "names_ok N P" "atomicWrite N (p_unit P) b mode m = (Inr x, m')"
  shows "\<exists>f. mc_fs m' (p_unit P) = Some f \<and> file_data f = b"
  using assms by (auto simp: atomicWrite_def place_file_def names_ok_def Let_def dest!: CreateTemp_free split: fault.splits sum.splits option.splits)

lemma installCurrentExecutable_quiet: "installCurrentExecutable N dst m = (r, m') \<Longrightarrow> quiet_step m m'"
  by (auto simp: installCurrentExecutable_def sys_def quiet_step_def no_systemctl_def dest!: place_file_frame
      split: sum.splits option.splits if_splits)

lemma ensureServiceUser_quiet: "ensureServiceUser N m = (r, m') \<Longrightarrow> quiet_step m m'"
  by (auto simp: ensureServiceUser_def sys_def quiet_step_def no_systemctl_def split: lookup.splits option.splits)

lemma owners_quiet: "no_systemctl (owners P uid gid)" "no_systemctl (directories P uid gid)"
  by (simp_all add: no_systemctl_def owners_def directories_def)

lemma service_ids_not_root: "service_ids N m = Inr (uid, gid) \<Longrightarrow> uid \<noteq> 0"
  by (auto simp: service_ids_def split: lookup.splits option.splits if_splits)

text \<open>An initialisation that succeeds hands over a store with an administrator.\<close>

lemma initCommand_ok:
  assumes "opens_only I" "initCommand I fs configPath args = (out, Inr x, fs', st)"
  shows "\<exists>s. st = Some s \<and> store_ok s \<and> usable_admin s"
  using initCommand_cases[OF assms(2)]
proof (elim disjE exE conjE)
  fix flags rest cfg k canonical fp y fs1
  assume c: "create_all I fs configPath cfg (string_flag flags ''admin'') fp canonical = (y, fs1)"
    and r: "case y of Inl e \<Rightarrow> (Inr x :: unit res) = Inl e \<and> fs' = remove_all (created_files configPath cfg) fs1 \<and> st = None
        | Inr s \<Rightarrow> (Inr x :: unit res) = Inr () \<and> fs' = fs1 \<and> st = Some s"
  show ?thesis using r create_all_cases[OF assms(1) c] by (auto split: sum.splits dest!: bootstrap_ok)
qed simp

lemma run_init_ok:
  assumes "opens_only (n_init N)" "run_init N P admin listen k m = (r, m')"
  shows "mc_log m' = mc_log m \<and> (\<forall>out. r = Inr out \<longrightarrow> (\<exists>s. mc_store m' = Some s \<and> store_ok s \<and> usable_admin s))"
proof -
  let ?I = "(n_init N)\<lparr>i_cli := (i_cli (n_init N))\<lparr>c_ReadFile := (\<lambda>p. case mc_fs m p of Some f \<Rightarrow> Inr (file_data f)
            | None \<Rightarrow> Inl (Err (''open '' @ p @ '': no such file or directory'')))\<rparr>\<rparr>"
  let ?a = "[''--admin'', admin, ''--authorized-key'', k, ''--data-dir'', p_dataDir P, ''--listen'', listen]"
  obtain out x fs' st where c: "initCommand ?I (mc_fs m) (p_config P) ?a = (out, x, fs', st)" using prod_cases4 by blast
  have "opens_only ?I" using assms(1) by simp
  then show ?thesis using c initCommand_ok[of ?I "mc_fs m" "p_config P" ?a out _ fs' st] assms(2)
    by (cases x) (auto simp: run_init_def Let_def)
qed

text \<open>A text that has a line.\<close>

definition has_line :: "string \<Rightarrow> string \<Rightarrow> bool" where
  "has_line text l \<longleftrightarrow> (\<exists>a b. text = a @ l @ [chr 10] @ b \<and> (a = [] \<or> last a = chr 10))"

lemma has_line_concat: "l \<in> set ls \<Longrightarrow> has_line (concat (map (\<lambda>l. l @ [chr 10]) ls)) l"
proof -
  assume "l \<in> set ls"
  then obtain xs ys where ls: "ls = xs @ l # ys" by (meson split_list)
  have "concat (map (\<lambda>l. l @ [chr 10]) xs) = [] \<or> last (concat (map (\<lambda>l. l @ [chr 10]) xs)) = chr 10"
    by (cases xs rule: rev_cases) simp_all
  then show ?thesis unfolding has_line_def ls
    by (intro exI[of _ "concat (map (\<lambda>l. l @ [chr 10]) xs)"] exI[of _ "concat (map (\<lambda>l. l @ [chr 10]) ys)"]) simp
qed

text \<open>
  What the service needs when the service manager has been called, file by file: the data directory, the database, the master key
  and the host key were given to the service's account; the configuration is the superuser's, readable by the service's group
  alone; the unit runs the binary on that configuration as the user \<open>sshgatew\<close>, without new privileges, and may write the data
  directory only.
\<close>

definition handed_over :: "install_paths \<Rightarrow> int \<Rightarrow> int \<Rightarrow> sys_call set" where
  "handed_over P uid gid =
     {SysChown (p_dataDir P) uid gid,
      SysChown (filepath_Join (p_dataDir P) ''sshgatew.db'') uid gid,
      SysChown (filepath_Join (p_dataDir P) ''master.key'') uid gid,
      SysChown (filepath_Join (p_dataDir P) ''ssh_host_ed25519_key'') uid gid,
      SysChown (p_config P) 0 gid, SysChmod (p_config P) 416}"

definition service_lines :: "install_paths \<Rightarrow> string set" where
  "service_lines P =
     {''User=sshgatew'', ''ExecStart='' @ p_binary P @ '' --config '' @ p_config P @ '' serve'', ''NoNewPrivileges=true'',
      ''ProtectSystem=strict'', ''ReadWritePaths='' @ p_dataDir P}"

definition ready :: "install_paths \<Rightarrow> int \<Rightarrow> int \<Rightarrow> machine \<Rightarrow> bool" where
  "ready P uid gid m \<longleftrightarrow> (\<exists>s f. mc_store m = Some s \<and> store_ok s \<and> usable_admin s
     \<and> handed_over P uid gid \<subseteq> set (mc_log m)
     \<and> mc_fs m (p_unit P) = Some f \<and> (\<forall>l\<in>service_lines P. has_line (file_data f) l))"

lemma handed_over_owners: "handed_over P uid gid \<subseteq> set (owners P uid gid)"
  by (simp add: handed_over_def owners_def)

lemma service_unit: "\<forall>l\<in>service_lines P. has_line (systemdUnit (p_binary P) (p_config P) (p_dataDir P)) l"
  unfolding systemdUnit_def service_lines_def by (intro ballI has_line_concat) auto

definition finish_install :: "install_env \<Rightarrow> install_paths \<Rightarrow> bool \<Rightarrow> int \<Rightarrow> int \<Rightarrow> printed list \<Rightarrow> printed list step" where
  "finish_install N P start uid gid out m =
     and_then (sys_all N (owners P uid gid) m) (\<lambda>_ m.
     and_then (atomicWrite N (p_unit P) (systemdUnit (p_binary P) (p_config P) (p_dataDir P)) 420 m) (\<lambda>_ m.
     and_then (sys_all N (enable_service start) m) (\<lambda>_ m. (Inr out, m))))"

lemma finish_install_ready:
  assumes "names_ok N P" "finish_install N P start uid gid out m = (r, m')" "no_systemctl (mc_log m)"
    "\<not> no_systemctl (mc_log m')" "mc_store m = Some s" "store_ok s" "usable_admin s"
  shows "ready P uid gid m'"
  using assms(2) unfolding finish_install_def
proof (elim and_thenD)
  fix y1 m1 y2 m2
  assume a: "sys_all N (owners P uid gid) m = (Inr y1, m1)"
    and w: "atomicWrite N (p_unit P) (systemdUnit (p_binary P) (p_config P) (p_dataDir P)) 420 m1 = (Inr y2, m2)"
  have m1: "set (owners P uid gid) \<subseteq> set (mc_log m1)" "mc_store m1 = Some s"
    using sys_all_log[OF a] assms(5) by auto
  have m2: "mc_log m2 = mc_log m1" "mc_store m2 = Some s" using place_file_frame[OF w[unfolded atomicWrite_def]] m1 by auto
  obtain f where f: "mc_fs m2 (p_unit P) = Some f" "file_data f = systemdUnit (p_binary P) (p_config P) (p_dataDir P)"
    using atomicWrite_placed[OF assms(1) w] by blast
  have fin: "ready P uid gid m'" if e: "sys_all N (enable_service start) m2 = (x, m')" for x
  proof -
    have "files_in {} m2 m'"
      using sys_all_files[of "enable_service start" "{}" m2 N] e by (auto simp: keeps_def enable_service_def chmod_path_def)
    then have "mc_fs m' = mc_fs m2" by (auto simp: files_in_def changes_only_def)
    then show ?thesis using sys_all_log[OF e] m1 m2 f assms(6,7) using handed_over_owners service_unit by (fastforce simp: ready_def)
  qed
  {
    fix e assume "sys_all N (enable_service start) m2 = (Inl e, m')"
    then show ?thesis by (rule fin)
  next
    fix y m3 assume "sys_all N (enable_service start) m2 = (Inr y, m3)" "(Inr out, m3) = (r, m')"
    then show ?thesis using fin by simp
  }
next
  fix e assume "sys_all N (owners P uid gid) m = (Inl e, m')"
  then show ?thesis using sys_all_quiet[OF _ owners_quiet(1)] assms(3,4) by (auto simp: quiet_step_def)
next
  fix y m1 e
  assume a: "sys_all N (owners P uid gid) m = (Inr y, m1)"
    and w: "atomicWrite N (p_unit P) (systemdUnit (p_binary P) (p_config P) (p_dataDir P)) 420 m1 = (Inl e, m')"
  have "no_systemctl (mc_log m')"
    using sys_all_quiet[OF a owners_quiet(1)] place_file_frame[OF w[unfolded atomicWrite_def]] assms(3) by (simp add: quiet_step_def)
  then show ?thesis using assms(4) by simp
qed

lemma with_key_file_ready:
  assumes "names_ok N P" "with_key_file N key body m = (r, m')" "no_systemctl (mc_log m)" "\<not> no_systemctl (mc_log m')"
    "\<And>k m1 r1 m2. body k m1 = (r1, m2) \<Longrightarrow> no_systemctl (mc_log m1) \<Longrightarrow> \<not> no_systemctl (mc_log m2) \<Longrightarrow> ready P uid gid m2"
  shows "ready P uid gid m'"
proof (cases "CreateTemp N (mc_fs m) (n_tempdir N) ''sshgatew-admin-key-*.pub''")
  case (Inr k)
  have ne: "p_unit P \<noteq> k" using assms(1) CreateTemp_free[OF Inr] by (auto simp: names_ok_def)
  let ?m = "m\<lparr>mc_fs := (mc_fs m)(k \<mapsto> \<lparr>file_regular = True, file_perm = 384, file_data = key\<rparr>)\<rparr>"
  obtain r1 m2 where b: "body k ?m = (r1, m2)" by fastforce
  have "m' = m2\<lparr>mc_fs := (mc_fs m2)(k := None)\<rparr>"
    using assms(2-4) b Inr by (auto simp: with_key_file_def split: fault.splits)
  moreover have "ready P uid gid m2" using assms(5)[OF b] assms(3,4) calculation by simp
  ultimately show ?thesis using ne by (simp add: ready_def)
qed (use assms(2-4) in \<open>auto simp: with_key_file_def split: fault.splits\<close>)

lemma install_steps_ready:
  assumes "names_ok N P" "opens_only (n_init N)" "install_steps N P admin listen key start m = (r, m')"
    "no_systemctl (mc_log m)" "\<not> no_systemctl (mc_log m')"
  shows "\<exists>uid gid. uid \<noteq> 0 \<and> ready P uid gid m'"
  using assms(3) unfolding install_steps_def
proof (elim and_thenD)
  fix e assume "ensureServiceUser N m = (Inl e, m')"
  then show ?thesis using ensureServiceUser_quiet assms(4,5) by (auto simp: quiet_step_def)
next
  fix y m1
  assume u: "ensureServiceUser N m = (Inr y, m1)"
    and rest: "(case service_ids N m1 of Inl e \<Rightarrow> (Inl e, m1)
       | Inr (uid, gid) \<Rightarrow>
           and_then (sys_all N (directories P uid gid) m1) (\<lambda>_ m.
           and_then (installCurrentExecutable N (p_binary P) m) (\<lambda>_.
           with_key_file N key (\<lambda>keyPath m.
             and_then (run_init N P admin listen keyPath m) (\<lambda>out m.
             and_then (sys_all N (owners P uid gid) m) (\<lambda>_ m.
             and_then (atomicWrite N (p_unit P) (systemdUnit (p_binary P) (p_config P) (p_dataDir P)) 420 m) (\<lambda>_ m.
             and_then (sys_all N (enable_service start) m) (\<lambda>_ m. (Inr out, m))))))))) = (r, m')"
  have q1: "no_systemctl (mc_log m1)" using ensureServiceUser_quiet[OF u] assms(4) by (simp add: quiet_step_def)
  show ?thesis
  proof (cases "service_ids N m1")
    case (Inr ids)
    obtain uid gid where ids: "ids = (uid, gid)" by (cases ids)
    have root: "uid \<noteq> 0" using service_ids_not_root Inr ids by blast
    have body: "ready P uid gid m3" if "and_then (run_init N P admin listen k m2) (finish_install N P start uid gid) = (x, m3)"
      "no_systemctl (mc_log m2)" "\<not> no_systemctl (mc_log m3)" for k m2 x m3
      using that(1)
    proof (elim and_thenD)
      fix e assume "run_init N P admin listen k m2 = (Inl e, m3)"
      then show ?thesis using run_init_ok[OF assms(2)] that(2,3) by force
    next
      fix out m4 assume i: "run_init N P admin listen k m2 = (Inr out, m4)" and f: "finish_install N P start uid gid out m4 = (x, m3)"
      show ?thesis using run_init_ok[OF assms(2) i] finish_install_ready[OF assms(1) f] that(2,3) by auto
    qed
    from rest have "and_then (sys_all N (directories P uid gid) m1) (\<lambda>_ m. and_then (installCurrentExecutable N (p_binary P) m) (\<lambda>_.
        with_key_file N key (\<lambda>k m. and_then (run_init N P admin listen k m) (finish_install N P start uid gid)))) = (r, m')"
      by (simp add: Inr ids finish_install_def[abs_def])
    then have "ready P uid gid m'"
    proof (elim and_thenD)
      fix e assume "sys_all N (directories P uid gid) m1 = (Inl e, m')"
      then show ?thesis using sys_all_quiet[OF _ owners_quiet(2)] q1 assms(5) by (auto simp: quiet_step_def)
    next
      fix y m2 e assume d: "sys_all N (directories P uid gid) m1 = (Inr y, m2)"
        and x: "installCurrentExecutable N (p_binary P) m2 = (Inl e, m')"
      show ?thesis using sys_all_quiet[OF d owners_quiet(2)] installCurrentExecutable_quiet[OF x] q1 assms(5)
        by (auto simp: quiet_step_def)
    next
      fix y m2 z m3 assume d: "sys_all N (directories P uid gid) m1 = (Inr y, m2)"
        and x: "installCurrentExecutable N (p_binary P) m2 = (Inr z, m3)"
        and k: "with_key_file N key (\<lambda>k m. and_then (run_init N P admin listen k m) (finish_install N P start uid gid)) m3 = (r, m')"
      have "no_systemctl (mc_log m3)"
        using sys_all_quiet[OF d owners_quiet(2)] installCurrentExecutable_quiet[OF x] q1 by (auto simp: quiet_step_def)
      then show ?thesis using with_key_file_ready[OF assms(1) k] body assms(5) by blast
    qed
    with root show ?thesis by blast
  qed (use rest q1 assms(5) in auto)
qed

section \<open>Properties\<close>

text \<open>
  C35: An installation changes no file but the configuration, the keys, the database with its side files, the binary and the unit, and
  leaves no temporary file behind, however it ends; it changes nothing at all unless it runs as the superuser, for a valid user
  name, where neither the configuration nor the database exists.
\<close>

theorem install_touches:
  assumes "opens_only (n_init N)" "performInstall N P admin listen key start m = (r, m')"
  shows "changes_only (installed_files P) (mc_fs m) (mc_fs m')
    \<and> (m' \<noteq> m \<longrightarrow> n_euid N = 0 \<and> ValidateUsername admin = Inr () \<and> mc_fs m (p_config P) = None
         \<and> mc_fs m (DatabasePath (ForDataDir (p_dataDir P))) = None)"
proof -
  have "changes_only (installed_files P) (mc_fs m) (mc_fs m')"
    using performInstall_files[OF assms(1), of P m admin listen key start] assms(2) by (simp add: keeps_def files_in_def)
  moreover have "n_euid N = 0 \<and> ValidateUsername admin = Inr () \<and> not_initialized (i_stat (n_init N)) (mc_fs m)
      [p_config P, filepath_Join (p_dataDir P) ''sshgatew.db''] = Inr ()" if "m' \<noteq> m"
    using assms(2) that by (simp add: performInstall_def split: if_splits sum.splits del: not_initialized.simps)
  ultimately show ?thesis by (auto simp: ForDataDir_def split: option.splits if_splits)
qed


section \<open>Witnesses\<close>

definition sample_install :: install_env where
  "sample_install = \<lparr>n_init = sample_init NoFault, n_euid = 0, n_executable = Inr ''/tmp/sshgatew'',
     n_lookup = (\<lambda>_ _. Account ''998'' ''998''), n_fails = (\<lambda>_ _. None), n_same = (=), n_tempdir = ''/tmp/'',
     n_names = (\<lambda>d pat. [d @ pat @ ''1'']), n_temp_fault = (\<lambda>_. NoFault), n_rename = (\<lambda>_. None), n_comment = (\<lambda>_. []),
     n_input = [], n_input_error = None\<rparr>"

definition sample_install_paths :: install_paths where
  "sample_install_paths = \<lparr>p_config = ''/etc/c.toml'', p_dataDir = ''/data'', p_binary = ''/b'', p_unit = ''/u''\<rparr>"

definition sample_machine :: machine where
  "sample_machine = \<lparr>mc_fs = [''/tmp/sshgatew'' \<mapsto> \<lparr>file_regular = True, file_perm = 493, file_data = ''elf''\<rparr>], mc_log = [], mc_store = None\<rparr>"

lemma sample_unit_name: "''/u'' = d @ pat @ ''1'' \<Longrightarrow> False"
  by (drule arg_cong[of _ _ last]) simp

lemma sample_names: "names_ok sample_install sample_install_paths" "opens_only (n_init sample_install)"
  by (auto simp: names_ok_def sample_install_def sample_install_paths_def sample_opens dest: sample_unit_name)

lemma sample_config_parts: "ForDataDir ''/data'' = sample_config\<lparr>ListenAddress := ListenAddress (ForDataDir ''/data'')\<rparr>"
  by (simp add: sample_config_def)

lemma open_new_cli [simp]: "open_new (I\<lparr>i_cli := E\<rparr>) = open_new I"
  by (simp add: fun_eq_iff open_new_def)

text \<open>Where nothing of it exists yet, \<open>init\<close> succeeds in any such directory tree.\<close>

lemma sample_init_anywhere:
  assumes "\<forall>p\<in>{''/etc/c.toml'', ''/data/sshgatew.db'', ''/data/master.key'', ''/data/ssh_host_ed25519_key''}. fs p = None"
    "fs k = Some f" "file_data f = ''pinned''" "k \<noteq> []"
  defines "E \<equiv> sample_cli\<lparr>c_ReadFile := (\<lambda>p. case fs p of Some f \<Rightarrow> Inr (file_data f)
            | None \<Rightarrow> Inl (Err (''open '' @ p @ '': no such file or directory'')))\<rparr>"
  shows "\<exists>out fs' s. initCommand ((sample_init NoFault)\<lparr>i_cli := E\<rparr>) fs ''/etc/c.toml''
     [''--admin'', ''root'', ''--authorized-key'', k, ''--data-dir'', ''/data'', ''--listen'', ''0.0.0.0:2222''] = (out, Inr (), fs', Some s)"
proof -
  let ?I = "(sample_init NoFault)\<lparr>i_cli := E\<rparr>"
  have key: "readPublicKey E k = Inr (\<lparr>key_Type = ''ssh-ed25519'', key_Marshal = ''pinned''\<rparr>, ''pinned'', ''SHA256:pinned'')"
  proof -
    have "TrimSpace ''pinned'' = ''pinned''" by code_simp
    then show ?thesis using assms(2,3) by (simp add: readPublicKey_def E_def sample_cli_def sample_lib_def)
  qed
  have "\<exists>fs'. create_files ?I fs ''/etc/c.toml'' sample_config = (Inr (), fs')"
    using sample_config_ok assms(1)
    by (simp add: create_files_def sample_init_def Generate_def generateHostKey_def Write_def sample_paths)
  then obtain fs1 where f: "create_files ?I fs ''/etc/c.toml'' sample_config = (Inr (), fs1)" by blast
  have "fs1 ''/data/sshgatew.db'' = None"
    using create_files_cases[OF f] assms(1) by (auto simp: changes_only_def sample_paths)
  then obtain fs' where o: "open_new (sample_init NoFault) fs1 ''/data/sshgatew.db'' = (Inr (empty_db sample_now), fs')"
    using sample_opened by blast
  obtain s where s: "bootstrap (empty_db sample_now) ''root'' ''SHA256:pinned'' ''pinned'' = (Inr (), s)"
    using sample_bootstrap by (metis prod.collapse)
  have c: "create_all ?I fs ''/etc/c.toml'' sample_config ''root'' ''SHA256:pinned'' ''pinned'' = (Inr s, fs')"
    by (simp add: create_all_def f sample_paths o s)
  have i: "i_cli ?I = E" "i_parse ?I = (\<lambda>_. None)" "i_stat ?I = (\<lambda>_. None)" by (simp_all add: sample_init_def)
  show ?thesis
    unfolding initCommand_def install_init_flags sum.case prod.case Let_def i
    using assms(1,4) c
    by (simp add: string_flag_def sample_user_ok key sample_config_ok sample_paths flip: sample_config_def)
qed

lemma sample_sys_all:
  "\<exists>fs1. sys_all sample_install cs m = (Inr (), m\<lparr>mc_log := mc_log m @ cs, mc_fs := fs1\<rparr>) \<and> (\<forall>p. fs1 p = None \<longleftrightarrow> mc_fs m p = None)"
proof (induction cs arbitrary: m)
  case Nil
  then show ?case by (auto intro: exI[of _ "mc_fs m"])
next
  case (Cons c cs)
  obtain fs0 where s: "sys sample_install c m = (Inr (), m\<lparr>mc_log := mc_log m @ [c], mc_fs := fs0\<rparr>)" "\<forall>p. fs0 p = None \<longleftrightarrow> mc_fs m p = None"
    by (auto simp: sys_def sample_install_def set_perm_def split: sys_call.split option.split)
  then show ?case using Cons.IH[of "m\<lparr>mc_log := mc_log m @ [c], mc_fs := fs0\<rparr>"] by (auto simp: and_then_def)
qed

lemma sample_temp: "fs (d @ pat @ ''1'') = None \<Longrightarrow> CreateTemp sample_install fs d pat = Inr (d @ pat @ ''1'')"
  by (simp add: CreateTemp_def sample_install_def)

lemma sample_place:
  assumes "mc_fs m (filepath_Dir dst @ ''.sshgatew-install-*1'') = None"
  shows "place_file sample_install dst (Inr b) mode m = (Inr (), m\<lparr>mc_fs := (mc_fs m)(dst := Some \<lparr>file_regular = True, file_perm = mode,
     file_data = b\<rparr>, filepath_Dir dst @ ''.sshgatew-install-*1'' := None)\<rparr>)"
  using sample_temp[of "mc_fs m" "filepath_Dir dst" "''.sshgatew-install-*''"] assms
  by (simp add: place_file_def Let_def) (simp add: sample_install_def)

lemma sample_dirs: "filepath_Dir ''/u'' = ''/''" "filepath_Dir ''/b'' = ''/''" "filepath_Dir ''/etc/c.toml'' = ''/etc''"
  by code_simp+

lemma sample_exec:
  assumes "mc_fs m ''/tmp/sshgatew'' \<noteq> None" "mc_fs m ''/b'' = None" "mc_fs m ''/.sshgatew-install-*1'' = None"
  shows "\<exists>f. installCurrentExecutable sample_install ''/b'' m
    = (Inr (), m\<lparr>mc_fs := (mc_fs m)(''/b'' := Some f, ''/.sshgatew-install-*1'' := None)\<rparr>)"
proof -
  obtain g where g: "mc_fs m ''/tmp/sshgatew'' = Some g" using assms(1) by auto
  have "n_executable sample_install = Inr ''/tmp/sshgatew''" by (simp add: sample_install_def)
  then show ?thesis using sample_place[of m "''/b''" "file_data g" 493] assms(2,3) g
    by (simp add: installCurrentExecutable_def sample_dirs) (rule exI, rule refl)
qed

lemma sample_finish:
  assumes "mc_fs m ''/.sshgatew-install-*1'' = None"
  shows "\<exists>r m'. finish_install sample_install sample_install_paths False 998 998 out m = (r, m')
     \<and> SysRun ''systemctl'' [''daemon-reload''] \<in> set (mc_log m')"
proof -
  obtain fs1 where a: "sys_all sample_install (owners sample_install_paths 998 998) m
      = (Inr (), m\<lparr>mc_log := mc_log m @ owners sample_install_paths 998 998, mc_fs := fs1\<rparr>)"
      and n: "\<forall>p. fs1 p = None \<longleftrightarrow> mc_fs m p = None" using sample_sys_all by blast
  let ?m1 = "m\<lparr>mc_log := mc_log m @ owners sample_install_paths 998 998, mc_fs := fs1\<rparr>"
  obtain m2 where w: "atomicWrite sample_install (p_unit sample_install_paths) (systemdUnit (p_binary sample_install_paths)
      (p_config sample_install_paths) (p_dataDir sample_install_paths)) 420 ?m1 = (Inr (), m2)"
    using sample_place[of ?m1 "''/u''"] assms n by (simp add: atomicWrite_def sample_install_paths_def sample_dirs)
  obtain fs3 where e: "sys_all sample_install (enable_service False) m2
      = (Inr (), m2\<lparr>mc_log := mc_log m2 @ enable_service False, mc_fs := fs3\<rparr>)" using sample_sys_all by blast
  show ?thesis by (simp add: finish_install_def and_then_def a w e) (simp add: enable_service_def)
qed

lemma install_steps_alt:
  "install_steps N P admin listen key start m =
     and_then (ensureServiceUser N m) (\<lambda>_ m.
       case service_ids N m of
         Inl e \<Rightarrow> (Inl e, m)
       | Inr (uid, gid) \<Rightarrow>
           and_then (sys_all N (directories P uid gid) m) (\<lambda>_ m. and_then (installCurrentExecutable N (p_binary P) m) (\<lambda>_.
             with_key_file N key (\<lambda>k m. and_then (run_init N P admin listen k m) (finish_install N P start uid gid)))))"
  unfolding install_steps_def finish_install_def[abs_def] by (rule refl)

lemma sample_allowed:
  assumes "install_steps sample_install sample_install_paths ''root'' ''0.0.0.0:2222'' ''pinned'' False sample_machine = (r, m')"
  shows "\<exists>r'. performInstall sample_install sample_install_paths ''root'' ''0.0.0.0:2222'' ''pinned'' False sample_machine = (r', m')"
proof -
  have j: "filepath_Join ''/data'' ''sshgatew.db'' = ''/data/sshgatew.db''" by code_simp
  have "\<exists>k. one_key sample_install a b ''pinned'' = Inr k" for a b
  proof -
    have "TrimSpace [] = []" by code_simp
    then show ?thesis by (simp add: one_key_def sample_install_def sample_init_def sample_cli_def sample_lib_def)
  qed
  then obtain k where k: "one_key sample_install ''expected exactly one administrator public key'' ''parse administrator public key'' ''pinned'' = Inr k"
    by blast
  have p: "p_dataDir sample_install_paths = ''/data''" "p_config sample_install_paths = ''/etc/c.toml''" "n_euid sample_install = 0"
    "i_parse (n_init sample_install) = (\<lambda>_. None)" "i_stat (n_init sample_install) = (\<lambda>_. None)"
    by (simp_all add: sample_install_paths_def sample_install_def sample_init_def)
  have "performInstall sample_install sample_install_paths ''root'' ''0.0.0.0:2222'' ''pinned'' False sample_machine
      = and_then (r, m') (\<lambda>out m. (Inr (out @ [row_line [], row_line ''Installation complete.'', row_line ''Service: enabled, not started'',
            row_line (''Connect: ssh -p '' @ connect_port ''0.0.0.0:2222'' @ '' '' @ ''root'' @ ''@<gateway-host>'')]), m))"
    unfolding performInstall_def p assms k sample_user_ok sum.case
    by (simp add: sample_config_ok j sample_machine_def flip: sample_config_def)
  then show ?thesis by (cases r) (auto simp: and_then_def)
qed

lemma sample_run_init:
  assumes "\<forall>p\<in>{''/etc/c.toml'', ''/data/sshgatew.db'', ''/data/master.key'', ''/data/ssh_host_ed25519_key''}. mc_fs m p = None"
    "mc_fs m k = Some f" "file_data f = ''pinned''" "k \<noteq> []"
  shows "\<exists>out fs' s. run_init sample_install sample_install_paths ''root'' ''0.0.0.0:2222'' k m = (Inr out, m\<lparr>mc_fs := fs', mc_store := Some s\<rparr>)"
proof -
  have p: "p_config sample_install_paths = ''/etc/c.toml''" "p_dataDir sample_install_paths = ''/data''"
    "i_cli (sample_init NoFault) = sample_cli" "n_init sample_install = sample_init NoFault"
    by (simp_all add: sample_install_paths_def sample_install_def sample_init_def)
  obtain out fs' s where i: "initCommand ((sample_init NoFault)\<lparr>i_cli := sample_cli\<lparr>c_ReadFile := (\<lambda>p. case mc_fs m p of Some f \<Rightarrow> Inr (file_data f)
            | None \<Rightarrow> Inl (Err (''open '' @ p @ '': no such file or directory'')))\<rparr>\<rparr>) (mc_fs m) ''/etc/c.toml''
     [''--admin'', ''root'', ''--authorized-key'', k, ''--data-dir'', ''/data'', ''--listen'', ''0.0.0.0:2222''] = (out, Inr (), fs', Some s)"
    using sample_init_anywhere[OF assms] by blast
  show ?thesis unfolding run_init_def Let_def p i by (intro exI[of _ out] exI[of _ fs'] exI[of _ s]) simp
qed

lemma sample_installation:
  "\<exists>r m'. performInstall sample_install sample_install_paths ''root'' ''0.0.0.0:2222'' ''pinned'' False sample_machine = (r, m')
     \<and> SysRun ''systemctl'' [''daemon-reload''] \<in> set (mc_log m')"
proof -
  let ?N = sample_install and ?P = sample_install_paths and ?k = "''/tmp/'' @ ''sshgatew-admin-key-*.pub'' @ ''1''"
  have P: "p_config ?P = ''/etc/c.toml''" "p_dataDir ?P = ''/data''" "p_binary ?P = ''/b''" "p_unit ?P = ''/u''"
    by (simp_all add: sample_install_paths_def)
  have u: "ensureServiceUser ?N m = (Inr (), m)" for m by (simp add: ensureServiceUser_def sample_install_def)
  have "atoi ''998'' = Some 998" by code_simp
  then have ids: "service_ids ?N m = Inr (998, 998)" for m by (simp add: service_ids_def sample_install_def)
  obtain fs1 where d: "sys_all ?N (directories ?P 998 998) sample_machine
      = (Inr (), sample_machine\<lparr>mc_log := mc_log sample_machine @ directories ?P 998 998, mc_fs := fs1\<rparr>)" (is "_ = (_, ?m1)")
      and n1: "\<forall>p. fs1 p = None \<longleftrightarrow> mc_fs sample_machine p = None" using sample_sys_all by blast
  have f1: "fs1 ''/tmp/sshgatew'' \<noteq> None" "fs1 ''/b'' = None" "fs1 ''/.sshgatew-install-*1'' = None"
    using n1 by (simp_all add: sample_machine_def)
  obtain f where x: "installCurrentExecutable ?N ''/b'' ?m1
      = (Inr (), ?m1\<lparr>mc_fs := fs1(''/b'' := Some f, ''/.sshgatew-install-*1'' := None)\<rparr>)" (is "_ = (_, ?m2)")
    using sample_exec[of ?m1] f1 by auto
  let ?f = "\<lparr>file_regular = True, file_perm = 384, file_data = ''pinned''\<rparr>"
  let ?m3 = "?m2\<lparr>mc_fs := (mc_fs ?m2)(?k \<mapsto> ?f)\<rparr>"
  have empty: "mc_fs ?m3 p = None" if "p \<notin> {''/tmp/sshgatew'', ''/b'', ?k}" for p
    using that n1 by (auto simp: sample_machine_def)
  obtain out fs4 s where r: "run_init ?N ?P ''root'' ''0.0.0.0:2222'' ?k ?m3 = (Inr out, ?m3\<lparr>mc_fs := fs4, mc_store := Some s\<rparr>)" (is "_ = (_, ?m4)")
    using sample_run_init[of ?m3 ?k ?f] n1 by (auto simp: sample_machine_def)
  have "changes_only (set (created_files ''/etc/c.toml'' (ForDataDir ''/data''))) (mc_fs ?m3) fs4"
    using run_init_files[OF sample_names(2) subset_refl, of ?P ?m3 "''root''" "''0.0.0.0:2222''" ?k] r P
    by (simp add: keeps_def files_in_def)
  moreover have "''/.sshgatew-install-*1'' \<notin> set (created_files ''/etc/c.toml'' (ForDataDir ''/data''))" by code_simp
  ultimately have "fs4 ''/.sshgatew-install-*1'' = None" using empty by (simp add: changes_only_def)
  then obtain r5 m5 where fin: "finish_install ?N ?P False 998 998 out ?m4 = (r5, m5)" "SysRun ''systemctl'' [''daemon-reload''] \<in> set (mc_log m5)"
    using sample_finish[of ?m4 out] by auto
  have "CreateTemp ?N (mc_fs ?m2) ''/tmp/'' ''sshgatew-admin-key-*.pub'' = Inr ?k"
    using sample_temp[of "mc_fs ?m2" "''/tmp/''" "''sshgatew-admin-key-*.pub''"] n1 by (simp add: sample_machine_def)
  moreover have "n_tempdir ?N = ''/tmp/''" "n_temp_fault ?N d = NoFault" for d by (simp_all add: sample_install_def)
  ultimately have k: "with_key_file ?N ''pinned'' (\<lambda>k m. and_then (run_init ?N ?P ''root'' ''0.0.0.0:2222'' k m) (finish_install ?N ?P False 998 998)) ?m2
      = (r5, m5\<lparr>mc_fs := (mc_fs m5)(?k := None)\<rparr>)"
    using r fin(1) unfolding with_key_file_def by (simp add: and_then_def)
  have "install_steps ?N ?P ''root'' ''0.0.0.0:2222'' ''pinned'' False sample_machine = (r5, m5\<lparr>mc_fs := (mc_fs m5)(?k := None)\<rparr>)"
    unfolding install_steps_alt u and_then_Inr prod.case sum.case ids d P x by (rule k)
  then show ?thesis using sample_allowed[of r5 "m5\<lparr>mc_fs := (mc_fs m5)(?k := None)\<rparr>"] fin(2) by fastforce
qed

theorem install_touches_witness:
  "\<exists>r m'. performInstall sample_install sample_install_paths ''root'' ''0.0.0.0:2222'' ''pinned'' False sample_machine = (r, m')
     \<and> mc_fs m' ''/tmp/sshgatew-admin-key-*.pub1'' = None"
proof -
  obtain r m' where i: "performInstall sample_install sample_install_paths ''root'' ''0.0.0.0:2222'' ''pinned'' False sample_machine = (r, m')"
    using sample_installation by blast
  have "''/tmp/sshgatew-admin-key-*.pub1'' \<notin> installed_files sample_install_paths" by code_simp
  then show ?thesis using install_touches[OF sample_names(2) i] i by (auto simp: changes_only_def sample_machine_def)
qed


end
