(* ===== verification/Serve.thy ===== *)
theory Serve
  imports Install_Safety Store_Migrate
begin

text \<open>
  \<open>main\<close>, \<open>run\<close> and \<open>serve\<close> of \<^verbatim>\<open>cmd/sshgatew/main.go\<close>: the program as a whole, on a host with files and databases. Here the
  subcommands, the configuration, the opening and upgrade of the database and the start of the gateway come together.
\<close>

section \<open>Serving\<close>

text \<open>
  The logger's level decides which messages are written, its handler in which format. The text of a line is the business of
  \<open>log/slog\<close>; here it is the message with its attributes.
\<close>

datatype log_level = LevelDebug | LevelInfo | LevelWarn | LevelError

fun severity :: "log_level \<Rightarrow> int" where
  "severity LevelDebug = -4"
| "severity LevelInfo = 0"
| "severity LevelWarn = 4"
| "severity LevelError = 8"

instantiation log_level :: linorder
begin

definition less_eq_log_level :: "log_level \<Rightarrow> log_level \<Rightarrow> bool" where
  "less_eq_log_level a b \<longleftrightarrow> severity a \<le> severity b"

definition less_log_level :: "log_level \<Rightarrow> log_level \<Rightarrow> bool" where
  "less_log_level a b \<longleftrightarrow> severity a < severity b"

instance
proof
  fix a b :: log_level
  show "a \<le> b \<Longrightarrow> b \<le> a \<Longrightarrow> a = b" by (cases a; cases b) (simp_all add: less_eq_log_level_def)
qed (auto simp: less_eq_log_level_def less_log_level_def)

end

datatype log_handler = TextHandler | JSONHandler

record log_line =
  ll_handler :: log_handler
  ll_message :: string
  ll_attributes :: "(string \<times> string) list"

definition log_level :: "string \<Rightarrow> log_level" where
  "log_level s = (if s = ''debug'' then LevelDebug else if s = ''warn'' then LevelWarn else if s = ''error'' then LevelError
     else LevelInfo)"

definition log_handler :: "string \<Rightarrow> log_handler" where
  "log_handler s = (if s = ''text'' then TextHandler else JSONHandler)"

text \<open>\<open>logger.Info\<close>.\<close>

definition log_info :: "Config \<Rightarrow> string \<Rightarrow> (string \<times> string) list \<Rightarrow> log_line list" where
  "log_info cfg msg attrs = (if log_level (LogLevel cfg) \<le> LevelInfo
     then [\<lparr>ll_handler = log_handler (LogFormat cfg), ll_message = msg, ll_attributes = attrs\<rparr>] else [])"

text \<open>
  What happens to the server first: \<open>ListenAndServe\<close> returns, or a signal arrives and \<open>Shutdown\<close> answers. Until then its
  connections run (theories \<open>Gateway\<close> and those on it); they reach the store through its operations only, whose statements come
  in some order (theory \<open>Store_Steps\<close>): a session may check and another write before the first one does. The statements of
  other commands that run on the same database meanwhile are among them.
\<close>

datatype ending = ServerReturns "go_error option" | Interrupted string "go_error option"

record serve_env =
  sv_ssh :: ssh_lib
  sv_fault :: fault
  sv_ops :: "Server \<Rightarrow> store_step list"
  sv_ending :: "Server \<Rightarrow> ending"

record served =
  sd_log :: "log_line list"
  sd_server :: "Server option"
  sd_result :: "unit res"
  sd_store :: db

definition result_of :: "go_error option \<Rightarrow> unit res" where
  "result_of e = (case e of None \<Rightarrow> Inr () | Some e \<Rightarrow> Inl e)"

definition serve :: "serve_env \<Rightarrow> string \<Rightarrow> fs \<Rightarrow> Config \<Rightarrow> db \<Rightarrow> served" where
  "serve V version fs cfg st =
     (case Load (sv_fault V) fs (MasterKeyPath cfg) of
        Inl e \<Rightarrow> \<lparr>sd_log = [], sd_server = None, sd_result = Inl e, sd_store = st\<rparr>
      | Inr cipher \<Rightarrow>
          (case New (sv_ssh V) cfg st cipher fs of
             Inl e \<Rightarrow> \<lparr>sd_log = [], sd_server = None, sd_result = Inl e, sd_store = st\<rparr>
           | Inr srv \<Rightarrow>
               let listening = log_info cfg ''SSHGateW listening'' [(''address'', ListenAddress cfg), (''version'', version)];
                   st' = foldl exec_step st (sv_ops V srv) in
               (case sv_ending V srv of
                  ServerReturns e \<Rightarrow> \<lparr>sd_log = listening, sd_server = Some srv, sd_result = result_of e, sd_store = st'\<rparr>
                | Interrupted sig e \<Rightarrow>
                    \<lparr>sd_log = listening @ log_info cfg ''shutting down'' [(''signal'', sig)], sd_server = Some srv,
                     sd_result = result_of e, sd_store = st'\<rparr>)))"

section \<open>The host\<close>

text \<open>
  Files, the log of system calls, and what the database files hold, by their path. A path that names no file has no database.
\<close>

record host =
  h_fs :: fs
  h_log :: "sys_call list"
  h_disks :: "string \<Rightarrow> disk option"

definition database :: "host \<Rightarrow> string \<Rightarrow> disk option" where
  "database h path = (if path = '':memory:'' \<or> h_fs h path = None then None else h_disks h path)"

text \<open>A database of the current version as a file.\<close>

definition current_disk :: "db \<Rightarrow> disk" where
  "current_disk s = \<lparr>d_versions = [1, 2, 3, 4, 5, 6, 7], d_users = users s, d_keys = gateway_keys s, d_groups = groups_table s,
     d_members = group_members s, d_targets = TargetsV3 (targets s), d_user_grants = CapableGrants (user_target_grants s),
     d_group_grants = CapableGrants (group_target_grants s), d_events = audit_events s, d_identities = Some (ssh_identities s),
     d_totp = Some (user_totp s), d_rules = Some (target_forward_rules s), d_oidc = Some (oidc_identities s)\<rparr>"

definition created :: "string \<Rightarrow> db option \<Rightarrow> (string \<Rightarrow> disk option) \<Rightarrow> string \<Rightarrow> disk option" where
  "created path st disks = (case st of None \<Rightarrow> disks | Some s \<Rightarrow> disks(path \<mapsto> current_disk s))"

section \<open>\<open>run\<close>\<close>

text \<open>
  The rest of the program around the subcommands: the version string, the TOML decoder with the parser of fractions and the
  environment, the faults of opening a database, and serving.
\<close>

record run_env =
  r_install :: install_env
  r_version :: string
  r_decode :: "Config \<Rightarrow> string \<Rightarrow> Config res"
  r_frac :: "string \<Rightarrow> nat \<Rightarrow> nat"
  r_environ :: "string \<Rightarrow> string option"
  r_open :: open_faults
  r_serve :: serve_env

definition usage :: "printed list" where
  "usage = [row_line ''SSHGateW - an authenticated SSH gateway'', row_line [], row_line ''Usage:'',
     row_line ''  sudo ./sshgatew install'', row_line ''  sudo ./sshgatew install --admin USER --authorized-key FILE --yes'',
     row_line ''  sshgatew [--config path] init --admin USER --authorized-key FILE [--data-dir DIR]'',
     row_line ''  sshgatew [--config path] serve'',
     row_line ''  sshgatew [--config path] users|groups|targets|grants|audit ...'', row_line [],
     row_line ''Run a command without enough arguments to see its specific usage.'']"

text \<open>The database that \<open>init\<close> creates.\<close>

definition init_database :: "string list \<Rightarrow> string" where
  "init_database params = (case parse_flags init_flags params of
     Inl _ \<Rightarrow> [] | Inr (flags, _) \<Rightarrow> DatabasePath (ForDataDir (string_flag flags ''data-dir'')))"

record ran =
  ran_out :: "printed list"
  ran_serving :: "served option"
  ran_result :: "unit res"
  ran_host :: host

abbreviation "stops out r h \<equiv> \<lparr>ran_out = out, ran_serving = None, ran_result = r, ran_host = h\<rparr>"

text \<open>The host when a database has been opened, and when it is closed with what it then holds.\<close>

definition opened_host :: "host \<Rightarrow> string \<Rightarrow> stored \<Rightarrow> host" where
  "opened_host h path st = (if path = '':memory:'' then h
     else h\<lparr>h_fs := (h_fs h)(path := fst st), h_disks := (h_disks h)(path := snd st)\<rparr>)"

definition closed_host :: "host \<Rightarrow> string \<Rightarrow> db \<Rightarrow> host" where
  "closed_host h path s = (if path = '':memory:'' then h else h\<lparr>h_disks := (h_disks h)(path \<mapsto> current_disk s)\<rparr>)"

text \<open>With the configuration loaded: the database is opened, and served or administered.\<close>

definition with_store :: "run_env \<Rightarrow> host \<Rightarrow> Config \<Rightarrow> string \<Rightarrow> string list \<Rightarrow> ran" where
  "with_store R h cfg command params =
     (let path = DatabasePath cfg; I = n_init (r_install R) in
      case OpenStore (r_open R) (i_now I) path (h_fs h path, database h path) of
        (Inl e, st) \<Rightarrow> stops [] (Inl (wrap ''open database'' e)) (opened_host h path st)
      | (Inr s, st) \<Rightarrow>
          let h1 = opened_host h path st in
          if command = ''serve'' then
            (let sv = serve (r_serve R) (r_version R) (h_fs h1) cfg s in
             \<lparr>ran_out = [], ran_serving = Some sv, ran_result = sd_result sv, ran_host = closed_host h1 path (sd_store sv)\<rparr>)
          else (case adminCommand ((i_cli I)\<lparr>c_fs := h_fs h1\<rparr>) cfg s command params of
            (out, r, s') \<Rightarrow> stops out r (closed_host h1 path s')))"

definition run :: "run_env \<Rightarrow> string list \<Rightarrow> host \<Rightarrow> ran" where
  "run R args h =
     (let N = r_install R; I = n_init N; E = i_cli I in
      case parse_flags [(''config'', StringFlag ''/etc/sshgatew/config.toml''), (''version'', BoolFlag False)] args of
        Inl e \<Rightarrow> stops [] (Inl (Err (flag_error_text E e))) h
      | Inr (flags, rest) \<Rightarrow>
          let configPath = string_flag flags ''config'' in
          if bool_flag flags ''version'' then stops [row_line (r_version R)] (Inr ()) h
          else (case rest of
             [] \<Rightarrow> stops usage (Inr ()) h
           | command # params \<Rightarrow>
               if command = ''init'' then
                 (case initCommand I (h_fs h) configPath params of
                    (out, r, fs', st) \<Rightarrow> stops out r (h\<lparr>h_fs := fs', h_disks := created (init_database params) st (h_disks h)\<rparr>))
               else if command = ''install'' then
                 (case installCommand N (r_version R) configPath params \<lparr>mc_fs = h_fs h, mc_log = h_log h, mc_store = None\<rparr> of
                    (out, r, m) \<Rightarrow> stops out r \<lparr>h_fs = mc_fs m, h_log = mc_log m,
                      h_disks = created (DatabasePath (ForDataDir (p_dataDir (install_target configPath)))) (mc_store m) (h_disks h)\<rparr>)
               else (case Load_Config (r_decode R) (i_parse I) (r_frac R) (r_environ R) (h_fs h) configPath of
                  Inl e \<Rightarrow> stops [] (Inl e) h
                | Inr cfg \<Rightarrow> with_store R h cfg command params)))"

text \<open>The exit code and what is printed about an error; a panic ends the process with code 2.\<close>

definition main :: "run_env \<Rightarrow> string list \<Rightarrow> host \<Rightarrow> ran \<times> string \<times> nat" where
  "main R args h =
     (let x = run R args h in
      (x, (case ran_result x of
             Inr _ \<Rightarrow> ([], 0)
           | Inl (Panic m) \<Rightarrow> (''panic: '' @ m, 2)
           | Inl e \<Rightarrow> (''error: '' @ err_text e, 1))))"

section \<open>Databases survive\<close>

text \<open>Every database is of a known version, and one has an administrator who can log in.\<close>

definition host_ok :: "host \<Rightarrow> bool" where
  "host_ok h \<longleftrightarrow> (\<forall>p. recognised (h_disks h p))"

definition administered :: "host \<Rightarrow> string \<Rightarrow> bool" where
  "administered h p \<longleftrightarrow> (\<forall>now. usable_admin (contents now (database h p)))"

lemma recognised_None [simp]: "recognised None"
  by (auto simp: recognised_def)

lemma database_recognised [intro]: "host_ok h \<Longrightarrow> recognised (database h p)"
  by (simp add: host_ok_def database_def)

lemma view_current: "view now (current_disk s) = s\<lparr>db_now := now\<rparr>"
  by (simp add: view_def current_disk_def current_targets_def current_grants_def rows_of_def)

lemma current_disk_at: "store_ok s \<Longrightarrow> disk_at 7 (current_disk s)"
  by (simp add: disk_at_def view_current store_ok_now) (simp add: current_disk_def old_kinds_def upt_rec)

lemma current_recognised [simp]: "store_ok s \<Longrightarrow> recognised (Some (current_disk s))"
  using current_disk_at by (auto simp: recognised_def)

lemma usable_now [simp]: "usable_admin (s\<lparr>db_now := now\<rparr>) = usable_admin s"
  by (simp add: usable_admin_def usable_def)

lemma contents_current [simp]: "contents now (Some (current_disk s)) = s\<lparr>db_now := now\<rparr>"
  by (simp add: contents_def view_current)

lemma not_usable_empty [simp]: "\<not> usable_admin (contents now None)"
  by (simp add: contents_def usable_admin_def usable_def empty_db_def)

text \<open>In a run that served, no check of a session became stale before its statement.\<close>

definition fresh_checks :: "serve_env \<Rightarrow> served option \<Rightarrow> bool" where
  "fresh_checks V sv \<longleftrightarrow> (case sv of None \<Rightarrow> True
     | Some sd \<Rightarrow> (case sd_server sd of None \<Rightarrow> True | Some srv \<Rightarrow> checks_hold (srv_store srv) (sv_ops V srv)))"

lemma New_store: "New L cfg st cipher fs = Inr srv \<Longrightarrow> srv_store srv = st"
  by (auto simp: New_def split: option.splits if_splits sum.splits)

lemma serve_good:
  assumes "store_ok s"
  shows "store_ok (sd_store (serve V v fs cfg s))"
    "fresh_checks V (Some (serve V v fs cfg s)) \<Longrightarrow> usable_admin s \<Longrightarrow> usable_admin (sd_store (serve V v fs cfg s))"
proof -
  show "store_ok (sd_store (serve V v fs cfg s))"
    using assms exec_steps_ok by (auto simp: serve_def Let_def split: sum.split ending.split)
  show "usable_admin (sd_store (serve V v fs cfg s))" if "fresh_checks V (Some (serve V v fs cfg s))" "usable_admin s"
    using that assms exec_steps_admin
    by (auto simp: serve_def Let_def fresh_checks_def split: sum.splits ending.splits dest: New_store)
qed

text \<open>
  From one host to another, a relation that steps of the program keep and that composes; \<open>calm\<close> says that no check became stale.
\<close>

definition survives :: "string \<Rightarrow> bool \<Rightarrow> host \<Rightarrow> host \<Rightarrow> bool" where
  "survives p calm h h' \<longleftrightarrow>
     (host_ok h \<longrightarrow> host_ok h' \<and> (calm \<longrightarrow> administered h p \<and> h_fs h' p \<noteq> None \<longrightarrow> administered h' p))"

lemma survives_same [simp]: "survives p calm h h"
  by (simp add: survives_def)

lemma survives_created:
  assumes "\<And>s. st = Some s \<Longrightarrow> store_ok s \<and> usable_admin s"
  shows "survives p calm h \<lparr>h_fs = fs', h_log = log', h_disks = created path st (h_disks h)\<rparr>"
  using assms by (cases st) (auto simp: survives_def host_ok_def created_def administered_def database_def)

lemma initCommand_store:
  assumes "opens_only I" "initCommand I fs configPath args = (out, r, fs', Some s)"
  shows "store_ok s \<and> usable_admin s"
proof (cases r)
  case (Inl e)
  then have False using initCommand_cases[OF assms(2)]
  proof (elim disjE exE conjE)
    fix cfg :: Config and y :: "go_error + db" and fs1 :: fs
    assume "case y of Inl e \<Rightarrow> r = Inl e \<and> fs' = remove_all (created_files configPath cfg) fs1 \<and> Some s = None
      | Inr s' \<Rightarrow> r = Inr () \<and> fs' = fs1 \<and> Some s = Some s'"
    then show False using Inl by (cases y) auto
  qed simp
  then show ?thesis ..
next
  case (Inr x)
  then show ?thesis using initCommand_ok[OF assms(1), of fs configPath args out x fs' "Some s"] assms(2) by simp
qed

text \<open>The installer: the store it leaves is the one it found or one that \<open>init\<close> made.\<close>

definition store_from :: "machine \<Rightarrow> machine \<Rightarrow> bool" where
  "store_from m m' \<longleftrightarrow> mc_store m' = mc_store m \<or> (\<exists>s. mc_store m' = Some s \<and> store_ok s \<and> usable_admin s)"

interpretation made_store: step_relation store_from
  by unfold_locales (auto simp: store_from_def)

lemma sys_store: "keeps store_from m (sys N c m)"
  by (auto simp: keeps_def sys_def store_from_def split: option.split)

lemma sys_all_store: "keeps store_from m (sys_all N cs m)"
  by (rule made_store.keeps_calls) (rule sys_store)

lemma place_file_store: "keeps store_from m (place_file N dst b mode m)"
  using place_file_frame[of N dst b mode m] by (cases "place_file N dst b mode m") (auto simp: keeps_def store_from_def)

lemma with_key_file_store:
  assumes "\<And>k m. keeps store_from m (body k m)"
  shows "keeps store_from m (with_key_file N key body m)"
proof (cases "CreateTemp N (mc_fs m) (n_tempdir N) ''sshgatew-admin-key-*.pub''")
  case (Inr k)
  let ?m = "m\<lparr>mc_fs := (mc_fs m)(k \<mapsto> \<lparr>file_regular = True, file_perm = 384, file_data = key\<rparr>)\<rparr>"
  have "store_from ?m (snd (body k ?m))" using assms[of ?m k] by (simp add: keeps_def)
  then show ?thesis using Inr by (auto simp: keeps_def with_key_file_def store_from_def split: fault.split prod.splits)
qed (auto simp: keeps_def with_key_file_def store_from_def split: fault.split)

lemma run_init_store: "opens_only (n_init N) \<Longrightarrow> keeps store_from m (run_init N P admin listen k m)"
  using run_init_ok[of N P admin listen k m]
  by (cases "run_init N P admin listen k m"; cases "fst (run_init N P admin listen k m)")
    (auto simp: keeps_def store_from_def run_init_def Let_def split: prod.splits sum.splits)

lemma ensureServiceUser_store: "keeps store_from m (ensureServiceUser N m)"
  by (auto simp: ensureServiceUser_def keeps_def sys_def store_from_def split: lookup.split option.split)

lemma installCurrentExecutable_store: "keeps store_from m (installCurrentExecutable N dst m)"
  by (auto simp: installCurrentExecutable_def intro!: sys_store place_file_store split: sum.split option.split)
    (auto simp: keeps_def store_from_def)

lemma performInstall_store:
  assumes "opens_only (n_init N)"
  shows "keeps store_from m (performInstall N P admin listen key start m)"
proof -
  have "keeps store_from m (install_steps N P admin listen key start m)" for m
    unfolding install_steps_def atomicWrite_def
    by (intro made_store.keeps_then ensureServiceUser_store)
      (auto intro!: made_store.keeps_then made_store.keeps_same sys_all_store installCurrentExecutable_store with_key_file_store
        run_init_store[OF assms] place_file_store split: sum.split)
  then show ?thesis
    by (auto simp: performInstall_def made_store.keeps_same intro!: made_store.keeps_then split: sum.split)
qed

lemma installCommand_store:
  assumes "opens_only (n_init N)" "installCommand N v configPath args m = (out, r, m')"
  shows "store_from m m'"
proof -
  have "store_from m (snd (performInstall N P admin listen key start m))" for P admin listen key start
    using performInstall_store[OF assms(1)] by (simp add: keeps_def)
  moreover have "store_from m m" by (simp add: store_from_def)
  ultimately show ?thesis using assms(2)
    by (auto simp: installCommand_def Let_def split: sum.splits prod.splits) (metis snd_conv)+
qed

text \<open>A database that is opened, used and closed.\<close>

lemma contents_now: "(contents t db)\<lparr>db_now := now\<rparr> = contents now db"
  by (simp add: contents_def view_def empty_db_def split: option.split)

lemma survives_disk:
  assumes "host_ok h \<Longrightarrow> recognised disk" "\<And>now. host_ok h \<Longrightarrow> usable_admin (contents now (database h path)) \<Longrightarrow> calm \<Longrightarrow> usable_admin (contents now disk)"
  shows "survives p calm h (opened_host h path (info, disk))"
proof (cases "p = path")
  case True
  then show ?thesis using assms
    by (auto simp: opened_host_def survives_def host_ok_def administered_def) (auto simp: database_def)
next
  case False
  then show ?thesis using assms(1) by (auto simp: opened_host_def survives_def host_ok_def administered_def database_def)
qed

lemma closed_opened: "closed_host (opened_host h path (info, disk)) path s
    = (if path = '':memory:'' then h else opened_host h path (info, Some (current_disk s)))"
  by (simp add: closed_host_def opened_host_def)

lemma with_store_survives:
  "survives p (fresh_checks (r_serve R) (ran_serving (with_store R h cfg command params))) h (ran_host (with_store R h cfg command params))"
proof (cases "host_ok h")
  case True
  let ?I = "n_init (r_install R)" and ?path = "DatabasePath cfg"
  obtain r info disk where o: "OpenStore (r_open R) (i_now ?I) ?path (h_fs h ?path, database h ?path) = (r, (info, disk))"
    by (metis prod.collapse)
  note good = opened_good[OF database_recognised[OF True] o]
  have closed: "survives p calm h (closed_host (opened_host h ?path (info, disk)) ?path s')"
    if "r = Inr s" "store_ok s'" "calm \<longrightarrow> usable_admin s \<longrightarrow> usable_admin s'" for s s' calm
  proof -
    have "usable_admin s" if "usable_admin (contents t (database h ?path))" for t
      using that good \<open>r = Inr s\<close> usable_now[of t "contents (i_now ?I) (database h ?path)"] by (simp add: contents_now)
    then show ?thesis using that unfolding closed_opened by (auto intro!: survives_disk)
  qed
  show ?thesis
  proof (cases r)
    case (Inl e)
    have "survives p calm h (opened_host h ?path (info, disk))" for calm using good by (intro survives_disk) auto
    then show ?thesis using o Inl by (simp add: with_store_def Let_def)
  next
    case (Inr s)
    have ok: "store_ok s" using good Inr by blast
    show ?thesis
    proof (cases "command = ''serve''")
      case True
      then show ?thesis using closed[OF Inr] serve_good[OF ok] o Inr by (simp add: with_store_def Let_def)
    next
      case False
      let ?E = "(i_cli ?I)\<lparr>c_fs := h_fs (opened_host h ?path (info, disk))\<rparr>"
      obtain out x s' where a: "adminCommand ?E cfg s command params = (out, x, s')" using prod_cases3 by blast
      then show ?thesis using closed[OF Inr] adminCommand_good[OF ok a] o Inr False by (simp add: with_store_def Let_def)
    qed
  qed
qed (simp add: survives_def)

lemma run_survives:
  assumes "opens_only (n_init (r_install R))"
  shows "survives p (fresh_checks (r_serve R) (ran_serving (run R args h))) h (ran_host (run R args h))"
proof -
  let ?I = "n_init (r_install R)"
  have init: "survives p calm h (ran_host (case initCommand ?I (h_fs h) c params of
      (out, r, fs', st) \<Rightarrow> stops out r (h\<lparr>h_fs := fs', h_disks := created q st (h_disks h)\<rparr>)))" for c params q calm
  proof -
    obtain out r fs' st where i: "initCommand ?I (h_fs h) c params = (out, r, fs', st)" using prod_cases4 by blast
    then have "store_ok s \<and> usable_admin s" if "st = Some s" for s using initCommand_store[OF assms] that by blast
    from survives_created[OF this, where p = p and calm = calm and h = h and fs' = fs' and log' = "h_log h" and path = q] show ?thesis using i by (cases h) simp
  qed
  have install: "survives p calm h (ran_host (case installCommand (r_install R) v c params \<lparr>mc_fs = h_fs h, mc_log = h_log h, mc_store = None\<rparr> of
      (out, r, m) \<Rightarrow> stops out r \<lparr>h_fs = mc_fs m, h_log = mc_log m, h_disks = created q (mc_store m) (h_disks h)\<rparr>))" for v c params q calm
  proof -
    obtain out r m where i: "installCommand (r_install R) v c params \<lparr>mc_fs = h_fs h, mc_log = h_log h, mc_store = None\<rparr> = (out, r, m)"
      using prod_cases3 by blast
    show ?thesis using survives_created[of "mc_store m" p calm h] installCommand_store[OF assms i] i by (auto simp: store_from_def)
  qed
  show ?thesis
    unfolding run_def Let_def using init install with_store_survives by (simp split: sum.split prod.split list.split)
qed

section \<open>Properties\<close>

text \<open>
  The program run again and again, one run after the other, by whoever and with whatever faults. The flag tells that the database
  file stayed in place and that, while the gateway served, no check became stale before its statement.
\<close>

inductive program_runs :: "string \<Rightarrow> host \<Rightarrow> bool \<Rightarrow> host \<Rightarrow> bool" for p h where
  not_run: "program_runs p h True h"
| run_again: "program_runs p h calm h1 \<Longrightarrow> opens_only (n_init (r_install R)) \<Longrightarrow> h2 = ran_host (run R args h1) \<Longrightarrow>
    program_runs p h (calm \<and> h_fs h2 p \<noteq> None \<and> fresh_checks (r_serve R) (ran_serving (run R args h1))) h2"

text \<open>
  C39: Whatever commands the program is run with, one after the other, its databases stay of a known version with the schema's
  constraints, whatever sessions did while it served and however their statements were interleaved. A database that an
  administrator can use keeps one, through upgrades, administration, serving and failures, as long as its file stays in place
  and no session's check of the last administrator became stale between the check and its statement; two sessions whose checks
  overlap can take the last administrators away.
\<close>

theorem administrators_survive:
  assumes "program_runs p h calm h'" "host_ok h"
  shows "host_ok h' \<and> (calm \<and> administered h p \<longrightarrow> administered h' p)"
  using assms
proof (induction rule: program_runs.induct)
  case (run_again calm h1 R h2 args)
  then show ?case using run_survives[OF run_again.hyps(2), of p args h1] by (auto simp: survives_def)
qed simp

definition private_file :: "fs \<Rightarrow> string \<Rightarrow> bool" where
  "private_file fs p \<longleftrightarrow> (\<exists>f. fs p = Some f \<and> file_regular f \<and> file_perm f AND 63 = 0)"

lemma run_serving:
  assumes "ran_serving (run R args h) = Some sv"
  shows "\<exists>configPath cfg params. Load_Config (r_decode R) (i_parse (n_init (r_install R))) (r_frac R) (r_environ R) (h_fs h) configPath
      = Inr cfg \<and> run R args h = with_store R h cfg ''serve'' params"
proof -
  have "ran_serving (with_store R h cfg command params) = None" if "command \<noteq> ''serve''" for cfg command params
    using that by (simp add: with_store_def Let_def split: prod.split sum.split)
  then show ?thesis using assms
    unfolding run_def Let_def by (auto split: sum.splits prod.splits list.splits if_splits) (metis option.distinct(1))+
qed

lemma with_store_serving:
  assumes "ran_serving (with_store R h cfg ''serve'' params) = Some sv" "DatabasePath cfg = path"
  shows "\<exists>s info disk. OpenStore (r_open R) (i_now (n_init (r_install R))) path (h_fs h path, database h path) = (Inr s, (info, disk))
    \<and> sv = serve (r_serve R) (r_version R) (h_fs (opened_host h path (info, disk))) cfg s
    \<and> h_fs (ran_host (with_store R h cfg ''serve'' params)) = h_fs (opened_host h path (info, disk))"
  using assms by (auto simp: with_store_def Let_def closed_host_def split: prod.splits sum.splits)

lemma serve_server:
  assumes "sd_server (serve V v fs cfg s) = Some srv"
  shows "srv_cfg srv = cfg \<and> srv_store srv = s \<and> srv_total srv = 0 \<and> private_file fs (MasterKeyPath cfg)
    \<and> private_file fs (HostKeyPath cfg) \<and> length (Cipher_key (srv_cipher srv)) = KeySize"
proof -
  obtain cipher where c: "Load (sv_fault V) fs (MasterKeyPath cfg) = Inr cipher" "New (sv_ssh V) cfg s cipher fs = Inr srv"
    using assms by (auto simp: serve_def Let_def split: sum.splits ending.splits)
  have "private_file fs (MasterKeyPath cfg) \<and> length (Cipher_key cipher) = KeySize"
    using c(1) by (auto simp: Load_def private_file_def split: option.splits if_splits fault.splits)
  moreover have "private_file fs (HostKeyPath cfg) \<and> srv_cfg srv = cfg \<and> srv_store srv = s \<and> srv_total srv = 0 \<and> srv_cipher srv = cipher"
    using c(2) by (auto simp: New_def private_file_def split: option.splits if_splits sum.splits)
  ultimately show ?thesis by simp
qed

text \<open>
  C40: The gateway listens only with a valid configuration, with a master key of the right length and a host key that no one else
  can read, and on a database that is private by then and holds the schema's constraints; no session is counted yet.
\<close>

theorem serve_needs_private_files:
  assumes "host_ok h" "ran_serving (run R args h) = Some sv" "sd_server sv = Some srv"
  shows "let cfg = srv_cfg srv; fs = h_fs (ran_host (run R args h)) in
    valid_config (i_parse (n_init (r_install R))) cfg \<and> private_file fs (MasterKeyPath cfg) \<and> private_file fs (HostKeyPath cfg)
    \<and> (DatabasePath cfg \<noteq> '':memory:'' \<longrightarrow> private_file fs (DatabasePath cfg))
    \<and> length (Cipher_key (srv_cipher srv)) = KeySize \<and> store_ok (srv_store srv) \<and> srv_total srv = 0"
proof -
  obtain configPath cfg params where c: "Load_Config (r_decode R) (i_parse (n_init (r_install R))) (r_frac R) (r_environ R) (h_fs h) configPath
      = Inr cfg" and w: "run R args h = with_store R h cfg ''serve'' params"
    using run_serving[OF assms(2)] by blast
  let ?path = "DatabasePath cfg"
  obtain s info disk where o: "OpenStore (r_open R) (i_now (n_init (r_install R))) ?path (h_fs h ?path, database h ?path) = (Inr s, (info, disk))"
    and sv: "sv = serve (r_serve R) (r_version R) (h_fs (opened_host h ?path (info, disk))) cfg s"
    and fs: "h_fs (ran_host (run R args h)) = h_fs (opened_host h ?path (info, disk))"
    using with_store_serving[OF assms(2)[unfolded w] refl] w by metis
  note server = serve_server[OF assms(3)[unfolded sv]]
  have "private_file (h_fs (opened_host h ?path (info, disk))) ?path" if "?path \<noteq> '':memory:''"
  proof -
    have "(384::nat) AND 63 = 0" by code_simp
    then show ?thesis using OpenStore_result[OF o] that by (auto simp: private_file_def opened_host_def)
  qed
  moreover have "store_ok s" using opened_good[OF database_recognised[OF assms(1)] o] by blast
  ultimately show ?thesis using server Load_Config_valid[OF c] unfolding Let_def fs by simp
qed

section \<open>Witnesses\<close>

text \<open>A host with a configuration, keys and a database of version 1, and the program on it.\<close>

definition sample_run :: run_env where
  "sample_run = \<lparr>r_install = sample_install, r_version = ''dev'', r_decode = (\<lambda>_ _. Inr (ForDataDir ''/data'')), r_frac = (\<lambda>_ _. 0),
     r_environ = (\<lambda>_. None), r_open = sample_open,
     r_serve = \<lparr>sv_ssh = sample_lib, sv_fault = NoFault, sv_ops = (\<lambda>_. [Whole (OpSetUserEnabled ''alice'' False), DeleteStatement 2]),
       sv_ending = (\<lambda>_. Interrupted ''terminated'' None)\<rparr>\<rparr>"

definition sample_host :: host where
  "sample_host = \<lparr>h_fs = (\<lambda>p.
       if p = ''/etc/sshgatew/config.toml'' then Some \<lparr>file_regular = True, file_perm = 416, file_data = ''toml''\<rparr>
       else if p = ''/data/master.key'' then Some \<lparr>file_regular = True, file_perm = 384, file_data = replicate 32 (chr 7)\<rparr>
       else if p = ''/data/ssh_host_ed25519_key'' then Some \<lparr>file_regular = True, file_perm = 384, file_data = ''pem''\<rparr>
       else if p = ''/data/sshgatew.db'' then Some \<lparr>file_regular = True, file_perm = 384, file_data = []\<rparr>
       else None),
     h_log = [], h_disks = (\<lambda>p. if p = ''/data/sshgatew.db'' then Some sample_disk else None)\<rparr>"

lemma sample_host_ok: "host_ok sample_host"
  using sample_disk_recognised by (simp add: host_ok_def sample_host_def)

lemma sample_host_administered: "administered sample_host ''/data/sshgatew.db''"
proof -
  have d: "contents now (database sample_host ''/data/sshgatew.db'') = view now sample_disk" for now
    by (simp add: database_def sample_host_def contents_def)
  have "usable (view now sample_disk) = usable sample_db" for now
    by (rule ext) (simp add: usable_def view_def sample_disk_def)
  then show ?thesis using sample_admin by (simp add: administered_def d usable_admin_def)
qed

lemma sample_opens_run: "opens_only (n_init (r_install sample_run))"
  by (simp add: sample_run_def sample_install_def sample_opens)

theorem administrators_survive_witness:
  "\<exists>h'. program_runs ''/data/sshgatew.db'' sample_host True h' \<and> h_disks h' ''/data/sshgatew.db'' \<noteq> Some sample_disk
     \<and> host_ok h' \<and> administered h' ''/data/sshgatew.db''"
proof -
  let ?h = "ran_host (run sample_run [''serve''] sample_host)"
  have "h_fs ?h ''/data/sshgatew.db'' \<noteq> None" by code_simp
  moreover have "fresh_checks (r_serve sample_run) (ran_serving (run sample_run [''serve''] sample_host))" by code_simp
  ultimately have calm: "(True \<and> h_fs ?h ''/data/sshgatew.db'' \<noteq> None
      \<and> fresh_checks (r_serve sample_run) (ran_serving (run sample_run [''serve''] sample_host))) = True" by blast
  have r: "program_runs ''/data/sshgatew.db'' sample_host True ?h"
    using run_again[OF not_run[of "''/data/sshgatew.db''" sample_host] sample_opens_run refl, of "[''serve'']"] unfolding calm .
  have "(case h_disks ?h ''/data/sshgatew.db'' of None \<Rightarrow> False | Some d \<Rightarrow> map users_username (d_users d) = [''root''])" by code_simp
  moreover have "map users_username (d_users sample_disk) = [''root'', ''alice'']" by code_simp
  ultimately have "h_disks ?h ''/data/sshgatew.db'' \<noteq> Some sample_disk" by (auto split: option.splits)
  with administrators_survive[OF r sample_host_ok] sample_host_administered r show ?thesis by blast
qed

theorem serve_needs_private_files_witness:
  "\<exists>sv srv. ran_serving (run sample_run [''serve''] sample_host) = Some sv \<and> sd_server sv = Some srv
    \<and> store_ok (srv_store srv) \<and> length (Cipher_key (srv_cipher srv)) = KeySize"
proof -
  have "(case ran_serving (run sample_run [''serve''] sample_host) of None \<Rightarrow> False | Some sv \<Rightarrow> sd_server sv \<noteq> None)" by code_simp
  then obtain sv srv where s: "ran_serving (run sample_run [''serve''] sample_host) = Some sv" "sd_server sv = Some srv"
    by (auto split: option.splits)
  from serve_needs_private_files[OF sample_host_ok s] s show ?thesis by (auto simp: Let_def)
qed

end
