(* ===== verification/Spec2Isabelle.thy ===== *)
theory Spec2Isabelle
  imports Gateway_Auth Gateway_Input Oidc_Device Tui_Properties Tui_Colon Serve
begin

text \<open>
  SSHGateW, an SSH credential gateway: a verification library for its Go code.

  The program. Users log in to the gateway with their own SSH key (or by OIDC, with TOTP as a second factor); the gateway holds
  the credentials of the targets and opens the second connection itself, so that users never see them. A SQLite database
  (\<^verbatim>\<open>internal/store\<close>) knows users, keys, groups, targets, grants, forwarding rules, OIDC mappings and the audit log; the
  credentials in it are encrypted under a master key (\<^verbatim>\<open>internal/secrets\<close>). \<^verbatim>\<open>internal/gateway\<close> authenticates connections, limits
  sessions and routes them; \<^verbatim>\<open>internal/downstream\<close> dials targets with pinned host keys; \<^verbatim>\<open>internal/tui\<close> is the menu an interactive
  session sees, with administration for administrators; \<^verbatim>\<open>internal/oidcdevice\<close> and \<^verbatim>\<open>internal/totp\<close> are the login methods;
  \<^verbatim>\<open>internal/config\<close> reads the configuration; \<^verbatim>\<open>cmd/sshgatew\<close> is the command line: init, install, serve and administration.

  Conventions. A Go struct is a record whose fields carry the struct's name where two structs share one; a pointer that may be nil
  and a column that may be NULL is an option; a Go string or byte slice is a list of bytes (as \<open>char\<close>); \<open>int64\<close> is \<open>int\<close>, with the
  bounds stated where they matter, and machine words keep their width in Totp (SHA-1, wrap-around written out) and in Tui_Input
  (\<open>rune\<close> conversion). A function \<open>(T, error)\<close> answers a value of \<open>'a res\<close>, and one that changes a state an \<open>('s, 'a) outcome\<close>; a panic
  is an error value of its own, which no wrapping hides. SQL statements are written out as list functions on the tables, with the
  constraints, defaults and cascades of the schema; a transaction is a step that returns the old state when it fails.

  What is not under src/ is an argument: the SSH library and the network (\<open>ssh_lib\<close>, \<open>ssh_peer\<close>), the AEAD cipher (\<open>aead\<close>), the
  random source, the clock, the TOML decoder, \<open>url.Parse\<close>, HTTP, the QR encoder, the width of runes on a terminal, file system
  faults, and the results of system calls. What a property needs of them is a hypothesis named after it (\<open>opens\<close>, \<open>binds\<close>,
  \<open>checks_host_key\<close>, \<open>opens_only\<close>, \<open>names_ok\<close>), and the property's witness instantiates it with a concrete function.
\<close>

section \<open>The theories\<close>

text \<open>
  Foundations. Prelude: error values, results, the collections of facts, generic lemmas. Unicode_Tables, Go_Strings, Go_Net,
  Go_Flags, Json: what the program uses of Go's strings, strconv, unicode, utf8, net, filepath, time, flag, encoding/json and
  base64 packages, as executable functions. Sample_Store: one database for the witnesses.

  Store (\<^verbatim>\<open>internal/store/models.go\<close>, \<^verbatim>\<open>store.go\<close>). Store_Model: structs, rows, the state \<open>db\<close> and the schema's constraints
  \<open>store_ok\<close>. Store_Users, Store_Targets, Store_OIDC, Store_Audit: one definition per method, named as in the code, with the
  preservation of \<open>store_ok\<close>. Store: all methods as one transition system (\<open>store_op\<close>, \<open>exec\<close>, \<open>reachable\<close>), its invariants, the
  administrators who can still log in (\<open>usable_admin\<close>) and logins by key. Store_Steps: the steps of concurrent sessions
  (\<open>store_step\<close>: an operation to its end, or the writing statement alone of one that guards the last administrator) and what they
  keep when no check has become stale (\<open>checks_hold\<close>). Store_Access: the authorization queries against the
  policy \<open>policy\<close>. Store_Replay: the locale \<open>replay_guard\<close>, which the store's TOTP counter provides. Store_Migrate: database files of
  schema versions 1 to 7 (\<open>disk\<close>), \<open>Open\<close> (as \<open>OpenStore\<close>) and the six migrations; the locale \<open>migration\<close> states what each step
  owes the upgrade, and its extension \<open>transaction\<close> that a failed step changes nothing; \<open>view\<close> is the abstraction to \<open>db\<close> that all
  steps keep.

  Totp (\<^verbatim>\<open>internal/totp\<close>): HOTP with SHA-1 translated, the otpauth URI and the drawing of the QR code. Secrets
  (\<^verbatim>\<open>internal/secrets\<close>): the key file, associated data, payloads; the locale \<open>codec\<close> is the round trip its encodings provide. Config
  (\<^verbatim>\<open>internal/config\<close>): defaults, validation, environment, loading and writing. Oidc_Device (\<^verbatim>\<open>internal/oidcdevice\<close>).
  Downstream (\<^verbatim>\<open>internal/downstream\<close>): dialing with the pinned key, authentication methods, keep-alive, shells, SFTP and SCP.

  Gateway (\<^verbatim>\<open>internal/gateway/server.go\<close>, \<^verbatim>\<open>auth.go\<close>, \<^verbatim>\<open>routing.go\<close>): the server's state, the limiter, the handlers whole, with
  every audit record. Gateway_Sessions: the locale \<open>session_limiter\<close>, which \<open>acquire\<close> and \<open>release\<close> provide, and the authorization of
  sessions and forwardings. Gateway_Auth: what a successful login means. Gateway_Input (\<^verbatim>\<open>input.go\<close>): the one reader of a channel.

  Menu (\<^verbatim>\<open>internal/tui\<close>). Tui_Model: the state \<open>Model\<close>, messages and commands. Tui_Commands, Tui_Forms, Tui_Keys: every workflow,
  form and key of \<^verbatim>\<open>menu.go\<close>; Tui_View: every view as lines, joined to the text drawn; Tui_Colon: the line commands; Tui_Input: the decoder of
  \<^verbatim>\<open>remote.go\<close>; Tui_Remote: \<open>RunRemote\<close>. Tui_Safety, Tui_Handlers, Tui_Run: the invariant \<open>menu_ok\<close>, that every handler keeps it
  and answers, and that drawing has a result; Tui_Lines: how many lines the drawn text has; Tui_Member: what a member's commands may do to the store; Tui_Audit: what an
  administrator's must leave behind; Tui_Properties: the properties of whole runs.

  Command line (\<^verbatim>\<open>cmd/sshgatew\<close>). Cli: the administration commands, on storage whose every method may fail (\<open>c_storage\<close>);
  Cli_Safety: when they are atomic and recorded. Cli_Init: init with its clean-up and with \<open>OpenStore\<close> for the new database. Install, Install_Safety: the installer on a \<open>machine\<close> of files and logged system calls; the locale
  \<open>step_relation\<close> carries relations that every step keeps through the whole sequence (files touched, calls of systemctl, the store
  made). Serve: \<open>main\<close>, \<open>run\<close> and \<open>serve\<close> on a \<open>host\<close> of files and databases, where all of it comes together.
\<close>

section \<open>What the theorems show\<close>

text \<open>
  The store: constraints after any sequence of operations; no sequence removes the last administrator who can log in; the
  authorization queries are a policy written down on its own; a TOTP counter is accepted once; what an OIDC login proves; logins by key, and their end
  when a key or user is removed. That the check for another administrator and the update are two statements is shown to matter by
  \<open>Store.disable_race\<close> and \<open>Store_Steps.stale_check_race\<close>.

  The upgrade: it keeps the contents and every user's access from any version, gives no one forwarding, and completes after any
  number of interrupted attempts. The program as a whole: whatever it is run with, its databases stay well formed, however
  sessions' statements interleave; they keep an administrator as long as the file stays and no check of the last administrator
  became stale; and it listens only with valid configuration and private files.

  Secrets and targets: a ciphertext opens only in the row it was made for; credentials survive the round trip; a downstream
  connection has the pinned host key; an SCP command is read by the target's shell, modelled without the code's list of special
  characters, as the words that were checked, but for a path with \<open>#\<close> or \<open>~\<close> in front.

  The gateway: session limits; authorization against the grants at the moment of connecting, with the user as read when the session
  began (\<open>Gateway_Sessions.disabled_user_connects\<close> shows what that allows); audit records, with the sessions that leave none; what
  each kind of login proves; no input is lost between readers; a device login asks for a code only at checked addresses.

  The menu: it never panics or hangs, whatever is typed, pasted, resized or answered; its state stays well formed; frames fit the
  terminal while no text on them holds a line break; members change nothing but their own mapping; administrators' changes are recorded; decoding does not depend on how the
  input is cut into reads, with the exception stated. The command line: failing commands change nothing unless the storage fails
  after the change (\<open>Cli_Safety.failed_record_keeps_change\<close>), succeeding ones are recorded, unaccepted host keys are not pinned, init cleans up, the installer touches only its files and enables the service last.
\<close>

section \<open>Loops, fuel and bounds\<close>

text \<open>
  No definition uses fuel. Loops over data are structural recursion; \<open>parse_flags\<close>, \<open>parseInput\<close> and \<open>wrap_runes\<close> are functions with
  a measure (the arguments, bytes and runes left). \<open>applyCommand\<close>, the chain of commands and messages of the menu, could run for ever
  and is a partial function into an option: \<open>None\<close> is not returning, and \<open>Tui_Properties.applyCommand_ends\<close> proves it never is.
  The loops that wait for the outside (the event loop, the copying pumps, the keep-alive, the accept loop) are given the sequence of
  what arrives, of any length. Reads of at most 4096 bytes are any sequence of reads in the model; codes of six digits in steps of thirty seconds, 32 byte keys and 24 byte
  nonces are the code's constants.
\<close>

section \<open>Not modelled\<close>

text \<open>
  The SSH, TOML, HTTP, OIDC token, QR and SQLite packages are not under src/ and are arguments; of the SQLite driver, the
  connection string, pragmas and pool have no counterpart, and statements outside a transaction are atomic each. Goroutines appear
  where their interleaving matters: the shared reader, the pumps of a shell, the keep-alive, the limiter's history, and other sessions'
  steps on the store between a session's start, its connections and its end records. The store's methods are atomic steps but for
  the check of administrators; the authorization check and the dialling after it are one moment; commands of the program run one
  after another, not beside a serving gateway. That the database file fails a method is modelled for the administration commands;
  elsewhere a method fails for its own reasons only. Contexts and time-outs are errors the outside may return at any
  call. Directories and ownership are logged system calls, not part of the files. The usage texts of the flag package, the text of log
  lines and terminal colours beyond the escape sequences the views write are left out. \<open>secrets.zero\<close> clears a buffer and has no
  effect on values. A host's databases are kept apart from its other files: no other file is taken to be at a database's path.
  Tests, documentation, build and deployment files are not part of the program.
\<close>

end
